(* ===== verification/Vekro_Prelude.thy ===== *)
theory Vekro_Prelude
  imports Main "HOL-Library.Word"
begin

text \<open>
  What every component of the model shares: the result type of fallible code and its sequencing,
  tables as lists of rows with their laws, the Python text operations the services use, times,
  identifiers and JSON values.

  Python text is a HOL string, so a character is a code point below 256; \<open>py_isspace\<close> and
  \<open>py_lower\<close> follow Python on that whole range. A time is the number of microseconds since
  1970-01-01T00:00:00Z, as an integer. A UUID is the natural number it prints as in hexadecimal.
\<close>

named_theorems frame \<open>fields an operation leaves alone\<close>
named_theorems inversions \<open>what a successful result says about its computation\<close>

section \<open>Fallible code\<close>

text \<open>
  A function that may raise returns \<open>Inl\<close> of the exception or \<open>Inr\<close> of its value;
  \<open>bindE\<close> is the sequence of two statements, the second skipped when the first raises.
\<close>

definition bindE :: "'e + 'a \<Rightarrow> ('a \<Rightarrow> 'e + 'b) \<Rightarrow> 'e + 'b" where
  "bindE m f = (case m of Inl e \<Rightarrow> Inl e | Inr x \<Rightarrow> f x)"

lemma bindE_Inr [simp]: "bindE (Inr x) f = f x"
  by (simp add: bindE_def)

lemma bindE_Inl [simp]: "bindE (Inl e) f = Inl e"
  by (simp add: bindE_def)

lemma bindE_eq_Inr [inversions]: "bindE m f = Inr y \<longleftrightarrow> (\<exists>x. m = Inr x \<and> f x = Inr y)"
  by (cases m) auto

lemma bindE_eq_Inl: "bindE m f = Inl e \<longleftrightarrow> m = Inl e \<or> (\<exists>x. m = Inr x \<and> f x = Inl e)"
  by (cases m) auto

lemma bindE_split: "P (bindE m f) \<longleftrightarrow> (\<forall>e. m = Inl e \<longrightarrow> P (Inl e)) \<and> (\<forall>x. m = Inr x \<longrightarrow> P (f x))"
  by (cases m) auto

lemma bindE_assoc: "bindE (bindE m f) g = bindE m (\<lambda>x. bindE (f x) g)"
  by (cases m) auto

text \<open>
  A request runs in one database session. Nothing it changed is kept when it raises before its
  commit: the session is closed and rolled back (\<open>get_db\<close> of app/db/session.py).
\<close>

definition atomic :: "'s \<Rightarrow> 'e + ('a \<times> 's) \<Rightarrow> 's \<times> ('e + 'a)" where
  "atomic s r = (case r of Inl e \<Rightarrow> (s, Inl e) | Inr (x, s') \<Rightarrow> (s', Inr x))"

lemma atomic_Inl [simp]: "atomic s (Inl e) = (s, Inl e)"
  by (simp add: atomic_def)

lemma atomic_Inr [simp]: "atomic s (Inr (x, s')) = (s', Inr x)"
  by (simp add: atomic_def)

lemma atomic_eq_Inr [inversions]: "atomic s r = (s', Inr x) \<longleftrightarrow> r = Inr (x, s')"
  by (auto simp: atomic_def split: sum.splits)

lemma atomic_eq_Inl: "atomic s r = (s', Inl e) \<longleftrightarrow> r = Inl e \<and> s' = s"
  by (auto simp: atomic_def split: sum.splits)

lemma atomic_rollback: "snd (atomic s r) = Inl e \<Longrightarrow> fst (atomic s r) = s"
  by (auto simp: atomic_def split: sum.splits)

text \<open>A loop that may raise: the state goes from element to element, the first exception stops it.\<close>

fun foldE :: "('a \<Rightarrow> 's \<Rightarrow> 'e + 's) \<Rightarrow> 'a list \<Rightarrow> 's \<Rightarrow> 'e + 's" where
  "foldE f [] s = Inr s"
| "foldE f (x # xs) s = bindE (f x s) (foldE f xs)"

lemma foldE_append: "foldE f (xs @ ys) s = bindE (foldE f xs s) (foldE f ys)"
proof (induction xs arbitrary: s)
  case (Cons x xs)
  then have "(\<lambda>s. foldE f (xs @ ys) s) = (\<lambda>s. bindE (foldE f xs s) (foldE f ys))" by blast
  then show ?case by (simp add: bindE_assoc)
qed simp

lemma foldE_invariant:
  assumes "foldE f xs s = Inr s'" and "P s"
    and "\<And>x s s'. x \<in> set xs \<Longrightarrow> P s \<Longrightarrow> f x s = Inr s' \<Longrightarrow> P s'"
  shows "P s'"
  using assms
proof (induction xs arbitrary: s)
  case Nil
  then show ?case by simp
next
  case (Cons x xs)
  from Cons.prems(1) obtain s1 where "f x s = Inr s1" and "foldE f xs s1 = Inr s'"
    by (auto simp: bindE_eq_Inr)
  with Cons.prems Cons.IH [of s1] show ?case by auto
qed

section \<open>Tables\<close>

text \<open>
  A table is the list of its rows in insertion order; \<open>key\<close> reads a row's primary key.
  \<open>row_get\<close> is \<open>db.get\<close>, \<open>row_put\<close> the UPDATE of the row with the same key.
\<close>

definition row_get :: "('r \<Rightarrow> 'k) \<Rightarrow> 'k \<Rightarrow> 'r list \<Rightarrow> 'r option" where
  "row_get key k rows = List.find (\<lambda>r. key r = k) rows"

definition row_put :: "('r \<Rightarrow> 'k) \<Rightarrow> 'r \<Rightarrow> 'r list \<Rightarrow> 'r list" where
  "row_put key r rows = map (\<lambda>x. if key x = key r then r else x) rows"

lemma row_get_Nil [simp]: "row_get key k [] = None"
  by (simp add: row_get_def)

lemma row_get_Cons [simp]:
  "row_get key k (r # rows) = (if key r = k then Some r else row_get key k rows)"
  by (simp add: row_get_def)

lemma row_get_append:
  "row_get key k (xs @ ys) = (case row_get key k xs of None \<Rightarrow> row_get key k ys | Some r \<Rightarrow> Some r)"
  by (induction xs) auto

lemma row_get_SomeD: "row_get key k rows = Some r \<Longrightarrow> r \<in> set rows \<and> key r = k"
  by (induction rows) (auto split: if_splits)

lemma row_get_None: "row_get key k rows = None \<longleftrightarrow> k \<notin> key ` set rows"
  by (induction rows) auto

lemma row_get_put:
  "row_get key k (row_put key r rows) =
     (if k = key r \<and> row_get key k rows \<noteq> None then Some r else row_get key k rows)"
  by (induction rows) (auto simp: row_put_def)

lemma row_put_keys [simp]: "map key (row_put key r rows) = map key rows"
  by (induction rows) (auto simp: row_put_def)

lemma row_put_length [simp]: "length (row_put key r rows) = length rows"
  by (simp add: row_put_def)

lemma row_put_absent: "key r \<notin> key ` set rows \<Longrightarrow> row_put key r rows = rows"
  by (induction rows) (auto simp: row_put_def)

lemma row_put_Cons: "row_put key r (x # rows) = (if key x = key r then r else x) # row_put key r rows"
  by (simp add: row_put_def)

lemma set_row_put:
  "distinct (map key rows) \<Longrightarrow> row_get key (key r) rows = Some r0 \<Longrightarrow>
     set (row_put key r rows) = insert r (set rows - {r0})"
proof (induction rows)
  case (Cons x rows)
  show ?case
  proof (cases "key x = key r")
    case True
    with Cons.prems have "key r \<notin> key ` set rows" and "r0 = x" by auto
    moreover have "x \<notin> set rows" using Cons.prems(1) by auto
    ultimately show ?thesis using True by (auto simp: row_put_Cons row_put_absent)
  next
    case False
    then have "x \<noteq> r0" using Cons.prems by (auto dest: row_get_SomeD)
    with False Cons show ?thesis by (auto simp: row_put_Cons)
  qed
qed simp

lemma row_put_in_set: "x \<in> set (row_put key r rows) \<Longrightarrow> x = r \<or> (x \<in> set rows \<and> key x \<noteq> key r)"
  by (auto simp: row_put_def split: if_splits)

lemma row_put_same: "row_get key (key r) rows = Some r \<Longrightarrow> distinct (map key rows) \<Longrightarrow> row_put key r rows = rows"
  by (induction rows) (auto simp: row_put_Cons row_put_absent split: if_splits)

lemma row_get_unique:
  "distinct (map key rows) \<Longrightarrow> r \<in> set rows \<Longrightarrow> row_get key (key r) rows = Some r"
  by (induction rows) (auto simp: image_iff)

text \<open>
  The interface the components use a table through. A store promises what a lookup returns after
  an update or an insert; \<open>frame\<close> facts about other keys follow once for every store.
\<close>

locale store =
  fixes get :: "'k \<Rightarrow> 's \<Rightarrow> 'r option"
    and put :: "'r \<Rightarrow> 's \<Rightarrow> 's"
    and key :: "'r \<Rightarrow> 'k"
  assumes get_key: "get k s = Some r \<Longrightarrow> key r = k"
    and get_put: "get k (put r s) = (if k = key r \<and> get k s \<noteq> None then Some r else get k s)"
begin

lemma get_put_same: "get (key r) s = Some r0 \<Longrightarrow> get (key r) (put r s) = Some r"
  by (simp add: get_put)

lemma get_put_other: "k \<noteq> key r \<Longrightarrow> get k (put r s) = get k s"
  by (simp add: get_put)

lemma get_put_None: "get k (put r s) = None \<longleftrightarrow> get k s = None"
  by (auto simp: get_put)

lemma put_put: "key r = key r' \<Longrightarrow> get k (put r (put r' s)) = get k (put r s)"
  by (auto simp: get_put)

end

interpretation rows: store "row_get key" "row_put key" key
  by unfold_locales (auto simp: row_get_put dest: row_get_SomeD)

text \<open>
  \<open>ORDER BY created DESC LIMIT 1\<close>: a row with the greatest timestamp. SQL leaves ties open; the
  model takes the row inserted last.
\<close>

definition newest :: "('r \<Rightarrow> int) \<Rightarrow> 'r list \<Rightarrow> 'r option" where
  "newest at rows = fold (\<lambda>r best. case best of None \<Rightarrow> Some r
     | Some b \<Rightarrow> if at b \<le> at r then Some r else best) rows None"

lemma newest_fold_mem:
  "fold (\<lambda>r best. case best of None \<Rightarrow> Some r
     | Some b \<Rightarrow> if at b \<le> at r then Some r else best) rows acc = Some x \<Longrightarrow>
   x \<in> set rows \<or> acc = Some x"
proof (induction rows arbitrary: acc)
  case (Cons r rows)
  then show ?case using Cons.IH [OF Cons.prems [unfolded fold_simps comp_apply]]
    by (auto split: option.splits if_splits)
qed simp

lemma newest_mem: "newest at rows = Some x \<Longrightarrow> x \<in> set rows"
  unfolding newest_def by (drule newest_fold_mem) simp

lemma newest_fold_max:
  fixes at :: "'r \<Rightarrow> int"
  shows "fold (\<lambda>r best. case best of None \<Rightarrow> Some r
     | Some b \<Rightarrow> if at b \<le> at r then Some r else best) rows acc = Some x \<Longrightarrow>
   (\<forall>r \<in> set rows. at r \<le> at x) \<and> (\<forall>b. acc = Some b \<longrightarrow> at b \<le> at x)"
proof (induction rows arbitrary: acc)
  case (Cons r rows)
  let ?acc = "case acc of None \<Rightarrow> Some r | Some b \<Rightarrow> if at b \<le> at r then Some r else acc"
  have "(\<forall>r \<in> set rows. at r \<le> at x) \<and> (\<forall>b. ?acc = Some b \<longrightarrow> at b \<le> at x)"
    using Cons.prems by (intro Cons.IH) simp
  then show ?case by (cases acc) (auto split: if_splits)
qed simp

lemma newest_max: "newest at rows = Some x \<Longrightarrow> r \<in> set rows \<Longrightarrow> at r \<le> at x"
  unfolding newest_def by (drule newest_fold_max) auto

lemma newest_fold_None:
  "fold (\<lambda>r best. case best of None \<Rightarrow> Some r
     | Some b \<Rightarrow> if at b \<le> at r then Some r else best) rows acc = None \<longleftrightarrow> rows = [] \<and> acc = None"
  by (induction rows arbitrary: acc) (auto split: option.splits)

lemma newest_None [simp]: "newest at rows = None \<longleftrightarrow> rows = []"
  by (simp add: newest_def newest_fold_None)

section \<open>Text\<close>

definition py_isspace :: "char \<Rightarrow> bool" where
  "py_isspace c = (let n = (of_char c :: nat) in (9 \<le> n \<and> n \<le> 13) \<or> (28 \<le> n \<and> n \<le> 32) \<or> n = 133 \<or> n = 160)"

definition lstrip :: "string \<Rightarrow> string" where
  "lstrip s = dropWhile py_isspace s"

definition strip :: "string \<Rightarrow> string" where
  "strip s = rev (dropWhile py_isspace (rev (lstrip s)))"

text \<open>
  \<open>str.lower\<close> below code point 256: the capitals A to Z, and 192 to 222 except the
  multiplication sign 215, move up by 32.
\<close>

definition py_lower_char :: "char \<Rightarrow> char" where
  "py_lower_char c = (let n = (of_char c :: nat) in
     if (65 \<le> n \<and> n \<le> 90) \<or> (192 \<le> n \<and> n \<le> 222 \<and> n \<noteq> 215) then char_of (n + 32) else c)"

definition py_lower :: "string \<Rightarrow> string" where
  "py_lower s = map py_lower_char s"

text \<open>
  \<open>str.upper\<close> below code point 256: sharp s becomes two letters; the micro sign and y with
  diaeresis, whose capitals lie above 255, are kept as they are.
\<close>

definition py_upper :: "string \<Rightarrow> string" where
  "py_upper s = concat (map (\<lambda>c. let n = (of_char c :: nat) in if n = 223 then ''SS''
     else if (97 \<le> n \<and> n \<le> 122) \<or> (224 \<le> n \<and> n \<le> 254 \<and> n \<noteq> 247) then [char_of (n - 32)] else [c]) s)"

fun split_on :: "char \<Rightarrow> string \<Rightarrow> string list" where
  "split_on c [] = [[]]"
| "split_on c (x # xs) = (if x = c then [] # split_on c xs
     else (case split_on c xs of [] \<Rightarrow> [[x]] | p # ps \<Rightarrow> (x # p) # ps))"

fun join_text :: "string \<Rightarrow> string list \<Rightarrow> string" where
  "join_text sep [] = ''''"
| "join_text sep [x] = x"
| "join_text sep (x # y # xs) = x @ sep @ join_text sep (y # xs)"

text \<open>\<open>a or b or ...\<close> on optional texts: the first that is neither None nor empty, else the last.\<close>

fun or_text :: "string option list \<Rightarrow> string \<Rightarrow> string" where
  "or_text [] d = d"
| "or_text (x # xs) d = (case x of None \<Rightarrow> or_text xs d | Some v \<Rightarrow> if v = '''' then or_text xs d else v)"

definition none_if_empty :: "string \<Rightarrow> string option" where
  "none_if_empty s = (if s = '''' then None else Some s)"

definition replace_char :: "char \<Rightarrow> char \<Rightarrow> string \<Rightarrow> string" where
  "replace_char a b s = map (\<lambda>c. if c = a then b else c) s"

text \<open>\<open>value.strip().lower().replace("-", "_").replace(" ", "_")\<close>\<close>

definition normalize_key :: "string \<Rightarrow> string" where
  "normalize_key s = replace_char (CHR '' '') (CHR ''_'') (replace_char (CHR ''-'') (CHR ''_'') (py_lower (strip s)))"

lemma strip_Nil [simp]: "strip '''' = ''''"
  by (simp add: strip_def lstrip_def)

lemma dropWhile_id: "(xs = [] \<or> \<not> P (hd xs)) \<Longrightarrow> dropWhile P xs = xs"
  by (cases xs) auto

lemma hd_dropWhile_not: "dropWhile P xs \<noteq> [] \<Longrightarrow> \<not> P (hd (dropWhile P xs))"
  by (rule hd_dropWhile)

lemma rev_dropWhile_last: "rev (dropWhile P (rev xs)) \<noteq> [] \<Longrightarrow> \<not> P (last (rev (dropWhile P (rev xs))))"
  by (metis hd_dropWhile last_rev rev_is_Nil_conv)

lemma strip_ends:
  "strip s = '''' \<or> (\<not> py_isspace (hd (strip s)) \<and> \<not> py_isspace (last (strip s)))"
proof (cases "strip s = ''''")
  case False
  let ?l = "lstrip s"
  have ne: "?l \<noteq> ''''" using False by (auto simp: strip_def)
  then have h: "\<not> py_isspace (hd ?l)" by (auto simp: lstrip_def hd_dropWhile)
  have last: "\<not> py_isspace (last (strip s))"
    using False rev_dropWhile_last [of py_isspace ?l] by (auto simp: strip_def)
  obtain zs where zs: "?l = strip s @ zs"
    unfolding strip_def by (metis rev_append rev_rev_ident takeWhile_dropWhile_id)
  with False have "hd (strip s) = hd ?l" by (metis hd_append2)
  with h last show ?thesis by simp
qed simp

lemma strip_id: "(s = '''' \<or> (\<not> py_isspace (hd s) \<and> \<not> py_isspace (last s))) \<Longrightarrow> strip s = s"
  by (auto simp: strip_def lstrip_def dropWhile_id hd_rev)

text \<open>Stripping twice is stripping once: a stored normalised text is found again by itself.\<close>

lemma strip_idem [simp]: "strip (strip s) = strip s"
  by (rule strip_id) (use strip_ends [of s] in auto)

fun nat_str :: "nat \<Rightarrow> string" where
  "nat_str n = (if n < 10 then [char_of (48 + n)] else nat_str (n div 10) @ [char_of (48 + n mod 10)])"

declare nat_str.simps [simp del]

definition int_str :: "int \<Rightarrow> string" where
  "int_str i = (if i < 0 then CHR ''-'' # nat_str (nat (- i)) else nat_str (nat i))"

text \<open>\<open>format(n, "0kd")\<close>: at least \<open>k\<close> digits.\<close>

definition pad_nat :: "nat \<Rightarrow> nat \<Rightarrow> string" where
  "pad_nat k n = (let d = nat_str n in replicate (k - length d) (CHR ''0'') @ d)"

text \<open>An amount in cents as \<open>f"{amount:.2f}"\<close> and \<open>str(amount)\<close> print it (two decimal places).\<close>

definition cents_str :: "int \<Rightarrow> string" where
  "cents_str c = (if c < 0 then ''-'' else '''') @ nat_str (nat (\<bar>c\<bar> div 100)) @ ''.'' @ pad_nat 2 (nat (\<bar>c\<bar> mod 100))"

definition hex_digit :: "nat \<Rightarrow> char" where
  "hex_digit n = (if n < 10 then char_of (48 + n) else char_of (87 + n))"

fun hex_digits :: "nat \<Rightarrow> nat \<Rightarrow> string" where
  "hex_digits 0 n = ''''"
| "hex_digits (Suc k) n = hex_digits k (n div 16) @ [hex_digit (n mod 16)]"

lemma hex_digits_length [simp]: "length (hex_digits k n) = k"
  by (induction k n rule: hex_digits.induct) auto

section \<open>Identifiers and times\<close>

type_synonym uuid = nat
type_synonym time = int
type_synonym byte = "8 word"
type_synonym bytes = "byte list"

text \<open>\<open>str(uuid)\<close>: 32 hexadecimal digits in groups of 8, 4, 4, 4 and 12.\<close>

definition uuid_str :: "uuid \<Rightarrow> string" where
  "uuid_str u = (let h = hex_digits 32 u in take 8 h @ ''-'' @ take 4 (drop 8 h) @ ''-'' @
     take 4 (drop 12 h) @ ''-'' @ take 4 (drop 16 h) @ ''-'' @ drop 20 h)"

definition seconds :: "int \<Rightarrow> time" where "seconds n = n * 1000000"
definition hours :: "int \<Rightarrow> time" where "hours n = n * 3600000000"
definition days :: "int \<Rightarrow> time" where "days n = n * 86400000000"

lemmas time_units = seconds_def hours_def days_def

text \<open>The Gregorian date of a day number counted from 1970-01-01, as \<open>datetime\<close> computes it.\<close>

definition civil_date :: "int \<Rightarrow> int \<times> int \<times> int" where
  "civil_date d = (let z = d + 719468; era = z div 146097; doe = z mod 146097;
     yoe = (doe - doe div 1460 + doe div 36524 - doe div 146096) div 365;
     doy = doe - (365 * yoe + yoe div 4 - yoe div 100);
     mp = (5 * doy + 2) div 153; dd = doy - (153 * mp + 2) div 5 + 1;
     mm = (if mp < 10 then mp + 3 else mp - 9)
     in (yoe + era * 400 + (if mm \<le> 2 then 1 else 0), mm, dd))"

definition date_time_str :: "time \<Rightarrow> string" where
  "date_time_str t = (let secs = t div 1000000; (y, m, d) = civil_date (secs div 86400); r = secs mod 86400 in
     pad_nat 4 (nat y) @ ''-'' @ pad_nat 2 (nat m) @ ''-'' @ pad_nat 2 (nat d) @ ''T'' @
     pad_nat 2 (nat (r div 3600)) @ '':'' @ pad_nat 2 (nat (r mod 3600 div 60)) @ '':'' @ pad_nat 2 (nat (r mod 60)))"

text \<open>\<open>datetime.isoformat()\<close> of a UTC time: the microseconds only when they are not zero.\<close>

definition isoformat :: "time \<Rightarrow> string" where
  "isoformat t = date_time_str t @ (if t mod 1000000 = 0 then '''' else ''.'' @ pad_nat 6 (nat (t mod 1000000))) @ ''+00:00''"

section \<open>JSON values\<close>

datatype 's json =
    JNull | JBool bool | JInt int | JStr 's | JArr "'s json list" | JObj "('s \<times> 's json) list"

text \<open>A Python dict keeps one value per key: the entry of the list that was written last wins.\<close>

definition dict_get :: "'s \<Rightarrow> ('s \<times> 's json) list \<Rightarrow> 's json option" where
  "dict_get k d = map_of d k"

fun dict_set :: "'s \<Rightarrow> 's json \<Rightarrow> ('s \<times> 's json) list \<Rightarrow> ('s \<times> 's json) list" where
  "dict_set k v [] = [(k, v)]"
| "dict_set k v ((k', v') # d) = (if k' = k then (k, v) # d else (k', v') # dict_set k v d)"

lemma dict_get_set: "dict_get k (dict_set k' v d) = (if k = k' then Some v else dict_get k d)"
  by (induction d) (auto simp: dict_get_def)

lemma dict_set_keys: "fst ` set (dict_set k v d) = insert k (fst ` set d)"
  by (induction k v d rule: dict_set.induct) (simp_all add: insert_commute)

definition jopt :: "string option \<Rightarrow> string json" where
  "jopt x = (case x of None \<Rightarrow> JNull | Some v \<Rightarrow> JStr v)"

definition jtime :: "time option \<Rightarrow> string json" where
  "jtime t = jopt (map_option isoformat t)"

text \<open>\<open>bool(value)\<close> of a JSON value.\<close>

fun truthy :: "'s list json \<Rightarrow> bool" where
  "truthy JNull = False"
| "truthy (JBool b) = b"
| "truthy (JInt i) = (i \<noteq> 0)"
| "truthy (JStr s) = (s \<noteq> [])"
| "truthy (JArr xs) = (xs \<noteq> [])"
| "truthy (JObj d) = (d \<noteq> [])"

end
