(* ===== verification/Money.thy ===== *)
theory Money
  imports Vekro_Prelude
begin

text \<open>
  Python's \<open>decimal.Decimal\<close> as far as the services use it: exact values \<open>c * 10^e\<close>, infinities
  and NaN, \<open>quantize\<close> with the default context (28 digits, half to even) and multiplication. Money
  columns are \<open>Numeric(12, 2)\<close>: a stored amount is its number of cents, an \<open>int\<close>; a stored
  split ratio (\<open>Numeric(5, 4)\<close>) is its number of ten-thousandths.
\<close>

datatype decimal = Fin int int | Infinity bool | NaN

type_synonym cents = int
type_synonym ratio4 = int

text \<open>The integer nearest to \<open>n / d\<close> for a positive \<open>d\<close>, a tie going to the even one.\<close>

definition half_even :: "int \<Rightarrow> int \<Rightarrow> int" where
  "half_even n d = (let a = \<bar>n\<bar>; q = a div d; r = a mod d;
     m = (if 2 * r > d \<or> (2 * r = d \<and> odd q) then q + 1 else q) in if n < 0 then - m else m)"

lemma half_even_error:
  assumes "0 < d"
  shows "2 * \<bar>half_even n d * d - n\<bar> \<le> d"
proof -
  let ?a = "\<bar>n\<bar>" let ?q = "?a div d" let ?r = "?a mod d"
  have a: "?a = ?q * d + ?r" and r: "0 \<le> ?r" "?r < d" using assms by auto
  define m where "m = (if 2 * ?r > d \<or> (2 * ?r = d \<and> odd ?q) then ?q + 1 else ?q)"
  have "2 * \<bar>m * d - ?a\<bar> \<le> d"
  proof (cases "2 * ?r > d \<or> (2 * ?r = d \<and> odd ?q)")
    case True
    then have "m * d - ?a = d - ?r" using a by (simp add: m_def algebra_simps)
    with True r show ?thesis by (auto simp: abs_if)
  next
    case False
    then have "m = ?q" by (simp add: m_def)
    then have "m * d - ?a = - ?r" by (simp add: minus_mod_eq_div_mult [symmetric])
    with False r show ?thesis by (auto simp: abs_if)
  qed
  moreover have "half_even n d = (if n < 0 then - m else m)"
    by (simp add: half_even_def m_def Let_def)
  ultimately show ?thesis by (auto simp: abs_if split: if_splits)
qed

lemma half_even_nonneg: "0 < d \<Longrightarrow> 0 \<le> n \<Longrightarrow> 0 \<le> half_even n d"
  by (auto simp: half_even_def Let_def pos_imp_zdiv_nonneg_iff)

lemma half_even_exact: "0 < d \<Longrightarrow> half_even (n * d) d = n"
  by (auto simp: half_even_def Let_def abs_mult zero_less_mult_iff mult_less_0_iff)
    (simp flip: mult_minus_left)

lemma half_even_le:
  assumes "0 < d" and "n \<le> k * d"
  shows "half_even n d \<le> k"
proof (rule ccontr)
  assume "\<not> half_even n d \<le> k"
  then have "(k + 1) * d \<le> half_even n d * d" using assms(1) by (intro mult_right_mono) auto
  then have "d \<le> half_even n d * d - n" using assms(2) by (simp add: algebra_simps)
  moreover have "2 * (half_even n d * d - n) \<le> d"
    using half_even_error [OF assms(1), of n] abs_ge_self [of "half_even n d * d - n"] by simp
  ultimately show False using assms(1) by simp
qed

text \<open>Ten to an integer power that is known not to be negative.\<close>

abbreviation pow10 :: "int \<Rightarrow> int" where "pow10 e \<equiv> 10 ^ nat e"

text \<open>
  \<open>value.quantize(Decimal(10) ** -k)\<close>: None is the \<open>InvalidOperation\<close> it raises for an infinity
  and for a result of more than 28 digits. A NaN passes through.
\<close>

fun quantize :: "int \<Rightarrow> decimal \<Rightarrow> decimal option" where
  "quantize k (Fin c e) = (let q = (if - k \<le> e then c * pow10 (e + k) else half_even c (pow10 (- k - e)))
     in if \<bar>q\<bar> < 10 ^ 28 then Some (Fin q (- k)) else None)"
| "quantize k (Infinity s) = None"
| "quantize k NaN = Some NaN"

definition dec_of_cents :: "cents \<Rightarrow> decimal" where "dec_of_cents c = Fin c (- 2)"
definition dec_of_ratio :: "ratio4 \<Rightarrow> decimal" where "dec_of_ratio r = Fin r (- 4)"

lemma quantize_cents: "quantize 2 (dec_of_cents c) = (if \<bar>c\<bar> < 10 ^ 28 then Some (Fin c (- 2)) else None)"
  by (simp add: dec_of_cents_def)

lemma quantize_ratio: "quantize 4 (dec_of_ratio c) = (if \<bar>c\<bar> < 10 ^ 28 then Some (Fin c (- 4)) else None)"
  by (simp add: dec_of_ratio_def)

lemma quantize_Some: "quantize k d = Some (Fin q e) \<Longrightarrow> e = - k \<and> \<bar>q\<bar> < 10 ^ 28"
  by (cases d) (auto simp: Let_def split: if_splits)

lemma quantize_Infinity: "quantize k d \<noteq> Some (Infinity s)"
  by (cases d) (auto simp: Let_def split: if_splits)

text \<open>Quantizing a second time changes nothing.\<close>

lemma quantize_idem: "quantize k d = Some x \<Longrightarrow> quantize k x = Some x"
  by (cases d) (auto simp: Let_def split: if_splits)

text \<open>The context rounds a product of more than 28 digits.\<close>

definition context_round :: "int \<Rightarrow> int \<Rightarrow> decimal" where
  "context_round c e = (if \<bar>c\<bar> < 10 ^ 28 then Fin c e
     else let k = int (length (nat_str (nat \<bar>c\<bar>))) - 28; q = half_even c (pow10 k)
       in if \<bar>q\<bar> = 10 ^ 28 then Fin (q div 10) (e + k + 1) else Fin q (e + k))"

definition dec_mul :: "decimal \<Rightarrow> decimal \<Rightarrow> decimal" where
  "dec_mul x y = (case (x, y) of
       (Fin a e, Fin b f) \<Rightarrow> context_round (a * b) (e + f)
     | (NaN, _) \<Rightarrow> NaN | (_, NaN) \<Rightarrow> NaN
     | (Infinity s, Infinity t) \<Rightarrow> Infinity (s \<noteq> t)
     | (Infinity s, Fin b f) \<Rightarrow> if b = 0 then NaN else Infinity (s \<noteq> (b < 0))
     | (Fin b f, Infinity s) \<Rightarrow> if b = 0 then NaN else Infinity (s \<noteq> (b < 0)))"

lemma dec_mul_exact:
  "\<bar>a * b\<bar> < 10 ^ 28 \<Longrightarrow> dec_mul (Fin a e) (Fin b f) = Fin (a * b) (e + f)"
  by (simp add: dec_mul_def context_round_def)

text \<open>Comparisons; None is the \<open>InvalidOperation\<close> that ordering a NaN raises.\<close>

fun dec_less :: "decimal \<Rightarrow> decimal \<Rightarrow> bool option" where
  "dec_less NaN y = None"
| "dec_less x NaN = None"
| "dec_less (Fin a e) (Fin b f) = Some (a * pow10 (e - min e f) < b * pow10 (f - min e f))"
| "dec_less (Fin a e) (Infinity s) = Some (\<not> s)"
| "dec_less (Infinity s) (Fin b f) = Some s"
| "dec_less (Infinity s) (Infinity t) = Some (s \<and> \<not> t)"

lemma dec_less_same_exponent: "dec_less (Fin a e) (Fin b e) = Some (a < b)"
  by simp

text \<open>\<open>str(value)\<close>: plain digits when the exponent allows, scientific notation otherwise.\<close>

definition fin_str :: "int \<Rightarrow> int \<Rightarrow> string" where
  "fin_str c e = (let ds = nat_str (nat \<bar>c\<bar>); n = int (length ds); left = e + n;
     dot = (if e \<le> 0 \<and> - 6 < left then left else 1);
     body = (if dot \<le> 0 then ''0.'' @ replicate (nat (- dot)) (CHR ''0'') @ ds
       else if n \<le> dot then ds @ replicate (nat (dot - n)) (CHR ''0'')
       else take (nat dot) ds @ ''.'' @ drop (nat dot) ds)
     in (if c < 0 then ''-'' else '''') @ body @
       (if left = dot then '''' else ''E'' @ (if left < dot then ''-'' else ''+'') @ nat_str (nat \<bar>left - dot\<bar>)))"

fun dec_str :: "decimal \<Rightarrow> string" where
  "dec_str (Fin c e) = fin_str c e"
| "dec_str (Infinity s) = (if s then ''-Infinity'' else ''Infinity'')"
| "dec_str NaN = ''NaN''"

end
