(* ===== verification/Models.thy ===== *)
theory Models
  imports Money
begin

text \<open>
  The persistence entities of app/models: one \<open>datatype\<close> per enum, one \<open>record\<close> per table row and
  the record \<open>db\<close> of all tables. Columns that no modelled code reads (names, shop profile, photo
  bytes, most \<open>updated_at\<close> stamps) are left out; \<open>transactions.updated_at\<close> is kept because the
  timeout jobs select by it.
\<close>

section \<open>Enums\<close>

datatype tx_status =
    INITIATED | AWAITING_PAYMENT | LOCKED | OUT_FOR_DELIVERY | DISPATCHED
  | AT_DOOR_PENDING_INSPECTION | HOLD_24H | DISPUTED_FUNCTIONAL | RETURN_IN_TRANSIT
  | RETURN_RECEIVED | AWAITING_BUYER_RECONFIRMATION | ESCALATED_ADMIN_REVIEW
  | RETURNED_TO_SELLER | RELEASED | REFUNDED_BUYER | RESOLVED_RELEASE | RESOLVED_REFUND
  | RESOLVED_SPLIT

fun status_value :: "tx_status \<Rightarrow> string" where
  "status_value INITIATED = ''initiated''"
| "status_value AWAITING_PAYMENT = ''awaiting_payment''"
| "status_value LOCKED = ''locked''"
| "status_value OUT_FOR_DELIVERY = ''out_for_delivery''"
| "status_value DISPATCHED = ''dispatched''"
| "status_value AT_DOOR_PENDING_INSPECTION = ''at_door_pending_inspection''"
| "status_value HOLD_24H = ''hold_24h''"
| "status_value DISPUTED_FUNCTIONAL = ''disputed_functional''"
| "status_value RETURN_IN_TRANSIT = ''return_in_transit''"
| "status_value RETURN_RECEIVED = ''return_received''"
| "status_value AWAITING_BUYER_RECONFIRMATION = ''awaiting_buyer_reconfirmation''"
| "status_value ESCALATED_ADMIN_REVIEW = ''escalated_admin_review''"
| "status_value RETURNED_TO_SELLER = ''returned_to_seller''"
| "status_value RELEASED = ''released''"
| "status_value REFUNDED_BUYER = ''refunded_buyer''"
| "status_value RESOLVED_RELEASE = ''resolved_release''"
| "status_value RESOLVED_REFUND = ''resolved_refund''"
| "status_value RESOLVED_SPLIT = ''resolved_split''"

datatype payout_status = NOT_REQUIRED | PENDING | PAID | FAILED_PAYOUT | UNKNOWN_PAYOUT

fun payout_status_value :: "payout_status \<Rightarrow> string" where
  "payout_status_value NOT_REQUIRED = ''not_required''"
| "payout_status_value PENDING = ''pending''"
| "payout_status_value PAID = ''succeeded''"
| "payout_status_value FAILED_PAYOUT = ''failed_definite''"
| "payout_status_value UNKNOWN_PAYOUT = ''unknown''"

datatype user_role = BUYER | SELLER | ADMIN

datatype attempt_outcome = SUCCEEDED | FAILED_DEFINITE | UNKNOWN

fun outcome_value :: "attempt_outcome \<Rightarrow> string" where
  "outcome_value SUCCEEDED = ''succeeded''"
| "outcome_value FAILED_DEFINITE = ''failed_definite''"
| "outcome_value UNKNOWN = ''unknown''"

datatype dispute_type = PHYSICAL | FUNCTIONAL

fun dispute_type_value :: "dispute_type \<Rightarrow> string" where
  "dispute_type_value PHYSICAL = ''physical''"
| "dispute_type_value FUNCTIONAL = ''functional''"

datatype dispute_status =
    D_OPEN | D_BUYER_SENT_BACK | D_RETURN_RECEIVED | D_AWAITING_BUYER_RECONFIRMATION
  | D_ESCALATED_ADMIN_REVIEW | D_RESOLVED_RELEASE | D_RESOLVED_REFUND | D_RESOLVED_SPLIT | D_CANCELED

fun dispute_status_value :: "dispute_status \<Rightarrow> string" where
  "dispute_status_value D_OPEN = ''open''"
| "dispute_status_value D_BUYER_SENT_BACK = ''buyer_sent_back''"
| "dispute_status_value D_RETURN_RECEIVED = ''return_received''"
| "dispute_status_value D_AWAITING_BUYER_RECONFIRMATION = ''awaiting_buyer_reconfirmation''"
| "dispute_status_value D_ESCALATED_ADMIN_REVIEW = ''escalated_admin_review''"
| "dispute_status_value D_RESOLVED_RELEASE = ''resolved_release''"
| "dispute_status_value D_RESOLVED_REFUND = ''resolved_refund''"
| "dispute_status_value D_RESOLVED_SPLIT = ''resolved_split''"
| "dispute_status_value D_CANCELED = ''canceled''"

datatype seller_action = REFUND_ISSUED | REPAIR_SHIPPED | REPLACEMENT_SHIPPED

fun seller_action_value :: "seller_action \<Rightarrow> string" where
  "seller_action_value REFUND_ISSUED = ''refund_issued''"
| "seller_action_value REPAIR_SHIPPED = ''repair_shipped''"
| "seller_action_value REPLACEMENT_SHIPPED = ''replacement_shipped''"

datatype admin_decision = REFUND | RELEASE | SPLIT

fun decision_value :: "admin_decision \<Rightarrow> string" where
  "decision_value REFUND = ''refund''"
| "decision_value RELEASE = ''release''"
| "decision_value SPLIT = ''split''"

datatype event_type =
    TRANSACTION_CREATED | TRANSACTION_LOCKED | TRANSACTION_DISPATCHED | DELIVERY_ARRIVED
  | OTP_GIVEN | OTP_WITHHELD | DISPUTE_OPENED | DISPUTE_UPDATED | ADMIN_DECISION | SYSTEM_TIMEOUT

datatype channel = IN_APP | SMS

datatype delivery_status = NOT_ATTEMPTED | SENT | DELIVERY_FAILED

datatype prompt_kind = STK_PROMPT | REDIRECT

datatype prompt_status = P_PENDING | P_SUCCEEDED | P_FAILED | P_FAILED_TO_INITIATE

datatype failure_reason = CANCELLED | WRONG_PIN | INSUFFICIENT_FUNDS | TIMEOUT | PROVIDER_ERROR

datatype breaker_state = CLOSED | OPEN | HALF_OPEN

datatype side = DEBIT | CREDIT

fun side_value :: "side \<Rightarrow> string" where
  "side_value DEBIT = ''debit''"
| "side_value CREDIT = ''credit''"

text \<open>The values a column stores tell the statuses apart.\<close>

lemma status_value_inject [simp]: "status_value a = status_value b \<longleftrightarrow> a = b"
  by (cases a; cases b) simp_all

lemma dispute_status_value_inject [simp]: "dispute_status_value a = dispute_status_value b \<longleftrightarrow> a = b"
  by (cases a; cases b) simp_all

section \<open>Rows\<close>

type_synonym dict = "(string \<times> string json) list"

record user =
  u_id :: uuid
  u_name :: string
  u_phone :: string
  u_role :: user_role
  u_password_hash :: string
  u_mpesa_phone :: "string option"
  u_mpesa_account_name :: "string option"
  u_shop_name :: "string option"
  u_shop_area :: "string option"
  u_shop_about :: "string option"
  u_logo_content_type :: "string option"
  u_logo_updated_at :: "time option"
  u_notification_prefs :: "dict option"
  u_logo_data :: "bytes option"
  u_session_version :: int
  u_is_active :: bool
  u_failed_login_attempts :: int
  u_locked_until :: "time option"
  u_created_at :: time

record listing =
  l_id :: uuid
  l_seller :: uuid
  l_title :: string
  l_description :: string
  l_category :: "string option"
  l_buyer_name :: "string option"
  l_price :: cents
  l_is_serialized :: bool
  l_unique_id :: "string option"
  l_dispute_policy :: dict
  l_archived_at :: "time option"
  l_created_at :: time

record transaction =
  tx_id :: uuid
  tx_reference :: string
  tx_listing :: uuid
  tx_buyer :: uuid
  tx_seller :: uuid
  tx_amount :: cents
  tx_status :: tx_status
  tx_payout_status :: payout_status
  tx_locked_at :: "time option"
  tx_dispatched_at :: "time option"
  tx_at_door_at :: "time option"
  tx_delivery_otp_hash :: "string option"
  tx_otp_failed_attempts :: int
  tx_hold_started_at :: "time option"
  tx_door_rejection_reason :: "string option"
  tx_door_rejection_note :: "string option"
  tx_released_at :: "time option"
  tx_refunded_at :: "time option"
  tx_custody_provider :: string
  tx_created_at :: time
  tx_updated_at :: time

record escrow =
  es_id :: uuid
  es_transaction :: uuid
  es_buyer :: uuid
  es_seller :: uuid
  es_amount_total :: cents
  es_funded_amount :: cents
  es_released_amount :: cents
  es_refunded_amount :: cents
  es_currency :: string
  es_custody_provider :: "string option"
  es_econfirm_transaction_id :: "string option"
  es_econfirm_confirmation_code :: "string option"
  es_econfirm_needs_reconciliation :: bool
  es_econfirm_payer_phone :: "string option"
  es_created_at :: time

record dispute =
  di_id :: uuid
  di_transaction :: uuid
  di_opened_by :: uuid
  di_type :: dispute_type
  di_status :: dispute_status
  di_reason :: string
  di_description :: string
  di_seller_resolution_action :: "seller_action option"
  di_admin_decision :: "admin_decision option"
  di_split_ratio :: "ratio4 option"
  di_evidence :: dict
  di_seller_resolution_notes :: "string option"
  di_admin_reason :: "string option"
  di_decided_by :: "uuid option"
  di_opened_at :: time
  di_escalated_at :: "time option"
  di_resolved_at :: "time option"
  di_created_at :: time

record notification =
  n_id :: uuid
  n_user :: uuid
  n_transaction :: uuid
  n_event :: event_type
  n_channel :: channel
  n_title :: string
  n_message :: string
  n_payload :: dict
  n_is_read :: bool
  n_read_at :: "time option"
  n_delivered_at :: "time option"
  n_delivery_status :: delivery_status
  n_created_at :: time

record payout_attempt =
  po_id :: uuid
  po_escrow :: uuid
  po_purpose :: string
  po_rail_name :: string
  po_provider_name :: string
  po_idempotency_key :: string
  po_provider_reference :: "string option"
  po_amount :: cents
  po_currency :: string
  po_outcome :: attempt_outcome
  po_request_snapshot :: dict
  po_response_snapshot :: dict
  po_failure_code :: "string option"
  po_failure_reason :: "string option"
  po_attempted_at :: time
  po_created_at :: time

record collection_attempt =
  co_id :: uuid
  co_escrow :: uuid
  co_rail_name :: string
  co_provider_name :: string
  co_idempotency_key :: string
  co_provider_reference :: "string option"
  co_amount :: cents
  co_currency :: string
  co_outcome :: attempt_outcome
  co_request_snapshot :: dict
  co_response_snapshot :: dict
  co_failure_code :: "string option"
  co_failure_reason :: "string option"
  co_attempted_at :: time
  co_created_at :: time

record ledger_entry =
  le_id :: uuid
  le_escrow :: uuid
  le_group :: uuid
  le_idempotency_key :: string
  le_account_code :: string
  le_side :: side
  le_amount :: cents
  le_currency :: string
  le_description :: "string option"
  le_created_at :: time

record payment_prompt =
  pp_id :: uuid
  pp_transaction :: uuid
  pp_kind :: prompt_kind
  pp_status :: prompt_status
  pp_failure_reason :: "failure_reason option"
  pp_redirect_url :: "string option"
  pp_checkout_request_id :: "string option"
  pp_sent_at :: time
  pp_expires_at :: time
  pp_resolved_at :: "time option"

record rail_health =
  rh_rail_name :: string
  rh_provider_name :: "string option"
  rh_breaker_state :: breaker_state
  rh_consecutive_failures :: int
  rh_last_error_code :: "string option"
  rh_last_error_message :: "string option"
  rh_opened_at :: "time option"
  rh_last_success_at :: "time option"
  rh_last_failure_at :: "time option"
  rh_cooldown_until :: "time option"

record money_audit_event =
  ma_id :: uuid
  ma_occurred_at :: time
  ma_actor_type :: string
  ma_actor_id :: "uuid option"
  ma_action :: string
  ma_reason :: "string option"
  ma_transaction :: "uuid option"
  ma_escrow :: "uuid option"
  ma_attempt :: "uuid option"
  ma_provider_reference :: "string option"
  ma_rail_name :: "string option"
  ma_correlation_id :: string
  ma_amount :: "cents option"
  ma_currency :: "string option"
  ma_details :: dict

record anchor_event =
  an_transaction :: "uuid option"
  an_event_type :: string
  an_source_table :: "string option"
  an_source_id :: "string option"
  an_schema_version :: int
  an_payload :: "nat list"
  an_salt :: bytes
  an_prev_event_hash :: bytes
  an_leaf_hash :: bytes
  an_created_at :: time

record provider_event =
  pe_id :: uuid
  pe_provider_name :: string
  pe_rail_name :: "string option"
  pe_event_type :: string
  pe_dedupe_key :: string
  pe_external_event_id :: "string option"
  pe_request_snapshot :: dict
  pe_response_snapshot :: dict
  pe_payload :: dict
  pe_received_at :: time
  pe_processed_at :: "time option"
  pe_created_at :: time

record user_session =
  us_id :: uuid
  us_user :: uuid
  us_token_hash :: string
  us_csrf_hash :: string
  us_user_agent :: "string option"
  us_last_seen_at :: "time option"
  us_expires_at :: time
  us_revoked_at :: "time option"
  us_created_at :: time

record phone_code =
  pc_id :: uuid
  pc_phone :: string
  pc_purpose :: string
  pc_code_hash :: string
  pc_attempts :: int
  pc_expires_at :: time
  pc_consumed_at :: "time option"
  pc_locked_until :: "time option"
  pc_created_at :: time

record listing_photo =
  lp_id :: uuid
  lp_listing :: uuid
  lp_position :: int
  lp_content_type :: string
  lp_size_bytes :: int
  lp_data :: bytes
  lp_created_at :: time

section \<open>The database\<close>

text \<open>
  \<open>d_tables\<close> holds the names of the tables that exist: the services ask for them, because the test
  suite runs on partial schemas. \<open>d_draws\<close> counts the random values drawn so far, so that the
  environment's random functions give a new value for each draw.
\<close>

record db =
  d_tables :: "string list"
  d_users :: "user list"
  d_listings :: "listing list"
  d_transactions :: "transaction list"
  d_escrows :: "escrow list"
  d_disputes :: "dispute list"
  d_notifications :: "notification list"
  d_payouts :: "payout_attempt list"
  d_collections :: "collection_attempt list"
  d_ledger :: "ledger_entry list"
  d_prompts :: "payment_prompt list"
  d_rail_health :: "rail_health list"
  d_audits :: "money_audit_event list"
  d_anchors :: "anchor_event list"
  d_events :: "provider_event list"
  d_sessions :: "user_session list"
  d_codes :: "phone_code list"
  d_photos :: "listing_photo list"
  d_draws :: nat

definition has_table :: "string \<Rightarrow> db \<Rightarrow> bool" where
  "has_table name s = (name \<in> set (d_tables s))"

definition get_user :: "uuid \<Rightarrow> db \<Rightarrow> user option" where
  "get_user i s = row_get u_id i (d_users s)"

definition get_listing :: "uuid \<Rightarrow> db \<Rightarrow> listing option" where
  "get_listing i s = row_get l_id i (d_listings s)"

definition get_transaction :: "uuid \<Rightarrow> db \<Rightarrow> transaction option" where
  "get_transaction i s = row_get tx_id i (d_transactions s)"

definition get_escrow :: "uuid \<Rightarrow> db \<Rightarrow> escrow option" where
  "get_escrow i s = row_get es_id i (d_escrows s)"

definition get_dispute :: "uuid \<Rightarrow> db \<Rightarrow> dispute option" where
  "get_dispute i s = row_get di_id i (d_disputes s)"

definition put_escrow :: "escrow \<Rightarrow> db \<Rightarrow> db" where
  "put_escrow e s = s\<lparr>d_escrows := row_put es_id e (d_escrows s)\<rparr>"

definition put_dispute :: "dispute \<Rightarrow> db \<Rightarrow> db" where
  "put_dispute d s = s\<lparr>d_disputes := row_put di_id d (d_disputes s)\<rparr>"

definition put_payout :: "payout_attempt \<Rightarrow> db \<Rightarrow> db" where
  "put_payout p s = s\<lparr>d_payouts := row_put po_id p (d_payouts s)\<rparr>"

definition put_transaction :: "transaction \<Rightarrow> db \<Rightarrow> db" where
  "put_transaction t s = s\<lparr>d_transactions := row_put tx_id t (d_transactions s)\<rparr>"

text \<open>
  Writing back a changed transaction: SQLAlchemy emits an UPDATE only when a column differs, and the
  UPDATE sets \<open>updated_at\<close> (its \<open>onupdate\<close>) to the current time.
\<close>

definition save_transaction :: "time \<Rightarrow> transaction \<Rightarrow> db \<Rightarrow> db" where
  "save_transaction now t s = (if get_transaction (tx_id t) s = Some t then s
     else put_transaction (t\<lparr>tx_updated_at := now\<rparr>) s)"

interpretation transactions: store get_transaction put_transaction tx_id
  by unfold_locales (auto simp: get_transaction_def put_transaction_def row_get_put dest: row_get_SomeD)

interpretation escrows: store get_escrow put_escrow es_id
  by unfold_locales (auto simp: get_escrow_def put_escrow_def row_get_put dest: row_get_SomeD)

interpretation disputes: store get_dispute put_dispute di_id
  by unfold_locales (auto simp: get_dispute_def put_dispute_def row_get_put dest: row_get_SomeD)

lemma get_transaction_save:
  "get_transaction i (save_transaction now t s) =
     (if i = tx_id t \<and> get_transaction i s \<noteq> None \<and> get_transaction i s \<noteq> Some t
      then Some (t\<lparr>tx_updated_at := now\<rparr>) else get_transaction i s)"
  by (auto simp: save_transaction_def transactions.get_put)

lemma get_transaction_save_status:
  "get_transaction (tx_id t) s \<noteq> None \<Longrightarrow>
     map_option tx_status (get_transaction (tx_id t) (save_transaction now t s)) = Some (tx_status t)"
  by (auto simp: get_transaction_save)

lemma save_transaction_other [simp]: "i \<noteq> tx_id t \<Longrightarrow> get_transaction i (save_transaction now t s) = get_transaction i s"
  by (simp add: get_transaction_save)

lemma save_transaction_frame [frame, simp]:
  "d_tables (save_transaction now t s) = d_tables s"
  "d_users (save_transaction now t s) = d_users s"
  "d_listings (save_transaction now t s) = d_listings s"
  "d_escrows (save_transaction now t s) = d_escrows s"
  "d_disputes (save_transaction now t s) = d_disputes s"
  "d_notifications (save_transaction now t s) = d_notifications s"
  "d_payouts (save_transaction now t s) = d_payouts s"
  "d_collections (save_transaction now t s) = d_collections s"
  "d_ledger (save_transaction now t s) = d_ledger s"
  "d_prompts (save_transaction now t s) = d_prompts s"
  "d_rail_health (save_transaction now t s) = d_rail_health s"
  "d_audits (save_transaction now t s) = d_audits s"
  "d_anchors (save_transaction now t s) = d_anchors s"
  "d_draws (save_transaction now t s) = d_draws s"
  by (simp_all add: save_transaction_def put_transaction_def)

lemma save_transaction_ids [simp]:
  "map tx_id (d_transactions (save_transaction now t s)) = map tx_id (d_transactions s)"
  by (auto simp: save_transaction_def put_transaction_def)

section \<open>The environment of a request\<close>

text \<open>
  What the code reads that is neither the database nor its arguments: the clock (one reading per
  request), random values by draw number, the keyed and unkeyed hash functions, the settings and
  the custody registry built from them. Keccak-256 (the pycryptodome package), HMAC-SHA256 and
  Fernet key validation are parameters.
\<close>

datatype custody_mode = TIER_1 | TIER_2

record settings =
  st_environment :: string
  st_secret_key :: string
  st_anchor_admin_ref_secret :: string
  st_custody_mode :: custody_mode
  st_collection_priority :: string
  st_payout_priority :: string
  st_allow_live_payouts :: bool
  st_loop_enabled :: bool
  st_pesapal_enabled :: bool
  st_intasend_enabled :: bool
  st_econfirm_enabled :: bool
  st_econfirm_api_key :: string
  st_econfirm_code_encryption_key :: string
  st_econfirm_min_amount :: decimal
  st_econfirm_max_amount :: decimal

record capabilities =
  cap_holds_funds_structurally :: bool
  cap_supports_split_payout :: bool
  cap_supports_partial_release :: bool
  cap_supports_webhook_auth :: bool

record registry =
  rg_provider_capabilities :: capabilities
  rg_collection_rails :: "string list"
  rg_payout_rails :: "string list"
  rg_custody_mode :: custody_mode
  rg_collection_priority :: "string list"
  rg_payout_priority :: "string list"
  rg_live_payouts_enabled :: bool

record env =
  e_now :: time
  e_uuid :: "nat \<Rightarrow> uuid"
  e_salt :: "nat \<Rightarrow> bytes"
  e_randbelow :: "nat \<Rightarrow> nat \<Rightarrow> nat"
  e_keccak :: "bytes \<Rightarrow> bytes"
  e_hmac :: "string \<Rightarrow> string \<Rightarrow> string"
  e_fernet_key_ok :: "string \<Rightarrow> bool"
  e_fernet_encrypt :: "string \<Rightarrow> nat \<Rightarrow> string \<Rightarrow> string"
  e_fernet_decrypt :: "string list \<Rightarrow> string \<Rightarrow> string option"
  e_settings :: settings
  e_registry :: registry

section \<open>Exceptions\<close>

text \<open>One constructor per exception class the modelled services raise, with its message.\<close>

datatype exn =
    TransactionValidationError string
  | ListingNotFoundForTransactionError string
  | PaymentInitiationError string "uuid option"
  | TransactionNotFoundForCallbackError string
  | TransactionNotFoundForDispatchError string
  | TransactionDispatchForbiddenError string
  | TransactionDispatchInvalidStateError string
  | TransactionNotFoundForArrivalError string
  | TransactionArrivalForbiddenError string
  | TransactionArrivalInvalidStateError string
  | TransactionNotFoundForBuyerActionError string
  | TransactionBuyerActionForbiddenError string
  | TransactionBuyerActionInvalidStateError string
  | InvalidTransactionOtpError string
  | EscrowServiceError string
  | SplitPayoutUnsupportedError string
  | EscrowLedgerValidationError string
  | EscrowLedgerIdempotencyConflictError string
  | EscrowLedgerUnbalancedError string
  | DisputeCaseNotFoundError string
  | DisputeCaseInvalidStateError string
  | DisputeDecisionReasonRequiredError string
  | DisputeSplitPayoutUnsupportedError string
  | EscalationNotFoundError string
  | EscalationForbiddenError string
  | EscalationInvalidStateError string
  | CanonicalEncodingError string
  | PaymentResendNotFoundError string
  | PaymentResendInvalidStateError string
  | PaymentResendTooSoonError int
  | InvalidOperation
  | PaymentResendInitiationError uuid
  | EconfirmDefiniteError string
  | EconfirmUnknownError string
  | LoopAuthError string
  | PesapalAuthError string
  | OverflowError string
  | SimulatedEscrowReferenceError string
  | SimulatedEscrowNotFoundError string
  | SimulatedAdminAttemptNotFoundError string
  | SimulatedAdminEscrowNotFoundError string
  | SimulatedAdminPayoutTypeError string
  | DataError string
  | KeyError string
  | ForeignError string
  | RuntimeError string
  | ValueError string
  | IndexError string
  | IntegrityError string
  | TypeError string

end
