(* ===== verification/Samples.thy ===== *)
theory Samples
  imports Models
begin

text \<open>
  A concrete environment, parties and orders, on which the witnesses of the properties are evaluated.
  The hash functions are stand-ins; the database has no table of anchor or audit events unless a
  witness is about them, as on the partial schemas of the test suite.
\<close>

definition sample_settings :: settings where
  "sample_settings = \<lparr>st_environment = ''development'', st_secret_key = ''secret'', st_anchor_admin_ref_secret = '''',
     st_custody_mode = TIER_1, st_collection_priority = ''simulated'', st_payout_priority = ''simulated'',
     st_allow_live_payouts = False, st_loop_enabled = False, st_pesapal_enabled = False, st_intasend_enabled = False,
     st_econfirm_enabled = False, st_econfirm_api_key = '''', st_econfirm_code_encryption_key = '''',
     st_econfirm_min_amount = Fin 0 0, st_econfirm_max_amount = Fin 1000000 0\<rparr>"

definition sample_registry :: registry where
  "sample_registry = \<lparr>rg_provider_capabilities = \<lparr>cap_holds_funds_structurally = False, cap_supports_split_payout = False,
       cap_supports_partial_release = False, cap_supports_webhook_auth = False\<rparr>,
     rg_collection_rails = [''simulated''], rg_payout_rails = [''simulated''], rg_custody_mode = TIER_1,
     rg_collection_priority = [''simulated''], rg_payout_priority = [''simulated''], rg_live_payouts_enabled = False\<rparr>"

definition sample_env :: "time \<Rightarrow> env" where
  "sample_env now = \<lparr>e_now = now, e_uuid = (\<lambda>n. 20 + n), e_salt = (\<lambda>_. replicate 32 0), e_randbelow = (\<lambda>n k. if k = 0 then 0 else n mod k),
     e_keccak = (\<lambda>bs. replicate 32 0), e_hmac = (\<lambda>key msg. key @ msg), e_fernet_key_ok = (\<lambda>_. True),
     e_fernet_encrypt = (\<lambda>key n code. code), e_fernet_decrypt = (\<lambda>keys token. Some token),
     e_settings = sample_settings, e_registry = sample_registry\<rparr>"

definition sample_user :: "uuid \<Rightarrow> string \<Rightarrow> user_role \<Rightarrow> user" where
  "sample_user i phone role = \<lparr>u_id = i, u_name = ''A'', u_phone = phone, u_role = role, u_password_hash = ''x'', u_mpesa_phone = None,
     u_mpesa_account_name = None, u_shop_name = None, u_shop_area = None, u_shop_about = None, u_logo_content_type = None,
     u_logo_updated_at = None, u_notification_prefs = None, u_logo_data = None, u_session_version = 1, u_is_active = True,
     u_failed_login_attempts = 0, u_locked_until = None, u_created_at = 0\<rparr>"

definition sample_buyer :: user where
  "sample_buyer = sample_user 1 ''0700000001'' BUYER"

definition sample_seller :: user where
  "sample_seller = sample_user 2 ''0700000002'' SELLER"

definition sample_listing :: "bool \<Rightarrow> listing" where
  "sample_listing serialized = \<lparr>l_id = 3, l_seller = 2, l_title = ''Phone'', l_description = '''', l_category = None, l_buyer_name = None,
     l_price = 150000, l_is_serialized = serialized, l_unique_id = None,
     l_dispute_policy = [], l_archived_at = None, l_created_at = 0\<rparr>"

definition sample_order :: "uuid \<Rightarrow> tx_status \<Rightarrow> transaction" where
  "sample_order i st = \<lparr>tx_id = i, tx_reference = ''VK-1'', tx_listing = 3, tx_buyer = 1, tx_seller = 2, tx_amount = 150000,
     tx_status = st, tx_payout_status = NOT_REQUIRED, tx_locked_at = (if st = LOCKED then Some 0 else None), tx_dispatched_at = None,
     tx_at_door_at = (if st = AT_DOOR_PENDING_INSPECTION then Some 0 else None),
     tx_delivery_otp_hash = (if st = AT_DOOR_PENDING_INSPECTION then Some ''secret123456'' else None), tx_otp_failed_attempts = 0,
     tx_hold_started_at = (if st = HOLD_24H then Some 0 else None), tx_door_rejection_reason = None, tx_door_rejection_note = None,
     tx_released_at = None, tx_refunded_at = None, tx_custody_provider = ''simulated'', tx_created_at = 0, tx_updated_at = 0\<rparr>"

definition sample_dispute :: "dispute_status \<Rightarrow> dict \<Rightarrow> dispute" where
  "sample_dispute st ev = \<lparr>di_id = 5, di_transaction = 10, di_opened_by = 1, di_type = FUNCTIONAL, di_status = st, di_reason = ''not_working'',
     di_description = ''screen'', di_seller_resolution_action = None, di_admin_decision = None, di_split_ratio = None,
     di_evidence = ev, di_seller_resolution_notes = None, di_admin_reason = None, di_decided_by = None, di_opened_at = 0,
     di_escalated_at = None, di_resolved_at = None, di_created_at = 0\<rparr>"

definition sample_db :: "bool \<Rightarrow> transaction list \<Rightarrow> dispute list \<Rightarrow> db" where
  "sample_db serialized orders cases = \<lparr>d_tables = [''users'', ''transactions'', ''escrows'', ''payout_attempts''],
     d_users = [sample_buyer, sample_seller], d_listings = [sample_listing serialized], d_transactions = orders,
     d_escrows = [], d_disputes = cases, d_notifications = [], d_payouts = [], d_collections = [], d_ledger = [], d_prompts = [],
     d_rail_health = [], d_audits = [], d_anchors = [], d_events = [], d_sessions = [], d_codes = [], d_photos = [], d_draws = 0\<rparr>"

lemmas sample_defs = sample_settings_def sample_registry_def sample_env_def sample_user_def sample_buyer_def sample_seller_def
  sample_listing_def sample_order_def sample_dispute_def sample_db_def

lemma sample_order_fields [simp]: "tx_id (sample_order i st) = i" "tx_status (sample_order i st) = st" "tx_amount (sample_order i st) = 150000"
    "tx_buyer (sample_order i st) = u_id sample_buyer" "tx_seller (sample_order i st) = u_id sample_seller"
  by (simp_all add: sample_order_def sample_user_def sample_buyer_def sample_seller_def)

lemma sample_db_fields [simp]: "d_transactions (sample_db b orders cases) = orders" "d_payouts (sample_db b orders cases) = []"
    "get_transaction i (sample_db b orders cases) = row_get tx_id i orders"
  by (simp_all add: sample_db_def get_transaction_def)

lemma sample_roles [simp]: "u_role sample_buyer = BUYER" "u_role sample_seller = SELLER"
  by (simp_all add: sample_user_def sample_buyer_def sample_seller_def)

end
