(* ===== verification/Canonical.thy ===== *)
theory Canonical
  imports Samples "HOL-Library.List_Lexorder" "HOL-Library.Multiset"
begin

text \<open>
  Canonical event payloads and leaf hashes (app/services/anchoring/canonical.py). Here text is a
  list of Unicode code points, because the encoding orders keys by UTF-16 and hashes UTF-8;
  \<open>code_points\<close> turns the strings of the rest of the model into such lists.
\<close>

type_synonym utext = "nat list"

definition code_points :: "string \<Rightarrow> utext" where
  "code_points s = map of_char s"

definition HASH_SIZE :: nat where "HASH_SIZE = 32"
definition ZERO_HASH :: bytes where "ZERO_HASH = replicate HASH_SIZE 0"
definition LEAF_PREFIX :: bytes where "LEAF_PREFIX = [0]"
definition NODE_PREFIX :: bytes where "NODE_PREFIX = [1]"
definition MAX_SAFE_INTEGER :: int where "MAX_SAFE_INTEGER = 2 ^ 53 - 1"

definition is_surrogate :: "nat \<Rightarrow> bool" where
  "is_surrogate c = (55296 \<le> c \<and> c \<le> 57343)"

definition utf8_char :: "nat \<Rightarrow> bytes" where
  "utf8_char c = map of_nat (if c < 128 then [c]
     else if c < 2048 then [192 + c div 64, 128 + c mod 64]
     else if c < 65536 then [224 + c div 4096, 128 + c div 64 mod 64, 128 + c mod 64]
     else [240 + c div 262144, 128 + c div 4096 mod 64, 128 + c div 64 mod 64, 128 + c mod 64])"

text \<open>\<open>value.encode("utf-8")\<close>, which a lone surrogate makes fail.\<close>

definition utf8 :: "utext \<Rightarrow> exn + bytes" where
  "utf8 t = (if list_ex is_surrogate t
     then Inl (CanonicalEncodingError ''Text must be valid Unicode (no lone surrogates).'')
     else Inr (concat (map utf8_char t)))"

text \<open>\<open>key.encode("utf-16-be", "surrogatepass")\<close>\<close>

definition utf16_char :: "nat \<Rightarrow> nat list" where
  "utf16_char c = (if c < 65536 then [c div 256, c mod 256]
     else let d = c - 65536; hi = 55296 + d div 1024; lo = 56320 + d mod 1024
       in [hi div 256, hi mod 256, lo div 256, lo mod 256])"

definition utf16_be :: "utext \<Rightarrow> nat list" where
  "utf16_be t = concat (map utf16_char t)"

definition escape_char :: "nat \<Rightarrow> utext" where
  "escape_char c = (if c = 34 then [92, 34] else if c = 92 then [92, 92] else if c = 8 then [92, 98]
     else if c = 12 then [92, 102] else if c = 10 then [92, 110] else if c = 13 then [92, 114]
     else if c = 9 then [92, 116]
     else if c < 32 then [92, 117, 48, 48, of_char (hex_digit (c div 16)), of_char (hex_digit (c mod 16))]
     else [c])"

definition quote_text :: "utext \<Rightarrow> exn + utext" where
  "quote_text t = bindE (utf8 t) (\<lambda>_. Inr ([34] @ concat (map escape_char t) @ [34]))"

text \<open>
  The texts of the parts of an array or object in output order, separated by commas; the first
  part that raises ends the encoding.
\<close>

fun join_items :: "(exn + utext) list \<Rightarrow> exn + utext" where
  "join_items [] = Inr []"
| "join_items [r] = r"
| "join_items (r # r' # rs) = bindE r (\<lambda>a. bindE (join_items (r' # rs)) (\<lambda>b. Inr (a @ [44] @ b)))"

definition field_text :: "utext \<times> (exn + utext) \<Rightarrow> exn + utext" where
  "field_text f = bindE (quote_text (fst f)) (\<lambda>k. bindE (snd f) (\<lambda>v. Inr (k @ [58] @ v)))"

fun encode :: "utext json \<Rightarrow> exn + utext" and
    encode_items :: "utext json list \<Rightarrow> (exn + utext) list" and
    encode_fields :: "(utext \<times> utext json) list \<Rightarrow> (utext \<times> (exn + utext)) list" where
  "encode JNull = Inr (code_points ''null'')"
| "encode (JBool b) = Inr (code_points (if b then ''true'' else ''false''))"
| "encode (JInt i) = (if \<bar>i\<bar> > MAX_SAFE_INTEGER
     then Inl (CanonicalEncodingError (''Integer '' @ int_str i @ '' is outside the safe range.''))
     else Inr (code_points (int_str i)))"
| "encode (JStr t) = quote_text t"
| "encode (JArr xs) = bindE (join_items (encode_items xs)) (\<lambda>b. Inr ([91] @ b @ [93]))"
| "encode (JObj fs) = bindE (join_items (map field_text (sort_key (\<lambda>f. utf16_be (fst f)) (encode_fields fs))))
     (\<lambda>b. Inr ([123] @ b @ [125]))"
| "encode_items [] = []"
| "encode_items (x # xs) = encode x # encode_items xs"
| "encode_fields [] = []"
| "encode_fields ((k, v) # fs) = (k, encode v) # encode_fields fs"

definition canonical_json :: "utext json \<Rightarrow> exn + utext" where
  "canonical_json v = encode v"

fun map_json :: "('a \<Rightarrow> 'b) \<Rightarrow> 'a json \<Rightarrow> 'b json" and
    map_items :: "('a \<Rightarrow> 'b) \<Rightarrow> 'a json list \<Rightarrow> 'b json list" and
    map_fields :: "('a \<Rightarrow> 'b) \<Rightarrow> ('a \<times> 'a json) list \<Rightarrow> ('b \<times> 'b json) list" where
  "map_json f JNull = JNull"
| "map_json f (JBool b) = JBool b"
| "map_json f (JInt i) = JInt i"
| "map_json f (JStr t) = JStr (f t)"
| "map_json f (JArr xs) = JArr (map_items f xs)"
| "map_json f (JObj fs) = JObj (map_fields f fs)"
| "map_items f [] = []"
| "map_items f (x # xs) = map_json f x # map_items f xs"
| "map_fields f [] = []"
| "map_fields f ((k, v) # fs) = (f k, map_json f v) # map_fields f fs"

definition keccak256 :: "env \<Rightarrow> bytes list \<Rightarrow> bytes" where
  "keccak256 E parts = e_keccak E (concat parts)"

definition leaf_hash :: "env \<Rightarrow> bytes \<Rightarrow> bytes \<Rightarrow> utext \<Rightarrow> exn + bytes" where
  "leaf_hash E salt prev payload = (if length salt \<noteq> HASH_SIZE \<or> length prev \<noteq> HASH_SIZE
     then Inl (CanonicalEncodingError ''salt and prev_event_hash must be 32 bytes.'')
     else bindE (utf8 payload) (\<lambda>b. Inr (keccak256 E [LEAF_PREFIX, salt, prev, b])))"

section \<open>Field encoders\<close>

text \<open>
  The encoders of the columns: money columns hold cents and ratios ten-thousandths, so \<open>_fixed\<close>
  never meets a value with more precision than it prints.
\<close>

definition money :: "cents option \<Rightarrow> string json" where
  "money c = jopt (map_option cents_str c)"

definition ratio_str :: "ratio4 \<Rightarrow> string" where
  "ratio_str r = (if r < 0 then ''-'' else '''') @ nat_str (nat (\<bar>r\<bar> div 10000)) @ ''.'' @ pad_nat 4 (nat (\<bar>r\<bar> mod 10000))"

definition ratio :: "ratio4 option \<Rightarrow> string json" where
  "ratio r = jopt (map_option ratio_str r)"

definition timestamp :: "time option \<Rightarrow> string json" where
  "timestamp t = jopt (map_option (\<lambda>t. date_time_str t @ ''Z'') t)"

definition uuid_text :: "uuid option \<Rightarrow> string json" where
  "uuid_text u = jopt (map_option uuid_str u)"

definition hex32 :: "bytes \<Rightarrow> string" where
  "hex32 b = ''0x'' @ concat (map (\<lambda>x. hex_digits 2 (unat x)) b)"

definition text_keccak :: "env \<Rightarrow> string option \<Rightarrow> exn + string option" where
  "text_keccak E v = (case v of None \<Rightarrow> Inr None
     | Some t \<Rightarrow> bindE (utf8 (code_points t)) (\<lambda>b. Inr (Some (hex32 (keccak256 E [b])))))"

section \<open>The text does not depend on the order a dict was built in\<close>

lemma encode_fields_map: "encode_fields fs = map (\<lambda>f. (fst f, encode (snd f))) fs"
  by (induction fs) auto

lemma encode_items_map: "encode_items xs = map encode xs"
  by (induction xs) auto

definition valid_text :: "utext \<Rightarrow> bool" where
  "valid_text t = (\<forall>c \<in> set t. c < 1114112 \<and> \<not> is_surrogate c)"

lemma utf16_char_inject:
  assumes "utf16_char c @ xs = utf16_char d @ ys"
    and "c < 1114112" "\<not> is_surrogate c" "d < 1114112" "\<not> is_surrogate d"
  shows "c = d \<and> xs = ys"
proof -
  have hi: "n div 256 \<in> {216..219}" if "n = 55296 + (e - 65536) div 1024" "e < 1114112" for n e :: nat
    using that by (auto simp: div_le_mono)
  have sur: "n div 256 \<notin> {216..219}" if "\<not> is_surrogate n" for n :: nat
    using that by (auto simp: is_surrogate_def)
  show ?thesis
  proof (cases "c < 65536"; cases "d < 65536")
    assume "c < 65536" "d < 65536"
    with assms(1) have "c div 256 = d div 256" "c mod 256 = d mod 256" "xs = ys"
      by (auto simp: utf16_char_def)
    then show ?thesis by (metis div_mult_mod_eq)
  next
    assume "c < 65536" "\<not> d < 65536"
    with assms(1) have "c div 256 = (55296 + (d - 65536) div 1024) div 256"
      by (auto simp: utf16_char_def Let_def)
    moreover have "(55296 + (d - 65536) div 1024) div 256 \<in> {216..219}" using hi assms(4) by blast
    ultimately have "c div 256 \<in> {216..219}" by simp
    with sur [OF assms(3)] show ?thesis by simp
  next
    assume "\<not> c < 65536" "d < 65536"
    with assms(1) have "d div 256 = (55296 + (c - 65536) div 1024) div 256"
      by (auto simp: utf16_char_def Let_def)
    moreover have "(55296 + (c - 65536) div 1024) div 256 \<in> {216..219}" using hi assms(2) by blast
    ultimately have "d div 256 \<in> {216..219}" by simp
    with sur [OF assms(5)] show ?thesis by simp
  next
    assume g: "\<not> c < 65536" "\<not> d < 65536"
    let ?h = "\<lambda>e::nat. 55296 + (e - 65536) div 1024" and ?l = "\<lambda>e::nat. 56320 + (e - 65536) mod 1024"
    from g assms(1) have "?h c div 256 = ?h d div 256" "?h c mod 256 = ?h d mod 256"
      "?l c div 256 = ?l d div 256" "?l c mod 256 = ?l d mod 256" and xy: "xs = ys"
      by (auto simp: utf16_char_def Let_def)
    then have "?h c = ?h d" and "?l c = ?l d" by (metis div_mult_mod_eq)+
    then have "(c - 65536) div 1024 = (d - 65536) div 1024" "(c - 65536) mod 1024 = (d - 65536) mod 1024" by auto
    then have "c - 65536 = d - 65536" by (metis div_mult_mod_eq)
    with g xy show ?thesis by simp
  qed
qed

lemma utf16_char_nonempty: "utf16_char c \<noteq> []"
  by (simp add: utf16_char_def Let_def)

lemma utf16_be_inject: "utf16_be s = utf16_be t \<Longrightarrow> valid_text s \<Longrightarrow> valid_text t \<Longrightarrow> s = t"
proof (induction s arbitrary: t)
  case Nil
  then show ?case by (cases t) (auto simp: utf16_be_def utf16_char_nonempty)
next
  case (Cons c s)
  then obtain d u where t: "t = d # u"
    by (cases t) (auto simp: utf16_be_def utf16_char_nonempty)
  with Cons.prems have "utf16_char c @ utf16_be s = utf16_char d @ utf16_be u"
    by (simp add: utf16_be_def)
  with Cons.prems t have "c = d \<and> utf16_be s = utf16_be u"
    by (intro utf16_char_inject) (auto simp: valid_text_def)
  with Cons t show ?case by (auto simp: valid_text_def)
qed

lemma encode_obj_order:
  assumes "mset fs = mset gs" and "distinct (map fst fs)" and "\<forall>f \<in> set fs. valid_text (fst f)"
  shows "encode (JObj fs) = encode (JObj gs)"
proof -
  let ?k = "\<lambda>f :: utext \<times> (exn + utext). utf16_be (fst f)"
  have m: "mset (encode_fields fs) = mset (encode_fields gs)"
    using assms(1) by (simp add: encode_fields_map)
  have set_eq: "set (encode_fields fs) = set (encode_fields gs)"
    using mset_eq_setD [OF m] .
  have inj: "inj_on ?k (set (encode_fields fs))"
  proof (rule inj_onI)
    fix x y
    assume x: "x \<in> set (encode_fields fs)" and y: "y \<in> set (encode_fields fs)" and eq: "?k x = ?k y"
    obtain f g where f: "f \<in> set fs" "x = (fst f, encode (snd f))" and g: "g \<in> set fs" "y = (fst g, encode (snd g))"
      using x y by (auto simp: encode_fields_map)
    with eq assms(3) have "fst f = fst g" by (auto intro: utf16_be_inject)
    with f(1) g(1) assms(2) have "f = g" by (auto simp: distinct_map dest: inj_onD)
    with f g show "x = y" by simp
  qed
  have "sort_key ?k (encode_fields fs) = sort_key ?k (encode_fields gs)"
    by (rule sort_key_inj_key_eq) (use m inj in auto)
  then show ?thesis by simp
qed

section \<open>Properties\<close>

text \<open>The canonical bytes of an event do not depend on the order in which its fields were put into the
  payload: two objects with the same fields (distinct keys without lone surrogates) encode alike,
  errors included.\<close>

lemma canonical_json_ignores_field_order:
  assumes "mset fs = mset gs" and "distinct (map fst fs)" and "\<forall>f \<in> set fs. valid_text (fst f)"
  shows "canonical_json (JObj fs) = canonical_json (JObj gs)"
  using encode_obj_order [OF assms] by (simp only: canonical_json_def)

lemma canonical_json_ignores_field_order_witness:
  "canonical_json (JObj [(code_points ''b'', JInt 1), (code_points ''a'', JBool True)]) =
   canonical_json (JObj [(code_points ''a'', JBool True), (code_points ''b'', JInt 1)])"
  by (rule canonical_json_ignores_field_order) (simp_all add: code_points_def valid_text_def is_surrogate_def)

end
