(* ===== verification/Anchoring.thy ===== *)
theory Anchoring
  imports Canonical
begin

text \<open>
  The event log (app/services/anchoring/payloads.py, admin_ref.py and recorder.py), the money audit
  (app/services/audit.py) and the recorded status transitions (app/services/transitions.py). Every
  event joins the hash chain of its transaction, or the global chain. The session caches of the
  recorder (chain heads, recorded sources and statuses) are not part of the state: the head of a
  chain is read from the table, which holds the same value inside one session.
\<close>

section \<open>Payloads\<close>

definition SCHEMA_VERSION :: int where "SCHEMA_VERSION = 1"

definition ACTOR_USER :: string where "ACTOR_USER = ''user''"
definition ACTOR_ADMIN :: string where "ACTOR_ADMIN = ''admin''"
definition ACTOR_SYSTEM :: string where "ACTOR_SYSTEM = ''system''"
definition ACTOR_PROVIDER :: string where "ACTOR_PROVIDER = ''provider''"

lemmas actor_defs = ACTOR_USER_def ACTOR_ADMIN_def ACTOR_SYSTEM_def ACTOR_PROVIDER_def

definition parse_keys :: "string \<Rightarrow> string list" where
  "parse_keys config = filter (\<lambda>k. k \<noteq> '''') (map strip (split_on (CHR '','') config))"

definition DEVELOPMENT_KEY :: string where
  "DEVELOPMENT_KEY = ''vekro-development-admin-ref-key-not-a-secret''"

definition configured_keys :: "settings \<Rightarrow> exn + string list" where
  "configured_keys st = (let keys = parse_keys (st_anchor_admin_ref_secret st) in
     if keys \<noteq> [] then Inr keys
     else if py_lower (strip (st_environment st)) = ''production''
       then Inl (RuntimeError ''ANCHOR_ADMIN_REF_SECRET is required in production.'')
     else Inr [DEVELOPMENT_KEY])"

definition admin_ref :: "env \<Rightarrow> uuid option \<Rightarrow> exn + string option" where
  "admin_ref E admin_id = (case admin_id of None \<Rightarrow> Inr None
     | Some i \<Rightarrow> bindE (configured_keys (e_settings E)) (\<lambda>keys. Inr (Some (e_hmac E (hd keys) (uuid_str i)))))"

definition envelope :: "string \<Rightarrow> uuid option \<Rightarrow> time \<Rightarrow> dict" where
  "envelope ev tid at = [(''v'', JInt SCHEMA_VERSION), (''type'', JStr ev),
     (''transaction_id'', uuid_text tid), (''at'', timestamp (Some at))]"

definition actor :: "env \<Rightarrow> string \<Rightarrow> uuid option \<Rightarrow> exn + dict" where
  "actor E ty i = (if ty = ACTOR_ADMIN
     then bindE (admin_ref E i) (\<lambda>r. Inr [(''actor_type'', JStr ty), (''actor_id'', JNull), (''actor_ref'', jopt r)])
     else Inr [(''actor_type'', JStr ty), (''actor_id'', uuid_text i), (''actor_ref'', JNull)])"

definition ledger_entry_payload :: "ledger_entry \<Rightarrow> uuid option \<Rightarrow> dict" where
  "ledger_entry_payload e tid = envelope ''ledger_entry'' tid (le_created_at e) @
     [(''ledger_entry_id'', uuid_text (Some (le_id e))), (''escrow_id'', uuid_text (Some (le_escrow e))),
      (''entry_group_id'', uuid_text (Some (le_group e))), (''idempotency_key'', JStr (le_idempotency_key e)),
      (''account_code'', JStr (le_account_code e)), (''side'', JStr (side_value (le_side e))),
      (''amount'', money (Some (le_amount e))), (''currency'', JStr (le_currency e)),
      (''description'', jopt (le_description e))]"

fun plain_json :: "string json \<Rightarrow> string json" and
    plain_items :: "string json list \<Rightarrow> string json list" and
    plain_fields :: "dict \<Rightarrow> dict" where
  "plain_json (JInt i) = (if \<bar>i\<bar> \<le> MAX_SAFE_INTEGER then JInt i else JStr (int_str i))"
| "plain_json (JArr xs) = JArr (plain_items xs)"
| "plain_json (JObj fs) = JObj (plain_fields fs)"
| "plain_json v = v"
| "plain_items [] = []"
| "plain_items (x # xs) = plain_json x # plain_items xs"
| "plain_fields [] = []"
| "plain_fields ((k, v) # fs) = (k, plain_json v) # plain_fields fs"

definition money_audit_payload :: "env \<Rightarrow> money_audit_event \<Rightarrow> exn + dict" where
  "money_audit_payload E a = bindE (actor E (ma_actor_type a) (ma_actor_id a)) (\<lambda>who. Inr (
     envelope ''money_audit'' (ma_transaction a) (ma_occurred_at a) @
     [(''audit_event_id'', uuid_text (Some (ma_id a))), (''action'', JStr (ma_action a))] @ who @
     [(''reason'', jopt (ma_reason a)), (''escrow_id'', uuid_text (ma_escrow a)),
      (''attempt_id'', uuid_text (ma_attempt a)), (''provider_reference'', jopt (ma_provider_reference a)),
      (''rail_name'', jopt (ma_rail_name a)), (''correlation_id'', JStr (ma_correlation_id a)),
      (''amount'', money (ma_amount a)), (''currency'', jopt (ma_currency a)),
      (''details'', plain_json (JObj (ma_details a)))]))"

definition transaction_created_payload :: "transaction \<Rightarrow> dict" where
  "transaction_created_payload t = envelope ''transaction_created'' (Some (tx_id t)) (tx_created_at t) @
     [(''reference'', JStr (tx_reference t)), (''listing_id'', uuid_text (Some (tx_listing t))),
      (''buyer_id'', uuid_text (Some (tx_buyer t))), (''seller_id'', uuid_text (Some (tx_seller t))),
      (''amount'', money (Some (tx_amount t))), (''currency'', JStr ''KES'')]"

definition transition_payload ::
    "env \<Rightarrow> uuid \<Rightarrow> string \<Rightarrow> string \<Rightarrow> string \<Rightarrow> uuid option \<Rightarrow> string \<Rightarrow> time \<Rightarrow> string option \<Rightarrow> exn + dict" where
  "transition_payload E tid from_st to_st ty i reason at door = bindE (actor E ty i) (\<lambda>who. Inr (
     envelope ''transaction_transition'' (Some tid) at @ [(''from'', JStr from_st), (''to'', JStr to_st)] @ who @
     [(''reason'', JStr reason), (''door_rejection_reason'', jopt door)]))"

definition dispute_payload ::
    "env \<Rightarrow> string \<Rightarrow> uuid \<Rightarrow> uuid \<Rightarrow> string \<Rightarrow> uuid option \<Rightarrow> time \<Rightarrow> dict \<Rightarrow> exn + dict" where
  "dispute_payload E ev tid did ty i at facts = bindE (actor E ty i) (\<lambda>who. Inr (
     envelope ev (Some tid) at @ [(''dispute_id'', uuid_text (Some did))] @ who @ facts))"

definition admin_decision_payload ::
    "env \<Rightarrow> uuid \<Rightarrow> uuid \<Rightarrow> string \<Rightarrow> string \<Rightarrow> uuid option \<Rightarrow> ratio4 option \<Rightarrow> cents option \<Rightarrow> cents option \<Rightarrow> time \<Rightarrow> exn + dict" where
  "admin_decision_payload E tid did decision reason admin share rel ref at =
     bindE (admin_ref E admin) (\<lambda>who. Inr (envelope ''admin_decision'' (Some tid) at @
       [(''dispute_id'', uuid_text (Some did)), (''decision'', JStr decision), (''reason'', JStr reason),
        (''admin_ref'', jopt who), (''seller_share'', ratio share), (''release_amount'', money rel),
        (''refund_amount'', money ref)]))"

definition global_event_linked_payload ::
    "uuid \<Rightarrow> time \<Rightarrow> bytes \<Rightarrow> uuid \<Rightarrow> uuid \<Rightarrow> string \<Rightarrow> dict" where
  "global_event_linked_payload tid at leaf audit_id escrow_id ref =
     envelope ''global_event_linked'' (Some tid) at @
     [(''global_leaf_hash'', JStr (hex32 leaf)), (''global_audit_event_id'', uuid_text (Some audit_id)),
      (''escrow_id'', uuid_text (Some escrow_id)), (''provider_reference'', JStr ref)]"

definition free_text :: "env \<Rightarrow> string option \<Rightarrow> exn + string option" where
  "free_text E v = (let t = strip (case v of None \<Rightarrow> '''' | Some x \<Rightarrow> x) in
     if t \<noteq> '''' then text_keccak E (Some t) else Inr None)"

section \<open>The recorder\<close>

definition anchoring_ready :: "db \<Rightarrow> bool" where
  "anchoring_ready s = has_table ''anchor_events'' s"

definition chain :: "uuid option \<Rightarrow> db \<Rightarrow> anchor_event list" where
  "chain tid s = filter (\<lambda>a. an_transaction a = tid) (d_anchors s)"

definition chain_head :: "uuid option \<Rightarrow> db \<Rightarrow> bytes" where
  "chain_head tid s = (if chain tid s = [] then ZERO_HASH else an_leaf_hash (last (chain tid s)))"

definition record_anchor_event ::
    "env \<Rightarrow> string \<Rightarrow> uuid option \<Rightarrow> dict \<Rightarrow> string option \<Rightarrow> string option \<Rightarrow> db \<Rightarrow> exn + (anchor_event option \<times> db)" where
  "record_anchor_event E ev tid payload src_table src_id s =
     (if \<not> anchoring_ready s then Inr (None, s)
      else bindE (canonical_json (map_json code_points (JObj payload))) (\<lambda>payload_text.
        let prev = chain_head tid s; salt = e_salt E (d_draws s)
        in bindE (leaf_hash E salt prev payload_text) (\<lambda>leaf.
          let a = \<lparr>an_transaction = tid, an_event_type = ev, an_source_table = src_table,
                an_source_id = src_id, an_schema_version = SCHEMA_VERSION, an_payload = payload_text,
                an_salt = salt, an_prev_event_hash = prev, an_leaf_hash = leaf, an_created_at = e_now E\<rparr>
          in Inr (Some a, s\<lparr>d_anchors := d_anchors s @ [a], d_draws := Suc (d_draws s)\<rparr>))))"

definition record_ledger_entry :: "env \<Rightarrow> ledger_entry \<Rightarrow> db \<Rightarrow> exn + db" where
  "record_ledger_entry E e s = (if \<not> anchoring_ready s then Inr s
     else let tid = map_option es_transaction (get_escrow (le_escrow e) s)
       in bindE (record_anchor_event E ''ledger_entry'' tid (ledger_entry_payload e tid)
            (Some ''ledger_entries'') (Some (uuid_str (le_id e))) s) (\<lambda>(_, s'). Inr s'))"

definition linked_collection :: "string \<Rightarrow> db \<Rightarrow> escrow option" where
  "linked_collection ref s = (case concat (map (\<lambda>c. case get_escrow (co_escrow c) s of None \<Rightarrow> [] | Some e \<Rightarrow> [e])
       (filter (\<lambda>c. co_provider_reference c = Some ref) (d_collections s))) of [] \<Rightarrow> None | e # _ \<Rightarrow> Some e)"

definition link_global_funding_event :: "env \<Rightarrow> money_audit_event \<Rightarrow> anchor_event \<Rightarrow> db \<Rightarrow> exn + db" where
  "link_global_funding_event E a anchor s = (case ma_provider_reference a of
       None \<Rightarrow> Inr s
     | Some ref \<Rightarrow> if ref = '''' \<or> \<not> has_table ''collection_attempts'' s then Inr s
       else (case linked_collection ref s of None \<Rightarrow> Inr s
         | Some e \<Rightarrow> bindE (record_anchor_event E ''global_event_linked'' (Some (es_transaction e))
             (global_event_linked_payload (es_transaction e) (ma_occurred_at a) (an_leaf_hash anchor)
               (ma_id a) (es_id e) ref) None None s) (\<lambda>(_, s'). Inr s')))"

definition record_money_audit :: "env \<Rightarrow> money_audit_event \<Rightarrow> db \<Rightarrow> exn + db" where
  "record_money_audit E a s = bindE (money_audit_payload E a) (\<lambda>p.
     bindE (record_anchor_event E ''money_audit'' (ma_transaction a) p
       (Some ''money_audit_events'') (Some (uuid_str (ma_id a))) s) (\<lambda>(anchor, s').
     case anchor of None \<Rightarrow> Inr s'
     | Some an \<Rightarrow> if ma_transaction a = None then link_global_funding_event E a an s' else Inr s'))"

definition record_transaction_created :: "env \<Rightarrow> transaction \<Rightarrow> db \<Rightarrow> exn + db" where
  "record_transaction_created E t s = bindE (record_anchor_event E ''transaction_created'' (Some (tx_id t))
     (transaction_created_payload t) (Some ''transactions'') (Some (uuid_str (tx_id t))) s) (\<lambda>(_, s'). Inr s')"

section \<open>The money audit\<close>

definition build_correlation_id :: "uuid option \<Rightarrow> string option \<Rightarrow> string option \<Rightarrow> string" where
  "build_correlation_id tid ref rail = (let show = (\<lambda>x. case x of None \<Rightarrow> ''-'' | Some v \<Rightarrow> if v = '''' then ''-'' else v) in
     ''txn='' @ show (map_option uuid_str tid) @ ''|ref='' @ show ref @ ''|rail='' @ show rail)"

text \<open>An event with the defaults of \<open>record_money_audit_event\<close>'s optional arguments.\<close>

definition new_audit :: "env \<Rightarrow> string \<Rightarrow> string \<Rightarrow> money_audit_event" where
  "new_audit E action actor_type = \<lparr>ma_id = 0, ma_occurred_at = e_now E, ma_actor_type = actor_type,
     ma_actor_id = None, ma_action = action, ma_reason = None, ma_transaction = None, ma_escrow = None,
     ma_attempt = None, ma_provider_reference = None, ma_rail_name = None, ma_correlation_id = '''',
     ma_amount = None, ma_currency = None, ma_details = []\<rparr>"

definition record_money_audit_event :: "env \<Rightarrow> money_audit_event \<Rightarrow> db \<Rightarrow> exn + db" where
  "record_money_audit_event E a s = (if \<not> has_table ''money_audit_events'' s then Inr s
     else let a' = a\<lparr>ma_id := e_uuid E (d_draws s),
         ma_correlation_id := build_correlation_id (ma_transaction a) (ma_provider_reference a) (ma_rail_name a)\<rparr>
       in record_money_audit E a' (s\<lparr>d_audits := d_audits s @ [a'], d_draws := Suc (d_draws s)\<rparr>))"

section \<open>Recorded transitions, dispute events and admin decisions\<close>

definition record_transition ::
    "env \<Rightarrow> uuid \<Rightarrow> string \<Rightarrow> string \<Rightarrow> string \<Rightarrow> uuid option \<Rightarrow> string \<Rightarrow> time \<Rightarrow> string option \<Rightarrow> db \<Rightarrow> exn + db" where
  "record_transition E tid from_st to_st ty i reason at door s =
     bindE (transition_payload E tid from_st to_st ty i reason at door) (\<lambda>p.
     bindE (record_anchor_event E ''transaction_transition'' (Some tid) p None None s) (\<lambda>(_, s'). Inr s'))"

definition transition_transaction ::
    "env \<Rightarrow> transaction \<Rightarrow> tx_status \<Rightarrow> string \<Rightarrow> uuid option \<Rightarrow> string \<Rightarrow> time \<Rightarrow> string option \<Rightarrow> db \<Rightarrow> exn + (transaction \<times> db)" where
  "transition_transaction E t to ty i reason at door s =
     bindE (record_transition E (tx_id t) (status_value (tx_status t)) (status_value to) ty i reason at door s)
       (\<lambda>s'. Inr (t\<lparr>tx_status := to\<rparr>, s'))"

definition record_dispute_event ::
    "env \<Rightarrow> dispute \<Rightarrow> string \<Rightarrow> string \<Rightarrow> uuid option \<Rightarrow> time \<Rightarrow> dict \<Rightarrow> db \<Rightarrow> exn + db" where
  "record_dispute_event E d ev ty i at facts s =
     bindE (dispute_payload E ev (di_transaction d) (di_id d) ty i at facts) (\<lambda>p.
     bindE (record_anchor_event E ev (Some (di_transaction d)) p None None s) (\<lambda>(_, s'). Inr s'))"

definition record_admin_decision ::
    "env \<Rightarrow> dispute \<Rightarrow> string \<Rightarrow> string \<Rightarrow> uuid option \<Rightarrow> ratio4 option \<Rightarrow> cents option \<Rightarrow> cents option \<Rightarrow> time \<Rightarrow> db \<Rightarrow> exn + db" where
  "record_admin_decision E d decision reason admin share rel ref at s =
     bindE (admin_decision_payload E (di_transaction d) (di_id d) decision reason admin share rel ref at) (\<lambda>p.
     bindE (record_anchor_event E ''admin_decision'' (Some (di_transaction d)) p None None s) (\<lambda>(_, s'). Inr s'))"

section \<open>What recording an event leaves alone\<close>

text \<open>
  \<open>logs_only s s'\<close>: from \<open>s\<close> to \<open>s'\<close> only the event log, the audit table and the count of random
  draws differ. Every recorder below is such a step.
\<close>

definition logs_only :: "db \<Rightarrow> db \<Rightarrow> bool" where
  "logs_only s s' = (s\<lparr>d_audits := [], d_anchors := [], d_draws := 0\<rparr> =
     s'\<lparr>d_audits := [], d_anchors := [], d_draws := 0\<rparr>)"

named_theorems log_steps \<open>operations that only log\<close>

lemma logs_only_refl [simp, intro]: "logs_only s s"
  by (simp add: logs_only_def)

lemma logs_only_trans [trans]: "logs_only s s' \<Longrightarrow> logs_only s' s'' \<Longrightarrow> logs_only s s''"
  by (auto simp: logs_only_def)

lemma logs_only_frame:
  assumes "logs_only s s'"
  shows "d_tables s' = d_tables s" "d_users s' = d_users s" "d_listings s' = d_listings s"
    "d_transactions s' = d_transactions s" "d_escrows s' = d_escrows s" "d_disputes s' = d_disputes s"
    "d_notifications s' = d_notifications s" "d_payouts s' = d_payouts s" "d_collections s' = d_collections s"
    "d_ledger s' = d_ledger s" "d_prompts s' = d_prompts s" "d_rail_health s' = d_rail_health s"
    "d_events s' = d_events s" "d_sessions s' = d_sessions s" "d_codes s' = d_codes s" "d_photos s' = d_photos s"
  using assms by (cases s; cases s'; simp add: logs_only_def)+

lemma logs_only_get:
  assumes "logs_only s s'"
  shows "get_transaction i s' = get_transaction i s" "get_escrow i s' = get_escrow i s"
    "get_dispute i s' = get_dispute i s" "get_user i s' = get_user i s" "get_listing i s' = get_listing i s"
    "has_table n s' = has_table n s"
  using logs_only_frame [OF assms]
  by (simp_all add: get_transaction_def get_escrow_def get_dispute_def get_user_def get_listing_def has_table_def)

lemma record_anchor_event_logs [log_steps]:
  "record_anchor_event E ev tid p st si s = Inr (a, s') \<Longrightarrow> logs_only s s'"
  by (auto simp: record_anchor_event_def bindE_eq_Inr Let_def logs_only_def split: if_splits)

lemma record_ledger_entry_logs [log_steps]: "record_ledger_entry E e s = Inr s' \<Longrightarrow> logs_only s s'"
  by (auto simp: record_ledger_entry_def bindE_eq_Inr Let_def dest: log_steps split: if_splits)

lemma link_global_funding_event_logs [log_steps]:
  "link_global_funding_event E a an s = Inr s' \<Longrightarrow> logs_only s s'"
  by (auto simp: link_global_funding_event_def bindE_eq_Inr dest: log_steps split: if_splits option.splits)

lemma record_money_audit_logs [log_steps]: "record_money_audit E a s = Inr s' \<Longrightarrow> logs_only s s'"
  by (auto simp: record_money_audit_def bindE_eq_Inr dest!: log_steps intro: logs_only_trans
      split: if_splits option.splits)

lemma record_money_audit_event_logs [log_steps]:
  assumes "record_money_audit_event E a s = Inr s'"
  shows "logs_only s s'"
proof (cases "has_table ''money_audit_events'' s")
  case True
  define a' where "a' = a\<lparr>ma_id := e_uuid E (d_draws s),
    ma_correlation_id := build_correlation_id (ma_transaction a) (ma_provider_reference a) (ma_rail_name a)\<rparr>"
  have "logs_only (s\<lparr>d_audits := d_audits s @ [a'], d_draws := Suc (d_draws s)\<rparr>) s'"
    using assms True by (auto simp: record_money_audit_event_def a'_def Let_def dest: log_steps)
  then show ?thesis by (auto simp: logs_only_def)
qed (use assms in \<open>simp add: record_money_audit_event_def\<close>)

lemma record_transaction_created_logs [log_steps]:
  "record_transaction_created E t s = Inr s' \<Longrightarrow> logs_only s s'"
  by (auto simp: record_transaction_created_def bindE_eq_Inr dest: log_steps)

lemma record_transition_logs [log_steps]:
  "record_transition E i f to ty a r at d s = Inr s' \<Longrightarrow> logs_only s s'"
  by (auto simp: record_transition_def bindE_eq_Inr dest: log_steps)

lemma record_dispute_event_logs [log_steps]:
  "record_dispute_event E d ev ty a at f s = Inr s' \<Longrightarrow> logs_only s s'"
  by (auto simp: record_dispute_event_def bindE_eq_Inr dest: log_steps)

lemma record_admin_decision_logs [log_steps]:
  "record_admin_decision E d dec r a sh x y at s = Inr s' \<Longrightarrow> logs_only s s'"
  by (auto simp: record_admin_decision_def bindE_eq_Inr dest: log_steps)

lemma transition_transaction_Inr:
  "transition_transaction E t to ty i r at d s = Inr (t', s') \<Longrightarrow>
     t' = t\<lparr>tx_status := to\<rparr> \<and> logs_only s s'"
  by (auto simp: transition_transaction_def bindE_eq_Inr dest: log_steps)

section \<open>The chain of a transaction\<close>

text \<open>
  A chain is well linked when each event's \<open>prev_event_hash\<close> is the leaf before it (32 zero bytes
  for the first) and its leaf is the hash of its own salt, predecessor and payload.
\<close>

fun linked_from :: "env \<Rightarrow> bytes \<Rightarrow> anchor_event list \<Rightarrow> bool" where
  "linked_from E prev [] = True"
| "linked_from E prev (a # as) = (an_prev_event_hash a = prev \<and>
     leaf_hash E (an_salt a) prev (an_payload a) = Inr (an_leaf_hash a) \<and> linked_from E (an_leaf_hash a) as)"

definition chains_linked :: "env \<Rightarrow> db \<Rightarrow> bool" where
  "chains_linked E s = (\<forall>tid. linked_from E ZERO_HASH (chain tid s))"

lemma linked_from_append:
  "linked_from E prev (as @ [a]) \<longleftrightarrow> linked_from E prev as \<and>
     (let p = (if as = [] then prev else an_leaf_hash (last as)) in an_prev_event_hash a = p \<and>
       leaf_hash E (an_salt a) p (an_payload a) = Inr (an_leaf_hash a))"
  by (induction as arbitrary: prev) (auto simp: Let_def)

text \<open>Recording an event keeps every chain linked.\<close>

lemma record_anchor_event_linked:
  assumes "record_anchor_event E ev tid p st si s = Inr (a, s')" and "chains_linked E s"
  shows "chains_linked E s'"
proof (cases "anchoring_ready s")
  case False
  with assms show ?thesis by (simp add: record_anchor_event_def)
next
  case True
  with assms(1) obtain x where s': "s' = s\<lparr>d_anchors := d_anchors s @ [x], d_draws := Suc (d_draws s)\<rparr>"
    and x: "an_transaction x = tid" "an_prev_event_hash x = chain_head tid s"
      "leaf_hash E (an_salt x) (chain_head tid s) (an_payload x) = Inr (an_leaf_hash x)"
    by (auto simp: record_anchor_event_def bindE_eq_Inr Let_def)
  have "linked_from E ZERO_HASH (chain i s')" for i
  proof (cases "i = tid")
    case True
    then have "chain i s' = chain i s @ [x]" using s' x(1) by (simp add: chain_def)
    then show ?thesis using assms(2) x(2,3) True
      by (auto simp: linked_from_append chains_linked_def chain_head_def Let_def)
  next
    case False
    then have "chain i s' = chain i s" using s' x(1) by (auto simp: chain_def)
    then show ?thesis using assms(2) by (simp add: chains_linked_def)
  qed
  then show ?thesis by (simp add: chains_linked_def)
qed

text \<open>
  A chain's last leaf determines the whole chain, unless two of the byte strings hashed for it
  collide or one hashes to the 32 zero bytes a chain starts from. The events are compared by salt,
  predecessor, leaf and payload bytes.
\<close>

definition leaf_input :: "anchor_event \<Rightarrow> bytes" where
  "leaf_input a = LEAF_PREFIX @ an_salt a @ an_prev_event_hash a @
     (case utf8 (an_payload a) of Inl _ \<Rightarrow> [] | Inr b \<Rightarrow> b)"

definition no_collision :: "env \<Rightarrow> anchor_event list \<Rightarrow> bool" where
  "no_collision E as = (inj_on (e_keccak E) (leaf_input ` set as) \<and> (\<forall>a \<in> set as. e_keccak E (leaf_input a) \<noteq> ZERO_HASH))"

definition same_event :: "anchor_event \<Rightarrow> anchor_event \<Rightarrow> bool" where
  "same_event a b = (an_salt a = an_salt b \<and> an_prev_event_hash a = an_prev_event_hash b \<and>
     utf8 (an_payload a) = utf8 (an_payload b) \<and> an_leaf_hash a = an_leaf_hash b)"

lemma leaf_hash_Inr:
  "leaf_hash E s p t = Inr h \<longleftrightarrow> (\<exists>b. utf8 t = Inr b \<and> h = e_keccak E (LEAF_PREFIX @ s @ p @ b) \<and>
     length s = HASH_SIZE \<and> length p = HASH_SIZE)"
  by (auto simp: leaf_hash_def bindE_eq_Inr keccak256_def)

lemma linked_leaf_input:
  assumes "linked_from E prev as" and "a \<in> set as"
  shows "an_leaf_hash a = e_keccak E (leaf_input a)"
  using assms by (induction as arbitrary: prev) (auto simp: leaf_hash_Inr leaf_input_def)

lemma same_leaf_same_event:
  assumes "leaf_hash E (an_salt a) (an_prev_event_hash a) (an_payload a) = Inr (an_leaf_hash a)"
    and "leaf_hash E (an_salt b) (an_prev_event_hash b) (an_payload b) = Inr (an_leaf_hash b)"
    and "an_leaf_hash a = an_leaf_hash b" and "inj_on (e_keccak E) {leaf_input a, leaf_input b}"
  shows "same_event a b"
proof -
  obtain x y where x: "utf8 (an_payload a) = Inr x" "length (an_salt a) = HASH_SIZE" "length (an_prev_event_hash a) = HASH_SIZE"
    and y: "utf8 (an_payload b) = Inr y" "length (an_salt b) = HASH_SIZE" "length (an_prev_event_hash b) = HASH_SIZE"
    and k: "e_keccak E (leaf_input a) = an_leaf_hash a" "e_keccak E (leaf_input b) = an_leaf_hash b"
    using assms(1,2) by (auto simp: leaf_hash_Inr leaf_input_def)
  from k assms(3,4) have "leaf_input a = leaf_input b" by (auto dest: inj_onD)
  then show ?thesis using x y assms(3) by (simp add: leaf_input_def same_event_def)
qed

lemma linked_chains_agree:
  assumes "linked_from E ZERO_HASH as" and "linked_from E ZERO_HASH bs"
    and "no_collision E (as @ bs)"
    and "(if as = [] then ZERO_HASH else an_leaf_hash (last as)) = (if bs = [] then ZERO_HASH else an_leaf_hash (last bs))"
  shows "list_all2 same_event as bs"
  using assms
proof (induction as arbitrary: bs rule: rev_induct)
  case Nil
  have "bs = []"
  proof (rule ccontr)
    assume ne: "bs \<noteq> []"
    then have "an_leaf_hash (last bs) = e_keccak E (leaf_input (last bs))"
      using linked_leaf_input [OF Nil.prems(2)] by simp
    moreover have "e_keccak E (leaf_input (last bs)) \<noteq> ZERO_HASH"
      using Nil.prems(3) ne by (simp add: no_collision_def)
    ultimately show False using Nil.prems(4) ne by simp
  qed
  then show ?case by simp
next
  case (snoc a as)
  have la: "an_leaf_hash a = e_keccak E (leaf_input a)"
    using linked_leaf_input [OF snoc.prems(1)] by simp
  have "bs \<noteq> []" using snoc.prems(3,4) la by (auto simp: no_collision_def)
  then obtain cs b where bs: "bs = cs @ [b]" by (metis rev_exhaust)
  have a: "linked_from E ZERO_HASH as" "an_prev_event_hash a = (if as = [] then ZERO_HASH else an_leaf_hash (last as))"
    "leaf_hash E (an_salt a) (an_prev_event_hash a) (an_payload a) = Inr (an_leaf_hash a)"
    using snoc.prems(1) by (auto simp: linked_from_append Let_def)
  have b: "linked_from E ZERO_HASH cs" "an_prev_event_hash b = (if cs = [] then ZERO_HASH else an_leaf_hash (last cs))"
    "leaf_hash E (an_salt b) (an_prev_event_hash b) (an_payload b) = Inr (an_leaf_hash b)"
    using snoc.prems(2) bs by (auto simp: linked_from_append Let_def)
  have same: "same_event a b"
    using a(3) b(3) by (rule same_leaf_same_event)
      (use snoc.prems(3,4) bs in \<open>auto simp: no_collision_def intro: inj_on_subset\<close>)
  have "list_all2 same_event as cs"
  proof (rule snoc.IH [OF a(1) b(1)])
    show "no_collision E (as @ cs)"
      using snoc.prems(3) bs by (auto simp: no_collision_def intro: inj_on_subset)
    show "(if as = [] then ZERO_HASH else an_leaf_hash (last as)) = (if cs = [] then ZERO_HASH else an_leaf_hash (last cs))"
      using same a(2) b(2) by (simp add: same_event_def)
  qed
  with same bs show ?case by (simp add: list_all2_appendI)
qed

section \<open>Properties\<close>

text \<open>C36: The last leaf of a chain fixes the chain: two linked chains that end in the same leaf hold the same
  events (salt, predecessor, payload bytes and leaf) in the same order, unless two of the byte strings
  hashed for them collide or one hashes to the 32 zero bytes a chain starts from.\<close>

lemma last_leaf_fixes_chain:
  assumes "linked_from E ZERO_HASH as" and "linked_from E ZERO_HASH bs" and "no_collision E (as @ bs)"
    and "(if as = [] then ZERO_HASH else an_leaf_hash (last as)) = (if bs = [] then ZERO_HASH else an_leaf_hash (last bs))"
  shows "list_all2 same_event as bs"
  by (rule linked_chains_agree [OF assms])

definition sample_event :: anchor_event where
  "sample_event = \<lparr>an_transaction = Some 10, an_event_type = ''transaction_created'', an_source_table = Some ''transactions'', an_source_id = Some ''10'',
     an_schema_version = 1, an_payload = code_points ''x'', an_salt = replicate 32 7, an_prev_event_hash = ZERO_HASH,
     an_leaf_hash = replicate 32 9, an_created_at = 0\<rparr>"

lemma last_leaf_fixes_chain_witness: "list_all2 same_event [sample_event] [sample_event]"
proof -
  let ?E = "sample_env 7\<lparr>e_keccak := \<lambda>_. replicate 32 9\<rparr>"
  have "linked_from ?E ZERO_HASH [sample_event]"
    by (simp add: sample_event_def leaf_hash_def ZERO_HASH_def HASH_SIZE_def LEAF_PREFIX_def utf8_def code_points_def is_surrogate_def
        keccak256_def)
  moreover have "replicate 32 (9::8 word) \<noteq> ZERO_HASH" by (simp add: ZERO_HASH_def HASH_SIZE_def)
  then have "no_collision ?E ([sample_event] @ [sample_event])" by (simp add: no_collision_def)
  ultimately show ?thesis by (intro last_leaf_fixes_chain) simp_all
qed

end
