(* ===== verification/Rails.thy ===== *)
theory Rails
  imports Anchoring "HOL-Library.Char_ord"
begin

text \<open>
  The custody rails (app/services/custody/registry.py, selection.py, rail_breaker.py): how the
  registry is built from the settings, in which order rails are tried, when a new escrow opens on
  eConfirm, and the circuit breaker that takes a failing rail out of the routing. The rail adapters
  themselves are HTTP clients; the registry keeps their names.
\<close>

section \<open>The registry\<close>

definition SUPPORTED_RAILS :: "string list" where
  "SUPPORTED_RAILS = [''simulated'', ''loop'', ''pesapal'', ''intasend'', ''econfirm'']"

definition LIVE_PAYOUT_RAILS :: "string list" where
  "LIVE_PAYOUT_RAILS = [''loop'', ''intasend'', ''econfirm'']"

definition ordered_collection_rail_names :: "registry \<Rightarrow> string list \<Rightarrow> string list" where
  "ordered_collection_rail_names R exclude = filter (\<lambda>r. r \<notin> set exclude \<and> r \<in> set (rg_collection_rails R))
     (rg_collection_priority R)"

definition ordered_payout_rail_names :: "registry \<Rightarrow> string list \<Rightarrow> string list" where
  "ordered_payout_rail_names R exclude = filter (\<lambda>r. r \<notin> set exclude \<and> r \<in> set (rg_payout_rails R) \<and>
     \<not> (r \<in> set LIVE_PAYOUT_RAILS \<and> \<not> rg_live_payouts_enabled R)) (rg_payout_priority R)"

definition select_collection_rail :: "registry \<Rightarrow> string list \<Rightarrow> exn + string" where
  "select_collection_rail R exclude = (case ordered_collection_rail_names R exclude of
       [] \<Rightarrow> Inl (RuntimeError ''No enabled collection rails are available for routing.'')
     | r # _ \<Rightarrow> Inr r)"

definition select_payout_rail :: "registry \<Rightarrow> string list \<Rightarrow> exn + string" where
  "select_payout_rail R exclude = (case ordered_payout_rail_names R exclude of
       [] \<Rightarrow> Inl (RuntimeError ''No enabled payout rails are available for routing.'')
     | r # _ \<Rightarrow> Inr r)"

definition get_collection_rail :: "registry \<Rightarrow> string \<Rightarrow> exn + string" where
  "get_collection_rail R r = (if r \<notin> set (rg_collection_rails R)
     then Inl (RuntimeError (''Collection rail '' @ [CHR 0x27] @ r @ [CHR 0x27] @ '' is not available at runtime.''))
     else Inr r)"

definition get_payout_rail :: "registry \<Rightarrow> string \<Rightarrow> exn + string" where
  "get_payout_rail R r = (if r \<notin> set (rg_payout_rails R)
     then Inl (RuntimeError (''Payout rail '' @ [CHR 0x27] @ r @ [CHR 0x27] @ '' is not available at runtime.''))
     else if r \<in> set LIVE_PAYOUT_RAILS \<and> \<not> rg_live_payouts_enabled R
     then Inl (RuntimeError (''Live payouts are blocked. Set ENVIRONMENT=production and '' @
       ''ALLOW_LIVE_PAYOUTS=true to enable non-simulated payout rails.''))
     else Inr r)"

definition rail_enabled :: "string \<Rightarrow> settings \<Rightarrow> bool" where
  "rail_enabled r st = (if r = ''simulated'' then True
     else if r = ''loop'' then st_loop_enabled st
     else if r = ''pesapal'' then st_pesapal_enabled st
     else if r = ''intasend'' then st_intasend_enabled st
     else if r = ''econfirm'' then st_econfirm_enabled st
     else False)"

definition parse_rail_priority :: "string \<Rightarrow> string \<Rightarrow> exn + string list" where
  "parse_rail_priority raw setting = (let rails = map (\<lambda>v. py_lower (strip v))
       (filter (\<lambda>v. strip v \<noteq> '''') (split_on (CHR '','') raw)) in
     if rails = [] then Inl (ValueError (setting @ '' must include at least one rail.''))
     else if \<not> distinct rails then Inl (ValueError (setting @ '' must not contain duplicate rails.''))
     else Inr rails)"

definition live_payouts_enabled :: "settings \<Rightarrow> bool" where
  "live_payouts_enabled st = (py_lower (strip (st_environment st)) = ''production'' \<and> st_allow_live_payouts st)"

definition unknown_rails :: "string list \<Rightarrow> string list" where
  "unknown_rails rails = sort (remdups (filter (\<lambda>r. r \<notin> set SUPPORTED_RAILS) rails))"

text \<open>The provider's capabilities: the eConfirm adapter's, or those of the configured mode.\<close>

definition econfirm_capabilities :: capabilities where
  "econfirm_capabilities = \<lparr>cap_holds_funds_structurally = True, cap_supports_split_payout = False,
     cap_supports_partial_release = False, cap_supports_webhook_auth = False\<rparr>"

definition configured_capabilities :: "custody_mode \<Rightarrow> capabilities" where
  "configured_capabilities mode = \<lparr>cap_holds_funds_structurally = (mode = TIER_1), cap_supports_split_payout = False,
     cap_supports_partial_release = False, cap_supports_webhook_auth = False\<rparr>"

definition build_custody_registry :: "settings \<Rightarrow> exn + registry" where
  "build_custody_registry st =
     bindE (parse_rail_priority (st_collection_priority st) ''CUSTODY_COLLECTION_RAIL_PRIORITY'') (\<lambda>collection.
     bindE (parse_rail_priority (st_payout_priority st) ''CUSTODY_PAYOUT_RAIL_PRIORITY'') (\<lambda>payout.
     if unknown_rails collection \<noteq> []
       then Inl (ValueError (''Unknown collection rails configured: '' @ join_text '', '' (unknown_rails collection)))
     else if unknown_rails payout \<noteq> []
       then Inl (ValueError (''Unknown payout rails configured: '' @ join_text '', '' (unknown_rails payout)))
     else let crails = filter (\<lambda>r. rail_enabled r st) collection; prails = filter (\<lambda>r. rail_enabled r st) payout in
       if crails = [] then Inl (ValueError ''No enabled collection rails are available from CUSTODY_COLLECTION_RAIL_PRIORITY.'')
       else if prails = [] then Inl (ValueError ''No enabled payout rails are available from CUSTODY_PAYOUT_RAIL_PRIORITY.'')
       else Inr \<lparr>rg_provider_capabilities = (if st_custody_mode st = TIER_1 \<and> st_econfirm_enabled st
               then econfirm_capabilities else configured_capabilities (st_custody_mode st)),
             rg_collection_rails = crails, rg_payout_rails = prails, rg_custody_mode = st_custody_mode st,
             rg_collection_priority = collection, rg_payout_priority = payout,
             rg_live_payouts_enabled = live_payouts_enabled st\<rparr>))"

section \<open>Choosing the custody provider of a new escrow\<close>

definition PROVIDER_ECONFIRM :: string where "PROVIDER_ECONFIRM = ''econfirm''"
definition PROVIDER_SIMULATED :: string where "PROVIDER_SIMULATED = ''simulated''"

definition is_valid_key_config :: "env \<Rightarrow> bool" where
  "is_valid_key_config E = (let keys = parse_keys (st_econfirm_code_encryption_key (e_settings E))
     in keys \<noteq> [] \<and> list_all (e_fernet_key_ok E) keys)"

definition select_custody_provider :: "env \<Rightarrow> decimal \<Rightarrow> bool \<Rightarrow> exn + (string \<times> string)" where
  "select_custody_provider E amount breaker_open = (let st = e_settings E;
       low = st_econfirm_min_amount st; high = st_econfirm_max_amount st in
     if \<not> st_econfirm_enabled st then Inr (PROVIDER_SIMULATED, ''econfirm_disabled'')
     else if strip (st_econfirm_api_key st) = '''' then Inr (PROVIDER_SIMULATED, ''econfirm_api_key_missing'')
     else if \<not> is_valid_key_config E then Inr (PROVIDER_SIMULATED, ''econfirm_encryption_key_missing'')
     else if breaker_open then Inr (PROVIDER_SIMULATED, ''econfirm_breaker_open'')
     else (case dec_less amount low of None \<Rightarrow> Inl InvalidOperation
       | Some True \<Rightarrow> Inr (PROVIDER_SIMULATED, ''amount_below_min_'' @ dec_str low)
       | Some False \<Rightarrow> (case dec_less high amount of None \<Rightarrow> Inl InvalidOperation
         | Some True \<Rightarrow> Inr (PROVIDER_SIMULATED, ''amount_above_max_'' @ dec_str high)
         | Some False \<Rightarrow> Inr (PROVIDER_ECONFIRM, ''econfirm_selected''))))"

definition effective_max_principal :: "settings \<Rightarrow> decimal option \<Rightarrow> exn + decimal" where
  "effective_max_principal st reported = (let cap = st_econfirm_max_amount st in
     case reported of None \<Rightarrow> Inr cap
     | Some r \<Rightarrow> (case dec_less r cap of None \<Rightarrow> Inl InvalidOperation
       | Some b \<Rightarrow> Inr (if b then r else cap)))"

section \<open>The breaker\<close>

record breaker_policy =
  bp_failure_threshold :: int
  bp_cooldown_seconds :: int

definition make_policy :: "int \<Rightarrow> int \<Rightarrow> exn + breaker_policy" where
  "make_policy threshold cooldown = (if threshold \<le> 0 then Inl (ValueError ''failure_threshold must be greater than 0'')
     else if cooldown \<le> 0 then Inl (ValueError ''cooldown_seconds must be greater than 0'')
     else Inr \<lparr>bp_failure_threshold = threshold, bp_cooldown_seconds = cooldown\<rparr>)"

definition default_policy :: breaker_policy where
  "default_policy = \<lparr>bp_failure_threshold = 3, bp_cooldown_seconds = 300\<rparr>"

definition get_rail_health :: "string \<Rightarrow> db \<Rightarrow> rail_health option" where
  "get_rail_health r s = row_get rh_rail_name r (d_rail_health s)"

definition put_rail_health :: "rail_health \<Rightarrow> db \<Rightarrow> db" where
  "put_rail_health row s = s\<lparr>d_rail_health := row_put rh_rail_name row (d_rail_health s)\<rparr>"

interpretation rails: store get_rail_health put_rail_health rh_rail_name
  by unfold_locales (auto simp: get_rail_health_def put_rail_health_def row_get_put dest: row_get_SomeD)

definition new_rail_health :: "string \<Rightarrow> string option \<Rightarrow> rail_health" where
  "new_rail_health r provider = \<lparr>rh_rail_name = r, rh_provider_name = provider, rh_breaker_state = CLOSED,
     rh_consecutive_failures = 0, rh_last_error_code = None, rh_last_error_message = None, rh_opened_at = None,
     rh_last_success_at = None, rh_last_failure_at = None, rh_cooldown_until = None\<rparr>"

definition truthy_text :: "string option \<Rightarrow> bool" where
  "truthy_text x = (case x of None \<Rightarrow> False | Some v \<Rightarrow> v \<noteq> '''')"

definition get_or_create_rail_health :: "string \<Rightarrow> string option \<Rightarrow> db \<Rightarrow> rail_health \<times> db" where
  "get_or_create_rail_health r provider s = (case get_rail_health r s of
       Some row \<Rightarrow> let row' = (if truthy_text provider \<and> \<not> truthy_text (rh_provider_name row)
           then row\<lparr>rh_provider_name := provider\<rparr> else row) in (row', put_rail_health row' s)
     | None \<Rightarrow> (new_rail_health r provider, s\<lparr>d_rail_health := d_rail_health s @ [new_rail_health r provider]\<rparr>))"

definition refresh_open_breaker :: "time \<Rightarrow> rail_health \<Rightarrow> rail_health" where
  "refresh_open_breaker now row = (if rh_breaker_state row \<noteq> OPEN then row
     else case rh_cooldown_until row of None \<Rightarrow> row
     | Some until \<Rightarrow> if until \<le> now then row\<lparr>rh_breaker_state := HALF_OPEN\<rparr> else row)"

definition fail_row :: "breaker_policy \<Rightarrow> string option \<Rightarrow> string option \<Rightarrow> time \<Rightarrow> rail_health \<Rightarrow> rail_health" where
  "fail_row policy code message now row0 = (let row = refresh_open_breaker now row0;
     row1 = row\<lparr>rh_consecutive_failures := rh_consecutive_failures row + 1, rh_last_failure_at := Some now,
       rh_last_error_code := Some (or_text [Some (strip (or_text [code, rh_last_error_code row] ''unknown''))] ''unknown''),
       rh_last_error_message := none_if_empty (strip (or_text [message, rh_last_error_message row] ''''))\<rparr>
     in if bp_failure_threshold policy \<le> rh_consecutive_failures row1 \<or> rh_breaker_state row1 = HALF_OPEN
       then row1\<lparr>rh_breaker_state := OPEN, rh_opened_at := Some now,
         rh_cooldown_until := Some (now + seconds (bp_cooldown_seconds policy))\<rparr>
       else row1)"

definition success_row :: "time \<Rightarrow> rail_health \<Rightarrow> rail_health" where
  "success_row now row = row\<lparr>rh_breaker_state := CLOSED, rh_consecutive_failures := 0, rh_last_success_at := Some now,
     rh_last_error_code := None, rh_last_error_message := None, rh_opened_at := None, rh_cooldown_until := None\<rparr>"

text \<open>Without the \<open>rail_health\<close> table the recorders do nothing and no rail is blocked.\<close>

definition record_rail_failure ::
    "string \<Rightarrow> string option \<Rightarrow> string option \<Rightarrow> string option \<Rightarrow> time \<Rightarrow> breaker_policy option \<Rightarrow> db \<Rightarrow> db" where
  "record_rail_failure r provider code message now policy s = (if \<not> has_table ''rail_health'' s then s
     else let (row, s') = get_or_create_rail_health r provider s
       in put_rail_health (fail_row (case policy of None \<Rightarrow> default_policy | Some p \<Rightarrow> p) code message now row) s')"

definition record_rail_success :: "string \<Rightarrow> string option \<Rightarrow> time \<Rightarrow> db \<Rightarrow> db" where
  "record_rail_success r provider now s = (if \<not> has_table ''rail_health'' s then s
     else let (row, s') = get_or_create_rail_health r provider s in put_rail_health (success_row now row) s')"

fun blocked_rails_impl :: "string list \<Rightarrow> time \<Rightarrow> db \<Rightarrow> string list \<times> db" where
  "blocked_rails_impl [] now s = ([], s)"
| "blocked_rails_impl (r # rs) now s = (let (row0, s1) = get_or_create_rail_health r (Some r) s;
     row = refresh_open_breaker now row0; (blocked, s2) = blocked_rails_impl rs now (put_rail_health row s1)
     in (if rh_breaker_state row = OPEN then r # blocked else blocked, s2))"

definition blocked_rails_for_routing :: "string list \<Rightarrow> time \<Rightarrow> db \<Rightarrow> string list \<times> db" where
  "blocked_rails_for_routing rs now s = (if \<not> has_table ''rail_health'' s then ([], s) else blocked_rails_impl rs now s)"

definition select_collection_rail_for_routing :: "registry \<Rightarrow> time \<Rightarrow> db \<Rightarrow> (exn + string) \<times> db" where
  "select_collection_rail_for_routing R now s =
     (let (blocked, s') = blocked_rails_for_routing (rg_collection_priority R) now s in (select_collection_rail R blocked, s'))"

definition select_payout_rail_for_routing :: "registry \<Rightarrow> time \<Rightarrow> db \<Rightarrow> (exn + string) \<times> db" where
  "select_payout_rail_for_routing R now s =
     (let (blocked, s') = blocked_rails_for_routing (rg_payout_priority R) now s in (select_payout_rail R blocked, s'))"

section \<open>Recording touches the breaker table only\<close>

definition rails_only :: "db \<Rightarrow> db \<Rightarrow> bool" where
  "rails_only s s' = (s\<lparr>d_rail_health := []\<rparr> = s'\<lparr>d_rail_health := []\<rparr>)"

lemma rails_only_refl [simp, intro]: "rails_only s s"
  by (simp add: rails_only_def)

lemma rails_only_trans [trans]: "rails_only s s' \<Longrightarrow> rails_only s' s'' \<Longrightarrow> rails_only s s''"
  by (simp add: rails_only_def)

lemma rails_only_put [simp, intro]: "rails_only s (put_rail_health row s)"
  by (simp add: rails_only_def put_rail_health_def)

lemma rails_only_frame:
  assumes "rails_only s s'"
  shows "d_tables s' = d_tables s" "d_users s' = d_users s" "d_listings s' = d_listings s"
    "d_transactions s' = d_transactions s" "d_escrows s' = d_escrows s" "d_disputes s' = d_disputes s"
    "d_notifications s' = d_notifications s" "d_payouts s' = d_payouts s" "d_collections s' = d_collections s"
    "d_ledger s' = d_ledger s" "d_prompts s' = d_prompts s" "d_audits s' = d_audits s"
    "d_anchors s' = d_anchors s" "d_draws s' = d_draws s"
  using assms by (cases s; cases s'; simp add: rails_only_def)+

text \<open>
  What the money and order services rely on when they record a rail's outcome or route around
  blocked rails.
\<close>

locale rail_recorder =
  fixes step :: "db \<Rightarrow> db"
  assumes step_only: "rails_only s (step s)"
begin

lemmas step_frame = rails_only_frame [OF step_only]

lemma step_get:
  "get_transaction i (step s) = get_transaction i s" "get_escrow i (step s) = get_escrow i s"
  "get_dispute i (step s) = get_dispute i s" "get_user i (step s) = get_user i s"
  "get_listing i (step s) = get_listing i s" "has_table n (step s) = has_table n s"
  by (simp_all add: get_transaction_def get_escrow_def get_dispute_def get_user_def get_listing_def
      has_table_def step_frame)

end

lemma get_or_create_only: "rails_only s (snd (get_or_create_rail_health r p s))"
  by (auto simp: get_or_create_rail_health_def Let_def split: option.splits) (simp add: rails_only_def)

lemma blocked_rails_impl_only: "rails_only s (snd (blocked_rails_impl rs now s))"
proof (induction rs arbitrary: s)
  case (Cons r rs)
  obtain row s1 where g: "get_or_create_rail_health r (Some r) s = (row, s1)" by force
  then have "rails_only s s1" using get_or_create_only by (metis snd_conv)
  also have "rails_only s1 (put_rail_health (refresh_open_breaker now row) s1)" by simp
  also have "rails_only (put_rail_health (refresh_open_breaker now row) s1)
      (snd (blocked_rails_impl rs now (put_rail_health (refresh_open_breaker now row) s1)))"
    by (rule Cons.IH)
  finally show ?case using g by (simp add: Let_def case_prod_unfold)
qed simp

interpretation rail_failure: rail_recorder "record_rail_failure r p c m now pol" for r p c m now pol
  by unfold_locales (auto simp: record_rail_failure_def case_prod_unfold Let_def intro: rails_only_trans [OF get_or_create_only])

interpretation rail_success: rail_recorder "record_rail_success r p now" for r p now
  by unfold_locales (auto simp: record_rail_success_def case_prod_unfold Let_def intro: rails_only_trans [OF get_or_create_only])

interpretation rail_routing: rail_recorder "\<lambda>s. snd (blocked_rails_for_routing rs now s)" for rs now
  by unfold_locales (auto simp: blocked_rails_for_routing_def blocked_rails_impl_only)

interpretation payout_routing: rail_recorder "\<lambda>s. snd (select_payout_rail_for_routing R now s)" for R now
  by unfold_locales (simp add: select_payout_rail_for_routing_def case_prod_unfold Let_def rail_routing.step_only)

interpretation collection_routing: rail_recorder "\<lambda>s. snd (select_collection_rail_for_routing R now s)" for R now
  by unfold_locales (simp add: select_collection_rail_for_routing_def case_prod_unfold Let_def rail_routing.step_only)

section \<open>Which rails are blocked\<close>

text \<open>
  The breaker's contract, stated on the history of a rail: it is blocked while at least three
  failures were recorded since its last success and the last of them is less than 300 seconds ago.
  \<open>rail_track\<close> counts those failures and keeps the time of the last one.
\<close>

datatype rail_event =
    RailFailed string "string option" "string option" "string option" time
  | RailWorked string "string option" time
  | RailsRouted "string list" time

fun event_time :: "rail_event \<Rightarrow> time" where
  "event_time (RailFailed r p c m t) = t"
| "event_time (RailWorked r p t) = t"
| "event_time (RailsRouted rs t) = t"

fun rail_event_step :: "rail_event \<Rightarrow> db \<Rightarrow> db" where
  "rail_event_step (RailFailed r p c m t) s = record_rail_failure r p c m t None s"
| "rail_event_step (RailWorked r p t) s = record_rail_success r p t s"
| "rail_event_step (RailsRouted rs t) s = snd (blocked_rails_for_routing rs t s)"

fun track :: "string \<Rightarrow> rail_event \<Rightarrow> int \<times> time \<Rightarrow> int \<times> time" where
  "track r (RailFailed r' p c m t) nl = (if r' = r then (fst nl + 1, t) else nl)"
| "track r (RailWorked r' p t) nl = (if r' = r then (0, snd nl) else nl)"
| "track r (RailsRouted rs t) nl = nl"

definition rail_track :: "string \<Rightarrow> rail_event list \<Rightarrow> int \<times> time" where
  "rail_track r evs = fold (track r) evs (0, 0)"

definition cooling :: "string \<Rightarrow> rail_event list \<Rightarrow> time \<Rightarrow> bool" where
  "cooling r evs now = (3 \<le> fst (rail_track r evs) \<and> now < snd (rail_track r evs) + seconds 300)"

definition row_tracks :: "time \<Rightarrow> int \<times> time \<Rightarrow> rail_health \<Rightarrow> bool" where
  "row_tracks clock nl row = (0 \<le> fst nl \<and> rh_consecutive_failures row = fst nl \<and>
     (if fst nl < 3 then rh_breaker_state row = CLOSED
      else rh_cooldown_until row = Some (snd nl + seconds 300) \<and>
        (rh_breaker_state row = OPEN \<or> rh_breaker_state row = HALF_OPEN \<and> snd nl + seconds 300 \<le> clock)))"

definition table_tracks :: "time \<Rightarrow> (string \<Rightarrow> int \<times> time) \<Rightarrow> db \<Rightarrow> bool" where
  "table_tracks clock nl s = (\<forall>r. (get_rail_health r s = None \<longrightarrow> fst (nl r) = 0) \<and>
     (\<forall>row. get_rail_health r s = Some row \<longrightarrow> row_tracks clock (nl r) row))"

lemma row_tracks_later: "row_tracks t nl row \<Longrightarrow> t \<le> t' \<Longrightarrow> row_tracks t' nl row"
  by (auto simp: row_tracks_def split: if_splits)

lemma row_tracks_provider [simp]: "row_tracks t nl (row\<lparr>rh_provider_name := p\<rparr>) = row_tracks t nl row"
  by (simp add: row_tracks_def)

lemma row_tracks_new: "fst nl = 0 \<Longrightarrow> row_tracks t nl (new_rail_health r p)"
  by (simp add: row_tracks_def new_rail_health_def)

lemma row_tracks_refresh: "row_tracks t nl row \<Longrightarrow> row_tracks t nl (refresh_open_breaker t row)"
  by (auto simp: row_tracks_def refresh_open_breaker_def split: if_splits)

lemma row_tracks_fail:
  "row_tracks t nl row \<Longrightarrow> row_tracks t (fst nl + 1, t) (fail_row default_policy c m t row)"
  using row_tracks_refresh [of t nl row]
  by (cases "refresh_open_breaker t row")
    (auto simp: row_tracks_def fail_row_def Let_def default_policy_def split: if_splits)

lemma row_tracks_success: "row_tracks t (0, l) (success_row t row)"
  by (simp add: row_tracks_def success_row_def)

lemma row_names [simp]: "rh_rail_name (fail_row pol c m t row) = rh_rail_name row"
  "rh_rail_name (success_row t row) = rh_rail_name row" "rh_rail_name (refresh_open_breaker t row) = rh_rail_name row"
  by (auto simp: fail_row_def success_row_def refresh_open_breaker_def Let_def split: option.splits)

lemma get_or_create_tracks:
  assumes "get_or_create_rail_health r p s = (row, s')" and "table_tracks t nl s"
  shows "rh_rail_name row = r" and "row_tracks t (nl r) row" and "get_rail_health r s' = Some row"
    and "\<And>r'. r' \<noteq> r \<Longrightarrow> get_rail_health r' s' = get_rail_health r' s"
proof -
  have "rh_rail_name row = r \<and> row_tracks t (nl r) row \<and> get_rail_health r s' = Some row \<and>
      (\<forall>r'. r' \<noteq> r \<longrightarrow> get_rail_health r' s' = get_rail_health r' s)"
  proof (cases "get_rail_health r s")
    case None
    then have eq: "row = new_rail_health r p" "s' = s\<lparr>d_rail_health := d_rail_health s @ [row]\<rparr>"
      using assms(1) by (auto simp: get_or_create_rail_health_def)
    moreover have "fst (nl r) = 0" using assms(2) None by (simp add: table_tracks_def)
    moreover have "rh_rail_name row = r" using eq by (simp add: new_rail_health_def)
    ultimately show ?thesis using None row_tracks_new [of "nl r" t r p]
      by (simp add: get_rail_health_def row_get_append split: option.split)
  next
    case (Some row0)
    then have "row_tracks t (nl r) row0" using assms(2) by (simp add: table_tracks_def)
    moreover have "row = row0 \<or> row = row0\<lparr>rh_provider_name := p\<rparr>" and "s' = put_rail_health row s"
      using assms(1) Some by (auto simp: get_or_create_rail_health_def Let_def split: if_splits)
    moreover have "rh_rail_name row0 = r" by (rule rails.get_key [OF Some])
    ultimately show ?thesis using Some by (elim disjE) (simp_all add: rails.get_put)
  qed
  then show "rh_rail_name row = r" and "row_tracks t (nl r) row" and "get_rail_health r s' = Some row"
    and "\<And>r'. r' \<noteq> r \<Longrightarrow> get_rail_health r' s' = get_rail_health r' s" by auto
qed

text \<open>Writing one rail's row back.\<close>

lemma put_row_tracks:
  assumes "get_or_create_rail_health r p s = (row, s')" and "table_tracks t nl s"
    and "rh_rail_name row' = r" and "row_tracks t x row'"
  shows "table_tracks t (nl(r := x)) (put_rail_health row' s')"
  using get_or_create_tracks [OF assms(1,2)] assms(2-4)
  by (auto simp: table_tracks_def rails.get_put)

lemma table_tracks_later: "table_tracks t nl s \<Longrightarrow> t \<le> t' \<Longrightarrow> table_tracks t' nl s"
  by (auto simp: table_tracks_def intro: row_tracks_later)

lemma blocked_rails_impl_tracks:
  "table_tracks t nl s \<Longrightarrow> table_tracks t nl (snd (blocked_rails_impl rs t s)) \<and>
     set (fst (blocked_rails_impl rs t s)) = {r \<in> set rs. 3 \<le> fst (nl r) \<and> t < snd (nl r) + seconds 300}"
proof (induction rs arbitrary: s)
  case (Cons r rs)
  obtain row s1 where g: "get_or_create_rail_health r (Some r) s = (row, s1)" by force
  let ?row = "refresh_open_breaker t row" let ?s = "put_rail_health ?row s1"
  note tr = get_or_create_tracks [OF g Cons.prems]
  have "table_tracks t (nl(r := nl r)) ?s"
    by (rule put_row_tracks [OF g Cons.prems]) (use tr row_tracks_refresh in auto)
  then have t: "table_tracks t nl ?s" by simp
  have "rh_breaker_state ?row = OPEN \<longleftrightarrow> 3 \<le> fst (nl r) \<and> t < snd (nl r) + seconds 300"
    using tr(2) by (auto simp: row_tracks_def refresh_open_breaker_def split: if_splits option.splits)
  with Cons.IH [OF t] g show ?case by (auto simp: Let_def case_prod_unfold)
qed simp

lemma rail_event_step_tracks:
  assumes "table_tracks t nl s" and "t \<le> event_time e" and "has_table ''rail_health'' s"
  shows "table_tracks (event_time e) (\<lambda>r. track r e (nl r)) (rail_event_step e s)"
proof (cases e)
  case (RailFailed r p c m t')
  obtain row s1 where g: "get_or_create_rail_health r p s = (row, s1)" by force
  have tt: "table_tracks t' nl s" using table_tracks_later [OF assms(1)] assms(2) RailFailed by simp
  note tr = get_or_create_tracks [OF g tt]
  have "table_tracks t' (nl(r := (fst (nl r) + 1, t'))) (put_rail_health (fail_row default_policy c m t' row) s1)"
    by (rule put_row_tracks [OF g tt]) (use tr row_tracks_fail in auto)
  moreover have "nl(r := (fst (nl r) + 1, t')) = (\<lambda>r'. track r' e (nl r'))"
    using RailFailed by (auto simp: fun_eq_iff)
  ultimately show ?thesis using g RailFailed assms(3) by (simp add: record_rail_failure_def)
next
  case (RailWorked r p t')
  obtain row s1 where g: "get_or_create_rail_health r p s = (row, s1)" by force
  have tt: "table_tracks t' nl s" using table_tracks_later [OF assms(1)] assms(2) RailWorked by simp
  note tr = get_or_create_tracks [OF g tt]
  have "table_tracks t' (nl(r := (0, snd (nl r)))) (put_rail_health (success_row t' row) s1)"
    by (rule put_row_tracks [OF g tt]) (use tr row_tracks_success in auto)
  moreover have "nl(r := (0, snd (nl r))) = (\<lambda>r'. track r' e (nl r'))"
    using RailWorked by (auto simp: fun_eq_iff)
  ultimately show ?thesis using g RailWorked assms(3) by (simp add: record_rail_success_def)
next
  case (RailsRouted rs t')
  have "(\<lambda>r'. track r' e (nl r')) = nl" using RailsRouted by (simp add: fun_eq_iff)
  then show ?thesis
    using blocked_rails_impl_tracks [OF table_tracks_later [OF assms(1)], of t' rs] assms(2,3) RailsRouted
    by (simp add: blocked_rails_for_routing_def)
qed

lemma rail_events_track:
  assumes "sorted (t # map event_time evs)" and "table_tracks t nl s" and "has_table ''rail_health'' s"
  shows "table_tracks (last (t # map event_time evs)) (\<lambda>r. fold (track r) evs (nl r)) (fold rail_event_step evs s)
    \<and> has_table ''rail_health'' (fold rail_event_step evs s)"
  using assms
proof (induction evs arbitrary: t nl s)
  case (Cons e evs)
  have "has_table ''rail_health'' (rail_event_step e s)" using Cons.prems(3)
    by (cases e) (auto simp: rail_failure.step_get rail_success.step_get rail_routing.step_get)
  with Cons.IH [of "event_time e" "\<lambda>r. track r e (nl r)" "rail_event_step e s"] Cons.prems
  show ?case by (simp add: rail_event_step_tracks)
qed simp

lemma blocked_iff_cooling:
  assumes "sorted (map event_time evs @ [now])" and "has_table ''rail_health'' s" and "d_rail_health s = []"
  shows "set (fst (blocked_rails_for_routing rs now (fold rail_event_step evs s))) = {r \<in> set rs. cooling r evs now}"
proof -
  define t where "t = (case evs of [] \<Rightarrow> now | e # _ \<Rightarrow> event_time e)"
  have "table_tracks t (\<lambda>r. (0, 0)) s" using assms(3) by (simp add: table_tracks_def get_rail_health_def)
  moreover have "sorted (t # map event_time evs)" using assms(1) by (cases evs) (auto simp: t_def sorted_append)
  moreover have le: "last (t # map event_time evs) \<le> now"
    using assms(1) by (cases evs rule: rev_cases) (auto simp: t_def sorted_append)
  ultimately have tr: "table_tracks (last (t # map event_time evs)) (\<lambda>r. rail_track r evs) (fold rail_event_step evs s)"
      "has_table ''rail_health'' (fold rail_event_step evs s)"
    using rail_events_track [of t evs "\<lambda>r. (0, 0)" s] assms(2) by (simp_all add: rail_track_def)
  show ?thesis using blocked_rails_impl_tracks [OF table_tracks_later [OF tr(1) le], of rs] tr(2)
    by (auto simp: blocked_rails_for_routing_def cooling_def case_prod_unfold)
qed

end
