(* ===== verification/Ledger.thy ===== *)
theory Ledger
  imports Rails
begin

text \<open>
  The escrow ledger (app/services/ledger.py): balanced two-line movements keyed by an idempotency
  key, the balance held for an escrow, and the posting that marks an escrow as funded. Amounts come
  in as decimals and are stored in cents.
\<close>

definition ESCROW_HELD_ACCOUNT :: string where "ESCROW_HELD_ACCOUNT = ''ESCROW_HELD''"
definition BUYER_CLEARING_ACCOUNT :: string where "BUYER_CLEARING_ACCOUNT = ''BUYER_CLEARING''"

record ledger_movement =
  mv_escrow :: uuid
  mv_idempotency_key :: string
  mv_amount :: decimal
  mv_debit_account :: string
  mv_credit_account :: string
  mv_description :: "string option"
  mv_currency :: string
  mv_group :: "uuid option"

record ledger_post_result =
  pr_escrow :: uuid
  pr_group :: uuid
  pr_idempotency_key :: string
  pr_created_entries :: nat
  pr_was_idempotent_replay :: bool

definition entries_by_idempotency_key :: "string \<Rightarrow> db \<Rightarrow> ledger_entry list" where
  "entries_by_idempotency_key k s = filter (\<lambda>e. le_idempotency_key e = k) (d_ledger s)"

definition side_total :: "side \<Rightarrow> ledger_entry list \<Rightarrow> cents" where
  "side_total sd es = sum_list (map le_amount (filter (\<lambda>e. le_side e = sd) es))"

definition is_balanced :: "ledger_entry list \<Rightarrow> bool" where
  "is_balanced es = (side_total DEBIT es = side_total CREDIT es)"

definition ledger_amount :: "decimal \<Rightarrow> exn + cents" where
  "ledger_amount v = (case quantize 2 v of
       None \<Rightarrow> Inl (EscrowLedgerValidationError ''Movement amount must be a valid decimal.'')
     | Some (Fin q _) \<Rightarrow> if q \<le> 0 then Inl (EscrowLedgerValidationError ''Movement amount must be positive.'') else Inr q
     | Some _ \<Rightarrow> Inl InvalidOperation)"

definition post_movement :: "env \<Rightarrow> ledger_movement \<Rightarrow> db \<Rightarrow> exn + (ledger_post_result \<times> db)" where
  "post_movement E mv s = (let key = strip (mv_idempotency_key mv) in
     if key = '''' then Inl (EscrowLedgerValidationError ''idempotency_key is required.'')
     else bindE (ledger_amount (mv_amount mv)) (\<lambda>amount.
       let dr = strip (mv_debit_account mv); cr = strip (mv_credit_account mv);
         cur = py_upper (strip (mv_currency mv)); existing = entries_by_idempotency_key key s in
       if dr = '''' \<or> cr = '''' then Inl (EscrowLedgerValidationError ''Both debit and credit account codes are required.'')
       else if dr = cr then Inl (EscrowLedgerValidationError ''Debit and credit account codes must differ.'')
       else if length cur \<noteq> 3 then Inl (EscrowLedgerValidationError ''Currency must be a three-letter code.'')
       else if existing \<noteq> [] then
         (if list_ex (\<lambda>e. le_escrow e \<noteq> mv_escrow mv) existing
            then Inl (EscrowLedgerIdempotencyConflictError ''idempotency_key already used for a different escrow.'')
          else if \<not> is_balanced existing
            then Inl (EscrowLedgerUnbalancedError ''Existing entries for idempotency_key are not balanced.'')
          else Inr (\<lparr>pr_escrow = mv_escrow mv, pr_group = le_group (hd existing), pr_idempotency_key = key,
            pr_created_entries = 0, pr_was_idempotent_replay = True\<rparr>, s))
       else let (grp, n) = (case mv_group mv of Some g \<Rightarrow> (g, d_draws s) | None \<Rightarrow> (e_uuid E (d_draws s), Suc (d_draws s)));
           debit = \<lparr>le_id = e_uuid E n, le_escrow = mv_escrow mv, le_group = grp, le_idempotency_key = key,
             le_account_code = dr, le_side = DEBIT, le_amount = amount, le_currency = cur,
             le_description = mv_description mv, le_created_at = e_now E\<rparr>;
           credit = \<lparr>le_id = e_uuid E (Suc n), le_escrow = mv_escrow mv, le_group = grp, le_idempotency_key = key,
             le_account_code = cr, le_side = CREDIT, le_amount = amount, le_currency = cur,
             le_description = mv_description mv, le_created_at = e_now E\<rparr> in
         if \<not> is_balanced [debit, credit] then Inl (EscrowLedgerUnbalancedError ''Ledger movement must be balanced.'')
         else bindE (record_ledger_entry E debit (s\<lparr>d_ledger := d_ledger s @ [debit, credit], d_draws := Suc (Suc n)\<rparr>)) (\<lambda>s1.
           bindE (record_ledger_entry E credit s1) (\<lambda>s2.
           Inr (\<lparr>pr_escrow = mv_escrow mv, pr_group = grp, pr_idempotency_key = key,
             pr_created_entries = 2, pr_was_idempotent_replay = False\<rparr>, s2)))))"

definition entry_effect :: "ledger_entry \<Rightarrow> cents" where
  "entry_effect e = (case le_side e of DEBIT \<Rightarrow> le_amount e | CREDIT \<Rightarrow> - le_amount e)"

definition get_escrow_held_balance :: "uuid \<Rightarrow> db \<Rightarrow> cents" where
  "get_escrow_held_balance eid s = sum_list (map entry_effect
     (filter (\<lambda>e. le_escrow e = eid \<and> le_account_code e = ESCROW_HELD_ACCOUNT) (d_ledger s)))"

definition post_escrow_funding :: "env \<Rightarrow> escrow \<Rightarrow> string \<Rightarrow> string \<Rightarrow> db \<Rightarrow> exn + (bool \<times> escrow \<times> db)" where
  "post_escrow_funding E esc key desc s = (let amount = es_amount_total esc - es_funded_amount esc in
     if amount \<le> 0 then Inr (False, esc, s)
     else bindE (post_movement E \<lparr>mv_escrow = es_id esc, mv_idempotency_key = key, mv_amount = dec_of_cents amount,
         mv_debit_account = ESCROW_HELD_ACCOUNT, mv_credit_account = BUYER_CLEARING_ACCOUNT, mv_description = Some desc,
         mv_currency = es_currency esc, mv_group = None\<rparr> s) (\<lambda>(r, s').
       if pr_created_entries r \<noteq> 2 then Inr (False, esc, s')
       else let esc' = esc\<lparr>es_funded_amount := es_amount_total esc\<rparr> in Inr (True, esc', put_escrow esc' s')))"

section \<open>What a posting does\<close>

lemma ledger_amount_Inr: "ledger_amount v = Inr q \<longleftrightarrow> 0 < q \<and> quantize 2 v = Some (Fin q (- 2))"
  by (auto simp: ledger_amount_def dest: quantize_Some split: option.splits decimal.splits if_splits)

text \<open>
  A successful posting either finds balanced entries of the same escrow under its key and changes
  nothing, or appends a debit and a credit line of one group, key, escrow, amount and currency.
\<close>

definition movement_lines :: "ledger_movement \<Rightarrow> cents \<Rightarrow> ledger_entry \<Rightarrow> ledger_entry \<Rightarrow> bool" where
  "movement_lines mv q d c = (le_escrow d = mv_escrow mv \<and> le_escrow c = mv_escrow mv \<and> le_group d = le_group c \<and>
     le_idempotency_key d = strip (mv_idempotency_key mv) \<and> le_idempotency_key c = strip (mv_idempotency_key mv) \<and>
     le_account_code d = strip (mv_debit_account mv) \<and> le_account_code c = strip (mv_credit_account mv) \<and>
     le_side d = DEBIT \<and> le_side c = CREDIT \<and> le_amount d = q \<and> le_amount c = q \<and> le_currency d = le_currency c)"

lemma movement_lines_balanced: "movement_lines mv q d c \<Longrightarrow> is_balanced [d, c]"
  by (simp add: movement_lines_def is_balanced_def side_total_def)

lemma post_movement_cases:
  assumes "post_movement E mv s = Inr (r, s')"
  obtains (replay) "entries_by_idempotency_key (strip (mv_idempotency_key mv)) s \<noteq> []"
      "\<forall>e \<in> set (entries_by_idempotency_key (strip (mv_idempotency_key mv)) s). le_escrow e = mv_escrow mv"
      "is_balanced (entries_by_idempotency_key (strip (mv_idempotency_key mv)) s)"
      "s' = s" "pr_created_entries r = 0" "pr_was_idempotent_replay r" "pr_escrow r = mv_escrow mv"
      "pr_group r = le_group (hd (entries_by_idempotency_key (strip (mv_idempotency_key mv)) s))"
  | (posted) q d c s1 where "entries_by_idempotency_key (strip (mv_idempotency_key mv)) s = []"
      "quantize 2 (mv_amount mv) = Some (Fin q (- 2))" "0 < q" "movement_lines mv q d c"
      "d_ledger s1 = d_ledger s @ [d, c]" "s1\<lparr>d_ledger := d_ledger s, d_draws := d_draws s\<rparr> = s" "logs_only s1 s'"
      "pr_created_entries r = 2" "\<not> pr_was_idempotent_replay r" "pr_group r = le_group d" "pr_escrow r = mv_escrow mv"
proof (cases "entries_by_idempotency_key (strip (mv_idempotency_key mv)) s = []")
  case False
  with assms show ?thesis
    by (intro replay) (auto simp: post_movement_def Let_def bindE_eq_Inr list_ex_iff split: if_splits)
next
  case True
  obtain grp n where gn: "(case mv_group mv of Some g \<Rightarrow> (g, d_draws s) | None \<Rightarrow> (e_uuid E (d_draws s), Suc (d_draws s))) = (grp, n)"
    by force
  from assms True obtain q where q: "ledger_amount (mv_amount mv) = Inr q"
    by (auto simp: post_movement_def Let_def bindE_eq_Inr split: if_splits)
  define d where "d = \<lparr>le_id = e_uuid E n, le_escrow = mv_escrow mv, le_group = grp,
    le_idempotency_key = strip (mv_idempotency_key mv), le_account_code = strip (mv_debit_account mv), le_side = DEBIT,
    le_amount = q, le_currency = py_upper (strip (mv_currency mv)), le_description = mv_description mv, le_created_at = e_now E\<rparr>"
  define c where "c = \<lparr>le_id = e_uuid E (Suc n), le_escrow = mv_escrow mv, le_group = grp,
    le_idempotency_key = strip (mv_idempotency_key mv), le_account_code = strip (mv_credit_account mv), le_side = CREDIT,
    le_amount = q, le_currency = py_upper (strip (mv_currency mv)), le_description = mv_description mv, le_created_at = e_now E\<rparr>"
  define s1 where "s1 = s\<lparr>d_ledger := d_ledger s @ [d, c], d_draws := Suc (Suc n)\<rparr>"
  have r: "\<exists>s2. record_ledger_entry E d s1 = Inr s2 \<and> record_ledger_entry E c s2 = Inr s' \<and>
      r = \<lparr>pr_escrow = mv_escrow mv, pr_group = grp, pr_idempotency_key = strip (mv_idempotency_key mv),
             pr_created_entries = 2, pr_was_idempotent_replay = False\<rparr>"
    using assms True q gn
    by (auto simp: post_movement_def Let_def bindE_eq_Inr d_def c_def s1_def split: if_splits)
  then have "logs_only s1 s'" by (auto dest: log_steps intro: logs_only_trans)
  then show ?thesis using r q True
    by (intro posted [of q d c s1]) (auto simp: movement_lines_def d_def c_def s1_def ledger_amount_Inr)
qed

definition ledger_only :: "db \<Rightarrow> db \<Rightarrow> bool" where
  "ledger_only s s' = (s\<lparr>d_ledger := [], d_audits := [], d_anchors := [], d_draws := 0\<rparr> =
     s'\<lparr>d_ledger := [], d_audits := [], d_anchors := [], d_draws := 0\<rparr>)"

lemma ledger_only_frame:
  assumes "ledger_only s s'"
  shows "d_tables s' = d_tables s" "d_users s' = d_users s" "d_listings s' = d_listings s"
    "d_transactions s' = d_transactions s" "d_escrows s' = d_escrows s" "d_disputes s' = d_disputes s"
    "d_notifications s' = d_notifications s" "d_payouts s' = d_payouts s" "d_collections s' = d_collections s"
    "d_prompts s' = d_prompts s" "d_rail_health s' = d_rail_health s"
  using assms by (cases s; cases s'; simp add: ledger_only_def)+

lemma logs_only_ledger_only: "logs_only s s' \<Longrightarrow> ledger_only s s'"
  by (cases s; cases s') (simp add: logs_only_def ledger_only_def)

lemma ledger_only_refl [simp, intro]: "ledger_only s s"
  by (simp add: ledger_only_def)

lemma ledger_only_trans [trans]: "ledger_only s s' \<Longrightarrow> ledger_only s' s'' \<Longrightarrow> ledger_only s s''"
  by (simp add: ledger_only_def)

lemma post_movement_only:
  assumes "post_movement E mv s = Inr (r, s')"
  shows "ledger_only s s'"
  using assms
proof (cases rule: post_movement_cases)
  case (posted q d c s1)
  have "ledger_only s s1" using posted(6) by (cases s; cases s1) (simp add: ledger_only_def)
  then show ?thesis using logs_only_ledger_only [OF posted(7)] by (rule ledger_only_trans)
qed simp

lemmas post_movement_frame = ledger_only_frame [OF post_movement_only]

text \<open>
  The account interface the money services use: a posting is announced by its result, keeps what
  was posted, and moves the balance of one escrow by what it announces.
\<close>

definition held_effect :: "ledger_movement \<Rightarrow> cents \<Rightarrow> cents" where
  "held_effect mv q = (if strip (mv_debit_account mv) = ESCROW_HELD_ACCOUNT then q else 0) -
     (if strip (mv_credit_account mv) = ESCROW_HELD_ACCOUNT then q else 0)"

definition movement_cents :: "ledger_movement \<Rightarrow> cents" where
  "movement_cents mv = (case quantize 2 (mv_amount mv) of Some (Fin q _) \<Rightarrow> q | _ \<Rightarrow> 0)"

locale account =
  fixes post :: "'m \<Rightarrow> 's \<Rightarrow> 'e + ('r \<times> 's)"
    and balance :: "uuid \<Rightarrow> 's \<Rightarrow> cents"
    and fresh :: "'r \<Rightarrow> bool"
    and owner :: "'m \<Rightarrow> uuid"
    and effect :: "'m \<Rightarrow> cents"
    and good :: "'s \<Rightarrow> bool"
  assumes post_balance: "post m s = Inr (r, s') \<Longrightarrow>
      balance e s' = balance e s + (if fresh r \<and> owner m = e then effect m else 0)"
    and post_good: "good s \<Longrightarrow> post m s = Inr (r, s') \<Longrightarrow> good s'"
    and post_again: "post m s = Inr (r, s') \<Longrightarrow> \<exists>r'. post m s' = Inr (r', s') \<and> \<not> fresh r'"
begin

lemma post_other: "post m s = Inr (r, s') \<Longrightarrow> e \<noteq> owner m \<Longrightarrow> balance e s' = balance e s"
  by (simp add: post_balance)

text \<open>A run of postings changes the balance by the effects of the fresh ones.\<close>

fun post_all :: "'m list \<Rightarrow> 's \<Rightarrow> 'e + ((bool \<times> 'm) list \<times> 's)" where
  "post_all [] s = Inr ([], s)"
| "post_all (m # ms) s = bindE (post m s) (\<lambda>(r, s1). bindE (post_all ms s1) (\<lambda>(rs, s2). Inr ((fresh r, m) # rs, s2)))"

lemma post_all_balance:
  "post_all ms s = Inr (rs, s') \<Longrightarrow>
     balance e s' = balance e s + sum_list (map (\<lambda>(f, m). if f \<and> owner m = e then effect m else 0) rs)"
proof (induction ms arbitrary: s rs)
  case (Cons m ms)
  then obtain r s1 rs1 where "post m s = Inr (r, s1)" "post_all ms s1 = Inr (rs1, s')" "rs = (fresh r, m) # rs1"
    by (auto simp: bindE_eq_Inr)
  with Cons.IH [of s1 rs1] post_balance [of m s r s1 e] show ?case by simp
qed simp

lemma post_all_good: "post_all ms s = Inr (rs, s') \<Longrightarrow> good s \<Longrightarrow> good s'"
proof (induction ms arbitrary: s rs)
  case (Cons m ms)
  then obtain r s1 rs1 where "post m s = Inr (r, s1)" "post_all ms s1 = Inr (rs1, s')" by (auto simp: bindE_eq_Inr)
  with Cons post_good show ?case by blast
qed simp

end

section \<open>The escrow ledger is such an account\<close>

text \<open>Every idempotency key has balanced lines of one escrow.\<close>

definition key_ok :: "ledger_entry list \<Rightarrow> bool" where
  "key_ok es = (is_balanced es \<and> (\<exists>i. \<forall>e \<in> set es. le_escrow e = i))"

definition ledger_ok :: "db \<Rightarrow> bool" where
  "ledger_ok s = (\<forall>k. key_ok (entries_by_idempotency_key k s))"

lemma movement_lines_key_ok: "movement_lines mv q d c \<Longrightarrow> key_ok [d, c]"
  using movement_lines_balanced [of mv q d c] by (simp add: key_ok_def movement_lines_def)

lemma entries_by_key_logs: "logs_only s s' \<Longrightarrow> entries_by_idempotency_key k s' = entries_by_idempotency_key k s"
  by (simp add: entries_by_idempotency_key_def logs_only_frame)

lemma held_balance_logs: "logs_only s s' \<Longrightarrow> get_escrow_held_balance e s' = get_escrow_held_balance e s"
  by (simp add: get_escrow_held_balance_def logs_only_frame)

lemma post_movement_balance:
  assumes "post_movement E mv s = Inr (r, s')"
  shows "get_escrow_held_balance e s' = get_escrow_held_balance e s +
     (if pr_created_entries r = 2 \<and> mv_escrow mv = e then held_effect mv (movement_cents mv) else 0)"
  using assms
proof (cases rule: post_movement_cases)
  case (posted q d c s1)
  have "get_escrow_held_balance e s' = get_escrow_held_balance e s1" using posted(7) by (rule held_balance_logs)
  also have "\<dots> = get_escrow_held_balance e s + (if mv_escrow mv = e then held_effect mv q else 0)"
    using posted(4,5) by (auto simp: get_escrow_held_balance_def movement_lines_def held_effect_def entry_effect_def)
  finally show ?thesis using posted(2,8) by (simp add: movement_cents_def)
qed simp

lemma post_movement_ok:
  assumes "ledger_ok s" and "post_movement E mv s = Inr (r, s')"
  shows "ledger_ok s'"
  using assms(2)
proof (cases rule: post_movement_cases)
  case (posted q d c s1)
  have e: "entries_by_idempotency_key k s' = (if k = strip (mv_idempotency_key mv) then [d, c]
      else entries_by_idempotency_key k s)" for k
  proof -
    have "entries_by_idempotency_key k s' = entries_by_idempotency_key k s1" by (rule entries_by_key_logs [OF posted(7)])
    then show ?thesis using posted(1,4,5) by (simp add: entries_by_idempotency_key_def movement_lines_def)
  qed
  show ?thesis using assms(1) movement_lines_key_ok [OF posted(4)] unfolding ledger_ok_def e by simp
qed (use assms(1) in simp)

text \<open>What the guards check before the ledger is read does not depend on the state.\<close>

lemma post_movement_again:
  assumes "post_movement E mv s = Inr (r, s')"
  shows "\<exists>r'. post_movement E mv s' = Inr (r', s') \<and> pr_was_idempotent_replay r' \<and> pr_created_entries r' = 0 \<and>
    pr_group r' = pr_group r"
  using assms
proof (cases rule: post_movement_cases)
  case replay
  then show ?thesis using assms by auto
next
  case (posted q d c s1)
  have k: "entries_by_idempotency_key (strip (mv_idempotency_key mv)) s' = [d, c]"
    unfolding entries_by_key_logs [OF posted(7)] using posted(1,4,5)
    by (simp add: entries_by_idempotency_key_def movement_lines_def)
  then show ?thesis using assms posted(4,10) movement_lines_balanced [OF posted(4)]
    by (auto simp: post_movement_def Let_def bindE_eq_Inr list_ex_iff movement_lines_def split: if_splits)
qed

interpretation ledger: account "post_movement E" get_escrow_held_balance "\<lambda>r. pr_created_entries r = 2"
    mv_escrow "\<lambda>mv. held_effect mv (movement_cents mv)" ledger_ok for E
proof (unfold_locales, goal_cases)
  case (1 m s r s' e)
  then show ?case by (rule post_movement_balance)
next
  case (2 s m r s')
  then show ?case by (rule post_movement_ok)
next
  case (3 m s r s')
  then show ?case using post_movement_again by fastforce
qed

text \<open>Marking an escrow as funded.\<close>

lemma post_escrow_funding_cases:
  assumes "post_escrow_funding E esc key desc s = Inr (b, esc', s')"
  shows "if b then esc' = esc\<lparr>es_funded_amount := es_amount_total esc\<rparr> \<and> es_funded_amount esc < es_amount_total esc \<and>
      (\<exists>s1. ledger_only s s1 \<and> s' = put_escrow esc' s1 \<and>
        get_escrow_held_balance (es_id esc) s1 = get_escrow_held_balance (es_id esc) s + (es_amount_total esc - es_funded_amount esc))
    else esc' = esc \<and> ledger_only s s'"
proof (cases "es_amount_total esc - es_funded_amount esc \<le> 0")
  case True
  with assms show ?thesis by (auto simp: post_escrow_funding_def)
next
  case False
  define mv where "mv = \<lparr>mv_escrow = es_id esc, mv_idempotency_key = key,
    mv_amount = dec_of_cents (es_amount_total esc - es_funded_amount esc), mv_debit_account = ESCROW_HELD_ACCOUNT,
    mv_credit_account = BUYER_CLEARING_ACCOUNT, mv_description = Some desc, mv_currency = es_currency esc, mv_group = None\<rparr>"
  from assms False obtain r s1 where p: "post_movement E mv s = Inr (r, s1)"
    and r: "if pr_created_entries r \<noteq> 2 then (b, esc', s') = (False, esc, s1)
      else (b, esc', s') = (True, esc\<lparr>es_funded_amount := es_amount_total esc\<rparr>,
        put_escrow (esc\<lparr>es_funded_amount := es_amount_total esc\<rparr>) s1)"
    by (auto simp: post_escrow_funding_def mv_def bindE_eq_Inr Let_def split: if_splits)
  have "get_escrow_held_balance (es_id esc) s1 = get_escrow_held_balance (es_id esc) s +
      (es_amount_total esc - es_funded_amount esc)" if "pr_created_entries r = 2"
  proof -
    have "held_effect mv (movement_cents mv) = movement_cents mv"
      by (simp add: held_effect_def mv_def ESCROW_HELD_ACCOUNT_def BUYER_CLEARING_ACCOUNT_def strip_def lstrip_def py_isspace_def)
    moreover have "movement_cents mv = es_amount_total esc - es_funded_amount esc"
      using p that by (cases rule: post_movement_cases) (auto simp: movement_cents_def mv_def quantize_cents split: if_splits)
    ultimately show ?thesis using post_movement_balance [OF p, of "es_id esc"] that by (simp add: mv_def)
  qed
  then show ?thesis using r False post_movement_only [OF p] by (auto split: if_splits)
qed

end
