(* ===== verification/Escrow_Service.thy ===== *)
theory Escrow_Service
  imports Ledger
begin

text \<open>
  The payout outbox (the class \<open>EscrowService\<close> of app/services/escrow_service.py): the escrow of a
  transaction, the queueing of release, refund and split payouts, and the payout status a
  transaction shows. A payout attempt added to the session and not flushed yet is a row of the
  table here, so \<open>db.new\<close> and the query see one list. The registry is the environment's.
\<close>

section \<open>Amounts\<close>

definition normalize_amount :: "decimal \<Rightarrow> exn + cents" where
  "normalize_amount v = (case quantize 2 v of
       None \<Rightarrow> Inl (EscrowServiceError ''Amount must be a valid decimal value.'')
     | Some (Fin q _) \<Rightarrow> if q \<le> 0 then Inl (EscrowServiceError ''Amount must be greater than zero.'') else Inr q
     | Some _ \<Rightarrow> Inl InvalidOperation)"

definition normalize_ratio :: "decimal \<Rightarrow> exn + ratio4" where
  "normalize_ratio v = (case quantize 4 v of
       None \<Rightarrow> Inl (EscrowServiceError ''Split ratio must be a valid decimal value.'')
     | Some (Fin q _) \<Rightarrow> if q \<le> 0 \<or> 10000 \<le> q
         then Inl (EscrowServiceError ''Split ratio must be greater than 0 and less than 1.'') else Inr q
     | Some _ \<Rightarrow> Inl InvalidOperation)"

definition split_amounts :: "cents \<Rightarrow> decimal \<Rightarrow> exn + (cents \<times> cents)" where
  "split_amounts amount split_ratio = bindE (normalize_ratio split_ratio) (\<lambda>ratio.
     case quantize 2 (dec_mul (dec_of_cents amount) (dec_of_ratio ratio)) of
       Some (Fin release _) \<Rightarrow> (case quantize 2 (context_round (amount - release) (- 2)) of
           Some (Fin refund _) \<Rightarrow> Inr (release, refund)
         | _ \<Rightarrow> Inl InvalidOperation)
     | _ \<Rightarrow> Inl InvalidOperation)"

lemma normalize_amount_cents: "\<bar>c\<bar> < 10 ^ 28 \<Longrightarrow> normalize_amount (dec_of_cents c) =
    (if c \<le> 0 then Inl (EscrowServiceError ''Amount must be greater than zero.'') else Inr c)"
  by (simp add: normalize_amount_def quantize_cents)

lemma normalize_amount_Inr: "normalize_amount (dec_of_cents c) = Inr q \<Longrightarrow> q = c \<and> 0 < c"
  by (auto simp: normalize_amount_def quantize_cents split: if_splits)

lemma normalize_ratio_Inr: "normalize_ratio v = Inr q \<Longrightarrow> 0 < q \<and> q < 10000"
  by (auto simp: normalize_ratio_def split: option.splits decimal.splits if_splits)

text \<open>
  On stored amounts (12 digits) nothing is rounded but the release: the parts add up to the amount,
  neither exceeds it, and the release is within half a cent of the exact share.
\<close>

lemma split_amounts_exact:
  assumes "0 \<le> amount" and "amount < 10 ^ 12" and "split_amounts amount v = Inr (release, refund)"
  shows "release + refund = amount \<and> 0 \<le> release \<and> release \<le> amount \<and>
    (\<exists>q. normalize_ratio v = Inr q \<and> 2 * \<bar>10000 * release - amount * q\<bar> \<le> 10000)"
proof -
  from assms(3) obtain q where q: "normalize_ratio v = Inr q" by (auto simp: split_amounts_def bindE_eq_Inr)
  then have b: "0 < q" "q < 10000" by (auto dest: normalize_ratio_Inr)
  have "amount * q \<le> 10 ^ 12 * 10000" using assms(1,2) b by (intro mult_mono) auto
  then have small: "\<bar>amount * q\<bar> < 10 ^ 28" using assms(1) b by simp
  let ?r = "half_even (amount * q) 10000"
  have r: "0 \<le> ?r" "?r \<le> amount"
    using assms(1) b half_even_nonneg [of 10000 "amount * q"] half_even_le [of 10000 "amount * q" amount]
    by (simp_all add: mult_left_mono)
  have "quantize 2 (dec_mul (dec_of_cents amount) (dec_of_ratio q)) = Some (Fin ?r (- 2))"
    using small r assms(2) by (simp add: dec_of_cents_def dec_of_ratio_def dec_mul_exact)
  moreover have "quantize 2 (context_round (amount - ?r) (- 2)) = Some (Fin (amount - ?r) (- 2))"
    using r assms(1,2) by (simp add: context_round_def)
  ultimately have "release = ?r" "refund = amount - ?r" using assms(3) q by (simp_all add: split_amounts_def)
  then show ?thesis using r q half_even_error [of 10000 "amount * q"] by (simp add: mult.commute)
qed

section \<open>The escrow of a transaction\<close>

record service =
  sv_actor_type :: string
  sv_actor_id :: "uuid option"
  sv_audit_reason :: "string option"

definition system_service :: service where
  "system_service = \<lparr>sv_actor_type = ACTOR_SYSTEM, sv_actor_id = None, sv_audit_reason = None\<rparr>"

definition outbox_ready :: "db \<Rightarrow> bool" where
  "outbox_ready s = list_all (\<lambda>t. has_table t s) [''escrows'', ''payout_attempts'', ''users'', ''transactions'']"

definition ledger_ready :: "db \<Rightarrow> bool" where
  "ledger_ready s = list_all (\<lambda>t. has_table t s) [''escrows'', ''ledger_entries'']"

definition find_escrow_for_transaction :: "uuid \<Rightarrow> db \<Rightarrow> escrow option" where
  "find_escrow_for_transaction tid s = row_get es_transaction tid (d_escrows s)"

text \<open>A new escrow row, with the column defaults of app/models/escrow.py.\<close>

definition new_escrow :: "uuid \<Rightarrow> transaction \<Rightarrow> cents \<Rightarrow> time \<Rightarrow> escrow" where
  "new_escrow i t amt now = \<lparr>es_id = i, es_transaction = tx_id t, es_buyer = tx_buyer t, es_seller = tx_seller t,
     es_amount_total = amt, es_funded_amount = 0, es_released_amount = 0, es_refunded_amount = 0,
     es_currency = ''KES'', es_custody_provider = Some ''simulated'', es_econfirm_transaction_id = None,
     es_econfirm_confirmation_code = None, es_econfirm_needs_reconciliation = False,
     es_econfirm_payer_phone = None, es_created_at = now\<rparr>"

definition ensure_escrow_for_transaction :: "env \<Rightarrow> transaction \<Rightarrow> db \<Rightarrow> exn + (escrow \<times> db)" where
  "ensure_escrow_for_transaction E t s = (case find_escrow_for_transaction (tx_id t) s of
       Some e \<Rightarrow> Inr (e, s)
     | None \<Rightarrow> bindE (normalize_amount (dec_of_cents (tx_amount t))) (\<lambda>total.
         let e = new_escrow (e_uuid E (d_draws s)) t total (e_now E)
         in if get_escrow (es_id e) s \<noteq> None then Inl (IntegrityError ''escrows_pkey'')
            else Inr (e, s\<lparr>d_escrows := d_escrows s @ [e], d_draws := Suc (d_draws s)\<rparr>)))"

definition resolve_destination_phone :: "uuid \<Rightarrow> db \<Rightarrow> exn + string" where
  "resolve_destination_phone uid s = (case get_user uid s of
       None \<Rightarrow> Inl (EscrowServiceError ''Payout destination user was not found.'')
     | Some u \<Rightarrow> let destination = strip (or_text [u_mpesa_phone u, Some (u_phone u)] '''') in
         if destination = '''' then Inl (EscrowServiceError ''Payout destination phone is missing.'') else Inr destination)"

definition default_payout_rail_name :: "env \<Rightarrow> db \<Rightarrow> exn + (string \<times> db)" where
  "default_payout_rail_name E s = (case select_payout_rail_for_routing (e_registry E) (e_now E) s of
       (Inr r, s') \<Rightarrow> Inr (r, s')
     | (Inl _, s') \<Rightarrow> Inl (EscrowServiceError ''No payout rail is currently routable.''))"

definition payout_rail_for_escrow :: "env \<Rightarrow> escrow \<Rightarrow> db \<Rightarrow> exn + (string \<times> db)" where
  "payout_rail_for_escrow E e s = (let provider = py_lower (strip (or_text [es_custody_provider e] '''')) in
     if provider = ''econfirm'' then Inr (''econfirm'', s) else default_payout_rail_name E s)"

definition is_split_capability_supported :: "env \<Rightarrow> db \<Rightarrow> exn + (bool \<times> db)" where
  "is_split_capability_supported E s = (let caps = rg_provider_capabilities (e_registry E) in
     if cap_supports_split_payout caps \<or> cap_supports_partial_release caps then Inr (True, s)
     else if cap_holds_funds_structurally caps then Inr (False, s)
     else bindE (default_payout_rail_name E s) (\<lambda>(r, s'). Inr (r = ''simulated'', s')))"

section \<open>The payout status of a transaction\<close>

definition payouts_of :: "uuid \<Rightarrow> db \<Rightarrow> payout_attempt list" where
  "payouts_of eid s = filter (\<lambda>p. po_escrow p = eid) (d_payouts s)"

text \<open>
  The first attempt in descending order of creation and attempt time; on a tie, the row inserted
  last.
\<close>

definition newest_attempt :: "payout_attempt list \<Rightarrow> payout_attempt option" where
  "newest_attempt ps = fold (\<lambda>p best. case best of None \<Rightarrow> Some p
     | Some b \<Rightarrow> if po_created_at b < po_created_at p \<or> (po_created_at b = po_created_at p \<and> po_attempted_at b \<le> po_attempted_at p)
         then Some p else best) ps None"

definition latest_attempts :: "payout_attempt list \<Rightarrow> payout_attempt list" where
  "latest_attempts ps = List.map_filter (\<lambda>purpose. newest_attempt (filter (\<lambda>p. po_purpose p = purpose) ps))
     (remdups (map po_purpose ps))"

definition payout_status_of :: "payout_attempt list \<Rightarrow> payout_status" where
  "payout_status_of latest = (if list_ex (\<lambda>p. po_outcome p = UNKNOWN \<and> po_provider_reference p = None) latest then PENDING
     else if list_ex (\<lambda>p. po_outcome p = UNKNOWN \<and> po_provider_reference p \<noteq> None) latest then UNKNOWN_PAYOUT
     else if list_all (\<lambda>p. po_outcome p = SUCCEEDED) latest then PAID
     else if list_ex (\<lambda>p. po_outcome p = FAILED_DEFINITE) latest then FAILED_PAYOUT
     else PENDING)"

definition refresh_transaction_payout_status :: "transaction \<Rightarrow> db \<Rightarrow> transaction" where
  "refresh_transaction_payout_status t s = (if \<not> outbox_ready s then t
     else (case find_escrow_for_transaction (tx_id t) s of
         None \<Rightarrow> t\<lparr>tx_payout_status := NOT_REQUIRED\<rparr>
       | Some e \<Rightarrow> (let attempts = payouts_of (es_id e) s in
           if attempts = [] then t\<lparr>tx_payout_status := NOT_REQUIRED\<rparr>
           else t\<lparr>tx_payout_status := payout_status_of (latest_attempts attempts)\<rparr>)))"

section \<open>Queueing a payout\<close>

text \<open>
  The database refuses a second attempt with the same identifier, and a second one that has not
  definitely failed for the same escrow and purpose.
\<close>

definition insert_payout :: "payout_attempt \<Rightarrow> db \<Rightarrow> exn + db" where
  "insert_payout p s = (if po_id p \<in> po_id ` set (d_payouts s) then Inl (IntegrityError ''payout_attempts_pkey'')
     else if po_outcome p \<noteq> FAILED_DEFINITE \<and> list_ex (\<lambda>q. po_escrow q = po_escrow p \<and> po_purpose q = po_purpose p \<and>
         po_outcome q \<noteq> FAILED_DEFINITE) (d_payouts s)
     then Inl (IntegrityError ''ux_payout_attempts_one_non_failed_per_escrow_purpose'')
     else Inr (s\<lparr>d_payouts := d_payouts s @ [p]\<rparr>))"

definition live_payouts :: "uuid \<Rightarrow> string \<Rightarrow> db \<Rightarrow> payout_attempt list" where
  "live_payouts eid purpose s = filter (\<lambda>p. po_purpose p = purpose \<and> po_outcome p \<noteq> FAILED_DEFINITE) (payouts_of eid s)"

text \<open>The part of \<open>_enqueue_payout_intent\<close> that is reached when the escrow \<open>e\<close> has no such attempt.\<close>

definition add_payout_attempt ::
    "env \<Rightarrow> service \<Rightarrow> transaction \<Rightarrow> escrow \<Rightarrow> string \<Rightarrow> string \<Rightarrow> uuid \<Rightarrow> cents \<Rightarrow> db \<Rightarrow> exn + (payout_attempt \<times> db)" where
  "add_payout_attempt E sv t e np kind destination_user payout_amount s1 =
     bindE (resolve_destination_phone destination_user s1) (\<lambda>phone.
     bindE (payout_rail_for_escrow E e s1) (\<lambda>(rail, s2).
     let p = \<lparr>po_id = e_uuid E (d_draws s2), po_escrow = es_id e, po_purpose = np, po_rail_name = rail,
         po_provider_name = rail, po_idempotency_key = ''outbox:'' @ np, po_provider_reference = None,
         po_amount = payout_amount, po_currency = es_currency e, po_outcome = UNKNOWN,
         po_request_snapshot = [(''transaction_id'', JStr (uuid_str (tx_id t))), (''escrow_id'', JStr (uuid_str (es_id e))),
           (''payout_kind'', JStr kind), (''purpose'', JStr np), (''destination_phone'', JStr phone),
           (''amount'', JStr (cents_str payout_amount)), (''currency'', JStr (es_currency e))],
         po_response_snapshot = [], po_failure_code = None, po_failure_reason = None,
         po_attempted_at = e_now E, po_created_at = e_now E\<rparr>
     in bindE (insert_payout p (s2\<lparr>d_draws := Suc (d_draws s2)\<rparr>)) (\<lambda>s3.
        bindE (record_money_audit_event E ((new_audit E (''payout_'' @ kind @ ''_queued'') (sv_actor_type sv))
          \<lparr>ma_actor_id := sv_actor_id sv, ma_reason := Some (or_text [sv_audit_reason sv] np),
           ma_transaction := Some (tx_id t), ma_escrow := Some (es_id e), ma_attempt := Some (po_id p),
           ma_rail_name := Some rail, ma_amount := Some payout_amount, ma_currency := Some (es_currency e),
           ma_details := [(''purpose'', JStr np)]\<rparr>) s3) (\<lambda>s4.
        Inr (p, s4)))))"

definition enqueue_payout_intent ::
    "env \<Rightarrow> service \<Rightarrow> transaction \<Rightarrow> string \<Rightarrow> string \<Rightarrow> uuid \<Rightarrow> cents \<Rightarrow> db \<Rightarrow> exn + (payout_attempt option \<times> transaction \<times> db)" where
  "enqueue_payout_intent E sv t purpose kind destination_user amount s = (let np = strip purpose in
     if np = '''' then Inl (EscrowServiceError ''Payout purpose is required.'')
     else bindE (normalize_amount (dec_of_cents amount)) (\<lambda>payout_amount.
       if \<not> outbox_ready s then Inr (None, t, s)
       else bindE (ensure_escrow_for_transaction E t s) (\<lambda>(e, s1).
         case newest_attempt (live_payouts (es_id e) np s1) of
           Some p \<Rightarrow> Inr (Some p, refresh_transaction_payout_status t s1, s1)
         | None \<Rightarrow> bindE (add_payout_attempt E sv t e np kind destination_user payout_amount s1) (\<lambda>(p, s2).
             Inr (Some p, t\<lparr>tx_payout_status := PENDING\<rparr>, s2)))))"

definition queue_release_full :: "env \<Rightarrow> service \<Rightarrow> transaction \<Rightarrow> string \<Rightarrow> db \<Rightarrow> exn + (payout_attempt option \<times> transaction \<times> db)" where
  "queue_release_full E sv t purpose s = enqueue_payout_intent E sv t purpose ''release'' (tx_seller t) (tx_amount t) s"

definition queue_refund_full :: "env \<Rightarrow> service \<Rightarrow> transaction \<Rightarrow> string \<Rightarrow> db \<Rightarrow> exn + (payout_attempt option \<times> transaction \<times> db)" where
  "queue_refund_full E sv t purpose s = enqueue_payout_intent E sv t purpose ''refund'' (tx_buyer t) (tx_amount t) s"

definition queue_split_payout ::
    "env \<Rightarrow> service \<Rightarrow> transaction \<Rightarrow> string \<Rightarrow> string \<Rightarrow> decimal \<Rightarrow> db \<Rightarrow> exn + (transaction \<times> db)" where
  "queue_split_payout E sv t release_purpose refund_purpose split_ratio s =
     bindE (is_split_capability_supported E s) (\<lambda>(supported, s0).
     if \<not> supported then Inl (SplitPayoutUnsupportedError ''Current custody capabilities do not support split payout orchestration.'')
     else bindE (split_amounts (tx_amount t) split_ratio) (\<lambda>(release, refund).
       if release \<le> 0 \<or> refund \<le> 0 then Inl (EscrowServiceError ''Split payout amounts must both be greater than zero.'')
       else bindE (enqueue_payout_intent E sv t release_purpose ''release'' (tx_seller t) release s0) (\<lambda>(_, t1, s1).
         bindE (enqueue_payout_intent E sv t1 refund_purpose ''refund'' (tx_buyer t1) refund s1) (\<lambda>(_, t2, s2).
         Inr (refresh_transaction_payout_status t2 s2, s2)))))"

section \<open>What queueing leaves alone\<close>

definition payout_only :: "db \<Rightarrow> db \<Rightarrow> bool" where
  "payout_only s s' = (s\<lparr>d_escrows := [], d_payouts := [], d_rail_health := [], d_audits := [], d_anchors := [], d_draws := 0\<rparr> =
     s'\<lparr>d_escrows := [], d_payouts := [], d_rail_health := [], d_audits := [], d_anchors := [], d_draws := 0\<rparr>)"

lemma payout_only_refl [simp, intro]: "payout_only s s"
  by (simp add: payout_only_def)

lemma payout_only_trans [trans]: "payout_only s s' \<Longrightarrow> payout_only s' s'' \<Longrightarrow> payout_only s s''"
  by (simp add: payout_only_def)

lemma payout_only_frame:
  assumes "payout_only s s'"
  shows "d_tables s' = d_tables s" "d_users s' = d_users s" "d_listings s' = d_listings s"
    "d_transactions s' = d_transactions s" "d_disputes s' = d_disputes s" "d_notifications s' = d_notifications s"
    "d_collections s' = d_collections s" "d_ledger s' = d_ledger s" "d_prompts s' = d_prompts s"
  using assms by (cases s; cases s'; simp add: payout_only_def)+

lemma payout_only_get:
  assumes "payout_only s s'"
  shows "get_transaction i s' = get_transaction i s" "get_dispute i s' = get_dispute i s"
    "get_user i s' = get_user i s" "get_listing i s' = get_listing i s" "has_table n s' = has_table n s"
    "outbox_ready s' = outbox_ready s"
  using payout_only_frame [OF assms]
  by (simp_all add: get_transaction_def get_dispute_def get_user_def get_listing_def has_table_def outbox_ready_def)

lemma logs_only_payout_only: "logs_only s s' \<Longrightarrow> payout_only s s'"
  by (cases s; cases s') (simp add: logs_only_def payout_only_def)

lemma rails_only_payout_only: "rails_only s s' \<Longrightarrow> payout_only s s'"
  by (cases s; cases s') (simp add: rails_only_def payout_only_def)

lemma payout_only_escrows [simp]: "payout_only s (s\<lparr>d_escrows := x, d_draws := n\<rparr>)"
  by (simp add: payout_only_def)

lemma payout_only_payouts [simp]: "payout_only s (s\<lparr>d_draws := n, d_payouts := x\<rparr>)"
  by (simp add: payout_only_def)

section \<open>The outbox\<close>

text \<open>
  Well-formedness of the outbox: escrows have their own identifiers, one per transaction, and an
  attempt belongs to an escrow.
\<close>

definition outbox_wf :: "db \<Rightarrow> bool" where
  "outbox_wf s = (distinct (map es_id (d_escrows s)) \<and> distinct (map es_transaction (d_escrows s)) \<and>
     po_escrow ` set (d_payouts s) \<subseteq> es_id ` set (d_escrows s))"

text \<open>The attempts of a transaction that have not definitely failed, and what they would pay.\<close>

definition tx_payouts :: "uuid \<Rightarrow> db \<Rightarrow> payout_attempt list" where
  "tx_payouts tid s = (case find_escrow_for_transaction tid s of None \<Rightarrow> []
     | Some e \<Rightarrow> filter (\<lambda>p. po_outcome p \<noteq> FAILED_DEFINITE) (payouts_of (es_id e) s))"

definition live_total :: "uuid \<Rightarrow> db \<Rightarrow> cents" where
  "live_total tid s = sum_list (map po_amount (tx_payouts tid s))"

lemma outbox_same:
  assumes "d_escrows s' = d_escrows s" and "d_payouts s' = d_payouts s"
  shows "outbox_wf s' = outbox_wf s" "tx_payouts tid s' = tx_payouts tid s" "live_total tid s' = live_total tid s"
    "find_escrow_for_transaction tid s' = find_escrow_for_transaction tid s"
proof -
  show t: "tx_payouts tid s' = tx_payouts tid s" for tid
    using assms by (simp add: tx_payouts_def find_escrow_for_transaction_def payouts_of_def cong: option.case_cong)
  show "outbox_wf s' = outbox_wf s" "live_total tid s' = live_total tid s"
    "find_escrow_for_transaction tid s' = find_escrow_for_transaction tid s"
    using assms t by (simp_all add: outbox_wf_def live_total_def find_escrow_for_transaction_def)
qed

lemma find_escrow_SomeD: "find_escrow_for_transaction tid s = Some e \<Longrightarrow> e \<in> set (d_escrows s) \<and> es_transaction e = tid"
  unfolding find_escrow_for_transaction_def by (rule row_get_SomeD)

lemma ensure_escrow_effect:
  assumes "ensure_escrow_for_transaction E t s = Inr (e, s')" and "outbox_wf s"
  shows "payout_only s s'" and "outbox_wf s'" and "d_payouts s' = d_payouts s"
    and "find_escrow_for_transaction (tx_id t) s' = Some e"
    and "tx_payouts tid s' = tx_payouts tid s"
    and "live_total tid s' = live_total tid s"
    and "payouts_of (es_id e) s' = (if find_escrow_for_transaction (tx_id t) s = None then [] else payouts_of (es_id e) s)"
proof -
  have "payout_only s s' \<and> outbox_wf s' \<and> d_payouts s' = d_payouts s \<and>
      find_escrow_for_transaction (tx_id t) s' = Some e \<and> (\<forall>tid. tx_payouts tid s' = tx_payouts tid s) \<and>
      payouts_of (es_id e) s' = (if find_escrow_for_transaction (tx_id t) s = None then [] else payouts_of (es_id e) s)"
  proof (cases "find_escrow_for_transaction (tx_id t) s")
    case (Some e')
    then show ?thesis using assms by (auto simp: ensure_escrow_for_transaction_def)
  next
    case None
    then have "\<exists>q. e = new_escrow (e_uuid E (d_draws s)) t q (e_now E)" and e2: "get_escrow (es_id e) s = None"
      and s': "s' = s\<lparr>d_escrows := d_escrows s @ [e], d_draws := Suc (d_draws s)\<rparr>"
      using assms(1) by (auto simp: ensure_escrow_for_transaction_def bindE_eq_Inr Let_def split: if_splits)
    then have e: "es_transaction e = tx_id t" "get_escrow (es_id e) s = None" by (auto simp: new_escrow_def)
    have new: "es_id e \<notin> es_id ` set (d_escrows s)" "tx_id t \<notin> es_transaction ` set (d_escrows s)"
      using e(2) None by (simp_all add: get_escrow_def find_escrow_for_transaction_def row_get_None)
    then have "es_id e \<notin> po_escrow ` set (d_payouts s)" using assms(2) unfolding outbox_wf_def by blast
    then have none: "payouts_of (es_id e) s = []" unfolding payouts_of_def filter_empty_conv by (metis imageI)
    have f: "find_escrow_for_transaction tid s' = (if tid = tx_id t then Some e else find_escrow_for_transaction tid s)" for tid
      using None s' e(1) by (auto simp: find_escrow_for_transaction_def row_get_append split: option.splits)
    have "tx_payouts tid s' = tx_payouts tid s" for tid
      using f [of tid] none None s' by (auto simp: tx_payouts_def payouts_of_def split: option.split)
    moreover have "outbox_wf s'" using assms(2) new s' e(1) by (auto simp: outbox_wf_def)
    ultimately show ?thesis using f none s' None by (auto simp: payouts_of_def)
  qed
  then show "payout_only s s'" and "outbox_wf s'" and "d_payouts s' = d_payouts s"
    and "find_escrow_for_transaction (tx_id t) s' = Some e" and "tx_payouts tid s' = tx_payouts tid s"
    and "live_total tid s' = live_total tid s"
    and "payouts_of (es_id e) s' = (if find_escrow_for_transaction (tx_id t) s = None then [] else payouts_of (es_id e) s)"
    by (auto simp: live_total_def)
qed

lemma default_payout_rail_only: "default_payout_rail_name E s = Inr (r, s') \<Longrightarrow> rails_only s s'"
  using payout_routing.step_only [of s "e_registry E" "e_now E"]
  by (auto simp: default_payout_rail_name_def split: prod.splits sum.splits)

lemma payout_rail_only: "payout_rail_for_escrow E e s = Inr (r, s') \<Longrightarrow> rails_only s s'"
  by (auto simp: payout_rail_for_escrow_def Let_def dest: default_payout_rail_only split: if_splits)

lemma split_supported_only: "is_split_capability_supported E s = Inr (b, s') \<Longrightarrow> rails_only s s'"
  by (auto simp: is_split_capability_supported_def Let_def bindE_eq_Inr dest: default_payout_rail_only split: if_splits)

lemma newest_attempt_fold_None:
  "fold (\<lambda>p best. case best of None \<Rightarrow> Some p | Some b \<Rightarrow> if P b p then Some p else best) ps acc = None \<longleftrightarrow>
     ps = [] \<and> acc = None"
  by (induction ps arbitrary: acc) (auto split: option.splits)

lemma newest_attempt_None [simp]: "newest_attempt ps = None \<longleftrightarrow> ps = []"
  by (simp add: newest_attempt_def newest_attempt_fold_None)

lemma refresh_fields: "refresh_transaction_payout_status t s = t\<lparr>tx_payout_status := tx_payout_status (refresh_transaction_payout_status t s)\<rparr>"
  by (simp add: refresh_transaction_payout_status_def Let_def split: option.split)

text \<open>
  One call of \<open>_enqueue_payout_intent\<close>: nothing without the outbox tables; the transaction's
  existing attempt for the purpose; or one new attempt for the given amount.
\<close>

lemma add_payout_attempt_effect:
  assumes "add_payout_attempt E sv t e np kind u amount s = Inr (p, s')"
  shows "po_escrow p = es_id e" "po_purpose p = np" "po_amount p = amount" "po_outcome p = UNKNOWN"
    "d_payouts s' = d_payouts s @ [p]" "d_escrows s' = d_escrows s" "payout_only s s'"
proof -
  from assms obtain phone rail s2 s3 where r: "payout_rail_for_escrow E e s = Inr (rail, s2)"
    and p: "po_escrow p = es_id e \<and> po_purpose p = np \<and> po_amount p = amount \<and> po_outcome p = UNKNOWN"
    and i: "insert_payout p (s2\<lparr>d_draws := Suc (d_draws s2)\<rparr>) = Inr s3" and l: "logs_only s3 s'"
    by (auto simp: add_payout_attempt_def bindE_eq_Inr Let_def dest!: log_steps)
  have ro: "rails_only s s2" by (rule payout_rail_only [OF r])
  have s3: "s3 = s2\<lparr>d_draws := Suc (d_draws s2), d_payouts := d_payouts s2 @ [p]\<rparr>"
    using i by (auto simp: insert_payout_def split: if_splits)
  show "payout_only s s'"
    using rails_only_payout_only [OF ro] logs_only_payout_only [OF l] s3 by (metis payout_only_payouts payout_only_trans)
  show "d_payouts s' = d_payouts s @ [p]" "d_escrows s' = d_escrows s"
    using s3 rails_only_frame [OF ro] logs_only_frame [OF l] by simp_all
  show "po_escrow p = es_id e" "po_purpose p = np" "po_amount p = amount" "po_outcome p = UNKNOWN" using p by auto
qed

lemma enqueue_cases:
  assumes "enqueue_payout_intent E sv t purpose kind u amount s = Inr (po, t', s')" and "outbox_wf s"
  obtains (skipped) "\<not> outbox_ready s" "po = None" "t' = t" "s' = s"
  | (existing) p where "outbox_ready s" "po = Some p" "payout_only s s'" "outbox_wf s'"
      "\<exists>q \<in> set (tx_payouts (tx_id t) s). po_purpose q = strip purpose"
      "\<And>tid. tx_payouts tid s' = tx_payouts tid s" "\<exists>x. t' = t\<lparr>tx_payout_status := x\<rparr>"
  | (queued) p where "outbox_ready s" "po = Some p" "payout_only s s'" "outbox_wf s'" "0 < amount"
      "\<forall>q \<in> set (tx_payouts (tx_id t) s). po_purpose q \<noteq> strip purpose"
      "\<And>tid. tx_payouts tid s' = tx_payouts tid s @ (if tid = tx_id t then [p] else [])"
      "po_amount p = amount" "po_purpose p = strip purpose" "po_outcome p = UNKNOWN"
      "t' = t\<lparr>tx_payout_status := PENDING\<rparr>"
proof (cases "outbox_ready s")
  case False
  with assms show ?thesis
    by (intro skipped) (auto simp: enqueue_payout_intent_def Let_def bindE_eq_Inr split: if_splits)
next
  case True
  let ?np = "strip purpose"
  from assms(1) True obtain q e s1 where q: "normalize_amount (dec_of_cents amount) = Inr q"
    and en: "ensure_escrow_for_transaction E t s = Inr (e, s1)"
    and rest: "(case newest_attempt (live_payouts (es_id e) ?np s1) of
           Some p \<Rightarrow> Inr (Some p, refresh_transaction_payout_status t s1, s1)
         | None \<Rightarrow> bindE (add_payout_attempt E sv t e ?np kind u q s1) (\<lambda>(p, s2).
             Inr (Some p, t\<lparr>tx_payout_status := PENDING\<rparr>, s2))) = Inr (po, t', s')"
    unfolding enqueue_payout_intent_def Let_def bindE_eq_Inr
    by (auto simp only: bindE_eq_Inr split: if_splits)
  from normalize_amount_Inr [OF q] have qa: "q = amount" "0 < amount" by auto
  note ee = ensure_escrow_effect [OF en assms(2)]
  have live: "tx_payouts (tx_id t) s1 = filter (\<lambda>p. po_outcome p \<noteq> FAILED_DEFINITE) (payouts_of (es_id e) s1)"
    using ee(4) by (simp add: tx_payouts_def)
  have lp: "set (live_payouts (es_id e) ?np s1) = {p \<in> set (tx_payouts (tx_id t) s). po_purpose p = ?np}"
    unfolding ee(5) [of "tx_id t", symmetric] live by (auto simp: live_payouts_def)
  show ?thesis
  proof (cases "newest_attempt (live_payouts (es_id e) ?np s1)")
    case (Some p)
    then have "live_payouts (es_id e) ?np s1 \<noteq> []" by (metis newest_attempt_None option.distinct(1))
    then have "\<exists>q \<in> set (tx_payouts (tx_id t) s). po_purpose q = ?np" using lp by (auto simp flip: set_empty)
    moreover have "po = Some p" and "t' = refresh_transaction_payout_status t s1" and "s' = s1"
      using rest unfolding Some by auto
    moreover have "\<exists>x. refresh_transaction_payout_status t s1 = t\<lparr>tx_payout_status := x\<rparr>"
      using refresh_fields [of t s1] by blast
    ultimately show ?thesis using True ee by (intro existing [of p]) auto
  next
    case None
    then have none: "\<forall>q \<in> set (tx_payouts (tx_id t) s). po_purpose q \<noteq> ?np" using lp by auto
    from rest None qa(1) obtain p where add: "add_payout_attempt E sv t e ?np kind u amount s1 = Inr (p, s')"
      and po: "po = Some p" "t' = t\<lparr>tx_payout_status := PENDING\<rparr>"
      by (auto simp: bindE_eq_Inr)
    note p = add_payout_attempt_effect [OF add]
    have "payout_only s s'" using ee(1) p(7) by (rule payout_only_trans)
    moreover have mem: "e \<in> set (d_escrows s1)" "es_transaction e = tx_id t" using find_escrow_SomeD [OF ee(4)] by auto
    then have "outbox_wf s'" using ee(2) p(1,5,6) by (auto simp: outbox_wf_def)
    moreover have "tx_payouts tid s' = tx_payouts tid s1 @ (if tid = tx_id t then [p] else [])" for tid
    proof (cases "find_escrow_for_transaction tid s1")
      case None
      then show ?thesis using ee(4) p(6) by (auto simp: tx_payouts_def find_escrow_for_transaction_def)
    next
      case (Some e')
      then have "es_id e' = es_id e \<longleftrightarrow> tid = tx_id t"
        using find_escrow_SomeD [OF Some] mem ee(2,4) by (auto simp: outbox_wf_def distinct_map dest: inj_onD)
      then show ?thesis using Some p(1,4,5,6)
        by (auto simp: tx_payouts_def find_escrow_for_transaction_def payouts_of_def)
    qed
    ultimately show ?thesis using True none po p qa(2) ee(5) by (intro queued) auto
  qed
qed

section \<open>The contract the order workflow relies on\<close>

text \<open>
  \<open>settles t t' s s'\<close>: the queue operation ran for the order \<open>t\<close>. It may change the order's payout
  status and nothing else of it, keeps the outbox well formed and the other orders' attempts as they
  are; an order without attempts gets attempts for exactly its amount (none without the outbox).
\<close>

definition settles :: "transaction \<Rightarrow> transaction \<Rightarrow> db \<Rightarrow> db \<Rightarrow> bool" where
  "settles t t' s s' = ((\<exists>x. t' = t\<lparr>tx_payout_status := x\<rparr>) \<and> payout_only s s' \<and> outbox_wf s' \<and>
     (\<forall>tid. tid \<noteq> tx_id t \<longrightarrow> tx_payouts tid s' = tx_payouts tid s) \<and>
     (tx_payouts (tx_id t) s = [] \<longrightarrow> live_total (tx_id t) s' = (if outbox_ready s then tx_amount t else 0)))"

definition small_amount :: "transaction \<Rightarrow> bool" where
  "small_amount t = (0 \<le> tx_amount t \<and> tx_amount t < 10 ^ 12)"

locale payout_queue =
  fixes queue :: "transaction \<Rightarrow> db \<Rightarrow> exn + (transaction \<times> db)"
  assumes queue_settles: "outbox_wf s \<Longrightarrow> small_amount t \<Longrightarrow> queue t s = Inr (t', s') \<Longrightarrow> settles t t' s s'"
begin

lemma queue_fields:
  assumes "outbox_wf s" and "small_amount t" and "queue t s = Inr (t', s')"
  shows "tx_id t' = tx_id t" "tx_status t' = tx_status t" "tx_amount t' = tx_amount t"
    "get_transaction i s' = get_transaction i s" "d_transactions s' = d_transactions s" "outbox_wf s'"
    "outbox_ready s' = outbox_ready s"
  using queue_settles [OF assms] payout_only_get [of s s'] payout_only_frame [of s s']
  by (auto simp: settles_def)

lemma queue_total:
  assumes "outbox_wf s" and "small_amount t" and "queue t s = Inr (t', s')" and "tx_payouts (tx_id t) s = []"
  shows "live_total i s' = (if i = tx_id t then if outbox_ready s then tx_amount t else 0 else live_total i s)"
  using queue_settles [OF assms(1-3)] assms(4) by (auto simp: settles_def live_total_def)

end

lemma enqueue_full_settles:
  assumes "enqueue_payout_intent E sv t purpose kind u (tx_amount t) s = Inr (po, t', s')" and "outbox_wf s"
  shows "settles t t' s s'"
  using assms
proof (cases rule: enqueue_cases)
  case skipped
  then show ?thesis using assms(2) by (auto simp: settles_def live_total_def intro: exI [of _ "tx_payout_status t"])
next
  case (existing p)
  then show ?thesis by (auto simp: settles_def)
next
  case (queued p)
  then show ?thesis by (auto simp: settles_def live_total_def)
qed

lemma enqueue_weak:
  assumes "enqueue_payout_intent E sv t purpose kind u amount s = Inr (po, t', s')" and "outbox_wf s"
  shows "\<exists>x. t' = t\<lparr>tx_payout_status := x\<rparr>" and "payout_only s s'" and "outbox_wf s'"
    and "tid \<noteq> tx_id t \<Longrightarrow> tx_payouts tid s' = tx_payouts tid s"
    and "\<exists>l. tx_payouts (tx_id t) s' = tx_payouts (tx_id t) s @ l"
    and "outbox_ready s \<Longrightarrow> \<forall>q \<in> set (tx_payouts (tx_id t) s). po_purpose q \<noteq> strip purpose \<Longrightarrow>
      \<exists>p. tx_payouts (tx_id t) s' = tx_payouts (tx_id t) s @ [p] \<and> po_amount p = amount \<and> po_purpose p = strip purpose"
    and "\<not> outbox_ready s \<Longrightarrow> s' = s"
  using assms by (cases rule: enqueue_cases; auto intro: exI [of _ "tx_payout_status t"])+

definition queue_op :: "(transaction \<Rightarrow> db \<Rightarrow> exn + ('a \<times> transaction \<times> db)) \<Rightarrow> transaction \<Rightarrow> db \<Rightarrow> exn + (transaction \<times> db)" where
  "queue_op f t s = bindE (f t s) (\<lambda>(_, t', s'). Inr (t', s'))"

interpretation release_queue: payout_queue "queue_op (\<lambda>t. queue_release_full E sv t purpose)" for E sv purpose
  by unfold_locales (auto simp: queue_op_def queue_release_full_def bindE_eq_Inr intro: enqueue_full_settles)

interpretation refund_queue: payout_queue "queue_op (\<lambda>t. queue_refund_full E sv t purpose)" for E sv purpose
  by unfold_locales (auto simp: queue_op_def queue_refund_full_def bindE_eq_Inr intro: enqueue_full_settles)

lemma queue_split_settles:
  assumes "queue_split_payout E sv t rp fp share s = Inr (t', s')" and "outbox_wf s" and "small_amount t"
    and "strip rp \<noteq> strip fp"
  shows "settles t t' s s'"
proof -
  from assms(1) obtain s0 release refund po1 t1 s1 po2 t2 where r0: "is_split_capability_supported E s = Inr (True, s0)"
    and sp: "split_amounts (tx_amount t) share = Inr (release, refund)"
    and e1: "enqueue_payout_intent E sv t rp ''release'' (tx_seller t) release s0 = Inr (po1, t1, s1)"
    and e2: "enqueue_payout_intent E sv t1 fp ''refund'' (tx_buyer t1) refund s1 = Inr (po2, t2, s')"
    and t': "t' = refresh_transaction_payout_status t2 s'"
    by (auto simp: queue_split_payout_def bindE_eq_Inr split: if_splits)
  have ro: "rails_only s s0" using r0 by (rule split_supported_only)
  then have same: "d_escrows s0 = d_escrows s" "d_payouts s0 = d_payouts s" by (simp_all add: rails_only_frame)
  have ready: "outbox_ready s0 = outbox_ready s" and p0: "payout_only s s0"
    using rails_only_payout_only [OF ro] by (simp_all add: payout_only_get)
  have wf0: "outbox_wf s0" using assms(2) outbox_same(1) [OF same] by simp
  have sum: "release + refund = tx_amount t" using split_amounts_exact [OF _ _ sp] assms(3) by (simp add: small_amount_def)
  have fin: "\<exists>x. t' = t2\<lparr>tx_payout_status := x\<rparr>" using t' refresh_fields by metis
  note w1 = enqueue_weak [OF e1 wf0]
  have t1: "tx_id t1 = tx_id t" using w1(1) by auto
  note w2 = enqueue_weak [OF e2 w1(3), unfolded t1]
  have "\<exists>x. t' = t\<lparr>tx_payout_status := x\<rparr>" using fin w1(1) w2(1) by auto
  moreover have "payout_only s s'" using p0 w1(2) w2(2) by (blast intro: payout_only_trans)
  moreover have "\<forall>tid. tid \<noteq> tx_id t \<longrightarrow> tx_payouts tid s' = tx_payouts tid s"
    using w1(4) w2(4) outbox_same(2) [OF same] by simp
  moreover have "live_total (tx_id t) s' = (if outbox_ready s then tx_amount t else 0)" if none: "tx_payouts (tx_id t) s = []"
  proof (cases "outbox_ready s")
    case True
    have none0: "tx_payouts (tx_id t) s0 = []" using none outbox_same(2) [OF same] by simp
    obtain p where p: "tx_payouts (tx_id t) s1 = [p]" "po_amount p = release" "po_purpose p = strip rp"
      using w1(6) True ready none0 by auto
    have "outbox_ready s1" using True ready payout_only_get(6) [OF w1(2)] by simp
    then obtain q where "tx_payouts (tx_id t) s' = [p, q]" "po_amount q = refund"
      using w2(6) p assms(4) by auto
    then show ?thesis using True p sum by (simp add: live_total_def)
  next
    case False
    then have "s' = s0" using w1(7) w2(7) ready by simp
    then show ?thesis using False none outbox_same(2) [OF same] by (simp add: live_total_def)
  qed
  ultimately show ?thesis using w2(3) by (simp add: settles_def)
qed

end
