(* ===== verification/Notices.thy ===== *)
theory Notices
  imports Escrow_Service
begin

text \<open>
  The notifications of app/services/transaction.py, one definition per \<open>_create_*_notifications\<close>
  helper: a row for the buyer and one for the seller, added to the request's session.
\<close>

definition add_notification ::
    "env \<Rightarrow> uuid \<Rightarrow> event_type \<Rightarrow> uuid \<Rightarrow> string \<Rightarrow> string \<Rightarrow> dict \<Rightarrow> db \<Rightarrow> db" where
  "add_notification E tid ev u title message payload s =
     s\<lparr>d_notifications := d_notifications s @ [\<lparr>n_id = e_uuid E (d_draws s), n_user = u, n_transaction = tid,
         n_event = ev, n_channel = IN_APP, n_title = title, n_message = message, n_payload = payload, n_is_read = False,
         n_read_at = None, n_delivered_at = None, n_delivery_status = NOT_ATTEMPTED, n_created_at = e_now E\<rparr>],
       d_draws := Suc (d_draws s)\<rparr>"

definition notify_parties ::
    "env \<Rightarrow> transaction \<Rightarrow> event_type \<Rightarrow> string \<times> string \<times> dict \<Rightarrow> string \<times> string \<times> dict \<Rightarrow> db \<Rightarrow> db" where
  "notify_parties E t ev buyer seller s = (case (buyer, seller) of ((bt, bm, bp), (st, sm, sp)) \<Rightarrow>
     add_notification E (tx_id t) ev (tx_seller t) st sm sp (add_notification E (tx_id t) ev (tx_buyer t) bt bm bp s))"

definition order_keys :: "transaction \<Rightarrow> dict" where
  "order_keys t = [(''transaction_id'', JStr (uuid_str (tx_id t))), (''listing_id'', JStr (uuid_str (tx_listing t)))]"

definition history_entry :: "tx_status \<Rightarrow> tx_status \<Rightarrow> time \<Rightarrow> string \<Rightarrow> string \<Rightarrow> string json" where
  "history_entry a b now by reason = JObj [(''from'', JStr (status_value a)), (''to'', JStr (status_value b)),
     (''at'', JStr (isoformat now)), (''initiated_by'', JStr by), (''reason'', JStr reason)]"

definition create_transaction_created_notifications :: "env \<Rightarrow> transaction \<Rightarrow> db \<Rightarrow> db" where
  "create_transaction_created_notifications E t s = (let payload = order_keys t @
       [(''status'', JStr (status_value (tx_status t))), (''amount'', JStr (cents_str (tx_amount t))),
        (''created_at'', jtime (Some (tx_created_at t)))] in
     notify_parties E t TRANSACTION_CREATED
       (''Transaction created'', ''Your escrow transaction has been created and is awaiting payment.'', payload)
       (''New escrow transaction'', ''A buyer created an escrow transaction for your listing.'', payload) s)"

definition create_locked_notifications :: "env \<Rightarrow> transaction \<Rightarrow> dict \<Rightarrow> db \<Rightarrow> db" where
  "create_locked_notifications E t details s = (let payload = order_keys t @ details @ [(''locked_at'', jtime (tx_locked_at t))] in
     notify_parties E t TRANSACTION_LOCKED
       (''Payment confirmed'', ''Your payment has been confirmed and the transaction is now locked.'', payload)
       (''Buyer payment confirmed'', ''Buyer payment has been confirmed and the transaction is now locked.'', payload) s)"

definition create_dispatched_notifications :: "env \<Rightarrow> transaction \<Rightarrow> db \<Rightarrow> db" where
  "create_dispatched_notifications E t s = (let payload = order_keys t @ [(''dispatched_at'', jtime (tx_dispatched_at t))] in
     notify_parties E t TRANSACTION_DISPATCHED
       (''Seller dispatched transaction'', ''Your transaction has been dispatched and is out for delivery.'', payload)
       (''Dispatch confirmed'', ''You have dispatched this transaction and it is now out for delivery.'', payload) s)"

definition create_arrival_notifications :: "env \<Rightarrow> transaction \<Rightarrow> string \<Rightarrow> db \<Rightarrow> db" where
  "create_arrival_notifications E t otp s = (let payload = order_keys t @ [(''at_door_at'', jtime (tx_at_door_at t))] in
     notify_parties E t DELIVERY_ARRIVED
       (''Delivery arrived'', ''Your delivery code is '' @ otp @ ''. Enter it in Vekro only after you have '' @
          ''inspected the item. Do not share it with the seller or courier.'', payload @ [(''delivery_code'', JStr otp)])
       (''Arrival confirmed'', ''Delivery arrival has been recorded and inspection is now pending.'', payload) s)"

definition create_otp_given_notifications :: "env \<Rightarrow> transaction \<Rightarrow> db \<Rightarrow> db" where
  "create_otp_given_notifications E t s = (let payload = order_keys t @
       [(''hold_started_at'', jtime (tx_hold_started_at t)), (''released_at'', jtime (tx_released_at t)),
        (''transition'', JObj [(''from'', JStr (status_value AT_DOOR_PENDING_INSPECTION)), (''to'', JStr (status_value (tx_status t)))])] in
     notify_parties E t OTP_GIVEN
       (''OTP confirmed'', ''OTP confirmed successfully and transaction moved to next stage.'', payload)
       (''Buyer confirmed OTP'', ''Buyer OTP is confirmed and transaction moved to next stage.'', payload) s)"

definition DOOR_REJECT_REASON_LABELS :: "(string \<times> string) list" where
  "DOOR_REJECT_REASON_LABELS = [(''damaged'', ''Damaged''), (''wrong_item'', ''Wrong item''),
     (''not_as_described'', ''Not as described''), (''missing_parts'', ''Missing parts''), (''other'', ''Something else'')]"

definition create_otp_withheld_notifications ::
    "env \<Rightarrow> transaction \<Rightarrow> string json list \<Rightarrow> string \<Rightarrow> string \<Rightarrow> db \<Rightarrow> db" where
  "create_otp_withheld_notifications E t history by reason s = (let payload = order_keys t @
       [(''initiated_by'', JStr by), (''reason'', JStr reason), (''transition_history'', JArr history),
        (''refunded_at'', jtime (tx_refunded_at t))];
       said = map_of DOOR_REJECT_REASON_LABELS (or_text [tx_door_rejection_reason t] '''');
       note = (case tx_door_rejection_note t of None \<Rightarrow> '''' | Some n \<Rightarrow> if n = '''' then '''' else '' Note: '' @ n) in
     notify_parties E t OTP_WITHHELD
       (''OTP withheld'', ''OTP was withheld and the transaction moved to buyer refund resolution.'', payload)
       (''Buyer withheld OTP'', ''Buyer withheld OTP and the transaction moved to refund flow.'' @
          (case said of None \<Rightarrow> '''' | Some l \<Rightarrow> '' Reason: '' @ l @ ''.'') @ note,
        payload @ [(''door_rejection_reason'', jopt (tx_door_rejection_reason t)), (''door_rejection_note'', jopt (tx_door_rejection_note t))]) s)"

definition create_timeout_notifications :: "env \<Rightarrow> transaction \<Rightarrow> string json list \<Rightarrow> string \<Rightarrow> db \<Rightarrow> db" where
  "create_timeout_notifications E t history reason s = (let payload = order_keys t @
       [(''reason'', JStr reason), (''transition_history'', JArr history), (''refunded_at'', jtime (tx_refunded_at t))] in
     notify_parties E t SYSTEM_TIMEOUT
       (''System timeout transition'', ''A timeout rule executed and updated your transaction workflow.'', payload)
       (''System timeout transition'', ''A timeout rule executed and updated this transaction workflow.'', payload) s)"

definition create_dispute_buyer_sent_back_notifications :: "env \<Rightarrow> transaction \<Rightarrow> time \<Rightarrow> string \<Rightarrow> string \<Rightarrow> db \<Rightarrow> db" where
  "create_dispute_buyer_sent_back_notifications E t now by reason s = (let payload = order_keys t @
       [(''reason'', JStr reason), (''initiated_by'', JStr by),
        (''transition_history'', JArr [history_entry DISPUTED_FUNCTIONAL RETURN_IN_TRANSIT now by reason])] in
     notify_parties E t DISPUTE_UPDATED
       (''Buyer marked item sent back'', ''Return shipment has been marked and dispute moved to return in transit.'', payload)
       (''Buyer initiated return shipment'', ''Buyer marked the item as sent back and dispute moved to return in transit.'', payload) s)"

definition create_dispute_auto_cancel_notifications :: "env \<Rightarrow> transaction \<Rightarrow> time \<Rightarrow> db \<Rightarrow> db" where
  "create_dispute_auto_cancel_notifications E t now s = (let reason = ''dispute_buyer_sent_back_timeout_3d''; payload = order_keys t @
       [(''reason'', JStr reason), (''initiated_by'', JStr ''system''),
        (''transition_history'', JArr [history_entry DISPUTED_FUNCTIONAL RELEASED now ''system'' reason]),
        (''released_at'', jtime (tx_released_at t))];
       msg = ''Dispute timed out without buyer sent-back confirmation and escrow was released.'' in
     notify_parties E t SYSTEM_TIMEOUT (''Dispute auto-canceled'', msg, payload) (''Dispute auto-canceled'', msg, payload) s)"

definition create_seller_received_notifications :: "env \<Rightarrow> transaction \<Rightarrow> time \<Rightarrow> db \<Rightarrow> db" where
  "create_seller_received_notifications E t now s = (let payload = order_keys t @
       [(''reason'', JStr ''seller_received''), (''initiated_by'', JStr ''seller''),
        (''transition_history'', JArr [history_entry RETURN_IN_TRANSIT RETURN_RECEIVED now ''seller'' ''seller_received''])] in
     notify_parties E t DISPUTE_UPDATED
       (''Seller confirmed return receipt'', ''Seller has confirmed receiving the returned item.'', payload)
       (''Return receipt confirmed'', ''You confirmed return receipt and dispute moved to return received.'', payload) s)"

definition create_seller_received_timeout_notifications :: "env \<Rightarrow> transaction \<Rightarrow> time \<Rightarrow> db \<Rightarrow> db" where
  "create_seller_received_timeout_notifications E t now s = (let reason = ''seller_received_timeout_3d''; payload = order_keys t @
       [(''reason'', JStr reason), (''initiated_by'', JStr ''system''),
        (''transition_history'', JArr [history_entry RETURN_IN_TRANSIT ESCALATED_ADMIN_REVIEW now ''system'' reason]),
        (''escalated_at'', JStr (isoformat now))] in
     notify_parties E t SYSTEM_TIMEOUT
       (''Dispute auto-escalated'', ''Seller did not confirm return receipt in time; dispute escalated for admin review.'', payload)
       (''Dispute auto-escalated'', ''Return receipt was not confirmed in time; dispute escalated for admin review.'', payload) s)"

definition create_seller_resolution_notifications :: "env \<Rightarrow> transaction \<Rightarrow> time \<Rightarrow> seller_action \<Rightarrow> db \<Rightarrow> db" where
  "create_seller_resolution_notifications E t now action s = (let payload = order_keys t @
       [(''action'', JStr (seller_action_value action)),
        (''transition_history'', JArr [history_entry RETURN_RECEIVED (tx_status t) now ''seller'' (seller_action_value action)]),
        (''refunded_at'', jtime (tx_refunded_at t)), (''released_at'', jtime (tx_released_at t))] in
     notify_parties E t DISPUTE_UPDATED
       (''Seller resolution submitted'', ''Seller submitted a dispute resolution action.'', payload)
       (''Resolution action recorded'', ''Your dispute resolution action has been recorded.'', payload) s)"

text \<open>
  The rejection count read from a dispute's evidence. Python's \<open>True\<close> and \<open>False\<close> are integers, so
  a boolean passes the test and stays a boolean.
\<close>

definition BUYER_RECONFIRMATION_RETRY_LIMIT :: int where "BUYER_RECONFIRMATION_RETRY_LIMIT = 1"

definition get_reconfirm_rejection_count :: "dispute option \<Rightarrow> string json" where
  "get_reconfirm_rejection_count d = (case d of None \<Rightarrow> JInt 0
     | Some d \<Rightarrow> (case dict_get ''buyer_reconfirm_rejection_count'' (di_evidence d) of
         Some (JInt n) \<Rightarrow> if 0 \<le> n then JInt n else JInt 0
       | Some (JBool b) \<Rightarrow> JBool b
       | _ \<Rightarrow> JInt 0))"

fun json_int :: "'s json \<Rightarrow> int" where
  "json_int (JInt n) = n"
| "json_int (JBool b) = (if b then 1 else 0)"
| "json_int _ = 0"

definition set_reconfirm_rejection_count :: "dispute \<Rightarrow> int \<Rightarrow> dispute" where
  "set_reconfirm_rejection_count d n = d\<lparr>di_evidence := dict_set ''buyer_reconfirm_rejection_count'' (JInt n) (di_evidence d)\<rparr>"

definition create_buyer_reconfirmation_notifications :: "env \<Rightarrow> transaction \<Rightarrow> time \<Rightarrow> bool \<Rightarrow> string json \<Rightarrow> db \<Rightarrow> db" where
  "create_buyer_reconfirmation_notifications E t now accepted prior s = (let outcome =
       (if accepted then (RESOLVED_RELEASE, ''buyer_reconfirmation_accepted'')
        else if json_int prior < BUYER_RECONFIRMATION_RETRY_LIMIT then (RETURN_RECEIVED, ''buyer_reconfirmation_rejected_retry'')
        else (ESCALATED_ADMIN_REVIEW, ''buyer_reconfirmation_rejected_escalated''));
       payload = order_keys t @ [(''accepted'', JBool accepted), (''prior_rejections'', prior),
        (''transition_history'', JArr [history_entry AWAITING_BUYER_RECONFIRMATION (fst outcome) now ''buyer'' (snd outcome)])] in
     notify_parties E t DISPUTE_UPDATED
       (''Buyer reconfirmation recorded'', ''Your reconfirmation response has been recorded.'', payload)
       (''Buyer reconfirmation update'', ''Buyer reconfirmation response has updated the dispute state.'', payload) s)"

definition create_mutual_confirmation_notifications ::
    "env \<Rightarrow> transaction \<Rightarrow> time \<Rightarrow> string \<Rightarrow> bool \<Rightarrow> bool \<Rightarrow> bool \<Rightarrow> db \<Rightarrow> db" where
  "create_mutual_confirmation_notifications E t now who buyer_confirmed seller_confirmed closed s = (let payload = order_keys t @
       [(''actor'', JStr who), (''buyer_confirmed_resolved'', JBool buyer_confirmed),
        (''seller_confirmed_resolved'', JBool seller_confirmed), (''closed'', JBool closed),
        (''transition_history'', JArr [history_entry RESOLVED_RELEASE (tx_status t) now who ''mutual_confirmation_update''])];
       note = (''Resolution confirmation updated'', ''Mutual resolution confirmation status was updated.'', payload) in
     notify_parties E t DISPUTE_UPDATED note note s)"

definition create_dispute_opened_notifications ::
    "env \<Rightarrow> transaction \<Rightarrow> dispute \<Rightarrow> time \<Rightarrow> string \<Rightarrow> string \<Rightarrow> db \<Rightarrow> db" where
  "create_dispute_opened_notifications E t d now category route s = (let payload = order_keys t @
       [(''dispute_id'', JStr (uuid_str (di_id d))), (''dispute_type'', JStr (dispute_type_value (di_type d))),
        (''dispute_status'', JStr (dispute_status_value (di_status d))), (''category'', JStr category), (''route'', JStr route),
        (''transition_history'', JArr [history_entry HOLD_24H DISPUTED_FUNCTIONAL now ''buyer'' ''functional_issue_reported''])] in
     notify_parties E t DISPUTE_OPENED
       (''Functional issue reported'', ''Your functional issue report has been recorded.'', payload)
       (''Functional issue opened'', ''Buyer reported a functional issue and dispute flow has started.'', payload) s)"

section \<open>What the notices leave alone\<close>

text \<open>
  \<open>calm s s'\<close>: the orders, the parties and the outbox read the same in \<open>s\<close> and \<open>s'\<close>. Recording,
  notifying, dispute rows, prompts and the ledger are all calm.
\<close>

definition calm :: "db \<Rightarrow> db \<Rightarrow> bool" where
  "calm s s' = (d_tables s' = d_tables s \<and> d_users s' = d_users s \<and> d_listings s' = d_listings s \<and>
     d_transactions s' = d_transactions s \<and> (outbox_wf s \<longrightarrow> outbox_wf s' \<and> (\<forall>tid. tx_payouts tid s' = tx_payouts tid s)))"

named_theorems calm_steps \<open>calm operations\<close>

lemma calm_refl [simp, intro]: "calm s s"
  by (simp add: calm_def)

lemma calm_trans [trans]: "calm s s' \<Longrightarrow> calm s' s'' \<Longrightarrow> calm s s''"
  by (auto simp: calm_def)

lemma calm_get:
  assumes "calm s s'"
  shows "get_transaction i s' = get_transaction i s" "get_user i s' = get_user i s" "get_listing i s' = get_listing i s"
    "has_table n s' = has_table n s" "outbox_ready s' = outbox_ready s"
  using assms by (simp_all add: calm_def get_transaction_def get_user_def get_listing_def has_table_def outbox_ready_def)

lemma calmI:
  "d_tables s' = d_tables s \<Longrightarrow> d_users s' = d_users s \<Longrightarrow> d_listings s' = d_listings s \<Longrightarrow>
   d_transactions s' = d_transactions s \<Longrightarrow> d_escrows s' = d_escrows s \<Longrightarrow> d_payouts s' = d_payouts s \<Longrightarrow> calm s s'"
  using outbox_same [of s' s] by (simp add: calm_def)

lemma logs_only_calm: "logs_only s s' \<Longrightarrow> calm s s'"
  by (rule calmI) (simp_all add: logs_only_frame)

lemma add_notification_calm: "calm s (add_notification E tid ev u title m p s)"
  by (rule calmI) (simp_all add: add_notification_def)

lemma notify_parties_calm [calm_steps]: "calm s (notify_parties E t ev b c s)"
  by (auto simp: notify_parties_def split: prod.split intro: calm_trans add_notification_calm)

lemma notices_calm [calm_steps]:
  "calm s (create_transaction_created_notifications E t s)"
  "calm s (create_locked_notifications E t x1 s)"
  "calm s (create_dispatched_notifications E t s)"
  "calm s (create_arrival_notifications E t x2 s)"
  "calm s (create_otp_given_notifications E t s)"
  "calm s (create_otp_withheld_notifications E t x3 x4 x5 s)"
  "calm s (create_timeout_notifications E t x6 x7 s)"
  "calm s (create_dispute_buyer_sent_back_notifications E t x8 x9 x10 s)"
  "calm s (create_dispute_auto_cancel_notifications E t x11 s)"
  "calm s (create_seller_received_notifications E t x12 s)"
  "calm s (create_seller_received_timeout_notifications E t x13 s)"
  "calm s (create_seller_resolution_notifications E t x14 x15 s)"
  "calm s (create_buyer_reconfirmation_notifications E t x16 x17 x18 s)"
  "calm s (create_mutual_confirmation_notifications E t x19 x20 x21 x22 x23 s)"
  "calm s (create_dispute_opened_notifications E t x24 x25 x26 x27 s)"
  unfolding create_transaction_created_notifications_def create_locked_notifications_def create_dispatched_notifications_def create_arrival_notifications_def create_otp_given_notifications_def create_otp_withheld_notifications_def create_timeout_notifications_def create_dispute_buyer_sent_back_notifications_def create_dispute_auto_cancel_notifications_def 
    create_seller_received_notifications_def create_seller_received_timeout_notifications_def create_seller_resolution_notifications_def create_buyer_reconfirmation_notifications_def create_mutual_confirmation_notifications_def create_dispute_opened_notifications_def Let_def
  by (rule notify_parties_calm)+

text \<open>A dispute row added or changed, a prompt resolved, the ledger posted to.\<close>

lemma put_dispute_calm [calm_steps]: "calm s (put_dispute d s)"
  by (rule calmI) (simp_all add: put_dispute_def)

lemma post_movement_calm [calm_steps]: "post_movement E mv s = Inr (r, s') \<Longrightarrow> calm s s'"
  by (rule calmI) (simp_all add: post_movement_frame)

text \<open>An escrow changed in its amounts only is the same escrow for the outbox.\<close>

lemma put_escrow_calm:
  assumes "get_escrow (es_id e) s = Some e0" and "es_transaction e = es_transaction e0"
  shows "calm s (put_escrow e s)"
proof -
  have eq: "map es_transaction (row_put es_id e es) = map es_transaction es \<and>
      (\<forall>tid. map_option es_id (row_get es_transaction tid (row_put es_id e es)) = map_option es_id (row_get es_transaction tid es))"
    if "distinct (map es_id es)" "row_get es_id (es_id e) es = Some e0" for es
    using that assms(2)
    by (induction es) (auto simp: row_put_Cons row_put_absent split: if_splits)
  show ?thesis
  proof (cases "outbox_wf s")
    case True
    let ?s = "put_escrow e s"
    have d: "distinct (map es_id (d_escrows s))" using True by (simp add: outbox_wf_def)
    have g: "row_get es_id (es_id e) (d_escrows s) = Some e0" using assms(1) by (simp add: get_escrow_def)
    have ids: "map es_id (d_escrows ?s) = map es_id (d_escrows s)" by (simp add: put_escrow_def)
    have set: "es_id ` set (d_escrows ?s) = es_id ` set (d_escrows s)" using arg_cong [OF ids, of set] by simp
    have trans: "map es_transaction (d_escrows ?s) = map es_transaction (d_escrows s)"
      and find: "map_option es_id (find_escrow_for_transaction tid ?s) = map_option es_id (find_escrow_for_transaction tid s)" for tid
      using eq [OF d g] by (simp_all add: put_escrow_def find_escrow_for_transaction_def)
    have pay: "d_payouts ?s = d_payouts s" by (simp add: put_escrow_def)
    have "outbox_wf ?s" using True unfolding outbox_wf_def ids set trans pay .
    moreover have "tx_payouts tid ?s = tx_payouts tid s" for tid
      using find [of tid] pay by (auto simp: tx_payouts_def payouts_of_def split: option.split)
    ultimately show ?thesis by (simp add: calm_def put_escrow_def)
  next
    case False
    then show ?thesis by (simp add: calm_def put_escrow_def)
  qed
qed

section \<open>Disputes and prompts\<close>

definition latest_dispute :: "uuid \<Rightarrow> db \<Rightarrow> dispute option" where
  "latest_dispute tid s = newest di_created_at (filter (\<lambda>d. di_transaction d = tid) (d_disputes s))"

definition OPEN_DISPUTE_STATUSES :: "dispute_status list" where
  "OPEN_DISPUTE_STATUSES = [D_OPEN, D_BUYER_SENT_BACK, D_RETURN_RECEIVED, D_AWAITING_BUYER_RECONFIRMATION]"

definition put_prompt :: "payment_prompt \<Rightarrow> db \<Rightarrow> db" where
  "put_prompt p s = s\<lparr>d_prompts := row_put pp_id p (d_prompts s)\<rparr>"

definition latest_payment_prompt :: "uuid \<Rightarrow> db \<Rightarrow> payment_prompt option" where
  "latest_payment_prompt tid s = newest pp_sent_at (filter (\<lambda>p. pp_transaction p = tid) (d_prompts s))"

definition failure_reason_for :: "int \<Rightarrow> failure_reason" where
  "failure_reason_for code = (if code = 1 then INSUFFICIENT_FUNDS else if code = 1032 then CANCELLED
     else if code = 1037 then TIMEOUT else if code = 2001 then WRONG_PIN else PROVIDER_ERROR)"

definition resolve_open_prompt :: "uuid \<Rightarrow> int \<Rightarrow> time \<Rightarrow> db \<Rightarrow> bool \<times> db" where
  "resolve_open_prompt tid code now s = (case latest_payment_prompt tid s of None \<Rightarrow> (False, s)
     | Some p \<Rightarrow> if pp_status p \<noteq> P_PENDING then (False, s)
       else (True, put_prompt (if code = 0 then p\<lparr>pp_resolved_at := Some now, pp_status := P_SUCCEEDED\<rparr>
         else p\<lparr>pp_resolved_at := Some now, pp_status := P_FAILED, pp_failure_reason := Some (failure_reason_for code)\<rparr>) s))"

lemma resolve_open_prompt_calm [calm_steps]: "calm s (snd (resolve_open_prompt tid code now s))"
  by (rule calmI) (auto simp: resolve_open_prompt_def put_prompt_def split: option.split)

end
