(* ===== verification/Orders.thy ===== *)
theory Orders
  imports Notices
begin

text \<open>
  The contract every order handler meets: the status graph of docs/anchoring-design.md 3.3, what a
  step of an order is, and the interface \<open>order_handler\<close> under which the handlers' common
  consequences (the graph, final statuses, the money owed) are proved once.
\<close>

section \<open>The documented graph\<close>

text \<open>
  The rows T2 to T19 of the table, as \<open>documented row from to\<close>. The three steps of T7 and T15 happen
  in one commit, so the stored status goes from the door to \<open>refunded_buyer\<close>.
\<close>

inductive documented :: "nat \<Rightarrow> tx_status \<Rightarrow> tx_status \<Rightarrow> bool" where
  T2: "documented 2 AWAITING_PAYMENT LOCKED"
| T3: "documented 3 AWAITING_PAYMENT LOCKED"
| T4: "documented 4 LOCKED OUT_FOR_DELIVERY"
| T5: "documented 5 OUT_FOR_DELIVERY AT_DOOR_PENDING_INSPECTION"
| T6: "b \<in> {HOLD_24H, RELEASED} \<Longrightarrow> documented 6 AT_DOOR_PENDING_INSPECTION b"
| T7: "documented 7 AT_DOOR_PENDING_INSPECTION REFUNDED_BUYER"
| T8: "documented 8 HOLD_24H DISPUTED_FUNCTIONAL"
| T9: "documented 9 DISPUTED_FUNCTIONAL RETURN_IN_TRANSIT"
| T10: "documented 10 RETURN_IN_TRANSIT RETURN_RECEIVED"
| T11: "b \<in> {REFUNDED_BUYER, AWAITING_BUYER_RECONFIRMATION} \<Longrightarrow> documented 11 RETURN_RECEIVED b"
| T12: "b \<in> {RESOLVED_RELEASE, RETURN_RECEIVED, ESCALATED_ADMIN_REVIEW} \<Longrightarrow> documented 12 AWAITING_BUYER_RECONFIRMATION b"
| T13: "a \<in> {DISPUTED_FUNCTIONAL, RETURN_IN_TRANSIT, RETURN_RECEIVED, AWAITING_BUYER_RECONFIRMATION} \<Longrightarrow>
    documented 13 a ESCALATED_ADMIN_REVIEW"
| T14: "b \<in> {RESOLVED_REFUND, RESOLVED_RELEASE, RESOLVED_SPLIT} \<Longrightarrow> documented 14 ESCALATED_ADMIN_REVIEW b"
| T15: "documented 15 AT_DOOR_PENDING_INSPECTION REFUNDED_BUYER"
| T16: "documented 16 LOCKED REFUNDED_BUYER"
| T17: "documented 17 HOLD_24H RELEASED"
| T18: "documented 18 DISPUTED_FUNCTIONAL RELEASED"
| T19: "documented 19 RETURN_IN_TRANSIT ESCALATED_ADMIN_REVIEW"

inductive_cases documented_from: "documented n a b"

code_pred documented .

text \<open>The final statuses: the order's money has been queued to a party.\<close>

definition paying :: "tx_status \<Rightarrow> bool" where
  "paying b = (b \<in> {RELEASED, REFUNDED_BUYER, RESOLVED_RELEASE, RESOLVED_REFUND, RESOLVED_SPLIT})"

lemma documented_not_from_final: "documented n a b \<Longrightarrow> \<not> paying a"
  by (erule documented_from) (auto simp: paying_def)

lemma documented_irrefl: "\<not> documented n a a"
  by (auto elim: documented_from)

section \<open>Steps\<close>

definition same_order :: "transaction \<Rightarrow> transaction \<Rightarrow> bool" where
  "same_order t t' = (tx_id t' = tx_id t \<and> tx_reference t' = tx_reference t \<and> tx_listing t' = tx_listing t \<and>
     tx_buyer t' = tx_buyer t \<and> tx_seller t' = tx_seller t \<and> tx_amount t' = tx_amount t \<and>
     tx_custody_provider t' = tx_custody_provider t \<and> tx_created_at t' = tx_created_at t)"

definition orders_wf :: "db \<Rightarrow> bool" where
  "orders_wf s = (outbox_wf s \<and> distinct (map tx_id (d_transactions s)) \<and> (\<forall>t \<in> set (d_transactions s). small_amount t))"

text \<open>Every order but \<open>tid\<close> reads the same, and so do the parties and the listings.\<close>

definition others_kept :: "uuid \<Rightarrow> db \<Rightarrow> db \<Rightarrow> bool" where
  "others_kept tid s s' = (d_tables s' = d_tables s \<and> d_users s' = d_users s \<and> d_listings s' = d_listings s \<and>
     map tx_id (d_transactions s') = map tx_id (d_transactions s) \<and>
     (\<forall>i. i \<noteq> tid \<longrightarrow> get_transaction i s' = get_transaction i s \<and> tx_payouts i s' = tx_payouts i s))"

text \<open>The handler moved the order \<open>tid\<close> from \<open>a\<close> to \<open>b\<close>; on a final status its amount is queued.\<close>

definition order_step :: "uuid \<Rightarrow> tx_status \<Rightarrow> tx_status \<Rightarrow> db \<Rightarrow> db \<Rightarrow> bool" where
  "order_step tid a b s s' = (\<exists>t t'. get_transaction tid s = Some t \<and> tx_status t = a \<and>
     get_transaction tid s' = Some t' \<and> tx_status t' = b \<and> same_order t t' \<and> others_kept tid s s' \<and> orders_wf s' \<and>
     (if paying b then tx_payouts tid s = [] \<longrightarrow> live_total tid s' = (if outbox_ready s then tx_amount t else 0)
      else tx_payouts tid s' = tx_payouts tid s))"

text \<open>The handler changed no status, no order's identity and no payout.\<close>

definition idle :: "db \<Rightarrow> db \<Rightarrow> bool" where
  "idle s s' = (d_tables s' = d_tables s \<and> map tx_id (d_transactions s') = map tx_id (d_transactions s) \<and>
     (\<forall>i. rel_option (\<lambda>t t'. same_order t t' \<and> tx_status t' = tx_status t) (get_transaction i s) (get_transaction i s')) \<and>
     (orders_wf s \<longrightarrow> orders_wf s' \<and> (\<forall>i. tx_payouts i s' = tx_payouts i s)))"

lemma same_order_refl [simp]: "same_order t t"
  by (simp add: same_order_def)

lemma same_order_trans: "same_order t t' \<Longrightarrow> same_order t' t'' \<Longrightarrow> same_order t t''"
  by (simp add: same_order_def)

lemma idle_refl [simp, intro]: "idle s s"
  by (auto simp: idle_def option.rel_refl)

section \<open>From a handler's body to its step\<close>

text \<open>Between the first statement of a handler and its commit only these change.\<close>

definition in_flight :: "uuid \<Rightarrow> db \<Rightarrow> db \<Rightarrow> bool" where
  "in_flight tid s s' = (d_tables s' = d_tables s \<and> d_users s' = d_users s \<and> d_listings s' = d_listings s \<and>
     d_transactions s' = d_transactions s \<and>
     (outbox_wf s \<longrightarrow> outbox_wf s' \<and> (\<forall>i. i \<noteq> tid \<longrightarrow> tx_payouts i s' = tx_payouts i s)))"

lemma in_flight_trans: "in_flight tid s s' \<Longrightarrow> in_flight tid s' s'' \<Longrightarrow> in_flight tid s s''"
  by (auto simp: in_flight_def)

lemma calm_in_flight: "calm s s' \<Longrightarrow> in_flight tid s s'"
  by (simp add: in_flight_def calm_def)

lemma settles_in_flight: "settles t t' s s' \<Longrightarrow> in_flight (tx_id t) s s'"
  by (auto simp: in_flight_def settles_def payout_only_frame)

lemma settles_same_order: "settles t t' s s' \<Longrightarrow> same_order t t' \<and> tx_status t' = tx_status t"
  by (auto simp: settles_def same_order_def)

lemma get_transaction_in_flight: "d_transactions s' = d_transactions s \<Longrightarrow> get_transaction i s' = get_transaction i s"
  by (simp add: get_transaction_def)

lemma save_payouts [simp]: "tx_payouts i (save_transaction now t s) = tx_payouts i s"
  "live_total i (save_transaction now t s) = live_total i s" "outbox_wf (save_transaction now t s) = outbox_wf s"
  using outbox_same [of "save_transaction now t s" s] by simp_all

lemma save_small:
  assumes "\<forall>t \<in> set (d_transactions s). small_amount t" and "small_amount t"
  shows "\<forall>t \<in> set (d_transactions (save_transaction now t s)). small_amount t"
  using assms by (auto simp: save_transaction_def put_transaction_def small_amount_def dest: row_put_in_set)

lemma commit_step:
  assumes "orders_wf s" and "get_transaction tid s = Some t" and "in_flight tid s sX"
    and "same_order t tF" and "tx_status tF \<noteq> tx_status t"
    and "if paying (tx_status tF) then tx_payouts tid s = [] \<longrightarrow> live_total tid sX = (if outbox_ready s then tx_amount t else 0)
      else tx_payouts tid sX = tx_payouts tid s"
  shows "order_step tid (tx_status t) (tx_status tF) s (save_transaction now tF sX)"
proof -
  have id: "tx_id tF = tid" using assms(2,4) transactions.get_key [OF assms(2)] by (simp add: same_order_def)
  have g: "get_transaction i sX = get_transaction i s" for i
    by (rule get_transaction_in_flight) (use assms(3) in \<open>simp add: in_flight_def\<close>)
  have t: "get_transaction tid (save_transaction now tF sX) = Some (tF\<lparr>tx_updated_at := now\<rparr>)"
    using assms(2,5) g id by (auto simp: get_transaction_save)
  have small: "small_amount t" using assms(1,2) by (auto simp: orders_wf_def get_transaction_def dest: row_get_SomeD)
  then have "orders_wf (save_transaction now tF sX)"
    using assms(1,3,4) save_small [of sX tF now]
    by (auto simp: orders_wf_def in_flight_def small_amount_def same_order_def)
  moreover have "others_kept tid s (save_transaction now tF sX)"
    using assms(1,3) g id by (auto simp: others_kept_def in_flight_def orders_wf_def)
  ultimately show ?thesis using assms(2,4,6) t unfolding order_step_def
    by (auto simp: same_order_def)
qed

text \<open>The two shapes of a handler: one that queues no payout, and one that settles the order.\<close>

lemma commit_calm_step:
  assumes "orders_wf s" and "get_transaction tid s = Some t" and "calm s sX"
    and "same_order t tF" and "tx_status tF \<noteq> tx_status t" and "\<not> paying (tx_status tF)"
  shows "order_step tid (tx_status t) (tx_status tF) s (save_transaction now tF sX)"
  using assms by (intro commit_step) (auto simp: calm_in_flight, simp add: calm_def orders_wf_def)

lemma commit_settled_step:
  assumes "orders_wf s" and "get_transaction tid s = Some t" and "calm s s1" and "settles t1 t2 s1 s2" and "calm s2 sX"
    and "same_order t t1" and "same_order t2 tF" and "tx_status tF \<noteq> tx_status t" and "paying (tx_status tF)"
  shows "order_step tid (tx_status t) (tx_status tF) s (save_transaction now tF sX)"
proof -
  have id: "tx_id t1 = tid" using assms(6) transactions.get_key [OF assms(2)] by (simp add: same_order_def)
  have wf: "outbox_wf s" "outbox_wf s1" "outbox_wf s2"
    using assms(1,3,4) by (auto simp: orders_wf_def calm_def settles_def)
  have "in_flight tid s sX"
    using calm_in_flight [OF assms(3)] settles_in_flight [OF assms(4)] calm_in_flight [OF assms(5)] id
    by (blast intro: in_flight_trans)
  moreover have "same_order t tF" using assms(4,6,7) settles_same_order same_order_trans by blast
  moreover have "live_total tid sX = (if outbox_ready s then tx_amount t else 0)" if "tx_payouts tid s = []"
  proof -
    have "tx_payouts tid s1 = []" using that assms(3) wf by (simp add: calm_def)
    then have "live_total tid s2 = (if outbox_ready s then tx_amount t else 0)"
      using assms(4,6) id calm_get(5) [OF assms(3)] by (auto simp: settles_def same_order_def)
    then show ?thesis using assms(5) wf by (simp add: live_total_def calm_def)
  qed
  ultimately show ?thesis using assms by (intro commit_step) auto
qed

text \<open>An update of the order that keeps its status, and a calm change without any.\<close>

lemma calm_idle:
  assumes "calm s s'"
  shows "idle s s'"
proof -
  have "get_transaction i s' = get_transaction i s" for i by (rule calm_get(1) [OF assms])
  then show ?thesis using assms by (simp add: idle_def calm_def orders_wf_def option.rel_refl)
qed

lemma save_idle:
  assumes "get_transaction (tx_id t') s = Some t" and "same_order t t'" and "tx_status t' = tx_status t"
  shows "idle s (save_transaction now t' s)"
proof -
  have "orders_wf (save_transaction now t' s)" if wf: "orders_wf s"
  proof -
    have "small_amount t" using wf assms(1) by (auto simp: orders_wf_def get_transaction_def dest: row_get_SomeD)
    then show ?thesis using wf assms(2) save_small [of s t' now] by (auto simp: orders_wf_def small_amount_def same_order_def)
  qed
  then show ?thesis using assms
    by (auto simp: idle_def get_transaction_save option.rel_refl same_order_def)
qed

text \<open>A handler that commits only on success is judged by its successful runs.\<close>

lemma atomic_steps:
  assumes "atomic s m = (s', r)" and "\<And>x s'. m = Inr (x, s') \<Longrightarrow> Q s'"
  shows "idle s s' \<or> Q s'"
  using assms by (auto simp: atomic_def split: sum.splits)

section \<open>The interface of an order handler\<close>

text \<open>
  A handler either leaves every status as it is, or moves one order along an edge of its row of the
  documented table.
\<close>

locale order_handler =
  fixes handle :: "db \<Rightarrow> db \<times> (exn + 'a)" and row :: nat
  assumes handler_steps: "orders_wf s \<Longrightarrow> handle s = (s', r) \<Longrightarrow>
    idle s s' \<or> (\<exists>tid a b. documented row a b \<and> order_step tid a b s s')"
begin

lemma keeps_wf: "orders_wf s \<Longrightarrow> handle s = (s', r) \<Longrightarrow> orders_wf s'"
  using handler_steps [of s s' r] by (auto simp: idle_def order_step_def)

lemma keeps_orders: "orders_wf s \<Longrightarrow> handle s = (s', r) \<Longrightarrow> map tx_id (d_transactions s') = map tx_id (d_transactions s)"
  using handler_steps [of s s' r] by (auto simp: idle_def order_step_def others_kept_def)

text \<open>Seen from one order: it keeps its status or takes a documented step.\<close>

lemma order_moves:
  assumes "orders_wf s" and "handle s = (s', r)" and "get_transaction i s = Some t"
  obtains t' where "get_transaction i s' = Some t'" and "same_order t t'"
    and "tx_status t' = tx_status t \<or> documented row (tx_status t) (tx_status t')"
  using handler_steps [OF assms(1,2)] assms(3)
proof (elim disjE exE conjE)
  assume "idle s s'"
  then have "rel_option (\<lambda>t t'. same_order t t' \<and> tx_status t' = tx_status t) (get_transaction i s) (get_transaction i s')"
    by (simp add: idle_def)
  then show thesis using that assms(3) by (auto simp: option_rel_Some1)
next
  fix tid a b
  assume "documented row a b" and st: "order_step tid a b s s'"
  then show thesis using that assms(3)
    by (cases "i = tid") (auto simp: order_step_def others_kept_def)
qed

lemma final_stays:
  assumes "orders_wf s" and "handle s = (s', r)" and "get_transaction i s = Some t" and "paying (tx_status t)"
  shows "\<exists>t'. get_transaction i s' = Some t' \<and> tx_status t' = tx_status t"
  using order_moves [OF assms(1-3)] documented_not_from_final assms(4) by metis

end

text \<open>
  What the orders' attempts add up to: nothing before a final status, and on a final status exactly
  the order's amount (nothing when the outbox tables are missing).
\<close>

definition money_owed :: "db \<Rightarrow> bool" where
  "money_owed s = (\<forall>i t. get_transaction i s = Some t \<longrightarrow>
     (if paying (tx_status t) then live_total i s = (if outbox_ready s then tx_amount t else 0) else tx_payouts i s = []))"

lemma idle_money_owed: "idle s s' \<Longrightarrow> orders_wf s \<Longrightarrow> money_owed s \<Longrightarrow> money_owed s'"
  unfolding money_owed_def
proof (intro allI impI)
  fix i t'
  assume id: "idle s s'" and wf: "orders_wf s" and g: "get_transaction i s' = Some t'"
    and m: "\<forall>i t. get_transaction i s = Some t \<longrightarrow>
     (if paying (tx_status t) then live_total i s = (if outbox_ready s then tx_amount t else 0) else tx_payouts i s = [])"
  from id g obtain t where t: "get_transaction i s = Some t" "same_order t t'" "tx_status t' = tx_status t"
    by (auto simp: idle_def option_rel_Some2 dest!: spec [of _ i])
  have "tx_payouts i s' = tx_payouts i s" "outbox_ready s' = outbox_ready s"
    using id wf by (auto simp: idle_def outbox_ready_def has_table_def)
  then show "if paying (tx_status t') then live_total i s' = (if outbox_ready s' then tx_amount t' else 0) else tx_payouts i s' = []"
    using m t by (auto simp: same_order_def live_total_def split: if_splits)
qed

lemma step_money_owed:
  assumes "order_step tid a b s s'" and "\<not> paying a" and "money_owed s"
  shows "money_owed s'"
  unfolding money_owed_def
proof (intro allI impI)
  fix i t'
  assume g: "get_transaction i s' = Some t'"
  have ready: "outbox_ready s' = outbox_ready s"
    using assms(1) by (auto simp: order_step_def others_kept_def outbox_ready_def has_table_def)
  show "if paying (tx_status t') then live_total i s' = (if outbox_ready s' then tx_amount t' else 0) else tx_payouts i s' = []"
  proof (cases "i = tid")
    case True
    with assms g ready show ?thesis
      by (auto simp: order_step_def money_owed_def same_order_def split: if_splits)
  next
    case False
    then have "get_transaction i s = Some t'" "tx_payouts i s' = tx_payouts i s"
      using assms(1) g by (auto simp: order_step_def others_kept_def)
    moreover from this have "live_total i s' = live_total i s" by (simp add: live_total_def)
    ultimately show ?thesis using assms(3) ready by (simp add: money_owed_def)
  qed
qed

context order_handler
begin

lemma keeps_money_owed: "orders_wf s \<Longrightarrow> handle s = (s', r) \<Longrightarrow> money_owed s \<Longrightarrow> money_owed s'"
  using handler_steps [of s s' r] idle_money_owed step_money_owed documented_not_from_final by blast

end

end
