(* ===== verification/Workflow.thy ===== *)
theory Workflow
  imports Orders
begin

text \<open>
  The order workflow up to the hand-over (app/services/transaction.py): the payment callback, the
  lock after custody funding, dispatch, arrival, and the buyer's answer at the door. Every handler is
  a function of the environment, its arguments and the database, and returns the database it leaves
  committed with its result or its exception.
\<close>

section \<open>Common parts\<close>

text \<open>\<open>db.commit(); db.refresh(transaction)\<close>\<close>

definition commit_order :: "env \<Rightarrow> transaction \<Rightarrow> db \<Rightarrow> exn + (transaction \<times> db)" where
  "commit_order E t s = (let s' = save_transaction (e_now E) t s in
     Inr (case get_transaction (tx_id t) s' of Some r \<Rightarrow> r | None \<Rightarrow> t, s'))"

definition generate_delivery_otp :: "env \<Rightarrow> db \<Rightarrow> string \<times> db" where
  "generate_delivery_otp E s = (pad_nat 6 (e_randbelow E (d_draws s) 1000000), s\<lparr>d_draws := Suc (d_draws s)\<rparr>)"

definition hash_delivery_otp :: "env \<Rightarrow> string \<Rightarrow> string" where
  "hash_delivery_otp E otp = e_hmac E (st_secret_key (e_settings E)) otp"

definition verify_delivery_otp :: "env \<Rightarrow> string \<Rightarrow> string option \<Rightarrow> bool" where
  "verify_delivery_otp E otp otp_hash = (case otp_hash of None \<Rightarrow> False | Some h \<Rightarrow> hash_delivery_otp E otp = h)"

definition withheld_history :: "time \<Rightarrow> string \<Rightarrow> string \<Rightarrow> string json list" where
  "withheld_history now by reason = [history_entry AT_DOOR_PENDING_INSPECTION RETURN_IN_TRANSIT now by reason,
     history_entry RETURN_IN_TRANSIT RETURNED_TO_SELLER now by reason, history_entry RETURNED_TO_SELLER REFUNDED_BUYER now by reason]"

definition apply_withheld_return_refund_flow ::
    "env \<Rightarrow> transaction \<Rightarrow> time \<Rightarrow> string \<Rightarrow> string \<Rightarrow> uuid option \<Rightarrow> db \<Rightarrow> exn + (transaction \<times> db)" where
  "apply_withheld_return_refund_flow E t now by reason who s =
     (let ty = (if by = ''buyer'' then ACTOR_USER else ACTOR_SYSTEM); door = tx_door_rejection_reason t in
     bindE (transition_transaction E t RETURN_IN_TRANSIT ty who reason now door s) (\<lambda>(t1, s1).
     bindE (transition_transaction E t1 RETURNED_TO_SELLER ty who reason now door s1) (\<lambda>(t2, s2).
     bindE (transition_transaction E t2 REFUNDED_BUYER ty who reason now door s2) (\<lambda>(t3, s3).
     Inr (t3\<lparr>tx_refunded_at := Some now, tx_delivery_otp_hash := None, tx_otp_failed_attempts := 0\<rparr>, s3)))))"

section \<open>Payment\<close>

record payment_callback =
  cb_transaction :: uuid
  cb_result_code :: int
  cb_result_desc :: "string option"
  cb_checkout_request_id :: "string option"
  cb_merchant_request_id :: "string option"
  cb_provider_reference :: "string option"

record callback_result =
  cr_transaction :: transaction
  cr_transitioned :: bool
  cr_duplicate :: bool
  cr_detail :: string

definition record_simulated_callback_funding :: "env \<Rightarrow> transaction \<Rightarrow> db \<Rightarrow> exn + db" where
  "record_simulated_callback_funding E t s =
     (if or_text [Some (tx_custody_provider t)] PROVIDER_SIMULATED \<noteq> PROVIDER_SIMULATED then Inr s
      else if py_lower (strip (st_environment (e_settings E))) = ''production'' then Inr s
      else if \<not> ledger_ready s then Inr s
      else bindE (ensure_escrow_for_transaction E t s) (\<lambda>(e, s1).
        bindE (post_escrow_funding E e (''callback-funding:'' @ uuid_str (tx_id t)) ''Simulated custody funding (payment callback)'' s1)
          (\<lambda>(posted, e', s2). if \<not> posted then Inr s2
            else record_money_audit_event E ((new_audit E ''callback_funding_recorded'' ACTOR_PROVIDER)
              \<lparr>ma_reason := Some ''Simulated payment callback outside production.'', ma_transaction := Some (tx_id t),
               ma_escrow := Some (es_id e'), ma_rail_name := Some PROVIDER_SIMULATED, ma_amount := Some (es_amount_total e'),
               ma_currency := Some (es_currency e')\<rparr>) s2)))"

definition lock_body :: "env \<Rightarrow> transaction \<Rightarrow> payment_callback \<Rightarrow> db \<Rightarrow> exn + (transaction \<times> db)" where
  "lock_body E t cb s =
     bindE (transition_transaction E t LOCKED ACTOR_PROVIDER None ''payment_callback_confirmed'' (e_now E) None s) (\<lambda>(t1, s1).
     let t2 = t1\<lparr>tx_locked_at := Some (e_now E)\<rparr>; s2 = snd (resolve_open_prompt (tx_id t2) 0 (e_now E) s1) in
     bindE (record_simulated_callback_funding E t2 s2) (\<lambda>s3.
     commit_order E t2 (create_locked_notifications E t2 [(''result_code'', JInt (cb_result_code cb)),
       (''result_desc'', jopt (cb_result_desc cb)), (''checkout_request_id'', jopt (cb_checkout_request_id cb)),
       (''merchant_request_id'', jopt (cb_merchant_request_id cb)), (''provider_reference'', jopt (cb_provider_reference cb))] s3)))"

definition confirm_payment_callback :: "env \<Rightarrow> payment_callback \<Rightarrow> db \<Rightarrow> db \<times> (exn + callback_result)" where
  "confirm_payment_callback E cb s = (case get_transaction (cb_transaction cb) s of
       None \<Rightarrow> (s, Inl (TransactionNotFoundForCallbackError ''Transaction not found.''))
     | Some t \<Rightarrow>
       let skip = (\<lambda>dup detail. \<lparr>cr_transaction = t, cr_transitioned = False, cr_duplicate = dup, cr_detail = detail\<rparr>) in
       if py_lower (strip (tx_custody_provider t)) = PROVIDER_ECONFIRM
         then (s, Inr (skip False ''Callback ignored; eConfirm funding is confirmed by eConfirm only.''))
       else if cb_result_code cb \<noteq> 0
         then (if tx_status t = AWAITING_PAYMENT then snd (resolve_open_prompt (tx_id t) (cb_result_code cb) (e_now E) s) else s,
           Inr (skip False ''Payment callback not successful; transition skipped.''))
       else if tx_status t = LOCKED then (s, Inr (skip True ''Duplicate callback ignored; transaction already locked.''))
       else if tx_status t \<noteq> AWAITING_PAYMENT
         then (s, Inr (skip False ''Callback ignored because transaction is not awaiting payment.''))
       else atomic s (bindE (lock_body E t cb s) (\<lambda>(t', s').
         Inr (\<lparr>cr_transaction = t', cr_transitioned = True, cr_duplicate = False, cr_detail = ''Transaction moved to locked.''\<rparr>, s'))))"

definition lock_transaction_after_custody_funding ::
    "env \<Rightarrow> uuid \<Rightarrow> string option \<Rightarrow> string \<Rightarrow> db \<Rightarrow> exn + (bool \<times> db)" where
  "lock_transaction_after_custody_funding E tid provider_reference rail s = (case get_transaction tid s of
       None \<Rightarrow> Inr (False, s)
     | Some t \<Rightarrow> if tx_status t \<noteq> AWAITING_PAYMENT then Inr (False, s)
       else bindE (transition_transaction E t LOCKED ACTOR_SYSTEM None ''custody_funding_confirmed'' (e_now E) None s) (\<lambda>(t1, s1).
         let t2 = t1\<lparr>tx_locked_at := Some (e_now E)\<rparr>; s2 = snd (resolve_open_prompt (tx_id t2) 0 (e_now E) s1);
           s3 = create_locked_notifications E t2 [(''provider_reference'', jopt provider_reference), (''rail_name'', JStr rail)] s2
         in Inr (True, save_transaction (e_now E) t2 s3)))"

section \<open>Dispatch and arrival\<close>

definition dispatch_body :: "env \<Rightarrow> transaction \<Rightarrow> user \<Rightarrow> db \<Rightarrow> exn + (transaction \<times> db)" where
  "dispatch_body E t seller s =
     bindE (transition_transaction E t OUT_FOR_DELIVERY ACTOR_USER (Some (u_id seller)) ''seller_dispatched'' (e_now E) None s) (\<lambda>(t1, s1).
     let t2 = t1\<lparr>tx_dispatched_at := Some (e_now E)\<rparr> in commit_order E t2 (create_dispatched_notifications E t2 s1))"

definition dispatch_transaction :: "env \<Rightarrow> uuid \<Rightarrow> user \<Rightarrow> db \<Rightarrow> db \<times> (exn + transaction)" where
  "dispatch_transaction E tid seller s = atomic s (
     if u_role seller \<noteq> SELLER then Inl (TransactionValidationError ''Only sellers can dispatch transactions.'')
     else (case get_transaction tid s of
       None \<Rightarrow> Inl (TransactionNotFoundForDispatchError ''Transaction not found.'')
     | Some t \<Rightarrow> if tx_seller t \<noteq> u_id seller
         then Inl (TransactionDispatchForbiddenError ''Only the transaction seller can dispatch this transaction.'')
       else if tx_status t \<noteq> LOCKED
         then Inl (TransactionDispatchInvalidStateError ''Transaction must be in locked state before dispatch.'')
       else dispatch_body E t seller s))"

definition arrival_body :: "env \<Rightarrow> transaction \<Rightarrow> user \<Rightarrow> db \<Rightarrow> exn + (transaction \<times> db)" where
  "arrival_body E t seller s0 = (let (otp, s) = generate_delivery_otp E s0 in
     bindE (transition_transaction E t AT_DOOR_PENDING_INSPECTION ACTOR_USER (Some (u_id seller)) ''seller_arrived'' (e_now E) None s) (\<lambda>(t1, s1).
     let t2 = t1\<lparr>tx_at_door_at := Some (e_now E), tx_delivery_otp_hash := Some (hash_delivery_otp E otp), tx_otp_failed_attempts := 0\<rparr>
     in commit_order E t2 (create_arrival_notifications E t2 otp s1)))"

definition mark_transaction_arrived :: "env \<Rightarrow> uuid \<Rightarrow> user \<Rightarrow> db \<Rightarrow> db \<times> (exn + transaction)" where
  "mark_transaction_arrived E tid seller s = atomic s (
     if u_role seller \<noteq> SELLER then Inl (TransactionValidationError ''Only sellers can mark transaction arrival.'')
     else (case get_transaction tid s of
       None \<Rightarrow> Inl (TransactionNotFoundForArrivalError ''Transaction not found.'')
     | Some t \<Rightarrow> if tx_seller t \<noteq> u_id seller
         then Inl (TransactionArrivalForbiddenError ''Only the transaction seller can mark delivery arrival.'')
       else if tx_status t \<noteq> OUT_FOR_DELIVERY
         then Inl (TransactionArrivalInvalidStateError ''Transaction must be in out_for_delivery state before arrival confirmation.'')
       else arrival_body E t seller s))"

section \<open>At the door\<close>

definition otp_body :: "env \<Rightarrow> transaction \<Rightarrow> listing \<Rightarrow> user \<Rightarrow> db \<Rightarrow> exn + (transaction \<times> db)" where
  "otp_body E t l buyer s = (let now = e_now E in
     bindE (if l_is_serialized l
       then bindE (transition_transaction E t HOLD_24H ACTOR_USER (Some (u_id buyer)) ''otp_confirmed'' now None s) (\<lambda>(t1, s1).
         Inr (t1\<lparr>tx_hold_started_at := Some now, tx_released_at := None\<rparr>, s1))
       else bindE (transition_transaction E t RELEASED ACTOR_USER (Some (u_id buyer)) ''otp_confirmed'' now None s) (\<lambda>(t1, s1).
         bindE (queue_release_full E system_service (t1\<lparr>tx_released_at := Some now, tx_hold_started_at := None\<rparr>)
           (''tx-release:'' @ uuid_str (tx_id t)) s1) (\<lambda>(_, t2, s2). Inr (t2, s2))))
     (\<lambda>(t2, s2). let t3 = t2\<lparr>tx_delivery_otp_hash := None, tx_otp_failed_attempts := 0\<rparr> in
       commit_order E t3 (create_otp_given_notifications E t3 s2)))"

text \<open>A wrong code is counted and committed before the exception is raised.\<close>

definition confirm_buyer_delivery_otp :: "env \<Rightarrow> uuid \<Rightarrow> user \<Rightarrow> string \<Rightarrow> db \<Rightarrow> db \<times> (exn + transaction)" where
  "confirm_buyer_delivery_otp E tid buyer otp s =
     (if u_role buyer \<noteq> BUYER then (s, Inl (TransactionValidationError ''Only buyers can confirm delivery OTP.''))
     else (case get_transaction tid s of
       None \<Rightarrow> (s, Inl (TransactionNotFoundForBuyerActionError ''Transaction not found.''))
     | Some t \<Rightarrow> if tx_buyer t \<noteq> u_id buyer
         then (s, Inl (TransactionBuyerActionForbiddenError ''Only the transaction buyer can confirm delivery OTP.''))
       else if tx_status t \<noteq> AT_DOOR_PENDING_INSPECTION
         then (s, Inl (TransactionBuyerActionInvalidStateError
           ''Transaction must be in at_door_pending_inspection state for OTP confirmation.''))
       else (case get_listing (tx_listing t) s of
           None \<Rightarrow> (s, Inl (ListingNotFoundForTransactionError ''Listing not found.''))
         | Some l \<Rightarrow> if \<not> verify_delivery_otp E otp (tx_delivery_otp_hash t)
             then (save_transaction (e_now E) (t\<lparr>tx_otp_failed_attempts := tx_otp_failed_attempts t + 1\<rparr>) s,
               Inl (InvalidTransactionOtpError ''Invalid OTP provided.''))
           else atomic s (otp_body E t l buyer s))))"

definition unhashable :: "'s json \<Rightarrow> bool" where
  "unhashable j = (case j of JArr _ \<Rightarrow> True | JObj _ \<Rightarrow> True | _ \<Rightarrow> False)"

definition validated_door_reason :: "listing option \<Rightarrow> string option \<Rightarrow> exn + string option" where
  "validated_door_reason l reason = (case reason of None \<Rightarrow> Inr None
     | Some r \<Rightarrow> let declared = (case l of None \<Rightarrow> None | Some l \<Rightarrow> dict_get ''door_reject_reasons'' (l_dispute_policy l));
         reject = TransactionValidationError (''reason must be one of the seller'' @ [CHR 0x27] @ ''s door rejection reasons, or other.'') in
       (case declared of
         Some (JArr (x # xs)) \<Rightarrow> if list_ex unhashable (x # xs) then Inl (TypeError ''unhashable type'')
           else if JStr r \<in> set (x # xs) \<or> r = ''other'' then Inr (Some r) else Inl reject
       | _ \<Rightarrow> if r \<in> fst ` set DOOR_REJECT_REASON_LABELS then Inr (Some r) else Inl reject))"

definition withhold_body :: "env \<Rightarrow> transaction \<Rightarrow> user \<Rightarrow> string option \<Rightarrow> string option \<Rightarrow> db \<Rightarrow> exn + (transaction \<times> db)" where
  "withhold_body E t buyer reason note_text s =
     bindE (validated_door_reason (get_listing (tx_listing t) s) reason) (\<lambda>door.
     let t0 = t\<lparr>tx_door_rejection_reason := door, tx_door_rejection_note := none_if_empty (strip (or_text [note_text] ''''))\<rparr>; now = e_now E in
     bindE (apply_withheld_return_refund_flow E t0 now ''buyer'' ''otp_withheld'' (Some (u_id buyer)) s) (\<lambda>(t1, s1).
     bindE (queue_refund_full E system_service t1 (''tx-refund:'' @ uuid_str (tx_id t)) s1) (\<lambda>(_, t2, s2).
     commit_order E t2 (create_otp_withheld_notifications E t2 (withheld_history now ''buyer'' ''otp_withheld'') ''buyer'' ''otp_withheld'' s2))))"

definition withhold_buyer_delivery_otp ::
    "env \<Rightarrow> uuid \<Rightarrow> user \<Rightarrow> string option \<Rightarrow> string option \<Rightarrow> db \<Rightarrow> db \<times> (exn + transaction)" where
  "withhold_buyer_delivery_otp E tid buyer reason note_text s = atomic s (
     if u_role buyer \<noteq> BUYER then Inl (TransactionValidationError ''Only buyers can withhold delivery OTP.'')
     else (case get_transaction tid s of
       None \<Rightarrow> Inl (TransactionNotFoundForBuyerActionError ''Transaction not found.'')
     | Some t \<Rightarrow> if tx_buyer t \<noteq> u_id buyer
         then Inl (TransactionBuyerActionForbiddenError ''Only the transaction buyer can withhold delivery OTP.'')
       else if tx_status t \<noteq> AT_DOOR_PENDING_INSPECTION
         then Inl (TransactionBuyerActionInvalidStateError
           ''Transaction must be in at_door_pending_inspection state for OTP withhold action.'')
       else withhold_body E t buyer reason note_text s))"

section \<open>What the handlers do\<close>

lemma commit_order_Inr: "commit_order E t s = Inr (r, s') \<Longrightarrow> s' = save_transaction (e_now E) t s"
  by (auto simp: commit_order_def Let_def)

lemma transition_calm: "transition_transaction E t b ty i r at d s = Inr (t', s') \<Longrightarrow> t' = t\<lparr>tx_status := b\<rparr> \<and> calm s s'"
  by (auto dest: transition_transaction_Inr logs_only_calm)

lemma record_audit_calm: "record_money_audit_event E a s = Inr s' \<Longrightarrow> calm s s'"
  by (auto dest: log_steps logs_only_calm)

lemma record_dispute_event_calm: "record_dispute_event E d ev ty a at f s = Inr s' \<Longrightarrow> calm s s'"
  by (auto dest: log_steps logs_only_calm)

lemma release_settles:
  "queue_release_full E sv t p s = Inr (x, t', s') \<Longrightarrow> outbox_wf s \<Longrightarrow> settles t t' s s'"
  by (auto simp: queue_release_full_def intro: enqueue_full_settles)

lemma refund_settles:
  "queue_refund_full E sv t p s = Inr (x, t', s') \<Longrightarrow> outbox_wf s \<Longrightarrow> settles t t' s s'"
  by (auto simp: queue_refund_full_def intro: enqueue_full_settles)

lemma calm_wf: "calm s s' \<Longrightarrow> orders_wf s \<Longrightarrow> outbox_wf s'"
  by (simp add: calm_def orders_wf_def)

lemma dispatch_body_step:
  assumes "dispatch_body E t seller s = Inr (r, s')" and "orders_wf s" and "get_transaction tid s = Some t" and "tx_status t = LOCKED"
  shows "order_step tid LOCKED OUT_FOR_DELIVERY s s'"
proof -
  define t2 where "t2 = t\<lparr>tx_status := OUT_FOR_DELIVERY, tx_dispatched_at := Some (e_now E)\<rparr>"
  from assms(1) obtain s1 where c: "calm s s1"
    and s': "s' = save_transaction (e_now E) t2 (create_dispatched_notifications E t2 s1)"
    by (auto simp: dispatch_body_def bindE_eq_Inr Let_def t2_def dest!: transition_calm commit_order_Inr)
  have "order_step tid (tx_status t) (tx_status t2) s s'" unfolding s'
    by (rule commit_calm_step [OF assms(2,3) calm_trans [OF c notices_calm(3)]])
      (simp_all add: t2_def same_order_def paying_def assms(4))
  then show ?thesis by (simp add: t2_def assms(4))
qed

interpretation dispatch: order_handler "dispatch_transaction E tid seller" 4 for E tid seller
proof
  fix s s' r
  assume "orders_wf s" and h: "dispatch_transaction E tid seller s = (s', r)"
  then show "idle s s' \<or> (\<exists>i a b. documented 4 a b \<and> order_step i a b s s')"
    unfolding dispatch_transaction_def
    by (intro atomic_steps [OF h [unfolded dispatch_transaction_def]])
      (auto split: if_splits option.splits intro: dispatch_body_step documented.intros)
qed

lemma arrival_body_step:
  assumes "arrival_body E t seller s = Inr (r, s')" and "orders_wf s" and "get_transaction tid s = Some t"
    and "tx_status t = OUT_FOR_DELIVERY"
  shows "order_step tid OUT_FOR_DELIVERY AT_DOOR_PENDING_INSPECTION s s'"
proof -
  obtain otp s0 where g: "generate_delivery_otp E s = (otp, s0)" by force
  have c0: "calm s s0" using g by (intro calmI) (auto simp: generate_delivery_otp_def)
  define t2 where "t2 = t\<lparr>tx_status := AT_DOOR_PENDING_INSPECTION, tx_at_door_at := Some (e_now E),
    tx_delivery_otp_hash := Some (hash_delivery_otp E otp), tx_otp_failed_attempts := 0\<rparr>"
  from assms(1) g obtain s1 where c: "calm s0 s1"
    and s': "s' = save_transaction (e_now E) t2 (create_arrival_notifications E t2 otp s1)"
    by (auto simp: arrival_body_def bindE_eq_Inr Let_def t2_def dest!: transition_calm commit_order_Inr)
  have "order_step tid (tx_status t) (tx_status t2) s s'" unfolding s'
    by (rule commit_calm_step [OF assms(2,3) calm_trans [OF calm_trans [OF c0 c] notices_calm(4)]])
      (simp_all add: t2_def same_order_def paying_def assms(4))
  then show ?thesis by (simp add: t2_def assms(4))
qed

interpretation arrival: order_handler "mark_transaction_arrived E tid seller" 5 for E tid seller
proof
  fix s s' r
  assume "orders_wf s" and h: "mark_transaction_arrived E tid seller s = (s', r)"
  then show "idle s s' \<or> (\<exists>i a b. documented 5 a b \<and> order_step i a b s s')"
    by (intro atomic_steps [OF h [unfolded mark_transaction_arrived_def]])
      (auto split: if_splits option.splits intro: arrival_body_step documented.intros)
qed

text \<open>The buyer's code: a hold for a serialized item, else the release of the order's amount.\<close>

lemma otp_body_step:
  assumes "otp_body E t l buyer s = Inr (r, s')" and "orders_wf s" and "get_transaction tid s = Some t"
    and "tx_status t = AT_DOOR_PENDING_INSPECTION"
  shows "order_step tid AT_DOOR_PENDING_INSPECTION (if l_is_serialized l then HOLD_24H else RELEASED) s s'"
proof (cases "l_is_serialized l")
  case True
  define t3 where "t3 = t\<lparr>tx_status := HOLD_24H, tx_hold_started_at := Some (e_now E), tx_released_at := None,
    tx_delivery_otp_hash := None, tx_otp_failed_attempts := 0\<rparr>"
  from assms(1) True obtain s1 where c: "calm s s1"
    and s': "s' = save_transaction (e_now E) t3 (create_otp_given_notifications E t3 s1)"
    by (auto simp: otp_body_def bindE_eq_Inr Let_def t3_def dest!: transition_calm commit_order_Inr)
  have "order_step tid (tx_status t) (tx_status t3) s s'" unfolding s'
    by (rule commit_calm_step [OF assms(2,3) calm_trans [OF c notices_calm(5)]])
      (simp_all add: t3_def same_order_def paying_def assms(4))
  then show ?thesis using True by (simp add: t3_def assms(4))
next
  case False
  define t1 where "t1 = t\<lparr>tx_status := RELEASED, tx_released_at := Some (e_now E), tx_hold_started_at := None\<rparr>"
  from assms(1) False obtain x t2 s1 s2 where c: "calm s s1"
    and q: "queue_release_full E system_service t1 (''tx-release:'' @ uuid_str (tx_id t)) s1 = Inr (x, t2, s2)"
    and s': "s' = save_transaction (e_now E) (t2\<lparr>tx_delivery_otp_hash := None, tx_otp_failed_attempts := 0\<rparr>)
      (create_otp_given_notifications E (t2\<lparr>tx_delivery_otp_hash := None, tx_otp_failed_attempts := 0\<rparr>) s2)"
    by (auto simp: otp_body_def bindE_eq_Inr Let_def t1_def dest!: transition_calm commit_order_Inr)
  let ?tF = "t2\<lparr>tx_delivery_otp_hash := None, tx_otp_failed_attempts := 0\<rparr>"
  have st: "settles t1 t2 s1 s2" by (rule release_settles [OF q calm_wf [OF c assms(2)]])
  have t2: "tx_status t2 = RELEASED" using settles_same_order [OF st] by (simp add: t1_def)
  have "order_step tid (tx_status t) (tx_status ?tF) s s'" unfolding s'
    by (rule commit_settled_step [OF assms(2,3) c st notices_calm(5)])
      (simp_all add: t1_def t2 same_order_def paying_def assms(4))
  then show ?thesis using False t2 by (simp add: assms(4))
qed

interpretation otp: order_handler "confirm_buyer_delivery_otp E tid buyer code" 6 for E tid buyer code
proof
  fix s s' r
  assume wf: "orders_wf s" and h: "confirm_buyer_delivery_otp E tid buyer code s = (s', r)"
  show "idle s s' \<or> (\<exists>i a b. documented 6 a b \<and> order_step i a b s s')"
  proof (cases "\<exists>t l. get_transaction tid s = Some t \<and> get_listing (tx_listing t) s = Some l \<and>
      tx_status t = AT_DOOR_PENDING_INSPECTION \<and> atomic s (otp_body E t l buyer s) = (s', r)")
    case True
    then obtain t l where t: "get_transaction tid s = Some t" "tx_status t = AT_DOOR_PENDING_INSPECTION"
      and a: "atomic s (otp_body E t l buyer s) = (s', r)" by blast
    have "documented 6 AT_DOOR_PENDING_INSPECTION (if l_is_serialized l then HOLD_24H else RELEASED)"
      by (simp add: documented.T6)
    with otp_body_step [OF _ wf t] show ?thesis by (intro atomic_steps [OF a]) blast
  next
    case False
    have "idle s (save_transaction (e_now E) (t\<lparr>tx_otp_failed_attempts := n\<rparr>) s)" if "get_transaction tid s = Some t" for t n
      using that transactions.get_key [OF that] by (intro save_idle [of _ _ t]) (auto simp: same_order_def)
    with h False show ?thesis by (auto simp: confirm_buyer_delivery_otp_def split: if_splits option.splits)
  qed
qed

lemma withheld_flow:
  assumes "apply_withheld_return_refund_flow E t now by reason who s = Inr (t', s')"
  shows "t' = t\<lparr>tx_status := REFUNDED_BUYER, tx_refunded_at := Some now, tx_delivery_otp_hash := None, tx_otp_failed_attempts := 0\<rparr>"
    and "calm s s'"
proof -
  from assms obtain t1 s1 t2 s2 t3 s3 ty door where
    "transition_transaction E t RETURN_IN_TRANSIT ty who reason now door s = Inr (t1, s1)"
    "transition_transaction E t1 RETURNED_TO_SELLER ty who reason now door s1 = Inr (t2, s2)"
    "transition_transaction E t2 REFUNDED_BUYER ty who reason now door s2 = Inr (t3, s')"
    and t': "t' = t3\<lparr>tx_refunded_at := Some now, tx_delivery_otp_hash := None, tx_otp_failed_attempts := 0\<rparr>"
    by (auto simp: apply_withheld_return_refund_flow_def bindE_eq_Inr Let_def)
  then show "t' = t\<lparr>tx_status := REFUNDED_BUYER, tx_refunded_at := Some now, tx_delivery_otp_hash := None, tx_otp_failed_attempts := 0\<rparr>"
    and "calm s s'"
    by (auto dest!: transition_calm intro: calm_trans)
qed

lemma withhold_body_step:
  assumes "withhold_body E t buyer reason nt s = Inr (r, s')" and "orders_wf s" and "get_transaction tid s = Some t"
    and "tx_status t = AT_DOOR_PENDING_INSPECTION"
  shows "order_step tid AT_DOOR_PENDING_INSPECTION REFUNDED_BUYER s s'"
proof -
  from assms(1) obtain door t1 s1 x t2 s2 where
    f: "apply_withheld_return_refund_flow E (t\<lparr>tx_door_rejection_reason := door,
        tx_door_rejection_note := none_if_empty (strip (or_text [nt] ''''))\<rparr>) (e_now E) ''buyer'' ''otp_withheld'' (Some (u_id buyer)) s = Inr (t1, s1)"
    and q: "queue_refund_full E system_service t1 (''tx-refund:'' @ uuid_str (tx_id t)) s1 = Inr (x, t2, s2)"
    and s': "s' = save_transaction (e_now E) t2 (create_otp_withheld_notifications E t2
      (withheld_history (e_now E) ''buyer'' ''otp_withheld'') ''buyer'' ''otp_withheld'' s2)"
    by (auto simp: withhold_body_def bindE_eq_Inr Let_def dest!: commit_order_Inr)
  note w = withheld_flow [OF f]
  have st: "settles t1 t2 s1 s2" by (rule refund_settles [OF q calm_wf [OF w(2) assms(2)]])
  have t2: "tx_status t2 = REFUNDED_BUYER" using settles_same_order [OF st] w(1) by simp
  have "order_step tid (tx_status t) (tx_status t2) s s'" unfolding s'
    by (rule commit_settled_step [OF assms(2,3) w(2) st notices_calm(6)])
      (simp_all add: w(1) t2 same_order_def paying_def assms(4))
  then show ?thesis by (simp add: t2 assms(4))
qed

interpretation withhold: order_handler "withhold_buyer_delivery_otp E tid buyer reason nt" 7 for E tid buyer reason nt
proof
  fix s s' r
  assume "orders_wf s" and h: "withhold_buyer_delivery_otp E tid buyer reason nt s = (s', r)"
  then show "idle s s' \<or> (\<exists>i a b. documented 7 a b \<and> order_step i a b s s')"
    by (intro atomic_steps [OF h [unfolded withhold_buyer_delivery_otp_def]])
      (auto split: if_splits option.splits intro: withhold_body_step documented.intros)
qed

section \<open>What the payment handlers do\<close>

lemma ensure_escrow_calm: "ensure_escrow_for_transaction E t s = Inr (e, s') \<Longrightarrow> outbox_wf s \<Longrightarrow> calm s s'"
  using ensure_escrow_effect [of E t s e s'] payout_only_frame [of s s'] by (simp add: calm_def)

lemma found_escrow: "find_escrow_for_transaction tid s = Some e \<Longrightarrow> outbox_wf s \<Longrightarrow> get_escrow (es_id e) s = Some e"
  using find_escrow_SomeD [of tid s e] row_get_unique [of es_id "d_escrows s" e] by (simp add: get_escrow_def outbox_wf_def)

lemma ledger_only_calm: "ledger_only s s' \<Longrightarrow> calm s s'"
  by (rule calmI) (simp_all add: ledger_only_frame)

lemma post_escrow_funding_calm:
  assumes "post_escrow_funding E e k d s = Inr (b, e', s')" and "get_escrow (es_id e) s = Some e"
  shows "calm s s'"
proof (cases b)
  case True
  with post_escrow_funding_cases [OF assms(1)] obtain s1 where e': "e' = e\<lparr>es_funded_amount := es_amount_total e\<rparr>"
    and l: "ledger_only s s1" and s': "s' = put_escrow e' s1" by auto
  have "get_escrow (es_id e') s1 = Some e" using assms(2) e' ledger_only_frame [OF l] by (simp add: get_escrow_def)
  then have "calm s1 s'" unfolding s' by (rule put_escrow_calm) (simp add: e')
  with ledger_only_calm [OF l] show ?thesis by (rule calm_trans)
qed (use post_escrow_funding_cases [OF assms(1)] ledger_only_calm in auto)

lemma callback_funding_calm:
  assumes "record_simulated_callback_funding E t s = Inr s'" and "outbox_wf s"
  shows "calm s s'"
proof (cases "s' = s")
  case False
  with assms(1) obtain e s1 b e' s2 where en: "ensure_escrow_for_transaction E t s = Inr (e, s1)"
    and p: "post_escrow_funding E e (''callback-funding:'' @ uuid_str (tx_id t)) ''Simulated custody funding (payment callback)'' s1 = Inr (b, e', s2)"
    and l: "calm s2 s'"
    by (auto simp: record_simulated_callback_funding_def bindE_eq_Inr dest: record_audit_calm split: if_splits)
  note ee = ensure_escrow_effect [OF en assms(2)]
  have "calm s1 s2" by (rule post_escrow_funding_calm [OF p found_escrow [OF ee(4,2)]])
  with ensure_escrow_calm [OF en assms(2)] l show ?thesis by (blast intro: calm_trans)
qed simp

lemma lock_body_step:
  assumes "lock_body E t cb s = Inr (r, s')" and "orders_wf s" and "get_transaction tid s = Some t" and "tx_status t = AWAITING_PAYMENT"
  shows "order_step tid AWAITING_PAYMENT LOCKED s s'"
proof -
  define t2 where "t2 = t\<lparr>tx_status := LOCKED, tx_locked_at := Some (e_now E)\<rparr>"
  from assms(1) obtain s1 s3 details where c: "calm s s1"
    and f: "record_simulated_callback_funding E t2 (snd (resolve_open_prompt (tx_id t2) 0 (e_now E) s1)) = Inr s3"
    and s': "s' = save_transaction (e_now E) t2 (create_locked_notifications E t2 details s3)"
    by (auto simp: lock_body_def bindE_eq_Inr Let_def t2_def dest!: transition_calm commit_order_Inr)
  have c2: "calm s (snd (resolve_open_prompt (tx_id t2) 0 (e_now E) s1))" by (rule calm_trans [OF c resolve_open_prompt_calm])
  have c3: "calm s s3" by (rule calm_trans [OF c2 callback_funding_calm [OF f calm_wf [OF c2 assms(2)]]])
  have "order_step tid (tx_status t) (tx_status t2) s s'" unfolding s'
    by (rule commit_calm_step [OF assms(2,3) calm_trans [OF c3 notices_calm(2)]])
      (simp_all add: t2_def same_order_def paying_def assms(4))
  then show ?thesis by (simp add: t2_def assms(4))
qed

interpretation callback: order_handler "confirm_payment_callback E cb" 2 for E cb
proof
  fix s s' r
  assume wf: "orders_wf s" and h: "confirm_payment_callback E cb s = (s', r)"
  show "idle s s' \<or> (\<exists>i a b. documented 2 a b \<and> order_step i a b s s')"
  proof (cases "\<exists>t. get_transaction (cb_transaction cb) s = Some t \<and> tx_status t = AWAITING_PAYMENT \<and> s' \<noteq> s \<and> cb_result_code cb = 0")
    case True
    then obtain t where t: "get_transaction (cb_transaction cb) s = Some t" "tx_status t = AWAITING_PAYMENT" by blast
    from h True t obtain t' where "lock_body E t cb s = Inr (t', s')"
      by (auto simp: confirm_payment_callback_def Let_def atomic_def bindE_def split: if_splits sum.splits)
    then show ?thesis using lock_body_step [OF _ wf t] by (blast intro: documented.intros)
  next
    case False
    then have "s' = s \<or> (\<exists>tid code. s' = snd (resolve_open_prompt tid code (e_now E) s))"
      using h by (auto simp: confirm_payment_callback_def Let_def split: if_splits option.splits)
    then show ?thesis using resolve_open_prompt_calm calm_idle by auto
  qed
qed

lemma custody_lock_step:
  assumes "lock_transaction_after_custody_funding E tid pr rail s = Inr (b, s')" and "orders_wf s"
    and "get_transaction tid s = Some t" and "tx_status t = AWAITING_PAYMENT"
  shows "order_step tid AWAITING_PAYMENT LOCKED s s'"
proof -
  define t2 where "t2 = t\<lparr>tx_status := LOCKED, tx_locked_at := Some (e_now E)\<rparr>"
  from assms obtain s1 details where c: "calm s s1"
    and s': "s' = save_transaction (e_now E) t2 (create_locked_notifications E t2 details
      (snd (resolve_open_prompt (tx_id t2) 0 (e_now E) s1)))"
    by (auto simp: lock_transaction_after_custody_funding_def bindE_eq_Inr Let_def t2_def dest!: transition_calm)
  have "order_step tid (tx_status t) (tx_status t2) s s'" unfolding s'
    by (rule commit_calm_step [OF assms(2,3) calm_trans [OF calm_trans [OF c resolve_open_prompt_calm] notices_calm(2)]])
      (simp_all add: t2_def same_order_def paying_def assms(4))
  then show ?thesis by (simp add: t2_def assms(4))
qed

lemma custody_lock_skips:
  assumes "\<forall>t. get_transaction tid s = Some t \<longrightarrow> tx_status t \<noteq> AWAITING_PAYMENT"
  shows "lock_transaction_after_custody_funding E tid pr rail s = Inr (False, s)"
  using assms by (simp add: lock_transaction_after_custody_funding_def split: option.split)

interpretation custody_lock: order_handler "\<lambda>s. atomic s (lock_transaction_after_custody_funding E tid pr rail s)" 3 for E tid pr rail
proof
  fix s s' r
  assume wf: "orders_wf s" and h: "atomic s (lock_transaction_after_custody_funding E tid pr rail s) = (s', r)"
  show "idle s s' \<or> (\<exists>i a b. documented 3 a b \<and> order_step i a b s s')"
  proof (cases "\<exists>t. get_transaction tid s = Some t \<and> tx_status t = AWAITING_PAYMENT")
    case True
    then show ?thesis using custody_lock_step [OF _ wf] by (intro atomic_steps [OF h]) (blast intro: documented.intros)
  next
    case False
    then have "s' = s" using h custody_lock_skips [of tid s E pr rail] by auto
    then show ?thesis by simp
  qed
qed

end
