(* ===== verification/Disputes.thy ===== *)
theory Disputes
  imports Workflow "HOL-Library.Product_Lexorder"
begin

text \<open>
  The return case: the buyer's report, the return of the item, the seller's resolution, the buyer's
  reconfirmation and both closing confirmations (app/services/transaction.py), the hand-over to
  support (app/services/dispute_escalation.py), the admin's decision, queue and timeline
  (app/services/dispute.py), and the summary shown to the parties (app/services/dispute_summary.py).
\<close>

section \<open>Opening a case\<close>

definition FUNCTIONAL_ISSUE_CATEGORIES :: "string list" where
  "FUNCTIONAL_ISSUE_CATEGORIES = [''not_working'', ''damaged_on_arrival'', ''missing_parts'', ''not_as_described'', ''other'']"

definition normalize_functional_issue_category :: "string \<Rightarrow> exn + string" where
  "normalize_functional_issue_category category = (let normalized = normalize_key category in
     if normalized \<notin> set FUNCTIONAL_ISSUE_CATEGORIES
       then Inl (TransactionValidationError (''Invalid issue category. Allowed categories: '' @
         join_text '', '' (sort FUNCTIONAL_ISSUE_CATEGORIES) @ ''.''))
     else Inr normalized)"

definition insert_dispute :: "dispute \<Rightarrow> db \<Rightarrow> exn + db" where
  "insert_dispute d s = (if get_dispute (di_id d) s \<noteq> None then Inl (IntegrityError ''disputes_pkey'')
     else Inr (s\<lparr>d_disputes := d_disputes s @ [d]\<rparr>))"

definition record_escalated :: "env \<Rightarrow> dispute \<Rightarrow> string \<Rightarrow> db \<Rightarrow> exn + db" where
  "record_escalated E d reason s = record_dispute_event E d ''dispute_escalated'' ACTOR_SYSTEM None (e_now E)
     [(''by'', JStr ''system''), (''reason'', JStr reason), (''reason_text_keccak'', JNull)] s"

definition opened_dispute :: "env \<Rightarrow> uuid \<Rightarrow> transaction \<Rightarrow> user \<Rightarrow> string \<Rightarrow> string \<Rightarrow> dict option \<Rightarrow> dispute" where
  "opened_dispute E i t buyer cat description evidence = (let now = e_now E; escalated = (cat = ''other'') in
     \<lparr>di_id = i, di_transaction = tx_id t, di_opened_by = u_id buyer, di_type = FUNCTIONAL,
      di_status = (if escalated then D_ESCALATED_ADMIN_REVIEW else D_OPEN), di_reason = cat, di_description = strip description,
      di_seller_resolution_action = None, di_admin_decision = None, di_split_ratio = None,
      di_evidence = (case evidence of None \<Rightarrow> [] | Some e \<Rightarrow> e), di_seller_resolution_notes = None, di_admin_reason = None,
      di_decided_by = None, di_opened_at = now, di_escalated_at = (if escalated then Some now else None),
      di_resolved_at = None, di_created_at = now\<rparr>)"

definition report_body ::
    "env \<Rightarrow> transaction \<Rightarrow> user \<Rightarrow> string \<Rightarrow> string \<Rightarrow> dict option \<Rightarrow> db \<Rightarrow> exn + (transaction \<times> db)" where
  "report_body E t buyer category description evidence s0 =
     bindE (normalize_functional_issue_category category) (\<lambda>cat.
     let now = e_now E; route = (if cat = ''other'' then ''admin_escalation'' else ''seller_resolution'');
       d = opened_dispute E (e_uuid E (d_draws s0)) t buyer cat description evidence;
       s = s0\<lparr>d_draws := Suc (d_draws s0)\<rparr>
     in bindE (transition_transaction E t DISPUTED_FUNCTIONAL ACTOR_USER (Some (u_id buyer)) ''functional_issue_reported'' now None s) (\<lambda>(t1, s1).
        bindE (insert_dispute d s1) (\<lambda>s2.
        bindE (free_text E (Some (di_description d))) (\<lambda>text_hash.
        bindE (record_dispute_event E d ''dispute_opened'' ACTOR_USER (Some (u_id buyer)) now
          [(''dispute_type'', JStr (dispute_type_value (di_type d))), (''category'', JStr cat), (''route'', JStr route),
           (''description_keccak'', jopt text_hash)] s2) (\<lambda>s3.
        bindE (if di_status d = D_ESCALATED_ADMIN_REVIEW then record_escalated E d ''other_category'' s3 else Inr s3) (\<lambda>s4.
        commit_order E t1 (create_dispute_opened_notifications E t1 d now cat route s4)))))))"

definition report_functional_issue ::
    "env \<Rightarrow> uuid \<Rightarrow> user \<Rightarrow> string \<Rightarrow> string \<Rightarrow> dict option \<Rightarrow> db \<Rightarrow> db \<times> (exn + transaction)" where
  "report_functional_issue E tid buyer category description evidence s = atomic s (
     if u_role buyer \<noteq> BUYER then Inl (TransactionValidationError ''Only buyers can report functional issues.'')
     else (case get_transaction tid s of
       None \<Rightarrow> Inl (TransactionNotFoundForBuyerActionError ''Transaction not found.'')
     | Some t \<Rightarrow> if tx_buyer t \<noteq> u_id buyer
         then Inl (TransactionBuyerActionForbiddenError ''Only the transaction buyer can report functional issues.'')
       else if tx_status t \<noteq> HOLD_24H
         then Inl (TransactionBuyerActionInvalidStateError ''Transaction must be in hold_24h state for functional issue reporting.'')
       else (case get_listing (tx_listing t) s of
           None \<Rightarrow> Inl (ListingNotFoundForTransactionError ''Listing not found.'')
         | Some l \<Rightarrow> if \<not> l_is_serialized l
             then Inl (TransactionBuyerActionInvalidStateError ''Functional issue reporting is only supported for serialized listings.'')
           else report_body E t buyer category description evidence s)))"

section \<open>Returning the item\<close>

definition record_on_latest :: "env \<Rightarrow> uuid \<Rightarrow> string \<Rightarrow> uuid \<Rightarrow> db \<Rightarrow> exn + db" where
  "record_on_latest E tid ev who s = (case latest_dispute tid s of None \<Rightarrow> Inr s
     | Some d \<Rightarrow> record_dispute_event E d ev ACTOR_USER (Some who) (e_now E) [] s)"

definition sent_back_body :: "env \<Rightarrow> transaction \<Rightarrow> user \<Rightarrow> db \<Rightarrow> exn + (transaction \<times> db)" where
  "sent_back_body E t buyer s = (let now = e_now E in
     bindE (transition_transaction E t RETURN_IN_TRANSIT ACTOR_USER (Some (u_id buyer)) ''buyer_sent_back'' now None s) (\<lambda>(t1, s1).
     bindE (record_on_latest E (tx_id t) ''dispute_return_sent'' (u_id buyer) s1) (\<lambda>s2.
     commit_order E t1 (create_dispute_buyer_sent_back_notifications E t1 now ''buyer'' ''buyer_sent_back'' s2))))"

definition mark_buyer_sent_back :: "env \<Rightarrow> uuid \<Rightarrow> user \<Rightarrow> db \<Rightarrow> db \<times> (exn + transaction)" where
  "mark_buyer_sent_back E tid buyer s = atomic s (
     if u_role buyer \<noteq> BUYER then Inl (TransactionValidationError ''Only buyers can mark sent-back action.'')
     else (case get_transaction tid s of
       None \<Rightarrow> Inl (TransactionNotFoundForBuyerActionError ''Transaction not found.'')
     | Some t \<Rightarrow> if tx_buyer t \<noteq> u_id buyer
         then Inl (TransactionBuyerActionForbiddenError ''Only the transaction buyer can mark sent-back action.'')
       else if tx_status t \<noteq> DISPUTED_FUNCTIONAL
         then Inl (TransactionBuyerActionInvalidStateError ''Transaction must be in disputed_functional state for buyer sent-back action.'')
       else sent_back_body E t buyer s))"

definition received_body :: "env \<Rightarrow> transaction \<Rightarrow> user \<Rightarrow> db \<Rightarrow> exn + (transaction \<times> db)" where
  "received_body E t seller s = (let now = e_now E in
     bindE (transition_transaction E t RETURN_RECEIVED ACTOR_USER (Some (u_id seller)) ''seller_received'' now None s) (\<lambda>(t1, s1).
     bindE (record_on_latest E (tx_id t) ''dispute_return_received'' (u_id seller) s1) (\<lambda>s2.
     commit_order E t1 (create_seller_received_notifications E t1 now s2))))"

definition mark_seller_received :: "env \<Rightarrow> uuid \<Rightarrow> user \<Rightarrow> db \<Rightarrow> db \<times> (exn + transaction)" where
  "mark_seller_received E tid seller s = atomic s (
     if u_role seller \<noteq> SELLER then Inl (TransactionValidationError ''Only sellers can mark seller-received action.'')
     else (case get_transaction tid s of
       None \<Rightarrow> Inl (TransactionNotFoundForDispatchError ''Transaction not found.'')
     | Some t \<Rightarrow> if tx_seller t \<noteq> u_id seller
         then Inl (TransactionDispatchForbiddenError ''Only the transaction seller can mark seller-received action.'')
       else if tx_status t \<noteq> RETURN_IN_TRANSIT
         then Inl (TransactionDispatchInvalidStateError ''Transaction must be in return_in_transit state for seller received action.'')
       else received_body E t seller s))"

section \<open>The seller's resolution\<close>

definition SELLER_RESOLUTION_ACTION_MAP :: "(string \<times> seller_action) list" where
  "SELLER_RESOLUTION_ACTION_MAP = [(''refund_issued'', REFUND_ISSUED), (''repair_shipped'', REPAIR_SHIPPED),
     (''replacement_shipped'', REPLACEMENT_SHIPPED)]"

definition normalize_seller_resolution_action :: "string \<Rightarrow> exn + seller_action" where
  "normalize_seller_resolution_action action = (case map_of SELLER_RESOLUTION_ACTION_MAP (normalize_key action) of
       None \<Rightarrow> Inl (TransactionValidationError (''Invalid seller resolution action. Allowed actions: '' @
         join_text '', '' (sort (map fst SELLER_RESOLUTION_ACTION_MAP)) @ ''.''))
     | Some a \<Rightarrow> Inr a)"

text \<open>
  Whether the listing's policy allows an action. The text Python makes of a list item that is not a
  string (a number, true, a nested list) never normalises to an action's name.
\<close>

definition policy_allows :: "dict \<Rightarrow> seller_action \<Rightarrow> bool" where
  "policy_allows policy a = (case dict_get ''allowed_seller_actions'' policy of
       Some (JArr (x # xs)) \<Rightarrow> list_ex (\<lambda>j. case j of JStr v \<Rightarrow> normalize_key v = seller_action_value a | _ \<Rightarrow> False) (x # xs)
     | _ \<Rightarrow> True)"

text \<open>\<open>notes.strip() if notes else None\<close>\<close>

definition stripped_notes :: "string option \<Rightarrow> string option" where
  "stripped_notes n = (case n of None \<Rightarrow> None | Some v \<Rightarrow> if v = '''' then None else Some (strip v))"

definition record_seller_resolution :: "env \<Rightarrow> uuid \<Rightarrow> user \<Rightarrow> seller_action \<Rightarrow> string option \<Rightarrow> db \<Rightarrow> exn + db" where
  "record_seller_resolution E tid seller a note_text s = (case latest_dispute tid s of None \<Rightarrow> Inr s
     | Some d \<Rightarrow> let now = e_now E; d1 = d\<lparr>di_seller_resolution_action := Some a, di_seller_resolution_notes := stripped_notes note_text\<rparr>;
         d2 = (if a = REFUND_ISSUED then d1\<lparr>di_status := D_RESOLVED_REFUND, di_resolved_at := Some now\<rparr>
           else d1\<lparr>di_status := D_AWAITING_BUYER_RECONFIRMATION\<rparr>)
       in bindE (free_text E note_text) (\<lambda>text_hash.
         record_dispute_event E d2 ''dispute_seller_resolution'' ACTOR_USER (Some (u_id seller)) now
           [(''action'', JStr (seller_action_value a)), (''notes_keccak'', jopt text_hash)] (put_dispute d2 s)))"

definition resolution_body ::
    "env \<Rightarrow> transaction \<Rightarrow> user \<Rightarrow> seller_action \<Rightarrow> string option \<Rightarrow> db \<Rightarrow> exn + (transaction \<times> db)" where
  "resolution_body E t seller a note_text s = (let now = e_now E; reason = ''seller_resolution_'' @ seller_action_value a in
     bindE (if a = REFUND_ISSUED
       then bindE (transition_transaction E t REFUNDED_BUYER ACTOR_USER (Some (u_id seller)) reason now None s) (\<lambda>(t1, s1).
         bindE (queue_refund_full E system_service (t1\<lparr>tx_refunded_at := Some now\<rparr>) (''seller-refund:'' @ uuid_str (tx_id t)) s1)
           (\<lambda>(_, t2, s2). Inr (t2, s2)))
       else transition_transaction E t AWAITING_BUYER_RECONFIRMATION ACTOR_USER (Some (u_id seller)) reason now None s)
     (\<lambda>(t2, s2).
     bindE (record_seller_resolution E (tx_id t) seller a note_text s2)
     (\<lambda>s3. commit_order E t2 (create_seller_resolution_notifications E t2 now a s3))))"

definition apply_seller_resolution_action ::
    "env \<Rightarrow> uuid \<Rightarrow> user \<Rightarrow> string \<Rightarrow> string option \<Rightarrow> db \<Rightarrow> db \<times> (exn + transaction)" where
  "apply_seller_resolution_action E tid seller action note_text s = atomic s (
     if u_role seller \<noteq> SELLER then Inl (TransactionValidationError ''Only sellers can apply resolution actions.'')
     else (case get_transaction tid s of
       None \<Rightarrow> Inl (TransactionNotFoundForDispatchError ''Transaction not found.'')
     | Some t \<Rightarrow> if tx_seller t \<noteq> u_id seller
         then Inl (TransactionDispatchForbiddenError ''Only the transaction seller can apply resolution actions.'')
       else if tx_status t \<noteq> RETURN_RECEIVED
         then Inl (TransactionDispatchInvalidStateError ''Transaction must be in return_received state for seller resolution actions.'')
       else (case get_listing (tx_listing t) s of
           None \<Rightarrow> Inl (ListingNotFoundForTransactionError ''Listing not found.'')
         | Some l \<Rightarrow> bindE (normalize_seller_resolution_action action) (\<lambda>a.
             if \<not> policy_allows (l_dispute_policy l) a
               then Inl (TransactionValidationError ''Seller resolution action is not allowed by listing dispute policy.'')
             else resolution_body E t seller a note_text s))))"

section \<open>The buyer's reconfirmation\<close>

text \<open>The change of the order and of its case, before the buyer's notes are added.\<close>

definition reconfirmation_outcome ::
    "env \<Rightarrow> transaction \<Rightarrow> user \<Rightarrow> bool \<Rightarrow> dispute option \<Rightarrow> db \<Rightarrow> exn + (transaction \<times> dispute option \<times> db)" where
  "reconfirmation_outcome E t buyer accepted d s = (let now = e_now E; prior = json_int (get_reconfirm_rejection_count d) in
     if accepted
     then bindE (transition_transaction E t RESOLVED_RELEASE ACTOR_USER (Some (u_id buyer)) ''buyer_reconfirmed_accepted'' now None s) (\<lambda>(t1, s1).
       bindE (queue_release_full E system_service (t1\<lparr>tx_released_at := Some now\<rparr>) (''reconfirm-release:'' @ uuid_str (tx_id t)) s1) (\<lambda>(_, t2, s2).
       Inr (t2, map_option (\<lambda>d. d\<lparr>di_status := D_RESOLVED_RELEASE, di_resolved_at := Some now\<rparr>) d, s2)))
     else if prior < BUYER_RECONFIRMATION_RETRY_LIMIT
     then bindE (transition_transaction E t RETURN_RECEIVED ACTOR_USER (Some (u_id buyer)) ''buyer_reconfirmed_rejected'' now None s) (\<lambda>(t1, s1).
       Inr (t1, map_option (\<lambda>d. (set_reconfirm_rejection_count d (prior + 1))\<lparr>di_status := D_RETURN_RECEIVED\<rparr>) d, s1))
     else bindE (transition_transaction E t ESCALATED_ADMIN_REVIEW ACTOR_USER (Some (u_id buyer)) ''reconfirm_retry_limit'' now None s) (\<lambda>(t1, s1).
       Inr (t1, map_option (\<lambda>d. (set_reconfirm_rejection_count d (prior + 1))\<lparr>di_status := D_ESCALATED_ADMIN_REVIEW, di_escalated_at := Some now\<rparr>) d, s1)))"

definition with_buyer_notes :: "string option \<Rightarrow> dispute \<Rightarrow> dispute" where
  "with_buyer_notes note_text d = (case note_text of None \<Rightarrow> d
     | Some n \<Rightarrow> if n = '''' then d else d\<lparr>di_evidence := dict_set ''buyer_reconfirm_notes'' (JStr (strip n)) (di_evidence d)\<rparr>)"

definition record_reconfirmation ::
    "env \<Rightarrow> user \<Rightarrow> bool \<Rightarrow> string option \<Rightarrow> dispute option \<Rightarrow> db \<Rightarrow> exn + db" where
  "record_reconfirmation E buyer accepted note_text d s = (case d of None \<Rightarrow> Inr s
     | Some d \<Rightarrow> bindE (free_text E note_text) (\<lambda>text_hash.
         bindE (record_dispute_event E d ''dispute_buyer_reconfirmation'' ACTOR_USER (Some (u_id buyer)) (e_now E)
           [(''accepted'', JBool accepted), (''rejection_count'', get_reconfirm_rejection_count (Some d)), (''notes_keccak'', jopt text_hash)]
           (put_dispute d s)) (\<lambda>s1.
         if di_status d = D_ESCALATED_ADMIN_REVIEW then record_escalated E d ''reconfirm_retry_limit'' s1 else Inr s1)))"

definition reconfirmation_body ::
    "env \<Rightarrow> transaction \<Rightarrow> user \<Rightarrow> bool \<Rightarrow> string option \<Rightarrow> db \<Rightarrow> exn + (transaction \<times> db)" where
  "reconfirmation_body E t buyer accepted note_text s = (let now = e_now E; d0 = latest_dispute (tx_id t) s;
       prior = get_reconfirm_rejection_count d0 in
     bindE (reconfirmation_outcome E t buyer accepted d0 s) (\<lambda>(t1, d1, s1).
     bindE (record_reconfirmation E buyer accepted note_text (map_option (with_buyer_notes note_text) d1) s1)
     (\<lambda>s2. commit_order E t1 (create_buyer_reconfirmation_notifications E t1 now accepted prior s2))))"

definition submit_buyer_reconfirmation ::
    "env \<Rightarrow> uuid \<Rightarrow> user \<Rightarrow> bool \<Rightarrow> string option \<Rightarrow> db \<Rightarrow> db \<times> (exn + transaction)" where
  "submit_buyer_reconfirmation E tid buyer accepted note_text s = atomic s (
     if u_role buyer \<noteq> BUYER then Inl (TransactionValidationError ''Only buyers can submit reconfirmation.'')
     else (case get_transaction tid s of
       None \<Rightarrow> Inl (TransactionNotFoundForBuyerActionError ''Transaction not found.'')
     | Some t \<Rightarrow> if tx_buyer t \<noteq> u_id buyer
         then Inl (TransactionBuyerActionForbiddenError ''Only the transaction buyer can submit reconfirmation.'')
       else if tx_status t \<noteq> AWAITING_BUYER_RECONFIRMATION
         then Inl (TransactionBuyerActionInvalidStateError ''Transaction must be in awaiting_buyer_reconfirmation state for buyer reconfirmation.'')
       else reconfirmation_body E t buyer accepted note_text s))"

section \<open>The closing confirmations\<close>

definition resolved :: "tx_status \<Rightarrow> bool" where
  "resolved b = (b \<in> {RESOLVED_RELEASE, RESOLVED_REFUND, RESOLVED_SPLIT})"

definition evidence_flag :: "string \<Rightarrow> dict \<Rightarrow> bool" where
  "evidence_flag key ev = (case dict_get key ev of None \<Rightarrow> False | Some j \<Rightarrow> truthy j)"

text \<open>
  The part both confirmations share after their guards: \<open>mine\<close> is the confirming party's flag,
  \<open>theirs\<close> the other's.
\<close>

definition confirmation_body ::
    "env \<Rightarrow> transaction \<Rightarrow> user \<Rightarrow> string \<Rightarrow> string \<Rightarrow> string \<Rightarrow> db \<Rightarrow> exn + (transaction \<times> db)" where
  "confirmation_body E t who party mine theirs s = (case latest_dispute (tx_id t) s of
       None \<Rightarrow> Inl (TransactionValidationError ''Dispute context not found for resolution confirmation.'')
     | Some d \<Rightarrow> let now = e_now E; other = evidence_flag theirs (dict_set mine (JBool True) (di_evidence d));
         d1 = d\<lparr>di_evidence := dict_set theirs (JBool other) (dict_set mine (JBool True) (di_evidence d))\<rparr>;
         d2 = (if other then d1\<lparr>di_resolved_at := Some (case di_resolved_at d1 of None \<Rightarrow> now | Some r \<Rightarrow> r)\<rparr> else d1);
         buyer_confirmed = (if party = ''buyer'' then True else other); seller_confirmed = (if party = ''buyer'' then other else True) in
       bindE (record_dispute_event E d2 ''dispute_resolution_confirmed'' ACTOR_USER (Some (u_id who)) now
         [(''party'', JStr party), (''buyer_confirmed'', JBool buyer_confirmed), (''seller_confirmed'', JBool seller_confirmed),
          (''closed'', JBool other)] (put_dispute d2 s)) (\<lambda>s1.
       commit_order E t (create_mutual_confirmation_notifications E t now party buyer_confirmed seller_confirmed other s1)))"

definition submit_buyer_resolution_confirmation :: "env \<Rightarrow> uuid \<Rightarrow> user \<Rightarrow> db \<Rightarrow> db \<times> (exn + transaction)" where
  "submit_buyer_resolution_confirmation E tid buyer s = atomic s (
     if u_role buyer \<noteq> BUYER then Inl (TransactionValidationError ''Only buyers can confirm resolution closure.'')
     else (case get_transaction tid s of
       None \<Rightarrow> Inl (TransactionNotFoundForBuyerActionError ''Transaction not found.'')
     | Some t \<Rightarrow> if tx_buyer t \<noteq> u_id buyer
         then Inl (TransactionBuyerActionForbiddenError ''Only the transaction buyer can confirm resolution closure.'')
       else if \<not> resolved (tx_status t)
         then Inl (TransactionBuyerActionInvalidStateError ''Transaction must be in resolved state for mutual confirmation closure.'')
       else confirmation_body E t buyer ''buyer'' ''buyer_confirmed_resolved'' ''seller_confirmed_resolved'' s))"

definition submit_seller_resolution_confirmation :: "env \<Rightarrow> uuid \<Rightarrow> user \<Rightarrow> db \<Rightarrow> db \<times> (exn + transaction)" where
  "submit_seller_resolution_confirmation E tid seller s = atomic s (
     if u_role seller \<noteq> SELLER then Inl (TransactionValidationError ''Only sellers can confirm resolution closure.'')
     else (case get_transaction tid s of
       None \<Rightarrow> Inl (TransactionNotFoundForDispatchError ''Transaction not found.'')
     | Some t \<Rightarrow> if tx_seller t \<noteq> u_id seller
         then Inl (TransactionDispatchForbiddenError ''Only the transaction seller can confirm resolution closure.'')
       else if \<not> resolved (tx_status t)
         then Inl (TransactionDispatchInvalidStateError ''Transaction must be in resolved state for mutual confirmation closure.'')
       else confirmation_body E t seller ''seller'' ''seller_confirmed_resolved'' ''buyer_confirmed_resolved'' s))"

section \<open>Escalation by a party\<close>

definition OPEN_CASE :: "tx_status list" where
  "OPEN_CASE = [DISPUTED_FUNCTIONAL, RETURN_IN_TRANSIT, RETURN_RECEIVED, AWAITING_BUYER_RECONFIRMATION]"

definition escalation_notifications :: "env \<Rightarrow> transaction \<Rightarrow> tx_status \<Rightarrow> string \<Rightarrow> db \<Rightarrow> db" where
  "escalation_notifications E t previous role s = (let now = e_now E;
       payload = order_keys t @ [(''escalated_by'', JStr role),
         (''transition_history'', JArr [history_entry previous ESCALATED_ADMIN_REVIEW now role ''party_escalated''])];
       held = ''The money stays in escrow until they decide.'';
       message = (\<lambda>recipient. if recipient = role then ''You asked Vekro support to review this case. '' @ held
         else ''The '' @ role @ '' asked Vekro support to review this case. '' @ held) in
     notify_parties E t DISPUTE_UPDATED
       (''Sent to Vekro support'', message ''buyer'', payload @ [(''recipient'', JStr ''buyer'')])
       (''Sent to Vekro support'', message ''seller'', payload @ [(''recipient'', JStr ''seller'')]) s)"

definition escalate_body :: "env \<Rightarrow> transaction \<Rightarrow> dispute \<Rightarrow> user \<Rightarrow> string \<Rightarrow> string \<Rightarrow> db \<Rightarrow> exn + (transaction \<times> db)" where
  "escalate_body E t d u role reason s = (let now = e_now E in
     bindE (transition_transaction E t ESCALATED_ADMIN_REVIEW ACTOR_USER (Some (u_id u)) ''party_escalated'' now None s) (\<lambda>(t1, s1).
     let d1 = d\<lparr>di_status := D_ESCALATED_ADMIN_REVIEW, di_escalated_at := Some now\<rparr> in
     bindE (free_text E (Some reason)) (\<lambda>text_hash.
     bindE (record_dispute_event E d1 ''dispute_escalated'' ACTOR_USER (Some (u_id u)) now
       [(''by'', JStr role), (''reason'', JStr ''party_escalated''), (''reason_text_keccak'', jopt text_hash)] s1) (\<lambda>s2.
     let d2 = d1\<lparr>di_evidence := dict_set ''escalation'' (JObj [(''by'', JStr role), (''reason'', JStr (strip reason)),
       (''at'', JStr (isoformat now))]) (di_evidence d1)\<rparr> in
     commit_order E t1 (escalation_notifications E t1 (tx_status t) role (put_dispute d2 s2))))))"

definition escalate_dispute :: "env \<Rightarrow> uuid \<Rightarrow> user \<Rightarrow> string \<Rightarrow> db \<Rightarrow> db \<times> (exn + transaction)" where
  "escalate_dispute E tid u reason s = atomic s (case get_transaction tid s of
       None \<Rightarrow> Inl (EscalationNotFoundError ''Transaction not found.'')
     | Some t \<Rightarrow> if u_id u \<noteq> tx_buyer t \<and> u_id u \<noteq> tx_seller t
         then Inl (EscalationForbiddenError ''Only the buyer or the seller can escalate this case.'')
       else if tx_status t \<notin> set OPEN_CASE
         then Inl (EscalationInvalidStateError ''Only an open return case can go to Vekro support.'')
       else (case latest_dispute tid s of
           None \<Rightarrow> Inl (EscalationInvalidStateError ''This order has no return case.'')
         | Some d \<Rightarrow> escalate_body E t d u (if u_id u = tx_buyer t then ''buyer'' else ''seller'') reason s))"

section \<open>The admin's decision\<close>

record force_resolve_result =
  fr_dispute :: uuid
  fr_transaction :: uuid
  fr_decision :: admin_decision
  fr_reason :: string
  fr_dispute_status :: dispute_status
  fr_transaction_status :: tx_status
  fr_resolved_at :: time
  fr_released_at :: "time option"
  fr_refunded_at :: "time option"

definition create_admin_decision_notifications ::
    "env \<Rightarrow> transaction \<Rightarrow> dispute \<Rightarrow> admin_decision \<Rightarrow> string \<Rightarrow> tx_status \<Rightarrow> dispute_status \<Rightarrow> db \<Rightarrow> db" where
  "create_admin_decision_notifications E t d decision reason prior_t prior_d s =
     (let payload = [(''decision'', JStr (decision_value decision)), (''reason'', JStr reason), (''dispute_id'', JStr (uuid_str (di_id d))),
         (''transition'', JObj [
           (''transaction'', JObj [(''from'', JStr (status_value prior_t)), (''to'', JStr (status_value (tx_status t)))]),
           (''dispute'', JObj [(''from'', JStr (dispute_status_value prior_d)), (''to'', JStr (dispute_status_value (di_status d)))])])];
       note = (''Admin dispute decision'', ''Dispute was resolved by admin as '' @ decision_value decision @ ''.'', payload) in
     notify_parties E t ADMIN_DECISION note note s)"

text \<open>\<open>(seller_share or Decimal("0.5")).quantize(Decimal("0.0001"))\<close>: a zero share counts as none given.\<close>

definition chosen_share :: "decimal option \<Rightarrow> exn + decimal" where
  "chosen_share share = (case quantize 4 (case share of None \<Rightarrow> Fin 5 (- 1) | Some (Fin c e) \<Rightarrow> if c = 0 then Fin 5 (- 1) else Fin c e | Some d \<Rightarrow> d) of
       None \<Rightarrow> Inl InvalidOperation | Some d \<Rightarrow> Inr d)"

definition split_error :: "exn \<Rightarrow> exn" where
  "split_error e = (case e of SplitPayoutUnsupportedError m \<Rightarrow> DisputeSplitPayoutUnsupportedError m | _ \<Rightarrow> e)"

text \<open>\<open>except ... as exc: raise ... from exc\<close>\<close>

definition map_error :: "('e \<Rightarrow> 'f) \<Rightarrow> 'e + 'a \<Rightarrow> 'f + 'a" where
  "map_error f m = (case m of Inl e \<Rightarrow> Inl (f e) | Inr x \<Rightarrow> Inr x)"

lemma map_error_Inr [simp]: "map_error f m = Inr x \<longleftrightarrow> m = Inr x"
  by (auto simp: map_error_def split: sum.split)

text \<open>The decided order and case with the amounts that go to the seller and to the buyer.\<close>

definition decide ::
    "env \<Rightarrow> service \<Rightarrow> transaction \<Rightarrow> dispute \<Rightarrow> admin_decision \<Rightarrow> decimal option \<Rightarrow> db \<Rightarrow>
      exn + (transaction \<times> dispute \<times> cents option \<times> cents option \<times> db)" where
  "decide E sv t d decision share s = (let now = e_now E; actor_id = sv_actor_id sv in case decision of
       REFUND \<Rightarrow> bindE (transition_transaction E t RESOLVED_REFUND ACTOR_ADMIN actor_id ''admin_decision'' now None s) (\<lambda>(t1, s1).
         bindE (queue_refund_full E sv (t1\<lparr>tx_refunded_at := Some now\<rparr>) (''admin-refund:'' @ uuid_str (di_id d)) s1) (\<lambda>(_, t2, s2).
         Inr (t2, d\<lparr>di_status := D_RESOLVED_REFUND\<rparr>, None, Some (tx_amount t), s2)))
     | RELEASE \<Rightarrow> bindE (transition_transaction E t RESOLVED_RELEASE ACTOR_ADMIN actor_id ''admin_decision'' now None s) (\<lambda>(t1, s1).
         bindE (queue_release_full E sv (t1\<lparr>tx_released_at := Some now\<rparr>) (''admin-release:'' @ uuid_str (di_id d)) s1) (\<lambda>(_, t2, s2).
         Inr (t2, d\<lparr>di_status := D_RESOLVED_RELEASE\<rparr>, Some (tx_amount t), None, s2)))
     | SPLIT \<Rightarrow> bindE (chosen_share share) (\<lambda>split_share.
         bindE (map_error split_error (queue_split_payout E sv t (''admin-split-release:'' @ uuid_str (di_id d))
             (''admin-split-refund:'' @ uuid_str (di_id d)) split_share s)) (\<lambda>(t1, s1).
           bindE (split_amounts (tx_amount t1) split_share) (\<lambda>(release, refund).
             bindE (normalize_ratio split_share) (\<lambda>stored.
             bindE (transition_transaction E t1 RESOLVED_SPLIT ACTOR_ADMIN actor_id ''admin_decision'' now None s1) (\<lambda>(t2, s2).
             Inr (t2\<lparr>tx_released_at := Some now, tx_refunded_at := Some now\<rparr>,
               d\<lparr>di_status := D_RESOLVED_SPLIT, di_split_ratio := Some stored\<rparr>, Some release, Some refund, s2)))))))"

definition force_resolve_body ::
    "env \<Rightarrow> transaction \<Rightarrow> dispute \<Rightarrow> admin_decision \<Rightarrow> string \<Rightarrow> uuid option \<Rightarrow> decimal option \<Rightarrow> db \<Rightarrow> exn + (force_resolve_result \<times> db)" where
  "force_resolve_body E t d decision reason actor_id share s = (let now = e_now E;
       sv = \<lparr>sv_actor_type = ACTOR_ADMIN, sv_actor_id = actor_id, sv_audit_reason = Some reason\<rparr> in
     bindE (decide E sv (t\<lparr>tx_released_at := None, tx_refunded_at := None\<rparr>) (d\<lparr>di_split_ratio := None\<rparr>) decision share s)
     (\<lambda>(t1, d1, release, refund, s1).
     let d2 = d1\<lparr>di_admin_decision := Some decision, di_admin_reason := Some reason, di_decided_by := actor_id, di_resolved_at := Some now\<rparr> in
     bindE (record_admin_decision E d2 (decision_value decision) reason actor_id (di_split_ratio d2) release refund now (put_dispute d2 s1)) (\<lambda>s2.
     bindE (record_money_audit_event E ((new_audit E (''admin_force_resolve_'' @ decision_value decision) ACTOR_ADMIN)
       \<lparr>ma_actor_id := actor_id, ma_reason := Some reason, ma_transaction := Some (tx_id t1), ma_amount := Some (tx_amount t1),
        ma_details := [(''dispute_id'', JStr (uuid_str (di_id d2))), (''split_ratio'', jopt (map_option ratio_str (di_split_ratio d2)))]\<rparr>) s2) (\<lambda>s3.
     bindE (commit_order E t1 (create_admin_decision_notifications E t1 d2 decision reason (tx_status t) (di_status d) s3)) (\<lambda>(t2, s4).
     Inr (\<lparr>fr_dispute = di_id d2, fr_transaction = tx_id t2, fr_decision = decision, fr_reason = reason, fr_dispute_status = di_status d2,
       fr_transaction_status = tx_status t2, fr_resolved_at = now, fr_released_at = tx_released_at t2, fr_refunded_at = tx_refunded_at t2\<rparr>, s4))))))"

definition force_resolve_dispute_case ::
    "env \<Rightarrow> uuid \<Rightarrow> admin_decision \<Rightarrow> string \<Rightarrow> uuid option \<Rightarrow> decimal option \<Rightarrow> db \<Rightarrow> db \<times> (exn + force_resolve_result)" where
  "force_resolve_dispute_case E did decision reason actor_id share s = atomic s (let nr = strip reason in
     if nr = '''' then Inl (DisputeDecisionReasonRequiredError ''Admin reason is required.'')
     else (case get_dispute did s of None \<Rightarrow> Inl (DisputeCaseNotFoundError ''Dispute not found.'')
     | Some d \<Rightarrow> (case get_transaction (di_transaction d) s of
         None \<Rightarrow> Inl (DisputeCaseNotFoundError ''Transaction for dispute not found.'')
       | Some t \<Rightarrow> if di_status d \<noteq> D_ESCALATED_ADMIN_REVIEW
           then Inl (DisputeCaseInvalidStateError ''Dispute must be in escalated_admin_review for admin force resolve.'')
         else if tx_status t \<noteq> ESCALATED_ADMIN_REVIEW
           then Inl (DisputeCaseInvalidStateError ''Transaction must be in escalated_admin_review for admin force resolve.'')
         else force_resolve_body E t d decision nr actor_id share s)))"

section \<open>The queue and the timeline\<close>

record escalation_item =
  eq_dispute :: uuid
  eq_transaction :: uuid
  eq_listing :: uuid
  eq_buyer :: uuid
  eq_seller :: uuid
  eq_type :: dispute_type
  eq_status :: dispute_status
  eq_reason :: string
  eq_description :: string
  eq_opened_at :: time
  eq_escalated_at :: "time option"
  eq_created_at :: time

text \<open>Newest escalation first, cases without one last, then newest case first.\<close>

definition escalation_order :: "dispute \<times> transaction \<Rightarrow> int \<times> int \<times> int" where
  "escalation_order r = (case di_escalated_at (fst r) of Some e \<Rightarrow> (0, - e, - di_created_at (fst r)) | None \<Rightarrow> (1, 0, - di_created_at (fst r)))"

definition list_escalated_disputes :: "db \<Rightarrow> escalation_item list" where
  "list_escalated_disputes s = (let joined = concat (map (\<lambda>d. case get_transaction (di_transaction d) s of None \<Rightarrow> [] | Some t \<Rightarrow> [(d, t)])
       (filter (\<lambda>d. di_status d = D_ESCALATED_ADMIN_REVIEW) (d_disputes s))) in
     map (\<lambda>(d, t). \<lparr>eq_dispute = di_id d, eq_transaction = tx_id t, eq_listing = tx_listing t, eq_buyer = tx_buyer t,
         eq_seller = tx_seller t, eq_type = di_type d, eq_status = di_status d, eq_reason = di_reason d,
         eq_description = di_description d, eq_opened_at = di_opened_at d, eq_escalated_at = di_escalated_at d,
         eq_created_at = di_created_at d\<rparr>) (sort_key escalation_order joined))"

record timeline_event =
  te_source :: string
  te_type :: string
  te_at :: time
  te_title :: string
  te_message :: string
  te_payload :: dict

fun event_type_value :: "event_type \<Rightarrow> string" where
  "event_type_value TRANSACTION_CREATED = ''transaction_created''"
| "event_type_value TRANSACTION_LOCKED = ''transaction_locked''"
| "event_type_value TRANSACTION_DISPATCHED = ''transaction_dispatched''"
| "event_type_value DELIVERY_ARRIVED = ''delivery_arrived''"
| "event_type_value OTP_GIVEN = ''otp_given''"
| "event_type_value OTP_WITHHELD = ''otp_withheld''"
| "event_type_value DISPUTE_OPENED = ''dispute_opened''"
| "event_type_value DISPUTE_UPDATED = ''dispute_updated''"
| "event_type_value ADMIN_DECISION = ''admin_decision''"
| "event_type_value SYSTEM_TIMEOUT = ''system_timeout''"

definition dispute_marks :: "dispute \<Rightarrow> timeline_event list" where
  "dispute_marks d = (let p = [(''dispute_status'', JStr (dispute_status_value (di_status d)))];
       mark = (\<lambda>ty at ti msg. \<lparr>te_source = ''dispute'', te_type = ty, te_at = at, te_title = ti, te_message = msg, te_payload = p\<rparr>) in
     [mark ''dispute_opened'' (di_opened_at d) ''Dispute opened'' ''Dispute case was opened.''] @
     (case di_escalated_at d of None \<Rightarrow> []
       | Some t \<Rightarrow> [mark ''dispute_escalated'' t ''Dispute escalated'' ''Dispute was escalated for admin review.'']) @
     (case di_resolved_at d of None \<Rightarrow> []
       | Some t \<Rightarrow> [mark ''dispute_resolved'' t ''Dispute resolved'' ''Dispute reached a resolved state.'']))"

text \<open>The events of a case's timeline (the header fields repeat the rows).\<close>

definition get_dispute_case_timeline :: "uuid \<Rightarrow> db \<Rightarrow> exn + (dispute \<times> transaction \<times> timeline_event list)" where
  "get_dispute_case_timeline did s = (case get_dispute did s of None \<Rightarrow> Inl (DisputeCaseNotFoundError ''Dispute not found.'')
     | Some d \<Rightarrow> (case get_transaction (di_transaction d) s of
         None \<Rightarrow> Inl (DisputeCaseNotFoundError ''Transaction for dispute not found.'')
       | Some t \<Rightarrow> let notes = sort_key n_created_at (filter (\<lambda>n. n_transaction n = tx_id t) (d_notifications s)) in
           Inr (d, t, sort_key te_at (dispute_marks d @ map (\<lambda>n. \<lparr>te_source = ''notification'', te_type = event_type_value (n_event n),
             te_at = n_created_at n, te_title = n_title n, te_message = n_message n, te_payload = n_payload n\<rparr>) notes))))"

section \<open>What the handlers do\<close>

lemma insert_dispute_calm: "insert_dispute d s = Inr s' \<Longrightarrow> calm s s'"
  by (auto simp: insert_dispute_def split: if_splits intro!: calmI)

lemma record_escalated_calm: "record_escalated E d r s = Inr s' \<Longrightarrow> calm s s'"
  unfolding record_escalated_def by (rule record_dispute_event_calm)

lemma record_on_latest_calm: "record_on_latest E tid ev who s = Inr s' \<Longrightarrow> calm s s'"
  by (auto simp: record_on_latest_def split: option.splits dest: record_dispute_event_calm)

lemma report_body_step:
  assumes "report_body E t buyer cat descr ev s = Inr (r, s')" and "orders_wf s" and "get_transaction tid s = Some t" and "tx_status t = HOLD_24H"
  shows "order_step tid HOLD_24H DISPUTED_FUNCTIONAL s s'"
proof -
  define t1 where "t1 = t\<lparr>tx_status := DISPUTED_FUNCTIONAL\<rparr>"
  from assms(1) obtain d c n r s1 s2 s3 s4 where "calm (s\<lparr>d_draws := Suc (d_draws s)\<rparr>) s1" "insert_dispute d s1 = Inr s2"
    "calm s2 s3" "(if di_status d = D_ESCALATED_ADMIN_REVIEW then record_escalated E d ''other_category'' s3 else Inr s3) = Inr s4"
    and s': "s' = save_transaction (e_now E) t1 (create_dispute_opened_notifications E t1 d n c r s4)"
    unfolding report_body_def Let_def t1_def
    by (auto simp: bindE_eq_Inr simp del: if_split dest!: transition_calm record_dispute_event_calm commit_order_Inr)
  moreover have "calm s (s\<lparr>d_draws := Suc (d_draws s)\<rparr>)" by (rule calmI) simp_all
  ultimately have c4: "calm s s4"
    by (auto split: if_splits dest!: insert_dispute_calm record_escalated_calm) (blast intro: calm_trans)+
  have "order_step tid (tx_status t) (tx_status t1) s s'" unfolding s'
    by (rule commit_calm_step [OF assms(2,3) calm_trans [OF c4 notices_calm(15)]])
      (simp_all add: t1_def same_order_def paying_def assms(4))
  then show ?thesis by (simp add: t1_def assms(4))
qed

interpretation report: order_handler "report_functional_issue E tid buyer cat descr ev" 8 for E tid buyer cat descr ev
proof
  fix s s' r
  assume "orders_wf s" and h: "report_functional_issue E tid buyer cat descr ev s = (s', r)"
  then show "idle s s' \<or> (\<exists>i a b. documented 8 a b \<and> order_step i a b s s')"
    by (intro atomic_steps [OF h [unfolded report_functional_issue_def]])
      (auto split: if_splits option.splits intro: report_body_step documented.intros)
qed

lemma sent_back_body_step:
  assumes "sent_back_body E t buyer s = Inr (r, s')" and "orders_wf s" and "get_transaction tid s = Some t"
    and "tx_status t = DISPUTED_FUNCTIONAL"
  shows "order_step tid DISPUTED_FUNCTIONAL RETURN_IN_TRANSIT s s'"
proof -
  define t1 where "t1 = t\<lparr>tx_status := RETURN_IN_TRANSIT\<rparr>"
  from assms(1) obtain s1 s2 n by_who why where c: "calm s s1" "calm s1 s2"
    and s': "s' = save_transaction (e_now E) t1 (create_dispute_buyer_sent_back_notifications E t1 n by_who why s2)"
    by (auto simp: sent_back_body_def bindE_eq_Inr Let_def t1_def dest!: transition_calm record_on_latest_calm commit_order_Inr)
  have "order_step tid (tx_status t) (tx_status t1) s s'" unfolding s'
    by (rule commit_calm_step [OF assms(2,3) calm_trans [OF calm_trans [OF c] notices_calm(8)]])
      (simp_all add: t1_def same_order_def paying_def assms(4))
  then show ?thesis by (simp add: t1_def assms(4))
qed

interpretation sent_back: order_handler "mark_buyer_sent_back E tid buyer" 9 for E tid buyer
proof
  fix s s' r
  assume "orders_wf s" and h: "mark_buyer_sent_back E tid buyer s = (s', r)"
  then show "idle s s' \<or> (\<exists>i a b. documented 9 a b \<and> order_step i a b s s')"
    by (intro atomic_steps [OF h [unfolded mark_buyer_sent_back_def]])
      (auto split: if_splits option.splits intro: sent_back_body_step documented.intros)
qed

lemma received_body_step:
  assumes "received_body E t seller s = Inr (r, s')" and "orders_wf s" and "get_transaction tid s = Some t"
    and "tx_status t = RETURN_IN_TRANSIT"
  shows "order_step tid RETURN_IN_TRANSIT RETURN_RECEIVED s s'"
proof -
  define t1 where "t1 = t\<lparr>tx_status := RETURN_RECEIVED\<rparr>"
  from assms(1) obtain s1 s2 n where c: "calm s s1" "calm s1 s2"
    and s': "s' = save_transaction (e_now E) t1 (create_seller_received_notifications E t1 n s2)"
    by (auto simp: received_body_def bindE_eq_Inr Let_def t1_def dest!: transition_calm record_on_latest_calm commit_order_Inr)
  have "order_step tid (tx_status t) (tx_status t1) s s'" unfolding s'
    by (rule commit_calm_step [OF assms(2,3) calm_trans [OF calm_trans [OF c] notices_calm(10)]])
      (simp_all add: t1_def same_order_def paying_def assms(4))
  then show ?thesis by (simp add: t1_def assms(4))
qed

interpretation received: order_handler "mark_seller_received E tid seller" 10 for E tid seller
proof
  fix s s' r
  assume "orders_wf s" and h: "mark_seller_received E tid seller s = (s', r)"
  then show "idle s s' \<or> (\<exists>i a b. documented 10 a b \<and> order_step i a b s s')"
    by (intro atomic_steps [OF h [unfolded mark_seller_received_def]])
      (auto split: if_splits option.splits intro: received_body_step documented.intros)
qed

text \<open>A case updated and its event recorded.\<close>

lemma put_and_record_calm: "record_dispute_event E d ev ty a at f (put_dispute d s) = Inr s' \<Longrightarrow> calm s s'"
  using put_dispute_calm record_dispute_event_calm calm_trans by blast

lemma record_seller_resolution_calm: "record_seller_resolution E tid u a nt s = Inr s' \<Longrightarrow> calm s s'"
  by (auto simp: record_seller_resolution_def bindE_eq_Inr Let_def simp del: if_split split: option.splits dest!: put_and_record_calm)

lemma record_reconfirmation_calm:
  assumes "record_reconfirmation E u ac nt d s = Inr s'"
  shows "calm s s'"
proof (cases d)
  case (Some d')
  with assms obtain s1 where "calm s s1"
    "(if di_status d' = D_ESCALATED_ADMIN_REVIEW then record_escalated E d' ''reconfirm_retry_limit'' s1 else Inr s1) = Inr s'"
    by (auto simp: record_reconfirmation_def bindE_eq_Inr simp del: if_split dest!: put_and_record_calm)
  then show ?thesis by (auto split: if_splits dest: record_escalated_calm calm_trans)
qed (use assms in \<open>simp add: record_reconfirmation_def\<close>)

lemma resolution_body_step:
  assumes "resolution_body E t seller a nt s = Inr (r, s')" and "orders_wf s" and "get_transaction tid s = Some t"
    and "tx_status t = RETURN_RECEIVED"
  shows "order_step tid RETURN_RECEIVED (if a = REFUND_ISSUED then REFUNDED_BUYER else AWAITING_BUYER_RECONFIRMATION) s s'"
proof -
  from assms(1) obtain t2 s2 s3 n where
    m: "(if a = REFUND_ISSUED
       then bindE (transition_transaction E t REFUNDED_BUYER ACTOR_USER (Some (u_id seller)) (''seller_resolution_'' @ seller_action_value a) (e_now E) None s) (\<lambda>(t1, s1).
         bindE (queue_refund_full E system_service (t1\<lparr>tx_refunded_at := Some (e_now E)\<rparr>) (''seller-refund:'' @ uuid_str (tx_id t)) s1)
           (\<lambda>(_, t2, s2). Inr (t2, s2)))
       else transition_transaction E t AWAITING_BUYER_RECONFIRMATION ACTOR_USER (Some (u_id seller)) (''seller_resolution_'' @ seller_action_value a) (e_now E) None s) = Inr (t2, s2)"
    and c: "calm s2 s3" and s': "s' = save_transaction (e_now E) t2 (create_seller_resolution_notifications E t2 n a s3)"
    unfolding resolution_body_def Let_def
    by (auto simp: bindE_eq_Inr simp del: if_split dest!: record_seller_resolution_calm commit_order_Inr)
  show ?thesis
  proof (cases "a = REFUND_ISSUED")
    case True
    define t1 where "t1 = t\<lparr>tx_status := REFUNDED_BUYER, tx_refunded_at := Some (e_now E)\<rparr>"
    from m True obtain s1 x where c1: "calm s s1"
      and q: "queue_refund_full E system_service t1 (''seller-refund:'' @ uuid_str (tx_id t)) s1 = Inr (x, t2, s2)"
      by (auto simp: bindE_eq_Inr t1_def dest!: transition_calm)
    have st: "settles t1 t2 s1 s2" by (rule refund_settles [OF q calm_wf [OF c1 assms(2)]])
    have t2: "tx_status t2 = REFUNDED_BUYER" using settles_same_order [OF st] by (simp add: t1_def)
    have "order_step tid (tx_status t) (tx_status t2) s s'" unfolding s'
      by (rule commit_settled_step [OF assms(2,3) c1 st calm_trans [OF c notices_calm(12)]])
        (simp_all add: t1_def t2 same_order_def paying_def assms(4))
    then show ?thesis using True t2 by (simp add: assms(4))
  next
    case False
    with m have c1: "calm s s2" and t2: "t2 = t\<lparr>tx_status := AWAITING_BUYER_RECONFIRMATION\<rparr>" by (auto dest!: transition_calm)
    have "order_step tid (tx_status t) (tx_status t2) s s'" unfolding s'
      by (rule commit_calm_step [OF assms(2,3) calm_trans [OF calm_trans [OF c1 c] notices_calm(12)]])
        (simp_all add: t2 same_order_def paying_def assms(4))
    then show ?thesis using False by (simp add: t2 assms(4))
  qed
qed

interpretation resolution: order_handler "apply_seller_resolution_action E tid seller action nt" 11 for E tid seller action nt
proof
  fix s s' r
  assume wf: "orders_wf s" and h: "apply_seller_resolution_action E tid seller action nt s = (s', r)"
  have "documented 11 RETURN_RECEIVED (if a = REFUND_ISSUED then REFUNDED_BUYER else AWAITING_BUYER_RECONFIRMATION)" for a
    by (simp add: documented.T11)
  with wf show "idle s s' \<or> (\<exists>i a b. documented 11 a b \<and> order_step i a b s s')"
    by (intro atomic_steps [OF h [unfolded apply_seller_resolution_action_def]])
      (auto simp: bindE_eq_Inr split: if_splits option.splits dest!: resolution_body_step)
qed

definition reconfirm_target :: "bool \<Rightarrow> dispute option \<Rightarrow> tx_status" where
  "reconfirm_target accepted d = (if accepted then RESOLVED_RELEASE
     else if json_int (get_reconfirm_rejection_count d) < BUYER_RECONFIRMATION_RETRY_LIMIT then RETURN_RECEIVED
     else ESCALATED_ADMIN_REVIEW)"

lemma reconfirmation_body_step:
  assumes "reconfirmation_body E t buyer accepted nt s = Inr (r, s')" and "orders_wf s" and "get_transaction tid s = Some t"
    and "tx_status t = AWAITING_BUYER_RECONFIRMATION"
  shows "order_step tid AWAITING_BUYER_RECONFIRMATION (reconfirm_target accepted (latest_dispute (tx_id t) s)) s s'"
proof -
  let ?d = "latest_dispute (tx_id t) s"
  from assms(1) obtain t1 d1 s1 s2 n p where o: "reconfirmation_outcome E t buyer accepted ?d s = Inr (t1, d1, s1)"
    and c: "calm s1 s2" and s': "s' = save_transaction (e_now E) t1 (create_buyer_reconfirmation_notifications E t1 n accepted p s2)"
    by (auto simp: reconfirmation_body_def bindE_eq_Inr Let_def dest!: record_reconfirmation_calm commit_order_Inr)
  show ?thesis
  proof (cases accepted)
    case True
    define t0 where "t0 = t\<lparr>tx_status := RESOLVED_RELEASE, tx_released_at := Some (e_now E)\<rparr>"
    from o True obtain s0 x where c1: "calm s s0"
      and q: "queue_release_full E system_service t0 (''reconfirm-release:'' @ uuid_str (tx_id t)) s0 = Inr (x, t1, s1)"
      by (auto simp: reconfirmation_outcome_def bindE_eq_Inr Let_def t0_def dest!: transition_calm)
    have st: "settles t0 t1 s0 s1" by (rule release_settles [OF q calm_wf [OF c1 assms(2)]])
    have t1: "tx_status t1 = RESOLVED_RELEASE" using settles_same_order [OF st] by (simp add: t0_def)
    have "order_step tid (tx_status t) (tx_status t1) s s'" unfolding s'
      by (rule commit_settled_step [OF assms(2,3) c1 st calm_trans [OF c notices_calm(13)]])
        (simp_all add: t0_def t1 same_order_def paying_def assms(4))
    then show ?thesis using True t1 by (simp add: assms(4) reconfirm_target_def)
  next
    case False
    with o have c1: "calm s s1" and t1: "t1 = t\<lparr>tx_status := reconfirm_target accepted ?d\<rparr>"
      by (auto simp: reconfirmation_outcome_def reconfirm_target_def bindE_eq_Inr Let_def dest!: transition_calm split: if_splits)
    have "order_step tid (tx_status t) (tx_status t1) s s'" unfolding s'
      by (rule commit_calm_step [OF assms(2,3) calm_trans [OF calm_trans [OF c1 c] notices_calm(13)]])
        (simp_all add: t1 same_order_def paying_def reconfirm_target_def assms(4) False)
    then show ?thesis by (simp add: t1 assms(4))
  qed
qed

interpretation reconfirmation: order_handler "submit_buyer_reconfirmation E tid buyer accepted nt" 12 for E tid buyer accepted nt
proof
  fix s s' r
  assume wf: "orders_wf s" and h: "submit_buyer_reconfirmation E tid buyer accepted nt s = (s', r)"
  have "documented 12 AWAITING_BUYER_RECONFIRMATION (reconfirm_target accepted d)" for d
    by (simp add: documented.T12 reconfirm_target_def)
  with wf show "idle s s' \<or> (\<exists>i a b. documented 12 a b \<and> order_step i a b s s')"
    by (intro atomic_steps [OF h [unfolded submit_buyer_reconfirmation_def]])
      (auto split: if_splits option.splits dest!: reconfirmation_body_step)
qed

text \<open>The closing confirmations change the case only.\<close>

lemma confirmation_body_idle:
  assumes "confirmation_body E t who party mine theirs s = Inr (r, s')" and "get_transaction (tx_id t) s = Some t"
  shows "idle s s'"
proof -
  from assms(1) obtain d where d: "latest_dispute (tx_id t) s = Some d" by (auto simp: confirmation_body_def split: option.splits)
  from assms(1) d obtain s1 n b b' c where c: "calm s s1"
    and s': "s' = save_transaction (e_now E) t (create_mutual_confirmation_notifications E t n party b b' c s1)"
    by (auto simp: confirmation_body_def bindE_eq_Inr Let_def simp del: if_split dest!: put_and_record_calm commit_order_Inr)
  let ?s = "create_mutual_confirmation_notifications E t n party b b' c s1"
  have cs: "calm s ?s" by (rule calm_trans [OF c notices_calm(14)])
  then have "get_transaction (tx_id t) ?s = Some t" using assms(2) calm_get(1) [OF cs] by simp
  then have "s' = ?s" using s' by (simp add: save_transaction_def)
  then show ?thesis using calm_idle [OF cs] by simp
qed

interpretation buyer_confirmation: order_handler "submit_buyer_resolution_confirmation E tid buyer" 0 for E tid buyer
proof
  fix s s' r
  assume h: "submit_buyer_resolution_confirmation E tid buyer s = (s', r)"
  have "idle s s' \<or> idle s s'"
    by (rule atomic_steps [OF h [unfolded submit_buyer_resolution_confirmation_def]])
      (auto split: if_splits option.splits dest: transactions.get_key intro: confirmation_body_idle)
  then show "idle s s' \<or> (\<exists>i a b. documented 0 a b \<and> order_step i a b s s')" by simp
qed

interpretation seller_confirmation: order_handler "submit_seller_resolution_confirmation E tid seller" 0 for E tid seller
proof
  fix s s' r
  assume h: "submit_seller_resolution_confirmation E tid seller s = (s', r)"
  have "idle s s' \<or> idle s s'"
    by (rule atomic_steps [OF h [unfolded submit_seller_resolution_confirmation_def]])
      (auto split: if_splits option.splits dest: transactions.get_key intro: confirmation_body_idle)
  then show "idle s s' \<or> (\<exists>i a b. documented 0 a b \<and> order_step i a b s s')" by simp
qed

lemma escalation_notifications_calm: "calm s (escalation_notifications E t b role s)"
  unfolding escalation_notifications_def Let_def by (rule notify_parties_calm)

lemma admin_notifications_calm: "calm s (create_admin_decision_notifications E t d dec r a b s)"
  unfolding create_admin_decision_notifications_def Let_def by (rule notify_parties_calm)

lemma escalate_body_step:
  assumes "escalate_body E t d u role reason s = Inr (r, s')" and "orders_wf s" and "get_transaction tid s = Some t"
    and "tx_status t \<in> set OPEN_CASE"
  shows "order_step tid (tx_status t) ESCALATED_ADMIN_REVIEW s s'"
proof -
  define t1 where "t1 = t\<lparr>tx_status := ESCALATED_ADMIN_REVIEW\<rparr>"
  from assms(1) obtain s1 s2 d2 b where c: "calm s s1" "calm s1 s2"
    and s': "s' = save_transaction (e_now E) t1 (escalation_notifications E t1 b role (put_dispute d2 s2))"
    by (auto simp: escalate_body_def bindE_eq_Inr Let_def t1_def dest!: transition_calm record_dispute_event_calm commit_order_Inr)
  have "order_step tid (tx_status t) (tx_status t1) s s'" unfolding s'
    by (rule commit_calm_step [OF assms(2,3) calm_trans [OF calm_trans [OF calm_trans [OF c] put_dispute_calm] escalation_notifications_calm]])
      (use assms(4) in \<open>auto simp: t1_def same_order_def paying_def OPEN_CASE_def\<close>)
  then show ?thesis by (simp add: t1_def)
qed

interpretation escalation: order_handler "escalate_dispute E tid u reason" 13 for E tid u reason
proof
  fix s s' r
  assume wf: "orders_wf s" and h: "escalate_dispute E tid u reason s = (s', r)"
  have "documented 13 a ESCALATED_ADMIN_REVIEW" if "a \<in> set OPEN_CASE" for a
    using that by (intro documented.T13) (simp add: OPEN_CASE_def)
  with wf show "idle s s' \<or> (\<exists>i a b. documented 13 a b \<and> order_step i a b s s')"
    by (intro atomic_steps [OF h [unfolded escalate_dispute_def]])
      (auto split: if_splits option.splits dest!: escalate_body_step)
qed

section \<open>The admin's decision settles the order\<close>

lemma length_hex_digits [simp]: "length (hex_digits k n) = k"
  by (induction k n rule: hex_digits.induct) simp_all

lemma hex_digit_not_space: "n < 16 \<Longrightarrow> \<not> py_isspace (hex_digit n)"
  by (auto simp: py_isspace_def hex_digit_def Let_def of_char_of take_bit_eq_mod)

lemma uuid_str_end: "uuid_str u \<noteq> '''' \<and> \<not> py_isspace (last (uuid_str u))"
proof -
  have "(32 :: nat) = Suc 31" by simp
  then have "last (hex_digits 32 u) = hex_digit (u mod 16)" by (simp only: hex_digits.simps last_snoc)
  moreover have "uuid_str u = (take 8 (hex_digits 32 u) @ ''-'' @ take 4 (drop 8 (hex_digits 32 u)) @ ''-'' @
     take 4 (drop 12 (hex_digits 32 u)) @ ''-'' @ take 4 (drop 16 (hex_digits 32 u)) @ ''-'') @ drop 20 (hex_digits 32 u)"
    by (simp add: uuid_str_def Let_def)
  moreover have "drop 20 (hex_digits 32 u) \<noteq> []" by simp
  ultimately have "last (uuid_str u) = hex_digit (u mod 16)" by (metis last_appendR last_drop drop_eq_Nil not_le)
  then show ?thesis using hex_digit_not_space by (auto simp: uuid_str_def Let_def)
qed

lemma purpose_strip: "\<not> py_isspace c \<Longrightarrow> strip (c # p @ uuid_str u) = c # p @ uuid_str u"
  using uuid_str_end [of u] by (intro strip_id) auto

interpretation split_queue: payout_queue
  "\<lambda>t. queue_split_payout E sv t (''admin-split-release:'' @ uuid_str i) (''admin-split-refund:'' @ uuid_str i) share" for E sv i share
proof
  fix s t t' s'
  assume "outbox_wf s" "small_amount t"
    and "queue_split_payout E sv t (''admin-split-release:'' @ uuid_str i) (''admin-split-refund:'' @ uuid_str i) share s = Inr (t', s')"
  moreover have "strip (''admin-split-release:'' @ uuid_str i) \<noteq> strip (''admin-split-refund:'' @ uuid_str i)"
    using purpose_strip [of "CHR ''a''" "''dmin-split-release:''" i] purpose_strip [of "CHR ''a''" "''dmin-split-refund:''" i]
    by (simp add: py_isspace_def)
  ultimately show "settles t t' s s'" by (blast intro: queue_split_settles)
qed

fun decided_status :: "admin_decision \<Rightarrow> tx_status" where
  "decided_status REFUND = RESOLVED_REFUND"
| "decided_status RELEASE = RESOLVED_RELEASE"
| "decided_status SPLIT = RESOLVED_SPLIT"

lemma decided_paying: "paying (decided_status d)"
  by (cases d) (simp_all add: paying_def)

lemma decide_settles:
  assumes "decide E sv t d dec share s = Inr (t', d', rel, ref, s')" and "outbox_wf s" and "small_amount t"
  shows "\<exists>s1 t1 t2 s2. calm s s1 \<and> settles t1 t2 s1 s2 \<and> calm s2 s' \<and> same_order t t1 \<and> same_order t2 t' \<and> tx_status t' = decided_status dec"
proof (cases dec)
  case REFUND
  define t1 where "t1 = t\<lparr>tx_status := RESOLVED_REFUND, tx_refunded_at := Some (e_now E)\<rparr>"
  from assms(1) REFUND obtain s1 x where c: "calm s s1"
    and q: "queue_refund_full E sv t1 (''admin-refund:'' @ uuid_str (di_id d)) s1 = Inr (x, t', s')"
    by (auto simp: decide_def bindE_eq_Inr Let_def t1_def dest!: transition_calm)
  have st: "settles t1 t' s1 s'" by (rule refund_settles [OF q]) (use c assms(2) in \<open>simp add: calm_def\<close>)
  show ?thesis using REFUND c st settles_same_order [OF st]
    by (intro exI [of _ s1] exI [of _ t1] exI [of _ t'] exI [of _ s']) (auto simp: t1_def same_order_def)
next
  case RELEASE
  define t1 where "t1 = t\<lparr>tx_status := RESOLVED_RELEASE, tx_released_at := Some (e_now E)\<rparr>"
  from assms(1) RELEASE obtain s1 x where c: "calm s s1"
    and q: "queue_release_full E sv t1 (''admin-release:'' @ uuid_str (di_id d)) s1 = Inr (x, t', s')"
    by (auto simp: decide_def bindE_eq_Inr Let_def t1_def dest!: transition_calm)
  have st: "settles t1 t' s1 s'" by (rule release_settles [OF q]) (use c assms(2) in \<open>simp add: calm_def\<close>)
  show ?thesis using RELEASE c st settles_same_order [OF st]
    by (intro exI [of _ s1] exI [of _ t1] exI [of _ t'] exI [of _ s']) (auto simp: t1_def same_order_def)
next
  case SPLIT
  with assms(1) obtain sh t2 s2 t3 where
    q: "queue_split_payout E sv t (''admin-split-release:'' @ uuid_str (di_id d)) (''admin-split-refund:'' @ uuid_str (di_id d)) sh s = Inr (t2, s2)"
    and c: "calm s2 s'" and t': "t' = t2\<lparr>tx_status := RESOLVED_SPLIT, tx_released_at := Some (e_now E), tx_refunded_at := Some (e_now E)\<rparr>"
    by (auto simp: decide_def bindE_eq_Inr Let_def dest!: transition_calm)
  have st: "settles t t2 s s2" by (rule split_queue.queue_settles [OF assms(2,3) q])
  show ?thesis using SPLIT c st t'
    by (intro exI [of _ s] exI [of _ t] exI [of _ t2] exI [of _ s2]) (auto simp: same_order_def)
qed

lemma force_resolve_body_step:
  assumes "force_resolve_body E t d dec reason a share s = Inr (r, s')" and "orders_wf s" and "get_transaction tid s = Some t"
    and "tx_status t = ESCALATED_ADMIN_REVIEW"
  shows "order_step tid ESCALATED_ADMIN_REVIEW (decided_status dec) s s'"
proof -
  define t0 where "t0 = t\<lparr>tx_released_at := None, tx_refunded_at := None\<rparr>"
  from assms(1) obtain sv d0 t1 d1 rel ref s1 d2 s2 s3 x y z p q where dc: "decide E sv t0 d0 dec share s = Inr (t1, d1, rel, ref, s1)"
    and lg: "logs_only (put_dispute d2 s1) s2" and au: "calm s2 s3"
    and s': "s' = save_transaction (e_now E) t1 (create_admin_decision_notifications E t1 x dec y z p s3)"
    by (auto simp: force_resolve_body_def bindE_eq_Inr Let_def t0_def dest!: record_audit_calm commit_order_Inr dest: log_steps)
  have small: "small_amount t0" using assms(2,3)
    by (auto simp: orders_wf_def get_transaction_def t0_def small_amount_def dest: row_get_SomeD)
  have "outbox_wf s" using assms(2) by (simp add: orders_wf_def)
  from decide_settles [OF dc this small] obtain sa ta tb sb where c: "calm s sa" and st: "settles ta tb sa sb" and c1: "calm sb s1"
    and so: "same_order t0 ta" "same_order tb t1" and st1: "tx_status t1 = decided_status dec" by blast
  have "calm s1 s2" using put_dispute_calm logs_only_calm [OF lg] by (rule calm_trans)
  with c1 au have "calm sb s3" by (blast intro: calm_trans)
  then have c2: "calm sb (create_admin_decision_notifications E t1 x dec y z p s3)" using admin_notifications_calm by (rule calm_trans)
  have "order_step tid (tx_status t) (tx_status t1) s s'" unfolding s'
    by (rule commit_settled_step [OF assms(2,3) c st c2])
      (use so decided_paying [of dec] st1 assms(4) in \<open>auto simp: t0_def same_order_def paying_def\<close>)
  then show ?thesis by (simp add: st1 assms(4))
qed

interpretation force_resolve: order_handler "force_resolve_dispute_case E did dec reason a share" 14 for E did dec reason a share
proof
  fix s s' r
  assume wf: "orders_wf s" and h: "force_resolve_dispute_case E did dec reason a share s = (s', r)"
  have "documented 14 ESCALATED_ADMIN_REVIEW (decided_status dec)" by (cases dec) (simp_all add: documented.T14)
  with wf show "idle s s' \<or> (\<exists>i a b. documented 14 a b \<and> order_step i a b s s')"
    by (intro atomic_steps [OF h [unfolded force_resolve_dispute_case_def Let_def]])
      (auto split: if_splits option.splits dest!: force_resolve_body_step)
qed

end
