(* ===== verification/Timeouts.thy ===== *)
theory Timeouts
  imports Disputes
begin

text \<open>
  The deadlines of the order states (app/services/deadlines.py) and the sweep that acts on them
  (\<open>run_timeout_jobs\<close> of app/services/transaction.py): five rules, each a query for the due orders
  and a loop over them, committed together.
\<close>

section \<open>Deadlines\<close>

definition AT_DOOR_INSPECTION_WINDOW :: time where "AT_DOOR_INSPECTION_WINDOW = hours 1"
definition NO_DISPATCH_WINDOW :: time where "NO_DISPATCH_WINDOW = hours 48"
definition HOLD_WINDOW :: time where "HOLD_WINDOW = hours 24"
definition RETURN_SEND_WINDOW :: time where "RETURN_SEND_WINDOW = days 3"
definition RETURN_RECEIPT_WINDOW :: time where "RETURN_RECEIPT_WINDOW = days 3"

record transaction_deadlines =
  dl_dispatch_by :: "time option"
  dl_inspect_by :: "time option"
  dl_hold_until :: "time option"
  dl_return_send_by :: "time option"
  dl_return_confirm_by :: "time option"

definition no_deadlines :: transaction_deadlines where
  "no_deadlines = \<lparr>dl_dispatch_by = None, dl_inspect_by = None, dl_hold_until = None, dl_return_send_by = None,
     dl_return_confirm_by = None\<rparr>"

definition after :: "time option \<Rightarrow> time \<Rightarrow> time option" where
  "after start window = map_option (\<lambda>t. t + window) start"

definition deadlines_for :: "transaction \<Rightarrow> transaction_deadlines" where
  "deadlines_for t = (case tx_status t of
       LOCKED \<Rightarrow> no_deadlines\<lparr>dl_dispatch_by := after (tx_locked_at t) NO_DISPATCH_WINDOW\<rparr>
     | AT_DOOR_PENDING_INSPECTION \<Rightarrow> no_deadlines\<lparr>dl_inspect_by := after (tx_at_door_at t) AT_DOOR_INSPECTION_WINDOW\<rparr>
     | HOLD_24H \<Rightarrow> no_deadlines\<lparr>dl_hold_until := after (tx_hold_started_at t) HOLD_WINDOW\<rparr>
     | DISPUTED_FUNCTIONAL \<Rightarrow> no_deadlines\<lparr>dl_return_send_by := after (Some (tx_updated_at t)) RETURN_SEND_WINDOW\<rparr>
     | RETURN_IN_TRANSIT \<Rightarrow> no_deadlines\<lparr>dl_return_confirm_by := after (Some (tx_updated_at t)) RETURN_RECEIPT_WINDOW\<rparr>
     | _ \<Rightarrow> no_deadlines)"

section \<open>The due orders\<close>

definition since :: "time option \<Rightarrow> time \<Rightarrow> bool" where
  "since start cutoff = (case start of None \<Rightarrow> False | Some t \<Rightarrow> t \<le> cutoff)"

definition get_due_at_door_timeout_transactions :: "time \<Rightarrow> db \<Rightarrow> transaction list" where
  "get_due_at_door_timeout_transactions cutoff s =
     filter (\<lambda>t. tx_status t = AT_DOOR_PENDING_INSPECTION \<and> since (tx_at_door_at t) cutoff) (d_transactions s)"

definition get_due_locked_timeout_transactions :: "time \<Rightarrow> db \<Rightarrow> transaction list" where
  "get_due_locked_timeout_transactions cutoff s =
     filter (\<lambda>t. tx_status t = LOCKED \<and> since (tx_locked_at t) cutoff) (d_transactions s)"

definition get_due_hold_auto_release_transactions :: "time \<Rightarrow> db \<Rightarrow> transaction list" where
  "get_due_hold_auto_release_transactions cutoff s =
     filter (\<lambda>t. tx_status t = HOLD_24H \<and> since (tx_hold_started_at t) cutoff) (d_transactions s)"

definition get_due_dispute_buyer_sent_back_timeout_transactions :: "time \<Rightarrow> db \<Rightarrow> transaction list" where
  "get_due_dispute_buyer_sent_back_timeout_transactions cutoff s =
     filter (\<lambda>t. tx_status t = DISPUTED_FUNCTIONAL \<and> tx_updated_at t \<le> cutoff) (d_transactions s)"

definition get_due_seller_received_timeout_transactions :: "time \<Rightarrow> db \<Rightarrow> transaction list" where
  "get_due_seller_received_timeout_transactions cutoff s =
     filter (\<lambda>t. tx_status t = RETURN_IN_TRANSIT \<and> tx_updated_at t \<le> cutoff) (d_transactions s)"

section \<open>The five rules\<close>

definition at_door_timeout :: "env \<Rightarrow> time \<Rightarrow> transaction \<Rightarrow> db \<Rightarrow> exn + db" where
  "at_door_timeout E now t s = (let reason = ''at_door_timeout_1h'' in
     bindE (apply_withheld_return_refund_flow E t now ''system'' reason None s) (\<lambda>(t1, s1).
     bindE (queue_refund_full E system_service t1 (''timeout-at-door-refund:'' @ uuid_str (tx_id t)) s1) (\<lambda>(_, t2, s2).
     Inr (save_transaction (e_now E) t2 (create_timeout_notifications E t2 (withheld_history now ''system'' reason) reason s2)))))"

definition locked_timeout :: "env \<Rightarrow> time \<Rightarrow> transaction \<Rightarrow> db \<Rightarrow> exn + db" where
  "locked_timeout E now t s = (let reason = ''locked_no_dispatch_timeout_48h''; history = [history_entry LOCKED REFUNDED_BUYER now ''system'' reason] in
     bindE (transition_transaction E t REFUNDED_BUYER ACTOR_SYSTEM None reason now None s) (\<lambda>(t1, s1).
     let t2 = t1\<lparr>tx_refunded_at := Some now, tx_delivery_otp_hash := None, tx_otp_failed_attempts := 0\<rparr> in
     bindE (queue_refund_full E system_service t2 (''timeout-refund:'' @ uuid_str (tx_id t)) s1) (\<lambda>(_, t3, s2).
     Inr (save_transaction (e_now E) t3 (create_timeout_notifications E t3 history reason s2)))))"

definition hold_timeout :: "env \<Rightarrow> time \<Rightarrow> transaction \<Rightarrow> db \<Rightarrow> exn + db" where
  "hold_timeout E now t s = (let reason = ''hold_24h_auto_release_24h''; history = [history_entry HOLD_24H RELEASED now ''system'' reason] in
     bindE (transition_transaction E t RELEASED ACTOR_SYSTEM None reason now None s) (\<lambda>(t1, s1).
     let t2 = t1\<lparr>tx_released_at := Some now, tx_delivery_otp_hash := None, tx_otp_failed_attempts := 0\<rparr> in
     bindE (queue_release_full E system_service t2 (''hold-release:'' @ uuid_str (tx_id t)) s1) (\<lambda>(_, t3, s2).
     Inr (save_transaction (e_now E) t3 (create_timeout_notifications E t3 history reason s2)))))"

definition close_unsent_case :: "env \<Rightarrow> time \<Rightarrow> uuid \<Rightarrow> db \<Rightarrow> exn + db" where
  "close_unsent_case E now tid s = (case latest_dispute tid s of None \<Rightarrow> Inr s
     | Some d \<Rightarrow> if di_status d \<notin> set OPEN_DISPUTE_STATUSES then Inr s
       else let d1 = d\<lparr>di_status := D_CANCELED, di_resolved_at := Some now\<rparr> in
         record_dispute_event E d1 ''dispute_auto_closed'' ACTOR_SYSTEM None now
           [(''reason'', JStr ''dispute_buyer_sent_back_timeout_3d'')] (put_dispute d1 s))"

definition unsent_timeout :: "env \<Rightarrow> time \<Rightarrow> transaction \<Rightarrow> db \<Rightarrow> exn + db" where
  "unsent_timeout E now t s =
     bindE (transition_transaction E t RELEASED ACTOR_SYSTEM None ''dispute_buyer_sent_back_timeout_3d'' now None s) (\<lambda>(t1, s1).
     bindE (close_unsent_case E now (tx_id t) s1) (\<lambda>s2.
     bindE (queue_release_full E system_service (t1\<lparr>tx_released_at := Some now\<rparr>) (''dispute-timeout-release:'' @ uuid_str (tx_id t)) s2) (\<lambda>(_, t2, s3).
     Inr (save_transaction (e_now E) t2 (create_dispute_auto_cancel_notifications E t2 now s3)))))"

definition escalate_unreceived_case :: "env \<Rightarrow> time \<Rightarrow> uuid \<Rightarrow> db \<Rightarrow> exn + db" where
  "escalate_unreceived_case E now tid s = (case latest_dispute tid s of None \<Rightarrow> Inr s
     | Some d \<Rightarrow> if di_status d \<notin> set OPEN_DISPUTE_STATUSES then Inr s
       else let d1 = d\<lparr>di_status := D_ESCALATED_ADMIN_REVIEW, di_escalated_at := Some now\<rparr> in
         record_dispute_event E d1 ''dispute_escalated'' ACTOR_SYSTEM None now
           [(''by'', JStr ''system''), (''reason'', JStr ''seller_received_timeout_3d''), (''reason_text_keccak'', JNull)] (put_dispute d1 s))"

definition unreceived_timeout :: "env \<Rightarrow> time \<Rightarrow> transaction \<Rightarrow> db \<Rightarrow> exn + db" where
  "unreceived_timeout E now t s =
     bindE (transition_transaction E t ESCALATED_ADMIN_REVIEW ACTOR_SYSTEM None ''seller_received_timeout_3d'' now None s) (\<lambda>(t1, s1).
     bindE (escalate_unreceived_case E now (tx_id t) s1) (\<lambda>s2.
     Inr (save_transaction (e_now E) t1 (create_seller_received_timeout_notifications E t1 now s2))))"

record timeout_sweep_result =
  sw_at_door_timeout_count :: nat
  sw_no_dispatch_timeout_count :: nat
  sw_hold_auto_release_count :: nat
  sw_dispute_buyer_sent_back_timeout_count :: nat
  sw_dispute_seller_received_timeout_count :: nat

definition run_timeout_jobs :: "env \<Rightarrow> time option \<Rightarrow> db \<Rightarrow> db \<times> (exn + timeout_sweep_result)" where
  "run_timeout_jobs E now_arg s = (let now = (case now_arg of None \<Rightarrow> e_now E | Some n \<Rightarrow> n);
       at_door_due = get_due_at_door_timeout_transactions (now - AT_DOOR_INSPECTION_WINDOW) s;
       locked_due = get_due_locked_timeout_transactions (now - NO_DISPATCH_WINDOW) s;
       hold_due = get_due_hold_auto_release_transactions (now - HOLD_WINDOW) s;
       dispute_due = get_due_dispute_buyer_sent_back_timeout_transactions (now - RETURN_SEND_WINDOW) s;
       received_due = get_due_seller_received_timeout_transactions (now - RETURN_RECEIPT_WINDOW) s in
     atomic s (
       bindE (foldE (at_door_timeout E now) at_door_due s) (\<lambda>s1.
       bindE (foldE (locked_timeout E now) locked_due s1) (\<lambda>s2.
       bindE (foldE (hold_timeout E now) hold_due s2) (\<lambda>s3.
       bindE (foldE (unsent_timeout E now) dispute_due s3) (\<lambda>s4.
       bindE (foldE (unreceived_timeout E now) received_due s4) (\<lambda>s5.
       Inr (\<lparr>sw_at_door_timeout_count = length at_door_due, sw_no_dispatch_timeout_count = length locked_due,
         sw_hold_auto_release_count = length hold_due, sw_dispute_buyer_sent_back_timeout_count = length dispute_due,
         sw_dispute_seller_received_timeout_count = length received_due\<rparr>, s5))))))))"

section \<open>The interface of a rule\<close>

text \<open>
  What a loop over due orders leaves: the listed orders have the rule's target status, every other
  order is untouched.
\<close>

definition swept :: "uuid set \<Rightarrow> tx_status \<Rightarrow> db \<Rightarrow> db \<Rightarrow> bool" where
  "swept I b s s' = (orders_wf s' \<and> map tx_id (d_transactions s') = map tx_id (d_transactions s) \<and> d_tables s' = d_tables s \<and>
     (money_owed s \<longrightarrow> money_owed s') \<and>
     (\<forall>i. i \<notin> I \<longrightarrow> get_transaction i s' = get_transaction i s) \<and>
     (\<forall>i \<in> I. \<exists>t t'. get_transaction i s = Some t \<and> get_transaction i s' = Some t' \<and> same_order t t' \<and> tx_status t' = b))"

locale timeout_rule =
  fixes job :: "transaction \<Rightarrow> db \<Rightarrow> exn + db" and row :: nat and a b :: tx_status
  assumes job_step: "job t s = Inr s' \<Longrightarrow> orders_wf s \<Longrightarrow> get_transaction (tx_id t) s = Some t \<Longrightarrow> tx_status t = a \<Longrightarrow>
      order_step (tx_id t) a b s s'"
    and job_row: "documented row a b"
begin

lemma sweep_loop:
  "foldE job ts s = Inr s' \<Longrightarrow> orders_wf s \<Longrightarrow> distinct (map tx_id ts) \<Longrightarrow>
   (\<forall>t \<in> set ts. get_transaction (tx_id t) s = Some t \<and> tx_status t = a) \<Longrightarrow> swept (tx_id ` set ts) b s s'"
proof (induction ts arbitrary: s)
  case Nil
  then show ?case by (simp add: swept_def)
next
  case (Cons t ts)
  from Cons.prems(1) obtain s1 where j: "job t s = Inr s1" and f: "foldE job ts s1 = Inr s'" by (auto simp: bindE_eq_Inr)
  have t: "get_transaction (tx_id t) s = Some t" "tx_status t = a" using Cons.prems(4) by auto
  have st: "order_step (tx_id t) a b s s1" by (rule job_step [OF j Cons.prems(2) t])
  then have kept: "get_transaction i s1 = get_transaction i s" if "i \<noteq> tx_id t" for i
    using that by (auto simp: order_step_def others_kept_def)
  have ids: "tx_id t \<notin> tx_id ` set ts" using Cons.prems(3) by auto
  have sw: "swept (tx_id ` set ts) b s1 s'"
  proof (rule Cons.IH [OF f])
    show "\<forall>t \<in> set ts. get_transaction (tx_id t) s1 = Some t \<and> tx_status t = a"
    proof
      fix u assume u: "u \<in> set ts"
      then have "tx_id u \<noteq> tx_id t" using ids by (metis imageI)
      then show "get_transaction (tx_id u) s1 = Some u \<and> tx_status u = a" using Cons.prems(4) u kept by simp
    qed
  qed (use st Cons.prems(3) in \<open>auto simp: order_step_def\<close>)
  have money: "money_owed s \<longrightarrow> money_owed s1"
    using step_money_owed [OF st] documented_not_from_final [OF job_row] by blast
  obtain t1 where t1: "get_transaction (tx_id t) s1 = Some t1" "same_order t t1" "tx_status t1 = b"
    using st t(1) by (auto simp: order_step_def)
  have one: "\<exists>u u'. get_transaction i s = Some u \<and> get_transaction i s' = Some u' \<and> same_order u u' \<and> tx_status u' = b"
    if i: "i \<in> tx_id ` set (t # ts)" for i
  proof (cases "i = tx_id t")
    case True
    then have "get_transaction i s' = Some t1" using sw t1(1) ids by (auto simp: swept_def)
    then show ?thesis using True t(1) t1 by auto
  next
    case False
    then have "i \<in> tx_id ` set ts" using i by auto
    then obtain u u' where "get_transaction i s1 = Some u" "get_transaction i s' = Some u'" "same_order u u'" "tx_status u' = b"
      using sw unfolding swept_def by blast
    then show ?thesis using kept [OF False] by simp
  qed
  moreover have "get_transaction i s' = get_transaction i s" if "i \<notin> tx_id ` set (t # ts)" for i
    using that sw kept [of i] by (auto simp: swept_def)
  moreover have "map tx_id (d_transactions s1) = map tx_id (d_transactions s)" "d_tables s1 = d_tables s"
    using st by (auto simp: order_step_def others_kept_def)
  ultimately show ?case using sw money unfolding swept_def by simp
qed

end

lemma saved_settle:
  assumes "orders_wf s" and "get_transaction (tx_id t) s = Some t" and "tx_status t = a" and "calm s s1"
    and "settles t1 t2 s1 s2" and "calm s2 sX" and "same_order t t1" and "tx_status t1 = b" and "a \<noteq> b" and "paying b"
  shows "order_step (tx_id t) a b s (save_transaction now t2 sX)"
proof -
  have "tx_status t2 = b" using settles_same_order [OF assms(5)] assms(8) by simp
  then show ?thesis using commit_settled_step [OF assms(1,2,4,5,6,7), of t2 now] assms(3,9,10) by simp
qed

interpretation at_door_rule: timeout_rule "at_door_timeout E now" 15 AT_DOOR_PENDING_INSPECTION REFUNDED_BUYER for E now
proof
  fix t s s'
  assume j: "at_door_timeout E now t s = Inr s'" and wf: "orders_wf s" and t: "get_transaction (tx_id t) s = Some t"
    "tx_status t = AT_DOOR_PENDING_INSPECTION"
  from j obtain t1 s1 x t2 s2 h r where f: "apply_withheld_return_refund_flow E t now ''system'' ''at_door_timeout_1h'' None s = Inr (t1, s1)"
    and q: "queue_refund_full E system_service t1 (''timeout-at-door-refund:'' @ uuid_str (tx_id t)) s1 = Inr (x, t2, s2)"
    and s': "s' = save_transaction (e_now E) t2 (create_timeout_notifications E t2 h r s2)"
    by (auto simp: at_door_timeout_def bindE_eq_Inr Let_def)
  note w = withheld_flow [OF f]
  show "order_step (tx_id t) AT_DOOR_PENDING_INSPECTION REFUNDED_BUYER s s'" unfolding s'
    by (rule saved_settle [OF wf t w(2) refund_settles [OF q calm_wf [OF w(2) wf]] notices_calm(7)])
      (simp_all add: w(1) same_order_def paying_def)
qed (rule documented.T15)

interpretation locked_rule: timeout_rule "locked_timeout E now" 16 LOCKED REFUNDED_BUYER for E now
proof
  fix t s s'
  assume j: "locked_timeout E now t s = Inr s'" and wf: "orders_wf s" and t: "get_transaction (tx_id t) s = Some t" "tx_status t = LOCKED"
  define t1 where "t1 = t\<lparr>tx_status := REFUNDED_BUYER, tx_refunded_at := Some now, tx_delivery_otp_hash := None, tx_otp_failed_attempts := 0\<rparr>"
  from j obtain s1 x t2 s2 h r where c: "calm s s1"
    and q: "queue_refund_full E system_service t1 (''timeout-refund:'' @ uuid_str (tx_id t)) s1 = Inr (x, t2, s2)"
    and s': "s' = save_transaction (e_now E) t2 (create_timeout_notifications E t2 h r s2)"
    by (auto simp: locked_timeout_def bindE_eq_Inr Let_def t1_def dest!: transition_calm)
  show "order_step (tx_id t) LOCKED REFUNDED_BUYER s s'" unfolding s'
    by (rule saved_settle [OF wf t c refund_settles [OF q calm_wf [OF c wf]] notices_calm(7)])
      (simp_all add: t1_def same_order_def paying_def)
qed (rule documented.T16)

interpretation hold_rule: timeout_rule "hold_timeout E now" 17 HOLD_24H RELEASED for E now
proof
  fix t s s'
  assume j: "hold_timeout E now t s = Inr s'" and wf: "orders_wf s" and t: "get_transaction (tx_id t) s = Some t" "tx_status t = HOLD_24H"
  define t1 where "t1 = t\<lparr>tx_status := RELEASED, tx_released_at := Some now, tx_delivery_otp_hash := None, tx_otp_failed_attempts := 0\<rparr>"
  from j obtain s1 x t2 s2 h r where c: "calm s s1"
    and q: "queue_release_full E system_service t1 (''hold-release:'' @ uuid_str (tx_id t)) s1 = Inr (x, t2, s2)"
    and s': "s' = save_transaction (e_now E) t2 (create_timeout_notifications E t2 h r s2)"
    by (auto simp: hold_timeout_def bindE_eq_Inr Let_def t1_def dest!: transition_calm)
  show "order_step (tx_id t) HOLD_24H RELEASED s s'" unfolding s'
    by (rule saved_settle [OF wf t c release_settles [OF q calm_wf [OF c wf]] notices_calm(7)])
      (simp_all add: t1_def same_order_def paying_def)
qed (rule documented.T17)

lemma close_unsent_case_calm: "close_unsent_case E now tid s = Inr s' \<Longrightarrow> calm s s'"
  by (auto simp: close_unsent_case_def Let_def split: option.splits if_splits dest: put_and_record_calm)

lemma escalate_unreceived_case_calm: "escalate_unreceived_case E now tid s = Inr s' \<Longrightarrow> calm s s'"
  by (auto simp: escalate_unreceived_case_def Let_def split: option.splits if_splits dest: put_and_record_calm)

interpretation unsent_rule: timeout_rule "unsent_timeout E now" 18 DISPUTED_FUNCTIONAL RELEASED for E now
proof
  fix t s s'
  assume j: "unsent_timeout E now t s = Inr s'" and wf: "orders_wf s" and t: "get_transaction (tx_id t) s = Some t"
    "tx_status t = DISPUTED_FUNCTIONAL"
  define t1 where "t1 = t\<lparr>tx_status := RELEASED, tx_released_at := Some now\<rparr>"
  from j obtain s1 s2 x t2 s3 where c: "calm s s1" "calm s1 s2"
    and q: "queue_release_full E system_service t1 (''dispute-timeout-release:'' @ uuid_str (tx_id t)) s2 = Inr (x, t2, s3)"
    and s': "s' = save_transaction (e_now E) t2 (create_dispute_auto_cancel_notifications E t2 now s3)"
    by (auto simp: unsent_timeout_def bindE_eq_Inr t1_def dest!: transition_calm close_unsent_case_calm)
  note c = calm_trans [OF c]
  show "order_step (tx_id t) DISPUTED_FUNCTIONAL RELEASED s s'" unfolding s'
    by (rule saved_settle [OF wf t c release_settles [OF q calm_wf [OF c wf]] notices_calm(9)])
      (simp_all add: t1_def same_order_def paying_def)
qed (rule documented.T18)

interpretation unreceived_rule: timeout_rule "unreceived_timeout E now" 19 RETURN_IN_TRANSIT ESCALATED_ADMIN_REVIEW for E now
proof
  fix t s s'
  assume j: "unreceived_timeout E now t s = Inr s'" and wf: "orders_wf s" and t: "get_transaction (tx_id t) s = Some t"
    "tx_status t = RETURN_IN_TRANSIT"
  define t1 where "t1 = t\<lparr>tx_status := ESCALATED_ADMIN_REVIEW\<rparr>"
  from j obtain s1 s2 where c: "calm s s1" "calm s1 s2"
    and s': "s' = save_transaction (e_now E) t1 (create_seller_received_timeout_notifications E t1 now s2)"
    by (auto simp: unreceived_timeout_def bindE_eq_Inr t1_def dest!: transition_calm escalate_unreceived_case_calm)
  have "order_step (tx_id t) (tx_status t) (tx_status t1) s s'" unfolding s'
    by (rule commit_calm_step [OF wf t(1) calm_trans [OF calm_trans [OF c] notices_calm(11)]])
      (simp_all add: t1_def same_order_def paying_def t(2))
  then show "order_step (tx_id t) RETURN_IN_TRANSIT ESCALATED_ADMIN_REVIEW s s'" by (simp add: t1_def t(2))
qed (rule documented.T19)

section \<open>The sweep\<close>

text \<open>
  The sweep read off the deadlines: an order whose deadline has come is moved to its rule's target,
  the others are left alone.
\<close>

definition overdue :: "time \<Rightarrow> transaction \<Rightarrow> bool" where
  "overdue now t = (let d = deadlines_for t in
     \<exists>x \<in> set [dl_dispatch_by d, dl_inspect_by d, dl_hold_until d, dl_return_send_by d, dl_return_confirm_by d]. since x now)"

definition timeout_target :: "tx_status \<Rightarrow> tx_status" where
  "timeout_target a = (case a of LOCKED \<Rightarrow> REFUNDED_BUYER | AT_DOOR_PENDING_INSPECTION \<Rightarrow> REFUNDED_BUYER
     | HOLD_24H \<Rightarrow> RELEASED | DISPUTED_FUNCTIONAL \<Rightarrow> RELEASED | RETURN_IN_TRANSIT \<Rightarrow> ESCALATED_ADMIN_REVIEW | _ \<Rightarrow> a)"

lemma since_None [simp]: "\<not> since None t" and since_Some [simp]: "since (Some x) t \<longleftrightarrow> x \<le> t"
  by (simp_all add: since_def)

lemma since_after: "since (after x w) now \<longleftrightarrow> since x (now - w)"
  by (cases x) (auto simp: after_def)

lemma due_lists:
  "t \<in> set (get_due_at_door_timeout_transactions (now - AT_DOOR_INSPECTION_WINDOW) s) \<longleftrightarrow>
     t \<in> set (d_transactions s) \<and> tx_status t = AT_DOOR_PENDING_INSPECTION \<and> overdue now t"
  "t \<in> set (get_due_locked_timeout_transactions (now - NO_DISPATCH_WINDOW) s) \<longleftrightarrow>
     t \<in> set (d_transactions s) \<and> tx_status t = LOCKED \<and> overdue now t"
  "t \<in> set (get_due_hold_auto_release_transactions (now - HOLD_WINDOW) s) \<longleftrightarrow>
     t \<in> set (d_transactions s) \<and> tx_status t = HOLD_24H \<and> overdue now t"
  "t \<in> set (get_due_dispute_buyer_sent_back_timeout_transactions (now - RETURN_SEND_WINDOW) s) \<longleftrightarrow>
     t \<in> set (d_transactions s) \<and> tx_status t = DISPUTED_FUNCTIONAL \<and> overdue now t"
  "t \<in> set (get_due_seller_received_timeout_transactions (now - RETURN_RECEIPT_WINDOW) s) \<longleftrightarrow>
     t \<in> set (d_transactions s) \<and> tx_status t = RETURN_IN_TRANSIT \<and> overdue now t"
  by (auto simp: overdue_def deadlines_for_def Let_def no_deadlines_def since_after
      get_due_at_door_timeout_transactions_def get_due_locked_timeout_transactions_def
      get_due_hold_auto_release_transactions_def get_due_dispute_buyer_sent_back_timeout_transactions_def
      get_due_seller_received_timeout_transactions_def)

lemmas due_queries = get_due_at_door_timeout_transactions_def get_due_locked_timeout_transactions_def
  get_due_hold_auto_release_transactions_def get_due_dispute_buyer_sent_back_timeout_transactions_def
  get_due_seller_received_timeout_transactions_def

lemma overdue_status: "overdue now t \<Longrightarrow>
    tx_status t \<in> {LOCKED, AT_DOOR_PENDING_INSPECTION, HOLD_24H, DISPUTED_FUNCTIONAL, RETURN_IN_TRANSIT}"
  by (auto simp: overdue_def deadlines_for_def Let_def no_deadlines_def split: tx_status.splits)

lemma get_row: "orders_wf s \<Longrightarrow> t \<in> set (d_transactions s) \<Longrightarrow> get_transaction (tx_id t) s = Some t"
  by (auto simp: get_transaction_def orders_wf_def intro: row_get_unique)

text \<open>The database after the rules for the statuses \<open>S\<close> have run on \<open>s0\<close>.\<close>

definition swept_to :: "time \<Rightarrow> tx_status set \<Rightarrow> db \<Rightarrow> db \<Rightarrow> bool" where
  "swept_to now S s0 s = (orders_wf s \<and> map tx_id (d_transactions s) = map tx_id (d_transactions s0) \<and> d_tables s = d_tables s0 \<and>
     (money_owed s0 \<longrightarrow> money_owed s) \<and>
     (\<forall>i t. get_transaction i s0 = Some t \<longrightarrow>
       (if tx_status t \<in> S \<and> overdue now t
        then \<exists>t'. get_transaction i s = Some t' \<and> same_order t t' \<and> tx_status t' = timeout_target (tx_status t)
        else get_transaction i s = Some t)))"

lemma swept_toD: "swept_to now S s0 s \<Longrightarrow> get_transaction i s0 = Some t \<Longrightarrow>
    if tx_status t \<in> S \<and> overdue now t
    then \<exists>t'. get_transaction i s = Some t' \<and> same_order t t' \<and> tx_status t' = timeout_target (tx_status t)
    else get_transaction i s = Some t"
  by (simp add: swept_to_def)

lemma swept_to_refl: "orders_wf s \<Longrightarrow> swept_to now {} s s"
  by (simp add: swept_to_def)

context timeout_rule
begin

lemma sweep_stage:
  assumes "orders_wf s0" and "swept_to now S s0 s" and "a \<notin> S" and "b = timeout_target a" and "foldE job due s = Inr s'"
    and due: "\<And>t. t \<in> set due \<longleftrightarrow> t \<in> set (d_transactions s0) \<and> tx_status t = a \<and> overdue now t"
    and "distinct (map tx_id due)"
  shows "swept_to now (insert a S) s0 s'"
proof -
  have same: "get_transaction i s = Some t" if "get_transaction i s0 = Some t" "tx_status t = a" for i t
    using assms(2,3) that by (auto simp: swept_to_def split: if_splits)
  have "\<forall>t \<in> set due. get_transaction (tx_id t) s = Some t \<and> tx_status t = a"
    using same get_row [OF assms(1)] due by blast
  then have sw: "swept (tx_id ` set due) b s s'"
    using sweep_loop [OF assms(5) _ assms(7)] assms(2) by (simp add: swept_to_def)
  have "if tx_status t \<in> insert a S \<and> overdue now t
      then \<exists>t'. get_transaction i s' = Some t' \<and> same_order t t' \<and> tx_status t' = timeout_target (tx_status t)
      else get_transaction i s' = Some t" if t: "get_transaction i s0 = Some t" for i t
  proof (cases "i \<in> tx_id ` set due")
    case True
    then obtain u where u: "u \<in> set due" "i = tx_id u" by auto
    then have "u = t" using t get_row [OF assms(1)] due by fastforce
    then have a: "tx_status t = a" "overdue now t" using u due by auto
    obtain t' t'' where "get_transaction i s = Some t'" "get_transaction i s' = Some t''" "same_order t' t''" "tx_status t'' = b"
      using sw True unfolding swept_def by blast
    then show ?thesis using a same [OF t a(1)] assms(4) by simp
  next
    case False
    then have g: "get_transaction i s' = get_transaction i s" using sw by (simp add: swept_def)
    have "t \<notin> set due" using False transactions.get_key [OF t] by blast
    then have "\<not> (tx_status t = a \<and> overdue now t)"
      using t due by (auto simp: get_transaction_def dest: row_get_SomeD)
    then show ?thesis using assms(2) t g by (auto simp: swept_to_def)
  qed
  then show ?thesis using sw assms(2) by (simp add: swept_to_def swept_def)
qed

end

definition timed :: "tx_status set" where
  "timed = {LOCKED, AT_DOOR_PENDING_INSPECTION, HOLD_24H, DISPUTED_FUNCTIONAL, RETURN_IN_TRANSIT}"

lemma sweep_all:
  assumes wf: "orders_wf s" and run: "run_timeout_jobs E n s = (s', Inr r)"
  shows "swept_to (case n of None \<Rightarrow> e_now E | Some x \<Rightarrow> x) timed s s'"
proof -
  define now where "now = (case n of None \<Rightarrow> e_now E | Some x \<Rightarrow> x)"
  from run obtain s1 s2 s3 s4 where
    f: "foldE (at_door_timeout E now) (get_due_at_door_timeout_transactions (now - AT_DOOR_INSPECTION_WINDOW) s) s = Inr s1"
      "foldE (locked_timeout E now) (get_due_locked_timeout_transactions (now - NO_DISPATCH_WINDOW) s) s1 = Inr s2"
      "foldE (hold_timeout E now) (get_due_hold_auto_release_transactions (now - HOLD_WINDOW) s) s2 = Inr s3"
      "foldE (unsent_timeout E now) (get_due_dispute_buyer_sent_back_timeout_transactions (now - RETURN_SEND_WINDOW) s) s3 = Inr s4"
      "foldE (unreceived_timeout E now) (get_due_seller_received_timeout_transactions (now - RETURN_RECEIPT_WINDOW) s) s4 = Inr s'"
    unfolding run_timeout_jobs_def Let_def now_def [symmetric] by (auto simp: atomic_eq_Inr bindE_eq_Inr)
  have d: "distinct (map tx_id (filter P (d_transactions s)))" for P
    using wf by (simp add: orders_wf_def distinct_map_filter)
  have "swept_to now {AT_DOOR_PENDING_INSPECTION} s s1"
    by (rule at_door_rule.sweep_stage [OF wf swept_to_refl [OF wf] _ _ f(1) due_lists(1)]) (simp_all add: timeout_target_def due_queries d)
  then have "swept_to now {LOCKED, AT_DOOR_PENDING_INSPECTION} s s2"
    by (rule locked_rule.sweep_stage [OF wf _ _ _ f(2) due_lists(2)]) (simp_all add: timeout_target_def due_queries d)
  then have "swept_to now {HOLD_24H, LOCKED, AT_DOOR_PENDING_INSPECTION} s s3"
    by (rule hold_rule.sweep_stage [OF wf _ _ _ f(3) due_lists(3)]) (simp_all add: timeout_target_def due_queries d)
  then have "swept_to now {DISPUTED_FUNCTIONAL, HOLD_24H, LOCKED, AT_DOOR_PENDING_INSPECTION} s s4"
    by (rule unsent_rule.sweep_stage [OF wf _ _ _ f(4) due_lists(4)]) (simp_all add: timeout_target_def due_queries d)
  then have "swept_to now {RETURN_IN_TRANSIT, DISPUTED_FUNCTIONAL, HOLD_24H, LOCKED, AT_DOOR_PENDING_INSPECTION} s s'"
    by (rule unreceived_rule.sweep_stage [OF wf _ _ _ f(5) due_lists(5)]) (simp_all add: timeout_target_def due_queries d)
  then show ?thesis by (simp add: timed_def now_def insert_commute)
qed

lemma not_overdue_after:
  assumes "orders_wf s" and "swept_to now timed s s'" and "t \<in> set (d_transactions s')"
  shows "\<not> overdue now t"
proof
  assume o: "overdue now t"
  have wf: "orders_wf s'" using assms(2) by (simp add: swept_to_def)
  have g: "get_transaction (tx_id t) s' = Some t" by (rule get_row [OF wf assms(3)])
  have "tx_id t \<in> set (map tx_id (d_transactions s'))" using assms(3) by simp
  then have "tx_id t \<in> set (map tx_id (d_transactions s))" using assms(2) unfolding swept_to_def by metis
  then obtain u where u: "u \<in> set (d_transactions s)" "tx_id u = tx_id t" by auto
  then have gu: "get_transaction (tx_id t) s = Some u" using get_row [OF assms(1) u(1)] by simp
  then have "if tx_status u \<in> timed \<and> overdue now u
       then tx_status t = timeout_target (tx_status u) else t = u"
    using swept_toD [OF assms(2) gu] g by (auto split: if_splits)
  then show False using o overdue_status [of now u] overdue_status [of now t]
    by (auto simp: timed_def timeout_target_def split: if_splits tx_status.splits)
qed

lemma no_due:
  assumes "\<forall>t \<in> set (d_transactions s). \<not> overdue now t"
  shows "get_due_at_door_timeout_transactions (now - AT_DOOR_INSPECTION_WINDOW) s = []"
    "get_due_locked_timeout_transactions (now - NO_DISPATCH_WINDOW) s = []"
    "get_due_hold_auto_release_transactions (now - HOLD_WINDOW) s = []"
    "get_due_dispute_buyer_sent_back_timeout_transactions (now - RETURN_SEND_WINDOW) s = []"
    "get_due_seller_received_timeout_transactions (now - RETURN_RECEIPT_WINDOW) s = []"
  using assms by (simp_all only: set_empty [symmetric] set_eq_iff due_lists) simp_all

text \<open>The counts add up to the orders whose deadline has come.\<close>

definition sweep_total :: "timeout_sweep_result \<Rightarrow> nat" where
  "sweep_total r = sw_at_door_timeout_count r + sw_no_dispatch_timeout_count r + sw_hold_auto_release_count r +
     sw_dispute_buyer_sent_back_timeout_count r + sw_dispute_seller_received_timeout_count r"

lemma due_filters:
  "get_due_at_door_timeout_transactions (now - AT_DOOR_INSPECTION_WINDOW) s =
     filter (\<lambda>t. tx_status t = AT_DOOR_PENDING_INSPECTION \<and> overdue now t) (d_transactions s)"
  "get_due_locked_timeout_transactions (now - NO_DISPATCH_WINDOW) s =
     filter (\<lambda>t. tx_status t = LOCKED \<and> overdue now t) (d_transactions s)"
  "get_due_hold_auto_release_transactions (now - HOLD_WINDOW) s =
     filter (\<lambda>t. tx_status t = HOLD_24H \<and> overdue now t) (d_transactions s)"
  "get_due_dispute_buyer_sent_back_timeout_transactions (now - RETURN_SEND_WINDOW) s =
     filter (\<lambda>t. tx_status t = DISPUTED_FUNCTIONAL \<and> overdue now t) (d_transactions s)"
  "get_due_seller_received_timeout_transactions (now - RETURN_RECEIPT_WINDOW) s =
     filter (\<lambda>t. tx_status t = RETURN_IN_TRANSIT \<and> overdue now t) (d_transactions s)"
  by (auto simp: due_queries overdue_def deadlines_for_def Let_def no_deadlines_def since_after intro!: filter_cong)

lemma count_overdue:
  "length (filter (overdue now) ts) = length (filter (\<lambda>t. tx_status t = AT_DOOR_PENDING_INSPECTION \<and> overdue now t) ts) +
     length (filter (\<lambda>t. tx_status t = LOCKED \<and> overdue now t) ts) + length (filter (\<lambda>t. tx_status t = HOLD_24H \<and> overdue now t) ts) +
     length (filter (\<lambda>t. tx_status t = DISPUTED_FUNCTIONAL \<and> overdue now t) ts) +
     length (filter (\<lambda>t. tx_status t = RETURN_IN_TRANSIT \<and> overdue now t) ts)"
proof (induction ts)
  case (Cons t ts)
  then show ?case using overdue_status [of now t] by auto
qed simp

end
