(* ===== verification/Requests.thy ===== *)
theory Requests
  imports Timeouts
begin

text \<open>
  The order workflow as one machine: a request is one call of a handler, \<open>perform\<close> runs it, and a
  history is a list of requests, each with its own environment. The contract \<open>order_machine\<close> carries
  what one request keeps to every history of requests.
\<close>

section \<open>Requests\<close>

datatype request =
    PaymentCallback payment_callback
  | CustodyFunded uuid "string option" string
  | Dispatch uuid user
  | Arrive uuid user
  | ConfirmOtp uuid user string
  | WithholdOtp uuid user "string option" "string option"
  | ReportIssue uuid user string string "dict option"
  | SentBack uuid user
  | Received uuid user
  | SellerAction uuid user string "string option"
  | Reconfirm uuid user bool "string option"
  | BuyerResolved uuid user
  | SellerResolved uuid user
  | Escalate uuid user string
  | ForceResolve uuid admin_decision string "uuid option" "decimal option"
  | TimeoutSweep "time option"

text \<open>The database a handler leaves, and the exception it raised, if any.\<close>

definition outcome :: "db \<times> (exn + 'a) \<Rightarrow> db \<times> exn option" where
  "outcome p = (fst p, case snd p of Inl e \<Rightarrow> Some e | Inr _ \<Rightarrow> None)"

fun perform :: "env \<Rightarrow> request \<Rightarrow> db \<Rightarrow> db \<times> exn option" where
  "perform E (PaymentCallback cb) s = outcome (confirm_payment_callback E cb s)"
| "perform E (CustodyFunded tid pr rail) s = outcome (atomic s (lock_transaction_after_custody_funding E tid pr rail s))"
| "perform E (Dispatch tid u) s = outcome (dispatch_transaction E tid u s)"
| "perform E (Arrive tid u) s = outcome (mark_transaction_arrived E tid u s)"
| "perform E (ConfirmOtp tid u code) s = outcome (confirm_buyer_delivery_otp E tid u code s)"
| "perform E (WithholdOtp tid u reason nt) s = outcome (withhold_buyer_delivery_otp E tid u reason nt s)"
| "perform E (ReportIssue tid u cat descr ev) s = outcome (report_functional_issue E tid u cat descr ev s)"
| "perform E (SentBack tid u) s = outcome (mark_buyer_sent_back E tid u s)"
| "perform E (Received tid u) s = outcome (mark_seller_received E tid u s)"
| "perform E (SellerAction tid u action nt) s = outcome (apply_seller_resolution_action E tid u action nt s)"
| "perform E (Reconfirm tid u accepted nt) s = outcome (submit_buyer_reconfirmation E tid u accepted nt s)"
| "perform E (BuyerResolved tid u) s = outcome (submit_buyer_resolution_confirmation E tid u s)"
| "perform E (SellerResolved tid u) s = outcome (submit_seller_resolution_confirmation E tid u s)"
| "perform E (Escalate tid u reason) s = outcome (escalate_dispute E tid u reason s)"
| "perform E (ForceResolve did dec reason who share) s = outcome (force_resolve_dispute_case E did dec reason who share s)"
| "perform E (TimeoutSweep n) s = outcome (run_timeout_jobs E n s)"

fun run :: "(env \<times> request) list \<Rightarrow> db \<Rightarrow> db" where
  "run [] s = s"
| "run ((E, q) # qs) s = run qs (fst (perform E q s))"

text \<open>The rows of the documented table a request may take.\<close>

fun rows_of :: "request \<Rightarrow> nat set" where
  "rows_of (PaymentCallback _) = {2}"
| "rows_of (CustodyFunded _ _ _) = {3}"
| "rows_of (Dispatch _ _) = {4}"
| "rows_of (Arrive _ _) = {5}"
| "rows_of (ConfirmOtp _ _ _) = {6}"
| "rows_of (WithholdOtp _ _ _ _) = {7}"
| "rows_of (ReportIssue _ _ _ _ _) = {8}"
| "rows_of (SentBack _ _) = {9}"
| "rows_of (Received _ _) = {10}"
| "rows_of (SellerAction _ _ _ _) = {11}"
| "rows_of (Reconfirm _ _ _ _) = {12}"
| "rows_of (BuyerResolved _ _) = {}"
| "rows_of (SellerResolved _ _) = {}"
| "rows_of (Escalate _ _ _) = {13}"
| "rows_of (ForceResolve _ _ _ _ _) = {14}"
| "rows_of (TimeoutSweep _) = {15, 16, 17, 18, 19}"

section \<open>One request\<close>

definition request_keeps :: "nat set \<Rightarrow> db \<Rightarrow> db \<Rightarrow> bool" where
  "request_keeps R s s' = (orders_wf s' \<and> map tx_id (d_transactions s') = map tx_id (d_transactions s) \<and>
     (money_owed s \<longrightarrow> money_owed s') \<and>
     (\<forall>i t. get_transaction i s = Some t \<longrightarrow> (\<exists>t'. get_transaction i s' = Some t' \<and> same_order t t' \<and>
        (tx_status t' = tx_status t \<or> (\<exists>n \<in> R. documented n (tx_status t) (tx_status t'))))))"

lemma request_keeps_refl: "orders_wf s \<Longrightarrow> request_keeps R s s"
  by (simp add: request_keeps_def)

lemma request_keeps_mono: "request_keeps R s s' \<Longrightarrow> R \<subseteq> R' \<Longrightarrow> request_keeps R' s s'"
  unfolding request_keeps_def by blast

context order_handler
begin

lemma keeps: "orders_wf s \<Longrightarrow> request_keeps {row} s (fst (handle s))"
  using keeps_wf keeps_orders keeps_money_owed order_moves unfolding request_keeps_def
  by (smt (verit) prod.collapse singletonI)

end

lemma not_documented_0: "\<not> documented 0 a b"
  by (auto elim: documented_from)

lemma request_keeps_0: "request_keeps {0} s s' \<Longrightarrow> request_keeps {} s s'"
  by (auto simp: request_keeps_def not_documented_0)

lemma timeout_target_documented:
  "a \<in> timed \<Longrightarrow> \<exists>n \<in> {15, 16, 17, 18, 19}. documented n a (timeout_target a)"
  by (auto simp: timed_def timeout_target_def intro: documented.T15 documented.T16 documented.T17 documented.T18 documented.T19)

lemma sweep_keeps:
  assumes "orders_wf s"
  shows "request_keeps {15, 16, 17, 18, 19} s (fst (run_timeout_jobs E n s))"
proof (cases "run_timeout_jobs E n s")
  case (Pair s' r)
  show ?thesis
  proof (cases r)
    case (Inl e)
    then have "s' = s" using Pair by (simp add: run_timeout_jobs_def Let_def atomic_eq_Inl)
    then show ?thesis using Pair assms by (simp add: request_keeps_refl)
  next
    case (Inr x)
    then have sw: "swept_to (case n of None \<Rightarrow> e_now E | Some x \<Rightarrow> x) timed s s'" using sweep_all [OF assms] Pair by simp
    have "\<exists>t'. get_transaction i s' = Some t' \<and> same_order t t' \<and>
        (tx_status t' = tx_status t \<or> (\<exists>m \<in> {15, 16, 17, 18, 19}. documented m (tx_status t) (tx_status t')))"
      if "get_transaction i s = Some t" for i t
      using swept_toD [OF sw that] timeout_target_documented [of "tx_status t"] by (cases "tx_status t \<in> timed") (fastforce split: if_splits)+
    then show ?thesis using sw Pair by (simp add: request_keeps_def swept_to_def)
  qed
qed

lemma fst_outcome [simp]: "fst (outcome p) = fst p"
  by (simp add: outcome_def)

text \<open>Every request keeps the orders' invariants and moves statuses along its own rows only.\<close>

lemma perform_keeps: "orders_wf s \<Longrightarrow> request_keeps (rows_of q) s (fst (perform E q s))"
  by (cases q) (simp_all add: callback.keeps custody_lock.keeps dispatch.keeps arrival.keeps otp.keeps withhold.keeps
      report.keeps sent_back.keeps received.keeps resolution.keeps reconfirmation.keeps escalation.keeps force_resolve.keeps
      sweep_keeps buyer_confirmation.keeps [THEN request_keeps_0] seller_confirmation.keeps [THEN request_keeps_0])

section \<open>Histories\<close>

definition follows :: "tx_status \<Rightarrow> tx_status \<Rightarrow> bool" where
  "follows = (\<lambda>a b. \<exists>n. documented n a b)\<^sup>*\<^sup>*"

lemma follows_refl [simp]: "follows a a"
  by (simp add: follows_def)

lemma follows_step: "documented n a b \<Longrightarrow> follows b c \<Longrightarrow> follows a c"
  unfolding follows_def by (rule converse_rtranclp_into_rtranclp) blast+

lemma follows_final: "follows a b \<Longrightarrow> paying a \<Longrightarrow> b = a"
  unfolding follows_def by (erule converse_rtranclpE) (blast dest: documented_not_from_final)+

text \<open>The statuses an order can have once created: the two steps inside a commit are never stored.\<close>

lemma follows_stored: "follows AWAITING_PAYMENT b \<Longrightarrow> b \<noteq> RETURNED_TO_SELLER"
proof -
  assume "follows AWAITING_PAYMENT b"
  then have "(\<lambda>a b. \<exists>n. documented n a b)\<^sup>*\<^sup>* AWAITING_PAYMENT b" by (simp add: follows_def)
  then show ?thesis by (induction rule: rtranclp_induct) (auto elim: documented_from)
qed

locale order_machine =
  fixes step :: "'q \<Rightarrow> db \<Rightarrow> db" and rows :: "'q \<Rightarrow> nat set"
  assumes step_keeps: "orders_wf s \<Longrightarrow> request_keeps (rows q) s (step q s)"
begin

text \<open>The invariants hold after every history, and each order's status has followed the table.\<close>

lemma history_wf: "orders_wf s \<Longrightarrow> orders_wf (fold step qs s)"
  by (induction qs arbitrary: s) (use step_keeps in \<open>auto simp: request_keeps_def\<close>)

lemma history_money: "orders_wf s \<Longrightarrow> money_owed s \<Longrightarrow> money_owed (fold step qs s)"
  by (induction qs arbitrary: s) (use step_keeps in \<open>auto simp: request_keeps_def\<close>)

lemma history_orders: "orders_wf s \<Longrightarrow> map tx_id (d_transactions (fold step qs s)) = map tx_id (d_transactions s)"
  by (induction qs arbitrary: s) (use step_keeps in \<open>auto simp: request_keeps_def\<close>)

lemma history_follows:
  "orders_wf s \<Longrightarrow> get_transaction i s = Some t \<Longrightarrow>
   \<exists>t'. get_transaction i (fold step qs s) = Some t' \<and> same_order t t' \<and> follows (tx_status t) (tx_status t')"
proof (induction qs arbitrary: s t)
  case (Cons q qs)
  have k: "request_keeps (rows q) s (step q s)" by (rule step_keeps [OF Cons.prems(1)])
  then obtain t1 where t1: "get_transaction i (step q s) = Some t1" "same_order t t1"
    "tx_status t1 = tx_status t \<or> (\<exists>n. documented n (tx_status t) (tx_status t1))"
    using Cons.prems(2) unfolding request_keeps_def by blast
  have "orders_wf (step q s)" using k by (simp add: request_keeps_def)
  from Cons.IH [OF this t1(1)] t1 show ?case by (auto intro: same_order_trans follows_step)
qed simp

lemma history_final:
  assumes "orders_wf s" and "get_transaction i s = Some t" and "paying (tx_status t)"
  shows "\<exists>t'. get_transaction i (fold step qs s) = Some t' \<and> same_order t t' \<and> tx_status t' = tx_status t"
  using history_follows [OF assms(1,2), of qs] assms(3) follows_final by metis

end

interpretation machine: order_machine "\<lambda>(E, q) s. fst (perform E q s)" "\<lambda>(E, q). rows_of q"
  by unfold_locales (auto intro: perform_keeps)

lemma run_fold: "run qs s = fold (\<lambda>(E, q) s. fst (perform E q s)) qs s"
  by (induction qs s rule: run.induct) simp_all

end
