(* ===== verification/Authority.thy ===== *)
theory Authority
  imports Requests
begin

text \<open>
  Who may move an order, from where and to which status: the guards of all handlers in one table
  (\<open>admits\<close>), and the proof that no request changes a status outside it.
\<close>

section \<open>The table\<close>

definition is_buyer :: "user \<Rightarrow> transaction \<Rightarrow> bool" where
  "is_buyer u t = (u_role u = BUYER \<and> u_id u = tx_buyer t)"

definition is_seller :: "user \<Rightarrow> transaction \<Rightarrow> bool" where
  "is_seller u t = (u_role u = SELLER \<and> u_id u = tx_seller t)"

definition serialized_item :: "transaction \<Rightarrow> db \<Rightarrow> bool" where
  "serialized_item t s = (case get_listing (tx_listing t) s of None \<Rightarrow> False | Some l \<Rightarrow> l_is_serialized l)"

fun admits :: "env \<Rightarrow> request \<Rightarrow> db \<Rightarrow> transaction \<Rightarrow> tx_status \<Rightarrow> bool" where
  "admits E (PaymentCallback cb) s t b = (tx_id t = cb_transaction cb \<and> cb_result_code cb = 0 \<and>
     py_lower (strip (tx_custody_provider t)) \<noteq> PROVIDER_ECONFIRM \<and> tx_status t = AWAITING_PAYMENT \<and> b = LOCKED)"
| "admits E (CustodyFunded tid _ _) s t b = (tx_id t = tid \<and> tx_status t = AWAITING_PAYMENT \<and> b = LOCKED)"
| "admits E (Dispatch tid u) s t b = (tx_id t = tid \<and> is_seller u t \<and> tx_status t = LOCKED \<and> b = OUT_FOR_DELIVERY)"
| "admits E (Arrive tid u) s t b = (tx_id t = tid \<and> is_seller u t \<and> tx_status t = OUT_FOR_DELIVERY \<and> b = AT_DOOR_PENDING_INSPECTION)"
| "admits E (ConfirmOtp tid u code) s t b = (tx_id t = tid \<and> is_buyer u t \<and> tx_status t = AT_DOOR_PENDING_INSPECTION \<and>
     verify_delivery_otp E code (tx_delivery_otp_hash t) \<and> b = (if serialized_item t s then HOLD_24H else RELEASED))"
| "admits E (WithholdOtp tid u _ _) s t b = (tx_id t = tid \<and> is_buyer u t \<and> tx_status t = AT_DOOR_PENDING_INSPECTION \<and> b = REFUNDED_BUYER)"
| "admits E (ReportIssue tid u _ _ _) s t b = (tx_id t = tid \<and> is_buyer u t \<and> tx_status t = HOLD_24H \<and> serialized_item t s \<and>
     b = DISPUTED_FUNCTIONAL)"
| "admits E (SentBack tid u) s t b = (tx_id t = tid \<and> is_buyer u t \<and> tx_status t = DISPUTED_FUNCTIONAL \<and> b = RETURN_IN_TRANSIT)"
| "admits E (Received tid u) s t b = (tx_id t = tid \<and> is_seller u t \<and> tx_status t = RETURN_IN_TRANSIT \<and> b = RETURN_RECEIVED)"
| "admits E (SellerAction tid u action _) s t b = (tx_id t = tid \<and> is_seller u t \<and> tx_status t = RETURN_RECEIVED \<and>
     (case (get_listing (tx_listing t) s, normalize_seller_resolution_action action) of
        (Some l, Inr a) \<Rightarrow> policy_allows (l_dispute_policy l) a \<and> b = (if a = REFUND_ISSUED then REFUNDED_BUYER else AWAITING_BUYER_RECONFIRMATION)
      | _ \<Rightarrow> False))"
| "admits E (Reconfirm tid u accepted _) s t b = (tx_id t = tid \<and> is_buyer u t \<and> tx_status t = AWAITING_BUYER_RECONFIRMATION \<and>
     b = reconfirm_target accepted (latest_dispute tid s))"
| "admits E (BuyerResolved _ _) s t b = False"
| "admits E (SellerResolved _ _) s t b = False"
| "admits E (Escalate tid u _) s t b = (tx_id t = tid \<and> u_id u \<in> {tx_buyer t, tx_seller t} \<and> tx_status t \<in> set OPEN_CASE \<and>
     latest_dispute tid s \<noteq> None \<and> b = ESCALATED_ADMIN_REVIEW)"
| "admits E (ForceResolve did dec reason _ _) s t b = (strip reason \<noteq> '''' \<and> tx_status t = ESCALATED_ADMIN_REVIEW \<and>
     (case get_dispute did s of None \<Rightarrow> False | Some d \<Rightarrow> di_transaction d = tx_id t \<and> di_status d = D_ESCALATED_ADMIN_REVIEW) \<and>
     b = decided_status dec)"
| "admits E (TimeoutSweep n) s t b = (overdue (case n of None \<Rightarrow> e_now E | Some x \<Rightarrow> x) t \<and> b = timeout_target (tx_status t))"

section \<open>No request moves an order outside the table\<close>

definition moves :: "(transaction \<Rightarrow> tx_status \<Rightarrow> bool) \<Rightarrow> db \<Rightarrow> db \<Rightarrow> bool" where
  "moves A s s' = (idle s s' \<or> (\<exists>i t b. get_transaction i s = Some t \<and> A t b \<and> order_step i (tx_status t) b s s'))"

lemma moves_atomic:
  assumes "atomic s m = (s', r)" and "\<And>x s'. m = Inr (x, s') \<Longrightarrow> moves A s s'"
  shows "moves A s s'"
  using assms by (auto simp: atomic_def moves_def split: sum.splits)

lemma movesI: "get_transaction i s = Some t \<Longrightarrow> A t b \<Longrightarrow> order_step i (tx_status t) b s s' \<Longrightarrow> moves A s s'"
  by (auto simp: moves_def)

lemma moved_order:
  assumes "moves A s s'" and "get_transaction i s = Some t" and "get_transaction i s' = Some t'" and "tx_status t' \<noteq> tx_status t"
  shows "A t (tx_status t')"
  using assms(1) unfolding moves_def
proof (elim disjE exE conjE)
  assume "idle s s'"
  then have "rel_option (\<lambda>t t'. same_order t t' \<and> tx_status t' = tx_status t) (get_transaction i s) (get_transaction i s')"
    by (simp add: idle_def)
  then show ?thesis using assms(2-4) by simp
next
  fix j u b
  assume u: "get_transaction j s = Some u" "A u b" and st: "order_step j (tx_status u) b s s'"
  have "i = j"
  proof (rule ccontr)
    assume "i \<noteq> j"
    then have "get_transaction i s' = get_transaction i s" using st by (auto simp: order_step_def others_kept_def)
    then show False using assms(2-4) by simp
  qed
  then show ?thesis using u st assms(2,3) by (auto simp: order_step_def)
qed

lemmas guards = is_buyer_def is_seller_def serialized_item_def

named_theorems moving \<open>a handler moves orders inside the table only\<close>

lemma callback_moves [moving]:
  assumes wf: "orders_wf s" and h: "confirm_payment_callback E cb s = (s', r)"
  shows "moves (admits E (PaymentCallback cb) s) s s'"
proof (cases "\<exists>t t'. get_transaction (cb_transaction cb) s = Some t \<and> tx_status t = AWAITING_PAYMENT \<and> cb_result_code cb = 0 \<and>
    py_lower (strip (tx_custody_provider t)) \<noteq> PROVIDER_ECONFIRM \<and> lock_body E t cb s = Inr (t', s')")
  case True
  then obtain t t' where t: "get_transaction (cb_transaction cb) s = Some t" "tx_status t = AWAITING_PAYMENT" "cb_result_code cb = 0"
    "py_lower (strip (tx_custody_provider t)) \<noteq> PROVIDER_ECONFIRM" "lock_body E t cb s = Inr (t', s')" by blast
  show ?thesis using lock_body_step [OF t(5) wf t(1,2)] t transactions.get_key [OF t(1)] by (intro movesI [OF t(1)]) auto
next
  case False
  then have "s' = s \<or> (\<exists>tid code. s' = snd (resolve_open_prompt tid code (e_now E) s))"
    using h by (auto simp: confirm_payment_callback_def Let_def atomic_def bindE_def split: if_splits option.splits sum.splits)
  then show ?thesis using resolve_open_prompt_calm calm_idle by (auto simp: moves_def)
qed

lemma custody_moves [moving]:
  assumes wf: "orders_wf s" and h: "atomic s (lock_transaction_after_custody_funding E tid pr rail s) = (s', r)"
  shows "moves (admits E (CustodyFunded tid pr rail) s) s s'"
proof (cases "\<exists>t. get_transaction tid s = Some t \<and> tx_status t = AWAITING_PAYMENT")
  case True
  then obtain t where t: "get_transaction tid s = Some t" "tx_status t = AWAITING_PAYMENT" by blast
  show ?thesis using custody_lock_step [OF _ wf t] t transactions.get_key [OF t(1)]
    by (intro moves_atomic [OF h] movesI [OF t(1)]) auto
next
  case False
  then have "s' = s" using h custody_lock_skips [of tid s E pr rail] by auto
  then show ?thesis by (simp add: moves_def)
qed

lemma dispatch_moves [moving]:
  "orders_wf s \<Longrightarrow> dispatch_transaction E tid u s = (s', r) \<Longrightarrow> moves (admits E (Dispatch tid u) s) s s'"
  unfolding dispatch_transaction_def
  by (erule moves_atomic)
    (auto split: if_splits option.splits simp: guards intro!: movesI dest: transactions.get_key intro: dispatch_body_step)

lemma arrive_moves [moving]:
  "orders_wf s \<Longrightarrow> mark_transaction_arrived E tid u s = (s', r) \<Longrightarrow> moves (admits E (Arrive tid u) s) s s'"
  unfolding mark_transaction_arrived_def
  by (erule moves_atomic)
    (auto split: if_splits option.splits simp: guards intro!: movesI dest: transactions.get_key intro: arrival_body_step)

lemma withhold_moves [moving]:
  "orders_wf s \<Longrightarrow> withhold_buyer_delivery_otp E tid u reason nt s = (s', r) \<Longrightarrow> moves (admits E (WithholdOtp tid u reason nt) s) s s'"
  unfolding withhold_buyer_delivery_otp_def
  by (erule moves_atomic)
    (auto split: if_splits option.splits simp: guards intro!: movesI dest: transactions.get_key intro: withhold_body_step)

lemma report_moves [moving]:
  "orders_wf s \<Longrightarrow> report_functional_issue E tid u cat descr ev s = (s', r) \<Longrightarrow> moves (admits E (ReportIssue tid u cat descr ev) s) s s'"
  unfolding report_functional_issue_def
  by (erule moves_atomic)
    (auto split: if_splits option.splits simp: guards intro!: movesI dest: transactions.get_key intro: report_body_step)

lemma sent_back_moves [moving]:
  "orders_wf s \<Longrightarrow> mark_buyer_sent_back E tid u s = (s', r) \<Longrightarrow> moves (admits E (SentBack tid u) s) s s'"
  unfolding mark_buyer_sent_back_def
  by (erule moves_atomic)
    (auto split: if_splits option.splits simp: guards intro!: movesI dest: transactions.get_key intro: sent_back_body_step)

lemma received_moves [moving]:
  "orders_wf s \<Longrightarrow> mark_seller_received E tid u s = (s', r) \<Longrightarrow> moves (admits E (Received tid u) s) s s'"
  unfolding mark_seller_received_def
  by (erule moves_atomic)
    (auto split: if_splits option.splits simp: guards intro!: movesI dest: transactions.get_key intro: received_body_step)

lemma action_moves [moving]:
  "orders_wf s \<Longrightarrow> apply_seller_resolution_action E tid u action nt s = (s', r) \<Longrightarrow> moves (admits E (SellerAction tid u action nt) s) s s'"
  unfolding apply_seller_resolution_action_def
  by (erule moves_atomic)
    (auto split: if_splits option.splits simp: guards bindE_eq_Inr intro!: movesI dest: transactions.get_key dest!: resolution_body_step)

lemma reconfirm_moves [moving]:
  "orders_wf s \<Longrightarrow> submit_buyer_reconfirmation E tid u accepted nt s = (s', r) \<Longrightarrow> moves (admits E (Reconfirm tid u accepted nt) s) s s'"
  unfolding submit_buyer_reconfirmation_def
  by (erule moves_atomic)
    (auto split: if_splits option.splits simp: guards intro!: movesI dest: transactions.get_key dest!: reconfirmation_body_step)

lemma escalate_moves [moving]:
  "orders_wf s \<Longrightarrow> escalate_dispute E tid u reason s = (s', r) \<Longrightarrow> moves (admits E (Escalate tid u reason) s) s s'"
  unfolding escalate_dispute_def
  by (erule moves_atomic)
    (auto split: if_splits option.splits intro!: movesI dest: transactions.get_key dest!: escalate_body_step)

lemma force_resolve_moves [moving]:
  "orders_wf s \<Longrightarrow> force_resolve_dispute_case E did dec reason who share s = (s', r) \<Longrightarrow>
   moves (admits E (ForceResolve did dec reason who share) s) s s'"
  unfolding force_resolve_dispute_case_def Let_def
  by (erule moves_atomic)
    (auto split: if_splits option.splits intro!: movesI dest: transactions.get_key dest!: force_resolve_body_step)

lemma confirm_otp_moves [moving]:
  assumes wf: "orders_wf s" and h: "confirm_buyer_delivery_otp E tid u code s = (s', r)"
  shows "moves (admits E (ConfirmOtp tid u code) s) s s'"
proof (cases "\<exists>t l. get_transaction tid s = Some t \<and> get_listing (tx_listing t) s = Some l \<and> is_buyer u t \<and>
    tx_status t = AT_DOOR_PENDING_INSPECTION \<and> verify_delivery_otp E code (tx_delivery_otp_hash t)")
  case True
  then obtain t l where t: "get_transaction tid s = Some t" "get_listing (tx_listing t) s = Some l" "is_buyer u t"
    "tx_status t = AT_DOOR_PENDING_INSPECTION" "verify_delivery_otp E code (tx_delivery_otp_hash t)" by blast
  then have a: "atomic s (otp_body E t l u s) = (s', r)" using h by (simp add: confirm_buyer_delivery_otp_def is_buyer_def)
  show ?thesis using otp_body_step [OF _ wf t(1,4)] t transactions.get_key [OF t(1)]
    by (intro moves_atomic [OF a] movesI [OF t(1)]) (auto simp: serialized_item_def)
next
  case False
  have "idle s (save_transaction (e_now E) (t\<lparr>tx_otp_failed_attempts := n\<rparr>) s)" if "get_transaction tid s = Some t" for t n
    using that transactions.get_key [OF that] by (intro save_idle [of _ _ t]) (auto simp: same_order_def)
  then have "idle s s'" using h False by (auto simp: confirm_buyer_delivery_otp_def is_buyer_def split: if_splits option.splits)
  then show ?thesis by (simp add: moves_def)
qed

lemma resolved_moves [moving]:
  "orders_wf s \<Longrightarrow> submit_buyer_resolution_confirmation E tid u s = (s', r) \<Longrightarrow> moves (admits E (BuyerResolved tid u) s) s s'"
  "orders_wf s \<Longrightarrow> submit_seller_resolution_confirmation E tid u s = (s', r') \<Longrightarrow> moves (admits E (SellerResolved tid u) s) s s'"
  using buyer_confirmation.handler_steps [of s E tid u s' r] seller_confirmation.handler_steps [of s E tid u s' r'] not_documented_0
  by (auto simp: moves_def)

text \<open>Every change of a status is one the request admits.\<close>

lemma perform_moves:
  assumes wf: "orders_wf s" and t: "get_transaction i s = Some t" "get_transaction i (fst (perform E q s)) = Some t'"
    and "tx_status t' \<noteq> tx_status t"
  shows "admits E q s t (tx_status t')"
proof (cases "\<exists>n. q = TimeoutSweep n")
  case True
  then obtain n where q: "q = TimeoutSweep n" ..
  show ?thesis
  proof (cases "run_timeout_jobs E n s")
    case (Pair s' r)
    then obtain x where "r = Inr x" using t assms(4) q by (cases r) (auto simp: run_timeout_jobs_def Let_def atomic_eq_Inl)
    then have "swept_to (case n of None \<Rightarrow> e_now E | Some x \<Rightarrow> x) timed s s'" using sweep_all [OF wf] Pair by simp
    from swept_toD [OF this t(1)] show ?thesis using t(2) Pair q assms(4) by (auto split: if_splits)
  qed
next
  case False
  have "moves (admits E q s) s (fst (perform E q s))"
    using False wf by (cases q) (auto simp del: admits.simps intro: moving [OF wf] surjective_pairing)
  then show ?thesis by (rule moved_order [OF _ t assms(4)])
qed

section \<open>Failed requests\<close>

text \<open>A failed request wrote nothing, but for the attempt a wrong delivery code counts.\<close>

definition counted_attempt :: "env \<Rightarrow> request \<Rightarrow> db \<Rightarrow> db \<Rightarrow> bool" where
  "counted_attempt E q s s' = (case q of ConfirmOtp tid u code \<Rightarrow> (case get_transaction tid s of None \<Rightarrow> False
       | Some t \<Rightarrow> is_buyer u t \<and> tx_status t = AT_DOOR_PENDING_INSPECTION \<and> \<not> verify_delivery_otp E code (tx_delivery_otp_hash t) \<and>
           s' = save_transaction (e_now E) (t\<lparr>tx_otp_failed_attempts := tx_otp_failed_attempts t + 1\<rparr>) s)
     | _ \<Rightarrow> False)"

lemma outcome_atomic: "outcome (atomic s m) = (s', Some e) \<Longrightarrow> s' = s"
  by (auto simp: outcome_def atomic_def split: sum.splits)

lemma otp_failed:
  "outcome (confirm_buyer_delivery_otp E tid u code s) = (s', Some e) \<Longrightarrow> s' = s \<or> counted_attempt E (ConfirmOtp tid u code) s s'"
  by (auto simp: confirm_buyer_delivery_otp_def counted_attempt_def is_buyer_def outcome_def [of "(_, _)"]
      split: if_splits option.splits dest: outcome_atomic)

lemma callback_failed: "outcome (confirm_payment_callback E cb s) = (s', Some e) \<Longrightarrow> s' = s"
  by (auto simp: confirm_payment_callback_def Let_def outcome_def [of "(_, _)"] split: if_splits option.splits dest: outcome_atomic)

lemma perform_failed: "perform E q s = (s', Some e) \<Longrightarrow> s' = s \<or> counted_attempt E q s s'"
  by (cases q) (auto dest: callback_failed otp_failed outcome_atomic
      simp: dispatch_transaction_def mark_transaction_arrived_def withhold_buyer_delivery_otp_def report_functional_issue_def
        mark_buyer_sent_back_def mark_seller_received_def apply_seller_resolution_action_def submit_buyer_reconfirmation_def
        submit_buyer_resolution_confirmation_def submit_seller_resolution_confirmation_def escalate_dispute_def
        force_resolve_dispute_case_def run_timeout_jobs_def Let_def)

end
