(* ===== verification/Evaluation.thy ===== *)
theory Evaluation
  imports Authority
begin

text \<open>
  How the witnesses are evaluated: facts about the sample orders, congruences that make the simplifier
  work through a handler from its first statement to its last, and the definitions it unfolds.
\<close>

lemma sample_wf [simp]: "distinct (map tx_id orders) \<Longrightarrow> \<forall>t \<in> set orders. tx_amount t = 150000 \<Longrightarrow> orders_wf (sample_db b orders cases)"
  by (auto simp: orders_wf_def outbox_wf_def small_amount_def sample_db_def)

lemma sample_owed [simp]: "\<forall>t \<in> set orders. \<not> paying (tx_status t) \<Longrightarrow> money_owed (sample_db b orders cases)"
  by (auto simp: money_owed_def tx_payouts_def find_escrow_for_transaction_def sample_db_def get_transaction_def
      dest: row_get_SomeD)

section \<open>Evaluation\<close>

text \<open>Congruences that keep the simplifier out of a continuation until its argument is a value.\<close>

lemma bindE_arg: "m = m' \<Longrightarrow> bindE m f = bindE m' f"
  by simp

lemma case_prod_arg: "p = p' \<Longrightarrow> case_prod f p = case_prod f p'"
  by simp

lemmas argument_first = bindE_arg case_prod_arg let_weak_cong

lemma sample_ids: "uuid_str 5 = ''00000000-0000-0000-0000-000000000005''" "uuid_str 10 = ''00000000-0000-0000-0000-00000000000a''"
  "uuid_str 11 = ''00000000-0000-0000-0000-00000000000b''" "uuid_str 20 = ''00000000-0000-0000-0000-000000000014''"
  by code_simp+

lemma sample_rail: "\<not> has_table ''rail_health'' s \<Longrightarrow> select_payout_rail_for_routing sample_registry now s = (Inr ''simulated'', s)"
  by (simp add: select_payout_rail_for_routing_def blocked_rails_for_routing_def select_payout_rail_def ordered_payout_rail_names_def
      sample_registry_def LIVE_PAYOUT_RAILS_def)

lemmas eval_text = strip_def lstrip_def py_isspace_def py_lower_def py_lower_char_def or_text.simps sample_ids

lemmas eval_log = transition_transaction_def record_transition_def transition_payload_def actor_def actor_defs
  record_anchor_event_def anchoring_ready_def has_table_def commit_order_def record_money_audit_event_def
  record_dispute_event_def dispute_payload_def notify_parties_def add_notification_def

lemmas eval_queue = queue_refund_full_def queue_release_full_def enqueue_payout_intent_def outbox_ready_def
  ensure_escrow_for_transaction_def find_escrow_for_transaction_def normalize_amount_cents new_escrow_def live_payouts_def
  payouts_of_def newest_attempt_def add_payout_attempt_def resolve_destination_phone_def payout_rail_for_escrow_def
  get_user_def get_escrow_def insert_payout_def system_service_def default_payout_rail_name_def
  sample_rail [unfolded sample_registry_def has_table_def]

lemmas eval_sweep = run_timeout_jobs_def due_queries since_def AT_DOOR_INSPECTION_WINDOW_def NO_DISPATCH_WINDOW_def HOLD_WINDOW_def
  RETURN_SEND_WINDOW_def RETURN_RECEIPT_WINDOW_def time_units at_door_timeout_def locked_timeout_def hold_timeout_def
  unsent_timeout_def close_unsent_case_def unreceived_timeout_def apply_withheld_return_refund_flow_def create_timeout_notifications_def

lemmas eval_store = get_transaction_def save_transaction_def put_transaction_def row_put_def get_listing_def atomic_def Let_def

lemmas evaluate = sample_defs eval_text eval_log eval_queue eval_store

end
