(* ===== verification/Merkle.thy ===== *)
theory Merkle
  imports Anchoring
begin

text \<open>
  The Merkle tree over anchoring leaves (app/services/anchoring/merkle.py): roots, inclusion proofs
  and their verification. The cache of subtree roots is not modelled: it holds values of a pure
  function. Python's \<open>bit_length\<close> is written out.
\<close>

section \<open>The tree\<close>

record proof_step =
  ps_sibling :: bytes
  ps_side :: string

definition node_hash :: "env \<Rightarrow> bytes \<Rightarrow> bytes \<Rightarrow> bytes" where
  "node_hash E left right = keccak256 E [NODE_PREFIX, left, right]"

fun bit_length :: "nat \<Rightarrow> nat" where
  "bit_length n = (if n = 0 then 0 else Suc (bit_length (n div 2)))"

declare bit_length.simps [simp del]

definition split_point :: "nat \<Rightarrow> exn + nat" where
  "split_point n = (if n < 2 then Inl (ValueError ''A split needs at least two leaves.'')
     else Inr (2 ^ (bit_length (n - 1) - 1)))"

text \<open>Where a range of at least two leaves splits.\<close>

definition middle :: "nat \<Rightarrow> nat \<Rightarrow> nat" where
  "middle a b = a + (case split_point (b - a) of Inl _ \<Rightarrow> 0 | Inr k \<Rightarrow> k)"

lemma bit_length_bounds: "0 < n \<Longrightarrow> 0 < bit_length n \<and> 2 ^ (bit_length n - 1) \<le> n \<and> n < 2 ^ bit_length n"
proof (induction n rule: bit_length.induct)
  case (1 n)
  show ?case
  proof (cases "n = 1")
    case True
    then show ?thesis by (simp add: bit_length.simps [of "Suc 0"] bit_length.simps [of 0])
  next
    case False
    then have "0 < n div 2" using 1(2) by simp
    with 1(1) 1(2) have "0 < bit_length (n div 2)" "2 ^ (bit_length (n div 2) - 1) \<le> n div 2" "n div 2 < 2 ^ bit_length (n div 2)"
      by auto
    moreover have "bit_length n = Suc (bit_length (n div 2))" using 1(2) by (simp add: bit_length.simps [of n])
    ultimately show ?thesis by (cases "bit_length (n div 2)") auto
  qed
qed

lemma middle_bounds:
  assumes "\<not> b - a \<le> Suc 0"
  shows "a < middle a b \<and> middle a b < b"
proof -
  have "0 < b - a - 1" using assms by simp
  with bit_length_bounds [OF this] have "2 ^ (bit_length (b - a - 1) - 1) \<le> b - a - 1" by simp
  moreover have "middle a b = a + 2 ^ (bit_length (b - a - 1) - 1)" using assms by (auto simp: middle_def split_point_def)
  ultimately show ?thesis using assms by simp
qed

lemma middle_measure:
  assumes "\<not> b - a \<le> Suc 0"
  shows "middle a b - a < b - a" "b - middle a b < b - a"
  using middle_bounds [OF assms] by arith+

function subtree_root :: "env \<Rightarrow> bytes list \<Rightarrow> nat \<Rightarrow> nat \<Rightarrow> bytes" where
  "subtree_root E leaves a b = (if b - a \<le> 1 then leaves ! a
     else node_hash E (subtree_root E leaves a (middle a b)) (subtree_root E leaves (middle a b) b))"
  by auto
termination
  by (relation "measure (\<lambda>(E, leaves, a, b). b - a)") (auto simp: middle_measure)

declare subtree_root.simps [simp del]

definition merkle_tree :: "bytes list \<Rightarrow> exn + bytes list" where
  "merkle_tree leaves = (if leaves = [] then Inl (ValueError ''A Merkle tree needs at least one leaf.'')
     else if list_ex (\<lambda>l. length l \<noteq> HASH_SIZE) leaves then Inl (ValueError ''Leaves must be 32-byte hashes.'')
     else Inr leaves)"

definition merkle_root :: "env \<Rightarrow> bytes list \<Rightarrow> exn + bytes" where
  "merkle_root E leaves = bindE (merkle_tree leaves) (\<lambda>ls. Inr (subtree_root E ls 0 (length ls)))"

section \<open>Proofs\<close>

text \<open>The loop of \<open>MerkleTree.proof\<close>: the steps in the order it appends them, from the root down.\<close>

function proof_walk :: "env \<Rightarrow> bytes list \<Rightarrow> nat \<Rightarrow> nat \<Rightarrow> nat \<Rightarrow> proof_step list" where
  "proof_walk E leaves i a b = (if b - a \<le> 1 then []
     else if i < middle a b
       then \<lparr>ps_sibling = subtree_root E leaves (middle a b) b, ps_side = ''right''\<rparr> # proof_walk E leaves i a (middle a b)
     else \<lparr>ps_sibling = subtree_root E leaves a (middle a b), ps_side = ''left''\<rparr> # proof_walk E leaves i (middle a b) b)"
  by auto
termination
  by (relation "measure (\<lambda>(E, leaves, i, a, b). b - a)") (auto simp: middle_measure)

declare proof_walk.simps [simp del]

definition merkle_proof :: "env \<Rightarrow> bytes list \<Rightarrow> int \<Rightarrow> exn + proof_step list" where
  "merkle_proof E leaves index = (if 0 \<le> index \<and> index < int (length leaves)
     then Inr (rev (proof_walk E leaves (nat index) 0 (length leaves)))
     else Inl (IndexError ''Leaf index out of range.''))"

function side_walk :: "nat \<Rightarrow> nat \<Rightarrow> nat \<Rightarrow> string list" where
  "side_walk i a b = (if b - a \<le> 1 then []
     else if i < middle a b then ''right'' # side_walk i a (middle a b) else ''left'' # side_walk i (middle a b) b)"
  by auto
termination
  by (relation "measure (\<lambda>(i, a, b). b - a)") (auto simp: middle_measure)

declare side_walk.simps [simp del]

definition proof_sides :: "int \<Rightarrow> int \<Rightarrow> exn + string list" where
  "proof_sides index n = (if 0 \<le> index \<and> index < n then Inr (rev (side_walk (nat index) 0 (nat n)))
     else Inl (IndexError ''Leaf index out of range.''))"

fun root_from_proof :: "env \<Rightarrow> bytes \<Rightarrow> proof_step list \<Rightarrow> exn + bytes" where
  "root_from_proof E running [] = Inr running"
| "root_from_proof E running (st # sts) = (if length (ps_sibling st) \<noteq> HASH_SIZE
       then Inl (ValueError ''Proof siblings must be 32-byte hashes.'')
     else if ps_side st = ''left'' then root_from_proof E (node_hash E (ps_sibling st) running) sts
     else if ps_side st = ''right'' then root_from_proof E (node_hash E running (ps_sibling st)) sts
     else Inl (ValueError (''Unknown proof side '' @ [CHR 0x27] @ ps_side st @ [CHR 0x27] @ ''.'')))"

text \<open>The errors of the computation itself make the answer false.\<close>

definition verify_inclusion :: "env \<Rightarrow> bytes \<Rightarrow> proof_step list \<Rightarrow> bytes \<Rightarrow> int option \<Rightarrow> int option \<Rightarrow> exn + bool" where
  "verify_inclusion E leaf steps root index sz = (
     if (index = None) \<noteq> (sz = None) then Inl (ValueError ''Pass both index and size, or neither.'')
     else (case (index, sz) of
         (Some i, Some n) \<Rightarrow> (case proof_sides i n of Inl _ \<Rightarrow> Inr False
           | Inr sides \<Rightarrow> if map ps_side steps \<noteq> sides then Inr False
             else Inr (root_from_proof E leaf steps = Inr root))
       | _ \<Rightarrow> Inr (root_from_proof E leaf steps = Inr root)))"

section \<open>Every leaf has a proof\<close>

lemma root_from_proof_append:
  "root_from_proof E r (xs @ ys) = bindE (root_from_proof E r xs) (\<lambda>r'. root_from_proof E r' ys)"
  by (induction xs arbitrary: r) auto

lemma node_hash_keccak: "node_hash E l r = e_keccak E (NODE_PREFIX @ l @ r)"
  by (simp add: node_hash_def keccak256_def)

definition hashes_32 :: "env \<Rightarrow> bool" where
  "hashes_32 E = (\<forall>bs. length (e_keccak E bs) = HASH_SIZE)"

definition leaves_32 :: "bytes list \<Rightarrow> bool" where
  "leaves_32 leaves = (\<forall>l \<in> set leaves. length l = HASH_SIZE)"

lemma subtree_root_length:
  "hashes_32 E \<Longrightarrow> leaves_32 leaves \<Longrightarrow> a < b \<Longrightarrow> b \<le> length leaves \<Longrightarrow> length (subtree_root E leaves a b) = HASH_SIZE"
  by (subst subtree_root.simps) (auto simp: node_hash_keccak hashes_32_def leaves_32_def)

lemma walk_sides: "map ps_side (proof_walk E leaves i a b) = side_walk i a b"
proof (induction E leaves i a b rule: proof_walk.induct)
  case (1 E leaves i a b)
  then show ?case by (simp add: proof_walk.simps [of E leaves i a b] side_walk.simps [of i a b])
qed

lemma walk_root:
  assumes "hashes_32 E" and "leaves_32 leaves"
  shows "a \<le> i \<Longrightarrow> i < b \<Longrightarrow> b \<le> length leaves \<Longrightarrow>
    root_from_proof E (leaves ! i) (rev (proof_walk E leaves i a b)) = Inr (subtree_root E leaves a b)"
  using assms
proof (induction E leaves i a b rule: proof_walk.induct)
  case (1 E leaves i a b)
  show ?case
  proof (cases "b - a \<le> 1")
    case True
    then have "i = a" using 1(3,4) by arith
    then show ?thesis using True 1(3-5) by (simp add: proof_walk.simps [of E leaves a a b] subtree_root.simps [of E leaves a b])
  next
    case False
    note m = middle_bounds [of b a]
    show ?thesis using False m 1 subtree_root_length [of E leaves a "middle a b"] subtree_root_length [of E leaves "middle a b" b]
      by (simp add: proof_walk.simps [of E leaves i a b] subtree_root.simps [of E leaves a b] root_from_proof_append)
  qed
qed

section \<open>Only the leaf has a proof\<close>

text \<open>The byte strings hashed for a tree and for a proof.\<close>

function tree_inputs :: "env \<Rightarrow> bytes list \<Rightarrow> nat \<Rightarrow> nat \<Rightarrow> bytes list" where
  "tree_inputs E leaves a b = (if b - a \<le> 1 then []
     else (NODE_PREFIX @ subtree_root E leaves a (middle a b) @ subtree_root E leaves (middle a b) b) #
       tree_inputs E leaves a (middle a b) @ tree_inputs E leaves (middle a b) b)"
  by auto
termination
  by (relation "measure (\<lambda>(E, leaves, a, b). b - a)") (auto simp: middle_measure)

declare tree_inputs.simps [simp del]

fun proof_inputs :: "env \<Rightarrow> bytes \<Rightarrow> proof_step list \<Rightarrow> bytes list" where
  "proof_inputs E running [] = []"
| "proof_inputs E running (st # sts) =
     (let l = (if ps_side st = ''left'' then ps_sibling st else running); r = (if ps_side st = ''left'' then running else ps_sibling st) in
      (NODE_PREFIX @ l @ r) # proof_inputs E (node_hash E l r) sts)"

definition no_node_collision :: "env \<Rightarrow> bytes set \<Rightarrow> bool" where
  "no_node_collision E inputs = inj_on (e_keccak E) inputs"

lemma no_node_collisionD: "no_node_collision E S \<Longrightarrow> NODE_PREFIX @ x \<in> S \<Longrightarrow> NODE_PREFIX @ y \<in> S \<Longrightarrow>
    e_keccak E (NODE_PREFIX @ x) = e_keccak E (NODE_PREFIX @ y) \<Longrightarrow> x = y"
  by (auto simp: no_node_collision_def dest: inj_onD)

lemma proof_inputs_append:
  "root_from_proof E r xs = Inr r' \<Longrightarrow> proof_inputs E r (xs @ ys) = proof_inputs E r xs @ proof_inputs E r' ys"
  by (induction xs arbitrary: r) (auto simp: Let_def split: if_splits)

lemma proof_only_for_leaf:
  assumes "hashes_32 E" and "leaves_32 leaves"
  shows "a \<le> i \<Longrightarrow> i < b \<Longrightarrow> b \<le> length leaves \<Longrightarrow> map ps_side steps = rev (side_walk i a b) \<Longrightarrow>
    root_from_proof E leaf steps = Inr (subtree_root E leaves a b) \<Longrightarrow>
    no_node_collision E S \<Longrightarrow> set (tree_inputs E leaves a b) \<subseteq> S \<Longrightarrow> set (proof_inputs E leaf steps) \<subseteq> S \<Longrightarrow> leaf = leaves ! i"
proof (induction i a b arbitrary: steps rule: side_walk.induct)
  case (1 i a b)
  show ?case
  proof (cases "b - a \<le> 1")
    case True
    then have "steps = []" using 1(6) by (simp add: side_walk.simps [of i a b])
    moreover have "i = a" using True 1(3,4) by arith
    ultimately show ?thesis using 1 True by (simp add: subtree_root.simps [of E leaves a b])
  next
    case False
    define m where "m = middle a b"
    have m: "a < m" "m < b" using middle_bounds [of b a] False by (auto simp: m_def)
    have sub: "subtree_root E leaves a b = e_keccak E (NODE_PREFIX @ subtree_root E leaves a m @ subtree_root E leaves m b)"
      using False by (simp add: subtree_root.simps [of E leaves a b] node_hash_keccak m_def)
    have len: "length (subtree_root E leaves a m) = HASH_SIZE" "length (subtree_root E leaves m b) = HASH_SIZE"
      using subtree_root_length [OF assms] m 1 by auto
    have ti: "NODE_PREFIX @ subtree_root E leaves a m @ subtree_root E leaves m b \<in> S"
      "set (tree_inputs E leaves a m) \<subseteq> S" "set (tree_inputs E leaves m b) \<subseteq> S"
      using 1 False by (auto simp: tree_inputs.simps [of E leaves a b] m_def)
    define sd where "sd = (if i < m then ''right'' else ''left'')"
    have "map ps_side steps = rev (if i < m then side_walk i a m else side_walk i m b) @ [sd]"
      using 1 False by (simp add: side_walk.simps [of i a b] m_def sd_def)
    then obtain init st where st: "steps = init @ [st]" "ps_side st = sd"
      "map ps_side init = rev (if i < m then side_walk i a m else side_walk i m b)"
      by (auto simp: map_eq_append_conv)
    obtain r where r: "root_from_proof E leaf init = Inr r" "length (ps_sibling st) = HASH_SIZE"
      "(if i < m then node_hash E r (ps_sibling st) else node_hash E (ps_sibling st) r) = subtree_root E leaves a b"
      using 1 st(1,2) by (auto simp: root_from_proof_append bindE_eq_Inr sd_def split: if_splits)
    have pin: "set (proof_inputs E leaf init) \<subseteq> S"
      "NODE_PREFIX @ (if i < m then r @ ps_sibling st else ps_sibling st @ r) \<in> S"
      using 1 st(1,2) by (auto simp: proof_inputs_append [OF r(1)] sd_def Let_def split: if_splits)
    have "e_keccak E (NODE_PREFIX @ (if i < m then r @ ps_sibling st else ps_sibling st @ r)) =
        e_keccak E (NODE_PREFIX @ subtree_root E leaves a m @ subtree_root E leaves m b)"
      using r(3) sub by (cases "i < m") (simp_all add: node_hash_keccak)
    from no_node_collisionD [OF 1(8) pin(2) ti(1) this]
    have r': "r = (if i < m then subtree_root E leaves a m else subtree_root E leaves m b)"
      using len r(2) by (cases "i < m") simp_all
    show ?thesis
    proof (cases "i < m")
      case True
      have "root_from_proof E leaf init = Inr (subtree_root E leaves a m)" using r(1) r' True by simp
      from 1(1) [OF False True [unfolded m_def] 1(3) _ _ _ this [unfolded m_def] 1(8)] show ?thesis
        using True st(3) ti(2) pin(1) m 1(5) by (simp add: m_def)
    next
      case F: False
      have "root_from_proof E leaf init = Inr (subtree_root E leaves m b)" using r(1) r' F by simp
      from 1(2) [OF False F [unfolded m_def] _ 1(4,5) _ this [unfolded m_def] 1(8)] show ?thesis
        using F st(3) ti(3) pin(1) by (simp add: m_def)
    qed
  qed
qed

section \<open>Properties\<close>

text \<open>C35: Every leaf of a tree has an inclusion proof, and the verification accepts it for that leaf, index
  and tree size (with a hash function of 32-byte values, as Keccak-256 is).\<close>

lemma merkle_proof_verifies:
  assumes "hashes_32 E" and "merkle_root E leaves = Inr root" and "0 \<le> i" and "i < int (length leaves)"
  shows "\<exists>steps. merkle_proof E leaves i = Inr steps \<and>
    verify_inclusion E (leaves ! nat i) steps root (Some i) (Some (int (length leaves))) = Inr True"
proof -
  have l: "leaves_32 leaves" "root = subtree_root E leaves 0 (length leaves)"
    using assms(2) by (auto simp: merkle_root_def merkle_tree_def bindE_eq_Inr leaves_32_def list_ex_iff split: if_splits)
  from assms(3,4) walk_root [OF assms(1) l(1), of 0 "nat i" "length leaves"] show ?thesis
    by (simp add: merkle_proof_def verify_inclusion_def proof_sides_def rev_map [symmetric] walk_sides l(2))
qed

lemma merkle_proof_verifies_witness:
  "\<exists>root steps. merkle_root (sample_env 0) [replicate 32 1, replicate 32 2, replicate 32 3] = Inr root \<and>
     verify_inclusion (sample_env 0) (replicate 32 3) steps root (Some 2) (Some 3) = Inr True"
proof -
  let ?l = "[replicate 32 1, replicate 32 2, replicate 32 3] :: bytes list"
  have "hashes_32 (sample_env 0)" by (simp add: hashes_32_def sample_env_def HASH_SIZE_def)
  moreover have "merkle_root (sample_env 0) ?l = Inr (subtree_root (sample_env 0) ?l 0 3)"
    by (simp add: merkle_root_def merkle_tree_def HASH_SIZE_def numeral_3_eq_3)
  ultimately show ?thesis using merkle_proof_verifies [of "sample_env 0" ?l _ 2] by auto
qed

text \<open>C10: Only the leaf at a position has an inclusion proof there: what the verification accepts for an index
  of the tree of a root is the leaf at that index, unless two byte strings hashed for the tree or for
  the proof collide. A proof cannot be replayed for another leaf or another position.\<close>

lemma merkle_proof_binds_leaf:
  assumes "hashes_32 E" and "merkle_root E leaves = Inr root"
    and "verify_inclusion E leaf steps root (Some i) (Some (int (length leaves))) = Inr True"
    and "no_node_collision E (set (tree_inputs E leaves 0 (length leaves)) \<union> set (proof_inputs E leaf steps))"
  shows "0 \<le> i \<and> i < int (length leaves) \<and> leaf = leaves ! nat i"
proof -
  have l: "leaves_32 leaves" "root = subtree_root E leaves 0 (length leaves)"
    using assms(2) by (auto simp: merkle_root_def merkle_tree_def bindE_eq_Inr leaves_32_def list_ex_iff split: if_splits)
  have v: "0 \<le> i" "i < int (length leaves)" "map ps_side steps = rev (side_walk (nat i) 0 (length leaves))"
    "root_from_proof E leaf steps = Inr root"
    using assms(3) by (auto simp: verify_inclusion_def proof_sides_def split: sum.splits if_splits)
  then have "leaf = leaves ! nat i"
    by (intro proof_only_for_leaf [OF assms(1) l(1) _ _ order_refl v(3) _ assms(4)]) (auto simp: l(2))
  with v show ?thesis by simp
qed

lemma merkle_proof_binds_leaf_witness:
  "verify_inclusion (sample_env 0) (replicate 32 1) [\<lparr>ps_sibling = replicate 32 2, ps_side = ''right''\<rparr>] (replicate 32 0) (Some 0) (Some 2)
     = Inr True \<and> (replicate 32 1 :: bytes) = [replicate 32 1, replicate 32 2] ! nat 0"
proof -
  let ?E = "sample_env 0" and ?l = "[replicate 32 1, replicate 32 2] :: bytes list"
  let ?st = "[\<lparr>ps_sibling = replicate 32 2, ps_side = ''right''\<rparr>] :: proof_step list"
  have h: "hashes_32 ?E" by (simp add: hashes_32_def sample_env_def HASH_SIZE_def)
  have bl: "bit_length (Suc 0) = 1" by (simp add: bit_length.simps [of "Suc 0"] bit_length.simps [of 0])
  have m: "middle 0 2 = 1" by (simp add: middle_def split_point_def bl)
  have s: "subtree_root ?E ?l 0 1 = replicate 32 1" "subtree_root ?E ?l 1 2 = replicate 32 2"
    by (subst subtree_root.simps, simp)+
  have k: "node_hash ?E x y = replicate 32 0" for x y by (simp add: node_hash_keccak sample_env_def)
  have "subtree_root ?E ?l 0 2 = replicate 32 0" by (subst subtree_root.simps) (simp add: k)
  then have r: "merkle_root ?E ?l = Inr (replicate 32 0)"
    by (simp add: merkle_root_def merkle_tree_def HASH_SIZE_def numeral_2_eq_2)
  have sw: "side_walk 0 0 2 = [''right'']" by (simp add: side_walk.simps [of 0 0 2] side_walk.simps [of 0 0 "Suc 0"] m)
  have v: "verify_inclusion ?E (replicate 32 1) ?st (replicate 32 0) (Some 0) (Some (int (length ?l))) = Inr True"
    using sw by (simp add: verify_inclusion_def proof_sides_def HASH_SIZE_def k numeral_2_eq_2)
  have ti: "tree_inputs ?E ?l 0 2 = [NODE_PREFIX @ replicate 32 1 @ replicate 32 2]"
    using s by (simp add: tree_inputs.simps [of ?E ?l 0 2] tree_inputs.simps [of ?E ?l 0 "Suc 0"] tree_inputs.simps [of ?E ?l "Suc 0" 2] m)
  have "no_node_collision ?E (set (tree_inputs ?E ?l 0 (length ?l)) \<union> set (proof_inputs ?E (replicate 32 1) ?st))"
    using ti by (simp add: no_node_collision_def numeral_2_eq_2)
  from merkle_proof_binds_leaf [OF h r v this] v show ?thesis by (simp add: numeral_2_eq_2)
qed

end
