(* ===== verification/Guarantees.thy ===== *)
theory Guarantees
  imports Evaluation Merkle
begin

text \<open>
  What each component promises, stated over its operations: the timeout sweep, the delivery code, the
  rail breaker and the choice of rails, the ledger, the split and the queueing of payouts.
\<close>

section \<open>The timeout sweep\<close>

lemma sample_overdue: "overdue (days 30) (sample_order 10 LOCKED)"
  by (simp add: overdue_def deadlines_for_def no_deadlines_def after_def NO_DISPATCH_WINDOW_def sample_order_def Let_def time_units)

lemma sample_sweep: "\<exists>s' r. run_timeout_jobs (sample_env 7) (Some (days 30)) (sample_db True [sample_order 10 LOCKED] []) = (s', Inr r)"
proof -
  have "\<exists>r. snd (run_timeout_jobs (sample_env 7) (Some (days 30)) (sample_db True [sample_order 10 LOCKED] [])) = Inr r"
    by (simp add: eval_sweep evaluate cong: argument_first)
  then show ?thesis by (metis prod.collapse)
qed

text \<open>C5: A sweep at a time moves exactly the orders whose deadline has come by then, each to the target of
  its rule (refund for a missed dispatch or inspection, release for a hold or an unsent return,
  escalation for an unconfirmed return), and leaves every other order as it is.\<close>

lemma sweep_moves_the_overdue:
  assumes "orders_wf s" and "run_timeout_jobs E n s = (s', Inr r)" and "get_transaction i s = Some t"
  shows "if overdue (case n of None \<Rightarrow> e_now E | Some x \<Rightarrow> x) t
    then \<exists>t'. get_transaction i s' = Some t' \<and> same_order t t' \<and> tx_status t' = timeout_target (tx_status t)
    else get_transaction i s' = Some t"
  using swept_toD [OF sweep_all [OF assms(1,2)] assms(3)] overdue_status [of _ t]
  by (auto simp: timed_def split: if_splits)

lemma sweep_moves_the_overdue_witness:
  "\<exists>t'. get_transaction 10 (fst (run_timeout_jobs (sample_env 7) (Some (days 30)) (sample_db True [sample_order 10 LOCKED] []))) = Some t' \<and>
     tx_status t' = REFUNDED_BUYER"
proof -
  from sample_sweep obtain s' r where r: "run_timeout_jobs (sample_env 7) (Some (days 30)) (sample_db True [sample_order 10 LOCKED] []) = (s', Inr r)"
    by blast
  show ?thesis using sweep_moves_the_overdue [OF _ r, of 10 "sample_order 10 LOCKED"] r sample_overdue by (auto simp: timeout_target_def)
qed

lemma sweep_result_eq: "run_timeout_jobs E n s = (s', Inr r) \<Longrightarrow>
    sweep_total r = length (filter (overdue (case n of None \<Rightarrow> e_now E | Some x \<Rightarrow> x)) (d_transactions s))"
  unfolding run_timeout_jobs_def Let_def count_overdue
  by (auto simp: atomic_eq_Inr bindE_eq_Inr sweep_total_def due_filters)

text \<open>The counts a sweep reports add up to the number of orders whose deadline had come.\<close>

lemma sweep_counts_the_overdue:
  assumes "run_timeout_jobs E n s = (s', Inr r)"
  shows "sweep_total r = length (filter (overdue (case n of None \<Rightarrow> e_now E | Some x \<Rightarrow> x)) (d_transactions s))"
  by (rule sweep_result_eq [OF assms])

lemma sweep_counts_the_overdue_witness:
  "\<exists>r. snd (run_timeout_jobs (sample_env 7) (Some (days 30)) (sample_db True [sample_order 10 LOCKED] [])) = Inr r \<and> sweep_total r = 1"
proof -
  from sample_sweep obtain s' r where r: "run_timeout_jobs (sample_env 7) (Some (days 30)) (sample_db True [sample_order 10 LOCKED] []) = (s', Inr r)"
    by blast
  show ?thesis using sweep_counts_the_overdue [OF r] r sample_overdue by simp
qed

text \<open>C37: A sweep run again for the same time finds nothing left to do: it reports zero orders and leaves the
  database as it is.\<close>

lemma second_sweep_does_nothing:
  assumes "orders_wf s" and "run_timeout_jobs E (Some now) s = (s', Inr r)"
  shows "\<exists>r'. run_timeout_jobs E' (Some now) s' = (s', Inr r') \<and> sweep_total r' = 0"
proof -
  have "\<forall>t \<in> set (d_transactions s'). \<not> overdue now t"
    using not_overdue_after [OF assms(1), of now s'] sweep_all [OF assms] by simp
  from no_due [OF this] show ?thesis by (simp add: run_timeout_jobs_def atomic_def sweep_total_def)
qed

lemma second_sweep_does_nothing_witness:
  "\<exists>s' r'. run_timeout_jobs (sample_env 9) (Some (days 30)) s' = (s', Inr r') \<and> sweep_total r' = 0 \<and>
     fst (run_timeout_jobs (sample_env 7) (Some (days 30)) (sample_db True [sample_order 10 LOCKED] [])) = s'"
proof -
  from sample_sweep obtain s' r where r: "run_timeout_jobs (sample_env 7) (Some (days 30)) (sample_db True [sample_order 10 LOCKED] []) = (s', Inr r)"
    by blast
  show ?thesis using second_sweep_does_nothing [OF _ r, of "sample_env 9"] r by auto
qed

section \<open>The delivery code\<close>

lemma otp_body_clears:
  assumes "otp_body E t l u s = Inr (r, s')" and "orders_wf s" and "get_transaction i s = Some t"
  shows "\<exists>t'. get_transaction i s' = Some t' \<and> tx_delivery_otp_hash t' = None"
proof -
  have "\<exists>t2 s2. s' = save_transaction (e_now E) (t2\<lparr>tx_delivery_otp_hash := None, tx_otp_failed_attempts := 0\<rparr>)
      (create_otp_given_notifications E (t2\<lparr>tx_delivery_otp_hash := None, tx_otp_failed_attempts := 0\<rparr>) s2) \<and>
      tx_id t2 = tx_id t \<and> in_flight (tx_id t) s s2"
  proof (cases "l_is_serialized l")
    case True
    define t1 where "t1 = t\<lparr>tx_status := HOLD_24H, tx_hold_started_at := Some (e_now E), tx_released_at := None\<rparr>"
    from assms(1) True obtain s1 where c: "calm s s1"
      and s': "s' = save_transaction (e_now E) (t1\<lparr>tx_delivery_otp_hash := None, tx_otp_failed_attempts := 0\<rparr>)
        (create_otp_given_notifications E (t1\<lparr>tx_delivery_otp_hash := None, tx_otp_failed_attempts := 0\<rparr>) s1)"
      by (auto simp: otp_body_def bindE_eq_Inr Let_def t1_def dest!: transition_calm commit_order_Inr)
    then show ?thesis using calm_in_flight [OF c] by (intro exI [of _ t1] exI [of _ s1]) (simp add: t1_def)
  next
    case False
    define t1 where "t1 = t\<lparr>tx_status := RELEASED, tx_released_at := Some (e_now E), tx_hold_started_at := None\<rparr>"
    from assms(1) False obtain s1 x t2 s2 where c: "calm s s1"
      and q: "queue_release_full E system_service t1 (''tx-release:'' @ uuid_str (tx_id t)) s1 = Inr (x, t2, s2)"
      and s': "s' = save_transaction (e_now E) (t2\<lparr>tx_delivery_otp_hash := None, tx_otp_failed_attempts := 0\<rparr>)
        (create_otp_given_notifications E (t2\<lparr>tx_delivery_otp_hash := None, tx_otp_failed_attempts := 0\<rparr>) s2)"
      by (auto simp: otp_body_def bindE_eq_Inr Let_def t1_def dest!: transition_calm commit_order_Inr)
    have st: "settles t1 t2 s1 s2" by (rule release_settles [OF q calm_wf [OF c assms(2)]])
    have "tx_id t2 = tx_id t1" using settles_same_order [OF st] by (simp add: same_order_def)
    moreover have "in_flight (tx_id t1) s s2" using calm_in_flight [OF c] settles_in_flight [OF st] by (rule in_flight_trans)
    ultimately show ?thesis using s' by (auto simp: t1_def)
  qed
  then obtain t2 s2 where s': "s' = save_transaction (e_now E) (t2\<lparr>tx_delivery_otp_hash := None, tx_otp_failed_attempts := 0\<rparr>)
      (create_otp_given_notifications E (t2\<lparr>tx_delivery_otp_hash := None, tx_otp_failed_attempts := 0\<rparr>) s2)"
    and t2: "tx_id t2 = tx_id t" and f: "in_flight (tx_id t) s s2" by blast
  let ?tF = "t2\<lparr>tx_delivery_otp_hash := None, tx_otp_failed_attempts := 0\<rparr>"
  have "in_flight (tx_id t) s2 (create_otp_given_notifications E ?tF s2)" by (rule calm_in_flight [OF notices_calm(5)])
  with f have "in_flight (tx_id t) s (create_otp_given_notifications E ?tF s2)" by (rule in_flight_trans)
  then have "get_transaction i (create_otp_given_notifications E ?tF s2) = Some t"
    using assms(3) by (simp add: in_flight_def get_transaction_def)
  then show ?thesis using s' t2 transactions.get_key [OF assms(3)] by (auto simp: get_transaction_save)
qed

text \<open>Arriving at the door draws a code that verifies against the hash the order then holds, and writes two
  notifications: the buyer's carries the code, the seller's has a fixed text and no key that depends
  on it.\<close>

lemma delivery_code_goes_to_buyer:
  assumes "get_transaction i s = Some t" and "mark_transaction_arrived E i u s = (s', Inr r)"
  shows "\<exists>code t' b sl. get_transaction i s' = Some t' \<and> verify_delivery_otp E code (tx_delivery_otp_hash t') \<and>
    d_notifications s' = d_notifications s @ [b, sl] \<and>
    n_user b = tx_buyer t \<and> (''delivery_code'', JStr code) \<in> set (n_payload b) \<and>
    n_user sl = tx_seller t \<and> n_message sl = ''Delivery arrival has been recorded and inspection is now pending.'' \<and>
    map fst (n_payload sl) = [''transaction_id'', ''listing_id'', ''at_door_at'']"
proof -
  obtain code s0 where g: "generate_delivery_otp E s = (code, s0)" by force
  define t2 where "t2 = t\<lparr>tx_status := AT_DOOR_PENDING_INSPECTION, tx_at_door_at := Some (e_now E),
    tx_delivery_otp_hash := Some (hash_delivery_otp E code), tx_otp_failed_attempts := 0\<rparr>"
  from assms have body: "arrival_body E t u s = Inr (r, s')" "tx_status t = OUT_FOR_DELIVERY"
    by (auto simp: mark_transaction_arrived_def atomic_eq_Inr split: if_splits option.splits)
  then have "t \<noteq> t2" by (auto simp: t2_def dest: arg_cong [where f = tx_status])
  from body(1) g obtain s1 where l: "logs_only s0 s1" and s': "s' = save_transaction (e_now E) t2 (create_arrival_notifications E t2 code s1)"
    by (auto simp: arrival_body_def bindE_eq_Inr Let_def t2_def dest!: transition_transaction_Inr commit_order_Inr)
  have s0: "d_notifications s1 = d_notifications s" "d_transactions s1 = d_transactions s"
    using g logs_only_frame [OF l] by (auto simp: generate_delivery_otp_def)
  have "\<exists>t'. get_transaction i s' = Some t' \<and> tx_delivery_otp_hash t' = Some (hash_delivery_otp E code)"
  proof -
    have "get_transaction i (create_arrival_notifications E t2 code s1) = Some t"
      using assms(1) s0(2) by (simp add: get_transaction_def calm_get(1) [OF notices_calm(4), unfolded get_transaction_def])
    then show ?thesis using transactions.get_key [OF assms(1)] \<open>t \<noteq> t2\<close> by (simp add: s' get_transaction_save) (simp add: t2_def)
  qed
  moreover have "\<exists>b sl. d_notifications s' = d_notifications s @ [b, sl] \<and>
      n_user b = tx_buyer t \<and> (''delivery_code'', JStr code) \<in> set (n_payload b) \<and>
      n_user sl = tx_seller t \<and> n_message sl = ''Delivery arrival has been recorded and inspection is now pending.'' \<and>
      map fst (n_payload sl) = [''transaction_id'', ''listing_id'', ''at_door_at'']"
    by (simp add: s' t2_def create_arrival_notifications_def notify_parties_def add_notification_def order_keys_def Let_def s0(1))
  ultimately show ?thesis by (fastforce simp: verify_delivery_otp_def)
qed

lemma delivery_code_goes_to_buyer_witness:
  "\<exists>code t'. get_transaction 10 (fst (mark_transaction_arrived (sample_env 7) 10 sample_seller (sample_db True [sample_order 10 OUT_FOR_DELIVERY] []))) = Some t' \<and>
     verify_delivery_otp (sample_env 7) code (tx_delivery_otp_hash t')"
proof -
  let ?s = "sample_db True [sample_order 10 OUT_FOR_DELIVERY] []"
  have "\<exists>r. snd (mark_transaction_arrived (sample_env 7) 10 sample_seller ?s) = Inr r"
    by (simp add: mark_transaction_arrived_def arrival_body_def generate_delivery_otp_def hash_delivery_otp_def
        create_arrival_notifications_def evaluate cong: argument_first)
  then obtain s' r where r: "mark_transaction_arrived (sample_env 7) 10 sample_seller ?s = (s', Inr r)" by (metis prod.collapse)
  show ?thesis using delivery_code_goes_to_buyer [OF _ r, of "sample_order 10 OUT_FOR_DELIVERY"] r by auto
qed

text \<open>C21: The buyer's confirmation succeeds only with the code whose hash the order holds, and the code is
  used up by it: afterwards the order holds no code and no code verifies.\<close>

lemma delivery_code_used_once:
  assumes "orders_wf s" and "get_transaction i s = Some t" and "confirm_buyer_delivery_otp E i u code s = (s', Inr r)"
  shows "tx_delivery_otp_hash t = Some (hash_delivery_otp E code) \<and>
    (\<exists>t'. get_transaction i s' = Some t' \<and> (\<forall>c. \<not> verify_delivery_otp E c (tx_delivery_otp_hash t')))"
proof -
  from assms(2,3) obtain l where v: "verify_delivery_otp E code (tx_delivery_otp_hash t)" and b: "otp_body E t l u s = Inr (r, s')"
    by (auto simp: confirm_buyer_delivery_otp_def atomic_eq_Inr split: if_splits option.splits)
  show ?thesis using v otp_body_clears [OF b assms(1,2)]
    by (auto simp: verify_delivery_otp_def split: option.splits)
qed

lemma delivery_code_used_once_witness:
  "\<exists>t'. get_transaction 10 (fst (confirm_buyer_delivery_otp (sample_env 7) 10 sample_buyer ''123456''
       (sample_db True [sample_order 10 AT_DOOR_PENDING_INSPECTION] []))) = Some t' \<and>
     \<not> verify_delivery_otp (sample_env 7) ''123456'' (tx_delivery_otp_hash t')"
proof -
  let ?s = "sample_db True [sample_order 10 AT_DOOR_PENDING_INSPECTION] []"
  have "\<exists>r. snd (confirm_buyer_delivery_otp (sample_env 7) 10 sample_buyer ''123456'' ?s) = Inr r"
    by (simp add: confirm_buyer_delivery_otp_def verify_delivery_otp_def hash_delivery_otp_def otp_body_def
        create_otp_given_notifications_def evaluate cong: argument_first)
  then obtain s' r where r: "confirm_buyer_delivery_otp (sample_env 7) 10 sample_buyer ''123456'' ?s = (s', Inr r)" by (metis prod.collapse)
  show ?thesis using delivery_code_used_once [OF _ _ r, of "sample_order 10 AT_DOOR_PENDING_INSPECTION"] r by auto
qed

section \<open>Rails\<close>



text \<open>No live payout rail is ever selected or handed out by the registry built from the settings unless
  the environment is production and live payouts are allowed; and what is selected is enabled, known
  and not excluded.\<close>

lemma live_rails_only_in_production:
  assumes "build_custody_registry st = Inr R" and "select_payout_rail R exclude = Inr r"
  shows "r \<notin> set exclude \<and> r \<in> set SUPPORTED_RAILS \<and> rail_enabled r st \<and>
    (r \<in> set LIVE_PAYOUT_RAILS \<longrightarrow> py_lower (strip (st_environment st)) = ''production'' \<and> st_allow_live_payouts st)"
proof -
  from assms(1) obtain collection payout where
    R: "rg_payout_rails R = filter (\<lambda>r. rail_enabled r st) payout" "rg_payout_priority R = payout"
      "rg_live_payouts_enabled R = live_payouts_enabled st" and known: "unknown_rails payout = []"
    by (auto simp: build_custody_registry_def bindE_eq_Inr Let_def split: if_splits)
  from assms(2) have "r \<in> set (ordered_payout_rail_names R exclude)"
    by (auto simp: select_payout_rail_def split: list.splits)
  moreover have "set payout \<subseteq> set SUPPORTED_RAILS"
    using known by (auto simp: unknown_rails_def filter_empty_conv simp flip: set_empty)
  ultimately show ?thesis using R by (auto simp: ordered_payout_rail_names_def live_payouts_enabled_def)
qed

lemma live_rails_only_in_production_witness:
  "rail_enabled ''loop'' (sample_settings\<lparr>st_environment := ''production'', st_allow_live_payouts := True, st_loop_enabled := True,
     st_payout_priority := ''loop,simulated''\<rparr>)"
proof -
  let ?st = "sample_settings\<lparr>st_environment := ''production'', st_allow_live_payouts := True, st_loop_enabled := True,
     st_payout_priority := ''loop,simulated''\<rparr>"
  have "\<exists>R. build_custody_registry ?st = Inr R \<and> select_payout_rail R [] = Inr ''loop''"
    by (simp add: build_custody_registry_def parse_rail_priority_def sample_settings_def eval_text unknown_rails_def SUPPORTED_RAILS_def
      rail_enabled_def select_payout_rail_def ordered_payout_rail_names_def LIVE_PAYOUT_RAILS_def live_payouts_enabled_def Let_def)
  then show ?thesis using live_rails_only_in_production by blast
qed

text \<open>An escrow goes to eConfirm exactly when it is enabled with an API key and a valid encryption key,
  its breaker is closed and the amount lies within the configured bounds; otherwise the simulated
  provider takes it.\<close>

lemma econfirm_selected_iff:
  assumes "st_econfirm_min_amount (e_settings E) = dec_of_cents low" and "st_econfirm_max_amount (e_settings E) = dec_of_cents high"
  shows "\<exists>why. select_custody_provider E (dec_of_cents a) broken =
    Inr (if st_econfirm_enabled (e_settings E) \<and> strip (st_econfirm_api_key (e_settings E)) \<noteq> '''' \<and> is_valid_key_config E \<and>
           \<not> broken \<and> low \<le> a \<and> a \<le> high then PROVIDER_ECONFIRM else PROVIDER_SIMULATED, why)"
  using assms by (cases "a < low") (auto simp: select_custody_provider_def Let_def dec_of_cents_def dec_less_same_exponent)

lemma econfirm_selected_iff_witness:
  "\<exists>why. select_custody_provider (sample_env 7\<lparr>e_settings := sample_settings\<lparr>st_econfirm_enabled := True, st_econfirm_api_key := ''k'',
     st_econfirm_code_encryption_key := ''x'', st_econfirm_min_amount := dec_of_cents 100, st_econfirm_max_amount := dec_of_cents 1000\<rparr>\<rparr>)
     (dec_of_cents 1000) False = Inr (PROVIDER_ECONFIRM, why)"
  using econfirm_selected_iff [of "sample_env 7\<lparr>e_settings := sample_settings\<lparr>st_econfirm_enabled := True, st_econfirm_api_key := ''k'',
     st_econfirm_code_encryption_key := ''x'', st_econfirm_min_amount := dec_of_cents 100, st_econfirm_max_amount := dec_of_cents 1000\<rparr>\<rparr>"
     100 1000 1000 False]
  by (simp add: is_valid_key_config_def parse_keys_def sample_env_def eval_text Let_def)

section \<open>The ledger\<close>

definition sample_movement :: ledger_movement where
  "sample_movement = \<lparr>mv_escrow = 4, mv_idempotency_key = ''fund'', mv_amount = dec_of_cents 500, mv_debit_account = ESCROW_HELD_ACCOUNT,
     mv_credit_account = BUYER_CLEARING_ACCOUNT, mv_description = None, mv_currency = ''KES'', mv_group = None\<rparr>"

lemma sample_posting: "\<exists>r s'. post_movement (sample_env 7) sample_movement (sample_db True [] []) = Inr (r, s')"
  by (simp add: post_movement_def sample_movement_def ESCROW_HELD_ACCOUNT_def BUYER_CLEARING_ACCOUNT_def entries_by_idempotency_key_def
      ledger_amount_def quantize_cents is_balanced_def side_total_def record_ledger_entry_def anchoring_ready_def has_table_def
      sample_db_def sample_env_def eval_text py_upper_def Let_def cong: argument_first)

lemma sample_posting_all: "\<exists>rs s'. ledger.post_all (sample_env 7) [sample_movement] (sample_db True [] []) = Inr (rs, s')"
  using sample_posting by (auto simp: ledger.post_all.simps)

text \<open>A sequence of postings moves the held balance of an escrow by the effects of the fresh postings to
  it, and by nothing else.\<close>

lemma postings_move_balance:
  assumes "ledger.post_all E ms s = Inr (rs, s')"
  shows "get_escrow_held_balance e s' = get_escrow_held_balance e s +
    sum_list (map (\<lambda>(fresh, mv). if fresh \<and> mv_escrow mv = e then held_effect mv (movement_cents mv) else 0) rs)"
  by (rule ledger.post_all_balance [OF assms])

lemma postings_move_balance_witness:
  "\<exists>rs s'. ledger.post_all (sample_env 7) [sample_movement] (sample_db True [] []) = Inr (rs, s') \<and>
     get_escrow_held_balance 4 s' = get_escrow_held_balance 4 (sample_db True [] []) +
       sum_list (map (\<lambda>(fresh, mv). if fresh \<and> mv_escrow mv = 4 then held_effect mv (movement_cents mv) else 0) rs)"
  using sample_posting_all postings_move_balance [of "sample_env 7" "[sample_movement]" "sample_db True [] []" _ _ 4] by blast

text \<open>A sequence of postings keeps the ledger in balance: under every idempotency key debits and credits
  add up to the same amount and belong to one escrow.\<close>

lemma postings_keep_ledger_balanced:
  assumes "ledger.post_all E ms s = Inr (rs, s')" and "ledger_ok s"
  shows "ledger_ok s'"
  by (rule ledger.post_all_good [OF assms])

lemma postings_keep_ledger_balanced_witness:
  "\<exists>rs s'. ledger.post_all (sample_env 7) [sample_movement] (sample_db True [] []) = Inr (rs, s') \<and> ledger_ok s'"
proof -
  have "ledger_ok (sample_db True [] [])"
    by (simp add: ledger_ok_def key_ok_def entries_by_idempotency_key_def sample_db_def is_balanced_def side_total_def)
  then show ?thesis using sample_posting_all postings_keep_ledger_balanced by blast
qed

text \<open>A posting sent again is a replay: it succeeds, creates no entry, answers with the group of the first
  posting and changes nothing.\<close>

lemma posting_replayed:
  assumes "post_movement E mv s = Inr (r, s')"
  shows "\<exists>r'. post_movement E mv s' = Inr (r', s') \<and> pr_was_idempotent_replay r' \<and> pr_created_entries r' = 0 \<and>
    pr_group r' = pr_group r"
  by (rule post_movement_again [OF assms])

lemma posting_replayed_witness:
  "\<exists>r s'. post_movement (sample_env 7) sample_movement s' = Inr (r, s') \<and> pr_was_idempotent_replay r"
  using sample_posting posting_replayed by blast

text \<open>Funding an escrow posts what was missing: if it posts, the escrow is funded in full and the held
  balance grows by exactly the difference; otherwise the escrow is left as it was.\<close>

lemma funding_posts_the_difference:
  assumes "post_escrow_funding E esc key desc s = Inr (posted, esc', s')"
  shows "if posted then es_funded_amount esc' = es_amount_total esc \<and> get_escrow_held_balance (es_id esc) s' =
      get_escrow_held_balance (es_id esc) s + (es_amount_total esc - es_funded_amount esc) else esc' = esc"
  using post_escrow_funding_cases [OF assms] by (auto simp: get_escrow_held_balance_def put_escrow_def split: if_splits)

lemma funding_posts_the_difference_witness:
  "\<exists>esc' s'. post_escrow_funding (sample_env 7) (new_escrow 4 (sample_order 10 LOCKED) 150000 7) ''fund'' ''x'' (sample_db True [] []) = Inr (True, esc', s') \<and>
     es_funded_amount esc' = 150000"
proof -
  let ?e = "new_escrow 4 (sample_order 10 LOCKED) 150000 7"
  have "\<exists>esc' s'. post_escrow_funding (sample_env 7) ?e ''fund'' ''x'' (sample_db True [] []) = Inr (True, esc', s')"
    by (simp add: post_escrow_funding_def new_escrow_def post_movement_def ESCROW_HELD_ACCOUNT_def BUYER_CLEARING_ACCOUNT_def
      entries_by_idempotency_key_def ledger_amount_def quantize_cents is_balanced_def side_total_def record_ledger_entry_def
      anchoring_ready_def has_table_def sample_db_def sample_env_def eval_text py_upper_def Let_def cong: argument_first)
  then obtain esc' s' where p: "post_escrow_funding (sample_env 7) ?e ''fund'' ''x'' (sample_db True [] []) = Inr (True, esc', s')" by blast
  show ?thesis using funding_posts_the_difference [OF p] p by (auto simp: new_escrow_def)
qed

section \<open>Payouts\<close>

text \<open>A split loses nothing: the two parts add up to the amount, neither is negative, and the release is
  the share of the amount rounded to the nearest cent.\<close>

lemma split_adds_up:
  assumes "0 \<le> amount" and "amount < 10 ^ 12" and "split_amounts amount share = Inr (release, refund)"
  shows "release + refund = amount \<and> 0 \<le> release \<and> 0 \<le> refund \<and>
    (\<exists>q. normalize_ratio share = Inr q \<and> 2 * \<bar>10000 * release - amount * q\<bar> \<le> 10000)"
  using split_amounts_exact [OF assms] by auto

lemma split_adds_up_witness: "\<exists>release refund. split_amounts 15001 (Fin 5 (- 1)) = Inr (release, refund) \<and> release + refund = 15001"
proof -
  have "split_amounts 15001 (Fin 5 (- 1)) = Inr (7500, 7501)" by code_simp
  then show ?thesis using split_adds_up [of 15001 "Fin 5 (- 1)" 7500 7501] by simp
qed

text \<open>C33: Queueing a payout again for the same purpose adds nothing: it answers with the attempt that is
  already queued and leaves the database as it is.\<close>

lemma payout_queued_once:
  assumes "outbox_wf s" and "enqueue_payout_intent E sv t purpose kind u amount s = Inr (Some p, t', s')"
  shows "\<exists>t''. enqueue_payout_intent E' sv' t purpose kind' u' amount s' = Inr (Some p, t'', s')"
proof -
  let ?np = "strip purpose"
  from assms(2) obtain q e s1 where ready: "outbox_ready s" and q: "normalize_amount (dec_of_cents amount) = Inr q" and np: "?np \<noteq> ''''"
    and en: "ensure_escrow_for_transaction E t s = Inr (e, s1)"
    and rest: "(case newest_attempt (live_payouts (es_id e) ?np s1) of
           Some p \<Rightarrow> Inr (Some p, refresh_transaction_payout_status t s1, s1)
         | None \<Rightarrow> bindE (add_payout_attempt E sv t e ?np kind u q s1) (\<lambda>(p, s2).
             Inr (Some p, t\<lparr>tx_payout_status := PENDING\<rparr>, s2))) = Inr (Some p, t', s')"
    unfolding enqueue_payout_intent_def Let_def bindE_eq_Inr
    by (auto simp only: bindE_eq_Inr split: if_splits)
  note ee = ensure_escrow_effect [OF en assms(1)]
  have same: "payout_only s1 s' \<and> d_escrows s' = d_escrows s1 \<and> newest_attempt (live_payouts (es_id e) ?np s') = Some p"
  proof (cases "newest_attempt (live_payouts (es_id e) ?np s1)")
    case (Some x)
    then show ?thesis using rest by auto
  next
    case None
    with rest have add: "add_payout_attempt E sv t e ?np kind u q s1 = Inr (p, s')" by (auto simp: bindE_eq_Inr)
    note p = add_payout_attempt_effect [OF add]
    have "live_payouts (es_id e) ?np s' = [p]" using None p(1,2,4,5) by (simp add: live_payouts_def payouts_of_def)
    then show ?thesis using p(6,7) by (simp add: newest_attempt_def)
  qed
  then have "find_escrow_for_transaction (tx_id t) s' = Some e"
    using ee(4) by (simp add: find_escrow_for_transaction_def)
  moreover have "outbox_ready s'" using ready same ee(1) payout_only_get(6) by blast
  ultimately show ?thesis using q np same by (simp add: enqueue_payout_intent_def ensure_escrow_for_transaction_def Let_def)
qed

lemma payout_queued_once_witness:
  "\<exists>p t' s'. enqueue_payout_intent (sample_env 7) system_service (sample_order 10 RELEASED) ''tx-release:10'' ''release'' 2 150000 s' = Inr (Some p, t', s')"
proof -
  let ?s = "sample_db True [sample_order 10 RELEASED] []"
  have "\<exists>p t' s'. enqueue_payout_intent (sample_env 7) system_service (sample_order 10 RELEASED) ''tx-release:10'' ''release'' 2 150000 ?s = Inr (Some p, t', s')"
    by (simp add: evaluate cong: argument_first)
  then show ?thesis using payout_queued_once [of ?s] by (fastforce simp: outbox_wf_def sample_db_def)
qed

section \<open>Disputes\<close>

text \<open>A functional issue of the category "other" opens a case that no administrator can decide as it stands: the
  case is escalated at once while its order goes to disputed_functional, and force-resolve refuses it
  because of the order's status.\<close>

lemma other_category_cannot_be_resolved:
  assumes "report_functional_issue E tid u category description ev s = (s', Inr r)"
    and "normalize_functional_issue_category category = Inr ''other''" and "get_transaction tid s = Some t"
  shows "\<exists>d t'. d \<in> set (d_disputes s') \<and> di_transaction d = tid \<and> di_status d = D_ESCALATED_ADMIN_REVIEW \<and>
    get_transaction tid s' = Some t' \<and> tx_status t' = DISPUTED_FUNCTIONAL \<and>
    (\<forall>E' dec reason a share. \<exists>e. force_resolve_dispute_case E' (di_id d) dec reason a share s' = (s', Inl e))"
proof -
  have i: "tx_id t = tid" by (rule transactions.get_key [OF assms(3)])
  define d where "d = opened_dispute E (e_uuid E (d_draws s)) t u ''other'' description ev"
  have d: "di_transaction d = tid" "di_status d = D_ESCALATED_ADMIN_REVIEW" by (simp_all add: d_def opened_dispute_def i Let_def)
  define tF where "tF = t\<lparr>tx_status := DISPUTED_FUNCTIONAL\<rparr>"
  have st: "tx_status t = HOLD_24H" and b: "report_body E t u category description ev s = Inr (r, s')"
    using assms(1,3) by (auto simp: report_functional_issue_def atomic_eq_Inr split: if_splits option.splits)
  from b obtain s1 s2 s3 s4 now c ro where l: "logs_only (s\<lparr>d_draws := Suc (d_draws s)\<rparr>) s1" "insert_dispute d s1 = Inr s2"
      "logs_only s2 s3" "logs_only s3 s4"
    and s': "s' = save_transaction (e_now E) tF (create_dispute_opened_notifications E tF d now c ro s4)"
    using d(2) unfolding report_body_def assms(2) Let_def tF_def record_escalated_def d_def
    by (auto simp: bindE_eq_Inr split: if_splits dest!: transition_transaction_Inr commit_order_Inr record_dispute_event_logs)
  let ?n = "create_dispute_opened_notifications E tF d now c ro s4"
  from l(2) have new: "get_dispute (di_id d) s1 = None" and s2: "s2 = s1\<lparr>d_disputes := d_disputes s1 @ [d]\<rparr>"
    by (auto simp: insert_dispute_def split: if_splits)
  have same: "d_disputes ?n = d_disputes s4" "d_transactions ?n = d_transactions s4"
    by (simp_all add: create_dispute_opened_notifications_def notify_parties_def add_notification_def Let_def)
  have "d_disputes s' = d_disputes s1 @ [d]" using s2 logs_only_frame [OF l(3)] logs_only_frame [OF l(4)] same by (simp add: s')
  then have g: "get_dispute (di_id d) s' = Some d" "d \<in> set (d_disputes s')"
    using new by (simp_all add: get_dispute_def row_get_append)
  have "get_transaction tid ?n = Some t"
    using assms(3) s2 same logs_only_frame [OF l(1)] logs_only_frame [OF l(3)] logs_only_frame [OF l(4)] by (simp add: get_transaction_def)
  moreover have "t \<noteq> tF" "tx_id tF = tid" using st i by (auto simp: tF_def dest: arg_cong [where f = tx_status])
  ultimately have t': "get_transaction tid s' = Some (tF\<lparr>tx_updated_at := e_now E\<rparr>)" "tx_status (tF\<lparr>tx_updated_at := e_now E\<rparr>) = DISPUTED_FUNCTIONAL"
    by (simp_all add: s' get_transaction_save) (simp add: tF_def)
  have "\<exists>e. force_resolve_dispute_case E' (di_id d) dec reason a share s' = (s', Inl e)" for E' dec reason a share
    using g(1) t' d by (simp add: force_resolve_dispute_case_def atomic_def Let_def)
  then show ?thesis using d g(2) t' by blast
qed

lemma other_category_cannot_be_resolved_witness:
  "\<exists>d \<in> set (d_disputes (fst (report_functional_issue (sample_env 7) 10 sample_buyer ''other'' '''' None (sample_db True [sample_order 10 HOLD_24H] [])))).
     di_status d = D_ESCALATED_ADMIN_REVIEW"
proof -
  let ?s = "sample_db True [sample_order 10 HOLD_24H] []"
  have "\<exists>r. snd (report_functional_issue (sample_env 7) 10 sample_buyer ''other'' '''' None ?s) = Inr r"
    by (simp add: report_functional_issue_def report_body_def opened_dispute_def insert_dispute_def record_escalated_def free_text_def
        normalize_functional_issue_category_def FUNCTIONAL_ISSUE_CATEGORIES_def normalize_key_def replace_char_def get_dispute_def
        create_dispute_opened_notifications_def evaluate cong: argument_first)
  then obtain s' r where r: "report_functional_issue (sample_env 7) 10 sample_buyer ''other'' '''' None ?s = (s', Inr r)" by (metis prod.collapse)
  have "normalize_functional_issue_category ''other'' = Inr ''other''"
    by (simp add: normalize_functional_issue_category_def FUNCTIONAL_ISSUE_CATEGORIES_def normalize_key_def replace_char_def eval_text)
  from other_category_cannot_be_resolved [OF r this, of "sample_order 10 HOLD_24H"] r show ?thesis by auto
qed

end
