(* ===== verification/Phone.thy ===== *)
theory Phone
  imports Vekro_Prelude
begin

text \<open>
  Phone numbers (app/core/phone.py). Kenyan numbers are brought into one form; other numbers keep
  their digits. \<open>str.isdigit\<close> below code point 256 holds for 0 to 9 and for the superscripts
  two, three and one.
\<close>

definition py_isdigit :: "char \<Rightarrow> bool" where
  "py_isdigit c = (let n = (of_char c :: nat) in (48 \<le> n \<and> n \<le> 57) \<or> n = 178 \<or> n = 179 \<or> n = 185)"

definition ascii_digit :: "char \<Rightarrow> bool" where
  "ascii_digit c = (let n = (of_char c :: nat) in 48 \<le> n \<and> n \<le> 57)"

definition all_digits :: "string \<Rightarrow> bool" where
  "all_digits s = (s \<noteq> '''' \<and> list_all py_isdigit s)"

definition starts_with :: "string \<Rightarrow> string \<Rightarrow> bool" where
  "starts_with p s = (take (length p) s = p)"

text \<open>\<open>re.compile(r"^\+?[0-9]{7,15}$").fullmatch\<close>\<close>

definition PHONE_PATTERN :: "string \<Rightarrow> bool" where
  "PHONE_PATTERN s = (let d = (if starts_with ''+'' s then tl s else s) in
     list_all ascii_digit d \<and> 7 \<le> length d \<and> length d \<le> 15)"

definition PHONE_VALIDATION_ERROR :: string where
  "PHONE_VALIDATION_ERROR = ''Phone number must contain 7-15 digits and optional leading +.''"

definition canonicalize_kenyan_phone :: "string \<Rightarrow> string option" where
  "canonicalize_kenyan_phone d = (if starts_with ''254'' d \<and> length d = 12 then Some (''+'' @ d)
     else if starts_with ''0'' d \<and> length d = 10 \<and> (d ! 1 = CHR ''7'' \<or> d ! 1 = CHR ''1'') then Some (''+254'' @ tl d)
     else if length d = 9 \<and> (d ! 0 = CHR ''7'' \<or> d ! 0 = CHR ''1'') then Some (''+254'' @ d)
     else None)"

text \<open>\<open>re.sub(r"[\s\-()]", "", value.strip())\<close>\<close>

definition phone_text :: "string \<Rightarrow> string" where
  "phone_text v = filter (\<lambda>c. \<not> (py_isspace c \<or> c = CHR ''-'' \<or> c = CHR ''('' \<or> c = CHR '')'')) (strip v)"

definition normalize_phone :: "string option \<Rightarrow> bool \<Rightarrow> string + string option" where
  "normalize_phone v allow_none = (case v of
       None \<Rightarrow> if allow_none then Inr None else Inl PHONE_VALIDATION_ERROR
     | Some s \<Rightarrow> let n = phone_text s; plus = starts_with ''+'' n; d = (if plus then tl n else n) in
         if \<not> all_digits d then Inl PHONE_VALIDATION_ERROR
         else (case canonicalize_kenyan_phone d of Some k \<Rightarrow> Inr (Some k)
           | None \<Rightarrow> let r = (if plus then ''+'' @ d else d) in
               if PHONE_PATTERN r then Inr (Some r) else Inl PHONE_VALIDATION_ERROR))"

definition mask_phone :: "string option \<Rightarrow> string option" where
  "mask_phone v = (case v of None \<Rightarrow> None
     | Some s \<Rightarrow> if s = '''' then None
       else if starts_with ''+254'' s \<and> length s = 13
         then Some (take 4 s @ '' '' @ take 3 (drop 4 s) @ '' *** '' @ drop (length s - 3) s)
       else if length s \<le> 4 then Some ''***''
       else Some (take 3 s @ '' *** '' @ drop (length s - 3) s))"

section \<open>What normalizing gives\<close>

lemma ascii_digit_isdigit: "ascii_digit c \<Longrightarrow> py_isdigit c"
  by (simp add: ascii_digit_def py_isdigit_def Let_def)

lemma isdigit_kept: "py_isdigit c \<Longrightarrow> \<not> py_isspace c \<and> c \<noteq> CHR ''-'' \<and> c \<noteq> CHR ''('' \<and> c \<noteq> CHR '')'' \<and> c \<noteq> CHR ''+''"
  by (auto simp: py_isdigit_def py_isspace_def Let_def)

lemma set_tlD: "x \<in> set (tl xs) \<Longrightarrow> x \<in> set xs"
  by (cases xs) auto

lemma strip_no_space: "\<forall>c \<in> set s. \<not> py_isspace c \<Longrightarrow> strip s = s"
proof -
  assume s: "\<forall>c \<in> set s. \<not> py_isspace c"
  then have "dropWhile py_isspace s = s" "dropWhile py_isspace (rev s) = rev s"
    by (cases s, simp_all) (cases "rev s", auto simp: dropWhile_eq_self_iff)
  then show ?thesis by (simp add: strip_def lstrip_def)
qed

lemma phone_text_digits:
  assumes "\<forall>c \<in> set d. py_isdigit c"
  shows "phone_text d = d" and "phone_text (CHR ''+'' # d) = CHR ''+'' # d"
proof -
  have plus: "\<not> py_isspace (CHR ''+'')" by (simp add: py_isspace_def)
  have "strip d = d" "strip (CHR ''+'' # d) = CHR ''+'' # d"
  proof -
    show "strip d = d" by (rule strip_no_space) (use assms isdigit_kept in blast)
    show "strip (CHR ''+'' # d) = CHR ''+'' # d"
    proof (rule strip_no_space, rule ballI)
      fix c assume "c \<in> set (CHR ''+'' # d)"
      then have "c = CHR ''+'' \<or> c \<in> set d" by simp
      then show "\<not> py_isspace c" using assms isdigit_kept plus by blast
    qed
  qed
  moreover have "filter (\<lambda>c. \<not> (py_isspace c \<or> c = CHR ''-'' \<or> c = CHR ''('' \<or> c = CHR '')'')) d = d"
    by (rule filter_True) (use assms isdigit_kept in blast)
  ultimately show "phone_text d = d" "phone_text (CHR ''+'' # d) = CHR ''+'' # d"
    using plus by (simp_all add: phone_text_def)
qed

lemma kenyan_form:
  assumes "canonicalize_kenyan_phone d = Some k" and "\<forall>c \<in> set d. P c" and "P (CHR ''2'')" "P (CHR ''5'')" "P (CHR ''4'')"
  shows "\<exists>r. k = CHR ''+'' # r \<and> length r = 12 \<and> starts_with ''254'' r \<and> (\<forall>c \<in> set r. P c)"
  using assms by (auto simp: canonicalize_kenyan_phone_def starts_with_def split: if_splits dest!: set_tlD)

text \<open>
  A normalized number is \<open>+254\<close> and nine digits, or 7 to 15 digits with an optional plus; it is a
  fixed point of normalizing.
\<close>

lemma normalize_phone_Some:
  assumes "normalize_phone (Some s) b = Inr (Some r)" and "\<forall>c \<in> set s. py_isdigit c \<longrightarrow> ascii_digit c"
  shows "PHONE_PATTERN r"
proof -
  define n where "n = phone_text s"
  define d where "d = (if starts_with ''+'' n then tl n else n)"
  from assms(1) have dd: "all_digits d"
    and k: "(case canonicalize_kenyan_phone d of Some k \<Rightarrow> r = k | None \<Rightarrow> PHONE_PATTERN r)"
    by (auto simp: normalize_phone_def n_def d_def Let_def split: if_splits option.splits)
  have "set (strip s) \<subseteq> set s" by (auto simp: strip_def lstrip_def dest!: set_dropWhileD)
  then have "set d \<subseteq> set s" by (auto simp: d_def n_def phone_text_def dest!: set_tlD)
  then have ad: "\<forall>c \<in> set d. ascii_digit c" using dd assms(2) by (auto simp: all_digits_def list_all_iff)
  show ?thesis
  proof (cases "canonicalize_kenyan_phone d")
    case (Some k')
    have "\<exists>x. k' = CHR ''+'' # x \<and> length x = 12 \<and> starts_with ''254'' x \<and> (\<forall>c \<in> set x. ascii_digit c)"
      by (rule kenyan_form [OF Some ad]) (simp_all add: ascii_digit_def)
    then show ?thesis using k Some by (auto simp: PHONE_PATTERN_def starts_with_def list_all_iff)
  qed (use k in simp)
qed

lemma normalize_phone_idem:
  assumes "normalize_phone (Some s) b = Inr (Some r)"
  shows "normalize_phone (Some r) b' = Inr (Some r)"
proof -
  define n where "n = phone_text s"
  define d where "d = (if starts_with ''+'' n then tl n else n)"
  from assms have dd: "all_digits d"
    and k: "(case canonicalize_kenyan_phone d of Some k \<Rightarrow> r = k
      | None \<Rightarrow> PHONE_PATTERN r \<and> r = (if starts_with ''+'' n then ''+'' @ d else d))"
    by (auto simp: normalize_phone_def n_def d_def Let_def split: if_splits option.splits)
  have dig: "\<forall>c \<in> set d. py_isdigit c" using dd by (simp add: all_digits_def list_all_iff)
  show ?thesis
  proof (cases "canonicalize_kenyan_phone d")
    case (Some k')
    have "\<exists>x. k' = CHR ''+'' # x \<and> length x = 12 \<and> starts_with ''254'' x \<and> (\<forall>c \<in> set x. py_isdigit c)"
      by (rule kenyan_form [OF Some dig]) (simp_all add: py_isdigit_def)
    then obtain x where x: "r = CHR ''+'' # x" "length x = 12" "starts_with ''254'' x" "\<forall>c \<in> set x. py_isdigit c"
      using k Some by auto
    then show ?thesis
      by (auto simp: normalize_phone_def phone_text_digits starts_with_def all_digits_def list_all_iff canonicalize_kenyan_phone_def)
  next
    case None
    have "\<not> starts_with ''+'' d" using dig dd isdigit_kept [of "hd d"] by (cases d) (auto simp: starts_with_def)
    with None k dd dig show ?thesis
      by (cases "starts_with ''+'' n") (auto simp: normalize_phone_def phone_text_digits starts_with_def Let_def)
  qed
qed

end
