(* ===== verification/Custody_Dto.thy ===== *)
theory Custody_Dto
  imports Models Phone
begin

text \<open>
  The requests and results exchanged with custody providers and rails (custody/dto.py, enums.py). A
  request brings its phone number into normal form when it is built and cannot be built with an
  invalid one. Amounts are cents, as in the rows they come from.
\<close>

datatype rail_outcome = R_SUCCEEDED | R_FAILED_DEFINITE | R_UNKNOWN

fun rail_outcome_value :: "rail_outcome \<Rightarrow> string" where
  "rail_outcome_value R_SUCCEEDED = ''SUCCEEDED''"
| "rail_outcome_value R_FAILED_DEFINITE = ''FAILED_DEFINITE''"
| "rail_outcome_value R_UNKNOWN = ''UNKNOWN''"

definition valid_phone :: "string \<Rightarrow> exn + string" where
  "valid_phone v = (case normalize_phone (Some v) False of Inl m \<Rightarrow> Inl (ValueError m) | Inr None \<Rightarrow> Inl (ValueError PHONE_VALIDATION_ERROR)
     | Inr (Some p) \<Rightarrow> Inr p)"

record open_request =
  oq_transaction_id :: string
  oq_buyer_id :: string
  oq_seller_id :: string
  oq_amount :: cents
  oq_currency :: string
  oq_buyer_email :: "string option"
  oq_seller_email :: "string option"
  oq_receiver_phone :: "string option"
  oq_description :: "string option"
  oq_terms :: "string option"

text \<open>\<open>OpenEscrowRequest.__post_init__\<close>: a blank phone is kept as it is.\<close>

definition make_open_request :: "open_request \<Rightarrow> exn + open_request" where
  "make_open_request q = (case oq_receiver_phone q of None \<Rightarrow> Inr q
     | Some p \<Rightarrow> if p = '''' then Inr q else bindE (valid_phone p) (\<lambda>n. Inr (q\<lparr>oq_receiver_phone := Some n\<rparr>)))"

record escrow_record =
  er_escrow_reference :: string
  er_transaction_id :: string
  er_amount :: cents
  er_currency :: string
  er_confirmation_code :: "string option"
  er_status :: "string option"
  er_max_principal_kes :: "cents option"

record funding_request =
  fq_escrow_reference :: string
  fq_amount :: cents
  fq_phone_number :: string
  fq_account_reference :: string
  fq_currency :: string

definition make_funding_request :: "funding_request \<Rightarrow> exn + funding_request" where
  "make_funding_request q = bindE (valid_phone (fq_phone_number q)) (\<lambda>n. Inr (q\<lparr>fq_phone_number := n\<rparr>))"

record collection_result =
  cx_outcome :: rail_outcome
  cx_provider_reference :: string
  cx_raw_status :: "string option"
  cx_message :: "string option"
  cx_metadata :: "dict option"

record payout_request =
  pq_escrow_reference :: string
  pq_amount :: cents
  pq_destination_phone :: string
  pq_purpose :: string
  pq_currency :: string
  pq_confirmation_code :: "string option"
  pq_notes :: "string option"

definition make_payout_request :: "payout_request \<Rightarrow> exn + payout_request" where
  "make_payout_request q = bindE (valid_phone (pq_destination_phone q)) (\<lambda>n. Inr (q\<lparr>pq_destination_phone := n\<rparr>))"

record payout_result =
  px_outcome :: rail_outcome
  px_provider_reference :: string
  px_raw_status :: "string option"
  px_message :: "string option"

definition payout_result_payload :: "payout_result \<Rightarrow> dict" where
  "payout_result_payload r = [(''outcome'', JStr (rail_outcome_value (px_outcome r))), (''provider_reference'', JStr (px_provider_reference r)),
     (''raw_status'', jopt (px_raw_status r)), (''message'', jopt (px_message r))]"

text \<open>
  \<open>CollectionResult.to_payload\<close> and Python's \<open>repr\<close> and \<open>str\<close> of a JSON value: text is quoted with single quotes
  unless it has one and no double quote.
\<close>

definition collection_result_payload :: "collection_result \<Rightarrow> dict" where
  "collection_result_payload r = [(''outcome'', JStr (rail_outcome_value (cx_outcome r))), (''provider_reference'', JStr (cx_provider_reference r)),
     (''raw_status'', jopt (cx_raw_status r)), (''message'', jopt (cx_message r)),
     (''metadata'', case cx_metadata r of None \<Rightarrow> JNull | Some d \<Rightarrow> JObj d)]"

definition repr_char :: "char \<Rightarrow> char \<Rightarrow> string" where
  "repr_char q c = (let n = (of_char c :: nat) in
     if c = q \<or> c = CHR 0x5C then [CHR 0x5C, c]
     else if n = 10 then [CHR 0x5C, CHR ''n''] else if n = 13 then [CHR 0x5C, CHR ''r''] else if n = 9 then [CHR 0x5C, CHR ''t'']
     else if n < 32 \<or> (127 \<le> n \<and> n \<le> 160) \<or> n = 173 then [CHR 0x5C, CHR ''x''] @ hex_digits 2 n
     else [c])"

definition repr_text :: "string \<Rightarrow> string" where
  "repr_text s = (let q = (if CHR 0x27 \<in> set s \<and> CHR 0x22 \<notin> set s then CHR 0x22 else CHR 0x27) in [q] @ concat (map (repr_char q) s) @ [q])"

fun py_repr :: "string json \<Rightarrow> string" and
    repr_items :: "string json list \<Rightarrow> string list" and
    repr_fields :: "dict \<Rightarrow> string list" where
  "py_repr JNull = ''None''"
| "py_repr (JBool b) = (if b then ''True'' else ''False'')"
| "py_repr (JInt i) = int_str i"
| "py_repr (JStr s) = repr_text s"
| "py_repr (JArr xs) = ''['' @ join_text '', '' (repr_items xs) @ '']''"
| "py_repr (JObj d) = ''{'' @ join_text '', '' (repr_fields d) @ ''}''"
| "repr_items [] = []"
| "repr_items (x # xs) = py_repr x # repr_items xs"
| "repr_fields [] = []"
| "repr_fields ((k, v) # d) = (repr_text k @ '': '' @ py_repr v) # repr_fields d"

definition value_text :: "string json \<Rightarrow> string" where
  "value_text v = (case v of JStr s \<Rightarrow> s | _ \<Rightarrow> py_repr v)"

lemma value_text_simps [simp]: "value_text (JStr s) = s" "value_text (JBool b) = (if b then ''True'' else ''False'')"
  "value_text JNull = ''None''" "value_text (JInt i) = int_str i"
  by (simp_all add: value_text_def)

section \<open>The interface of a payout rail\<close>

text \<open>
  \<open>PayoutRail\<close> (custody/ports.py). A rail keeps a state of its own (the provider's books, the caches
  of its adapter), which a database rollback does not touch. What the payout executor relies on is
  that an inquiry answers: it is called outside every \<open>try\<close>.
\<close>

locale payout_rail =
  fixes request_payout :: "payout_request \<Rightarrow> 'w \<Rightarrow> (exn + payout_result) \<times> 'w"
    and get_payout_status :: "string \<Rightarrow> 'w \<Rightarrow> (exn + payout_result) \<times> 'w"
  assumes inquiry_answers: "\<exists>r w'. get_payout_status ref w = (Inr r, w')"
    and request_answers: "\<exists>r w'. request_payout q w = (Inr r, w')"
begin

lemma inquiry_no_error: "fst (get_payout_status ref w) \<noteq> Inl e"
  using inquiry_answers [of ref w] by auto

lemma request_no_error: "fst (request_payout q w) \<noteq> Inl e"
  using request_answers [of q w] by auto

end

end
