(* ===== verification/Econfirm.thy ===== *)
theory Econfirm
  imports Custody_Dto
begin

text \<open>
  The eConfirm adapter (custody/econfirm_provider.py): how requests are built and how responses are
  read. The HTTP transport is a parameter with a state of its own; the response's JSON body is a
  dict, and a JSON number with a fraction is represented by its text, because the adapter reads
  values only through \<open>str\<close>.
\<close>

definition STATUS_FUNDED :: string where "STATUS_FUNDED = ''Escrow Funded''"
definition STATUS_PAYOUT_INITIATED :: string where "STATUS_PAYOUT_INITIATED = ''payout_initiated''"
definition STATUS_COMPLETED :: string where "STATUS_COMPLETED = ''Completed''"
definition STATUS_PAYOUT_FAILED :: string where "STATUS_PAYOUT_FAILED = ''payout_failed''"

definition DEFINITE_HTTP :: "int list" where "DEFINITE_HTTP = [400, 401, 404, 422]"
definition INPROGRESS_HTTP :: "int list" where "INPROGRESS_HTTP = [409]"

record http_response =
  hr_status_code :: int
  hr_body :: dict
  hr_non_json :: bool
  hr_cloudflare_blocked :: bool

text \<open>The transport: method, endpoint, payload, correlation id and its state; an exception gives its message.\<close>

type_synonym 'w transport = "string \<Rightarrow> string \<Rightarrow> dict option \<Rightarrow> string \<Rightarrow> 'w \<Rightarrow> (string + http_response) \<times> 'w"

definition send :: "'w transport \<Rightarrow> string \<Rightarrow> string \<Rightarrow> dict option \<Rightarrow> string \<Rightarrow> 'w \<Rightarrow> http_response \<times> 'w" where
  "send tr meth endpoint payload correlation w = (case tr meth endpoint payload correlation w of
       (Inr r, w') \<Rightarrow> (r, w')
     | (Inl m, w') \<Rightarrow> (\<lparr>hr_status_code = 0, hr_body = [(''status'', JStr ''transport_error''), (''message'', JStr m)],
         hr_non_json = False, hr_cloudflare_blocked = False\<rparr>, w'))"

datatype signal = Signal_ok | Signal_definite | Signal_unknown

definition http_signal :: "http_response \<Rightarrow> signal" where
  "http_signal r = (let code = hr_status_code r in
     if code = 0 \<or> hr_cloudflare_blocked r \<or> hr_non_json r then Signal_unknown
     else if 200 \<le> code \<and> code < 300 then Signal_ok
     else if code \<in> set DEFINITE_HTTP then Signal_definite
     else Signal_unknown)"

definition response_data :: "dict \<Rightarrow> dict" where
  "response_data body = (case dict_get ''data'' body of Some (JObj d) \<Rightarrow> d | _ \<Rightarrow> body)"

definition integration :: "dict \<Rightarrow> dict" where
  "integration d = (case dict_get ''integration'' d of Some (JObj x) \<Rightarrow> x | _ \<Rightarrow> [])"

fun first_text :: "dict \<Rightarrow> string list \<Rightarrow> string" where
  "first_text d [] = ''''"
| "first_text d (k # ks) = (case dict_get k d of None \<Rightarrow> first_text d ks | Some JNull \<Rightarrow> first_text d ks
     | Some v \<Rightarrow> let t = strip (value_text v) in if t \<noteq> '''' then t else first_text d ks)"

definition response_message :: "dict \<Rightarrow> string option" where
  "response_message body = none_if_empty (first_text body [''message'', ''detail'', ''error'', ''title''])"

definition fallback_status :: "http_response \<Rightarrow> string" where
  "fallback_status r = (if hr_cloudflare_blocked r then ''cloudflare_blocked'' else if hr_non_json r then ''non_json''
     else if hr_status_code r = 0 then ''transport_error'' else ''http_'' @ int_str (hr_status_code r))"

definition reference_of :: "http_response \<Rightarrow> string \<Rightarrow> string" where
  "reference_of r fallback = (let i = first_text (response_data (hr_body r)) [''id'', ''transaction_id''] in if i = '''' then fallback else i)"

definition raw_status_of :: "http_response \<Rightarrow> string" where
  "raw_status_of r = (let st = first_text (response_data (hr_body r)) [''status''] in if st = '''' then fallback_status r else st)"

definition ec_collection_result :: "http_response \<Rightarrow> string \<Rightarrow> collection_result" where
  "ec_collection_result r fallback =
     \<lparr>cx_outcome = (case http_signal r of Signal_definite \<Rightarrow> R_FAILED_DEFINITE
        | Signal_ok \<Rightarrow> if first_text (response_data (hr_body r)) [''status''] = STATUS_FUNDED then R_SUCCEEDED else R_UNKNOWN
        | Signal_unknown \<Rightarrow> R_UNKNOWN),
      cx_provider_reference = reference_of r fallback, cx_raw_status = Some (raw_status_of r), cx_message = response_message (hr_body r), cx_metadata = None\<rparr>"

definition ec_payout_result :: "http_response \<Rightarrow> string \<Rightarrow> payout_result" where
  "ec_payout_result r fallback = (let st = first_text (response_data (hr_body r)) [''status''] in
     \<lparr>px_outcome = (case http_signal r of Signal_definite \<Rightarrow> R_FAILED_DEFINITE
        | Signal_ok \<Rightarrow> if st = STATUS_COMPLETED then R_SUCCEEDED else if st = STATUS_PAYOUT_FAILED then R_FAILED_DEFINITE else R_UNKNOWN
        | Signal_unknown \<Rightarrow> R_UNKNOWN),
      px_provider_reference = reference_of r fallback, px_raw_status = Some (raw_status_of r), px_message = response_message (hr_body r)\<rparr>)"

section \<open>Requests\<close>

fun contains :: "string \<Rightarrow> string \<Rightarrow> bool" where
  "contains p [] = (p = '''')"
| "contains p (c # s) = (starts_with p (c # s) \<or> contains p s)"

definition is_reversal :: "string \<Rightarrow> bool" where
  "is_reversal purpose = (contains ''refund'' (py_lower purpose) \<or> contains ''revers'' (py_lower purpose))"

definition to_msisdn :: "string \<Rightarrow> string" where
  "to_msisdn phone = (let v = strip phone in if starts_with ''+'' v then tl v else v)"

text \<open>\<open>urllib.parse.quote(reference, safe="")\<close> below code point 256.\<close>

definition hex_upper :: "nat \<Rightarrow> char" where
  "hex_upper n = char_of (if n < 10 then 48 + n else 55 + n)"

definition percent :: "nat \<Rightarrow> string" where
  "percent b = [CHR ''%'', hex_upper (b div 16), hex_upper (b mod 16)]"

definition quote_char :: "char \<Rightarrow> string" where
  "quote_char c = (let n = (of_char c :: nat) in
     if (48 \<le> n \<and> n \<le> 57) \<or> (65 \<le> n \<and> n \<le> 90) \<or> (97 \<le> n \<and> n \<le> 122) \<or> c \<in> set ''_.-~'' then [c]
     else if n < 128 then percent n else percent (192 + n div 64) @ percent (128 + n mod 64))"

definition quote_path :: "string \<Rightarrow> string" where
  "quote_path s = concat (map quote_char s)"

record 'w econfirm =
  ec_transport :: "'w transport"
  ec_fallback_email :: string

record 'w econfirm_state =
  ec_world :: 'w
  ec_funding_cache :: "string \<Rightarrow> collection_result option"
  ec_payout_cache :: "string \<Rightarrow> payout_result option"

text \<open>\<open>_decimal_or_none\<close> of the provider's cap is a parameter \<open>cap_of\<close>: the text of a decimal in cents.\<close>

definition ec_open_escrow ::
    "(string \<Rightarrow> cents option) \<Rightarrow> 'w econfirm \<Rightarrow> open_request \<Rightarrow> 'w econfirm_state \<Rightarrow> (exn + escrow_record) \<times> 'w econfirm_state" where
  "ec_open_escrow cap_of P q st = (let phone = or_text [oq_receiver_phone q] '''' in
     if phone = '''' then (Inl (EconfirmDefiniteError ''eConfirm escrow requires the seller payout phone (receiver_phone).''), st)
     else let buyer = or_text [oq_buyer_email q] (ec_fallback_email P); seller = or_text [oq_seller_email q] (ec_fallback_email P) in
     if buyer = '''' \<or> seller = ''''
       then (Inl (EconfirmDefiniteError ''eConfirm escrow requires buyer/seller e-mail or ECONFIRM_FALLBACK_EMAIL.''), st)
     else let d0 = take 1000 (or_text [oq_description q] (''Vekro escrow '' @ oq_transaction_id q));
       d = (if length d0 < 5 then d0 @ '' (Vekro)'' else d0);
       terms = take 1000 (or_text [oq_terms q] ''Funds released after Vekro confirms delivery.'');
       payload = [(''buyer_email'', JStr buyer), (''seller_email'', JStr seller), (''receiver_phone'', JStr (to_msisdn phone)),
         (''amount'', JInt (oq_amount q div 100)), (''currency'', JStr (oq_currency q)), (''description'', JStr d), (''terms'', JStr terms)];
       (r, w') = send (ec_transport P) ''POST'' ''/transactions'' (Some payload) (oq_transaction_id q) (ec_world st);
       st' = st\<lparr>ec_world := w'\<rparr>; data = response_data (hr_body r); i = first_text data [''id'', ''transaction_id''] in
     if http_signal r = Signal_definite
       then (Inl (EconfirmDefiniteError (or_text [response_message (hr_body r)] ''eConfirm rejected escrow creation.'')), st')
     else if http_signal r = Signal_unknown \<or> i = ''''
       then (Inl (EconfirmUnknownError (or_text [response_message (hr_body r)]
         ''eConfirm create returned an indeterminate response; reconcile by reference.'')), st')
     else (Inr \<lparr>er_escrow_reference = i, er_transaction_id = oq_transaction_id q, er_amount = oq_amount q, er_currency = oq_currency q,
         er_confirmation_code = none_if_empty (first_text data [''confirmation_code'']), er_status = none_if_empty (first_text data [''status'']),
         er_max_principal_kes = (case dict_get ''max_principal_kes'' (integration data) of None \<Rightarrow> None | Some JNull \<Rightarrow> None
           | Some v \<Rightarrow> cap_of (value_text v))\<rparr>, st'))"

definition ec_request_funding :: "'w econfirm \<Rightarrow> funding_request \<Rightarrow> 'w econfirm_state \<Rightarrow> (exn + collection_result) \<times> 'w econfirm_state" where
  "ec_request_funding P q st = (let key = ''fund:'' @ fq_escrow_reference q @ '':'' @ fq_phone_number q in
     case ec_funding_cache st key of Some r \<Rightarrow> (Inr r, st)
     | None \<Rightarrow> (let (h, w') = send (ec_transport P) ''POST'' ''/payments/stk-push''
           (Some [(''transaction_id'', JStr (fq_escrow_reference q)), (''payer_phone'', JStr (to_msisdn (fq_phone_number q)))])
           (fq_escrow_reference q) (ec_world st);
         r = ec_collection_result h (fq_escrow_reference q); st' = st\<lparr>ec_world := w'\<rparr> in
       (Inr r, if cx_outcome r \<noteq> R_UNKNOWN then st'\<lparr>ec_funding_cache := (ec_funding_cache st')(key := Some r)\<rparr> else st')))"

definition ec_get_transaction :: "'w econfirm \<Rightarrow> string \<Rightarrow> 'w econfirm_state \<Rightarrow> http_response \<times> 'w econfirm_state" where
  "ec_get_transaction P ref st = (let (h, w') = send (ec_transport P) ''GET'' (''/transactions/'' @ quote_path ref) None ref (ec_world st)
     in (h, st\<lparr>ec_world := w'\<rparr>))"

definition ec_get_funding_status :: "'w econfirm \<Rightarrow> string \<Rightarrow> 'w econfirm_state \<Rightarrow> (exn + collection_result) \<times> 'w econfirm_state" where
  "ec_get_funding_status P ref st = (let (h, st') = ec_get_transaction P ref st in (Inr (ec_collection_result h ref), st'))"

definition ec_submit_payout :: "'w econfirm \<Rightarrow> payout_request \<Rightarrow> string \<Rightarrow> 'w econfirm_state \<Rightarrow> (exn + payout_result) \<times> 'w econfirm_state" where
  "ec_submit_payout P q kind st = (let key = kind @ '':'' @ pq_escrow_reference q @ '':'' @ pq_purpose q in
     case ec_payout_cache st key of Some r \<Rightarrow> (Inr r, st)
     | None \<Rightarrow> (let notes = or_text [pq_notes q, Some (pq_purpose q)] ''Vekro-authorised payout'';
         (h, w') = send (ec_transport P) ''POST'' (''/transactions/'' @ quote_path (pq_escrow_reference q) @
             (if kind = ''reversal'' then ''/reversal'' else ''/release''))
           (Some [(''confirmation_code'', JStr (or_text [pq_confirmation_code q] '''')), (''notes'', JStr notes)])
           (pq_escrow_reference q) (ec_world st);
         r = ec_payout_result h (pq_escrow_reference q); st' = st\<lparr>ec_world := w'\<rparr> in
       (Inr r, if px_outcome r \<noteq> R_UNKNOWN then st'\<lparr>ec_payout_cache := (ec_payout_cache st')(key := Some r)\<rparr> else st')))"

definition ec_request_payout :: "'w econfirm \<Rightarrow> payout_request \<Rightarrow> 'w econfirm_state \<Rightarrow> (exn + payout_result) \<times> 'w econfirm_state" where
  "ec_request_payout P q st = ec_submit_payout P q (if is_reversal (pq_purpose q) then ''reversal'' else ''release'') st"

definition ec_get_payout_status :: "'w econfirm \<Rightarrow> string \<Rightarrow> 'w econfirm_state \<Rightarrow> (exn + payout_result) \<times> 'w econfirm_state" where
  "ec_get_payout_status P ref st = (let (h, st') = ec_get_transaction P ref st in (Inr (ec_payout_result h ref), st'))"

interpretation econfirm: payout_rail "ec_request_payout P" "ec_get_payout_status P" for P :: "'w econfirm"
  by unfold_locales
    (auto simp: ec_request_payout_def ec_submit_payout_def ec_get_payout_status_def Let_def split: option.split prod.split)

end
