(* ===== verification/Econfirm_Orchestration.thy ===== *)
theory Econfirm_Orchestration
  imports Workflow Econfirm
begin

text \<open>
  Opening an escrow on eConfirm, asking the buyer to fund it, and the poller that confirms funding
  (custody/econfirm_orchestration.py). The provider is a parameter with a state of its own; an
  exception leaves that state changed while the database is rolled back.
\<close>

record 'w provider =
  pv_open_escrow :: "open_request \<Rightarrow> 'w \<Rightarrow> (exn + escrow_record) \<times> 'w"
  pv_request_funding :: "funding_request \<Rightarrow> 'w \<Rightarrow> (exn + collection_result) \<times> 'w"
  pv_get_funding_status :: "string \<Rightarrow> 'w \<Rightarrow> (exn + collection_result) \<times> 'w"

definition econfirm_provider :: "(string \<Rightarrow> cents option) \<Rightarrow> 'w econfirm \<Rightarrow> 'w econfirm_state provider" where
  "econfirm_provider cap_of P = \<lparr>pv_open_escrow = ec_open_escrow cap_of P, pv_request_funding = ec_request_funding P,
     pv_get_funding_status = ec_get_funding_status P\<rparr>"

section \<open>Opening\<close>

definition escrow_audit :: "env \<Rightarrow> string \<Rightarrow> escrow \<Rightarrow> string \<Rightarrow> string \<Rightarrow> money_audit_event" where
  "escrow_audit E action e rail reason = (new_audit E action ACTOR_SYSTEM)
     \<lparr>ma_transaction := Some (es_transaction e), ma_escrow := Some (es_id e), ma_rail_name := Some rail,
      ma_amount := Some (es_amount_total e), ma_currency := Some (es_currency e), ma_reason := Some reason\<rparr>"

definition encrypt_code :: "env \<Rightarrow> nat \<Rightarrow> string \<Rightarrow> exn + string" where
  "encrypt_code E n code = (let keys = parse_keys (st_econfirm_code_encryption_key (e_settings E)) in
     if keys = [] then Inl (ValueError ''ECONFIRM_CODE_ENCRYPTION_KEY must provide at least one Fernet key.'')
     else if \<not> list_all (e_fernet_key_ok E) keys then Inl (ValueError ''Fernet key must be 32 url-safe base64-encoded bytes.'')
     else Inr (e_fernet_encrypt E (hd keys) n code))"

definition escrow_open_request :: "escrow \<Rightarrow> string option \<Rightarrow> string option \<Rightarrow> string \<Rightarrow> open_request" where
  "escrow_open_request e buyer_email seller_email phone = \<lparr>oq_transaction_id = uuid_str (es_transaction e),
     oq_buyer_id = uuid_str (es_buyer e), oq_seller_id = uuid_str (es_seller e), oq_amount = es_amount_total e,
     oq_currency = es_currency e, oq_buyer_email = buyer_email, oq_seller_email = seller_email,
     oq_receiver_phone = Some phone, oq_description = None, oq_terms = None\<rparr>"

text \<open>The part after a successful open.\<close>

definition record_opened :: "env \<Rightarrow> escrow \<Rightarrow> escrow_record \<Rightarrow> db \<Rightarrow> exn + (string \<times> escrow \<times> db)" where
  "record_opened E e0 r s = (let e = e0\<lparr>es_custody_provider := Some PROVIDER_ECONFIRM,
         es_econfirm_transaction_id := Some (er_escrow_reference r), es_econfirm_needs_reconciliation := False\<rparr> in
     bindE (case er_confirmation_code r of None \<Rightarrow> Inr e
         | Some c \<Rightarrow> if c = '''' then Inr e
           else bindE (encrypt_code E (d_draws s) c) (\<lambda>x. Inr (e\<lparr>es_econfirm_confirmation_code := Some x\<rparr>))) (\<lambda>e1.
     bindE (effective_max_principal (e_settings E) (map_option dec_of_cents (er_max_principal_kes r))) (\<lambda>cap.
     bindE (record_money_audit_event E ((escrow_audit E ''econfirm_open_succeeded'' e1 PROVIDER_ECONFIRM ''econfirm_open_succeeded'')
         \<lparr>ma_provider_reference := Some (er_escrow_reference r), ma_details := [(''effective_max_principal_kes'', JStr (dec_str cap))]\<rparr>)
         (put_escrow e1 (s\<lparr>d_draws := Suc (d_draws s)\<rparr>))) (\<lambda>s1.
     Inr (PROVIDER_ECONFIRM, e1, s1)))))"

definition open_rejected :: "env \<Rightarrow> escrow \<Rightarrow> db \<Rightarrow> exn + (string \<times> escrow \<times> db)" where
  "open_rejected E e s = (let e1 = e\<lparr>es_custody_provider := Some PROVIDER_SIMULATED\<rparr> in
     bindE (record_money_audit_event E (escrow_audit E ''econfirm_open_rejected_fallback_simulated'' e1 PROVIDER_SIMULATED
       ''econfirm_open_rejected'') (put_escrow e1 s)) (\<lambda>s1. Inr (PROVIDER_SIMULATED, e1, s1)))"

definition open_econfirm_escrow ::
    "env \<Rightarrow> 'w provider \<Rightarrow> escrow \<Rightarrow> string option \<Rightarrow> string option \<Rightarrow> string \<Rightarrow> db \<Rightarrow> 'w \<Rightarrow> (exn + (string \<times> escrow \<times> db)) \<times> 'w" where
  "open_econfirm_escrow E P e buyer_email seller_email phone s w =
     (case make_open_request (escrow_open_request e buyer_email seller_email phone) of
       Inl x \<Rightarrow> (Inl x, w)
     | Inr q \<Rightarrow> (case pv_open_escrow P q w of
         (Inr r, w') \<Rightarrow> (record_opened E e r s, w')
       | (Inl (EconfirmUnknownError m), w') \<Rightarrow> (let e1 = e\<lparr>es_custody_provider := Some PROVIDER_ECONFIRM,
             es_econfirm_needs_reconciliation := True, es_econfirm_transaction_id := None\<rparr> in
           bindE (record_money_audit_event E (escrow_audit E ''econfirm_open_unknown_needs_reconciliation'' e1 PROVIDER_ECONFIRM
             ''create_returned_unknown'') (put_escrow e1 s)) (\<lambda>s1. Inr (PROVIDER_ECONFIRM, e1, s1)), w')
       | (Inl x, w') \<Rightarrow> (case x of EconfirmDefiniteError m \<Rightarrow> open_rejected E e s | ValueError m \<Rightarrow> open_rejected E e s
           | CanonicalEncodingError m \<Rightarrow> open_rejected E e s | _ \<Rightarrow> Inl x, w')))"

section \<open>Asking for the money\<close>

definition ready_for_funding :: "escrow \<Rightarrow> bool" where
  "ready_for_funding e = (es_custody_provider e = Some PROVIDER_ECONFIRM \<and> or_text [es_econfirm_transaction_id e] '''' \<noteq> '''' \<and>
     \<not> es_econfirm_needs_reconciliation e)"

definition request_econfirm_funding ::
    "env \<Rightarrow> 'w provider \<Rightarrow> escrow \<Rightarrow> string \<Rightarrow> string \<Rightarrow> db \<Rightarrow> 'w \<Rightarrow> (exn + (collection_result \<times> escrow \<times> db)) \<times> 'w" where
  "request_econfirm_funding E P e payer_phone account_reference s w =
     (if \<not> ready_for_funding e then (Inl (ValueError ''Escrow is not ready for eConfirm funding.''), w)
      else let ref = or_text [es_econfirm_transaction_id e] '''' in
      (case make_funding_request \<lparr>fq_escrow_reference = ref, fq_amount = es_amount_total e, fq_phone_number = payer_phone,
          fq_account_reference = account_reference, fq_currency = es_currency e\<rparr> of
        Inl x \<Rightarrow> (Inl x, w)
      | Inr q \<Rightarrow> let e1 = e\<lparr>es_econfirm_payer_phone := Some (fq_phone_number q)\<rparr>; s1 = put_escrow e1 s in
        (case pv_request_funding P q w of
          (Inl x, w') \<Rightarrow> (Inl x, w')
        | (Inr r, w') \<Rightarrow> (bindE (record_money_audit_event E ((escrow_audit E ''econfirm_stk_requested'' e1 PROVIDER_ECONFIRM
              (rail_outcome_value (cx_outcome r)))\<lparr>ma_provider_reference := Some ref,
                ma_details := [(''raw_status'', jopt (cx_raw_status r))]\<rparr>) s1) (\<lambda>s2. Inr (r, e1, s2)), w'))))"

section \<open>The poller\<close>

record poll_result =
  pl_polled :: nat
  pl_funded :: nat
  pl_skipped_timed_out :: nat
  pl_budget :: nat

definition poll_candidates :: "nat \<Rightarrow> db \<Rightarrow> escrow list" where
  "poll_candidates limit s = take limit (sort_key es_created_at (filter (\<lambda>e. es_custody_provider e = Some PROVIDER_ECONFIRM \<and>
     es_econfirm_transaction_id e \<noteq> None \<and> \<not> es_econfirm_needs_reconciliation e \<and> es_funded_amount e \<le> 0) (d_escrows s)))"

text \<open>The provider reports the escrow \<open>e\<close> funded.\<close>

definition confirm_funding :: "env \<Rightarrow> escrow \<Rightarrow> db \<Rightarrow> exn + db" where
  "confirm_funding E e s = bindE (post_escrow_funding E e (''econfirm-funding:'' @ uuid_str (es_id e)) ''eConfirm custody funding'' s) (\<lambda>(_, e1, s1).
     bindE (record_money_audit_event E ((escrow_audit E ''econfirm_funding_confirmed'' e1 PROVIDER_ECONFIRM ''poller_confirmed_funding'')
       \<lparr>ma_provider_reference := es_econfirm_transaction_id e\<rparr>) s1) (\<lambda>s2.
     bindE (lock_transaction_after_custody_funding E (es_transaction e) (es_econfirm_transaction_id e) PROVIDER_ECONFIRM s2) (\<lambda>(_, s3).
     Inr s3)))"

fun poll_all :: "env \<Rightarrow> 'w provider \<Rightarrow> time \<Rightarrow> escrow list \<Rightarrow> db \<Rightarrow> 'w \<Rightarrow> (exn + (nat \<times> nat \<times> nat \<times> db)) \<times> 'w" where
  "poll_all E P cutoff [] s w = (Inr (0, 0, 0, s), w)"
| "poll_all E P cutoff (e # es) s w = (let count = (\<lambda>(p, f, k) (m, w'). (bindE m (\<lambda>(p', f', k', s'). Inr (p + p', f + f', k + k', s')), w')) in
     if es_created_at e < cutoff then count (0, 0, 1) (poll_all E P cutoff es s w)
     else (case pv_get_funding_status P (or_text [es_econfirm_transaction_id e] '''') w of
         (Inl x, w') \<Rightarrow> (Inl x, w')
       | (Inr r, w') \<Rightarrow> if cx_outcome r \<noteq> R_SUCCEEDED then count (1, 0, 0) (poll_all E P cutoff es s w')
           else (case confirm_funding E e s of Inl x \<Rightarrow> (Inl x, w')
             | Inr s' \<Rightarrow> count (1, 1, 0) (poll_all E P cutoff es s' w'))))"

text \<open>The one commit is at the end.\<close>

definition run_econfirm_funding_reconciliation ::
    "env \<Rightarrow> 'w provider \<Rightarrow> time option \<Rightarrow> nat \<Rightarrow> int \<Rightarrow> db \<Rightarrow> 'w \<Rightarrow> (db \<times> (exn + poll_result)) \<times> 'w" where
  "run_econfirm_funding_reconciliation E P now_arg limit timeout_minutes s w =
     (let now = (case now_arg of None \<Rightarrow> e_now E | Some n \<Rightarrow> n); cutoff = now - seconds (60 * timeout_minutes);
       (m, w') = poll_all E P cutoff (poll_candidates limit s) s w in
     (atomic s (bindE m (\<lambda>(p, f, k, s'). Inr (\<lparr>pl_polled = p, pl_funded = f, pl_skipped_timed_out = k, pl_budget = limit\<rparr>, s'))), w'))"

end
