(* ===== verification/Paging.thy ===== *)
theory Paging
  imports Vekro_Prelude
begin

text \<open>
  Lists shown in pages: \<open>rows[(page - 1) * size : (page - 1) * size + size]\<close>, or \<open>LIMIT\<close> and \<open>OFFSET\<close> in
  SQL. The routers accept pages from one.
\<close>

definition page_slice :: "nat \<Rightarrow> nat \<Rightarrow> 'a list \<Rightarrow> 'a list" where
  "page_slice page psize xs = take psize (drop ((page - 1) * psize) xs)"

lemma page_slice_length: "length (page_slice page psize xs) \<le> psize"
  by (simp add: page_slice_def)

lemma take_pages: "concat (map (\<lambda>p. page_slice (Suc p) psize xs) [0..<n]) = take (n * psize) xs"
proof (induction n)
  case (Suc n)
  have "take (Suc n * psize) xs = take (n * psize) xs @ take psize (drop (n * psize) xs)"
    using take_add [of "n * psize" psize xs] by (simp add: add.commute)
  with Suc show ?case by (simp add: page_slice_def)
qed simp

text \<open>The pages, in order, are the list: nothing is shown twice or left out.\<close>

lemma pages_partition:
  assumes "length xs \<le> n * psize"
  shows "concat (map (\<lambda>p. page_slice (Suc p) psize xs) [0..<n]) = xs"
  using assms by (simp add: take_pages)

end
