(* ===== verification/Listings.thy ===== *)
theory Listings
  imports Orders Paging "HOL-Library.Product_Lexorder"
begin

text \<open>
  Listings and their photos (services/listing.py, listing_content.py): the status read off the orders
  of a listing, the seller's changes, and the seller's list in pages.
\<close>

section \<open>Status\<close>

definition UNPAID_STATUSES :: "tx_status list" where
  "UNPAID_STATUSES = [INITIATED, AWAITING_PAYMENT]"

definition REFUNDED_STATUSES :: "tx_status list" where
  "REFUNDED_STATUSES = [REFUNDED_BUYER, RESOLVED_REFUND, RETURNED_TO_SELLER]"

definition RELEASED_STATUSES :: "tx_status list" where
  "RELEASED_STATUSES = [RELEASED, RESOLVED_RELEASE]"

definition status_from :: "tx_status list \<Rightarrow> bool \<Rightarrow> string" where
  "status_from statuses archived = (if list_ex (\<lambda>x. x \<notin> set UNPAID_STATUSES \<and> x \<notin> set REFUNDED_STATUSES) statuses then ''sold''
     else if list_ex (\<lambda>x. x \<in> set UNPAID_STATUSES) statuses then ''awaiting_payment''
     else if archived then ''archived'' else ''active'')"

definition statuses_of :: "uuid \<Rightarrow> db \<Rightarrow> tx_status list" where
  "statuses_of lid s = map tx_status (filter (\<lambda>t. tx_listing t = lid) (d_transactions s))"

definition listing_status :: "uuid \<Rightarrow> db \<Rightarrow> string" where
  "listing_status lid s = status_from (statuses_of lid s)
     (case get_listing lid s of None \<Rightarrow> False | Some l \<Rightarrow> l_archived_at l \<noteq> None)"

definition listing_is_sold :: "uuid \<Rightarrow> db \<Rightarrow> bool" where
  "listing_is_sold lid s = (listing_status lid s = ''sold'')"

definition completed_sales :: "uuid \<Rightarrow> db \<Rightarrow> nat" where
  "completed_sales seller s = length (filter (\<lambda>t. tx_seller t = seller \<and> tx_status t \<in> set RELEASED_STATUSES) (d_transactions s))"

section \<open>What the seller may write\<close>

text \<open>
  The request after parsing: each field is left out or has a value, which may be null. The schema's
  checks are those of \<open>CreateListingRequest\<close>, in the order of its fields; \<open>msg\<close> is the text of the first
  failed check (pydantic's). A price with at most two decimals is a number of cents.
\<close>

record listing_fields =
  lf_title :: "string option"
  lf_description :: "string option"
  lf_category :: "string option"
  lf_buyer_name :: "string option"
  lf_price :: "cents option"
  lf_is_serialized :: "bool option"
  lf_unique_id :: "string option"
  lf_dispute_policy :: "dict option"

record create_listing_request =
  cl_title :: string
  cl_description :: string
  cl_category :: "string option"
  cl_buyer_name :: "string option"
  cl_price :: cents
  cl_is_serialized :: bool
  cl_unique_id :: "string option"
  cl_dispute_policy :: dict

datatype listing_error =
    ListingValidationError string
  | ListingNotFoundError string
  | ListingForbiddenError string
  | ListingLockedError string
  | ListingPhotoForbiddenError string
  | ListingPhotoNotFoundError string
  | ListingPhotoUnsupportedTypeError string
  | ListingPhotoTooLargeError string
  | ListingPhotoLimitError string
  | ListingIntegrityError string

definition normalize_optional_text :: "string option \<Rightarrow> string option" where
  "normalize_optional_text v = (case v of None \<Rightarrow> None | Some x \<Rightarrow> none_if_empty (strip x))"

definition at_most :: "nat \<Rightarrow> string option \<Rightarrow> bool" where
  "at_most n v = (case v of None \<Rightarrow> True | Some x \<Rightarrow> length x \<le> n)"

definition validate_listing :: "(string \<Rightarrow> string) \<Rightarrow> listing_fields \<Rightarrow> listing_error + create_listing_request" where
  "validate_listing msg f = (let fail = (\<lambda>field. Inl (ListingValidationError (msg field)));
       description = strip (case lf_description f of None \<Rightarrow> '''' | Some d \<Rightarrow> d);
       category = normalize_optional_text (lf_category f); buyer = normalize_optional_text (lf_buyer_name f);
       uid = normalize_optional_text (lf_unique_id f) in
     case lf_title f of None \<Rightarrow> fail ''title'' | Some title \<Rightarrow>
     if length title < 2 \<or> 255 < length title \<or> strip title = '''' then fail ''title''
     else if 2000 < length description then fail ''description''
     else if \<not> at_most 64 category then fail ''category''
     else if \<not> at_most 120 buyer then fail ''buyer_name''
     else (case lf_price f of None \<Rightarrow> fail ''price'' | Some price \<Rightarrow>
     if price < 0 \<or> 10 ^ 12 \<le> price then fail ''price''
     else (case lf_is_serialized f of None \<Rightarrow> fail ''is_serialized'' | Some serialized \<Rightarrow>
     if \<not> at_most 128 uid then fail ''unique_id''
     else (case lf_dispute_policy f of None \<Rightarrow> fail ''dispute_policy'' | Some policy \<Rightarrow>
       Inr \<lparr>cl_title = strip title, cl_description = description, cl_category = category, cl_buyer_name = buyer,
         cl_price = price, cl_is_serialized = serialized, cl_unique_id = uid, cl_dispute_policy = policy\<rparr>))))"

definition validate_serialized_listing :: "create_listing_request \<Rightarrow> listing_error + dict" where
  "validate_serialized_listing q = (let policy = cl_dispute_policy q in
     if \<not> cl_is_serialized q then Inr policy
     else if cl_unique_id q = None then Inl (ListingValidationError ''unique_id is required for serialized listings.'')
     else (case dict_get ''resolution'' policy of
         Some (JStr r) \<Rightarrow> if strip r = '''' then Inl (ListingValidationError ''dispute_policy.resolution is required for serialized listings.'')
           else Inr (dict_set ''resolution'' (JStr (strip r)) policy)
       | _ \<Rightarrow> Inl (ListingValidationError ''dispute_policy.resolution is required for serialized listings.'')))"

definition listing_of :: "create_listing_request \<Rightarrow> dict \<Rightarrow> listing \<Rightarrow> listing" where
  "listing_of q policy l = l\<lparr>l_title := cl_title q, l_description := cl_description q, l_category := cl_category q,
     l_buyer_name := cl_buyer_name q, l_price := cl_price q, l_is_serialized := cl_is_serialized q,
     l_unique_id := cl_unique_id q, l_dispute_policy := policy\<rparr>"

definition put_listing :: "listing \<Rightarrow> db \<Rightarrow> db" where
  "put_listing l s = s\<lparr>d_listings := row_put l_id l (d_listings s)\<rparr>"

interpretation listings: store get_listing put_listing l_id
  by unfold_locales (auto simp: get_listing_def put_listing_def row_get_put dest: row_get_SomeD)

definition create_listing :: "env \<Rightarrow> user \<Rightarrow> create_listing_request \<Rightarrow> db \<Rightarrow> db \<times> (listing_error + listing)" where
  "create_listing E seller q s = atomic s (
     if u_role seller \<noteq> SELLER then Inl (ListingValidationError ''Only sellers can create listings.'')
     else bindE (validate_serialized_listing q) (\<lambda>policy.
       let i = e_uuid E (d_draws s);
         l = listing_of q policy \<lparr>l_id = i, l_seller = u_id seller, l_title = '''', l_description = '''', l_category = None,
           l_buyer_name = None, l_price = 0, l_is_serialized = False, l_unique_id = None, l_dispute_policy = [],
           l_archived_at = None, l_created_at = e_now E\<rparr> in
       if get_listing i s \<noteq> None then Inl (ListingIntegrityError ''listings_pkey'')
       else Inr (l, s\<lparr>d_listings := d_listings s @ [l], d_draws := Suc (d_draws s)\<rparr>)))"

definition owned_listing :: "user \<Rightarrow> uuid \<Rightarrow> db \<Rightarrow> listing_error + listing" where
  "owned_listing seller lid s = (case get_listing lid s of None \<Rightarrow> Inl (ListingNotFoundError ''Listing not found.'')
     | Some l \<Rightarrow> if l_seller l \<noteq> u_id seller then Inl (ListingForbiddenError ''Only the listing's seller can change it.'') else Inr l)"

definition require_unpaid :: "listing \<Rightarrow> db \<Rightarrow> listing_error + string" where
  "require_unpaid l s = (let st = listing_status (l_id l) s in
     if st = ''sold'' \<or> st = ''awaiting_payment''
     then Inl (ListingLockedError ''This listing has a paid or pending order, so it can't change.'') else Inr st)"

text \<open>The changed fields laid over the current ones: \<open>{**current, **payload.model_dump(exclude_unset=True)}\<close>.\<close>

record listing_changes =
  lc_title :: "string option option"
  lc_description :: "string option option"
  lc_category :: "string option option"
  lc_buyer_name :: "string option option"
  lc_price :: "cents option option"
  lc_is_serialized :: "bool option option"
  lc_unique_id :: "string option option"
  lc_dispute_policy :: "dict option option"

definition overlay :: "'a option option \<Rightarrow> 'a option \<Rightarrow> 'a option" where
  "overlay change current = (case change of None \<Rightarrow> current | Some v \<Rightarrow> v)"

definition merged_fields :: "listing \<Rightarrow> listing_changes \<Rightarrow> listing_fields" where
  "merged_fields l c = \<lparr>lf_title = overlay (lc_title c) (Some (l_title l)), lf_description = overlay (lc_description c) (Some (l_description l)),
     lf_category = overlay (lc_category c) (l_category l), lf_buyer_name = overlay (lc_buyer_name c) (l_buyer_name l),
     lf_price = overlay (lc_price c) (Some (l_price l)), lf_is_serialized = overlay (lc_is_serialized c) (Some (l_is_serialized l)),
     lf_unique_id = overlay (lc_unique_id c) (l_unique_id l), lf_dispute_policy = overlay (lc_dispute_policy c) (Some (l_dispute_policy l))\<rparr>"

definition update_listing :: "(string \<Rightarrow> string) \<Rightarrow> user \<Rightarrow> uuid \<Rightarrow> listing_changes \<Rightarrow> db \<Rightarrow> db \<times> (listing_error + listing)" where
  "update_listing msg seller lid c s = atomic s (
     bindE (owned_listing seller lid s) (\<lambda>l. bindE (require_unpaid l s) (\<lambda>st.
     if st = ''archived'' then Inl (ListingLockedError ''Restore this listing before editing it.'')
     else bindE (validate_listing msg (merged_fields l c)) (\<lambda>q. bindE (validate_serialized_listing q) (\<lambda>policy.
       let l' = listing_of q policy l in Inr (l', put_listing l' s))))))"

definition archive_listing :: "env \<Rightarrow> user \<Rightarrow> uuid \<Rightarrow> db \<Rightarrow> db \<times> (listing_error + listing)" where
  "archive_listing E seller lid s = atomic s (
     bindE (owned_listing seller lid s) (\<lambda>l. bindE (require_unpaid l s) (\<lambda>_.
     if l_archived_at l = None then let l' = l\<lparr>l_archived_at := Some (e_now E)\<rparr> in Inr (l', put_listing l' s) else Inr (l, s))))"

definition restore_listing :: "user \<Rightarrow> uuid \<Rightarrow> db \<Rightarrow> db \<times> (listing_error + listing)" where
  "restore_listing seller lid s = atomic s (
     bindE (owned_listing seller lid s) (\<lambda>l.
     if l_archived_at l \<noteq> None then let l' = l\<lparr>l_archived_at := None\<rparr> in Inr (l', put_listing l' s) else Inr (l, s)))"

section \<open>Photos\<close>

definition MAX_PHOTOS :: nat where "MAX_PHOTOS = 4"
definition MAX_PHOTO_BYTES :: nat where "MAX_PHOTO_BYTES = 2 * 1024 * 1024"
definition PHOTO_CONTENT_TYPES :: "string list" where "PHOTO_CONTENT_TYPES = [''image/jpeg'', ''image/png'', ''image/webp'']"

definition listing_photos :: "uuid \<Rightarrow> db \<Rightarrow> listing_photo list" where
  "listing_photos lid s = sort_key lp_position (filter (\<lambda>p. lp_listing p = lid) (d_photos s))"

definition photo_ids :: "uuid \<Rightarrow> db \<Rightarrow> uuid list" where
  "photo_ids lid s = map lp_id (listing_photos lid s)"

definition get_photo :: "uuid \<Rightarrow> db \<Rightarrow> listing_photo option" where
  "get_photo i s = row_get lp_id i (d_photos s)"

definition add_listing_photo :: "env \<Rightarrow> uuid \<Rightarrow> user \<Rightarrow> string \<Rightarrow> bytes \<Rightarrow> db \<Rightarrow> db \<times> (listing_error + listing_photo)" where
  "add_listing_photo E lid seller content_type data s = atomic s (case get_listing lid s of
       None \<Rightarrow> Inl (ListingPhotoNotFoundError ''Listing not found.'')
     | Some l \<Rightarrow> if l_seller l \<noteq> u_id seller then Inl (ListingPhotoForbiddenError ''Only the listing's seller can add photos.'')
       else let media_type = py_lower (strip (hd (split_on (CHR '';'') content_type))); existing = photo_ids lid s in
       if media_type \<notin> set PHOTO_CONTENT_TYPES then Inl (ListingPhotoUnsupportedTypeError ''Photos must be JPEG, PNG or WebP.'')
       else if data = [] then Inl (ListingPhotoUnsupportedTypeError ''The photo is empty.'')
       else if MAX_PHOTO_BYTES < length data then Inl (ListingPhotoTooLargeError ''Photos must be 2 MB or smaller.'')
       else if MAX_PHOTOS \<le> length existing then Inl (ListingPhotoLimitError ''A listing can have at most 4 photos.'')
       else let i = e_uuid E (d_draws s); p = \<lparr>lp_id = i, lp_listing = lid, lp_position = int (length existing), lp_content_type = media_type,
           lp_size_bytes = int (length data), lp_data = data, lp_created_at = e_now E\<rparr> in
         if get_photo i s \<noteq> None then Inl (ListingIntegrityError ''listing_photos_pkey'')
         else Inr (p, s\<lparr>d_photos := d_photos s @ [p], d_draws := Suc (d_draws s)\<rparr>))"

definition get_listing_photo :: "uuid \<Rightarrow> uuid \<Rightarrow> db \<Rightarrow> listing_error + listing_photo" where
  "get_listing_photo lid i s = (case get_photo i s of None \<Rightarrow> Inl (ListingPhotoNotFoundError ''Photo not found.'')
     | Some p \<Rightarrow> if lp_listing p \<noteq> lid then Inl (ListingPhotoNotFoundError ''Photo not found.'') else Inr p)"

section \<open>The seller's list\<close>

definition LISTING_STATUSES :: "string list" where
  "LISTING_STATUSES = [''active'', ''awaiting_payment'', ''sold'', ''archived'']"

record listing_page =
  pg_items :: "listing list"
  pg_total :: nat
  pg_page :: nat
  pg_page_size :: nat
  pg_counts :: "(string \<times> nat) list"

text \<open>\<open>needle in text\<close>\<close>

fun occurs_in :: "string \<Rightarrow> string \<Rightarrow> bool" where
  "occurs_in p [] = (p = '''')"
| "occurs_in p (c # s) = (take (length p) (c # s) = p \<or> occurs_in p s)"

definition seller_listings :: "uuid \<Rightarrow> db \<Rightarrow> listing list" where
  "seller_listings seller s = rev (sort_key (\<lambda>l. (l_created_at l, int (l_id l))) (filter (\<lambda>l. l_seller l = seller) (d_listings s)))"

definition seller_status :: "uuid \<Rightarrow> db \<Rightarrow> listing \<Rightarrow> string" where
  "seller_status seller s l = status_from
     (map tx_status (filter (\<lambda>t. tx_seller t = seller \<and> tx_listing t = l_id l) (d_transactions s))) (l_archived_at l \<noteq> None)"

definition shown_listings :: "uuid \<Rightarrow> string option \<Rightarrow> string option \<Rightarrow> db \<Rightarrow> listing list" where
  "shown_listings seller status q s = (let needle = py_lower (strip (or_text [q] '''')) in
     filter (\<lambda>l. (case status of None \<Rightarrow> True | Some x \<Rightarrow> seller_status seller s l = x) \<and>
       (needle = '''' \<or> occurs_in needle (py_lower (l_title l)))) (seller_listings seller s))"

definition list_seller_listings :: "uuid \<Rightarrow> string option \<Rightarrow> string option \<Rightarrow> nat \<Rightarrow> nat \<Rightarrow> db \<Rightarrow> listing_page" where
  "list_seller_listings seller status q page psize s = (let shown = shown_listings seller status q s;
       statuses = map (seller_status seller s) (seller_listings seller s) in
     \<lparr>pg_items = page_slice page psize shown, pg_total = length shown, pg_page = page, pg_page_size = psize,
      pg_counts = map (\<lambda>key. (key, count_list statuses key)) LISTING_STATUSES\<rparr>)"

section \<open>What they keep\<close>

text \<open>Every serialized listing has an identifier and a resolution policy; prices fit their column.\<close>

definition listing_ok :: "listing \<Rightarrow> bool" where
  "listing_ok l = (0 \<le> l_price l \<and> l_price l < 10 ^ 12 \<and> (l_is_serialized l \<longrightarrow> l_unique_id l \<noteq> None \<and>
     (\<exists>r. dict_get ''resolution'' (l_dispute_policy l) = Some (JStr r) \<and> r \<noteq> '''')))"

definition listings_ok :: "db \<Rightarrow> bool" where
  "listings_ok s = (\<forall>l \<in> set (d_listings s). listing_ok l)"

lemma validated_price: "validate_listing msg f = Inr q \<Longrightarrow> 0 \<le> cl_price q \<and> cl_price q < 10 ^ 12"
  by (auto simp: validate_listing_def Let_def split: option.splits if_splits)

lemma validated_policy:
  "validate_serialized_listing q = Inr policy \<Longrightarrow> 0 \<le> cl_price q \<and> cl_price q < 10 ^ 12 \<Longrightarrow> listing_ok (listing_of q policy l)"
  by (auto simp: validate_serialized_listing_def listing_ok_def listing_of_def Let_def dict_get_set
      split: if_splits option.splits json.splits)

lemma put_listing_ok: "listings_ok s \<Longrightarrow> listing_ok l \<Longrightarrow> listings_ok (put_listing l s)"
  by (auto simp: listings_ok_def put_listing_def dest: row_put_in_set)

lemma owned_listing_Inr: "owned_listing u lid s = Inr l \<longleftrightarrow> get_listing lid s = Some l \<and> l_seller l = u_id u"
  by (auto simp: owned_listing_def split: option.splits)

lemma owned_ok: "owned_listing u lid s = Inr l \<Longrightarrow> listings_ok s \<Longrightarrow> listing_ok l"
  by (auto simp: owned_listing_Inr listings_ok_def get_listing_def dest: row_get_SomeD)

lemma atomic_keeps: "atomic s m = (s', r) \<Longrightarrow> P s \<Longrightarrow> (\<And>x s1. m = Inr (x, s1) \<Longrightarrow> P s1) \<Longrightarrow> P s'"
  by (auto simp: atomic_def split: sum.splits)

lemma listing_writes_keep_ok:
  assumes "listings_ok s"
  shows "0 \<le> cl_price q \<Longrightarrow> cl_price q < 10 ^ 12 \<Longrightarrow> listings_ok (fst (create_listing E u q s))"
    and "listings_ok (fst (update_listing msg u lid c s))"
    and "listings_ok (fst (archive_listing E u lid s))"
    and "listings_ok (fst (restore_listing u lid s))"
proof -
  show "listings_ok (fst (create_listing E u q s))" if "0 \<le> cl_price q" "cl_price q < 10 ^ 12"
    unfolding create_listing_def
    by (rule atomic_keeps [OF prod.collapse [symmetric]])
      (use assms that in \<open>auto simp: bindE_eq_Inr Let_def listings_ok_def intro!: validated_policy split: if_splits\<close>)
  show "listings_ok (fst (update_listing msg u lid c s))" unfolding update_listing_def
    by (rule atomic_keeps [OF prod.collapse [symmetric]])
      (use assms in \<open>auto simp: bindE_eq_Inr Let_def split: if_splits intro!: put_listing_ok validated_policy dest: validated_price\<close>)
  show "listings_ok (fst (archive_listing E u lid s))" "listings_ok (fst (restore_listing u lid s))"
    unfolding archive_listing_def restore_listing_def
    by (rule atomic_keeps [OF prod.collapse [symmetric]];
        use assms owned_ok [of u lid s] in \<open>auto simp: bindE_eq_Inr Let_def listing_ok_def split: if_splits intro!: put_listing_ok\<close>)+
qed

text \<open>A listing with a paid or pending order is locked.\<close>

lemma locked_listing_unchanged:
  assumes "listing_status lid s = ''sold'' \<or> listing_status lid s = ''awaiting_payment''"
  shows "fst (update_listing msg u lid c s) = s" and "fst (archive_listing E u lid s) = s"
  using assms listings.get_key
  by (auto simp: update_listing_def archive_listing_def atomic_def owned_listing_def require_unpaid_def Let_def bindE_def
      split: option.splits sum.splits if_splits)

lemma listing_page_items: "pg_items (list_seller_listings u st q page psize s) = page_slice page psize (shown_listings u st q s)"
  by (simp add: list_seller_listings_def Let_def)

lemma status_from_listed: "status_from xs b \<in> set LISTING_STATUSES"
  by (simp add: status_from_def LISTING_STATUSES_def)

lemma count_sum: "distinct keys \<Longrightarrow> set xs \<subseteq> set keys \<Longrightarrow> sum_list (map (count_list xs) keys) = length xs"
proof (induction xs)
  case (Cons x xs)
  have "sum_list (map (\<lambda>k. if x = k then count_list xs k + 1 else count_list xs k) keys) =
      sum_list (map (count_list xs) keys) + count_list keys x" for keys
    by (induction keys) auto
  moreover have "distinct ks \<Longrightarrow> count_list ks x = (if x \<in> set ks then 1 else 0)" for ks by (induction ks) auto
  then have "count_list keys x = 1" using Cons.prems by simp
  ultimately show ?case using Cons by (auto simp: if_distrib)
qed simp

end
