(* ===== verification/Order_Creation.thy ===== *)
theory Order_Creation
  imports Econfirm_Orchestration Listings
begin

text \<open>
  Creating an order and asking the buyer to pay (services/transaction.py \<open>create_transaction\<close>,
  services/payment_prompts.py, services/payment.py). Creation commits several times; the model
  returns, with a result or an exception, the database of the last commit.
\<close>

section \<open>The payment gateway\<close>

record payment_request =
  pm_transaction_id :: string
  pm_amount :: string
  pm_phone_number :: "string option"
  pm_account_reference :: string
  pm_transaction_desc :: string

record payment_response =
  pn_provider :: string
  pn_status :: "string option"
  pn_provider_request_id :: string
  pn_merchant_request_id :: string
  pn_checkout_request_id :: string
  pn_customer_message :: string

definition make_payment_request :: "payment_request \<Rightarrow> exn + payment_request" where
  "make_payment_request q = (case pm_phone_number q of None \<Rightarrow> Inr q
     | Some p \<Rightarrow> bindE (valid_phone p) (\<lambda>n. Inr (q\<lparr>pm_phone_number := Some n\<rparr>)))"

type_synonym 'w gateway = "payment_request \<Rightarrow> 'w \<Rightarrow> (exn + payment_response) \<times> 'w"

definition stub_gateway :: "'w gateway" where
  "stub_gateway q w = (let base = or_text [Some (take 12 (filter (\<lambda>c. c \<noteq> CHR ''-'') (pm_transaction_id q)))] ''txn'' in
     (Inr \<lparr>pn_provider = ''mpesa_stub'', pn_status = Some ''queued'', pn_provider_request_id = ''stub-req-'' @ base,
        pn_merchant_request_id = ''stub-merchant-'' @ base, pn_checkout_request_id = ''stub-checkout-'' @ base,
        pn_customer_message = ''STK push queued (stub).''\<rparr>, w))"

text \<open>Building the request and sending it, inside one \<open>try\<close>.\<close>

definition ask_gateway :: "'w gateway \<Rightarrow> payment_request \<Rightarrow> 'w \<Rightarrow> (exn + payment_response) \<times> 'w" where
  "ask_gateway gw q w = (case make_payment_request q of Inl x \<Rightarrow> (Inl x, w) | Inr q' \<Rightarrow> gw q' w)"

section \<open>Prompts\<close>

definition PROMPT_LIFETIME :: time where "PROMPT_LIFETIME = seconds 90"
definition RESEND_COOLDOWN :: time where "RESEND_COOLDOWN = seconds 30"

definition record_payment_prompt :: "env \<Rightarrow> uuid \<Rightarrow> payment_response option \<Rightarrow> time \<Rightarrow> db \<Rightarrow> payment_prompt \<times> db" where
  "record_payment_prompt E tid resp sent_at s = (let p = \<lparr>pp_id = e_uuid E (d_draws s), pp_transaction = tid, pp_kind = STK_PROMPT,
       pp_status = (if resp \<noteq> None then P_PENDING else P_FAILED_TO_INITIATE), pp_failure_reason = None, pp_redirect_url = None,
       pp_checkout_request_id = map_option pn_checkout_request_id resp, pp_sent_at = sent_at, pp_expires_at = sent_at + PROMPT_LIFETIME,
       pp_resolved_at = (if resp \<noteq> None then None else Some sent_at)\<rparr>
     in (p, s\<lparr>d_prompts := d_prompts s @ [p], d_draws := Suc (d_draws s)\<rparr>))"

definition econfirm_payment_response :: "escrow \<Rightarrow> collection_result \<Rightarrow> payment_response" where
  "econfirm_payment_response e r = (let ref = or_text [es_econfirm_transaction_id e] (cx_provider_reference r) in
     \<lparr>pn_provider = PROVIDER_ECONFIRM, pn_status = cx_raw_status r, pn_provider_request_id = ref, pn_merchant_request_id = ref,
      pn_checkout_request_id = ref, pn_customer_message = or_text [cx_message r] ''''\<rparr>)"

record prompt_state =
  ps_kind :: prompt_kind
  ps_status :: string
  ps_failure_reason :: "failure_reason option"
  ps_redirect_url :: "string option"
  ps_sent_at :: time
  ps_expires_at :: time
  ps_resend_available_at :: time

fun prompt_status_value :: "prompt_status \<Rightarrow> string" where
  "prompt_status_value P_PENDING = ''pending''"
| "prompt_status_value P_SUCCEEDED = ''succeeded''"
| "prompt_status_value P_FAILED = ''failed''"
| "prompt_status_value P_FAILED_TO_INITIATE = ''failed_to_initiate''"

definition prompt_state_of :: "payment_prompt \<Rightarrow> time \<Rightarrow> prompt_state" where
  "prompt_state_of p now = \<lparr>ps_kind = pp_kind p,
     ps_status = (if pp_status p = P_PENDING \<and> pp_expires_at p \<le> now then ''expired'' else prompt_status_value (pp_status p)),
     ps_failure_reason = pp_failure_reason p, ps_redirect_url = (if pp_kind p = REDIRECT then pp_redirect_url p else None),
     ps_sent_at = pp_sent_at p, ps_expires_at = pp_expires_at p, ps_resend_available_at = pp_sent_at p + RESEND_COOLDOWN\<rparr>"

section \<open>The new order\<close>

definition REFERENCE_ALPHABET :: string where "REFERENCE_ALPHABET = ''ABCDEFGHJKMNPQRSTUVWXYZ23456789''"

definition generate_transaction_reference :: "env \<Rightarrow> db \<Rightarrow> string \<times> db" where
  "generate_transaction_reference E s = (let n = d_draws s in
     (''VK-'' @ map (\<lambda>k. REFERENCE_ALPHABET ! e_randbelow E (n + k) (length REFERENCE_ALPHABET)) [0..<6], s\<lparr>d_draws := n + 6\<rparr>))"

fun unique_transaction_reference :: "env \<Rightarrow> nat \<Rightarrow> db \<Rightarrow> exn + (string \<times> db)" where
  "unique_transaction_reference E 0 s = Inl (TransactionValidationError ''Could not allocate a unique transaction reference.'')"
| "unique_transaction_reference E (Suc k) s = (let (candidate, s') = generate_transaction_reference E s in
     if candidate \<notin> tx_reference ` set (d_transactions s) then Inr (candidate, s') else unique_transaction_reference E k s')"

definition select_custody_for_new_transaction :: "env \<Rightarrow> cents \<Rightarrow> db \<Rightarrow> exn + (string \<times> db)" where
  "select_custody_for_new_transaction E amount s = (if \<not> st_econfirm_enabled (e_settings E) then Inr (PROVIDER_SIMULATED, s)
     else let (blocked, s') = blocked_rails_for_routing [PROVIDER_ECONFIRM] (e_now E) s in
       bindE (select_custody_provider E (dec_of_cents amount) (PROVIDER_ECONFIRM \<in> set blocked)) (\<lambda>(provider, _). Inr (provider, s')))"

text \<open>The constraints of the table \<open>transactions\<close>.\<close>

definition insert_transaction :: "transaction \<Rightarrow> db \<Rightarrow> exn + db" where
  "insert_transaction t s = (if get_transaction (tx_id t) s \<noteq> None then Inl (IntegrityError ''transactions_pkey'')
     else if tx_amount t \<le> 0 then Inl (IntegrityError ''ck_transactions_amount_positive'')
     else if 10 ^ 12 \<le> tx_amount t then Inl (IntegrityError ''numeric field overflow'')
     else if tx_buyer t = tx_seller t then Inl (IntegrityError ''ck_transactions_distinct_parties'')
     else Inr (s\<lparr>d_transactions := d_transactions s @ [t]\<rparr>))"

definition new_transaction :: "uuid \<Rightarrow> string \<Rightarrow> listing \<Rightarrow> uuid \<Rightarrow> string \<Rightarrow> time \<Rightarrow> transaction" where
  "new_transaction i ref l buyer provider now = \<lparr>tx_id = i, tx_reference = ref, tx_listing = l_id l, tx_buyer = buyer, tx_seller = l_seller l,
     tx_amount = l_price l, tx_status = AWAITING_PAYMENT, tx_payout_status = NOT_REQUIRED, tx_locked_at = None, tx_dispatched_at = None,
     tx_at_door_at = None, tx_delivery_otp_hash = None, tx_otp_failed_attempts = 0, tx_hold_started_at = None,
     tx_door_rejection_reason = None, tx_door_rejection_note = None, tx_released_at = None, tx_refunded_at = None,
     tx_custody_provider = provider, tx_created_at = now, tx_updated_at = now\<rparr>"

text \<open>\<open>payload.amount is not None and Decimal(payload.amount).quantize(...) != amount\<close>\<close>

definition amount_matches :: "decimal option \<Rightarrow> cents \<Rightarrow> exn + bool" where
  "amount_matches v amount = (case v of None \<Rightarrow> Inr True
     | Some d \<Rightarrow> (case quantize 2 d of None \<Rightarrow> Inl InvalidOperation | Some (Fin q _) \<Rightarrow> Inr (q = amount) | Some _ \<Rightarrow> Inr False))"

definition econfirm_escrow :: "uuid \<Rightarrow> transaction \<Rightarrow> time \<Rightarrow> escrow" where
  "econfirm_escrow i t now = (new_escrow i t (tx_amount t) now)
     \<lparr>es_custody_provider := Some PROVIDER_ECONFIRM, es_econfirm_needs_reconciliation := True\<rparr>"

definition insert_escrow :: "escrow \<Rightarrow> db \<Rightarrow> exn + db" where
  "insert_escrow e s = (if get_escrow (es_id e) s \<noteq> None then Inl (IntegrityError ''escrows_pkey'')
     else if find_escrow_for_transaction (es_transaction e) s \<noteq> None then Inl (IntegrityError ''ix_escrows_transaction_id'')
     else Inr (s\<lparr>d_escrows := d_escrows s @ [e]\<rparr>))"

text \<open>Up to the first commit.\<close>

definition add_order_rows :: "env \<Rightarrow> transaction \<Rightarrow> db \<Rightarrow> exn + db" where
  "add_order_rows E t s = bindE (record_transaction_created E t s) (\<lambda>s1. bindE (insert_transaction t s1) (\<lambda>s2.
     Inr (create_transaction_created_notifications E t s2)))"

definition add_order_escrow :: "env \<Rightarrow> transaction \<Rightarrow> db \<Rightarrow> exn + (escrow option \<times> db)" where
  "add_order_escrow E t s = (if tx_custody_provider t = PROVIDER_ECONFIRM
     then let e = econfirm_escrow (e_uuid E (d_draws s)) t (e_now E) in
       bindE (insert_escrow e (s\<lparr>d_draws := Suc (d_draws s)\<rparr>)) (\<lambda>s'. Inr (Some e, s'))
     else Inr (None, s))"

definition insert_order :: "env \<Rightarrow> uuid \<Rightarrow> listing \<Rightarrow> db \<Rightarrow> exn + (transaction \<times> escrow option \<times> db)" where
  "insert_order E buyer l s = bindE (select_custody_for_new_transaction E (l_price l) s) (\<lambda>(provider, s1).
     bindE (unique_transaction_reference E 5 s1) (\<lambda>(ref, s2).
     let t = new_transaction (e_uuid E (d_draws s2)) ref l buyer provider (e_now E) in
     bindE (add_order_rows E t (s2\<lparr>d_draws := Suc (d_draws s2)\<rparr>)) (\<lambda>s3.
     bindE (add_order_escrow E t s3) (\<lambda>(eo, s4). Inr (t, eo, s4)))))"

definition place_order :: "env \<Rightarrow> user \<Rightarrow> uuid \<Rightarrow> decimal option \<Rightarrow> db \<Rightarrow> exn + (transaction \<times> escrow option \<times> db)" where
  "place_order E buyer lid amount s = (if u_role buyer \<noteq> BUYER then Inl (TransactionValidationError ''Only buyers can create transactions.'')
     else (case get_listing lid s of None \<Rightarrow> Inl (ListingNotFoundForTransactionError ''Listing not found.'')
     | Some l \<Rightarrow> if listing_is_sold lid s then Inl (TransactionValidationError ''This item has already been paid for.'')
       else if l_archived_at l \<noteq> None then Inl (TransactionValidationError ''This listing is no longer taking payments.'')
       else bindE (amount_matches amount (l_price l)) (\<lambda>ok.
         if \<not> ok then Inl (TransactionValidationError ''Amount must match the listing price.'')
         else insert_order E (u_id buyer) l s)))"

section \<open>Creating an order\<close>

text \<open>
  The escrow \<open>e\<close> is committed, flagged for reconciliation. The first component of the result is the
  database of the last commit.
\<close>

definition prompt_withheld :: "env \<Rightarrow> string \<Rightarrow> uuid \<Rightarrow> db \<Rightarrow> db \<times> (exn + 'a)" where
  "prompt_withheld E msg tid s = (let (_, s') = record_payment_prompt E tid None (e_now E) s in
     (s', Inl (PaymentInitiationError msg (Some tid))))"

definition send_econfirm_prompt ::
    "env \<Rightarrow> 'w provider \<Rightarrow> user \<Rightarrow> transaction \<Rightarrow> escrow \<Rightarrow> db \<Rightarrow> 'w \<Rightarrow> (db \<times> (exn + (string \<times> transaction))) \<times> 'w" where
  "send_econfirm_prompt E P buyer t e s w =
     (case request_econfirm_funding E P e (or_text [u_mpesa_phone buyer] (u_phone buyer)) (tx_reference t) s w of
       (Inl x, w') \<Rightarrow> ((s, Inl x), w')
     | (Inr (r, e', s'), w') \<Rightarrow> if cx_outcome r = R_FAILED_DEFINITE
         then (prompt_withheld E ''eConfirm rejected the payment prompt.'' (tx_id t) s', w')
         else ((snd (record_payment_prompt E (tx_id t) (Some (econfirm_payment_response e' r)) (e_now E) s'), Inr (PROVIDER_ECONFIRM, t)), w'))"

definition fund_opened ::
    "env \<Rightarrow> 'w provider \<Rightarrow> user \<Rightarrow> transaction \<Rightarrow> string \<Rightarrow> escrow \<Rightarrow> db \<Rightarrow> 'w \<Rightarrow> (db \<times> (exn + (string \<times> transaction))) \<times> 'w" where
  "fund_opened E P buyer t landed e s w = (if landed = PROVIDER_SIMULATED
     then let t' = t\<lparr>tx_custody_provider := PROVIDER_SIMULATED\<rparr> in ((save_transaction (e_now E) t' s, Inr (landed, t')), w)
     else if es_econfirm_needs_reconciliation e
     then (prompt_withheld E ''eConfirm escrow creation is unconfirmed; payment prompt withheld pending reconciliation.'' (tx_id t) s, w)
     else send_econfirm_prompt E P buyer t e s w)"

definition fund_via_econfirm ::
    "env \<Rightarrow> 'w provider \<Rightarrow> user \<Rightarrow> transaction \<Rightarrow> escrow \<Rightarrow> db \<Rightarrow> 'w \<Rightarrow> (db \<times> (exn + (string \<times> transaction))) \<times> 'w" where
  "fund_via_econfirm E P buyer t e s w =
     (let receiver_phone = (case get_user (tx_seller t) s of None \<Rightarrow> '''' | Some u \<Rightarrow> or_text [u_mpesa_phone u, Some (u_phone u)] '''') in
     case open_econfirm_escrow E P e None None receiver_phone s w of
       (Inl x, w') \<Rightarrow> ((s, Inl x), w')
     | (Inr (landed, e', s'), w') \<Rightarrow> fund_opened E P buyer t landed e' s' w')"

definition order_payment_request :: "user \<Rightarrow> transaction \<Rightarrow> string \<Rightarrow> payment_request" where
  "order_payment_request buyer t listing_ref = \<lparr>pm_transaction_id = uuid_str (tx_id t), pm_amount = cents_str (tx_amount t),
     pm_phone_number = Some (or_text [u_mpesa_phone buyer] (u_phone buyer)), pm_account_reference = uuid_str (tx_id t),
     pm_transaction_desc = ''Escrow payment for listing '' @ listing_ref\<rparr>"

definition prompt_via_gateway ::
    "env \<Rightarrow> 'w gateway \<Rightarrow> user \<Rightarrow> transaction \<Rightarrow> db \<Rightarrow> 'w \<Rightarrow> (db \<times> (exn + transaction)) \<times> 'w" where
  "prompt_via_gateway E gw buyer t s w = (case ask_gateway gw (order_payment_request buyer t (uuid_str (tx_listing t))) w of
       (Inl _, w') \<Rightarrow> (prompt_withheld E ''Failed to initiate payment transport.'' (tx_id t) s, w')
     | (Inr resp, w') \<Rightarrow> let (_, s') = record_payment_prompt E (tx_id t) (Some resp) (e_now E) s in ((s', Inr t), w'))"

definition create_transaction ::
    "env \<Rightarrow> 'w provider \<Rightarrow> 'w gateway \<Rightarrow> user \<Rightarrow> uuid \<Rightarrow> decimal option \<Rightarrow> db \<Rightarrow> 'w \<Rightarrow> (db \<times> (exn + transaction)) \<times> 'w" where
  "create_transaction E P gw buyer lid amount s w = (case place_order E buyer lid amount s of
       Inl x \<Rightarrow> ((s, Inl x), w)
     | Inr (t, None, s1) \<Rightarrow> prompt_via_gateway E gw buyer t s1 w
     | Inr (t, Some e, s1) \<Rightarrow> (case fund_via_econfirm E P buyer t e s1 w of
           ((s2, Inl x), w1) \<Rightarrow> ((s2, Inl x), w1)
         | ((s2, Inr (landed, t1)), w1) \<Rightarrow>
             if landed = PROVIDER_ECONFIRM then ((s2, Inr t1), w1) else prompt_via_gateway E gw buyer t1 s2 w1))"

section \<open>Sending the prompt again\<close>

definition resend_failed :: "env \<Rightarrow> uuid \<Rightarrow> time \<Rightarrow> db \<Rightarrow> db \<times> (exn + 'a)" where
  "resend_failed E tid now s = (let (p, s') = record_payment_prompt E tid None now s in (s', Inl (PaymentResendInitiationError (pp_id p))))"

text \<open>\<open>s0\<close> is the stored database, \<open>s\<close> the session's, where the previous prompt is already superseded.\<close>

definition resend_via_econfirm ::
    "env \<Rightarrow> 'w provider \<Rightarrow> user \<Rightarrow> transaction \<Rightarrow> time \<Rightarrow> db \<Rightarrow> db \<Rightarrow> 'w \<Rightarrow> (db \<times> (exn + payment_prompt)) \<times> 'w" where
  "resend_via_econfirm E P buyer t now s0 s w =
     (let hold = ((s0, Inl (PaymentResendInvalidStateError ''Payment is on hold while the eConfirm escrow is reconciled.'')), w) in
     case find_escrow_for_transaction (tx_id t) s of None \<Rightarrow> hold
     | Some e \<Rightarrow> if \<not> ready_for_funding e then hold
       else (case request_econfirm_funding E P e (or_text [u_mpesa_phone buyer] (u_phone buyer)) (tx_reference t) s w of
           (Inl x, w') \<Rightarrow> ((s0, Inl x), w')
         | (Inr (r, e1, s1), w') \<Rightarrow> if cx_outcome r = R_FAILED_DEFINITE then (resend_failed E (tx_id t) now s1, w')
             else let (p, s2) = record_payment_prompt E (tx_id t) (Some (econfirm_payment_response e1 r)) now s1 in ((s2, Inr p), w')))"

definition resend_wait :: "payment_prompt option \<Rightarrow> time \<Rightarrow> int option" where
  "resend_wait previous now = (case previous of None \<Rightarrow> None
     | Some p \<Rightarrow> let at = pp_sent_at p + RESEND_COOLDOWN in if now < at then Some ((at - now) div seconds 1 + 1) else None)"

definition supersede :: "payment_prompt option \<Rightarrow> time \<Rightarrow> db \<Rightarrow> db" where
  "supersede previous now s = (case previous of None \<Rightarrow> s
     | Some p \<Rightarrow> if pp_status p = P_PENDING
         then put_prompt (p\<lparr>pp_status := P_FAILED, pp_failure_reason := Some TIMEOUT, pp_resolved_at := Some now\<rparr>) s else s)"

definition resend_payment_prompt ::
    "env \<Rightarrow> 'w provider \<Rightarrow> 'w gateway \<Rightarrow> uuid \<Rightarrow> user \<Rightarrow> time option \<Rightarrow> db \<Rightarrow> 'w \<Rightarrow> (db \<times> (exn + payment_prompt)) \<times> 'w" where
  "resend_payment_prompt E P gw tid buyer now_arg s w =
     (let now = (case now_arg of None \<Rightarrow> e_now E | Some n \<Rightarrow> n) in
     case get_transaction tid s of None \<Rightarrow> ((s, Inl (PaymentResendNotFoundError ''Transaction not found.'')), w)
     | Some t \<Rightarrow> if tx_buyer t \<noteq> u_id buyer then ((s, Inl (PaymentResendNotFoundError ''Transaction not found.'')), w)
       else if tx_status t \<noteq> AWAITING_PAYMENT then ((s, Inl (PaymentResendInvalidStateError ''Transaction is not awaiting payment.'')), w)
       else let previous = latest_payment_prompt tid s in (case resend_wait previous now of
           Some k \<Rightarrow> ((s, Inl (PaymentResendTooSoonError k)), w)
         | None \<Rightarrow> let s1 = supersede previous now s in
             if py_lower (strip (tx_custody_provider t)) = PROVIDER_ECONFIRM then resend_via_econfirm E P buyer t now s s1 w
             else (case ask_gateway gw (order_payment_request buyer t (case get_listing (tx_listing t) s1 of None \<Rightarrow> '''' | Some l \<Rightarrow> uuid_str (l_id l))) w of
                 (Inl _, w') \<Rightarrow> (resend_failed E tid now s1, w')
               | (Inr resp, w') \<Rightarrow> let (p, s2) = record_payment_prompt E tid (Some resp) now s1 in ((s2, Inr p), w'))))"

section \<open>What placing an order does\<close>

text \<open>Every escrow belongs to a stored order: the foreign key of \<open>escrows.transaction_id\<close>.\<close>

definition escrows_owned :: "db \<Rightarrow> bool" where
  "escrows_owned s = (es_transaction ` set (d_escrows s) \<subseteq> tx_id ` set (d_transactions s))"

lemma select_custody_only: "select_custody_for_new_transaction E amount s = Inr (p, s') \<Longrightarrow> rails_only s s'"
  using blocked_rails_impl_only [of s "[PROVIDER_ECONFIRM]" "e_now E"]
  by (auto simp: select_custody_for_new_transaction_def blocked_rails_for_routing_def bindE_eq_Inr Let_def split: if_splits prod.splits)

lemma unique_reference_only: "unique_transaction_reference E k s = Inr (r, s') \<Longrightarrow> (\<exists>n. s' = s\<lparr>d_draws := n\<rparr>) \<and> r \<notin> tx_reference ` set (d_transactions s)"
proof (induction k arbitrary: s)
  case (Suc k)
  then show ?case using Suc.IH [of "s\<lparr>d_draws := d_draws s + 6\<rparr>"]
    by (auto simp: generate_transaction_reference_def Let_def split: if_splits)
qed simp

text \<open>
  The new order: awaiting payment, at the listing's price, between the buyer and the listing's
  seller. Nothing else about orders, parties, listings, payouts, the ledger or disputes changes.
\<close>

definition placed :: "env \<Rightarrow> uuid \<Rightarrow> listing \<Rightarrow> transaction \<Rightarrow> escrow option \<Rightarrow> db \<Rightarrow> db \<Rightarrow> bool" where
  "placed E buyer l t eo s s' = ((\<exists>i r p. t = new_transaction i r l buyer p (e_now E) \<and> (p = PROVIDER_ECONFIRM \<longleftrightarrow> eo \<noteq> None)) \<and>
     tx_id t \<notin> tx_id ` set (d_transactions s) \<and> tx_reference t \<notin> tx_reference ` set (d_transactions s) \<and>
     buyer \<noteq> l_seller l \<and> 0 < l_price l \<and> l_price l < 10 ^ 12 \<and>
     d_transactions s' = d_transactions s @ [t] \<and> d_tables s' = d_tables s \<and> d_users s' = d_users s \<and>
     d_listings s' = d_listings s \<and> d_payouts s' = d_payouts s \<and> d_ledger s' = d_ledger s \<and> d_disputes s' = d_disputes s \<and>
     d_escrows s' = d_escrows s @ (case eo of None \<Rightarrow> [] | Some e \<Rightarrow> [e]) \<and>
     (\<forall>e. eo = Some e \<longrightarrow> es_id e \<notin> es_id ` set (d_escrows s) \<and> es_transaction e = tx_id t \<and> es_amount_total e = tx_amount t \<and>
        es_funded_amount e = 0 \<and> es_transaction e \<notin> es_transaction ` set (d_escrows s)))"

lemma add_notification_frame:
  "d_escrows (add_notification E tid ev u title m p s) = d_escrows s" "d_payouts (add_notification E tid ev u title m p s) = d_payouts s"
  "d_ledger (add_notification E tid ev u title m p s) = d_ledger s" "d_disputes (add_notification E tid ev u title m p s) = d_disputes s"
  by (simp_all add: add_notification_def)

lemma created_notices_frame:
  "d_escrows (create_transaction_created_notifications E t s) = d_escrows s"
  "d_payouts (create_transaction_created_notifications E t s) = d_payouts s"
  "d_ledger (create_transaction_created_notifications E t s) = d_ledger s"
  "d_disputes (create_transaction_created_notifications E t s) = d_disputes s"
  by (simp_all add: create_transaction_created_notifications_def notify_parties_def add_notification_frame Let_def)

lemma insert_transaction_Inr: "insert_transaction t s = Inr s' \<longleftrightarrow> tx_id t \<notin> tx_id ` set (d_transactions s) \<and> 0 < tx_amount t \<and>
    tx_amount t < 10 ^ 12 \<and> tx_buyer t \<noteq> tx_seller t \<and> s' = s\<lparr>d_transactions := d_transactions s @ [t]\<rparr>"
  by (auto simp: insert_transaction_def get_transaction_def row_get_None)

lemma add_order_rows_Inr:
  assumes "add_order_rows E t s = Inr s'"
  shows "tx_id t \<notin> tx_id ` set (d_transactions s)" "0 < tx_amount t" "tx_amount t < 10 ^ 12" "tx_buyer t \<noteq> tx_seller t"
    "d_transactions s' = d_transactions s @ [t]" "d_tables s' = d_tables s" "d_users s' = d_users s" "d_listings s' = d_listings s"
    "d_payouts s' = d_payouts s" "d_ledger s' = d_ledger s" "d_disputes s' = d_disputes s" "d_escrows s' = d_escrows s"
proof -
  from assms obtain s1 where r: "record_transaction_created E t s = Inr s1"
    and i: "tx_id t \<notin> tx_id ` set (d_transactions s1)" "0 < tx_amount t" "tx_amount t < 10 ^ 12" "tx_buyer t \<noteq> tx_seller t"
    and s': "s' = create_transaction_created_notifications E t (s1\<lparr>d_transactions := d_transactions s1 @ [t]\<rparr>)"
    by (auto simp: add_order_rows_def bindE_eq_Inr insert_transaction_Inr)
  note f = logs_only_frame [OF record_transaction_created_logs [OF r]]
  note c = notices_calm(1) [of "s1\<lparr>d_transactions := d_transactions s1 @ [t]\<rparr>" E t, folded s']
  show "tx_id t \<notin> tx_id ` set (d_transactions s)" "0 < tx_amount t" "tx_amount t < 10 ^ 12" "tx_buyer t \<noteq> tx_seller t"
    using i f by simp_all
  show "d_transactions s' = d_transactions s @ [t]" "d_tables s' = d_tables s" "d_users s' = d_users s" "d_listings s' = d_listings s"
    using c f by (simp_all add: calm_def)
  show "d_payouts s' = d_payouts s" "d_ledger s' = d_ledger s" "d_disputes s' = d_disputes s" "d_escrows s' = d_escrows s"
    using f by (simp_all add: s' created_notices_frame)
qed

lemma add_order_escrow_Inr:
  assumes "add_order_escrow E t s = Inr (eo, s')"
  shows "tx_custody_provider t = PROVIDER_ECONFIRM \<longleftrightarrow> eo \<noteq> None"
    and "s\<lparr>d_escrows := d_escrows s @ (case eo of None \<Rightarrow> [] | Some e \<Rightarrow> [e]), d_draws := d_draws s'\<rparr> = s'"
    and "eo = Some e \<Longrightarrow> es_id e \<notin> es_id ` set (d_escrows s) \<and> es_transaction e = tx_id t \<and> es_amount_total e = tx_amount t \<and>
        es_funded_amount e = 0 \<and> es_transaction e \<notin> es_transaction ` set (d_escrows s)"
  using assms by (auto simp: add_order_escrow_def insert_escrow_def econfirm_escrow_def new_escrow_def Let_def bindE_eq_Inr
      get_escrow_def find_escrow_for_transaction_def row_get_None split: if_splits)

lemma insert_order_placed:
  assumes "insert_order E buyer l s = Inr (t, eo, s')"
  shows "placed E buyer l t eo s s'"
proof -
  from assms obtain p s1 r s2 s3 where sel: "select_custody_for_new_transaction E (l_price l) s = Inr (p, s1)"
    and ref: "unique_transaction_reference E 5 s1 = Inr (r, s2)"
    and t: "t = new_transaction (e_uuid E (d_draws s2)) r l buyer p (e_now E)"
    and rows: "add_order_rows E t (s2\<lparr>d_draws := Suc (d_draws s2)\<rparr>) = Inr s3"
    and esc: "add_order_escrow E t s3 = Inr (eo, s')"
    by (auto simp: insert_order_def bindE_eq_Inr Let_def)
  note f1 = rails_only_frame [OF select_custody_only [OF sel]]
  obtain n where s2: "s2 = s1\<lparr>d_draws := n\<rparr>" and r: "r \<notin> tx_reference ` set (d_transactions s1)"
    using unique_reference_only [OF ref] by blast
  note f3 = add_order_rows_Inr [OF rows]
  obtain m where s': "s' = s3\<lparr>d_escrows := d_escrows s3 @ (case eo of None \<Rightarrow> [] | Some e \<Rightarrow> [e]), d_draws := m\<rparr>"
    using add_order_escrow_Inr(2) [OF esc] by metis
  have tx: "tx_reference t = r" "tx_amount t = l_price l" "tx_buyer t = buyer" "tx_seller t = l_seller l" "tx_custody_provider t = p"
    by (simp_all add: t new_transaction_def)
  show ?thesis using f1 f3 r tx add_order_escrow_Inr(1,3) [OF esc] t unfolding placed_def s' s2 by auto
qed

lemma place_order_placed:
  assumes "place_order E buyer lid amount s = Inr (t, eo, s')"
  shows "\<exists>l. get_listing lid s = Some l \<and> u_role buyer = BUYER \<and> \<not> listing_is_sold lid s \<and> l_archived_at l = None \<and>
    amount_matches amount (l_price l) = Inr True \<and> placed E (u_id buyer) l t eo s s'"
  using assms insert_order_placed
  by (auto simp: place_order_def bindE_eq_Inr split: if_splits option.splits)

section \<open>The invariants of the orders\<close>

lemma placed_keeps:
  assumes "placed E buyer l t eo s s'" and "orders_wf s" and "escrows_owned s" and "money_owed s"
  shows "orders_wf s'" and "escrows_owned s'" and "money_owed s'"
proof -
  have fresh: "tx_id t \<notin> tx_id ` set (d_transactions s)" "tx_id t \<notin> es_transaction ` set (d_escrows s)"
    using assms(1,3) by (auto simp: placed_def escrows_owned_def)
  have txs: "d_transactions s' = d_transactions s @ [t]" and pay: "d_payouts s' = d_payouts s" and tab: "d_tables s' = d_tables s"
    and esc: "d_escrows s' = d_escrows s @ (case eo of None \<Rightarrow> [] | Some e \<Rightarrow> [e])"
    and e: "\<And>e. eo = Some e \<Longrightarrow> es_id e \<notin> es_id ` set (d_escrows s) \<and> es_transaction e = tx_id t"
    and t: "tx_amount t = l_price l" "0 < l_price l" "l_price l < 10 ^ 12" "tx_status t = AWAITING_PAYMENT"
    using assms(1) by (auto simp: placed_def new_transaction_def)
  show wf: "orders_wf s'"
    using assms(2) fresh txs pay esc e t unfolding orders_wf_def outbox_wf_def small_amount_def
    by (auto split: option.splits)
  show "escrows_owned s'" using assms(3) txs esc e unfolding escrows_owned_def by (auto split: option.splits)
  have owned: "po_escrow p \<in> es_id ` set (d_escrows s)" if "p \<in> set (d_payouts s)" for p
    using assms(2) that by (auto simp: orders_wf_def outbox_wf_def)
  have find: "row_get es_transaction (tx_id t) (d_escrows s) = None" using fresh(2) by (simp add: row_get_None)
  have none: "tx_payouts (tx_id t) s' = []"
  proof (cases eo)
    case None
    then show ?thesis using esc find by (simp add: tx_payouts_def find_escrow_for_transaction_def)
  next
    case (Some x)
    then have "es_id x \<notin> po_escrow ` set (d_payouts s)" using e owned by fastforce
    then have "\<forall>p \<in> set (d_payouts s). po_escrow p \<noteq> es_id x" by (metis imageI)
    then show ?thesis using Some esc find pay e [OF Some]
      by (simp add: tx_payouts_def find_escrow_for_transaction_def row_get_append payouts_of_def filter_empty_conv)
  qed
  have same: "tx_payouts i s' = tx_payouts i s" if "i \<noteq> tx_id t" for i
    using that esc pay e
    by (cases eo) (auto simp: tx_payouts_def find_escrow_for_transaction_def row_get_append payouts_of_def split: option.splits)
  show "money_owed s'" unfolding money_owed_def
  proof (intro allI impI)
    fix i u assume g: "get_transaction i s' = Some u"
    show "if paying (tx_status u) then live_total i s' = (if outbox_ready s' then tx_amount u else 0) else tx_payouts i s' = []"
    proof (cases "i = tx_id t")
      case True
      moreover have "row_get tx_id (tx_id t) (d_transactions s) = None" using fresh(1) by (simp add: row_get_None)
      ultimately have "u = t" using g txs by (simp add: get_transaction_def row_get_append)
      then show ?thesis using True none t by (simp add: paying_def)
    next
      case False
      then have "get_transaction i s = Some u" using g txs by (auto simp: get_transaction_def row_get_append split: option.splits if_splits)
      moreover have "outbox_ready s' = outbox_ready s" using tab by (simp add: outbox_ready_def has_table_def)
      moreover have "live_total i s' = live_total i s" using same [OF False] by (simp add: live_total_def)
      ultimately show ?thesis using assms(4) same [OF False] by (auto simp: money_owed_def)
    qed
  qed
qed

text \<open>
  After the commit the new order may only change its custody provider; every other step is calm.
\<close>

definition follows_up :: "transaction \<Rightarrow> db \<Rightarrow> db \<Rightarrow> bool" where
  "follows_up t s s' = (\<exists>s1. calm s s1 \<and> (calm s1 s' \<or>
     (\<exists>now s2. s2 = save_transaction now (t\<lparr>tx_custody_provider := PROVIDER_SIMULATED\<rparr>) s1 \<and> calm s2 s')))"

lemma record_payment_prompt_calm [calm_steps]: "calm s (snd (record_payment_prompt E tid r now s))"
  by (rule calmI) (simp_all add: record_payment_prompt_def Let_def)

lemma prompt_withheld_calm: "calm s (fst (prompt_withheld E msg tid s))"
  by (rule calmI) (simp_all add: prompt_withheld_def record_payment_prompt_def Let_def)

definition stored :: "escrow \<Rightarrow> db \<Rightarrow> bool" where
  "stored e s = (\<exists>e0. get_escrow (es_id e) s = Some e0 \<and> es_transaction e0 = es_transaction e)"

lemma stored_put: "stored e s \<Longrightarrow> es_id e = es_id e' \<Longrightarrow> es_transaction e = es_transaction e' \<Longrightarrow>
    calm s (put_escrow e' s) \<and> stored e' (put_escrow e' s)"
  by (auto simp: stored_def escrows.get_put intro: put_escrow_calm)

lemma stored_logs: "stored e s \<Longrightarrow> logs_only s s' \<Longrightarrow> stored e s'"
  by (simp add: stored_def logs_only_get)

lemma put_and_audit:
  assumes "record_money_audit_event E a (put_escrow e' s) = Inr s'" and "stored e s" and "es_id e = es_id e'"
    and "es_transaction e = es_transaction e'"
  shows "calm s s' \<and> stored e' s'"
  using stored_put [OF assms(2-4)] record_money_audit_event_logs [OF assms(1)]
  by (blast intro: calm_trans logs_only_calm stored_logs)

lemma stored_draws: "stored e s \<Longrightarrow> stored e (s\<lparr>d_draws := n\<rparr>)"
  by (simp add: stored_def get_escrow_def)

lemma draws_calm: "calm s (s\<lparr>d_draws := n\<rparr>)"
  by (rule calmI) simp_all

lemma record_opened_Inr:
  assumes "record_opened E e r s = Inr (landed, e1, s1)"
  shows "es_id e = es_id e1" "es_transaction e = es_transaction e1"
    and "\<exists>a. record_money_audit_event E a (put_escrow e1 (s\<lparr>d_draws := Suc (d_draws s)\<rparr>)) = Inr s1"
  using assms by (auto simp: record_opened_def bindE_eq_Inr Let_def split: option.splits if_splits)

lemma open_rejected_Inr:
  assumes "open_rejected E e s = Inr (landed, e1, s1)"
  shows "es_id e = es_id e1" "es_transaction e = es_transaction e1" and "\<exists>a. record_money_audit_event E a (put_escrow e1 s) = Inr s1"
  using assms by (auto simp: open_rejected_def bindE_eq_Inr Let_def)

lemma record_opened_calm:
  assumes "record_opened E e r s = Inr (landed, e1, s1)" and "stored e s"
  shows "calm s s1 \<and> stored e1 s1"
  using record_opened_Inr [OF assms(1)] put_and_audit [OF _ stored_draws [OF assms(2)]] draws_calm
  by (blast intro: calm_trans)

lemma open_rejected_calm:
  assumes "open_rejected E e s = Inr (landed, e1, s1)" and "stored e s"
  shows "calm s s1 \<and> stored e1 s1"
  using open_rejected_Inr [OF assms(1)] put_and_audit [OF _ assms(2)] by blast

lemma open_econfirm_escrow_calm:
  assumes "open_econfirm_escrow E P e be se ph s w = (Inr (landed, e1, s1), w1)" and "stored e s"
  shows "calm s s1 \<and> stored e1 s1"
  using assms record_opened_calm [OF _ assms(2)] open_rejected_calm [OF _ assms(2)]
  by (auto simp: open_econfirm_escrow_def bindE_eq_Inr Let_def split: sum.splits prod.splits exn.splits
      dest!: put_and_audit [OF _ assms(2)])

lemma request_econfirm_funding_calm:
  assumes "request_econfirm_funding E P e ph ref s w = (Inr (r, e1, s1), w1)" and "stored e s"
  shows "calm s s1 \<and> stored e1 s1"
  using assms by (auto simp: request_econfirm_funding_def bindE_eq_Inr Let_def split: sum.splits prod.splits if_splits
      dest!: put_and_audit [OF _ assms(2)])

lemma calm_follows: "calm s s' \<Longrightarrow> follows_up t s s'"
  by (auto simp: follows_up_def)

lemma follows_calm: "follows_up t s s' \<Longrightarrow> calm s' s'' \<Longrightarrow> follows_up t s s''"
  unfolding follows_up_def by (meson calm_trans)

lemma calm_then_follows: "calm s s' \<Longrightarrow> follows_up t s' s'' \<Longrightarrow> follows_up t s s''"
  unfolding follows_up_def by (meson calm_trans)

definition landed_on :: "transaction \<Rightarrow> exn + (string \<times> transaction) \<Rightarrow> bool" where
  "landed_on t r = (\<forall>x. r = Inr x \<longrightarrow> x = (PROVIDER_ECONFIRM, t) \<or>
      x = (PROVIDER_SIMULATED, t\<lparr>tx_custody_provider := PROVIDER_SIMULATED\<rparr>))"

lemma send_econfirm_prompt_follows:
  assumes "send_econfirm_prompt E P buyer t e s w = ((s', r), w')" and "stored e s"
  shows "calm s s' \<and> landed_on t r"
proof (cases "request_econfirm_funding E P e (or_text [u_mpesa_phone buyer] (u_phone buyer)) (tx_reference t) s w")
  case (Pair q w1)
  show ?thesis
  proof (cases q)
    case (Inl x)
    then show ?thesis using assms(1) Pair by (auto simp: send_econfirm_prompt_def landed_on_def)
  next
    case (Inr q')
    obtain c e1 s1 where q: "q' = (c, e1, s1)" by (cases q') auto
    have "calm s s1" using request_econfirm_funding_calm [OF Pair [unfolded Inr q] assms(2)] by blast
    moreover have "calm s1 s' \<and> landed_on t r" using assms(1) Pair Inr q
        prompt_withheld_calm [of s1 E _ "tx_id t"] record_payment_prompt_calm [of s1 E "tx_id t" _ "e_now E"]
      by (auto simp: send_econfirm_prompt_def landed_on_def prompt_withheld_def case_prod_unfold split: if_splits)
    ultimately show ?thesis by (blast intro: calm_trans)
  qed
qed

lemma fund_opened_follows:
  assumes "fund_opened E P buyer t landed e s w = ((s', r), w')" and "stored e s"
  shows "follows_up t s s' \<and> landed_on t r"
proof -
  consider "landed = PROVIDER_SIMULATED" | m where "prompt_withheld E m (tx_id t) s = (s', r)"
    | "send_econfirm_prompt E P buyer t e s w = ((s', r), w')"
    using assms(1) by (auto simp: fund_opened_def Let_def split: if_splits)
  then show ?thesis
  proof cases
    case 1
    then show ?thesis using assms(1) calm_refl by (fastforce simp: fund_opened_def Let_def landed_on_def follows_up_def)
  next
    case 2
    then show ?thesis using prompt_withheld_calm [of s E m "tx_id t"]
      by (auto simp: landed_on_def prompt_withheld_def case_prod_unfold intro: calm_follows)
  next
    case 3
    then show ?thesis using send_econfirm_prompt_follows [OF 3 assms(2)] by (simp add: calm_follows)
  qed
qed

lemma fund_via_econfirm_follows:
  assumes "fund_via_econfirm E P buyer t e s w = ((s', r), w')" and "stored e s"
  shows "follows_up t s s' \<and> landed_on t r"
proof -
  define phone where "phone = (case get_user (tx_seller t) s of None \<Rightarrow> '''' | Some u \<Rightarrow> or_text [u_mpesa_phone u, Some (u_phone u)] '''')"
  consider (failed) x where "open_econfirm_escrow E P e None None phone s w = (Inl x, w')" "s' = s" "r = Inl x"
    | (opened) landed e1 s1 w1 where "open_econfirm_escrow E P e None None phone s w = (Inr (landed, e1, s1), w1)"
        "fund_opened E P buyer t landed e1 s1 w1 = ((s', r), w')"
    using assms(1) by (auto simp: fund_via_econfirm_def Let_def phone_def split: sum.splits prod.splits)
  then show ?thesis
  proof cases
    case failed
    then show ?thesis by (simp add: landed_on_def calm_follows)
  next
    case opened
    have c: "calm s s1 \<and> stored e1 s1" by (rule open_econfirm_escrow_calm [OF opened(1) assms(2)])
    then show ?thesis using fund_opened_follows [OF opened(2)] calm_then_follows by blast
  qed
qed

lemma prompt_via_gateway_calm: "prompt_via_gateway E gw buyer t s w = ((s', r), w') \<Longrightarrow> calm s s' \<and> (\<forall>x. r = Inr x \<longrightarrow> x = t)"
  using prompt_withheld_calm [of s E _ "tx_id t"] record_payment_prompt_calm [of s E "tx_id t" _ "e_now E"]
  by (auto simp: prompt_via_gateway_def prompt_withheld_def case_prod_unfold split: sum.splits prod.splits)

lemma placed_stored:
  assumes "placed E b l t (Some e) s s'"
  shows "stored e s'"
proof -
  have "row_get es_id (es_id e) (d_escrows s) = None" using assms by (simp add: placed_def row_get_None)
  then show ?thesis using assms by (simp add: placed_def stored_def get_escrow_def row_get_append)
qed

text \<open>Creating an order, as a whole: nothing is stored, or one order is placed and followed up.\<close>

lemma create_transaction_cases:
  assumes "create_transaction E P gw buyer lid amount s w = ((s', r), w')"
  obtains (refused) x where "s' = s" "r = Inl x"
  | (created) t eo s1 where "place_order E buyer lid amount s = Inr (t, eo, s1)" "follows_up t s1 s'"
      "\<forall>x. r = Inr x \<longrightarrow> x = t \<or> x = t\<lparr>tx_custody_provider := PROVIDER_SIMULATED\<rparr>"
proof (cases "place_order E buyer lid amount s")
  case (Inl x)
  then show ?thesis using assms refused [of x] by (auto simp: create_transaction_def)
next
  case (Inr q)
  obtain t eo s1 where q: "place_order E buyer lid amount s = Inr (t, eo, s1)" using Inr by (cases q) auto
  show ?thesis
  proof (cases eo)
    case None
    then show ?thesis using assms q created prompt_via_gateway_calm [of E gw buyer t s1 w]
      by (auto simp: create_transaction_def intro: calm_follows)
  next
    case (Some e)
    have st: "stored e s1" using place_order_placed [OF q] placed_stored Some by blast
    obtain s2 m w1 where f: "fund_via_econfirm E P buyer t e s1 w = ((s2, m), w1)" by (metis prod.exhaust)
    note g = fund_via_econfirm_follows [OF f st]
    show ?thesis
    proof (cases m)
      case (Inl x)
      then show ?thesis using assms q f g Some created by (auto simp: create_transaction_def)
    next
      case (Inr p)
      obtain landed t1 where p: "p = (landed, t1)" by force
      show ?thesis using assms q f g Some created Inr p prompt_via_gateway_calm follows_calm
        by (fastforce simp: create_transaction_def landed_on_def split: if_splits)
    qed
  qed
qed

lemma money_owed_cong:
  assumes "money_owed s" and "outbox_ready s' = outbox_ready s" and p: "\<And>i. tx_payouts i s' = tx_payouts i s"
    and "\<And>i u. get_transaction i s' = Some u \<Longrightarrow> \<exists>u0. get_transaction i s = Some u0 \<and> tx_status u0 = tx_status u \<and> tx_amount u0 = tx_amount u"
  shows "money_owed s'"
proof -
  have l: "live_total i s' = live_total i s" for i by (simp add: live_total_def p)
  show ?thesis using assms(1,4) unfolding money_owed_def p l assms(2) by fastforce
qed

lemma calm_keeps:
  assumes "calm s s'" and "orders_wf s" and "money_owed s"
  shows "orders_wf s'" and "money_owed s'"
  using assms calm_get(1,5) [OF assms(1)] money_owed_cong [OF assms(3), of s']
  by (auto simp: orders_wf_def calm_def)

lemma save_custody_keeps:
  assumes "orders_wf s" and "money_owed s" and "get_transaction (tx_id t) s = Some t"
  shows "orders_wf (save_transaction now (t\<lparr>tx_custody_provider := p\<rparr>) s)" and "money_owed (save_transaction now (t\<lparr>tx_custody_provider := p\<rparr>) s)"
proof -
  let ?s = "save_transaction now (t\<lparr>tx_custody_provider := p\<rparr>) s"
  have "small_amount t" using assms(1,3) by (auto simp: orders_wf_def get_transaction_def dest: row_get_SomeD)
  then show "orders_wf ?s" using assms(1) save_small [of s "t\<lparr>tx_custody_provider := p\<rparr>" now]
    by (auto simp: orders_wf_def small_amount_def)
  have r: "outbox_ready ?s = outbox_ready s" by (simp add: outbox_ready_def has_table_def)
  have g: "get_transaction i ?s = Some u \<Longrightarrow> \<exists>u0. get_transaction i s = Some u0 \<and> tx_status u0 = tx_status u \<and> tx_amount u0 = tx_amount u" for i u
    using assms(3) by (auto simp: get_transaction_save split: if_splits)
  show "money_owed ?s" by (rule money_owed_cong [OF assms(2) r save_payouts(1) g])
qed

lemma follows_up_keeps:
  assumes "follows_up t s s'" and "orders_wf s" and "money_owed s" and "get_transaction (tx_id t) s = Some t"
  shows "orders_wf s'" and "money_owed s'"
proof -
  obtain s1 where c: "calm s s1" and r: "calm s1 s' \<or> (\<exists>now. calm (save_transaction now (t\<lparr>tx_custody_provider := PROVIDER_SIMULATED\<rparr>) s1) s')"
    using assms(1) by (auto simp: follows_up_def)
  note k = calm_keeps [OF c assms(2,3)]
  have g: "get_transaction (tx_id t) s1 = Some t" using assms(4) calm_get(1) [OF c] by simp
  from r show "orders_wf s'" "money_owed s'"
    using calm_keeps k save_custody_keeps [OF k g] by blast+
qed

text \<open>The stored order reads as placed, except that its custody provider may be \<open>simulated\<close>.\<close>

lemma follows_up_order:
  assumes "follows_up t s s'" and "get_transaction (tx_id t) s = Some t"
  shows "\<exists>t'. get_transaction (tx_id t) s' = Some t' \<and> (t' = t \<or> (\<exists>u. t' = t\<lparr>tx_custody_provider := PROVIDER_SIMULATED, tx_updated_at := u\<rparr>))"
    and "map tx_id (d_transactions s') = map tx_id (d_transactions s)"
    and "i \<noteq> tx_id t \<Longrightarrow> get_transaction i s' = get_transaction i s"
proof -
  obtain s1 where c: "calm s s1" and r: "calm s1 s' \<or> (\<exists>now. calm (save_transaction now (t\<lparr>tx_custody_provider := PROVIDER_SIMULATED\<rparr>) s1) s')"
    using assms(1) by (auto simp: follows_up_def)
  have g: "get_transaction i s1 = get_transaction i s" for i by (rule calm_get(1) [OF c])
  have d: "d_transactions s1 = d_transactions s" using c by (simp add: calm_def)
  show "\<exists>t'. get_transaction (tx_id t) s' = Some t' \<and> (t' = t \<or> (\<exists>u. t' = t\<lparr>tx_custody_provider := PROVIDER_SIMULATED, tx_updated_at := u\<rparr>))"
    using r assms(2) g by (auto simp: calm_get(1) get_transaction_save)
  show "map tx_id (d_transactions s') = map tx_id (d_transactions s)" using r d by (auto simp: calm_def)
  show "get_transaction i s' = get_transaction i s" if "i \<noteq> tx_id t" using r g that by (auto simp: calm_get(1))
qed

text \<open>The new order as it is stored when creation is over.\<close>

definition new_order :: "user \<Rightarrow> listing \<Rightarrow> transaction \<Rightarrow> db \<Rightarrow> db \<Rightarrow> bool" where
  "new_order buyer l t s s' = (tx_status t = AWAITING_PAYMENT \<and> tx_amount t = l_price l \<and> 0 < tx_amount t \<and> tx_buyer t = u_id buyer \<and>
     tx_seller t = l_seller l \<and> tx_buyer t \<noteq> tx_seller t \<and> tx_listing t = l_id l \<and>
     tx_reference t \<notin> tx_reference ` set (d_transactions s) \<and>
     map tx_id (d_transactions s') = map tx_id (d_transactions s) @ [tx_id t] \<and> get_transaction (tx_id t) s' = Some t \<and>
     (\<forall>i. i \<noteq> tx_id t \<longrightarrow> get_transaction i s' = get_transaction i s))"

lemma create_adds_one:
  assumes "create_transaction E P gw buyer lid amount s w = ((s', r), w')" and "orders_wf s" and "escrows_owned s" and "money_owed s"
  shows "orders_wf s' \<and> money_owed s' \<and> (s' = s \<and> (\<exists>x. r = Inl x) \<or>
    (\<exists>l t. get_listing lid s = Some l \<and> u_role buyer = BUYER \<and> \<not> listing_is_sold lid s \<and> l_archived_at l = None \<and> new_order buyer l t s s'))"
  using assms(1)
proof (cases rule: create_transaction_cases)
  case (refused x)
  then show ?thesis using assms by simp
next
  case (created t eo s1)
  obtain l where l: "get_listing lid s = Some l" "u_role buyer = BUYER" "\<not> listing_is_sold lid s" "l_archived_at l = None"
    and p: "placed E (u_id buyer) l t eo s s1" using place_order_placed [OF created(1)] by blast
  note k = placed_keeps [OF p assms(2-4)]
  have txs: "d_transactions s1 = d_transactions s @ [t]" "tx_id t \<notin> tx_id ` set (d_transactions s)" using p by (auto simp: placed_def)
  then have none: "row_get tx_id (tx_id t) (d_transactions s) = None" by (simp add: row_get_None)
  have g: "get_transaction (tx_id t) s1 = Some t" using txs none by (simp add: get_transaction_def row_get_append)
  have g': "get_transaction i s1 = get_transaction i s" if "i \<noteq> tx_id t" for i
    using txs that by (auto simp: get_transaction_def row_get_append split: option.splits)
  have t: "tx_status t = AWAITING_PAYMENT" "tx_amount t = l_price l" "0 < tx_amount t" "tx_buyer t = u_id buyer" "tx_seller t = l_seller l"
    "tx_buyer t \<noteq> tx_seller t" "tx_listing t = l_id l" "tx_reference t \<notin> tx_reference ` set (d_transactions s)"
    using p by (auto simp: placed_def new_transaction_def)
  note f = follows_up_order [OF created(2) g]
  obtain t' where t': "get_transaction (tx_id t) s' = Some t'"
    and eq: "t' = t \<or> (\<exists>u. t' = t\<lparr>tx_custody_provider := PROVIDER_SIMULATED, tx_updated_at := u\<rparr>)" using f(1) by blast
  have "new_order buyer l t' s s'" using eq t t' f(2,3) g' txs unfolding new_order_def by auto
  then show ?thesis using l follows_up_keeps [OF created(2) k(1,3) g] by blast
qed

end
