(* ===== verification/Payout_Executor.thy ===== *)
theory Payout_Executor
  imports Notices Custody_Dto "HOL-Library.Product_Lexorder"
begin

text \<open>
  The payout executor and the payout alerts (app/services/escrow_service.py, the module functions).
  One run claims the oldest undecided attempts and, for each, asks the rail and books the answer. The
  rails are a parameter with a state of their own, which a rollback does not touch. A posting commits
  in the middle of the run, so a run returns, with its result or exception, the database of its last
  commit.
\<close>

section \<open>The rails\<close>

record 'w payout_rails =
  rl_request :: "string \<Rightarrow> payout_request \<Rightarrow> 'w \<Rightarrow> (exn + payout_result) \<times> 'w"
  rl_status :: "string \<Rightarrow> string \<Rightarrow> 'w \<Rightarrow> (exn + payout_result) \<times> 'w"

text \<open>The exceptions the request's handler catches (\<open>KeyError\<close> and \<open>IndexError\<close> are lookup errors), with their text.\<close>

fun caught_text :: "exn \<Rightarrow> string option" where
  "caught_text (RuntimeError m) = Some m"
| "caught_text (EconfirmDefiniteError m) = Some m"
| "caught_text (EconfirmUnknownError m) = Some m"
| "caught_text (ValueError m) = Some m"
| "caught_text (CanonicalEncodingError m) = Some m"
| "caught_text (TypeError m) = Some m"
| "caught_text (KeyError m) = Some m"
| "caught_text (IndexError m) = Some m"
| "caught_text _ = None"

section \<open>What an attempt says\<close>

text \<open>\<open>str(snapshot.get(key) or default)\<close>\<close>

definition snapshot_text :: "string \<Rightarrow> dict \<Rightarrow> string \<Rightarrow> string" where
  "snapshot_text k d dflt = (case dict_get k d of None \<Rightarrow> dflt | Some v \<Rightarrow> if truthy v then value_text v else dflt)"

definition payout_kind_of :: "payout_attempt \<Rightarrow> string" where
  "payout_kind_of p = py_lower (strip (snapshot_text ''payout_kind'' (po_request_snapshot p) ''release''))"

definition resolve_destination_phone_for_transaction :: "transaction \<Rightarrow> string \<Rightarrow> db \<Rightarrow> exn + string" where
  "resolve_destination_phone_for_transaction t kind s =
     (case get_user (if kind = ''release'' then tx_seller t else tx_buyer t) s of
       None \<Rightarrow> Inl (EscrowServiceError ''Payout destination user was not found.'')
     | Some u \<Rightarrow> let destination = strip (or_text [u_mpesa_phone u, Some (u_phone u)] '''') in
         if destination = '''' then Inl (EscrowServiceError ''Payout destination phone is missing.'') else Inr destination)"

definition destination_phone_of :: "transaction \<Rightarrow> payout_attempt \<Rightarrow> db \<Rightarrow> exn + string" where
  "destination_phone_of t p s = (let phone = strip (snapshot_text ''destination_phone'' (po_request_snapshot p) '''') in
     if phone \<noteq> '''' then Inr phone else resolve_destination_phone_for_transaction t (payout_kind_of p) s)"

definition payout_scenario :: "string \<Rightarrow> string" where
  "payout_scenario ref = (let parts = split_on (CHR '':'') ref in
     if 4 \<le> length parts \<and> parts ! 0 = ''sim'' then py_lower (strip (parts ! 2)) else '''')"

definition decrypt_econfirm_code :: "env \<Rightarrow> string \<Rightarrow> string option" where
  "decrypt_econfirm_code E token = (let keys = parse_keys (st_econfirm_code_encryption_key (e_settings E)) in
     if keys = [] \<or> \<not> list_all (e_fernet_key_ok E) keys then None else e_fernet_decrypt E keys token)"

definition escrow_reference_of :: "escrow \<Rightarrow> string" where
  "escrow_reference_of e = (let ref = or_text [es_econfirm_transaction_id e] '''' in
     if py_lower (strip (or_text [es_custody_provider e] '''')) = ''econfirm'' \<and> ref \<noteq> '''' then ref else uuid_str (es_id e))"

section \<open>Asking the rail\<close>

datatype answer = Answered payout_result | No_code | Refused string | Raised exn

definition resolve_payout_status_with_inquiry ::
    "'w payout_rails \<Rightarrow> string \<Rightarrow> payout_attempt \<Rightarrow> 'w \<Rightarrow> (exn + payout_result) \<times> 'w" where
  "resolve_payout_status_with_inquiry R rail p w = (let ref = or_text [po_provider_reference p] '''' in
     if payout_scenario ref = ''out_of_order'' \<and>
        snapshot_text ''raw_status'' (po_response_snapshot p) '''' \<in> {''out_of_order_pending'', ''settled_after_out_of_order''}
     then (Inr \<lparr>px_outcome = R_SUCCEEDED, px_provider_reference = ref, px_raw_status = Some ''settled_after_out_of_order'',
       px_message = Some ''Simulated rail reconciled previously out-of-order flow.''\<rparr>, w)
     else rl_status R rail ref w)"

definition payout_request_of :: "escrow \<Rightarrow> payout_attempt \<Rightarrow> string \<Rightarrow> string option \<Rightarrow> payout_request" where
  "payout_request_of e p phone code = \<lparr>pq_escrow_reference = escrow_reference_of e, pq_amount = po_amount p,
     pq_destination_phone = phone, pq_purpose = po_purpose p, pq_currency = po_currency p, pq_confirmation_code = code,
     pq_notes = Some (or_text [Some (po_purpose p)] ''Vekro-authorised payout'')\<rparr>"

definition send_payout :: "'w payout_rails \<Rightarrow> string \<Rightarrow> payout_request \<Rightarrow> 'w \<Rightarrow> answer \<times> 'w" where
  "send_payout R rail q w = (let (m, w') = (case make_payout_request q of Inl x \<Rightarrow> (Inl x, w) | Inr q' \<Rightarrow> rl_request R rail q' w) in
     (case m of Inr r \<Rightarrow> Answered r | Inl x \<Rightarrow> (case caught_text x of Some t \<Rightarrow> Refused t | None \<Rightarrow> Raised x), w'))"

definition ask_rail :: "env \<Rightarrow> 'w payout_rails \<Rightarrow> string \<Rightarrow> string \<Rightarrow> escrow \<Rightarrow> payout_attempt \<Rightarrow> 'w \<Rightarrow> answer \<times> 'w" where
  "ask_rail E R rail phone e p w = (if truthy_text (po_provider_reference p)
     then (let (m, w') = resolve_payout_status_with_inquiry R rail p w in (case m of Inr r \<Rightarrow> Answered r | Inl x \<Rightarrow> Raised x, w'))
     else if truthy_text (es_econfirm_confirmation_code e)
     then (case decrypt_econfirm_code E (or_text [es_econfirm_confirmation_code e] '''') of
         None \<Rightarrow> (No_code, w)
       | Some code \<Rightarrow> send_payout R rail (payout_request_of e p phone (Some code)) w)
     else send_payout R rail (payout_request_of e p phone None) w)"

section \<open>Booking the answer\<close>

definition attempt_outcome_from_payout :: "rail_outcome \<Rightarrow> attempt_outcome" where
  "attempt_outcome_from_payout r = (case r of R_SUCCEEDED \<Rightarrow> SUCCEEDED | R_FAILED_DEFINITE \<Rightarrow> FAILED_DEFINITE | _ \<Rightarrow> UNKNOWN)"

definition answer_failure_code :: "attempt_outcome \<Rightarrow> string option \<Rightarrow> string option" where
  "answer_failure_code oc raw = (if oc = SUCCEEDED then None else Some (or_text [raw] (outcome_value oc)))"

definition answer_failure_reason :: "attempt_outcome \<Rightarrow> string option \<Rightarrow> string option" where
  "answer_failure_reason oc message = (if oc = SUCCEEDED then None else message)"

definition missing_parent :: "time \<Rightarrow> string \<Rightarrow> string \<Rightarrow> payout_attempt \<Rightarrow> payout_attempt" where
  "missing_parent now code reason p = p\<lparr>po_outcome := FAILED_DEFINITE, po_failure_code := Some code, po_failure_reason := Some reason,
     po_attempted_at := now\<rparr>"

definition still_unknown :: "time \<Rightarrow> string \<Rightarrow> string \<Rightarrow> payout_attempt \<Rightarrow> payout_attempt" where
  "still_unknown now code reason p = p\<lparr>po_outcome := UNKNOWN, po_failure_code := Some code, po_failure_reason := Some reason,
     po_attempted_at := now\<rparr>"

definition with_message :: "payout_attempt \<Rightarrow> payout_attempt" where
  "with_message p = p\<lparr>po_response_snapshot := dict_set ''message'' (jopt (po_failure_reason p)) (po_response_snapshot p)\<rparr>"

definition answered_attempt :: "time \<Rightarrow> payout_result \<Rightarrow> payout_attempt \<Rightarrow> payout_attempt" where
  "answered_attempt now r p = (let oc = attempt_outcome_from_payout (px_outcome r) in
     p\<lparr>po_provider_reference := (if px_provider_reference r = '''' then po_provider_reference p else Some (px_provider_reference r)),
       po_response_snapshot := payout_result_payload r, po_outcome := oc, po_failure_code := answer_failure_code oc (px_raw_status r),
       po_failure_reason := answer_failure_reason oc (px_message r), po_attempted_at := now\<rparr>)"

definition audit_payout_attempt :: "env \<Rightarrow> payout_attempt \<Rightarrow> transaction \<Rightarrow> string \<Rightarrow> db \<Rightarrow> exn + db" where
  "audit_payout_attempt E p t kind s = record_money_audit_event E
     ((new_audit E (''payout_'' @ kind @ ''_'' @ outcome_value (po_outcome p)) ACTOR_SYSTEM)
       \<lparr>ma_reason := Some (or_text [po_failure_reason p] (po_purpose p)), ma_transaction := Some (tx_id t), ma_escrow := Some (po_escrow p),
        ma_attempt := Some (po_id p), ma_provider_reference := po_provider_reference p, ma_rail_name := Some (po_rail_name p),
        ma_amount := Some (po_amount p), ma_currency := Some (po_currency p),
        ma_details := [(''purpose'', JStr (po_purpose p)), (''failure_code'', jopt (po_failure_code p))]\<rparr>) s"

text \<open>The end of each branch: audit, then the order's payout status. The attempt is in the session already.\<close>

definition close_attempt :: "env \<Rightarrow> payout_attempt \<Rightarrow> transaction \<Rightarrow> db \<Rightarrow> exn + db" where
  "close_attempt E p t s = bindE (audit_payout_attempt E p t (payout_kind_of p) s) (\<lambda>s'.
     Inr (save_transaction (e_now E) (refresh_transaction_payout_status t s') s'))"

definition payout_movement :: "payout_attempt \<Rightarrow> escrow \<Rightarrow> ledger_movement" where
  "payout_movement p e = (let kind = payout_kind_of p in \<lparr>mv_escrow = es_id e, mv_idempotency_key = ''outbox:'' @ uuid_str (po_id p),
     mv_amount = dec_of_cents (po_amount p), mv_debit_account = (if kind = ''release'' then ''SELLER_PAYABLE'' else ''BUYER_REFUNDABLE''),
     mv_credit_account = ESCROW_HELD_ACCOUNT, mv_description = Some (''Payout executor '' @ kind @ '' for '' @ po_purpose p),
     mv_currency = po_currency p, mv_group = None\<rparr>)"

definition pay_out :: "payout_attempt \<Rightarrow> escrow \<Rightarrow> escrow" where
  "pay_out p e = (if payout_kind_of p = ''release'' then e\<lparr>es_released_amount := es_released_amount e + po_amount p\<rparr>
     else e\<lparr>es_refunded_amount := es_refunded_amount e + po_amount p\<rparr>)"

text \<open>
  The rail says it paid. The result is the database committed by the posting, if it commits, and the
  rest of the step.
\<close>

type_synonym step_result = "db option \<times> (exn + (attempt_outcome \<times> db))"

definition settle_paid :: "env \<Rightarrow> payout_attempt \<Rightarrow> transaction \<Rightarrow> escrow \<Rightarrow> db \<Rightarrow> step_result" where
  "settle_paid E p t e s = (if es_funded_amount e - es_released_amount e - es_refunded_amount e < po_amount p
     then let p' = with_message (p\<lparr>po_outcome := UNKNOWN, po_failure_code := Some ''insufficient_funded_balance'',
         po_failure_reason := Some ''Escrow funded balance is insufficient for payout settlement.''\<rparr>) in
       (None, bindE (close_attempt E p' t (put_payout p' s)) (\<lambda>s'. Inr (UNKNOWN, s')))
     else (case post_movement E (payout_movement p e) s of
         Inl x \<Rightarrow> (None, Inl x)
       | Inr (r, s1) \<Rightarrow> if pr_created_entries r = 2
           then (Some s1, bindE (close_attempt E p t (put_escrow (pay_out p e) s1)) (\<lambda>s'. Inr (SUCCEEDED, s')))
           else (None, bindE (close_attempt E p t s1) (\<lambda>s'. Inr (SUCCEEDED, s')))))"

definition record_rail_answer :: "payout_attempt \<Rightarrow> time \<Rightarrow> db \<Rightarrow> db" where
  "record_rail_answer p now s = (if po_outcome p = SUCCEEDED
     then record_rail_success (po_rail_name p) (Some (po_provider_name p)) now s
     else record_rail_failure (po_rail_name p) (Some (po_provider_name p)) (po_failure_code p) (po_failure_reason p) now None s)"

definition book_answer :: "env \<Rightarrow> time \<Rightarrow> payout_attempt \<Rightarrow> transaction \<Rightarrow> escrow \<Rightarrow> db \<Rightarrow> answer \<Rightarrow> step_result" where
  "book_answer E now p t e s a = (case a of
       Raised x \<Rightarrow> (None, Inl x)
     | No_code \<Rightarrow> (let p' = still_unknown now ''confirmation_code_decrypt_failed''
           ''Could not decrypt the eConfirm confirmation code; check ECONFIRM_CODE_ENCRYPTION_KEY.'' p in
         (None, bindE (close_attempt E p' t (put_payout p' s)) (\<lambda>s'. Inr (UNKNOWN, s'))))
     | Refused msg \<Rightarrow> (let p' = with_message (still_unknown now ''rail_request_error'' msg p) in
         (None, bindE (close_attempt E p' t (record_rail_answer p' now (put_payout p' s))) (\<lambda>s'. Inr (UNKNOWN, s'))))
     | Answered r \<Rightarrow> (let p' = answered_attempt now r p; s' = record_rail_answer p' now (put_payout p' s) in
         if po_outcome p' = SUCCEEDED then settle_paid E p' t e s'
         else (None, bindE (close_attempt E p' t s') (\<lambda>s''. Inr (po_outcome p', s'')))))"

section \<open>One attempt\<close>

definition execute_attempt ::
    "env \<Rightarrow> 'w payout_rails \<Rightarrow> time \<Rightarrow> payout_attempt \<Rightarrow> db \<Rightarrow> 'w \<Rightarrow> step_result \<times> 'w" where
  "execute_attempt E R now p s w = (case get_escrow (po_escrow p) s of
       None \<Rightarrow> ((None, Inr (FAILED_DEFINITE, put_payout (missing_parent now ''escrow_missing'' ''Escrow for payout attempt was not found.'' p) s)), w)
     | Some e \<Rightarrow> (case get_transaction (es_transaction e) s of
         None \<Rightarrow> ((None, Inr (FAILED_DEFINITE, put_payout (missing_parent now ''transaction_missing'' ''Transaction for payout attempt was not found.'' p) s)), w)
       | Some t \<Rightarrow> (case destination_phone_of t p s of
           Inl x \<Rightarrow> ((None, Inl x), w)
         | Inr phone \<Rightarrow> (case get_payout_rail (e_registry E) (po_rail_name p) of
             Inl x \<Rightarrow> (let p' = with_message (still_unknown now ''rail_unavailable'' (case caught_text x of None \<Rightarrow> '''' | Some m \<Rightarrow> m) p) in
               ((None, bindE (close_attempt E p' t (put_payout p' s)) (\<lambda>s'. Inr (UNKNOWN, s'))), w))
           | Inr rail \<Rightarrow> (let (a, w') = ask_rail E R rail phone e p w in (book_answer E now p t e s a, w'))))))"

section \<open>A run\<close>

record executor_result =
  xr_claimed :: nat
  xr_processed :: nat
  xr_succeeded :: nat
  xr_failed_definite :: nat
  xr_unknown :: nat

definition run_result :: "attempt_outcome list \<Rightarrow> executor_result" where
  "run_result os = \<lparr>xr_claimed = length os, xr_processed = length os, xr_succeeded = count_list os SUCCEEDED,
     xr_failed_definite = count_list os FAILED_DEFINITE, xr_unknown = count_list os UNKNOWN\<rparr>"

text \<open>\<open>stored\<close> is the database of the last commit, \<open>s\<close> the session's.\<close>

fun execute_all ::
    "env \<Rightarrow> 'w payout_rails \<Rightarrow> time \<Rightarrow> payout_attempt list \<Rightarrow> db \<Rightarrow> db \<Rightarrow> 'w \<Rightarrow> (db \<times> (exn + (attempt_outcome list \<times> db))) \<times> 'w" where
  "execute_all E R now [] stored s w = ((stored, Inr ([], s)), w)"
| "execute_all E R now (p # ps) stored s w = (let ((commit, m), w1) = execute_attempt E R now p s w;
       stored1 = (case commit of None \<Rightarrow> stored | Some d \<Rightarrow> d) in
     case m of Inl x \<Rightarrow> ((stored1, Inl x), w1)
     | Inr (oc, s1) \<Rightarrow> (let ((stored2, m2), w2) = execute_all E R now ps stored1 s1 w1 in
         ((stored2, bindE m2 (\<lambda>(os, s2). Inr (oc # os, s2))), w2)))"

definition claimed_attempts :: "int \<Rightarrow> db \<Rightarrow> payout_attempt list" where
  "claimed_attempts batch s = take (nat batch) (sort_key (\<lambda>p. (po_created_at p, po_attempted_at p))
     (filter (\<lambda>p. po_outcome p = UNKNOWN) (d_payouts s)))"

definition run_payout_executor_once ::
    "env \<Rightarrow> 'w payout_rails \<Rightarrow> int \<Rightarrow> time option \<Rightarrow> db \<Rightarrow> 'w \<Rightarrow> (db \<times> (exn + executor_result)) \<times> 'w" where
  "run_payout_executor_once E R batch now_arg s w = (if \<not> outbox_ready s \<or> batch \<le> 0 then ((s, Inr (run_result [])), w)
     else let now = (case now_arg of None \<Rightarrow> e_now E | Some n \<Rightarrow> n);
         ((stored, m), w') = execute_all E R now (claimed_attempts batch s) s s w in
       (case m of Inl x \<Rightarrow> ((stored, Inl x), w') | Inr (os, s') \<Rightarrow> ((s', Inr (run_result os)), w')))"

section \<open>What a step does\<close>

text \<open>
  \<open>booked p oc paid s s'\<close>: only the attempt \<open>p\<close> changed among the attempts, to the outcome \<open>oc\<close>; of the
  orders at most payout status and update time changed; and when \<open>paid\<close>, the amount left the escrow's
  held balance and was added to what the escrow has paid out, within what was funded.
\<close>

definition same_attempt :: "payout_attempt \<Rightarrow> payout_attempt \<Rightarrow> bool" where
  "same_attempt p p' = (po_id p' = po_id p \<and> po_escrow p' = po_escrow p \<and> po_purpose p' = po_purpose p \<and> po_rail_name p' = po_rail_name p \<and>
     po_amount p' = po_amount p \<and> po_currency p' = po_currency p \<and> po_request_snapshot p' = po_request_snapshot p \<and>
     po_idempotency_key p' = po_idempotency_key p \<and> po_created_at p' = po_created_at p)"

definition order_shown :: "transaction \<Rightarrow> transaction \<Rightarrow> bool" where
  "order_shown t t' = (\<exists>x u. t' = t\<lparr>tx_payout_status := x, tx_updated_at := u\<rparr>)"

definition orders_shown :: "db \<Rightarrow> db \<Rightarrow> bool" where
  "orders_shown s s' = (map tx_id (d_transactions s') = map tx_id (d_transactions s) \<and>
     (\<forall>i. rel_option order_shown (get_transaction i s) (get_transaction i s')))"

definition payable :: "payout_attempt \<Rightarrow> escrow \<Rightarrow> bool" where
  "payable p e = (0 < po_amount p \<and> po_amount p \<le> es_funded_amount e - es_released_amount e - es_refunded_amount e)"

definition paid_out :: "payout_attempt \<Rightarrow> escrow \<Rightarrow> db \<Rightarrow> db \<Rightarrow> bool" where
  "paid_out p e s s' = (get_escrow (po_escrow p) s = Some e \<and> payable p e \<and> d_escrows s' = row_put es_id (pay_out p e) (d_escrows s) \<and>
     (\<forall>i. get_escrow_held_balance i s' = get_escrow_held_balance i s - (if i = es_id e then po_amount p else 0)))"

definition booked :: "payout_attempt \<Rightarrow> attempt_outcome \<Rightarrow> escrow option \<Rightarrow> db \<Rightarrow> db \<Rightarrow> bool" where
  "booked p oc paid s s' = (d_tables s' = d_tables s \<and> d_users s' = d_users s \<and> d_listings s' = d_listings s \<and>
     d_disputes s' = d_disputes s \<and> d_notifications s' = d_notifications s \<and> d_collections s' = d_collections s \<and> d_prompts s' = d_prompts s \<and>
     (\<exists>p'. same_attempt p p' \<and> po_outcome p' = oc \<and> d_payouts s' = row_put po_id p' (d_payouts s)) \<and> orders_shown s s' \<and>
     (ledger_ok s \<longrightarrow> ledger_ok s') \<and>
     (case paid of None \<Rightarrow> d_escrows s' = d_escrows s \<and> d_ledger s' = d_ledger s
      | Some e \<Rightarrow> oc = SUCCEEDED \<and> paid_out p e s s'))"

lemma order_shown_refl [simp]: "order_shown t t"
  unfolding order_shown_def by (rule exI [of _ "tx_payout_status t"], rule exI [of _ "tx_updated_at t"]) simp

lemma orders_shown_refl [simp]: "orders_shown s s"
  by (simp add: orders_shown_def option.rel_refl)

lemma orders_shown_same: "d_transactions s' = d_transactions s \<Longrightarrow> orders_shown s s'"
  by (simp add: orders_shown_def get_transaction_def option.rel_refl)

lemma order_shown_trans: "order_shown t t' \<Longrightarrow> order_shown t' t'' \<Longrightarrow> order_shown t t''"
  by (fastforce simp: order_shown_def)

lemma orders_shown_trans: "orders_shown s s' \<Longrightarrow> orders_shown s' s'' \<Longrightarrow> orders_shown s s''"
proof -
  assume a: "orders_shown s s'" "orders_shown s' s''"
  have "rel_option order_shown (get_transaction i s) (get_transaction i s'')" for i
    using a order_shown_trans by (cases "get_transaction i s"; cases "get_transaction i s'") (auto simp: orders_shown_def option_rel_Some1 dest!: spec [of _ i])
  then show ?thesis using a by (simp add: orders_shown_def)
qed

lemma close_attempt_Inr:
  assumes "close_attempt E p t s = Inr s'" and "get_transaction (tx_id t) s = Some t"
  shows "d_tables s' = d_tables s" "d_users s' = d_users s" "d_listings s' = d_listings s" "d_disputes s' = d_disputes s"
    "d_notifications s' = d_notifications s" "d_collections s' = d_collections s" "d_prompts s' = d_prompts s" "d_payouts s' = d_payouts s"
    "d_escrows s' = d_escrows s" "d_ledger s' = d_ledger s" "orders_shown s s'"
proof -
  obtain s1 where a: "audit_payout_attempt E p t (payout_kind_of p) s = Inr s1"
    and s': "s' = save_transaction (e_now E) (refresh_transaction_payout_status t s1) s1"
    using assms(1) by (auto simp: close_attempt_def bindE_eq_Inr)
  have l: "logs_only s s1" using a by (auto simp: audit_payout_attempt_def intro: record_money_audit_event_logs)
  show "d_tables s' = d_tables s" "d_users s' = d_users s" "d_listings s' = d_listings s" "d_disputes s' = d_disputes s"
    "d_notifications s' = d_notifications s" "d_collections s' = d_collections s" "d_prompts s' = d_prompts s" "d_payouts s' = d_payouts s"
    "d_escrows s' = d_escrows s" "d_ledger s' = d_ledger s"
    using logs_only_frame [OF l] by (simp_all add: s')
  obtain x where x: "refresh_transaction_payout_status t s1 = t\<lparr>tx_payout_status := x\<rparr>" using refresh_fields by blast
  have g: "get_transaction i s1 = get_transaction i s" for i by (rule logs_only_get(1) [OF l])
  have "rel_option order_shown (get_transaction i s) (get_transaction i s')" for i
    using assms(2) g by (auto simp: s' x get_transaction_save option.rel_refl order_shown_def)
  then show "orders_shown s s'" using logs_only_frame(4) [OF l] by (simp add: orders_shown_def s')
qed

lemma ledger_ok_same: "d_ledger s' = d_ledger s \<Longrightarrow> ledger_ok s' = ledger_ok s"
  by (simp add: ledger_ok_def entries_by_idempotency_key_def)

lemma held_same: "d_ledger s' = d_ledger s \<Longrightarrow> get_escrow_held_balance i s' = get_escrow_held_balance i s"
  by (simp add: get_escrow_held_balance_def)

text \<open>A branch that books no movement.\<close>

lemma record_rail_answer_only: "rails_only s (record_rail_answer p now s)"
  by (simp add: record_rail_answer_def rail_failure.step_only rail_success.step_only)

lemma plain_booked:
  assumes "close_attempt E p' t s1 = Inr s'" and "rails_only (put_payout p' s) s1" and "same_attempt p p'"
    and "get_transaction (tx_id t) s = Some t"
  shows "booked p (po_outcome p') None s s'"
proof -
  have g: "get_transaction (tx_id t) s1 = Some t"
    using assms(4) rails_only_frame(4) [OF assms(2)] by (simp add: get_transaction_def put_payout_def)
  note c = close_attempt_Inr [OF assms(1) g] and r = rails_only_frame [OF assms(2), unfolded put_payout_def, simplified]
  have "orders_shown s s'" using c(11) r(4) orders_shown_trans [OF orders_shown_same] by blast
  moreover have "d_ledger s' = d_ledger s" using c r by simp
  ultimately show ?thesis using c r assms(3) ledger_ok_same [of s' s] unfolding booked_def
    by (auto simp: put_payout_def)
qed

lemma payout_movement_effect:
  assumes "post_movement E (payout_movement p e) s = Inr (r, s')" and "pr_created_entries r = 2"
  shows "0 < po_amount p" and "get_escrow_held_balance i s' = get_escrow_held_balance i s - (if i = es_id e then po_amount p else 0)"
proof -
  have q: "quantize 2 (dec_of_cents (po_amount p)) = Some (Fin q (- 2)) \<Longrightarrow> q = po_amount p" for q
    by (auto simp: quantize_cents split: if_splits)
  obtain q where q2: "quantize 2 (mv_amount (payout_movement p e)) = Some (Fin q (- 2))" "0 < q"
    using assms by (cases rule: post_movement_cases) auto
  then have qa: "q = po_amount p" by (simp add: payout_movement_def Let_def q)
  then show "0 < po_amount p" using q2 by simp
  have "held_effect (payout_movement p e) (movement_cents (payout_movement p e)) = - po_amount p"
    using q2 qa by (simp add: held_effect_def movement_cents_def payout_movement_def Let_def ESCROW_HELD_ACCOUNT_def strip_def lstrip_def py_isspace_def)
  moreover have "mv_escrow (payout_movement p e) = es_id e" by (simp add: payout_movement_def Let_def)
  ultimately show "get_escrow_held_balance i s' = get_escrow_held_balance i s - (if i = es_id e then po_amount p else 0)"
    using post_movement_balance [OF assms(1), of i] assms(2) by auto
qed

lemma settle_booked:
  assumes "settle_paid E p' t e s1 = (c, Inr (oc, s'))" and "rails_only (put_payout p' s) s1" and "same_attempt p p'"
    and "po_outcome p' = SUCCEEDED" and "get_escrow (po_escrow p) s = Some e" and "get_transaction (tx_id t) s = Some t"
  obtains (unpaid) "c = None" "booked p oc None s s'"
  | (paid) d where "c = Some d" "booked p oc (Some e) s s'" "d_escrows d = d_escrows s" "d_ledger d = d_ledger s'" "d_payouts d = d_payouts s'"
proof -
  note r = rails_only_frame [OF assms(2), unfolded put_payout_def, simplified]
  have g1: "get_transaction (tx_id t) s1 = Some t" using assms(6) r by (simp add: get_transaction_def)
  show ?thesis
  proof (cases "es_funded_amount e - es_released_amount e - es_refunded_amount e < po_amount p'")
    case True
    let ?p = "with_message (p'\<lparr>po_outcome := UNKNOWN, po_failure_code := Some ''insufficient_funded_balance'',
         po_failure_reason := Some ''Escrow funded balance is insufficient for payout settlement.''\<rparr>)"
    from True assms(1) have c: "c = None" and oc: "oc = UNKNOWN" and cl: "close_attempt E ?p t (put_payout ?p s1) = Inr s'"
      by (auto simp: settle_paid_def Let_def bindE_eq_Inr)
    have id: "po_id ?p = po_id p'" "po_outcome ?p = UNKNOWN" by (simp_all add: with_message_def)
    have "rails_only (put_payout ?p s) (put_payout ?p s1)"
      using assms(2) id by (cases s; cases s1) (simp add: rails_only_def put_payout_def row_put_def)
    then have "booked p (po_outcome ?p) None s s'"
      using plain_booked [OF cl _ _ assms(6)] assms(3) by (simp add: same_attempt_def with_message_def)
    then show ?thesis using unpaid c oc id by simp
  next
    case False
    then obtain r s2 where m: "post_movement E (payout_movement p' e) s1 = Inr (r, s2)"
      and oc: "oc = SUCCEEDED"
      and br: "if pr_created_entries r = 2 then c = Some s2 \<and> close_attempt E p' t (put_escrow (pay_out p' e) s2) = Inr s'
        else c = None \<and> close_attempt E p' t s2 = Inr s'"
      using assms(1) by (auto simp: settle_paid_def bindE_eq_Inr Let_def split: sum.splits prod.splits if_splits)
    note f = post_movement_frame [OF m]
    show ?thesis
    proof (cases "pr_created_entries r = 2")
      case True
      then have cl: "close_attempt E p' t (put_escrow (pay_out p' e) s2) = Inr s'" and c: "c = Some s2" using br by auto
      have g2: "get_transaction (tx_id t) (put_escrow (pay_out p' e) s2) = Some t" using g1 f by (simp add: get_transaction_def put_escrow_def)
      note k = close_attempt_Inr [OF cl g2]
      have pay: "pay_out p' e = pay_out p e" using assms(3) by (simp add: pay_out_def payout_kind_of_def same_attempt_def)
      have l: "d_ledger s' = d_ledger s2" using k by (simp add: put_escrow_def)
      have held: "get_escrow_held_balance i s' = get_escrow_held_balance i s - (if i = es_id e then po_amount p else 0)" for i
        using payout_movement_effect(2) [OF m True, of i] held_same [OF l, of i] held_same [of s1 s i] r assms(3) by (simp add: same_attempt_def)
      have "paid_out p e s s'"
        using assms(3,5) False payout_movement_effect(1) [OF m True] held k f r pay
        by (simp add: paid_out_def payable_def same_attempt_def put_escrow_def)
      moreover have "orders_shown s s'"
        by (rule orders_shown_trans [OF orders_shown_same k(11)]) (simp add: f r put_escrow_def)
      moreover have "ledger_ok s \<longrightarrow> ledger_ok s'"
        using post_movement_ok [OF _ m] ledger_ok_same [OF l] ledger_ok_same [of s1 s] r by simp
      moreover have "d_tables s' = d_tables s" "d_users s' = d_users s" "d_listings s' = d_listings s" "d_disputes s' = d_disputes s"
        "d_notifications s' = d_notifications s" "d_collections s' = d_collections s" "d_prompts s' = d_prompts s"
        "d_payouts s' = row_put po_id p' (d_payouts s)"
        using k(1-8) f r by (simp_all add: put_escrow_def)
      ultimately have "booked p oc (Some e) s s'"
        using oc assms(3,4) by (simp add: booked_def) blast
      then show ?thesis using paid [OF c] k f r by (simp add: put_escrow_def)
    next
      case False
      then have cl: "close_attempt E p' t s2 = Inr s'" and c: "c = None" using br by auto
      have "s2 = s1" using m False by (cases rule: post_movement_cases) auto
      then have "booked p (po_outcome p') None s s'" using plain_booked [OF _ assms(2,3,6)] cl by simp
      then show ?thesis using unpaid c oc assms(4) by simp
    qed
  qed
qed

text \<open>What the posting commits: the movement and the attempt, not yet what the escrow has paid out.\<close>

definition half_booked :: "payout_attempt \<Rightarrow> db \<Rightarrow> db \<Rightarrow> bool" where
  "half_booked p s d = (d_tables d = d_tables s \<and> d_users d = d_users s \<and> d_listings d = d_listings s \<and> d_disputes d = d_disputes s \<and>
     d_notifications d = d_notifications s \<and> d_collections d = d_collections s \<and> d_prompts d = d_prompts s \<and>
     d_transactions d = d_transactions s \<and> d_escrows d = d_escrows s \<and>
     (\<exists>p'. same_attempt p p' \<and> po_outcome p' = SUCCEEDED \<and> d_payouts d = row_put po_id p' (d_payouts s)) \<and>
     (\<exists>e. get_escrow (po_escrow p) s = Some e \<and> payable p e \<and>
        (\<forall>i. get_escrow_held_balance i d = get_escrow_held_balance i s - (if i = es_id e then po_amount p else 0))))"

lemma settle_commit:
  assumes "settle_paid E p' t e s1 = (Some d, m)" and "rails_only (put_payout p' s) s1" and "same_attempt p p'"
    and "po_outcome p' = SUCCEEDED" and "get_escrow (po_escrow p) s = Some e"
  shows "half_booked p s d"
proof -
  note r = rails_only_frame [OF assms(2), unfolded put_payout_def, simplified]
  from assms(1) obtain rs where m: "post_movement E (payout_movement p' e) s1 = Inr (rs, d)" and two: "pr_created_entries rs = 2"
    and bal: "\<not> es_funded_amount e - es_released_amount e - es_refunded_amount e < po_amount p'"
    by (auto simp: settle_paid_def bindE_eq_Inr Let_def split: sum.splits prod.splits if_splits)
  note f = post_movement_frame [OF m]
  have held: "get_escrow_held_balance i d = get_escrow_held_balance i s - (if i = es_id e then po_amount p else 0)" for i
    using payout_movement_effect(2) [OF m two, of i] held_same [of s1 s i] r assms(3) by (simp add: same_attempt_def)
  have "payable p e" using bal payout_movement_effect(1) [OF m two] assms(3) by (simp add: payable_def same_attempt_def)
  then show ?thesis using f r assms(3-5) held unfolding half_booked_def by auto
qed

lemma answered_same: "same_attempt p (answered_attempt now r p)"
  by (simp add: same_attempt_def answered_attempt_def Let_def)

lemma unknown_same: "same_attempt p (still_unknown now c m p)" "same_attempt p (with_message (still_unknown now c m p))"
  "po_outcome (still_unknown now c m p) = UNKNOWN" "po_outcome (with_message (still_unknown now c m p)) = UNKNOWN"
  by (simp_all add: same_attempt_def still_unknown_def with_message_def)

lemma missing_same: "same_attempt p (missing_parent now c m p)" "po_outcome (missing_parent now c m p) = FAILED_DEFINITE"
  by (simp_all add: same_attempt_def missing_parent_def)

lemma put_booked:
  assumes "same_attempt p p'"
  shows "booked p (po_outcome p') None s (put_payout p' s)"
proof -
  have "orders_shown s (put_payout p' s)" by (rule orders_shown_same) (simp add: put_payout_def)
  then show ?thesis using assms ledger_ok_same [of "put_payout p' s" s] by (auto simp: booked_def put_payout_def)
qed

lemma book_answer_booked:
  assumes "book_answer E now p t e s a = (c, Inr (oc, s'))" and "get_escrow (po_escrow p) s = Some e" and "get_transaction (tx_id t) s = Some t"
  obtains (unpaid) "c = None" "booked p oc None s s'"
  | (paid) d where "c = Some d" "booked p oc (Some e) s s'" "d_escrows d = d_escrows s" "d_ledger d = d_ledger s'" "d_payouts d = d_payouts s'"
proof (cases a)
  case (Answered r)
  let ?p = "answered_attempt now r p" let ?s = "record_rail_answer ?p now (put_payout ?p s)"
  show ?thesis
  proof (cases "po_outcome ?p = SUCCEEDED")
    case True
    then have "settle_paid E ?p t e ?s = (c, Inr (oc, s'))" using assms(1) Answered by (simp add: book_answer_def Let_def)
    then show ?thesis using record_rail_answer_only answered_same True assms(2,3) unpaid paid by (rule settle_booked)
  next
    case False
    then have "c = None" "oc = po_outcome ?p" "close_attempt E ?p t ?s = Inr s'"
      using assms(1) Answered by (auto simp: book_answer_def Let_def bindE_eq_Inr)
    then show ?thesis using unpaid plain_booked [OF _ record_rail_answer_only answered_same assms(3)] by simp
  qed
next
  case No_code
  then show ?thesis using assms unpaid plain_booked [OF _ rails_only_refl unknown_same(1) assms(3)]
    by (auto simp: book_answer_def bindE_eq_Inr Let_def unknown_same)
next
  case (Refused m)
  then show ?thesis using assms unpaid plain_booked [OF _ record_rail_answer_only unknown_same(2) assms(3)]
    by (auto simp: book_answer_def bindE_eq_Inr Let_def unknown_same)
next
  case (Raised x)
  then show ?thesis using assms by (simp add: book_answer_def)
qed

lemma book_answer_commit:
  assumes "book_answer E now p t e s a = (Some d, m)" and "get_escrow (po_escrow p) s = Some e"
  shows "half_booked p s d"
proof (cases a)
  case (Answered r)
  then show ?thesis using assms(1) settle_commit [OF _ record_rail_answer_only answered_same _ assms(2)]
    by (auto simp: book_answer_def Let_def split: if_splits)
qed (use assms in \<open>auto simp: book_answer_def Let_def\<close>)

lemma execute_attempt_booked:
  assumes "execute_attempt E R now p s w = ((c, Inr (oc, s')), w')"
  obtains (unpaid) "c = None" "booked p oc None s s'"
  | (paid) d e where "c = Some d" "booked p oc (Some e) s s'" "d_escrows d = d_escrows s" "d_ledger d = d_ledger s'" "d_payouts d = d_payouts s'"
proof (cases "get_escrow (po_escrow p) s")
  case None
  then show ?thesis using assms unpaid put_booked [OF missing_same(1)] by (auto simp: execute_attempt_def missing_same)
next
  case e: (Some e)
  show ?thesis
  proof (cases "get_transaction (es_transaction e) s")
    case None
    then show ?thesis using assms e unpaid put_booked [OF missing_same(1)] by (auto simp: execute_attempt_def missing_same)
  next
    case t: (Some t)
    then have g: "get_transaction (tx_id t) s = Some t" using transactions.get_key [OF t] by simp
    show ?thesis
    proof (cases "get_payout_rail (e_registry E) (po_rail_name p)")
      case (Inl x)
      then show ?thesis using assms e t unpaid plain_booked [OF _ rails_only_refl unknown_same(2) g]
        by (auto simp: execute_attempt_def bindE_eq_Inr Let_def unknown_same split: sum.splits)
    next
      case (Inr rail)
      then obtain a where "book_answer E now p t e s a = (c, Inr (oc, s'))"
        using assms e t by (auto simp: execute_attempt_def Let_def split: sum.splits prod.splits)
      then show ?thesis using e g unpaid paid by (rule book_answer_booked)
    qed
  qed
qed

lemma execute_attempt_commit:
  assumes "execute_attempt E R now p s w = ((Some d, m), w')"
  shows "half_booked p s d"
  using assms book_answer_commit
  by (auto simp: execute_attempt_def Let_def split: option.splits sum.splits prod.splits)

section \<open>What a run does\<close>

definition attempt_kept :: "payout_attempt \<Rightarrow> payout_attempt \<Rightarrow> bool" where
  "attempt_kept p p' = (same_attempt p p' \<and> (po_outcome p \<noteq> UNKNOWN \<longrightarrow> p' = p))"

definition escrow_kept :: "escrow \<Rightarrow> escrow \<Rightarrow> bool" where
  "escrow_kept e e' = (\<exists>r f. e' = e\<lparr>es_released_amount := r, es_refunded_amount := f\<rparr> \<and> es_released_amount e \<le> r \<and> es_refunded_amount e \<le> f \<and>
     (es_released_amount e + es_refunded_amount e \<le> es_funded_amount e \<longrightarrow> r + f \<le> es_funded_amount e))"

definition executed :: "db \<Rightarrow> db \<Rightarrow> bool" where
  "executed s s' = (d_tables s' = d_tables s \<and> d_users s' = d_users s \<and> d_listings s' = d_listings s \<and> d_disputes s' = d_disputes s \<and>
     d_notifications s' = d_notifications s \<and> d_collections s' = d_collections s \<and> d_prompts s' = d_prompts s \<and> orders_shown s s' \<and>
     list_all2 attempt_kept (d_payouts s) (d_payouts s') \<and> list_all2 escrow_kept (d_escrows s) (d_escrows s'))"

definition keys_unique :: "db \<Rightarrow> bool" where
  "keys_unique s = (distinct (map po_id (d_payouts s)) \<and> distinct (map es_id (d_escrows s)))"

lemma same_attempt_refl [simp]: "same_attempt p p"
  by (simp add: same_attempt_def)

lemma attempt_kept_refl [simp]: "attempt_kept p p"
  by (simp add: attempt_kept_def)

lemma attempt_kept_trans: "attempt_kept p p' \<Longrightarrow> attempt_kept p' p'' \<Longrightarrow> attempt_kept p p''"
  by (auto simp: attempt_kept_def same_attempt_def)

lemma escrow_kept_refl [simp]: "escrow_kept e e"
  unfolding escrow_kept_def by (rule exI [of _ "es_released_amount e"], rule exI [of _ "es_refunded_amount e"]) simp

lemma escrow_kept_trans: "escrow_kept e e' \<Longrightarrow> escrow_kept e' e'' \<Longrightarrow> escrow_kept e e''"
  by (fastforce simp: escrow_kept_def)

lemma executed_refl [simp]: "executed s s"
  by (simp add: executed_def list_all2_refl)

lemma executed_trans:
  assumes "executed s s'" and "executed s' s''"
  shows "executed s s''"
proof -
  have "list_all2 attempt_kept (d_payouts s) (d_payouts s'')"
    by (rule list_all2_trans [of attempt_kept attempt_kept attempt_kept _ "d_payouts s'"])
       (use assms attempt_kept_trans in \<open>auto simp: executed_def\<close>)
  moreover have "list_all2 escrow_kept (d_escrows s) (d_escrows s'')"
    by (rule list_all2_trans [of escrow_kept escrow_kept escrow_kept _ "d_escrows s'"])
       (use assms escrow_kept_trans in \<open>auto simp: executed_def\<close>)
  moreover have "orders_shown s s''" using assms by (auto simp: executed_def intro: orders_shown_trans)
  ultimately show ?thesis using assms by (simp add: executed_def)
qed

lemma row_put_list_all2:
  assumes "distinct (map key rows)" and "row_get key (key r) rows = Some r0" and "Q r0 r" and "\<And>x. Q x x"
  shows "list_all2 Q rows (row_put key r rows)"
  using assms(1,2)
proof (induction rows)
  case (Cons x rows)
  show ?case
  proof (cases "key x = key r")
    case True
    then have "row_put key r rows = rows" using Cons.prems(1) by (intro row_put_absent) auto
    then show ?thesis using True Cons.prems(2) assms(3,4) by (simp add: row_put_Cons list_all2_refl)
  next
    case False
    then show ?thesis using Cons assms(4) by (simp add: row_put_Cons)
  qed
qed (simp add: row_put_def)

lemma put_kept:
  assumes "distinct (map po_id (d_payouts s))" and "row_get po_id (po_id p) (d_payouts s) = Some p" and "po_outcome p = UNKNOWN"
    and "same_attempt p p'" and "d_payouts s' = row_put po_id p' (d_payouts s)"
  shows "list_all2 attempt_kept (d_payouts s) (d_payouts s')"
  unfolding assms(5) by (rule row_put_list_all2 [OF assms(1)]) (use assms in \<open>auto simp: attempt_kept_def same_attempt_def\<close>)

lemma pay_out_kept: "payable p e \<Longrightarrow> escrow_kept e (pay_out p e)"
  unfolding escrow_kept_def payable_def pay_out_def
  by (rule exI [of _ "es_released_amount (pay_out p e)"], rule exI [of _ "es_refunded_amount (pay_out p e)"])
     (auto simp: pay_out_def)

lemma booked_executed:
  assumes "booked p oc paid s s'" and "keys_unique s" and "row_get po_id (po_id p) (d_payouts s) = Some p" and "po_outcome p = UNKNOWN"
  shows "executed s s'"
proof -
  have a: "list_all2 attempt_kept (d_payouts s) (d_payouts s')"
    using assms put_kept [OF _ assms(3,4)] by (auto simp: booked_def keys_unique_def)
  have "list_all2 escrow_kept (d_escrows s) (d_escrows s')"
  proof (cases paid)
    case None
    then show ?thesis using assms(1) by (simp add: booked_def list_all2_refl)
  next
    case (Some e)
    then have p: "paid_out p e s s'" using assms(1) by (simp add: booked_def)
    then have "get_escrow (es_id e) s = Some e" using escrows.get_key by (fastforce simp: paid_out_def)
    then have "row_get es_id (es_id (pay_out p e)) (d_escrows s) = Some e" by (simp add: get_escrow_def pay_out_def)
    moreover have "escrow_kept e (pay_out p e)" using p by (intro pay_out_kept) (simp add: paid_out_def)
    ultimately show ?thesis using p assms(2) row_put_list_all2 [of es_id "d_escrows s" "pay_out p e" e escrow_kept]
      by (simp add: paid_out_def keys_unique_def)
  qed
  then show ?thesis using a assms(1) by (simp add: executed_def booked_def)
qed

lemma half_booked_executed:
  assumes "half_booked p s d" and "keys_unique s" and "row_get po_id (po_id p) (d_payouts s) = Some p" and "po_outcome p = UNKNOWN"
  shows "executed s d"
proof -
  have "list_all2 attempt_kept (d_payouts s) (d_payouts d)"
    using assms put_kept [OF _ assms(3,4)] by (auto simp: half_booked_def keys_unique_def)
  then show ?thesis using assms(1) by (auto simp: executed_def half_booked_def list_all2_refl intro: orders_shown_same)
qed

lemma executed_keys: "executed s s' \<Longrightarrow> map po_id (d_payouts s') = map po_id (d_payouts s) \<and> map es_id (d_escrows s') = map es_id (d_escrows s)"
proof -
  assume e: "executed s s'"
  have "list_all2 (\<lambda>p p'. po_id p' = po_id p) (d_payouts s) (d_payouts s')"
    by (rule list_all2_mono [of attempt_kept]) (use e in \<open>auto simp: executed_def attempt_kept_def same_attempt_def\<close>)
  moreover have "list_all2 (\<lambda>x x'. es_id x' = es_id x) (d_escrows s) (d_escrows s')"
    by (rule list_all2_mono [of escrow_kept]) (use e in \<open>auto simp: executed_def escrow_kept_def\<close>)
  ultimately show ?thesis by (auto simp: list_all2_conv_all_nth intro!: nth_equalityI)
qed

text \<open>The claimed attempts that are still to come are untouched by the steps before them.\<close>

definition pending_rows :: "payout_attempt list \<Rightarrow> db \<Rightarrow> bool" where
  "pending_rows ps s = (distinct (map po_id ps) \<and> (\<forall>p \<in> set ps. row_get po_id (po_id p) (d_payouts s) = Some p \<and> po_outcome p = UNKNOWN))"

lemma pending_after:
  assumes "pending_rows (p # ps) s" and "same_attempt p p'" and "d_payouts s' = row_put po_id p' (d_payouts s)"
  shows "pending_rows ps s'"
proof -
  have "row_get po_id (po_id q) (d_payouts s') = Some q \<and> po_outcome q = UNKNOWN" if q: "q \<in> set ps" for q
  proof -
    have "po_id p \<notin> po_id ` set ps" using assms(1) by (simp add: pending_rows_def)
    then have "po_id q \<noteq> po_id p'" using q assms(2) by (metis imageI same_attempt_def)
    then show ?thesis using assms(1) q by (simp add: pending_rows_def assms(3) row_get_put)
  qed
  then show ?thesis using assms(1) by (simp add: pending_rows_def)
qed

lemma execute_all_Cons:
  assumes "execute_all E R now (p # ps) stored s w = ((st, m), w')"
  obtains (raised) c x where "execute_attempt E R now p s w = ((c, Inl x), w')" "m = Inl x" "st = (case c of None \<Rightarrow> stored | Some d \<Rightarrow> d)"
  | (went_on) c oc s1 w1 m2 where "execute_attempt E R now p s w = ((c, Inr (oc, s1)), w1)"
      "execute_all E R now ps (case c of None \<Rightarrow> stored | Some d \<Rightarrow> d) s1 w1 = ((st, m2), w')" "m = bindE m2 (\<lambda>(os, s2). Inr (oc # os, s2))"
proof -
  obtain c m1 w1 where x: "execute_attempt E R now p s w = ((c, m1), w1)" by (metis prod.exhaust)
  show thesis
  proof (cases m1)
    case (Inl y)
    then show thesis using assms x raised by simp
  next
    case (Inr q)
    obtain oc s1 where q: "q = (oc, s1)" by force
    obtain st2 m2 w2 where rec: "execute_all E R now ps (case c of None \<Rightarrow> stored | Some d \<Rightarrow> d) s1 w1 = ((st2, m2), w2)" by (metis prod.exhaust)
    have "st = st2 \<and> w' = w2 \<and> m = bindE m2 (\<lambda>(os, s2). Inr (oc # os, s2))" using assms x Inr q rec by (auto simp: Let_def)
    then show thesis using went_on [OF x [unfolded Inr q]] rec by simp
  qed
qed

lemma commit_executed:
  assumes "execute_attempt E R now p s w = ((c, m), w')" and "keys_unique s" and "pending_rows (p # ps) s" and "executed s0 s" and "executed s0 stored"
  shows "executed s0 (case c of None \<Rightarrow> stored | Some d \<Rightarrow> d)"
proof (cases c)
  case (Some d)
  then have "half_booked p s d" using assms(1) by (auto intro: execute_attempt_commit)
  then have "executed s d" by (rule half_booked_executed) (use assms in \<open>auto simp: pending_rows_def\<close>)
  then show ?thesis using Some assms(4) executed_trans by simp
qed (use assms in simp)

lemma attempt_executed:
  assumes "execute_attempt E R now p s w = ((c, Inr (oc, s1)), w')" and "keys_unique s" and "pending_rows (p # ps) s"
  shows "executed s s1" and "keys_unique s1" and "pending_rows ps s1"
proof -
  from assms(1) have "\<exists>paid. booked p oc paid s s1" by (auto elim: execute_attempt_booked)
  then obtain paid where b: "booked p oc paid s s1" ..
  show e: "executed s s1" by (rule booked_executed [OF b assms(2)]) (use assms(3) in \<open>auto simp: pending_rows_def\<close>)
  show "keys_unique s1" using executed_keys [OF e] assms(2) by (simp add: keys_unique_def)
  show "pending_rows ps s1" using b pending_after [OF assms(3)] by (auto simp: booked_def)
qed

lemma execute_all_executed:
  assumes "execute_all E R now ps stored s w = ((st, m), w')" and "keys_unique s" and "pending_rows ps s" and "executed s0 s" and "executed s0 stored"
  shows "executed s0 st \<and> (\<forall>os s'. m = Inr (os, s') \<longrightarrow> executed s0 s' \<and> length os = length ps)"
  using assms
proof (induction ps arbitrary: stored s w st m w')
  case (Cons p ps)
  note st1 = commit_executed [OF _ Cons.prems(2-5)]
  from Cons.prems(1) show ?case
  proof (cases rule: execute_all_Cons)
    case (raised c x)
    then show ?thesis using st1 by auto
  next
    case (went_on c oc s1 w1 m2)
    note a = attempt_executed [OF went_on(1) Cons.prems(2,3)]
    have "executed s0 s1" using Cons.prems(4) a(1) by (rule executed_trans)
    from Cons.IH [OF went_on(2) a(2,3) this st1 [OF went_on(1)]] show ?thesis using went_on(3) by (auto simp: bindE_eq_Inr)
  qed
qed simp

lemma claimed_pending:
  assumes "keys_unique s"
  shows "pending_rows (claimed_attempts batch s) s"
proof -
  let ?l = "sort_key (\<lambda>p. (po_created_at p, po_attempted_at p)) (filter (\<lambda>p. po_outcome p = UNKNOWN) (d_payouts s))"
  have "distinct (map po_id ?l)" using assms
    by (simp add: keys_unique_def distinct_map inj_on_def)
  then have "distinct (map po_id (claimed_attempts batch s))" by (simp add: claimed_attempts_def flip: take_map)
  moreover have "set (claimed_attempts batch s) \<subseteq> set ?l" unfolding claimed_attempts_def by (rule set_take_subset)
  ultimately show ?thesis using assms by (auto simp: pending_rows_def keys_unique_def row_get_unique)
qed

text \<open>
  A run, whether it returns or raises: orders keep their identity and status, decided attempts are
  untouched, and an escrow pays out only upwards and within what was funded.
\<close>

lemma run_executed:
  assumes "run_payout_executor_once E R batch n s w = ((s', r), w')" and "keys_unique s"
  shows "executed s s'"
proof (cases "\<not> outbox_ready s \<or> batch \<le> 0")
  case False
  define now where "now = (case n of None \<Rightarrow> e_now E | Some n \<Rightarrow> n)"
  obtain st m w2 where x: "execute_all E R now (claimed_attempts batch s) s s w = ((st, m), w2)" by (metis prod.exhaust)
  from execute_all_executed [OF x assms(2) claimed_pending [OF assms(2)] executed_refl executed_refl]
  show ?thesis using assms(1) x False
    by (cases m) (auto simp: run_payout_executor_once_def now_def)
qed (use assms in \<open>auto simp: run_payout_executor_once_def\<close>)

section \<open>The books\<close>

text \<open>For every escrow the ledger holds what was funded and not yet paid out.\<close>

definition books :: "db \<Rightarrow> bool" where
  "books s = (\<forall>e \<in> set (d_escrows s). get_escrow_held_balance (es_id e) s = es_funded_amount e - es_released_amount e - es_refunded_amount e)"

lemma pay_out_amounts: "es_id (pay_out p e) = es_id e"
  "es_funded_amount (pay_out p e) - es_released_amount (pay_out p e) - es_refunded_amount (pay_out p e) =
     es_funded_amount e - es_released_amount e - es_refunded_amount e - po_amount p"
  by (simp_all add: pay_out_def)

lemma booked_books:
  assumes "booked p oc paid s s'" and "keys_unique s" and "books s"
  shows "books s'"
proof (cases paid)
  case None
  then have "d_escrows s' = d_escrows s" "d_ledger s' = d_ledger s" using assms(1) by (simp_all add: booked_def)
  then show ?thesis using assms(3) held_same [of s' s] by (simp add: books_def)
next
  case (Some e)
  then have p: "paid_out p e s s'" using assms(1) by (simp add: booked_def)
  then have g: "row_get es_id (es_id e) (d_escrows s) = Some e" using escrows.get_key by (fastforce simp: paid_out_def get_escrow_def)
  show ?thesis unfolding books_def
  proof
    fix x assume "x \<in> set (d_escrows s')"
    then have "x = pay_out p e \<or> (x \<in> set (d_escrows s) \<and> es_id x \<noteq> es_id e)"
      using p by (auto simp: paid_out_def pay_out_amounts dest: row_put_in_set)
    moreover have "e \<in> set (d_escrows s)" using g by (auto dest: row_get_SomeD)
    ultimately show "get_escrow_held_balance (es_id x) s' = es_funded_amount x - es_released_amount x - es_refunded_amount x"
      using p assms(3) pay_out_amounts [of p e] by (auto simp: paid_out_def books_def)
  qed
qed

lemma half_booked_unbalanced: "half_booked p s d \<Longrightarrow> books s \<Longrightarrow> \<not> books d"
proof
  assume h: "half_booked p s d" and b: "books s" "books d"
  then obtain e where e: "get_escrow (po_escrow p) s = Some e" "payable p e" "d_escrows d = d_escrows s"
    "get_escrow_held_balance (es_id e) d = get_escrow_held_balance (es_id e) s - po_amount p"
    by (auto simp: half_booked_def)
  then have "e \<in> set (d_escrows s)" by (auto simp: get_escrow_def dest: row_get_SomeD)
  then show False using b e by (auto simp: books_def payable_def)
qed

lemma attempt_books:
  assumes "execute_attempt E R now p s w = ((c, Inr (oc, s1)), w')" and "keys_unique s" and "books s"
  shows "books s1"
proof -
  from assms(1) have "\<exists>paid. booked p oc paid s s1" by (auto elim: execute_attempt_booked)
  then show ?thesis using booked_books assms(2,3) by blast
qed

text \<open>What is stored while the run goes on: the books of the start, or those of a posting whose escrow is not written yet.\<close>

lemma execute_all_books:
  assumes "execute_all E R now ps stored s w = ((st, m), w')" and "keys_unique s" and "pending_rows ps s" and "books s"
    and "stored = s0 \<or> \<not> books stored"
  shows "(st = s0 \<or> \<not> books st) \<and> (\<forall>os s'. m = Inr (os, s') \<longrightarrow> books s')"
  using assms
proof (induction ps arbitrary: stored s w st m w')
  case (Cons p ps)
  have c: "(case c of None \<Rightarrow> stored | Some d \<Rightarrow> d) = s0 \<or> \<not> books (case c of None \<Rightarrow> stored | Some d \<Rightarrow> d)"
    if "execute_attempt E R now p s w = ((c, m1), w1)" for c m1 w1
  proof (cases c)
    case (Some d)
    then have "half_booked p s d" using that by (auto intro: execute_attempt_commit)
    then show ?thesis using half_booked_unbalanced Cons.prems(4) Some by simp
  qed (use Cons.prems(5) in simp)
  from Cons.prems(1) show ?case
  proof (cases rule: execute_all_Cons)
    case (raised c x)
    then show ?thesis using c by auto
  next
    case (went_on c1 oc s1 w1 m2)
    note a = attempt_executed [OF went_on(1) Cons.prems(2,3)] and b = attempt_books [OF went_on(1) Cons.prems(2,4)]
    from Cons.IH [OF went_on(2) a(2,3) b c [OF went_on(1)]] show ?thesis using went_on(3) by (auto simp: bindE_eq_Inr)
  qed
qed simp

lemma run_cases:
  assumes "run_payout_executor_once E R batch n s w = ((s', r), w')"
  obtains (idle) "s' = s" "r = Inr (run_result [])"
  | (ran) now st m where "execute_all E R now (claimed_attempts batch s) s s w = ((st, m), w')"
      "case m of Inl x \<Rightarrow> s' = st \<and> r = Inl x | Inr (os, s2) \<Rightarrow> s' = s2 \<and> r = Inr (run_result os)"
proof (cases "\<not> outbox_ready s \<or> batch \<le> 0")
  case False
  define now where "now = (case n of None \<Rightarrow> e_now E | Some n \<Rightarrow> n)"
  obtain st m w2 where x: "execute_all E R now (claimed_attempts batch s) s s w = ((st, m), w2)" by (metis prod.exhaust)
  then show thesis using ran [of now st m] assms False
    by (cases m) (auto simp: run_payout_executor_once_def now_def)
qed (use assms idle in \<open>auto simp: run_payout_executor_once_def\<close>)

lemma run_books:
  assumes "run_payout_executor_once E R batch n s w = ((s', r), w')" and "keys_unique s" and "books s"
  shows "case r of Inr _ \<Rightarrow> books s' | Inl _ \<Rightarrow> s' = s \<or> \<not> books s'"
  using assms(1)
proof (cases rule: run_cases)
  case idle
  then show ?thesis using assms(3) by simp
next
  case (ran now st m)
  from execute_all_books [OF ran(1) assms(2) claimed_pending [OF assms(2)] assms(3), of s] ran(2)
  show ?thesis by (cases m) auto
qed

lemma run_counts:
  assumes "run_payout_executor_once E R batch n s w = ((s', Inr x), w')" and "keys_unique s"
  shows "xr_claimed x = xr_processed x \<and> xr_processed x = xr_succeeded x + xr_failed_definite x + xr_unknown x \<and>
    int (xr_claimed x) \<le> max 0 batch"
proof -
  have sum: "length os = count_list os SUCCEEDED + count_list os FAILED_DEFINITE + count_list os UNKNOWN" for os
    by (induction os) (auto split: attempt_outcome.split, metis attempt_outcome.exhaust)
  show ?thesis using assms(1)
  proof (cases rule: run_cases)
    case idle
    then show ?thesis by (simp add: run_result_def)
  next
    case (ran now st m)
    then obtain os where os: "m = Inr (os, s')" "x = run_result os" by (cases m) auto
    have "length os = length (claimed_attempts batch s)"
      using execute_all_executed [OF ran(1) assms(2) claimed_pending [OF assms(2)] executed_refl executed_refl] os by auto
    moreover have "length (claimed_attempts batch s) \<le> nat batch" by (simp add: claimed_attempts_def)
    ultimately show ?thesis using sum [of os] os by (simp add: run_result_def)
  qed
qed

section \<open>Which rail is asked\<close>

lemma inquiry_only: "truthy_text (po_provider_reference p) \<Longrightarrow> execute_attempt E (R\<lparr>rl_request := f\<rparr>) now p s w = execute_attempt E R now p s w"
proof -
  assume "truthy_text (po_provider_reference p)"
  moreover have "resolve_payout_status_with_inquiry (R\<lparr>rl_request := f\<rparr>) rail p w = resolve_payout_status_with_inquiry R rail p w" for rail
    by (auto simp: resolve_payout_status_with_inquiry_def Let_def)
  ultimately have ask: "ask_rail E (R\<lparr>rl_request := f\<rparr>) rail phone e p w = ask_rail E R rail phone e p w" for rail phone e
    by (simp add: ask_rail_def)
  show ?thesis unfolding execute_attempt_def ask ..
qed

lemma blocked_rail_not_asked:
  "get_payout_rail (e_registry E) (po_rail_name p) = Inl x \<Longrightarrow> execute_attempt E R now p s w = (fst (execute_attempt E R' now p s w), w)"
  by (simp add: execute_attempt_def Let_def split: option.split sum.split)

section \<open>The alerts\<close>

record reconciliation_result =
  rr_unknown_alerts :: nat
  rr_mismatch_alerts :: nat

definition alert_exists :: "uuid \<Rightarrow> string \<Rightarrow> db \<Rightarrow> bool" where
  "alert_exists tid key s = list_ex (\<lambda>n. n_transaction n = tid \<and> n_event n = SYSTEM_TIMEOUT \<and>
     (case dict_get ''alert_key'' (n_payload n) of None \<Rightarrow> '''' | Some v \<Rightarrow> value_text v) = key) (d_notifications s)"

definition admin_user_ids :: "db \<Rightarrow> uuid list" where
  "admin_user_ids s = map u_id (filter (\<lambda>u. u_role u = ADMIN \<and> u_is_active u) (d_users s))"

definition notify_admins :: "env \<Rightarrow> uuid list \<Rightarrow> uuid \<Rightarrow> string \<Rightarrow> string \<Rightarrow> dict \<Rightarrow> db \<Rightarrow> db" where
  "notify_admins E admins tid title message payload s =
     fold (\<lambda>u s. add_notification E tid SYSTEM_TIMEOUT u title message payload s) admins s"

definition overdue_unknown :: "time \<Rightarrow> db \<Rightarrow> payout_attempt list" where
  "overdue_unknown cutoff s = sort_key po_attempted_at
     (filter (\<lambda>p. po_outcome p = UNKNOWN \<and> po_provider_reference p \<noteq> None \<and> po_attempted_at p \<le> cutoff) (d_payouts s))"

definition alert_unknown :: "env \<Rightarrow> uuid list \<Rightarrow> payout_attempt \<Rightarrow> nat \<times> db \<Rightarrow> nat \<times> db" where
  "alert_unknown E admins p c = (case c of (n, s) \<Rightarrow> (case get_escrow (po_escrow p) s of None \<Rightarrow> (n, s)
     | Some e \<Rightarrow> (case get_transaction (es_transaction e) s of None \<Rightarrow> (n, s)
       | Some t \<Rightarrow> let key = ''payout-unknown:'' @ uuid_str (po_id p) in
         if alert_exists (tx_id t) key s then (n, s)
         else (Suc n, notify_admins E admins (tx_id t) ''Payout reconciliation required''
           ''Payout attempt remains UNKNOWN and requires manual follow-up.''
           [(''alert_key'', JStr key), (''attempt_id'', JStr (uuid_str (po_id p))), (''purpose'', JStr (po_purpose p)),
            (''provider_reference'', jopt (po_provider_reference p))] s))))"

definition alert_mismatch :: "env \<Rightarrow> uuid list \<Rightarrow> transaction \<Rightarrow> nat \<times> db \<Rightarrow> nat \<times> db" where
  "alert_mismatch E admins t c = (case c of (n, s) \<Rightarrow> let key = ''payout-mismatch:'' @ uuid_str (tx_id t) @ '':'' @ status_value (tx_status t) in
     if alert_exists (tx_id t) key s then (n, s)
     else (Suc n, notify_admins E admins (tx_id t) ''Payout status mismatch''
       ''Transaction is terminal but payout_status is not synchronized.''
       [(''alert_key'', JStr key), (''transaction_status'', JStr (status_value (tx_status t))),
        (''payout_status'', JStr (payout_status_value (tx_payout_status t)))] s))"

definition PAYOUT_REQUIRED_STATUSES :: "tx_status list" where
  "PAYOUT_REQUIRED_STATUSES = [RELEASED, REFUNDED_BUYER, RESOLVED_RELEASE, RESOLVED_REFUND, RESOLVED_SPLIT]"

definition run_payout_reconciliation :: "env \<Rightarrow> int \<Rightarrow> time option \<Rightarrow> db \<Rightarrow> db \<times> reconciliation_result" where
  "run_payout_reconciliation E unknown_age_minutes n s = (if \<not> outbox_ready s then (s, \<lparr>rr_unknown_alerts = 0, rr_mismatch_alerts = 0\<rparr>)
     else let now = (case n of None \<Rightarrow> e_now E | Some n \<Rightarrow> n); cutoff = now - seconds (60 * max 1 unknown_age_minutes);
       admins = admin_user_ids s;
       (unknowns, s1) = fold (alert_unknown E admins) (overdue_unknown cutoff s) (0, s);
       (mismatches, s2) = fold (alert_mismatch E admins)
         (filter (\<lambda>t. tx_status t \<in> set PAYOUT_REQUIRED_STATUSES \<and> tx_payout_status t = NOT_REQUIRED) (d_transactions s1)) (0, s1) in
     (if 0 < unknowns \<or> 0 < mismatches then s2 else s, \<lparr>rr_unknown_alerts = unknowns, rr_mismatch_alerts = mismatches\<rparr>))"

end
