(* ===== verification/Lifecycle.thy ===== *)
theory Lifecycle
  imports Requests Order_Creation Payout_Executor
begin

text \<open>
  The whole life of orders: the requests of Requests, order creation, prompts sent again, the funding
  poller, the payout executor and its alerts, in any order and each in its own environment. The
  contract \<open>lifecycle\<close> carries what each event keeps to every history from any well-formed database,
  the empty one included.
\<close>

section \<open>What every event keeps\<close>

text \<open>
  Orders keep their identity and their status follows the documented table; new orders have followed
  it from \<open>awaiting_payment\<close>.
\<close>

definition advances :: "db \<Rightarrow> db \<Rightarrow> bool" where
  "advances s s' = (orders_wf s' \<and>
     (\<forall>i t. get_transaction i s = Some t \<longrightarrow> (\<exists>t'. get_transaction i s' = Some t' \<and> same_order t t' \<and> follows (tx_status t) (tx_status t'))) \<and>
     (\<forall>i t. get_transaction i s = None \<longrightarrow> get_transaction i s' = Some t \<longrightarrow> follows AWAITING_PAYMENT (tx_status t)))"

lemma follows_trans: "follows a b \<Longrightarrow> follows b c \<Longrightarrow> follows a c"
  by (simp add: follows_def)

lemma advances_refl: "orders_wf s \<Longrightarrow> advances s s"
  by (simp add: advances_def)

lemma advances_keeps:
  assumes "advances s s'" and "get_transaction i s = Some t"
  obtains t' where "get_transaction i s' = Some t'" "same_order t t'" "follows (tx_status t) (tx_status t')"
  using assms unfolding advances_def by metis

lemma advances_new: "advances s s' \<Longrightarrow> get_transaction i s = None \<Longrightarrow> get_transaction i s' = Some t \<Longrightarrow> follows AWAITING_PAYMENT (tx_status t)"
  by (simp add: advances_def)

lemma advances_trans:
  assumes "advances s s'" and "advances s' s''"
  shows "advances s s''"
  unfolding advances_def
proof (intro conjI allI impI)
  show "orders_wf s''" using assms(2) by (simp add: advances_def)
  fix i t
  show "\<exists>t'. get_transaction i s'' = Some t' \<and> same_order t t' \<and> follows (tx_status t) (tx_status t')" if g: "get_transaction i s = Some t"
  proof -
    obtain t1 where 1: "get_transaction i s' = Some t1" "same_order t t1" "follows (tx_status t) (tx_status t1)"
      by (rule advances_keeps [OF assms(1) g])
    obtain t2 where "get_transaction i s'' = Some t2" "same_order t1 t2" "follows (tx_status t1) (tx_status t2)"
      by (rule advances_keeps [OF assms(2) 1(1)])
    then show ?thesis using 1 by (blast intro: same_order_trans follows_trans)
  qed
  show "follows AWAITING_PAYMENT (tx_status t)" if "get_transaction i s = None" "get_transaction i s'' = Some t"
  proof (cases "get_transaction i s'")
    case None
    then show ?thesis by (rule advances_new [OF assms(2) _ that(2)])
  next
    case (Some u)
    then have "follows AWAITING_PAYMENT (tx_status u)" by (rule advances_new [OF assms(1) that(1)])
    moreover have "follows (tx_status u) (tx_status t)" using advances_keeps [OF assms(2) Some] that(2) by (metis option.inject)
    ultimately show ?thesis by (rule follows_trans)
  qed
qed

lemma same_ids: "map tx_id (d_transactions s') = map tx_id (d_transactions s) \<Longrightarrow> get_transaction i s' = None \<longleftrightarrow> get_transaction i s = None"
  by (simp add: get_transaction_def row_get_None flip: set_map)

lemma request_advances: "request_keeps R s s' \<Longrightarrow> advances s s'"
  unfolding advances_def request_keeps_def
  using same_ids [of s' s] follows_step [OF _ follows_refl] by (metis follows_refl option.distinct(1))

lemma calm_advances: "calm s s' \<Longrightarrow> orders_wf s \<Longrightarrow> advances s s'"
  using calm_get(1) [of s s'] by (auto simp: advances_def orders_wf_def calm_def)

section \<open>Creating orders and sending prompts\<close>

lemma placed_advances:
  assumes "placed E b l t eo s s'" and "orders_wf s"
  shows "advances s s'"
proof -
  have fresh: "tx_id t \<notin> tx_id ` set (d_transactions s)" and txs: "d_transactions s' = d_transactions s @ [t]"
    and t: "tx_amount t = l_price l" "0 < l_price l" "l_price l < 10 ^ 12" "tx_status t = AWAITING_PAYMENT"
    using assms(1) by (auto simp: placed_def new_transaction_def)
  have "outbox_wf s'" using assms unfolding orders_wf_def outbox_wf_def placed_def by (auto split: option.splits)
  then have "orders_wf s'" using assms(2) fresh txs t by (auto simp: orders_wf_def small_amount_def)
  then show ?thesis using fresh txs t by (auto simp: advances_def get_transaction_def row_get_append split: option.splits if_splits)
qed

lemma follows_up_advances:
  assumes "follows_up t s s'" and "orders_wf s" and "get_transaction (tx_id t) s = Some t" and "get_transaction (tx_id t) s0 = None"
    and "advances s0 s"
  shows "advances s0 s'"
proof -
  obtain s1 where c: "calm s s1" and r: "calm s1 s' \<or> (\<exists>now. calm (save_transaction now (t\<lparr>tx_custody_provider := PROVIDER_SIMULATED\<rparr>) s1) s')"
    using assms(1) by (auto simp: follows_up_def)
  have wf1: "orders_wf s1" using c assms(2) by (auto simp: orders_wf_def calm_def)
  have g1: "get_transaction i s1 = get_transaction i s" for i by (rule calm_get(1) [OF c])
  show ?thesis
  proof (cases "calm s1 s'")
    case True
    then show ?thesis using calm_advances [OF c assms(2)] calm_advances [OF True wf1] assms(5) advances_trans by blast
  next
    case False
    then obtain now where c2: "calm (save_transaction now (t\<lparr>tx_custody_provider := PROVIDER_SIMULATED\<rparr>) s1) s'" using r by blast
    let ?s = "save_transaction now (t\<lparr>tx_custody_provider := PROVIDER_SIMULATED\<rparr>) s1"
    have small: "small_amount t" using assms(2,3) by (auto simp: orders_wf_def get_transaction_def dest: row_get_SomeD)
    have wf: "orders_wf ?s" using wf1 small save_small [of s1 "t\<lparr>tx_custody_provider := PROVIDER_SIMULATED\<rparr>" now]
      by (auto simp: orders_wf_def small_amount_def)
    have "advances s0 ?s" unfolding advances_def
    proof (intro conjI allI impI)
      fix i u
      show "\<exists>t'. get_transaction i ?s = Some t' \<and> same_order u t' \<and> follows (tx_status u) (tx_status t')" if "get_transaction i s0 = Some u"
        using that assms(4,5) g1 by (cases "i = tx_id t") (auto simp: advances_def get_transaction_save)
      show "follows AWAITING_PAYMENT (tx_status u)" if "get_transaction i s0 = None" "get_transaction i ?s = Some u"
        using that assms(3,5) g1 by (auto simp: advances_def get_transaction_save split: if_splits)
    qed (rule wf)
    then show ?thesis using calm_advances [OF c2 wf] advances_trans by blast
  qed
qed

lemma create_advances:
  assumes "create_transaction E P gw buyer lid amount s w = ((s', r), w')" and "orders_wf s"
  shows "advances s s'"
  using assms(1)
proof (cases rule: create_transaction_cases)
  case (refused x)
  then show ?thesis using assms(2) advances_refl by simp
next
  case (created t eo s1)
  obtain l where p: "placed E (u_id buyer) l t eo s s1" using place_order_placed [OF created(1)] by blast
  have g: "get_transaction (tx_id t) s = None" "get_transaction (tx_id t) s1 = Some t"
    using p by (auto simp: placed_def get_transaction_def row_get_append row_get_None split: option.splits)
       (metis row_get_SomeD row_get_None image_eqI)+
  have a: "advances s s1" by (rule placed_advances [OF p assms(2)])
  then have "orders_wf s1" by (simp add: advances_def)
  then show ?thesis by (rule follows_up_advances [OF created(2) _ g(2,1) a])
qed

lemma supersede_calm: "calm s (supersede previous now s)"
  by (rule calmI) (auto simp: supersede_def put_prompt_def split: option.splits)

lemma resend_failed_calm: "resend_failed E tid now s = (s', r) \<Longrightarrow> calm s s'"
  using record_payment_prompt_calm [of s E tid None now] by (auto simp: resend_failed_def split: prod.splits)

lemma find_stored: "find_escrow_for_transaction tid s = Some e \<Longrightarrow> outbox_wf s \<Longrightarrow> stored e s"
  using found_escrow by (auto simp: stored_def)

lemma resend_via_econfirm_calm:
  assumes "resend_via_econfirm E P buyer t now s0 s w = ((s', r), w')" and "calm s0 s" and "outbox_wf s"
  shows "calm s0 s'"
proof (cases "find_escrow_for_transaction (tx_id t) s")
  case None
  then show ?thesis using assms(1) by (simp add: resend_via_econfirm_def)
next
  case (Some e)
  obtain q w1 where x: "request_econfirm_funding E P e (or_text [u_mpesa_phone buyer] (u_phone buyer)) (tx_reference t) s w = (q, w1)" by force
  show ?thesis
  proof (cases "ready_for_funding e \<and> (\<exists>y. q = Inr y)")
    case True
    then obtain r1 e1 s1 where q: "q = Inr (r1, e1, s1)" by (metis prod_cases3)
    have "calm s s1" using request_econfirm_funding_calm [OF x [unfolded q]] find_stored [OF Some assms(3)] by simp
    moreover have "calm s1 s'"
    proof (cases "cx_outcome r1 = R_FAILED_DEFINITE")
      case fail: True
      then have "resend_failed E (tx_id t) now s1 = (s', r)" using assms(1) Some x True q by (simp add: resend_via_econfirm_def)
      then show ?thesis by (rule resend_failed_calm)
    next
      case False
      then have "s' = snd (record_payment_prompt E (tx_id t) (Some (econfirm_payment_response e1 r1)) now s1)"
        using assms(1) Some x True q by (simp add: resend_via_econfirm_def case_prod_unfold Let_def)
      then show ?thesis by (simp add: record_payment_prompt_calm)
    qed
    ultimately show ?thesis using assms(2) by (blast intro: calm_trans)
  next
    case False
    then have "s' = s0" using assms(1) Some x by (cases q) (auto simp: resend_via_econfirm_def Let_def split: if_splits)
    then show ?thesis by simp
  qed
qed

lemma resend_calm:
  assumes "resend_payment_prompt E P gw tid buyer n s w = ((s', r), w')" and "orders_wf s"
  shows "calm s s'"
proof -
  define now where "now = (case n of None \<Rightarrow> e_now E | Some n \<Rightarrow> n)"
  let ?s1 = "supersede (latest_payment_prompt tid s) now s"
  have c: "calm s ?s1" by (rule supersede_calm)
  have wf: "outbox_wf ?s1" using c assms(2) by (simp add: calm_def orders_wf_def)
  consider "s' = s" | t where "resend_via_econfirm E P buyer t now s ?s1 w = ((s', r), w')" | "resend_failed E tid now ?s1 = (s', r)"
    | x where "s' = snd (record_payment_prompt E tid x now ?s1)"
    using assms(1) unfolding resend_payment_prompt_def now_def [symmetric]
    by (auto simp: Let_def split: option.splits if_splits sum.splits prod.splits) (metis snd_conv)+
  then show ?thesis
  proof cases
    case 2
    then show ?thesis by (rule resend_via_econfirm_calm [OF _ c wf])
  next
    case 3
    then show ?thesis using c resend_failed_calm calm_trans by blast
  next
    case 4
    then show ?thesis using c record_payment_prompt_calm calm_trans by blast
  qed simp
qed

section \<open>The funding poller\<close>

lemma custody_lock_escrows: "lock_transaction_after_custody_funding E tid pr rail s = Inr (b, s') \<Longrightarrow> d_escrows s' = d_escrows s"
proof -
  have prompt: "d_escrows (snd (resolve_open_prompt i c now x)) = d_escrows x" for i c now x
    by (simp add: resolve_open_prompt_def put_prompt_def Let_def split: option.split)
  have notices: "d_escrows (create_locked_notifications E t d x) = d_escrows x" for t d x
    by (simp add: create_locked_notifications_def notify_parties_def add_notification_frame Let_def)
  assume "lock_transaction_after_custody_funding E tid pr rail s = Inr (b, s')"
  then show ?thesis
    by (auto simp: lock_transaction_after_custody_funding_def bindE_eq_Inr Let_def prompt notices logs_only_frame
        dest!: transition_transaction_Inr split: option.splits if_splits)
qed

lemma stored_funding:
  assumes "post_escrow_funding E e k d s = Inr (b, e', s')" and "stored e s"
  shows "calm s s'" and "stored x s \<Longrightarrow> stored x s'"
proof -
  have l: "(if b then e' = e\<lparr>es_funded_amount := es_amount_total e\<rparr> \<and> (\<exists>s1. ledger_only s s1 \<and> s' = put_escrow e' s1) else ledger_only s s')"
    using post_escrow_funding_cases [OF assms(1)] by (auto split: if_splits)
  have st: "stored y s1" if "ledger_only s s1" "stored y s" for y s1
    using that by (simp add: stored_def get_escrow_def ledger_only_frame)
  show "calm s s'"
  proof (cases b)
    case True
    then obtain s1 where s1: "e' = e\<lparr>es_funded_amount := es_amount_total e\<rparr>" "ledger_only s s1" "s' = put_escrow e' s1" using l by auto
    have "calm s1 s'" using stored_put [OF st [OF s1(2) assms(2)], of e'] s1 by simp
    then show ?thesis using ledger_only_calm [OF s1(2)] calm_trans by blast
  qed (use l ledger_only_calm in simp)
  show "stored x s'" if "stored x s"
  proof (cases b)
    case True
    then obtain s1 where s1: "e' = e\<lparr>es_funded_amount := es_amount_total e\<rparr>" "ledger_only s s1" "s' = put_escrow e' s1" using l by auto
    then show ?thesis using st [OF s1(2) that] st [OF s1(2) assms(2)] by (auto simp: stored_def escrows.get_put)
  qed (use l st that in simp)
qed

lemma confirm_funding_advances:
  assumes "confirm_funding E e s = Inr s'" and "stored e s" and "orders_wf s"
  shows "advances s s'" and "stored x s \<Longrightarrow> stored x s'"
proof -
  obtain b e1 s1 s2 b2 a where f: "post_escrow_funding E e (''econfirm-funding:'' @ uuid_str (es_id e)) ''eConfirm custody funding'' s = Inr (b, e1, s1)"
    and r: "record_money_audit_event E a s1 = Inr s2"
    and l: "lock_transaction_after_custody_funding E (es_transaction e) (es_econfirm_transaction_id e) PROVIDER_ECONFIRM s2 = Inr (b2, s')"
    using assms(1) by (auto simp: confirm_funding_def bindE_eq_Inr)
  have c: "calm s s2" using stored_funding(1) [OF f assms(2)] logs_only_calm [OF record_money_audit_event_logs [OF r]] by (rule calm_trans)
  have a1: "advances s s2" by (rule calm_advances [OF c assms(3)])
  then have wf2: "orders_wf s2" by (simp add: advances_def)
  have "fst (atomic s2 (lock_transaction_after_custody_funding E (es_transaction e) (es_econfirm_transaction_id e) PROVIDER_ECONFIRM s2)) = s'"
    using l by (simp add: atomic_def)
  then have "request_keeps {3} s2 s'" using custody_lock.keeps [OF wf2] by metis
  then show "advances s s'" using a1 request_advances advances_trans by blast
  show "stored x s'" if "stored x s"
    using stored_logs [OF stored_funding(2) [OF f assms(2) that] record_money_audit_event_logs [OF r]] custody_lock_escrows [OF l]
    by (simp add: stored_def get_escrow_def)
qed

lemma poll_all_Cons:
  assumes "poll_all E P cutoff (e # es) s w = (Inr (p, f, k, s'), w')"
  obtains (late) k1 where "poll_all E P cutoff es s w = (Inr (p, f, k1, s'), w')" "k = Suc k1"
  | (unfunded) p1 w1 where "poll_all E P cutoff es s w1 = (Inr (p1, f, k, s'), w')" "p = Suc p1"
  | (funded) p1 f1 s1 w1 r where "poll_all E P cutoff es s1 w1 = (Inr (p1, f1, k, s'), w')" "p = Suc p1" "f = Suc f1"
      "confirm_funding E e s = Inr s1" "cutoff \<le> es_created_at e"
      "pv_get_funding_status P (or_text [es_econfirm_transaction_id e] '''') w = (Inr r, w1)" "cx_outcome r = R_SUCCEEDED"
proof (cases "es_created_at e < cutoff")
  case True
  obtain m w1 where m: "poll_all E P cutoff es s w = (m, w1)" by force
  then show thesis using assms True late by (auto simp: bindE_eq_Inr)
next
  case False
  obtain st w1 where st: "pv_get_funding_status P (or_text [es_econfirm_transaction_id e] '''') w = (st, w1)" by force
  then obtain r where r: "st = Inr r" using assms False by (cases st) (auto simp: Let_def simp del: or_text.simps)
  show thesis
  proof (cases "cx_outcome r = R_SUCCEEDED")
    case True
    obtain s1 where s1: "confirm_funding E e s = Inr s1"
      using assms False st r True by (cases "confirm_funding E e s") (auto simp: Let_def simp del: or_text.simps)
    obtain m w2 where m: "poll_all E P cutoff es s1 w1 = (m, w2)" by force
    then show thesis using assms False st r True s1 funded by (auto simp: bindE_eq_Inr Let_def simp del: or_text.simps)
  next
    case n: False
    obtain m w2 where m: "poll_all E P cutoff es s w1 = (m, w2)" by force
    then show thesis using assms False st r n unfunded by (auto simp: bindE_eq_Inr Let_def simp del: or_text.simps)
  qed
qed

lemma poll_all_advances:
  assumes "poll_all E P cutoff es s w = (Inr (p, f, k, s'), w')" and "\<forall>e \<in> set es. stored e s" and "orders_wf s"
  shows "advances s s' \<and> f \<le> p \<and> p + k = length es"
  using assms
proof (induction es arbitrary: s w p f k)
  case Nil
  then show ?case by (simp add: advances_refl)
next
  case (Cons e es)
  from Cons.prems(1) show ?case
  proof (cases rule: poll_all_Cons)
    case late
    then show ?thesis using Cons.IH [OF late(1)] Cons.prems(2,3) by simp
  next
    case unfunded
    then show ?thesis using Cons.IH [OF unfunded(1)] Cons.prems(2,3) by simp
  next
    case (funded p1 f1 s1 w1 r)
    have a: "advances s s1" "\<forall>x \<in> set es. stored x s1"
      using confirm_funding_advances [OF funded(4) _ Cons.prems(3)] Cons.prems(2) by auto
    then have "orders_wf s1" by (simp add: advances_def)
    then show ?thesis using Cons.IH [OF funded(1) a(2)] a(1) funded(2,3) by (auto intro: advances_trans)
  qed
qed

lemma poll_advances:
  assumes "run_econfirm_funding_reconciliation E P n limit minutes s w = ((s', r), w')" and "orders_wf s"
  shows "advances s s' \<and> (\<forall>x. r = Inr x \<longrightarrow> pl_funded x \<le> pl_polled x \<and> pl_polled x + pl_skipped_timed_out x \<le> limit)"
proof -
  define cutoff where "cutoff = (case n of None \<Rightarrow> e_now E | Some n \<Rightarrow> n) - seconds (60 * minutes)"
  obtain m w1 where x: "poll_all E P cutoff (poll_candidates limit s) s w = (m, w1)" by force
  have st: "stored e s" if "e \<in> set (poll_candidates limit s)" for e
  proof -
    have "e \<in> set (d_escrows s)" using that by (auto simp: poll_candidates_def dest: in_set_takeD)
    then show ?thesis using assms(2) row_get_unique [of es_id "d_escrows s" e] by (simp add: stored_def get_escrow_def orders_wf_def outbox_wf_def)
  qed
  have len: "length (poll_candidates limit s) \<le> limit" by (simp add: poll_candidates_def)
  show ?thesis
  proof (cases m)
    case (Inl y)
    then have "s' = s" "r = Inl y" using assms(1) x
      by (auto simp: run_econfirm_funding_reconciliation_def cutoff_def Let_def atomic_def)
    then show ?thesis using assms(2) advances_refl by simp
  next
    case (Inr q)
    obtain p f k s1 where q: "q = (p, f, k, s1)" by (cases q) auto
    then have r: "s' = s1" "r = Inr \<lparr>pl_polled = p, pl_funded = f, pl_skipped_timed_out = k, pl_budget = limit\<rparr>"
      using assms(1) x Inr by (auto simp: run_econfirm_funding_reconciliation_def cutoff_def Let_def atomic_def)
    show ?thesis using poll_all_advances [OF x [unfolded Inr q] _ assms(2)] st len r by auto
  qed
qed

text \<open>A poll of a provider that reports no funding changes nothing.\<close>

lemma poll_all_unfunded:
  assumes "\<And>ref w r w'. pv_get_funding_status P ref w = (Inr r, w') \<Longrightarrow> cx_outcome r \<noteq> R_SUCCEEDED"
    and "poll_all E P cutoff es s w = (Inr (p, f, k, s'), w')"
  shows "s' = s \<and> f = 0"
  using assms(2)
proof (induction es arbitrary: s w p f k)
  case (Cons e es)
  from Cons.prems show ?case
    by (cases rule: poll_all_Cons) (use Cons.IH assms(1) in auto)
qed simp

lemma poll_unfunded:
  assumes "\<And>ref w r w'. pv_get_funding_status P ref w = (Inr r, w') \<Longrightarrow> cx_outcome r \<noteq> R_SUCCEEDED"
    and "run_econfirm_funding_reconciliation E P n limit minutes s w = ((s', r), w')"
  shows "s' = s \<and> (\<forall>x. r = Inr x \<longrightarrow> pl_funded x = 0)"
proof -
  define cutoff where "cutoff = (case n of None \<Rightarrow> e_now E | Some n \<Rightarrow> n) - seconds (60 * minutes)"
  obtain m w1 where x: "poll_all E P cutoff (poll_candidates limit s) s w = (m, w1)" by force
  show ?thesis using assms(2) x poll_all_unfunded [OF assms(1), where E = E and cutoff = cutoff and s = s and w = w]
    by (cases m) (auto simp: run_econfirm_funding_reconciliation_def cutoff_def Let_def atomic_def)
qed

section \<open>The payout executor\<close>

definition paying_kept :: "db \<Rightarrow> db \<Rightarrow> bool" where
  "paying_kept s s' = (orders_shown s s' \<and> map es_id (d_escrows s') = map es_id (d_escrows s) \<and> (orders_wf s \<longrightarrow> orders_wf s'))"

lemma orders_shown_wf:
  assumes "orders_shown s s'" and "orders_wf s" and "outbox_wf s'"
  shows "orders_wf s'"
proof -
  have d: "distinct (map tx_id (d_transactions s'))" using assms(1,2) by (simp add: orders_shown_def orders_wf_def)
  have "small_amount t'" if "t' \<in> set (d_transactions s')" for t'
  proof -
    have "get_transaction (tx_id t') s' = Some t'" using row_get_unique [OF d that] by (simp add: get_transaction_def)
    then obtain t where t: "get_transaction (tx_id t') s = Some t" "order_shown t t'"
      using assms(1) by (fastforce simp: orders_shown_def option_rel_Some2 dest!: spec [of _ "tx_id t'"])
    then have "small_amount t" using assms(2) by (auto simp: orders_wf_def get_transaction_def dest: row_get_SomeD)
    then show ?thesis using t(2) by (auto simp: order_shown_def small_amount_def)
  qed
  then show ?thesis using d assms(3) by (simp add: orders_wf_def)
qed

lemma put_payout_owner: "same_attempt p p' \<Longrightarrow> po_escrow p \<in> es \<Longrightarrow> po_escrow ` set ps \<subseteq> es \<Longrightarrow> po_escrow ` set (row_put po_id p' ps) \<subseteq> es"
  by (auto simp: same_attempt_def dest!: row_put_in_set)

lemma row_put_map_same:
  assumes "distinct (map key rows)" and "row_get key (key r) rows = Some r0" and "g r = g r0"
  shows "map g (row_put key r rows) = map g rows"
  using assms(1,2)
proof (induction rows)
  case (Cons x rows)
  show ?case
  proof (cases "key x = key r")
    case True
    then have "row_put key r rows = rows" using Cons.prems(1) by (intro row_put_absent) auto
    then show ?thesis using True Cons.prems(2) assms(3) by (simp add: row_put_Cons)
  next
    case False
    then show ?thesis using Cons by (simp add: row_put_Cons)
  qed
qed (simp add: row_put_def)

lemma booked_kept:
  assumes "booked p oc paid s s'" and "po_escrow p \<in> es_id ` set (d_escrows s)"
  shows "paying_kept s s'"
proof -
  obtain p' where p': "same_attempt p p'" "d_payouts s' = row_put po_id p' (d_payouts s)" using assms(1) by (auto simp: booked_def)
  have ids: "map es_id (d_escrows s') = map es_id (d_escrows s)"
    using assms(1) by (auto simp: booked_def paid_out_def split: option.splits)
  have trans: "map es_transaction (d_escrows s') = map es_transaction (d_escrows s)" if wf: "outbox_wf s"
  proof (cases paid)
    case None
    then show ?thesis using assms(1) by (simp add: booked_def)
  next
    case (Some e)
    then have po: "paid_out p e s s'" using assms(1) by (simp add: booked_def)
    then have "row_get es_id (es_id (pay_out p e)) (d_escrows s) = Some e"
      using escrows.get_key by (fastforce simp: paid_out_def get_escrow_def pay_out_amounts)
    then show ?thesis using po wf row_put_map_same [of es_id "d_escrows s" "pay_out p e" e es_transaction]
      by (simp add: paid_out_def outbox_wf_def pay_out_def)
  qed
  have "outbox_wf s'" if wf: "outbox_wf s"
    using put_payout_owner [OF p'(1) assms(2)] wf p'(2) trans [OF wf] ids unfolding outbox_wf_def
    by (metis (mono_tags, lifting) list.set_map)
  then show ?thesis using assms(1) ids orders_shown_wf by (auto simp: paying_kept_def booked_def orders_wf_def)
qed

lemma half_booked_kept:
  assumes "half_booked p s d" and "po_escrow p \<in> es_id ` set (d_escrows s)"
  shows "paying_kept s d"
proof -
  obtain p' where p': "same_attempt p p'" "d_payouts d = row_put po_id p' (d_payouts s)" "d_escrows d = d_escrows s"
    using assms(1) by (auto simp: half_booked_def)
  have "outbox_wf d" if "outbox_wf s"
    using that put_payout_owner [OF p'(1) assms(2), of "d_payouts s"] by (simp add: outbox_wf_def p'(2,3))
  then show ?thesis using assms(1) orders_shown_same [of d s] by (auto simp: paying_kept_def half_booked_def orders_wf_def)
qed

lemma paying_kept_refl [simp]: "paying_kept s s"
  by (simp add: paying_kept_def)

lemma paying_kept_trans: "paying_kept s s' \<Longrightarrow> paying_kept s' s'' \<Longrightarrow> paying_kept s s''"
  by (auto simp: paying_kept_def intro: orders_shown_trans)

lemma paying_kept_ids: "paying_kept s s' \<Longrightarrow> es_id ` set (d_escrows s') = es_id ` set (d_escrows s)"
  unfolding paying_kept_def by (metis list.set_map)

lemma execute_all_kept:
  assumes "execute_all E R now ps st0 s w = ((st, m), w')" and "po_escrow ` set ps \<subseteq> es_id ` set (d_escrows s)"
    and "paying_kept s0 s" and "paying_kept s0 st0"
  shows "paying_kept s0 st \<and> (\<forall>os s'. m = Inr (os, s') \<longrightarrow> paying_kept s0 s')"
  using assms
proof (induction ps arbitrary: st0 s w st m w')
  case (Cons p ps)
  have own: "po_escrow p \<in> es_id ` set (d_escrows s)" using Cons.prems(2) by simp
  have c: "paying_kept s0 (case c of None \<Rightarrow> st0 | Some d \<Rightarrow> d)" if "execute_attempt E R now p s w = ((c, m1), w1)" for c m1 w1
  proof (cases c)
    case (Some d)
    then have "half_booked p s d" using that by (auto intro: execute_attempt_commit)
    then show ?thesis using Some half_booked_kept [OF _ own] Cons.prems(3) paying_kept_trans by auto
  qed (use Cons.prems(4) in simp)
  from Cons.prems(1) show ?case
  proof (cases rule: execute_all_Cons)
    case (raised c1 x)
    then show ?thesis using c by auto
  next
    case (went_on c1 oc s1 w1 m2)
    from went_on(1) have "\<exists>paid. booked p oc paid s s1" by (auto elim: execute_attempt_booked)
    then have k: "paying_kept s s1" using booked_kept [OF _ own] by blast
    have "po_escrow ` set ps \<subseteq> es_id ` set (d_escrows s1)" using Cons.prems(2) paying_kept_ids [OF k] by simp
    from Cons.IH [OF went_on(2) this paying_kept_trans [OF Cons.prems(3) k] c [OF went_on(1)]] show ?thesis
      using went_on(3) by (auto simp: bindE_eq_Inr)
  qed
qed simp

lemma paying_kept_advances: "paying_kept s s' \<Longrightarrow> orders_wf s \<Longrightarrow> advances s s'"
proof -
  assume k: "paying_kept s s'" and wf: "orders_wf s"
  have same: "order_shown t t' \<Longrightarrow> same_order t t' \<and> tx_status t' = tx_status t" for t t'
    by (auto simp: order_shown_def same_order_def)
  show "advances s s'" unfolding advances_def
  proof (intro conjI allI impI)
    show "orders_wf s'" using k wf by (simp add: paying_kept_def)
    fix i t
    have r: "rel_option order_shown (get_transaction i s) (get_transaction i s')" using k by (simp add: paying_kept_def orders_shown_def)
    show "\<exists>t'. get_transaction i s' = Some t' \<and> same_order t t' \<and> follows (tx_status t) (tx_status t')" if "get_transaction i s = Some t"
      using r that same by (auto simp: option_rel_Some1)
    show "follows AWAITING_PAYMENT (tx_status t)" if "get_transaction i s = None" "get_transaction i s' = Some t"
      using r that by simp
  qed
qed

lemma payout_run_advances:
  assumes "run_payout_executor_once E R batch n s w = ((s', r), w')" and "orders_wf s"
  shows "advances s s'"
  using assms(1)
proof (cases rule: run_cases)
  case idle
  then show ?thesis using assms(2) advances_refl by simp
next
  case (ran now st m)
  have "set (claimed_attempts batch s) \<subseteq> set (d_payouts s)" by (auto simp: claimed_attempts_def dest: in_set_takeD)
  then have own: "po_escrow ` set (claimed_attempts batch s) \<subseteq> es_id ` set (d_escrows s)"
    using assms(2) unfolding orders_wf_def outbox_wf_def by blast
  from execute_all_kept [OF ran(1) own paying_kept_refl paying_kept_refl] ran(2) have "paying_kept s s'" by (cases m) auto
  then show ?thesis by (rule paying_kept_advances [OF _ assms(2)])
qed

lemma alerts_calm: "calm s (fst (run_payout_reconciliation E minutes n s))"
proof -
  have na: "calm s (notify_admins E admins tid t m p s)" for admins tid t m p s
    by (induction admins arbitrary: s) (auto simp: notify_admins_def intro: calm_trans [OF add_notification_calm])
  have u: "calm (snd c) (snd (alert_unknown E admins p c))" for admins p c
    using na by (auto simp: alert_unknown_def Let_def split: prod.split option.split)
  have mm: "calm (snd c) (snd (alert_mismatch E admins p c))" for admins p c
    using na by (auto simp: alert_mismatch_def Let_def split: prod.split)
  have fu: "calm (snd c) (snd (fold (alert_unknown E admins) ps c))" for admins ps c
  proof (induction ps arbitrary: c)
    case (Cons p ps)
    show ?case using calm_trans [OF u Cons.IH] by simp
  qed simp
  have fm: "calm (snd c) (snd (fold (alert_mismatch E admins) ts c))" for admins ts c
  proof (induction ts arbitrary: c)
    case (Cons t ts)
    show ?case using calm_trans [OF mm Cons.IH] by simp
  qed simp
  have "calm s (snd (fold (alert_mismatch E a1) ts (0, snd (fold (alert_unknown E a2) ps (0, s)))))" for a1 a2 ts ps
    using calm_trans [OF fu [of "(0, s)" a2 ps] fm [of "(0, snd (fold (alert_unknown E a2) ps (0, s)))" a1 ts, unfolded snd_conv]] by simp
  then show ?thesis by (simp add: run_payout_reconciliation_def Let_def case_prod_unfold)
qed

section \<open>Every history\<close>

datatype 'w event =
    Ask request
  | CreateOrder "'w provider" "'w gateway" user uuid "decimal option"
  | ResendPrompt "'w provider" "'w gateway" uuid user "time option"
  | PollFunding "'w provider" "time option" nat int
  | PayoutRun "'w payout_rails" int "time option"
  | PayoutAlerts int "time option"

text \<open>The database a call leaves and the state of the world outside.\<close>

definition left_by :: "(db \<times> 'a) \<times> 'w \<Rightarrow> db \<times> 'w" where
  "left_by x = (fst (fst x), snd x)"

fun happen :: "env \<Rightarrow> 'w event \<Rightarrow> db \<times> 'w \<Rightarrow> db \<times> 'w" where
  "happen E (Ask q) (s, w) = (fst (perform E q s), w)"
| "happen E (CreateOrder P gw buyer lid amount) (s, w) = left_by (create_transaction E P gw buyer lid amount s w)"
| "happen E (ResendPrompt P gw tid buyer n) (s, w) = left_by (resend_payment_prompt E P gw tid buyer n s w)"
| "happen E (PollFunding P n limit minutes) (s, w) = left_by (run_econfirm_funding_reconciliation E P n limit minutes s w)"
| "happen E (PayoutRun R batch n) (s, w) = left_by (run_payout_executor_once E R batch n s w)"
| "happen E (PayoutAlerts minutes n) (s, w) = (fst (run_payout_reconciliation E minutes n s), w)"

fun live :: "(env \<times> 'w event) list \<Rightarrow> db \<times> 'w \<Rightarrow> db \<times> 'w" where
  "live [] c = c"
| "live ((E, e) # es) c = live es (happen E e c)"

lemma happen_advances:
  assumes "orders_wf s"
  shows "advances s (fst (happen E e (s, w)))"
proof (cases e)
  case (Ask q)
  then show ?thesis using request_advances [OF perform_keeps [OF assms]] by simp
next
  case (CreateOrder P gw buyer lid amount)
  obtain s' r w' where "create_transaction E P gw buyer lid amount s w = ((s', r), w')" by (metis prod.exhaust)
  then show ?thesis using create_advances [OF _ assms] CreateOrder by (simp add: left_by_def)
next
  case (ResendPrompt P gw tid buyer n)
  obtain s' r w' where "resend_payment_prompt E P gw tid buyer n s w = ((s', r), w')" by (metis prod.exhaust)
  then show ?thesis using calm_advances [OF resend_calm [OF _ assms] assms] ResendPrompt by (simp add: left_by_def)
next
  case (PollFunding P n limit minutes)
  obtain s' r w' where "run_econfirm_funding_reconciliation E P n limit minutes s w = ((s', r), w')" by (metis prod.exhaust)
  then show ?thesis using poll_advances [OF _ assms, of E P n limit minutes w s' r w'] PollFunding by (simp add: left_by_def)
next
  case (PayoutRun R batch n)
  obtain s' r w' where "run_payout_executor_once E R batch n s w = ((s', r), w')" by (metis prod.exhaust)
  then show ?thesis using payout_run_advances [OF _ assms] PayoutRun by (simp add: left_by_def)
next
  case (PayoutAlerts minutes n)
  then show ?thesis using calm_advances [OF alerts_calm assms] by simp
qed

locale lifecycle =
  fixes step :: "'q \<Rightarrow> db \<times> 'w \<Rightarrow> db \<times> 'w"
  assumes step_advances: "orders_wf s \<Longrightarrow> advances s (fst (step q (s, w)))"
begin

lemma history_advances: "orders_wf s \<Longrightarrow> advances s (fst (fold step qs (s, w)))"
proof (induction qs arbitrary: s w)
  case Nil
  then show ?case by (simp add: advances_refl)
next
  case (Cons q qs)
  obtain s1 w1 where s1: "step q (s, w) = (s1, w1)" by force
  then have a: "advances s s1" using step_advances [OF Cons.prems, of q w] by simp
  then have "orders_wf s1" by (simp add: advances_def)
  from advances_trans [OF a Cons.IH [OF this, of w1]] show ?case using s1 by simp
qed

text \<open>From a database without orders, every order there ever is has followed the table from its creation.\<close>

lemma history_from_empty:
  assumes "orders_wf s" and "d_transactions s = []" and "get_transaction i (fst (fold step qs (s, w))) = Some t"
  shows "follows AWAITING_PAYMENT (tx_status t)"
  using advances_new [OF history_advances [OF assms(1)] _ assms(3)] assms(2) by (simp add: get_transaction_def)

end

interpretation life: lifecycle "\<lambda>(E, e) c. happen E e c"
  by unfold_locales (auto intro: happen_advances)

lemma live_fold: "live es c = fold (\<lambda>(E, e) c. happen E e c) es c"
  by (induction es c rule: live.induct) simp_all

end
