(* ===== verification/Simulated_Rail.thy ===== *)
theory Simulated_Rail
  imports Custody_Dto
begin

text \<open>
  The simulated collection and payout rail (custody/simulated_rail.py): the outcome is chosen by a
  trigger in the request's text or by the configured default, and kept in the provider reference.
  \<open>uuid5(NAMESPACE_URL, seed).hex\<close> is a parameter. The state of the rail counts the status inquiries
  per reference.
\<close>

definition SUPPORTED_SIMULATED_SCENARIOS :: "string list" where
  "SUPPORTED_SIMULATED_SCENARIOS = [''success'', ''failed_definite'', ''timeout'', ''duplicate'', ''out_of_order'', ''unknown'']"

definition SCENARIO_ALIASES :: "(string \<times> string) list" where
  "SCENARIO_ALIASES = [(''succeeded'', ''success''), (''ok'', ''success''), (''failed'', ''failed_definite''),
     (''failure'', ''failed_definite''), (''declined'', ''failed_definite''), (''out-of-order'', ''out_of_order'')]"

definition normalize_simulated_scenario :: "string \<Rightarrow> exn + string" where
  "normalize_simulated_scenario v = (let n0 = replace_char (CHR ''-'') (CHR ''_'') (py_lower (strip v));
       n = (case map_of SCENARIO_ALIASES n0 of Some a \<Rightarrow> a | None \<Rightarrow> n0) in
     if n \<notin> set SUPPORTED_SIMULATED_SCENARIOS
     then Inl (ValueError (''Unsupported simulated scenario '' @ [CHR 0x27] @ v @ [CHR 0x27] @
       ''. Expected one of: duplicate, failed_definite, out_of_order, success, timeout, unknown.''))
     else Inr n)"

record simulated_rail =
  sm_collection_default_scenario :: string
  sm_payout_default_scenario :: string
  sm_trigger_prefix :: string

definition make_simulated_rail :: "string \<Rightarrow> string \<Rightarrow> string \<Rightarrow> exn + simulated_rail" where
  "make_simulated_rail collection payout prefix =
     bindE (normalize_simulated_scenario collection) (\<lambda>c. bindE (normalize_simulated_scenario payout) (\<lambda>p.
     let np = py_lower (strip prefix) in if np = '''' then Inl (ValueError ''Simulated trigger prefix must not be blank.'')
       else Inr \<lparr>sm_collection_default_scenario = c, sm_payout_default_scenario = p, sm_trigger_prefix = np\<rparr>))"

record rail_checks =
  rc_funding :: "string \<Rightarrow> nat"
  rc_payout :: "string \<Rightarrow> nat"

text \<open>\<open>re.search(prefix + "(?P<scenario>[a-z0-9_-]+)", text)\<close>: the run after the first prefix that one follows.\<close>

definition scenario_char :: "char \<Rightarrow> bool" where
  "scenario_char c = (let n = (of_char c :: nat) in (97 \<le> n \<and> n \<le> 122) \<or> (48 \<le> n \<and> n \<le> 57) \<or> c = CHR ''_'' \<or> c = CHR ''-'')"

fun find_trigger :: "string \<Rightarrow> string \<Rightarrow> string option" where
  "find_trigger prefix [] = None"
| "find_trigger prefix (c # s) = (let run = takeWhile scenario_char (drop (length prefix) (c # s)) in
     if starts_with prefix (c # s) \<and> run \<noteq> [] then Some run else find_trigger prefix s)"

definition resolve_scenario :: "simulated_rail \<Rightarrow> string \<Rightarrow> string \<Rightarrow> string" where
  "resolve_scenario R source dflt = (case find_trigger (sm_trigger_prefix R) (py_lower source) of None \<Rightarrow> dflt
     | Some run \<Rightarrow> (case normalize_simulated_scenario run of Inr x \<Rightarrow> x | Inl _ \<Rightarrow> dflt))"

definition build_provider_reference :: "(string \<Rightarrow> string) \<Rightarrow> string \<Rightarrow> string \<Rightarrow> string \<Rightarrow> string \<Rightarrow> string" where
  "build_provider_reference uuid5_hex kind escrow discriminator scenario =
     (let seed = kind @ '':'' @ escrow @ '':'' @ discriminator @ '':'' @ scenario
      in ''sim:'' @ kind @ '':'' @ scenario @ '':'' @ take 16 (uuid5_hex seed))"

definition scenario_from_provider_reference :: "string \<Rightarrow> string \<Rightarrow> string" where
  "scenario_from_provider_reference ref fallback = (let parts = split_on (CHR '':'') ref in
     if length parts < 4 \<or> parts ! 0 \<noteq> ''sim'' then fallback
     else (case normalize_simulated_scenario (parts ! 2) of Inr x \<Rightarrow> x | Inl _ \<Rightarrow> fallback))"

definition scenario_payload :: "string \<Rightarrow> bool \<Rightarrow> (string \<Rightarrow> nat) \<Rightarrow> string \<Rightarrow> (rail_outcome \<times> string \<times> string) \<times> (string \<Rightarrow> nat)" where
  "scenario_payload scenario inquiry checks ref =
     (if scenario = ''success'' then (if inquiry then (R_SUCCEEDED, ''settled'', ''Simulated rail reports settled outcome.'')
          else (R_SUCCEEDED, ''accepted'', ''Simulated rail accepted request.''), checks)
      else if scenario = ''failed_definite'' then ((R_FAILED_DEFINITE, ''declined'', ''Simulated rail produced a definite failure.''), checks)
      else if scenario = ''timeout'' then ((R_UNKNOWN, ''timeout'', ''Simulated rail timed out; finality is unknown.''), checks)
      else if scenario = ''unknown'' then ((R_UNKNOWN, ''unknown'', ''Simulated rail returned unknown finality.''), checks)
      else if scenario = ''duplicate'' then
        (if inquiry then (R_SUCCEEDED, ''duplicate_confirmed'', ''Simulated rail indicates duplicate request already processed.'')
         else (R_SUCCEEDED, ''duplicate'', ''Simulated rail detected duplicate request and treated it as idempotent.''), checks)
      else if scenario = ''out_of_order'' then
        (if \<not> inquiry then ((R_UNKNOWN, ''out_of_order'', ''Simulated rail produced out-of-order callback behavior.''), checks)
         else let n = checks ref + 1; checks' = checks(ref := n) in
           (if n = 1 then (R_UNKNOWN, ''out_of_order_pending'', ''Simulated rail awaiting reconciliation after out-of-order callback.'')
            else (R_SUCCEEDED, ''settled_after_out_of_order'', ''Simulated rail reconciled previously out-of-order flow.''), checks'))
      else ((R_UNKNOWN, ''unknown'', ''Simulated rail returned unknown scenario state.''), checks))"

definition sim_collection_result :: "string \<Rightarrow> string \<Rightarrow> bool \<Rightarrow> rail_checks \<Rightarrow> collection_result \<times> rail_checks" where
  "sim_collection_result scenario ref inquiry w = (case scenario_payload scenario inquiry (rc_funding w) ref of ((out, raw, msg), checks) \<Rightarrow>
     (\<lparr>cx_outcome = out, cx_provider_reference = ref, cx_raw_status = Some raw, cx_message = Some msg, cx_metadata = None\<rparr>, w\<lparr>rc_funding := checks\<rparr>))"

definition sim_payout_result :: "string \<Rightarrow> string \<Rightarrow> bool \<Rightarrow> rail_checks \<Rightarrow> payout_result \<times> rail_checks" where
  "sim_payout_result scenario ref inquiry w = (case scenario_payload scenario inquiry (rc_payout w) ref of ((out, raw, msg), checks) \<Rightarrow>
     (\<lparr>px_outcome = out, px_provider_reference = ref, px_raw_status = Some raw, px_message = Some msg\<rparr>, w\<lparr>rc_payout := checks\<rparr>))"

definition sim_request_funding ::
    "simulated_rail \<Rightarrow> (string \<Rightarrow> string) \<Rightarrow> funding_request \<Rightarrow> rail_checks \<Rightarrow> (exn + collection_result) \<times> rail_checks" where
  "sim_request_funding R uuid5_hex q w = (let scenario = resolve_scenario R (fq_account_reference q) (sm_collection_default_scenario R);
       ref = build_provider_reference uuid5_hex ''collect'' (fq_escrow_reference q) (fq_account_reference q) scenario;
       (r, w') = sim_collection_result scenario ref False w in (Inr r, w'))"

definition sim_get_funding_status :: "simulated_rail \<Rightarrow> string \<Rightarrow> rail_checks \<Rightarrow> (exn + collection_result) \<times> rail_checks" where
  "sim_get_funding_status R ref w = (let scenario = scenario_from_provider_reference ref (sm_collection_default_scenario R);
       (r, w') = sim_collection_result scenario ref True w in (Inr r, w'))"

definition sim_request_payout ::
    "simulated_rail \<Rightarrow> (string \<Rightarrow> string) \<Rightarrow> payout_request \<Rightarrow> rail_checks \<Rightarrow> (exn + payout_result) \<times> rail_checks" where
  "sim_request_payout R uuid5_hex q w = (let scenario = resolve_scenario R (pq_purpose q) (sm_payout_default_scenario R);
       ref = build_provider_reference uuid5_hex ''payout'' (pq_escrow_reference q) (pq_purpose q) scenario;
       (r, w') = sim_payout_result scenario ref False w in (Inr r, w'))"

definition sim_get_payout_status :: "simulated_rail \<Rightarrow> string \<Rightarrow> rail_checks \<Rightarrow> (exn + payout_result) \<times> rail_checks" where
  "sim_get_payout_status R ref w = (let scenario = scenario_from_provider_reference ref (sm_payout_default_scenario R);
       (r, w') = sim_payout_result scenario ref True w in (Inr r, w'))"

interpretation simulated: payout_rail "sim_request_payout R u" "sim_get_payout_status R" for R u
  by unfold_locales (auto simp: sim_request_payout_def sim_get_payout_status_def Let_def split: prod.split)

section \<open>A reference keeps its scenario\<close>

lemma split_on_word: "c \<notin> set w \<Longrightarrow> split_on c (w @ c # s) = w # split_on c s"
  by (induction w) auto

lemma supported_all: "list_all (\<lambda>x. (case normalize_simulated_scenario x of Inr y \<Rightarrow> y = x | Inl _ \<Rightarrow> False) \<and> CHR '':'' \<notin> set x) SUPPORTED_SIMULATED_SCENARIOS"
  by code_simp

lemma supported_scenario:
  assumes "x \<in> set SUPPORTED_SIMULATED_SCENARIOS"
  shows "normalize_simulated_scenario x = Inr x" and "CHR '':'' \<notin> set x"
  using supported_all assms by (cases "normalize_simulated_scenario x"; force simp: list_all_iff)+

lemma split_on_last: "split_on c s \<noteq> []"
  by (cases s) (auto split: list.split)

lemma reference_scenario:
  assumes "scenario \<in> set SUPPORTED_SIMULATED_SCENARIOS" and "CHR '':'' \<notin> set kind"
  shows "scenario_from_provider_reference (build_provider_reference u kind e d scenario) fallback = scenario"
proof -
  let ?s = "take 16 (u (kind @ '':'' @ e @ '':'' @ d @ '':'' @ scenario))"
  have "split_on (CHR '':'') (''sim'' @ CHR '':'' # kind @ CHR '':'' # scenario @ CHR '':'' # ?s) =
      ''sim'' # kind # scenario # split_on (CHR '':'') ?s"
    using assms(2) supported_scenario(2) [OF assms(1)] by (subst split_on_word, simp)+ simp
  moreover have "build_provider_reference u kind e d scenario = ''sim'' @ CHR '':'' # kind @ CHR '':'' # scenario @ CHR '':'' # ?s"
    by (simp add: build_provider_reference_def)
  ultimately show ?thesis using supported_scenario(1) [OF assms(1)] split_on_last [of "CHR '':''" ?s]
    by (cases "split_on (CHR '':'') ?s") (simp_all add: scenario_from_provider_reference_def)
qed

lemma resolve_supported:
  assumes "dflt \<in> set SUPPORTED_SIMULATED_SCENARIOS"
  shows "resolve_scenario R source dflt \<in> set SUPPORTED_SIMULATED_SCENARIOS"
  using assms by (auto simp: resolve_scenario_def normalize_simulated_scenario_def Let_def split: option.split sum.split if_splits)

text \<open>An inquiry never contradicts a final answer to the request.\<close>

lemma simulated_outcome_stable:
  assumes "sm_payout_default_scenario R \<in> set SUPPORTED_SIMULATED_SCENARIOS"
    and "sim_request_payout R u q w = (Inr r, w1)" and "px_outcome r \<noteq> R_UNKNOWN"
  shows "\<exists>r'. sim_get_payout_status R (px_provider_reference r) w2 = (Inr r', w2) \<and> px_outcome r' = px_outcome r \<and>
    px_provider_reference r' = px_provider_reference r"
proof -
  define x where "x = resolve_scenario R (pq_purpose q) (sm_payout_default_scenario R)"
  define ref where "ref = build_provider_reference u ''payout'' (pq_escrow_reference q) (pq_purpose q) x"
  have x: "x \<in> set SUPPORTED_SIMULATED_SCENARIOS" unfolding x_def by (rule resolve_supported [OF assms(1)])
  have s: "scenario_from_provider_reference ref (sm_payout_default_scenario R) = x"
    unfolding ref_def by (rule reference_scenario [OF x]) simp
  have r: "px_provider_reference r = ref" "px_outcome r = fst (fst (scenario_payload x False (rc_payout w) ref))"
    using assms(2) by (auto simp: sim_request_payout_def sim_payout_result_def x_def ref_def Let_def split: prod.splits)
  then have "x \<in> {''success'', ''failed_definite'', ''duplicate''}"
    using assms(3) by (auto simp: scenario_payload_def split: if_splits)
  then show ?thesis using r s by (auto simp: sim_get_payout_status_def sim_payout_result_def scenario_payload_def)
qed

end
