(* ===== verification/Payment_Guarantees.thy ===== *)
theory Payment_Guarantees
  imports Guarantees Lifecycle Simulated_Rail Phone
begin

text \<open>
  The promises about payments: creating orders, confirming their funding and paying them out, stated
  over the operations and over every history of them.
\<close>

section \<open>Samples\<close>

text \<open>Rails that pay every request and fail every inquiry, and a provider that never reports funding.\<close>

definition eager_rails :: "unit payout_rails" where
  "eager_rails = \<lparr>rl_request = (\<lambda>rail q w. (Inr \<lparr>px_outcome = R_SUCCEEDED, px_provider_reference = ''ref'', px_raw_status = None, px_message = None\<rparr>, w)),
     rl_status = (\<lambda>rail ref w. (Inl (RuntimeError ''down''), w))\<rparr>"

definition silent_provider :: "unit provider" where
  "silent_provider = \<lparr>pv_open_escrow = (\<lambda>q w. (Inl (EconfirmUnknownError ''timeout''), w)),
     pv_request_funding = (\<lambda>q w. (Inl (ForeignError ''unused''), w)),
     pv_get_funding_status = (\<lambda>ref w. (Inr \<lparr>cx_outcome = R_UNKNOWN, cx_provider_reference = ref, cx_raw_status = None, cx_message = None, cx_metadata = None\<rparr>, w))\<rparr>"

definition sample_escrow :: escrow where
  "sample_escrow = \<lparr>es_id = 7, es_transaction = 10, es_buyer = 1, es_seller = 2, es_amount_total = 150000, es_funded_amount = 150000,
     es_released_amount = 0, es_refunded_amount = 0, es_currency = ''KES'', es_custody_provider = Some ''simulated'',
     es_econfirm_transaction_id = None, es_econfirm_confirmation_code = None, es_econfirm_needs_reconciliation = False,
     es_econfirm_payer_phone = None, es_created_at = 0\<rparr>"

definition sample_attempt :: "uuid \<Rightarrow> string \<Rightarrow> string option \<Rightarrow> cents \<Rightarrow> payout_attempt" where
  "sample_attempt i kind ref amount = \<lparr>po_id = i, po_escrow = 7, po_purpose = kind, po_rail_name = ''simulated'', po_provider_name = ''simulated'',
     po_idempotency_key = ''k'', po_provider_reference = ref, po_amount = amount, po_currency = ''KES'', po_outcome = UNKNOWN,
     po_request_snapshot = [(''payout_kind'', JStr kind), (''destination_phone'', JStr ''0700000002'')], po_response_snapshot = [],
     po_failure_code = None, po_failure_reason = None, po_attempted_at = 0, po_created_at = 0\<rparr>"

definition sample_funding :: ledger_entry where
  "sample_funding = \<lparr>le_id = 1, le_escrow = 7, le_group = 2, le_idempotency_key = ''funding'', le_account_code = ESCROW_HELD_ACCOUNT,
     le_side = DEBIT, le_amount = 150000, le_currency = ''KES'', le_description = None, le_created_at = 0\<rparr>"

definition payout_db :: "payout_attempt list \<Rightarrow> db" where
  "payout_db ps = (sample_db False [sample_order 10 RELEASED] [])\<lparr>d_escrows := [sample_escrow], d_payouts := ps, d_ledger := [sample_funding]\<rparr>"

lemmas payout_samples = eager_rails_def sample_escrow_def sample_attempt_def sample_funding_def payout_db_def

lemma payout_db_ok: "orders_wf (payout_db [sample_attempt 8 ''release'' None 100000])" "keys_unique (payout_db [sample_attempt 8 ''release'' None 100000])"
  "books (payout_db [sample_attempt 8 ''release'' None 100000])"
  by (simp_all add: payout_samples sample_db_def orders_wf_def outbox_wf_def small_amount_def keys_unique_def books_def
      get_escrow_held_balance_def entry_effect_def)

lemmas eval_payout = run_payout_executor_once_def claimed_attempts_def execute_attempt_def destination_phone_of_def snapshot_text_def
  payout_kind_of_def get_payout_rail_def LIVE_PAYOUT_RAILS_def ask_rail_def truthy_text_def send_payout_def make_payout_request_def
  payout_request_of_def escrow_reference_of_def book_answer_def answered_attempt_def attempt_outcome_from_payout_def answer_failure_code_def
  answer_failure_reason_def payout_result_payload_def record_rail_answer_def record_rail_success_def record_rail_failure_def settle_paid_def
  payout_movement_def post_movement_def ledger_amount_def entries_by_idempotency_key_def close_attempt_def audit_payout_attempt_def
  refresh_transaction_payout_status_def latest_attempts_def payout_status_of_def pay_out_def dict_get_def put_payout_def put_escrow_def
  ESCROW_HELD_ACCOUNT_def quantize_cents py_upper_def is_balanced_def side_total_def run_result_def still_unknown_def with_message_def
  record_ledger_entry_def record_money_audit_def

lemma sample_phone: "valid_phone ''0700000001'' = Inr ''+254700000001''" "valid_phone ''0700000002'' = Inr ''+254700000002''"
  by code_simp+

lemma payout_ids: "uuid_str 7 = ''00000000-0000-0000-0000-000000000007''" "uuid_str 8 = ''00000000-0000-0000-0000-000000000008''"
  by code_simp+

definition paid_run :: "(db \<times> (exn + executor_result)) \<times> unit" where
  "paid_run = run_payout_executor_once (sample_env 7) eager_rails 25 None (payout_db [sample_attempt 8 ''release'' None 100000]) ()"

lemma paid_run: "map es_released_amount (d_escrows (fst (fst paid_run))) = [100000] \<and> map po_outcome (d_payouts (fst (fst paid_run))) = [SUCCEEDED] \<and>
    snd (fst paid_run) = Inr (run_result [SUCCEEDED])"
  unfolding paid_run_def
  by (simp add: eval_payout payout_samples evaluate sample_phone payout_ids cong: argument_first)

definition sample_batch :: db where
  "sample_batch = payout_db [sample_attempt 8 ''release'' None 100000, sample_attempt 9 ''refund'' (Some ''x'') 50000]"

definition broken_run :: "(db \<times> (exn + executor_result)) \<times> unit" where
  "broken_run = run_payout_executor_once (sample_env 7) eager_rails 25 None sample_batch ()"

section \<open>Paying out\<close>

text \<open>C6: A payout run, whether it returns or raises, changes no order's identity or status and no attempt
  already decided, and every escrow keeps its funded amount, pays out only upwards and, if it was
  within its funds, stays within them.\<close>

lemma payout_run_stays_within_funds:
  assumes "run_payout_executor_once E R batch n s w = ((s', r), w')" and "keys_unique s"
  shows "orders_shown s s' \<and> list_all2 attempt_kept (d_payouts s) (d_payouts s') \<and> list_all2 escrow_kept (d_escrows s) (d_escrows s')"
  using run_executed [OF assms] by (simp add: executed_def)

lemma payout_run_stays_within_funds_witness:
  "list_all2 escrow_kept (d_escrows (payout_db [sample_attempt 8 ''release'' None 100000])) (d_escrows (fst (fst paid_run))) \<and>
     map es_released_amount (d_escrows (fst (fst paid_run))) = [100000]"
  using payout_run_stays_within_funds [OF _ payout_db_ok(2), of "sample_env 7" eager_rails 25 None "()" "fst (fst paid_run)" "snd (fst paid_run)" "()"]
    paid_run by (simp add: paid_run_def prod_eq_iff)

text \<open>C7: A run that returns leaves the books right: for every escrow the ledger holds exactly what was
  funded and has not been released or refunded. The counts it reports add up.\<close>

lemma payout_run_keeps_books:
  assumes "run_payout_executor_once E R batch n s w = ((s', Inr x), w')" and "keys_unique s" and "books s"
  shows "books s' \<and> xr_claimed x = xr_succeeded x + xr_failed_definite x + xr_unknown x"
  using run_books [OF assms(1-3)] run_counts [OF assms(1,2)] by simp

lemma payout_run_keeps_books_witness: "books (fst (fst paid_run)) \<and> map es_released_amount (d_escrows (fst (fst paid_run))) = [100000]"
  using payout_run_keeps_books [OF _ payout_db_ok(2,3), of "sample_env 7" eager_rails 25 None "()" "fst (fst paid_run)" "run_result [SUCCEEDED]" "()"]
    paid_run by (simp add: paid_run_def prod_eq_iff)

text \<open>C32: A run that raises has either stored nothing or stored books that are wrong: the posting of a
  payout commits before the amount is added to the escrow.\<close>

lemma interrupted_payout_run:
  assumes "run_payout_executor_once E R batch n s w = ((s', Inl x), w')" and "keys_unique s" and "books s"
  shows "s' = s \<or> \<not> books s'"
  using run_books [OF assms] by simp

lemma sample_batch_ok: "keys_unique sample_batch" "books sample_batch"
  by (simp_all add: sample_batch_def payout_samples sample_db_def keys_unique_def books_def get_escrow_held_balance_def entry_effect_def)

lemma broken_run: "snd (fst broken_run) = Inl (RuntimeError ''down'') \<and> map po_outcome (d_payouts (fst (fst broken_run))) = [SUCCEEDED, UNKNOWN] \<and>
    map es_released_amount (d_escrows (fst (fst broken_run))) = [0] \<and> get_escrow_held_balance 7 (fst (fst broken_run)) = 50000"
  unfolding broken_run_def sample_batch_def
  by (simp add: eval_payout payout_samples evaluate sample_phone payout_ids resolve_payout_status_with_inquiry_def payout_scenario_def
      get_escrow_held_balance_def entry_effect_def cong: argument_first)

lemma interrupted_payout_run_witness: "\<not> books (fst (fst broken_run)) \<and> map po_outcome (d_payouts (fst (fst broken_run))) = [SUCCEEDED, UNKNOWN]"
proof -
  have "d_payouts (fst (fst broken_run)) \<noteq> d_payouts sample_batch"
    using broken_run by (auto simp: sample_batch_def payout_db_def sample_attempt_def dest: arg_cong [of _ _ "map po_outcome"])
  then show ?thesis
    using interrupted_payout_run [OF _ sample_batch_ok, of "sample_env 7" eager_rails 25 None "()" "fst (fst broken_run)" "RuntimeError ''down''" "()"]
      broken_run by (auto simp: broken_run_def prod_eq_iff)
qed

text \<open>C25: An attempt that has a provider reference is only inquired about: whatever a request to the rail
  would do, executing the attempt is the same.\<close>

lemma sent_payout_is_not_sent_again:
  assumes "truthy_text (po_provider_reference p)"
  shows "execute_attempt E (R\<lparr>rl_request := f\<rparr>) now p s w = execute_attempt E R now p s w"
  by (rule inquiry_only [OF assms])

lemma sent_payout_is_not_sent_again_witness:
  "execute_attempt (sample_env 7) (eager_rails\<lparr>rl_request := (\<lambda>rail q w. (Inl (ValueError ''never''), w))\<rparr>) 7
     (sample_attempt 9 ''refund'' (Some ''x'') 50000) sample_batch () =
   execute_attempt (sample_env 7) eager_rails 7 (sample_attempt 9 ''refund'' (Some ''x'') 50000) sample_batch ()"
  by (rule sent_payout_is_not_sent_again) (simp add: truthy_text_def sample_attempt_def)

text \<open>An attempt on a rail the registry does not offer, or blocks because live payouts are off, reaches
  no rail: its step is the same whatever the rails would do, and the world is unchanged.\<close>

lemma blocked_payout_reaches_no_rail:
  assumes "get_payout_rail (e_registry E) (po_rail_name p) = Inl x"
  shows "execute_attempt E R now p s w = (fst (execute_attempt E R' now p s w), w)"
  by (rule blocked_rail_not_asked [OF assms])

lemma blocked_payout_reaches_no_rail_witness:
  "\<exists>x. get_payout_rail sample_registry ''loop'' = Inl x \<and>
     execute_attempt (sample_env 7) eager_rails 7 ((sample_attempt 8 ''release'' None 100000)\<lparr>po_rail_name := ''loop''\<rparr>) sample_batch () =
     (fst (execute_attempt (sample_env 7) (eager_rails\<lparr>rl_request := (\<lambda>rail q w. (Inl (ValueError ''never''), w))\<rparr>) 7
        ((sample_attempt 8 ''release'' None 100000)\<lparr>po_rail_name := ''loop''\<rparr>) sample_batch ()), ())"
proof -
  obtain x where x: "get_payout_rail sample_registry ''loop'' = Inl x" by (simp add: get_payout_rail_def sample_registry_def)
  have "get_payout_rail (e_registry (sample_env 7)) (po_rail_name ((sample_attempt 8 ''release'' None 100000)\<lparr>po_rail_name := ''loop''\<rparr>)) = Inl x"
    using x by (simp add: sample_env_def)
  from blocked_payout_reaches_no_rail [OF this] show ?thesis using x by (intro exI conjI)
qed

section \<open>Creating and funding orders\<close>

definition stub_world :: "unit gateway" where
  "stub_world = stub_gateway"

definition sample_creation :: "(db \<times> (exn + transaction)) \<times> unit" where
  "sample_creation = create_transaction (sample_env 7) silent_provider stub_world sample_buyer 3 None (sample_db False [] []) ()"

lemma first_reference: "d_transactions s = [] \<Longrightarrow> unique_transaction_reference E 5 s = Inr (generate_transaction_reference E s)"
  by (simp add: eval_nat_numeral case_prod_unfold)

lemmas eval_creation = create_transaction_def place_order_def insert_order_def listing_is_sold_def listing_status_def statuses_of_def status_from_def
  UNPAID_STATUSES_def REFUNDED_STATUSES_def amount_matches_def select_custody_for_new_transaction_def
  new_transaction_def add_order_rows_def record_transaction_created_def insert_transaction_def
  create_transaction_created_notifications_def add_order_escrow_def PROVIDER_SIMULATED_def PROVIDER_ECONFIRM_def prompt_via_gateway_def
  ask_gateway_def make_payment_request_def order_payment_request_def record_payment_prompt_def stub_world_def stub_gateway_def

lemma sample_creation: "map (\<lambda>t. (tx_status t, tx_amount t, tx_buyer t, tx_seller t)) (d_transactions (fst (fst sample_creation))) = [(AWAITING_PAYMENT, 150000, 1, 2)]
    \<and> map pp_status (d_prompts (fst (fst sample_creation))) = [P_PENDING] \<and> (\<exists>t. snd (fst sample_creation) = Inr t)"
  unfolding sample_creation_def
  by (simp add: eval_creation evaluate sample_phone first_reference generate_transaction_reference_def REFERENCE_ALPHABET_def cong: argument_first)

text \<open>C27: Creating an order stores nothing, or exactly one new order: of a listing that is not sold or
  archived, at its price, between the buyer and the listing's seller, awaiting payment. Every other
  order reads the same and no order's debt changes.\<close>

lemma creation_adds_one_order:
  assumes "create_transaction E P gw buyer lid amount s w = ((s', r), w')" and "orders_wf s" and "escrows_owned s" and "money_owed s"
  shows "orders_wf s' \<and> money_owed s' \<and> (s' = s \<and> (\<exists>x. r = Inl x) \<or>
    (\<exists>l t. get_listing lid s = Some l \<and> u_role buyer = BUYER \<and> \<not> listing_is_sold lid s \<and> l_archived_at l = None \<and> new_order buyer l t s s'))"
  by (rule create_adds_one [OF assms])

lemma creation_adds_one_order_witness:
  "\<exists>l t. get_listing 3 (sample_db False [] []) = Some l \<and> new_order sample_buyer l t (sample_db False [] []) (fst (fst sample_creation))"
proof -
  have "escrows_owned (sample_db False [] [])" by (simp add: escrows_owned_def sample_db_def)
  from creation_adds_one_order [OF _ _ this, of "sample_env 7" silent_provider stub_world sample_buyer 3 None "()" "fst (fst sample_creation)" "snd (fst sample_creation)" "()"]
  have "(\<exists>x. snd (fst sample_creation) = Inl x) \<or> (\<exists>l t. get_listing 3 (sample_db False [] []) = Some l \<and>
      new_order sample_buyer l t (sample_db False [] []) (fst (fst sample_creation)))"
    by (auto simp: sample_creation_def prod_eq_iff)
  then show ?thesis using sample_creation by auto
qed

text \<open>A funding poll neither funds an escrow nor locks an order unless the provider reports funding:
  when it reports none, the poll leaves the database as it is.\<close>

lemma no_funding_without_report:
  assumes "\<And>ref w r w'. pv_get_funding_status P ref w = (Inr r, w') \<Longrightarrow> cx_outcome r \<noteq> R_SUCCEEDED"
    and "run_econfirm_funding_reconciliation E P n limit minutes s w = ((s', r), w')"
  shows "s' = s \<and> (\<forall>x. r = Inr x \<longrightarrow> pl_funded x = 0)"
  by (rule poll_unfunded [OF assms])

lemma no_funding_without_report_witness:
  "fst (fst (run_econfirm_funding_reconciliation (sample_env 7) silent_provider None 10 30 (payout_db []) ())) = payout_db []"
  using no_funding_without_report [of silent_provider "sample_env 7" None 10 30 "payout_db []" "()"]
  by (auto simp: silent_provider_def prod_eq_iff)

text \<open>C8: In every history of requests, order creations, prompts, funding polls, payout runs and alerts that
  starts from a well-formed database without orders, each order has followed the documented table
  from \<open>awaiting_payment\<close>; and whatever happens later, it is still there with the same parties, amount
  and listing, and has followed the table on from where it was.\<close>

lemma lifecycle_follows_table:
  assumes "orders_wf s" and "d_transactions s = []" and "get_transaction i (fst (live es (s, w))) = Some t"
  shows "follows AWAITING_PAYMENT (tx_status t) \<and> (\<exists>t'. get_transaction i (fst (live later (live es (s, w)))) = Some t' \<and> same_order t t' \<and>
    follows (tx_status t) (tx_status t'))"
proof -
  obtain s1 w1 where s1: "live es (s, w) = (s1, w1)" by force
  have "advances s s1" using life.history_advances [OF assms(1), of es w] s1 by (simp add: live_fold)
  then have wf: "orders_wf s1" by (simp add: advances_def)
  have a: "advances s1 (fst (live later (s1, w1)))" using life.history_advances [OF wf, of later w1] by (simp add: live_fold)
  have "follows AWAITING_PAYMENT (tx_status t)" using life.history_from_empty [OF assms(1,2)] assms(3) by (simp add: live_fold)
  then show ?thesis using advances_keeps [OF a] assms(3) s1 by (metis fst_conv)
qed

definition first_steps :: "(env \<times> unit event) list" where
  "first_steps = [(sample_env 7, CreateOrder silent_provider stub_world sample_buyer 3 None)]"

lemma lifecycle_follows_table_witness:
  "\<exists>i t t'. get_transaction i (fst (live first_steps (sample_db False [] [], ()))) = Some t \<and>
     get_transaction i (fst (live [(sample_env 8, PayoutRun eager_rails 25 None)] (live first_steps (sample_db False [] [], ())))) = Some t' \<and>
     tx_amount t' = 150000 \<and> follows AWAITING_PAYMENT (tx_status t')"
proof -
  have "d_transactions (fst (live first_steps (sample_db False [] [], ()))) = d_transactions (fst (fst sample_creation))"
    by (simp add: first_steps_def left_by_def sample_creation_def)
  moreover obtain z where "d_transactions (fst (fst sample_creation)) = [z]" "tx_amount z = 150000"
    using sample_creation by (auto simp: map_eq_Cons_conv)
  ultimately obtain t where t: "get_transaction (tx_id t) (fst (live first_steps (sample_db False [] [], ()))) = Some t" "tx_amount t = 150000"
    using that [of z] by (simp add: get_transaction_def)
  obtain t' where "get_transaction (tx_id t) (fst (live [(sample_env 8, PayoutRun eager_rails 25 None)] (live first_steps (sample_db False [] [], ())))) = Some t'"
    "same_order t t'" "follows (tx_status t) (tx_status t')" "follows AWAITING_PAYMENT (tx_status t)"
    using lifecycle_follows_table [OF _ _ t(1), of "[(sample_env 8, PayoutRun eager_rails 25 None)]"] by auto
  then show ?thesis using t by (auto simp: same_order_def intro: follows_trans)
qed

section \<open>Phones and references\<close>

text \<open>C38: Normalizing a phone number of ordinary digits gives \<open>+254\<close> and nine digits or 7 to 15 digits with an
  optional plus, and normalizing it again, as every adapter does, changes nothing.\<close>

lemma phone_normal_form:
  assumes "normalize_phone (Some v) b = Inr (Some n)" and "\<forall>c \<in> set v. py_isdigit c \<longrightarrow> ascii_digit c"
  shows "PHONE_PATTERN n \<and> normalize_phone (Some n) b' = Inr (Some n)"
  using normalize_phone_Some [OF assms] normalize_phone_idem [OF assms(1)] by simp

lemma phone_normal_form_witness: "PHONE_PATTERN ''+254700000001'' \<and> normalize_phone (Some ''+254700000001'') True = Inr (Some ''+254700000001'')"
  by (rule phone_normal_form [of "''(0700) 000-001''" False]) code_simp+

definition sample_simulator :: simulated_rail where
  "sample_simulator = \<lparr>sm_collection_default_scenario = ''success'', sm_payout_default_scenario = ''success'', sm_trigger_prefix = ''sim:''\<rparr>"

definition sample_request :: payout_request where
  "sample_request = \<lparr>pq_escrow_reference = ''7'', pq_amount = 100, pq_destination_phone = ''0700000002'', pq_purpose = ''release'', pq_currency = ''KES'',
     pq_confirmation_code = None, pq_notes = None\<rparr>"

definition no_checks :: rail_checks where
  "no_checks = \<lparr>rc_funding = (\<lambda>_. 0), rc_payout = (\<lambda>_. 0)\<rparr>"

text \<open>The simulated rail keeps its word: the scenario it chose for a payout is carried by the provider
  reference, so any later inquiry by that reference repeats a final answer.\<close>

lemma simulated_answer_is_kept:
  assumes "sm_payout_default_scenario R \<in> set SUPPORTED_SIMULATED_SCENARIOS"
    and "sim_request_payout R u q w = (Inr r, w1)" and "px_outcome r \<noteq> R_UNKNOWN"
  shows "\<exists>r'. sim_get_payout_status R (px_provider_reference r) w2 = (Inr r', w2) \<and> px_outcome r' = px_outcome r \<and>
    px_provider_reference r' = px_provider_reference r"
  by (rule simulated_outcome_stable [OF assms])

lemma simulated_answer_is_kept_witness:
  "\<exists>r r'. fst (sim_request_payout sample_simulator (\<lambda>seed. seed) sample_request no_checks) = Inr r \<and> px_outcome r = R_SUCCEEDED \<and>
     sim_get_payout_status sample_simulator (px_provider_reference r) no_checks = (Inr r', no_checks) \<and> px_outcome r' = R_SUCCEEDED"
proof -
  have "resolve_scenario sample_simulator ''release'' ''success'' = ''success''" by code_simp
  then obtain r w1 where r: "sim_request_payout sample_simulator (\<lambda>seed. seed) sample_request no_checks = (Inr r, w1)" "px_outcome r = R_SUCCEEDED"
    by (simp add: sim_request_payout_def sample_request_def sim_payout_result_def scenario_payload_def Let_def sample_simulator_def)
  show ?thesis using simulated_answer_is_kept [OF _ r(1), of no_checks] r
    by (auto simp: sample_simulator_def SUPPORTED_SIMULATED_SCENARIOS_def)
qed

end
