(* ===== verification/Provider_Http.thy ===== *)
theory Provider_Http
  imports Custody_Dto "HOL-Library.List_Lexorder"
begin

text \<open>
  What the adapters of Loop and Pesapal share: the HTTP transport they are given, fields picked out of
  a response, JSON text, addresses, access tokens that are cached until shortly before they expire,
  and the redaction of payloads before they are stored or logged (the same function in five modules).
  A response's JSON number with a fraction is represented by its text.
\<close>

section \<open>Requests and responses\<close>

record http_reply =
  ht_status_code :: int
  ht_body :: dict
  ht_text :: string

text \<open>Method, URL, headers, payload and the world; an exception is returned as a value.\<close>

type_synonym 'w http = "string \<Rightarrow> string \<Rightarrow> (string \<times> string) list \<Rightarrow> dict option \<Rightarrow> 'w \<Rightarrow> (exn + http_reply) \<times> 'w"

text \<open>\<open>str(exc)\<close> of the exceptions a transport raises.\<close>

fun exn_text :: "exn \<Rightarrow> string" where
  "exn_text (LoopAuthError m) = m"
| "exn_text (PesapalAuthError m) = m"
| "exn_text (RuntimeError m) = m"
| "exn_text (ValueError m) = m"
| "exn_text (TypeError m) = m"
| "exn_text (OverflowError m) = m"
| "exn_text (KeyError m) = repr_text m"
| "exn_text (IndexError m) = m"
| "exn_text (ForeignError m) = m"
| "exn_text _ = ''''"

definition found :: "dict \<Rightarrow> string list \<Rightarrow> string json list" where
  "found d ks = List.map_filter (\<lambda>k. dict_get k d) ks"

text \<open>\<open>str(body.get(k1) or body.get(k2) or ... or default).strip()\<close>\<close>

definition any_text :: "dict \<Rightarrow> string list \<Rightarrow> string \<Rightarrow> string" where
  "any_text d ks dflt = strip (case find truthy (found d ks) of None \<Rightarrow> dflt | Some v \<Rightarrow> value_text v)"

text \<open>A key that is missing and one that is null read the same.\<close>

definition get_value :: "string \<Rightarrow> dict \<Rightarrow> string json option" where
  "get_value k d = (case dict_get k d of Some JNull \<Rightarrow> None | v \<Rightarrow> v)"

text \<open>\<open>_extract_first_string\<close>: the first key whose value is present and has text.\<close>

fun first_string :: "dict \<Rightarrow> string list \<Rightarrow> string option" where
  "first_string d [] = None"
| "first_string d (k # ks) = (case dict_get k d of None \<Rightarrow> first_string d ks
     | Some v \<Rightarrow> if v = JNull \<or> strip (value_text v) = '''' then first_string d ks else Some (strip (value_text v)))"

definition NESTED_PAYLOAD_KEYS :: "string list" where
  "NESTED_PAYLOAD_KEYS = [''data'', ''payload'', ''result'', ''body'']"

fun nested_string :: "dict \<Rightarrow> string list \<Rightarrow> string list \<Rightarrow> string option" where
  "nested_string d [] ks = None"
| "nested_string d (c # cs) ks = (case dict_get c d of
       Some (JObj n) \<Rightarrow> (case first_string n ks of None \<Rightarrow> nested_string d cs ks | Some t \<Rightarrow> Some t)
     | _ \<Rightarrow> nested_string d cs ks)"

definition absolute_url :: "string \<Rightarrow> string \<Rightarrow> string" where
  "absolute_url base path = (let v = strip path in
     if starts_with ''http://'' v \<or> starts_with ''https://'' v then v else base @ ''/'' @ dropWhile (\<lambda>c. c = CHR ''/'') v)"

definition normal_base :: "string \<Rightarrow> string" where
  "normal_base url = rev (dropWhile (\<lambda>c. c = CHR ''/'') (rev (strip url)))"

section \<open>JSON text\<close>

text \<open>\<open>json.dumps(payload, separators=(",", ":"), sort_keys=True)\<close>: everything outside printable ASCII is escaped.\<close>

definition json_char :: "char \<Rightarrow> string" where
  "json_char c = (let n = (of_char c :: nat) in
     if c = CHR 0x22 \<or> c = CHR 0x5C then [CHR 0x5C, c]
     else if n = 8 then [CHR 0x5C, CHR ''b''] else if n = 9 then [CHR 0x5C, CHR ''t''] else if n = 10 then [CHR 0x5C, CHR ''n'']
     else if n = 12 then [CHR 0x5C, CHR ''f''] else if n = 13 then [CHR 0x5C, CHR ''r'']
     else if n < 32 \<or> 126 < n then [CHR 0x5C, CHR ''u''] @ hex_digits 4 n else [c])"

definition json_quote :: "string \<Rightarrow> string" where
  "json_quote s = [CHR 0x22] @ concat (map json_char s) @ [CHR 0x22]"

fun json_dumps :: "string json \<Rightarrow> string" and
    dump_items :: "string json list \<Rightarrow> string list" and
    dump_fields :: "dict \<Rightarrow> (string \<times> string) list" where
  "json_dumps JNull = ''null''"
| "json_dumps (JBool b) = (if b then ''true'' else ''false'')"
| "json_dumps (JInt i) = int_str i"
| "json_dumps (JStr s) = json_quote s"
| "json_dumps (JArr xs) = ''['' @ join_text '','' (dump_items xs) @ '']''"
| "json_dumps (JObj d) = ''{'' @ join_text '','' (map (\<lambda>(k, v). json_quote k @ '':'' @ v)
     (sort_key (\<lambda>f. map of_char (fst f) :: nat list) (dump_fields d))) @ ''}''"
| "dump_items [] = []"
| "dump_items (x # xs) = json_dumps x # dump_items xs"
| "dump_fields [] = []"
| "dump_fields ((k, v) # d) = (k, json_dumps v) # dump_fields d"

text \<open>\<open>int(value)\<close> of a JSON value, \<open>None\<close> for \<open>TypeError\<close> and \<open>ValueError\<close>; digits may be grouped by single underscores.\<close>

fun read_digits :: "nat \<Rightarrow> bool \<Rightarrow> string \<Rightarrow> nat option" where
  "read_digits acc digit [] = (if digit then Some acc else None)"
| "read_digits acc digit (c # cs) = (if ascii_digit c then read_digits (10 * acc + (of_char c - 48)) True cs
     else if c = CHR ''_'' \<and> digit then read_digits acc False cs else None)"

definition read_int :: "string \<Rightarrow> int option" where
  "read_int v = (case strip v of
       [] \<Rightarrow> None
     | c # cs \<Rightarrow> if c = CHR ''-'' then map_option (\<lambda>n. - int n) (read_digits 0 False cs)
         else if c = CHR ''+'' then map_option int (read_digits 0 False cs) else map_option int (read_digits 0 False (c # cs)))"

definition json_int :: "string json \<Rightarrow> int option" where
  "json_int v = (case v of JInt i \<Rightarrow> Some i | JBool b \<Rightarrow> Some (of_bool b) | JStr s \<Rightarrow> read_int s | _ \<Rightarrow> None)"

text \<open>\<open>datetime + timedelta(seconds=n)\<close> overflows past the year 9999.\<close>

definition DATETIME_END :: time where
  "DATETIME_END = seconds 253402300800"

definition add_seconds :: "time \<Rightarrow> int \<Rightarrow> exn + time" where
  "add_seconds t n = (if t + seconds n < DATETIME_END then Inr (t + seconds n) else Inl (OverflowError ''date value out of range''))"

text \<open>\<open>now.strftime("%Y%m%d%H%M%S")\<close>\<close>

definition compact_time :: "time \<Rightarrow> string" where
  "compact_time t = filter ascii_digit (date_time_str t)"

section \<open>Cached tokens\<close>

record token_cache =
  tk_token :: string
  tk_expires_at :: "time option"

definition no_token :: token_cache where
  "no_token = \<lparr>tk_token = '''', tk_expires_at = None\<rparr>"

definition is_expiring_soon :: "time \<Rightarrow> time \<Rightarrow> token_cache \<Rightarrow> bool" where
  "is_expiring_soon skew now c = (case tk_expires_at c of None \<Rightarrow> True | Some t \<Rightarrow> t \<le> now + skew)"

text \<open>\<open>get_access_token\<close>, for the provider's own way to \<open>refresh\<close>; the cache belongs to the adapter and outlives the call.\<close>

definition cached_token ::
    "(token_cache \<times> 'w \<Rightarrow> (exn + string) \<times> token_cache \<times> 'w) \<Rightarrow> time \<Rightarrow> time \<Rightarrow> token_cache \<times> 'w \<Rightarrow> (exn + string) \<times> token_cache \<times> 'w" where
  "cached_token refresh skew now st = (if tk_token (fst st) \<noteq> '''' \<and> \<not> is_expiring_soon skew now (fst st)
     then (Inr (tk_token (fst st)), st) else refresh st)"

text \<open>While the cached token is fresh, no request for another is made.\<close>

lemma fresh_token_reused:
  assumes "tk_token c \<noteq> ''''" and "tk_expires_at c = Some t" and "now + skew < t"
  shows "cached_token refresh skew now (c, w) = (Inr (tk_token c), c, w)"
  using assms by (simp add: cached_token_def is_expiring_soon_def)

section \<open>Redaction\<close>

text \<open>Keys are compared without case, blanks, hyphens and underscores.\<close>

definition plain_key :: "string \<Rightarrow> string" where
  "plain_key k = filter (\<lambda>c. c \<noteq> CHR ''-'' \<and> c \<noteq> CHR ''_'') (py_lower (strip k))"

definition phone_like :: "string \<Rightarrow> bool" where
  "phone_like v = (starts_with ''+'' v \<and> tl v \<noteq> '''' \<and> list_all py_isdigit (tl v) \<and> 8 \<le> length v)"

fun redact :: "string list \<Rightarrow> string json \<Rightarrow> string json" and
    redact_items :: "string list \<Rightarrow> string json list \<Rightarrow> string json list" and
    redact_fields :: "string list \<Rightarrow> dict \<Rightarrow> dict" where
  "redact ks (JObj d) = JObj (redact_fields ks d)"
| "redact ks (JArr xs) = JArr (redact_items ks xs)"
| "redact ks (JStr s) = (if phone_like s then JStr ''***'' else JStr s)"
| "redact ks JNull = JNull"
| "redact ks (JBool b) = JBool b"
| "redact ks (JInt i) = JInt i"
| "redact_items ks [] = []"
| "redact_items ks (x # xs) = redact ks x # redact_items ks xs"
| "redact_fields ks [] = []"
| "redact_fields ks ((k, v) # d) = (k, if plain_key k \<in> set ks then JStr ''***'' else redact ks v) # redact_fields ks d"

definition LOOP_SENSITIVE_KEYS :: "string list" where
  "LOOP_SENSITIVE_KEYS = [''phone'', ''phonenumber'', ''msisdn'', ''token'', ''authorization'', ''signature'', ''passkey'', ''client_secret'']"

definition PESAPAL_SENSITIVE_KEYS :: "string list" where
  "PESAPAL_SENSITIVE_KEYS = LOOP_SENSITIVE_KEYS @ [''consumer_secret'']"

text \<open>
  What redaction guarantees of the stored value: a text under a key that redaction recognises is
  masked, at every depth, and no text that looks like a phone number is left.
\<close>

fun masked :: "string list \<Rightarrow> string json \<Rightarrow> bool" and
    masked_items :: "string list \<Rightarrow> string json list \<Rightarrow> bool" and
    masked_fields :: "string list \<Rightarrow> dict \<Rightarrow> bool" where
  "masked ks (JObj d) = masked_fields ks d"
| "masked ks (JArr xs) = masked_items ks xs"
| "masked ks (JStr s) = (\<not> phone_like s)"
| "masked ks JNull = True"
| "masked ks (JBool b) = True"
| "masked ks (JInt i) = True"
| "masked_items ks [] = True"
| "masked_items ks (x # xs) = (masked ks x \<and> masked_items ks xs)"
| "masked_fields ks [] = True"
| "masked_fields ks ((k, v) # d) = ((if plain_key k \<in> set ks then v = JStr ''***'' else masked ks v) \<and> masked_fields ks d)"

lemma stars_not_phone: "\<not> phone_like ''***''"
  by (simp add: phone_like_def starts_with_def)

lemma redact_masked:
  "masked ks (redact ks v)" "masked_items ks (redact_items ks xs)" "masked_fields ks (redact_fields ks d)"
  by (induction v and xs and d rule: redact_redact_items_redact_fields.induct) (auto simp: stars_not_phone)

lemma redact_fixed:
  "masked ks v \<Longrightarrow> redact ks v = v" "masked_items ks xs \<Longrightarrow> redact_items ks xs = xs" "masked_fields ks d \<Longrightarrow> redact_fields ks d = d"
  by (induction v and xs and d rule: redact_redact_items_redact_fields.induct) auto

lemma redact_keeps_keys: "map fst (redact_fields ks d) = map fst d"
  by (induction d) auto

text \<open>A key with an underscore in the table never matches: the underscore is removed before the comparison.\<close>

lemma plain_key_no_underscore: "CHR ''_'' \<notin> set (plain_key k)"
  by (simp add: plain_key_def)

lemma client_secret_kept:
  assumes "plain_key k = plain_key ''client_secret''" and "\<not> phone_like v"
  shows "redact_fields LOOP_SENSITIVE_KEYS [(k, JStr v)] = [(k, JStr v)]"
proof -
  have "plain_key ''client_secret'' = ''clientsecret''" by code_simp
  then show ?thesis using assms by (simp add: LOOP_SENSITIVE_KEYS_def)
qed

end
