(* ===== verification/Redaction.thy ===== *)
theory Redaction
  imports Provider_Http
begin

text \<open>
  What may be written to logs and provider events (custody/redaction.py): error messages without tokens,
  keys, long secrets and phone numbers, and structures without the values of secret keys. The regular
  expressions are written as functions that give the length of the match at the start of a text, 0 when
  there is none; each is one run of a character class, so the leftmost match is the longest run.
\<close>

definition ascii_letter :: "char \<Rightarrow> bool" where
  "ascii_letter c = (let n = (of_char c :: nat) in (65 \<le> n \<and> n \<le> 90) \<or> (97 \<le> n \<and> n \<le> 122))"

definition run_length :: "(char \<Rightarrow> bool) \<Rightarrow> string \<Rightarrow> nat" where
  "run_length p s = length (takeWhile p s)"

text \<open>\<open>(?i)bearer\s+[A-Za-z0-9._~+/=-]+\<close>\<close>

definition bearer_match :: "string \<Rightarrow> nat" where
  "bearer_match s = (let blanks = run_length py_isspace (drop 6 s);
       token = run_length (\<lambda>c. ascii_letter c \<or> ascii_digit c \<or> c \<in> set ''._~+/=-'') (drop (6 + blanks) s) in
     if py_lower (take 6 s) = ''bearer'' \<and> blanks \<noteq> 0 \<and> token \<noteq> 0 then 6 + blanks + token else 0)"

text \<open>\<open>ek_[A-Za-z0-9]+\<close>\<close>

definition econfirm_key_match :: "string \<Rightarrow> nat" where
  "econfirm_key_match s = (let n = run_length (\<lambda>c. ascii_letter c \<or> ascii_digit c) (drop 3 s) in
     if starts_with ''ek_'' s \<and> n \<noteq> 0 then 3 + n else 0)"

text \<open>\<open>[A-Za-z0-9+/=_-]{32,}\<close>\<close>

definition long_secret_match :: "string \<Rightarrow> nat" where
  "long_secret_match s = (let n = run_length (\<lambda>c. ascii_letter c \<or> ascii_digit c \<or> c \<in> set ''+/=_-'') s in if 32 \<le> n then n else 0)"

text \<open>\<open>\+?\d{10,15}\<close>\<close>

definition phone_match :: "string \<Rightarrow> nat" where
  "phone_match s = (let plus = (if starts_with ''+'' s then 1 else 0); n = run_length ascii_digit (drop plus s) in
     if 10 \<le> n then plus + min 15 n else 0)"

text \<open>\<open>pattern.sub(replacement, text)\<close>\<close>

fun sub_matches :: "(string \<Rightarrow> nat) \<Rightarrow> string \<Rightarrow> string \<Rightarrow> string" where
  "sub_matches m r [] = []"
| "sub_matches m r (c # s) = (let n = m (c # s) in if n = 0 then c # sub_matches m r s else r @ sub_matches m r (drop (n - 1) s))"

definition mask_message :: "string \<Rightarrow> string" where
  "mask_message s = sub_matches phone_match ''***'' (sub_matches long_secret_match ''***''
     (sub_matches econfirm_key_match ''ek_***'' (sub_matches bearer_match ''Bearer ***'' s)))"

text \<open>\<open>type(exc).__name__\<close> of the exceptions an inquiry raises.\<close>

fun exn_name :: "exn \<Rightarrow> string" where
  "exn_name (LoopAuthError _) = ''LoopAuthError''"
| "exn_name (PesapalAuthError _) = ''PesapalAuthError''"
| "exn_name (RuntimeError _) = ''RuntimeError''"
| "exn_name (ValueError _) = ''ValueError''"
| "exn_name (TypeError _) = ''TypeError''"
| "exn_name (OverflowError _) = ''OverflowError''"
| "exn_name (KeyError _) = ''KeyError''"
| "exn_name (IndexError _) = ''IndexError''"
| "exn_name _ = ''Exception''"

definition MAX_MESSAGE_LENGTH :: nat where
  "MAX_MESSAGE_LENGTH = 200"

definition safe_error_message :: "exn \<Rightarrow> string" where
  "safe_error_message x = (let m = mask_message (exn_text x);
       short = (if MAX_MESSAGE_LENGTH < length m then take MAX_MESSAGE_LENGTH m @ ''...'' else m) in
     if short = '''' then exn_name x else exn_name x @ '': '' @ short)"

definition signature_fingerprint :: "(string \<Rightarrow> string) \<Rightarrow> string \<Rightarrow> string option" where
  "signature_fingerprint sha256 signature = (let v = strip signature in if v = '''' then None else Some (take 12 (sha256 v)))"

section \<open>Structures\<close>

definition SENSITIVE_KEY_NAMES :: "string list" where
  "SENSITIVE_KEY_NAMES = [''confirmationcode'', ''code'', ''apikey'', ''apisecret'', ''authorization'', ''token'', ''secret'', ''password'',
     ''signature'', ''anchoradminrefsecret'', ''anchorprivatekey'', ''privatekey'']"

definition PII_KEY_NAMES :: "string list" where
  "PII_KEY_NAMES = [''phone'', ''phonenumber'', ''msisdn'', ''payerphone'', ''receiverphone'']"

fun redact_structure :: "string json \<Rightarrow> string json" and
    redact_structures :: "string json list \<Rightarrow> string json list" and
    redact_members :: "dict \<Rightarrow> dict" where
  "redact_structure (JObj d) = JObj (redact_members d)"
| "redact_structure (JArr xs) = JArr (redact_structures xs)"
| "redact_structure (JStr s) = JStr (sub_matches econfirm_key_match ''ek_***'' (sub_matches bearer_match ''Bearer ***'' s))"
| "redact_structure JNull = JNull"
| "redact_structure (JBool b) = JBool b"
| "redact_structure (JInt i) = JInt i"
| "redact_structures [] = []"
| "redact_structures (x # xs) = redact_structure x # redact_structures xs"
| "redact_members [] = []"
| "redact_members ((k, v) # d) = (k, if plain_key k \<in> set (SENSITIVE_KEY_NAMES @ PII_KEY_NAMES) then JStr ''***'' else redact_structure v)
     # redact_members d"

section \<open>No phone number is left\<close>

text \<open>A text without ten digits in a row.\<close>

fun phone_free :: "string \<Rightarrow> bool" where
  "phone_free [] = True"
| "phone_free (c # s) = (run_length ascii_digit (c # s) < 10 \<and> phone_free s)"

lemma run_length_Cons: "run_length p (c # s) = (if p c then Suc (run_length p s) else 0)"
  by (simp add: run_length_def)

lemma run_length_Nil [simp]: "run_length p [] = 0"
  by (simp add: run_length_def)

text \<open>Below ten digits the substitution leaves a run of digits as it is.\<close>

lemma not_digit [simp]: "\<not> ascii_digit CHR ''*''" "\<not> ascii_digit CHR ''.''" "\<not> ascii_digit CHR '':''" "\<not> ascii_digit CHR '' ''"
  by (simp_all add: ascii_digit_def)

lemma stars_break: "run_length ascii_digit (''***'' @ s) = 0"
  by (simp add: run_length_def ascii_digit_def)

lemma digits_kept:
  "run_length ascii_digit s < 10 \<Longrightarrow> run_length ascii_digit (sub_matches phone_match ''***'' s) = run_length ascii_digit s"
proof (induction s)
  case (Cons c s)
  show ?case
  proof (cases "ascii_digit c")
    case True
    then have plus: "\<not> starts_with ''+'' (c # s)" by (auto simp: starts_with_def ascii_digit_def)
    then have "phone_match (c # s) = 0" using Cons.prems by (simp add: phone_match_def Let_def)
    moreover have "run_length ascii_digit s < 10" using Cons.prems True by (simp add: run_length_Cons)
    ultimately show ?thesis using Cons.IH True by (simp add: run_length_Cons Let_def)
  next
    case False
    then show ?thesis using stars_break by (auto simp: run_length_Cons Let_def ascii_digit_def)
  qed
qed simp

lemma phone_free_stars: "phone_free (''***'' @ s) = phone_free s"
  by (simp add: run_length_Cons)

lemma masked_phone_free: "phone_free (sub_matches phone_match ''***'' s)"
proof (induction s rule: length_induct)
  case (1 s)
  show ?case
  proof (cases s)
    case (Cons c t)
    show ?thesis
    proof (cases "phone_match s = 0")
      case True
      have free: "phone_free (sub_matches phone_match ''***'' t)" using 1 Cons by simp
      have "run_length ascii_digit (c # sub_matches phone_match ''***'' t) < 10"
      proof (cases "ascii_digit c")
        case d: True
        then have "\<not> starts_with ''+'' s" using Cons by (auto simp: starts_with_def ascii_digit_def)
        then have lt: "run_length ascii_digit s < 10" using True by (auto simp: phone_match_def Let_def split: if_splits)
        then have "run_length ascii_digit t < 10" using d Cons by (simp add: run_length_Cons)
        then show ?thesis using digits_kept [of t] lt d Cons by (simp add: run_length_Cons)
      qed (simp add: run_length_Cons)
      then show ?thesis using free True Cons by simp
    next
      case False
      have "phone_free (sub_matches phone_match ''***'' (drop (phone_match s - 1) t))" using 1 Cons by simp
      then show ?thesis using False Cons by (simp add: Let_def run_length_Cons)
    qed
  qed simp
qed

lemma run_length_append: "run_length p xs \<le> run_length p (xs @ ys)"
  by (induction xs) (auto simp: run_length_Cons)

lemma phone_free_appendD: "phone_free (xs @ ys) \<Longrightarrow> phone_free xs"
proof (induction xs)
  case (Cons c xs)
  then show ?case using run_length_append [of ascii_digit "c # xs" ys] by simp
qed simp

lemma run_length_dots: "run_length ascii_digit (xs @ ''...'') = run_length ascii_digit xs"
  by (induction xs) (auto simp: run_length_Cons)

lemma phone_free_dots: "phone_free xs \<Longrightarrow> phone_free (xs @ ''...'')"
proof (induction xs)
  case (Cons c xs)
  then show ?case using run_length_dots [of "c # xs"] by simp
qed (simp add: run_length_Cons)

lemma phone_free_prefix: "(\<forall>c \<in> set xs. \<not> ascii_digit c) \<Longrightarrow> phone_free (xs @ ys) = phone_free ys"
  by (induction xs) (auto simp: run_length_Cons)

lemma exn_name_letters: "\<forall>c \<in> set (exn_name x). \<not> ascii_digit c"
  by (cases x) (auto simp: ascii_digit_def)

lemma safe_message_phone_free: "phone_free (safe_error_message x)"
proof -
  define m where "m = mask_message (exn_text x)"
  have m: "phone_free m" by (simp add: m_def mask_message_def masked_phone_free)
  have "phone_free (take MAX_MESSAGE_LENGTH m)" using phone_free_appendD [of "take MAX_MESSAGE_LENGTH m" "drop MAX_MESSAGE_LENGTH m"] m by simp
  then have short: "phone_free (if MAX_MESSAGE_LENGTH < length m then take MAX_MESSAGE_LENGTH m @ ''...'' else m)"
    using m phone_free_dots by simp
  have name: "\<forall>c \<in> set (exn_name x @ '': ''). \<not> ascii_digit c" using exn_name_letters by (auto simp: ascii_digit_def)
  have "phone_free (exn_name x)" using phone_free_prefix [of "exn_name x" "[]"] exn_name_letters by simp
  moreover have "phone_free (exn_name x @ '': '' @ t) = phone_free t" for t
    using phone_free_prefix [OF name, of t] by simp
  ultimately show ?thesis using short by (simp only: safe_error_message_def Let_def m_def [symmetric] split: if_split) simp
qed

end
