(* ===== verification/Loop.thy ===== *)
theory Loop
  imports Provider_Http
begin

text \<open>
  The Loop adapter: access tokens and signatures (custody/loop_auth.py), sending money
  (loop_payout.py) and collecting it (loop_collection.py). The HTTP transports, the nonce and uuid5
  are parameters; the adapter's state is its token cache beside the provider's world. Responses that
  lack their status are only logged, which is not modelled.
\<close>

section \<open>Tokens\<close>

record loop_auth =
  la_base_url :: string
  la_client_id :: string
  la_client_secret :: string
  la_token_url :: string
  la_variants :: "string list"
  la_refresh_skew :: time

definition loop_token_manager :: "string \<Rightarrow> string \<Rightarrow> string \<Rightarrow> string option \<Rightarrow> string list \<Rightarrow> int \<Rightarrow> loop_auth" where
  "loop_token_manager base client secret url variants skew = \<lparr>la_base_url = normal_base base, la_client_id = strip client,
     la_client_secret = strip secret, la_token_url = (case url of None \<Rightarrow> '''' | Some u \<Rightarrow> strip u), la_variants = variants,
     la_refresh_skew = seconds (max 0 skew)\<rparr>"

definition loop_token_variants :: "string list" where
  "loop_token_variants = [''/oauth/token'', ''/v1/oauth/token'', ''/api/oauth/token'']"

definition candidate_token_urls :: "loop_auth \<Rightarrow> string list" where
  "candidate_token_urls M = (if la_token_url M \<noteq> '''' then [absolute_url (la_base_url M) (la_token_url M)]
     else map (absolute_url (la_base_url M)) (la_variants M))"

definition nested_data :: "dict \<Rightarrow> dict option" where
  "nested_data body = (case dict_get ''data'' body of Some (JObj n) \<Rightarrow> Some n | _ \<Rightarrow> None)"

definition expires_raw :: "dict \<Rightarrow> string json option" where
  "expires_raw body = (case get_value ''expires_in'' body of Some v \<Rightarrow> Some v
     | None \<Rightarrow> (case get_value ''expiresIn'' body of Some v \<Rightarrow> Some v
     | None \<Rightarrow> (case nested_data body of None \<Rightarrow> None
     | Some n \<Rightarrow> (case get_value ''expires_in'' n of Some v \<Rightarrow> if truthy v then Some v else get_value ''expiresIn'' n
       | None \<Rightarrow> get_value ''expiresIn'' n))))"

definition extract_token_payload :: "dict \<Rightarrow> string \<times> int" where
  "extract_token_payload body = (let keys = [''access_token'', ''token'']; direct = any_text body keys '''';
       token = (if direct \<noteq> '''' then direct else case nested_data body of None \<Rightarrow> '''' | Some n \<Rightarrow> any_text n keys '''');
       expires = (case expires_raw body of None \<Rightarrow> 3600 | Some v \<Rightarrow> (case json_int v of None \<Rightarrow> 3600 | Some n \<Rightarrow> n)) in
     (token, max 1 expires))"

text \<open>The candidates are asked in turn; every failure is noted, the first token wins.\<close>

fun ask_tokens :: "'w http \<Rightarrow> loop_auth \<Rightarrow> string list \<Rightarrow> string list \<Rightarrow> 'w \<Rightarrow> (string list + (string \<times> int)) \<times> 'w" where
  "ask_tokens http M [] errs w = (Inl errs, w)"
| "ask_tokens http M (u # us) errs w = (case http ''POST'' u [(''Content-Type'', ''application/json''), (''Accept'', ''application/json'')]
         (Some [(''client_id'', JStr (la_client_id M)), (''client_secret'', JStr (la_client_secret M)), (''grant_type'', JStr ''client_credentials'')]) w of
       (Inl x, w') \<Rightarrow> ask_tokens http M us (errs @ [u @ '': '' @ exn_text x]) w'
     | (Inr r, w') \<Rightarrow> if ht_status_code r < 200 \<or> 300 \<le> ht_status_code r
         then ask_tokens http M us (errs @ [u @ '': HTTP '' @ int_str (ht_status_code r) @ '' '' @ take 180 (ht_text r)]) w'
       else let (token, n) = extract_token_payload (ht_body r) in
         if token = '''' then ask_tokens http M us (errs @ [u @ '': missing access token'']) w' else (Inr (token, n), w'))"

text \<open>The token is cached before its expiry is computed.\<close>

definition refresh_loop_token :: "'w http \<Rightarrow> loop_auth \<Rightarrow> time \<Rightarrow> token_cache \<times> 'w \<Rightarrow> (exn + string) \<times> token_cache \<times> 'w" where
  "refresh_loop_token http M now st = (let (c, w) = st in
     if la_base_url M = '''' then (Inl (LoopAuthError ''LOOP base URL is required for token refresh.''), c, w)
     else if la_client_id M = '''' \<or> la_client_secret M = ''''
       then (Inl (LoopAuthError ''LOOP client credentials are required for token refresh.''), c, w)
     else (case ask_tokens http M (candidate_token_urls M) [] w of
         (Inl errs, w') \<Rightarrow> (Inl (LoopAuthError (''Failed to obtain LOOP access token. '' @
             (if errs = [] then ''no token endpoint attempts'' else join_text '' | '' errs))), c, w')
       | (Inr (token, n), w') \<Rightarrow> (case add_seconds now (max 1 n) of
             Inl x \<Rightarrow> (Inl x, c\<lparr>tk_token := token\<rparr>, w')
           | Inr t \<Rightarrow> (Inr token, \<lparr>tk_token = token, tk_expires_at = Some t\<rparr>, w'))))"

definition loop_access_token :: "'w http \<Rightarrow> loop_auth \<Rightarrow> time \<Rightarrow> token_cache \<times> 'w \<Rightarrow> (exn + string) \<times> token_cache \<times> 'w" where
  "loop_access_token http M now = cached_token (refresh_loop_token http M now) (la_refresh_skew M) now"

definition build_loop_signature :: "env \<Rightarrow> string \<Rightarrow> string \<Rightarrow> string \<Rightarrow> string \<Rightarrow> string" where
  "build_loop_signature E secret timestamp nonce payload = e_hmac E secret (timestamp @ ''.'' @ nonce @ ''.'' @ payload)"

section \<open>Signed requests\<close>

record 'w loop_rail =
  lr_base_url :: string
  lr_shortcode :: string
  lr_passkey :: string
  lr_auth :: loop_auth
  lr_token_http :: "'w http"
  lr_http :: "'w http"
  lr_nonce :: "'w \<Rightarrow> string \<times> 'w"
  lr_uuid5 :: "string \<Rightarrow> string"

definition loop_send :: "env \<Rightarrow> 'w loop_rail \<Rightarrow> string \<Rightarrow> dict \<Rightarrow> token_cache \<times> 'w \<Rightarrow> (exn + http_reply) \<times> token_cache \<times> 'w" where
  "loop_send E L endpoint payload st = (case loop_access_token (lr_token_http L) (lr_auth L) (e_now E) st of
       (Inl x, st1) \<Rightarrow> (Inl x, st1)
     | (Inr token, (c, w)) \<Rightarrow> (let stamp = compact_time (e_now E); (nonce, w1) = lr_nonce L w;
         signature = build_loop_signature E (lr_passkey L) stamp nonce (json_dumps (JObj payload));
         (m, w2) = lr_http L ''POST'' (lr_base_url L @ ''/'' @ dropWhile (\<lambda>c. c = CHR ''/'') endpoint)
           [(''Authorization'', ''Bearer '' @ token), (''Content-Type'', ''application/json''), (''Accept'', ''application/json''),
            (''X-Loop-Timestamp'', stamp), (''X-Loop-Nonce'', nonce), (''X-Loop-Signature'', signature)] (Some payload) w1 in
       (m, c, w2)))"

section \<open>Reading responses\<close>

definition LOOP_COLLECTION_SUCCESS :: "string list" where
  "LOOP_COLLECTION_SUCCESS = [''0'', ''00'', ''success'', ''accepted'', ''200'']"

definition LOOP_PAYOUT_SUCCESS :: "string list" where
  "LOOP_PAYOUT_SUCCESS = LOOP_COLLECTION_SUCCESS @ [''202'']"

definition LOOP_FAILED :: "string list" where
  "LOOP_FAILED = [''1'', ''2'', ''3'', ''4'', ''failed'', ''failure'', ''declined'', ''error'', ''400'', ''401'', ''402'', ''403'', ''404'', ''500'']"

definition LOOP_DUPLICATE :: "string list" where
  "LOOP_DUPLICATE = [''208'', ''409'', ''duplicate'', ''already_exists'', ''already_processed'']"

definition LOOP_SUCCESS_STATES :: "string list" where
  "LOOP_SUCCESS_STATES = [''completed'', ''settled'', ''success'', ''successful'', ''paid'']"

definition LOOP_FAILED_STATES :: "string list" where
  "LOOP_FAILED_STATES = [''failed'', ''declined'', ''cancelled'', ''canceled'', ''reversed'']"

definition loop_status_code :: "dict \<Rightarrow> string" where
  "loop_status_code body = py_lower (any_text body [''statusCode''] '''')"

definition loop_final_state :: "dict \<Rightarrow> string" where
  "loop_final_state body = py_lower (any_text body [''finalState'', ''final_state''] '''')"

definition loop_message :: "dict \<Rightarrow> string option" where
  "loop_message body = none_if_empty (any_text body [''message'', ''statusDescription''] '''')"

definition loop_final_outcome :: "string list \<Rightarrow> string \<Rightarrow> rail_outcome" where
  "loop_final_outcome successes state = (if state \<in> set successes then R_SUCCEEDED
     else if state \<in> set LOOP_FAILED_STATES then R_FAILED_DEFINITE else R_UNKNOWN)"

definition parse_send_money :: "dict \<Rightarrow> string \<Rightarrow> payout_result" where
  "parse_send_money body fallback = (let code = loop_status_code body;
       ref = any_text body [''transactionReference'', ''providerReference'', ''requestId''] fallback;
       message = loop_message body;
       result = (\<lambda>out raw msg. \<lparr>px_outcome = out, px_provider_reference = ref, px_raw_status = Some raw, px_message = msg\<rparr>) in
     if code = '''' then result R_UNKNOWN ''malformed_response'' (Some ''Loop send-money response missing statusCode.'')
     else if code \<in> set LOOP_PAYOUT_SUCCESS then result R_SUCCEEDED code message
     else if code \<in> set LOOP_DUPLICATE
       then result R_SUCCEEDED ''duplicate'' (Some (or_text [message] ''Loop provider reported duplicate payout request.''))
     else if code \<in> set LOOP_FAILED then result R_FAILED_DEFINITE code message
     else result R_UNKNOWN code message)"

definition parse_payout_inquiry :: "dict \<Rightarrow> string \<Rightarrow> payout_result" where
  "parse_payout_inquiry body fallback = (let state = loop_final_state body; code = loop_status_code body;
       ref = any_text body [''transactionReference'', ''providerReference''] fallback in
     if state = '''' then \<lparr>px_outcome = R_UNKNOWN, px_provider_reference = ref,
         px_raw_status = Some (if code = '''' then ''malformed_response'' else code),
         px_message = Some ''Loop payout inquiry response missing finalState.''\<rparr>
     else \<lparr>px_outcome = loop_final_outcome (LOOP_SUCCESS_STATES @ [''duplicate_confirmed'']) state, px_provider_reference = ref,
         px_raw_status = Some (if code = '''' then state else code), px_message = loop_message body\<rparr>)"

definition parse_prompt :: "dict \<Rightarrow> string \<Rightarrow> collection_result" where
  "parse_prompt body fallback = (let code = loop_status_code body;
       ref = any_text body [''transactionReference'', ''providerReference'', ''requestId''] (''loop-collect-'' @ fallback) in
     if code = '''' then \<lparr>cx_outcome = R_UNKNOWN, cx_provider_reference = ref, cx_raw_status = Some ''malformed_response'',
         cx_message = Some ''Loop prompt response missing statusCode.'', cx_metadata = None\<rparr>
     else \<lparr>cx_outcome = (if code \<in> set LOOP_COLLECTION_SUCCESS then R_SUCCEEDED else if code \<in> set LOOP_FAILED then R_FAILED_DEFINITE else R_UNKNOWN),
         cx_provider_reference = ref, cx_raw_status = Some code, cx_message = loop_message body, cx_metadata = None\<rparr>)"

definition parse_collection_inquiry :: "dict \<Rightarrow> string \<Rightarrow> collection_result" where
  "parse_collection_inquiry body fallback = (let state = loop_final_state body; code = loop_status_code body;
       ref = any_text body [''transactionReference'', ''providerReference''] fallback in
     if state = '''' then \<lparr>cx_outcome = R_UNKNOWN, cx_provider_reference = ref,
         cx_raw_status = Some (if code = '''' then ''malformed_response'' else code),
         cx_message = Some ''Loop inquiry response missing finalState.'', cx_metadata = None\<rparr>
     else \<lparr>cx_outcome = loop_final_outcome LOOP_SUCCESS_STATES state, cx_provider_reference = ref,
         cx_raw_status = Some (if code = '''' then state else code), cx_message = loop_message body, cx_metadata = None\<rparr>)"

section \<open>The rails\<close>

definition answered :: "(http_reply \<Rightarrow> 'r) \<Rightarrow> (exn + http_reply) \<times> 'w \<Rightarrow> (exn + 'r) \<times> 'w" where
  "answered parse x = (case fst x of Inl e \<Rightarrow> Inl e | Inr r \<Rightarrow> Inr (parse r), snd x)"

definition loop_payout_reference :: "'w loop_rail \<Rightarrow> payout_request \<Rightarrow> string" where
  "loop_payout_reference L q = ''loop-payout-'' @ take 20 (lr_uuid5 L (pq_escrow_reference q @ ''|'' @ pq_purpose q @ ''|'' @
     pq_destination_phone q @ ''|'' @ cents_str (pq_amount q) @ ''|'' @ pq_currency q))"

definition loop_request_payout :: "env \<Rightarrow> 'w loop_rail \<Rightarrow> payout_request \<Rightarrow> token_cache \<times> 'w \<Rightarrow> (exn + payout_result) \<times> token_cache \<times> 'w" where
  "loop_request_payout E L q st = (let ref = loop_payout_reference L q in
     answered (\<lambda>r. parse_send_money (ht_body r) ref) (loop_send E L ''/payout/send-money''
       [(''shortcode'', JStr (lr_shortcode L)), (''phoneNumber'', JStr (pq_destination_phone q)), (''amount'', JStr (cents_str (pq_amount q))),
        (''currency'', JStr (pq_currency q)), (''transactionReference'', JStr ref), (''accountReference'', JStr (pq_escrow_reference q)),
        (''purpose'', JStr (pq_purpose q))] st))"

definition loop_get_payout_status :: "env \<Rightarrow> 'w loop_rail \<Rightarrow> string \<Rightarrow> token_cache \<times> 'w \<Rightarrow> (exn + payout_result) \<times> token_cache \<times> 'w" where
  "loop_get_payout_status E L ref st = answered (\<lambda>r. parse_payout_inquiry (ht_body r) ref) (loop_send E L ''/payout/inquiry''
     [(''shortcode'', JStr (lr_shortcode L)), (''transactionReference'', JStr ref)] st)"

definition loop_request_funding :: "env \<Rightarrow> 'w loop_rail \<Rightarrow> funding_request \<Rightarrow> token_cache \<times> 'w \<Rightarrow> (exn + collection_result) \<times> token_cache \<times> 'w" where
  "loop_request_funding E L q st = answered (\<lambda>r. parse_prompt (ht_body r) (fq_escrow_reference q)) (loop_send E L ''/collection/prompt''
     [(''shortcode'', JStr (lr_shortcode L)), (''phoneNumber'', JStr (fq_phone_number q)), (''amount'', JStr (cents_str (fq_amount q))),
      (''currency'', JStr (fq_currency q)), (''accountReference'', JStr (fq_account_reference q)), (''escrowReference'', JStr (fq_escrow_reference q))] st)"

definition loop_get_funding_status :: "env \<Rightarrow> 'w loop_rail \<Rightarrow> string \<Rightarrow> token_cache \<times> 'w \<Rightarrow> (exn + collection_result) \<times> token_cache \<times> 'w" where
  "loop_get_funding_status E L ref st = answered (\<lambda>r. parse_collection_inquiry (ht_body r) ref) (loop_send E L ''/collection/inquiry''
     [(''shortcode'', JStr (lr_shortcode L)), (''transactionReference'', JStr ref)] st)"

section \<open>Lemmas\<close>

text \<open>Without credentials every inquiry raises \<open>LoopAuthError\<close>: the interface \<open>payout_rail\<close> does not hold of this rail.\<close>

lemma no_credentials:
  assumes "la_base_url (lr_auth L) \<noteq> ''''" and "la_client_id (lr_auth L) = ''''" and "tk_token c = ''''"
  shows "loop_get_payout_status E L ref (c, w) = (Inl (LoopAuthError ''LOOP client credentials are required for token refresh.''), c, w)"
  using assms by (simp add: loop_get_payout_status_def loop_send_def loop_access_token_def cached_token_def refresh_loop_token_def answered_def)

text \<open>A request that is repeated carries the reference it had, so the provider can recognise it.\<close>

lemma repeated_reference: "loop_payout_reference L (q\<lparr>pq_notes := n, pq_confirmation_code := c\<rparr>) = loop_payout_reference L q"
  by (simp add: loop_payout_reference_def)

text \<open>Of the status codes only the listed ones are final, and no code is read as both.\<close>

lemma send_money_outcome:
  "px_outcome (parse_send_money body fb) = R_SUCCEEDED \<longleftrightarrow> loop_status_code body \<in> set (LOOP_PAYOUT_SUCCESS @ LOOP_DUPLICATE)"
  "px_outcome (parse_send_money body fb) = R_FAILED_DEFINITE \<longleftrightarrow> loop_status_code body \<in> set LOOP_FAILED"
  by (auto simp: parse_send_money_def Let_def LOOP_PAYOUT_SUCCESS_def LOOP_COLLECTION_SUCCESS_def LOOP_DUPLICATE_def LOOP_FAILED_def)

text \<open>The number 0 is not read as the status code 0: \<open>0 or ""\<close> is the empty text.\<close>

lemma numeric_zero_is_missing:
  assumes "dict_get ''statusCode'' body = Some (JInt 0)"
  shows "px_outcome (parse_send_money body fb) = R_UNKNOWN" and "cx_outcome (parse_prompt body fb) = R_UNKNOWN"
proof -
  have "loop_status_code body = ''''"
    using assms by (simp add: loop_status_code_def any_text_def found_def List.map_filter_def strip_def lstrip_def py_lower_def)
  then show "px_outcome (parse_send_money body fb) = R_UNKNOWN" "cx_outcome (parse_prompt body fb) = R_UNKNOWN"
    by (simp_all add: parse_send_money_def parse_prompt_def Let_def)
qed

text \<open>A token obtained at some time serves every later call until it is about to expire.\<close>

lemma token_serves_until_expiry:
  assumes "loop_access_token http M now (c, w) = (Inr token, c1, w1)" and "tk_expires_at c1 = Some t" and "now' + la_refresh_skew M < t"
    and "token \<noteq> ''''"
  shows "loop_access_token http M now' (c1, w2) = (Inr token, c1, w2)"
proof -
  have "tk_token c1 = token"
    using assms(1) by (auto simp: loop_access_token_def cached_token_def refresh_loop_token_def Let_def
        split: if_splits sum.splits prod.splits)
  then show ?thesis unfolding loop_access_token_def using fresh_token_reused [of c1 t now' "la_refresh_skew M"] assms by simp
qed

end
