(* ===== verification/Webhooks.thy ===== *)
theory Webhooks
  imports Redaction Loop Orders
begin

text \<open>
  The callbacks of Loop (custody/loop_webhook.py) and Pesapal (pesapal_webhook.py). A callback is only a
  hint: it is recorded once per key, and funding is confirmed by asking the provider. The inquiry is the
  registry's rail, with a world of its own; SHA-256 and the parsing of a time text are parameters.
\<close>

section \<open>Reading a callback\<close>

record 'w webhook =
  wh_inquiry :: "string \<Rightarrow> 'w \<Rightarrow> (exn + collection_result) \<times> 'w"
  wh_sha256 :: "string \<Rightarrow> string"
  wh_parse_time :: "string \<Rightarrow> time option"

definition extract_text :: "dict \<Rightarrow> string list \<Rightarrow> string option" where
  "extract_text body ks = (case first_string body ks of Some t \<Rightarrow> Some t | None \<Rightarrow> nested_string body NESTED_PAYLOAD_KEYS ks)"

definition LOOP_REFERENCE_KEYS :: "string list" where
  "LOOP_REFERENCE_KEYS = [''transactionReference'', ''transaction_reference'', ''providerReference'', ''provider_reference'', ''txnRef'', ''txn_reference'']"

definition LOOP_EVENT_ID_KEYS :: "string list" where
  "LOOP_EVENT_ID_KEYS = [''eventId'', ''event_id'', ''callbackId'', ''callback_id'', ''requestId'', ''request_id'']"

definition LOOP_EVENT_TYPE_KEYS :: "string list" where
  "LOOP_EVENT_TYPE_KEYS = [''eventType'', ''event_type'', ''type'']"

definition PESAPAL_REFERENCE_KEYS :: "string list" where
  "PESAPAL_REFERENCE_KEYS = [''OrderTrackingId'', ''orderTrackingId'', ''order_tracking_id'', ''tracking_id'']"

definition PESAPAL_EVENT_ID_KEYS :: "string list" where
  "PESAPAL_EVENT_ID_KEYS = [''OrderNotificationType'', ''orderNotificationType'', ''order_notification_type'', ''notification_type'']"

definition loop_event_type :: "dict \<Rightarrow> string" where
  "loop_event_type body = (case extract_text body LOOP_EVENT_TYPE_KEYS of Some t \<Rightarrow> t | None \<Rightarrow> ''collection.callback'')"

definition build_dedupe_key :: "(string \<Rightarrow> string) \<Rightarrow> string option \<Rightarrow> string option \<Rightarrow> string \<Rightarrow> string" where
  "build_dedupe_key sha256 ref event_id raw = take 120 (case ref of Some r \<Rightarrow> ''collection:'' @ r
     | None \<Rightarrow> (case event_id of Some e \<Rightarrow> ''event:'' @ e | None \<Rightarrow> ''body:'' @ sha256 raw))"

definition to_collection_outcome :: "string json option \<Rightarrow> rail_outcome option" where
  "to_collection_outcome v = (case v of Some (JStr t) \<Rightarrow>
       if t = ''SUCCEEDED'' then Some R_SUCCEEDED else if t = ''FAILED_DEFINITE'' then Some R_FAILED_DEFINITE
       else if t = ''UNKNOWN'' then Some R_UNKNOWN else None
     | _ \<Rightarrow> None)"

section \<open>Recorded events\<close>

definition find_event :: "string \<Rightarrow> string \<Rightarrow> db \<Rightarrow> provider_event option" where
  "find_event provider key s = find (\<lambda>e. pe_provider_name e = provider \<and> pe_dedupe_key e = key) (d_events s)"

definition insert_event :: "env \<Rightarrow> provider_event \<Rightarrow> db \<Rightarrow> exn + db" where
  "insert_event E e s = (if 80 < length (pe_event_type e) \<or> (case pe_external_event_id e of None \<Rightarrow> False | Some x \<Rightarrow> 120 < length x)
     then Inl (DataError ''value too long for type character varying'')
     else if find_event (pe_provider_name e) (pe_dedupe_key e) s \<noteq> None then Inl (IntegrityError ''ux_provider_events_provider_dedupe_key'')
     else Inr (s\<lparr>d_events := d_events s @ [e\<lparr>pe_id := e_uuid E (d_draws s)\<rparr>], d_draws := Suc (d_draws s)\<rparr>))"

definition new_event :: "string \<Rightarrow> string \<Rightarrow> string \<Rightarrow> string option \<Rightarrow> dict \<Rightarrow> dict \<Rightarrow> time \<Rightarrow> time \<Rightarrow> provider_event" where
  "new_event provider event_type key event_id request body received created = \<lparr>pe_id = 0, pe_provider_name = provider, pe_rail_name = Some provider,
     pe_event_type = event_type, pe_dedupe_key = key, pe_external_event_id = event_id, pe_request_snapshot = request, pe_response_snapshot = [],
     pe_payload = body, pe_received_at = received, pe_processed_at = None, pe_created_at = created\<rparr>"

definition processed :: "time \<Rightarrow> dict \<Rightarrow> provider_event \<Rightarrow> provider_event" where
  "processed now response e = e\<lparr>pe_response_snapshot := response, pe_processed_at := Some now\<rparr>"

definition inquiry_snapshot :: "collection_result \<Rightarrow> dict" where
  "inquiry_snapshot r = [(''state'', JStr ''inquiry_confirmed''), (''inquiry'', JObj (collection_result_payload r)),
     (''inquiry_outcome'', JStr (rail_outcome_value (cx_outcome r))), (''funding_confirmed'', JBool (cx_outcome r = R_SUCCEEDED))]"

definition audit_funding :: "env \<Rightarrow> string \<Rightarrow> string \<Rightarrow> string \<Rightarrow> string \<Rightarrow> time \<Rightarrow> db \<Rightarrow> exn + db" where
  "audit_funding E provider reason ref key now s = record_money_audit_event E
     ((new_audit E ''funding_confirmed'' ACTOR_PROVIDER)\<lparr>ma_reason := Some reason, ma_provider_reference := Some ref,
        ma_rail_name := Some provider, ma_details := [(''dedupe_key'', JStr key)], ma_occurred_at := now\<rparr>) s"

section \<open>The common part of both handlers\<close>

record webhook_result =
  wr_accepted :: bool
  wr_duplicate :: bool
  wr_dedupe_key :: string
  wr_provider_reference :: "string option"
  wr_inquiry_outcome :: "rail_outcome option"
  wr_detail :: string

definition duplicate_result :: "string \<Rightarrow> string option \<Rightarrow> provider_event \<Rightarrow> string \<Rightarrow> webhook_result" where
  "duplicate_result key ref existing detail = \<lparr>wr_accepted = True, wr_duplicate = True, wr_dedupe_key = key, wr_provider_reference = ref,
     wr_inquiry_outcome = to_collection_outcome (dict_get ''inquiry_outcome'' (pe_response_snapshot existing)), wr_detail = detail\<rparr>"

definition recorded_result :: "string \<Rightarrow> string option \<Rightarrow> rail_outcome option \<Rightarrow> string \<Rightarrow> webhook_result" where
  "recorded_result key ref out detail = \<lparr>wr_accepted = True, wr_duplicate = False, wr_dedupe_key = key, wr_provider_reference = ref,
     wr_inquiry_outcome = out, wr_detail = detail\<rparr>"

text \<open>
  A new callback: asked about when it has a reference, then stored with the answer. \<open>caught\<close> says which
  exceptions of the inquiry the handler catches; any other leaves the handler, and nothing is stored.
\<close>

record webhook_texts =
  wt_provider :: string
  wt_no_reference :: string
  wt_inquiry_failed :: string
  wt_confirmed :: string
  wt_reason :: string

definition store_callback ::
    "env \<Rightarrow> webhook_texts \<Rightarrow> 'w webhook \<Rightarrow> (exn \<Rightarrow> bool) \<Rightarrow> time \<Rightarrow> string option \<Rightarrow> provider_event \<Rightarrow> db \<Rightarrow> 'w \<Rightarrow> (exn + (webhook_result \<times> db)) \<times> 'w" where
  "store_callback E T W caught now ref e s w = (let key = pe_dedupe_key e in case ref of
       None \<Rightarrow> (bindE (insert_event E (processed now [(''state'', JStr ''ignored_missing_provider_reference'')] e) s)
           (\<lambda>s'. Inr (recorded_result key None None (wt_no_reference T), s')), w)
     | Some r \<Rightarrow> (case wh_inquiry W r w of
         (Inl x, w') \<Rightarrow> (if \<not> caught x then Inl x
           else bindE (insert_event E (processed now [(''state'', JStr ''inquiry_failed''), (''message'', JStr (safe_error_message x))] e) s)
             (\<lambda>s'. Inr (recorded_result key (Some r) None (wt_inquiry_failed T), s')), w')
       | (Inr a, w') \<Rightarrow> (bindE (insert_event E (processed now (inquiry_snapshot a) e) s) (\<lambda>s1.
           bindE (if cx_outcome a = R_SUCCEEDED then audit_funding E (wt_provider T) (wt_reason T) r key now s1 else Inr s1) (\<lambda>s2.
           Inr (recorded_result key (Some r) (Some (cx_outcome a)) (wt_confirmed T), s2))), w')))"

section \<open>Loop\<close>

datatype signature_status = SIGNATURE_VALID | SIGNATURE_MISSING | SIGNATURE_MISMATCH | SIGNATURE_BAD_TIMESTAMP | SIGNATURE_STALE

fun signature_status_value :: "signature_status \<Rightarrow> string" where
  "signature_status_value SIGNATURE_VALID = ''valid''"
| "signature_status_value SIGNATURE_MISSING = ''missing_signature_headers''"
| "signature_status_value SIGNATURE_MISMATCH = ''signature_mismatch''"
| "signature_status_value SIGNATURE_BAD_TIMESTAMP = ''invalid_timestamp''"
| "signature_status_value SIGNATURE_STALE = ''stale_timestamp''"

fun header_value :: "(string \<times> string) list \<Rightarrow> string \<Rightarrow> string" where
  "header_value [] name = ''''"
| "header_value ((k, v) # hs) name = (if py_lower k = py_lower name then strip v else header_value hs name)"

text \<open>\<open>hmac.compare_digest\<close> of two texts raises \<open>TypeError\<close> when one has a character outside ASCII.\<close>

definition compare_digest :: "string \<Rightarrow> string \<Rightarrow> exn + bool" where
  "compare_digest a b = (if list_ex (\<lambda>c. 128 \<le> (of_char c :: nat)) (a @ b)
     then Inl (TypeError ''comparing strings with non-ASCII characters is not supported'') else Inr (a = b))"

definition verify_callback_signature ::
    "env \<Rightarrow> 'w webhook \<Rightarrow> (string \<times> string) list \<Rightarrow> string \<Rightarrow> string \<Rightarrow> time \<Rightarrow> int \<Rightarrow> exn + signature_status" where
  "verify_callback_signature E W hs raw secret now skew = (let stamp = header_value hs ''x-loop-timestamp''; nonce = header_value hs ''x-loop-nonce'';
       signature = header_value hs ''x-loop-signature''; key = strip secret in
     if key = '''' \<or> stamp = '''' \<or> nonce = '''' \<or> signature = '''' then Inr SIGNATURE_MISSING
     else bindE (compare_digest signature (build_loop_signature E key stamp nonce raw)) (\<lambda>equal.
       if \<not> equal then Inr SIGNATURE_MISMATCH
       else (case wh_parse_time W stamp of None \<Rightarrow> Inr SIGNATURE_BAD_TIMESTAMP
         | Some t \<Rightarrow> if seconds (max 1 skew) < \<bar>now - t\<bar> then Inr SIGNATURE_STALE else Inr SIGNATURE_VALID)))"

definition SENSITIVE_HEADER_KEYS :: "string list" where
  "SENSITIVE_HEADER_KEYS = [''authorization'', ''x-loop-signature'', ''x-loop-nonce'']"

fun redact_headers :: "(string \<times> string) list \<Rightarrow> dict \<Rightarrow> dict" where
  "redact_headers [] acc = acc"
| "redact_headers ((k, v) # hs) acc = (let key = strip (py_lower k) in redact_headers hs (
     if key \<in> set SENSITIVE_HEADER_KEYS then dict_set key (JStr ''***'') acc
     else if starts_with ''x-loop-'' key \<or> key \<in> {''content-type'', ''user-agent'', ''x-request-id''} then dict_set key (JStr v) acc
     else acc))"

definition loop_texts :: webhook_texts where
  "loop_texts = \<lparr>wt_provider = ''loop'', wt_no_reference = ''Callback payload did not include a provider reference.'',
     wt_inquiry_failed = ''Callback recorded but inquiry confirmation failed.'', wt_confirmed = ''Callback confirmed via LOOP inquiry.'',
     wt_reason = ''LOOP callback confirmed via server-side inquiry.''\<rparr>"

record loop_webhook_result = webhook_result +
  wr_signature_valid :: bool
  wr_rejection_reason :: "string option"

definition as_valid :: "webhook_result \<Rightarrow> loop_webhook_result" where
  "as_valid r = webhook_result.extend r \<lparr>wr_signature_valid = True, wr_rejection_reason = None\<rparr>"

definition request_snapshot ::
    "'w webhook \<Rightarrow> (string \<times> string) list \<Rightarrow> signature_status \<Rightarrow> string option \<Rightarrow> dict" where
  "request_snapshot W hs st ref = [(''signature_valid'', JBool (st = SIGNATURE_VALID))] @
     (if st = SIGNATURE_VALID then [] else [(''rejection_reason'', JStr (signature_status_value st))]) @
     [(''signature_fingerprint'', jopt (signature_fingerprint (wh_sha256 W) (header_value hs ''x-loop-signature''))),
      (''headers'', JObj (redact_headers hs [])), (''provider_reference'', jopt ref)]"

definition reject_unauthenticated_callback ::
    "env \<Rightarrow> 'w webhook \<Rightarrow> dict \<Rightarrow> string \<Rightarrow> (string \<times> string) list \<Rightarrow> signature_status \<Rightarrow> time \<Rightarrow> db \<Rightarrow> exn + (loop_webhook_result \<times> db)" where
  "reject_unauthenticated_callback E W body raw hs st now s = (let ref = extract_text body LOOP_REFERENCE_KEYS;
       key = take 120 (''rejected:'' @ wh_sha256 W (header_value hs ''x-loop-signature'' @ ''|'' @ raw));
       existing = find_event ''loop'' key s;
       result = \<lparr>wr_accepted = False, wr_duplicate = (existing \<noteq> None), wr_dedupe_key = key, wr_provider_reference = ref, wr_inquiry_outcome = None,
         wr_detail = ''Callback signature verification failed; callback was rejected.'', wr_signature_valid = False,
         wr_rejection_reason = Some (signature_status_value st)\<rparr> in
     if existing \<noteq> None then Inr (result, s)
     else bindE (insert_event E (processed now [(''state'', JStr ''rejected_invalid_signature'')]
         (new_event ''loop'' (loop_event_type body) key (extract_text body LOOP_EVENT_ID_KEYS) (request_snapshot W hs st ref)
           (redact_fields LOOP_SENSITIVE_KEYS body) now (e_now E))) s) (\<lambda>s'. Inr (result, s')))"

definition process_loop_collection_webhook ::
    "env \<Rightarrow> 'w webhook \<Rightarrow> dict \<Rightarrow> string \<Rightarrow> (string \<times> string) list \<Rightarrow> string \<Rightarrow> time option \<Rightarrow> int \<Rightarrow> db \<Rightarrow> 'w \<Rightarrow> (db \<times> (exn + loop_webhook_result)) \<times> 'w" where
  "process_loop_collection_webhook E W body raw hs secret now_arg skew s w = (let now = (case now_arg of None \<Rightarrow> e_now E | Some n \<Rightarrow> n);
       ref = extract_text body LOOP_REFERENCE_KEYS; event_id = extract_text body LOOP_EVENT_ID_KEYS in
     case verify_callback_signature E W hs raw secret now skew of
       Inl x \<Rightarrow> ((s, Inl x), w)
     | Inr st \<Rightarrow> if st \<noteq> SIGNATURE_VALID then (atomic s (reject_unauthenticated_callback E W body raw hs st now s), w)
       else let key = build_dedupe_key (wh_sha256 W) ref event_id raw in (case find_event ''loop'' key s of
           Some existing \<Rightarrow> ((s, Inr (as_valid (duplicate_result key ref existing ''Duplicate LOOP callback ignored.''))), w)
         | None \<Rightarrow> (let (m, w') = store_callback E loop_texts W (\<lambda>_. True) now ref (new_event ''loop'' (loop_event_type body) key event_id
               (request_snapshot W hs st ref) (redact_fields LOOP_SENSITIVE_KEYS body) now (e_now E)) s w in
             (atomic s (bindE m (\<lambda>(r, s'). Inr (as_valid r, s'))), w'))))"

section \<open>Pesapal\<close>

definition pesapal_texts :: webhook_texts where
  "pesapal_texts = \<lparr>wt_provider = ''pesapal'', wt_no_reference = ''Callback payload did not include OrderTrackingId.'',
     wt_inquiry_failed = ''Callback recorded but status inquiry failed.'', wt_confirmed = ''Callback confirmed via Pesapal status inquiry.'',
     wt_reason = ''Pesapal callback confirmed via server-side status inquiry.''\<rparr>"

text \<open>\<open>except (PesapalAuthError, RuntimeError, ValueError, TypeError, LookupError)\<close>\<close>

fun pesapal_caught :: "exn \<Rightarrow> bool" where
  "pesapal_caught (PesapalAuthError _) = True"
| "pesapal_caught (RuntimeError _) = True"
| "pesapal_caught (EconfirmDefiniteError _) = True"
| "pesapal_caught (EconfirmUnknownError _) = True"
| "pesapal_caught (ValueError _) = True"
| "pesapal_caught (CanonicalEncodingError _) = True"
| "pesapal_caught (TypeError _) = True"
| "pesapal_caught (KeyError _) = True"
| "pesapal_caught (IndexError _) = True"
| "pesapal_caught _ = False"

definition process_pesapal_collection_webhook ::
    "env \<Rightarrow> 'w webhook \<Rightarrow> dict \<Rightarrow> string \<Rightarrow> db \<Rightarrow> 'w \<Rightarrow> (db \<times> (exn + webhook_result)) \<times> 'w" where
  "process_pesapal_collection_webhook E W body raw s w = (let now = e_now E; ref = extract_text body PESAPAL_REFERENCE_KEYS;
       event_id = extract_text body PESAPAL_EVENT_ID_KEYS; key = build_dedupe_key (wh_sha256 W) ref event_id raw in
     case find_event ''pesapal'' key s of
       Some existing \<Rightarrow> ((s, Inr (duplicate_result key ref existing ''Duplicate Pesapal callback ignored.'')), w)
     | None \<Rightarrow> (let (m, w') = store_callback E pesapal_texts W pesapal_caught now ref (new_event ''pesapal'' ''collection.callback'' key event_id
           [(''provider_reference'', jopt ref)] (redact_fields PESAPAL_SENSITIVE_KEYS body) now now) s w in
         (atomic s m, w')))"

section \<open>What a callback stores\<close>

text \<open>\<open>recorded e s s'\<close>: the event \<open>e\<close> was added and otherwise only the logs may differ.\<close>

definition recorded :: "provider_event \<Rightarrow> db \<Rightarrow> db \<Rightarrow> bool" where
  "recorded e s s' = (d_events s' = d_events s @ [e] \<and> logs_only (s\<lparr>d_events := d_events s'\<rparr>) s')"

lemma insert_event_recorded:
  assumes "insert_event E e s = Inr s'"
  shows "recorded (e\<lparr>pe_id := e_uuid E (d_draws s)\<rparr>) s s' \<and> find_event (pe_provider_name e) (pe_dedupe_key e) s = None \<and>
    d_audits s' = d_audits s \<and> d_anchors s' = d_anchors s"
  using assms by (auto simp: insert_event_def recorded_def logs_only_def split: if_splits)

lemma recorded_logs:
  assumes "recorded e s s1" and "logs_only s1 s2"
  shows "recorded e s s2"
proof -
  have "d_events s2 = d_events s1" using assms(2) by (cases s1; cases s2; simp add: logs_only_def)
  then show ?thesis using assms by (auto simp: recorded_def intro: logs_only_trans)
qed

lemma find_snoc: "find P (xs @ [x]) = (case find P xs of None \<Rightarrow> if P x then Some x else None | Some y \<Rightarrow> Some y)"
  by (induction xs) auto

lemma recorded_found:
  assumes "recorded e s s'" and "find_event (pe_provider_name e) (pe_dedupe_key e) s = None"
  shows "find_event (pe_provider_name e) (pe_dedupe_key e) s' = Some e"
  using assms by (simp add: recorded_def find_event_def find_snoc)

lemma recorded_other:
  assumes "recorded e s s'" and "p \<noteq> pe_provider_name e \<or> k \<noteq> pe_dedupe_key e"
  shows "find_event p k s' = find_event p k s"
  using assms by (auto simp: recorded_def find_event_def find_snoc split: option.splits)

lemma outcome_read_back: "to_collection_outcome (Some (JStr (rail_outcome_value o'))) = Some o'"
  by (cases o') (simp_all add: to_collection_outcome_def)

lemma event_fields [simp]:
  "pe_dedupe_key (processed now resp e) = pe_dedupe_key e" "pe_provider_name (processed now resp e) = pe_provider_name e"
  "pe_response_snapshot (processed now resp e) = resp" "pe_payload (processed now resp e) = pe_payload e"
  "pe_dedupe_key (new_event p t k i q b r c) = k" "pe_provider_name (new_event p t k i q b r c) = p" "pe_payload (new_event p t k i q b r c) = b"
  by (simp_all add: processed_def new_event_def)

text \<open>A stored callback is one event; audits are written only when the inquiry reported success.\<close>

lemma store_callback_recorded:
  assumes "store_callback E T W caught now ref e s w = (Inr (r, s'), w')"
  shows "\<exists>e'. recorded e' s s' \<and> pe_provider_name e' = pe_provider_name e \<and> pe_dedupe_key e' = pe_dedupe_key e \<and> pe_payload e' = pe_payload e \<and>
    find_event (pe_provider_name e) (pe_dedupe_key e) s = None \<and>
    to_collection_outcome (dict_get ''inquiry_outcome'' (pe_response_snapshot e')) = wr_inquiry_outcome r \<and>
    wr_provider_reference r = ref \<and> \<not> wr_duplicate r \<and>
    (d_audits s' \<noteq> d_audits s \<longrightarrow> (\<exists>i a. ref = Some i \<and> wh_inquiry W i w = (Inr a, w') \<and> cx_outcome a = R_SUCCEEDED))"
proof -
  have plain: "\<exists>e'. recorded e' s s1 \<and> pe_provider_name e' = pe_provider_name e \<and> pe_dedupe_key e' = pe_dedupe_key e \<and> pe_payload e' = pe_payload e \<and>
      find_event (pe_provider_name e) (pe_dedupe_key e) s = None \<and> pe_response_snapshot e' = resp \<and> d_audits s1 = d_audits s"
    if "insert_event E (processed now resp e) s = Inr s1" for resp s1
    using insert_event_recorded [OF that] by (intro exI [of _ "processed now resp e\<lparr>pe_id := e_uuid E (d_draws s)\<rparr>"]) simp
  show ?thesis
  proof (cases ref)
    case None
    then have m: "insert_event E (processed now [(''state'', JStr ''ignored_missing_provider_reference'')] e) s = Inr s'"
      "r = recorded_result (pe_dedupe_key e) None None (wt_no_reference T)"
      using assms by (auto simp: store_callback_def Let_def bindE_eq_Inr)
    show ?thesis using plain [OF m(1)] m(2) None by (auto simp: recorded_result_def dict_get_def to_collection_outcome_def)
  next
    case (Some i)
    obtain m w1 where q: "wh_inquiry W i w = (m, w1)" by force
    show ?thesis
    proof (cases m)
      case (Inl x)
      then have m: "insert_event E (processed now [(''state'', JStr ''inquiry_failed''), (''message'', JStr (safe_error_message x))] e) s = Inr s'"
        "r = recorded_result (pe_dedupe_key e) (Some i) None (wt_inquiry_failed T)"
        using assms Some q by (auto simp: store_callback_def Let_def bindE_eq_Inr split: if_splits)
      show ?thesis using plain [OF m(1)] m(2) Some by (auto simp: recorded_result_def dict_get_def to_collection_outcome_def)
    next
      case (Inr a)
      then obtain s1 where m: "insert_event E (processed now (inquiry_snapshot a) e) s = Inr s1"
        "(if cx_outcome a = R_SUCCEEDED then audit_funding E (wt_provider T) (wt_reason T) i (pe_dedupe_key e) now s1 else Inr s1) = Inr s'"
        "r = recorded_result (pe_dedupe_key e) (Some i) (Some (cx_outcome a)) (wt_confirmed T)" and w: "w' = w1"
        using assms Some q by (auto simp: store_callback_def Let_def bindE_eq_Inr)
      have logs: "logs_only s1 s'" and same: "cx_outcome a \<noteq> R_SUCCEEDED \<Longrightarrow> s' = s1"
        using m(2) by (auto simp: audit_funding_def dest: log_steps split: if_splits)
      have "to_collection_outcome (dict_get ''inquiry_outcome'' (inquiry_snapshot a)) = Some (cx_outcome a)"
        by (simp add: inquiry_snapshot_def dict_get_def outcome_read_back)
      moreover obtain e' where e': "recorded e' s s1" "pe_provider_name e' = pe_provider_name e" "pe_dedupe_key e' = pe_dedupe_key e" "pe_payload e' = pe_payload e"
        "find_event (pe_provider_name e) (pe_dedupe_key e) s = None" "pe_response_snapshot e' = inquiry_snapshot a" "d_audits s1 = d_audits s"
        using plain [OF m(1)] by auto
      moreover have "recorded e' s s'" by (rule recorded_logs [OF e'(1) logs])
      moreover have "d_audits s' \<noteq> d_audits s \<longrightarrow> cx_outcome a = R_SUCCEEDED" using same e'(7) by auto
      ultimately show ?thesis using m(3) Some q Inr w by (intro exI [of _ e']) (simp add: recorded_result_def)
    qed
  qed
qed

text \<open>The keys of rejected callbacks and of accepted ones are different.\<close>

lemma rejected_key_apart: "take 120 (''rejected:'' @ x) \<noteq> build_dedupe_key sha ref event_id raw"
  by (auto simp: build_dedupe_key_def eval_nat_numeral split: option.splits)

lemma reject_recorded:
  assumes "reject_unauthenticated_callback E W body raw hs st now s = Inr (r, s')"
  shows "(s' = s \<or> (\<exists>e. recorded e s s' \<and> (\<forall>sha ref i b. pe_dedupe_key e \<noteq> build_dedupe_key sha ref i b))) \<and> d_audits s' = d_audits s \<and> \<not> wr_accepted r"
  using assms rejected_key_apart
  by (auto simp: reject_unauthenticated_callback_def Let_def bindE_eq_Inr dest!: insert_event_recorded split: if_splits intro!: exI)

lemma forged_callback:
  assumes "process_loop_collection_webhook E W body raw hs secret n skew s w = ((s', r), w')"
    and "verify_callback_signature E W hs raw secret (case n of None \<Rightarrow> e_now E | Some t \<Rightarrow> t) skew \<noteq> Inr SIGNATURE_VALID"
  shows "w' = w \<and> logs_only (s\<lparr>d_events := d_events s'\<rparr>) s' \<and> d_audits s' = d_audits s \<and>
    (\<forall>p sha ref i b. find_event p (build_dedupe_key sha ref i b) s' = find_event p (build_dedupe_key sha ref i b) s) \<and>
    (\<forall>x. r = Inr x \<longrightarrow> \<not> wr_accepted x)"
proof -
  obtain m where m: "verify_callback_signature E W hs raw secret (case n of None \<Rightarrow> e_now E | Some t \<Rightarrow> t) skew = m" by blast
  show ?thesis
  proof (cases m)
    case (Inl x)
    then show ?thesis using assms m by (auto simp: process_loop_collection_webhook_def Let_def)
  next
    case (Inr st)
    let ?m = "reject_unauthenticated_callback E W body raw hs st (case n of None \<Rightarrow> e_now E | Some t \<Rightarrow> t) s"
    have a: "atomic s ?m = (s', r)" and w: "w' = w"
      using assms m Inr by (auto simp: process_loop_collection_webhook_def Let_def split: if_splits)
    show ?thesis
    proof (cases ?m)
      case (Inl x)
      then show ?thesis using a w by auto
    next
      case ok: (Inr y)
      obtain x s1 where y: "y = (x, s1)" by force
      then have "s1 = s'" "r = Inr x" using a ok by auto
      then have "reject_unauthenticated_callback E W body raw hs st (case n of None \<Rightarrow> e_now E | Some t \<Rightarrow> t) s = Inr (x, s')" using ok y by simp
      from reject_recorded [OF this] have rr: "s' = s \<or> (\<exists>e. recorded e s s' \<and> (\<forall>sha ref i b. pe_dedupe_key e \<noteq> build_dedupe_key sha ref i b))"
        "d_audits s' = d_audits s" "\<not> wr_accepted x" by simp_all
      from rr(1) have "logs_only (s\<lparr>d_events := d_events s'\<rparr>) s' \<and>
        (\<forall>p sha ref i b. find_event p (build_dedupe_key sha ref i b) s' = find_event p (build_dedupe_key sha ref i b) s)"
      proof (elim disjE exE conjE)
        fix e assume e: "recorded e s s'" and apart: "\<forall>sha ref i b. pe_dedupe_key e \<noteq> build_dedupe_key sha ref i b"
        have "find_event p (build_dedupe_key sha ref i b) s' = find_event p (build_dedupe_key sha ref i b) s" for p sha ref i b
          by (rule recorded_other [OF e]) (simp add: apart [rule_format, symmetric])
        moreover have "logs_only (s\<lparr>d_events := d_events s'\<rparr>) s'" using e unfolding recorded_def by (rule conjunct2)
        ultimately show ?thesis by blast
      qed simp
      then show ?thesis using rr(2,3) w \<open>r = Inr x\<close> by simp
    qed
  qed
qed

text \<open>Once a reference has been recorded, every later callback for it is answered from the record.\<close>

lemma pesapal_recorded:
  assumes "process_pesapal_collection_webhook E W body raw s w = ((s', Inr r), w')"
  shows "\<exists>e. find_event ''pesapal'' (build_dedupe_key (wh_sha256 W) (extract_text body PESAPAL_REFERENCE_KEYS) (extract_text body PESAPAL_EVENT_ID_KEYS) raw) s' = Some e \<and>
    to_collection_outcome (dict_get ''inquiry_outcome'' (pe_response_snapshot e)) = wr_inquiry_outcome r"
proof -
  define key where "key = build_dedupe_key (wh_sha256 W) (extract_text body PESAPAL_REFERENCE_KEYS) (extract_text body PESAPAL_EVENT_ID_KEYS) raw"
  show ?thesis
  proof (cases "find_event ''pesapal'' key s")
    case None
    then obtain m where "store_callback E pesapal_texts W pesapal_caught (e_now E) (extract_text body PESAPAL_REFERENCE_KEYS)
        (new_event ''pesapal'' ''collection.callback'' key (extract_text body PESAPAL_EVENT_ID_KEYS)
          [(''provider_reference'', jopt (extract_text body PESAPAL_REFERENCE_KEYS))] (redact_fields PESAPAL_SENSITIVE_KEYS body) (e_now E) (e_now E)) s w = (Inr (r, s'), m)"
      using assms by (auto simp: process_pesapal_collection_webhook_def Let_def key_def atomic_eq_Inr split: prod.splits)
    from store_callback_recorded [OF this] obtain e where e: "recorded e s s'" "pe_provider_name e = ''pesapal''" "pe_dedupe_key e = key"
      "find_event ''pesapal'' key s = None" "to_collection_outcome (dict_get ''inquiry_outcome'' (pe_response_snapshot e)) = wr_inquiry_outcome r" by auto
    have "find_event ''pesapal'' key s' = Some e" using recorded_found [OF e(1)] e(2-4) by simp
    then show ?thesis unfolding key_def [symmetric] using e(5) by blast
  next
    case (Some e)
    then have "s' = s" "wr_inquiry_outcome r = to_collection_outcome (dict_get ''inquiry_outcome'' (pe_response_snapshot e))"
      using assms by (auto simp: process_pesapal_collection_webhook_def Let_def key_def duplicate_result_def)
    then show ?thesis unfolding key_def [symmetric] using Some by simp
  qed
qed

lemma pesapal_replay:
  assumes "process_pesapal_collection_webhook E W body raw s w = ((s', Inr r), w')"
    and "extract_text body PESAPAL_REFERENCE_KEYS = Some ref" and "extract_text body' PESAPAL_REFERENCE_KEYS = Some ref"
  shows "\<exists>r'. process_pesapal_collection_webhook E' W' body' raw' s' w2 = ((s', Inr r'), w2) \<and> wr_duplicate r' \<and>
    wr_inquiry_outcome r' = wr_inquiry_outcome r"
  using pesapal_recorded [OF assms(1)] assms(2,3)
  by (auto simp: process_pesapal_collection_webhook_def Let_def build_dedupe_key_def duplicate_result_def)

text \<open>The payload of what is stored is the redacted body.\<close>

lemma recorded_events: "recorded e s s' \<Longrightarrow> x \<in> set (d_events s') \<Longrightarrow> x \<in> set (d_events s) \<or> x = e"
  by (auto simp: recorded_def)

lemma loop_stores_masked:
  assumes "e \<in> set (d_events (fst (fst (process_loop_collection_webhook E W body raw hs secret n skew s w))))"
  shows "e \<in> set (d_events s) \<or> masked_fields LOOP_SENSITIVE_KEYS (pe_payload e)"
proof (cases "verify_callback_signature E W hs raw secret (case n of None \<Rightarrow> e_now E | Some t \<Rightarrow> t) skew")
  case (Inl x)
  then show ?thesis using assms by (simp add: process_loop_collection_webhook_def Let_def)
next
  case (Inr st)
  define now where "now = (case n of None \<Rightarrow> e_now E | Some t \<Rightarrow> t)"
  define key where "key = build_dedupe_key (wh_sha256 W) (extract_text body LOOP_REFERENCE_KEYS) (extract_text body LOOP_EVENT_ID_KEYS) raw"
  show ?thesis
  proof (cases "st = SIGNATURE_VALID")
    case False
    then have e: "e \<in> set (d_events (fst (atomic s (reject_unauthenticated_callback E W body raw hs st now s))))"
      using assms Inr by (simp add: process_loop_collection_webhook_def Let_def now_def)
    show ?thesis
    proof (cases "reject_unauthenticated_callback E W body raw hs st now s")
      case (Inr y)
      then show ?thesis using e
        by (cases y) (auto simp: reject_unauthenticated_callback_def Let_def bindE_eq_Inr redact_masked dest!: insert_event_recorded
            dest: recorded_events split: if_splits)
    qed (use e in simp)
  next
    case True
    show ?thesis
    proof (cases "find_event ''loop'' key s")
      case (Some x)
      then show ?thesis using assms Inr True by (simp add: process_loop_collection_webhook_def Let_def key_def)
    next
      case None
      obtain m w1 where m: "store_callback E loop_texts W (\<lambda>_. True) now (extract_text body LOOP_REFERENCE_KEYS)
          (new_event ''loop'' (loop_event_type body) key (extract_text body LOOP_EVENT_ID_KEYS)
            (request_snapshot W hs st (extract_text body LOOP_REFERENCE_KEYS)) (redact_fields LOOP_SENSITIVE_KEYS body) now (e_now E)) s w = (m, w1)"
        by force
      then have e: "e \<in> set (d_events (fst (atomic s (bindE m (\<lambda>(r, s'). Inr (as_valid r, s'))))))"
        using assms Inr True None by (simp add: process_loop_collection_webhook_def Let_def key_def now_def)
      show ?thesis
      proof (cases m)
        case (Inr y)
        obtain r s1 where y: "y = (r, s1)" by force
        from store_callback_recorded [OF m [unfolded Inr y]] obtain e' where "recorded e' s s1" "pe_payload e' = redact_fields LOOP_SENSITIVE_KEYS body"
          by auto
        then show ?thesis using e Inr y by (auto simp: redact_masked dest: recorded_events)
      qed (use e in simp)
    qed
  qed
qed

lemma pesapal_stores_masked:
  assumes "e \<in> set (d_events (fst (fst (process_pesapal_collection_webhook E W body raw s w))))"
  shows "e \<in> set (d_events s) \<or> masked_fields PESAPAL_SENSITIVE_KEYS (pe_payload e)"
proof -
  define key where "key = build_dedupe_key (wh_sha256 W) (extract_text body PESAPAL_REFERENCE_KEYS) (extract_text body PESAPAL_EVENT_ID_KEYS) raw"
  show ?thesis
  proof (cases "find_event ''pesapal'' key s")
    case (Some x)
    then show ?thesis using assms by (simp add: process_pesapal_collection_webhook_def Let_def key_def)
  next
    case None
    obtain m w1 where m: "store_callback E pesapal_texts W pesapal_caught (e_now E) (extract_text body PESAPAL_REFERENCE_KEYS)
        (new_event ''pesapal'' ''collection.callback'' key (extract_text body PESAPAL_EVENT_ID_KEYS)
          [(''provider_reference'', jopt (extract_text body PESAPAL_REFERENCE_KEYS))] (redact_fields PESAPAL_SENSITIVE_KEYS body) (e_now E) (e_now E)) s w = (m, w1)"
      by force
    then have e: "e \<in> set (d_events (fst (atomic s m)))"
      using assms None by (simp add: process_pesapal_collection_webhook_def Let_def key_def)
    show ?thesis
    proof (cases m)
      case (Inr y)
      obtain r s1 where y: "y = (r, s1)" by force
      from store_callback_recorded [OF m [unfolded Inr y]] obtain e' where "recorded e' s s1" "pe_payload e' = redact_fields PESAPAL_SENSITIVE_KEYS body"
          by auto
      then show ?thesis using e Inr y by (auto simp: redact_masked dest: recorded_events)
    qed (use e in simp)
  qed
qed

end
