(* ===== verification/Simulated_Custody.thy ===== *)
theory Simulated_Custody
  imports Payout_Executor Simulated_Rail Provider_Http
begin

text \<open>
  The simulated custody provider (custody/simulated_provider.py) and the administrator's controls over
  it (simulated_admin.py). A posting to the ledger commits before the escrow row is changed, and the
  row's check constraints can refuse the change; the first component of a result is the database of the
  last commit.
\<close>

section \<open>References\<close>

definition SIMULATED_ESCROW_REFERENCE_PREFIX :: string where
  "SIMULATED_ESCROW_REFERENCE_PREFIX = ''sim-escrow-''"

text \<open>
  \<open>uuid.UUID(text)\<close>: \<open>urn:\<close> and \<open>uuid:\<close> removed, braces stripped, hyphens removed, then 32 characters that
  \<open>int(text, 16)\<close> accepts: a sign, \<open>0x\<close>, digits grouped by underscores.
\<close>

fun remove_text :: "string \<Rightarrow> string \<Rightarrow> string" where
  "remove_text p [] = []"
| "remove_text p (c # s) = (if p \<noteq> [] \<and> starts_with p (c # s) then remove_text p (drop (length p - 1) s) else c # remove_text p s)"

definition hex_value :: "char \<Rightarrow> nat option" where
  "hex_value c = (let n = (of_char c :: nat) in
     if 48 \<le> n \<and> n \<le> 57 then Some (n - 48) else if 97 \<le> n \<and> n \<le> 102 then Some (n - 87)
     else if 65 \<le> n \<and> n \<le> 70 then Some (n - 55) else None)"

fun read_hex_digits :: "nat \<Rightarrow> bool \<Rightarrow> string \<Rightarrow> nat option" where
  "read_hex_digits acc digit [] = (if digit then Some acc else None)"
| "read_hex_digits acc digit (c # cs) = (case hex_value c of Some d \<Rightarrow> read_hex_digits (16 * acc + d) True cs
     | None \<Rightarrow> if c = CHR ''_'' \<and> digit then read_hex_digits acc False cs else None)"

definition read_hex_unsigned :: "string \<Rightarrow> nat option" where
  "read_hex_unsigned v = (if py_lower (take 2 v) = ''0x''
     then (if drop 2 v = '''' then None else read_hex_digits 0 True (drop 2 v)) else read_hex_digits 0 False v)"

definition read_hex :: "string \<Rightarrow> nat option" where
  "read_hex v = (case strip v of [] \<Rightarrow> None
     | c # cs \<Rightarrow> if c = CHR ''+'' then read_hex_unsigned cs
         else if c = CHR ''-'' then (if read_hex_unsigned cs = Some 0 then Some 0 else None) else read_hex_unsigned (c # cs))"

definition uuid_of :: "string \<Rightarrow> uuid option" where
  "uuid_of v = (let brace = (\<lambda>c. c = CHR ''{'' \<or> c = CHR ''}''); t = remove_text ''uuid:'' (remove_text ''urn:'' v);
       h = filter (\<lambda>c. c \<noteq> CHR ''-'') (rev (dropWhile brace (rev (dropWhile brace t)))) in
     if length h \<noteq> 32 then None else read_hex h)"

definition parse_uuid :: "string \<Rightarrow> string \<Rightarrow> exn + uuid" where
  "parse_uuid v field = (case uuid_of v of
       None \<Rightarrow> Inl (SimulatedEscrowReferenceError (''Invalid UUID provided for '' @ field @ '': '' @ [CHR 0x27] @ v @ [CHR 0x27] @ ''.''))
     | Some u \<Rightarrow> Inr u)"

definition parse_escrow_reference :: "string \<Rightarrow> exn + uuid" where
  "parse_escrow_reference v = parse_uuid (if starts_with SIMULATED_ESCROW_REFERENCE_PREFIX v
     then drop (length SIMULATED_ESCROW_REFERENCE_PREFIX) v else v) ''escrow_reference''"

definition format_escrow_reference :: "uuid \<Rightarrow> string" where
  "format_escrow_reference i = SIMULATED_ESCROW_REFERENCE_PREFIX @ uuid_str i"

text \<open>Reading back the reference of an escrow.\<close>

definition hex_char :: "char \<Rightarrow> bool" where
  "hex_char c = (let n = (of_char c :: nat) in 48 \<le> n \<and> n \<le> 57 \<or> 97 \<le> n \<and> n \<le> 102)"

lemma hex_digit_read:
  assumes "d < 16"
  shows "hex_char (hex_digit d)" and "hex_value (hex_digit d) = Some d"
  using assms by (auto simp: hex_char_def hex_value_def hex_digit_def Let_def)

lemma hex_digits_chars: "c \<in> set (hex_digits k n) \<Longrightarrow> hex_char c"
  by (induction k n rule: hex_digits.induct) (auto simp: hex_digit_read)

lemma read_hex_digits_snoc:
  assumes "\<forall>c \<in> set s. hex_char c" and "hex_char c"
  shows "read_hex_digits acc d (s @ [c]) = (case read_hex_digits acc True s of None \<Rightarrow> None | Some n \<Rightarrow> map_option (\<lambda>v. 16 * n + v) (hex_value c))"
  using assms by (induction s arbitrary: acc d) (auto simp: hex_char_def hex_value_def Let_def)

lemma read_hex_digits_read: "read_hex_digits 0 True (hex_digits k n) = Some (n mod 16 ^ k)"
proof (induction k n rule: hex_digits.induct)
  case (2 k n)
  have "n mod 16 ^ Suc k = 16 * (n div 16 mod 16 ^ k) + n mod 16"
    by (simp add: mod_mult2_eq)
  then show ?case using 2 hex_digits_chars by (simp add: read_hex_digits_snoc hex_digit_read)
qed simp

lemma remove_absent: "p \<noteq> [] \<Longrightarrow> hd p \<notin> set s \<Longrightarrow> remove_text p s = s"
  by (induction p s rule: remove_text.induct) (auto simp: starts_with_def neq_Nil_conv)

lemma uuid_str_chars: "c \<in> set (uuid_str u) \<Longrightarrow> hex_char c \<or> c = CHR ''-''"
  by (auto simp: uuid_str_def Let_def dest!: in_set_takeD in_set_dropD hex_digits_chars)

lemma hex_char_not: "hex_char c \<Longrightarrow> c \<notin> {CHR ''u'', CHR ''-'', CHR ''{'', CHR ''}'', CHR ''x'', CHR ''X'', CHR ''+''} \<and> \<not> py_isspace c"
  by (auto simp: hex_char_def Let_def py_isspace_def)

lemma drop_take_parts: "take 8 h @ take 4 (drop 8 h) @ take 4 (drop 12 h) @ take 4 (drop 16 h) @ drop 20 h = h"
proof -
  have "take 4 (drop 16 h) @ drop 20 h = drop 16 h" using append_take_drop_id [of 4 "drop 16 h"] by simp
  moreover have "take 4 (drop 12 h) @ drop 16 h = drop 12 h" using append_take_drop_id [of 4 "drop 12 h"] by simp
  moreover have "take 4 (drop 8 h) @ drop 12 h = drop 8 h" using append_take_drop_id [of 4 "drop 8 h"] by simp
  ultimately show ?thesis by simp
qed

lemma uuid_str_digits: "filter (\<lambda>c. c \<noteq> CHR ''-'') (uuid_str u) = hex_digits 32 u"
proof -
  have "\<forall>c \<in> set (hex_digits 32 u). c \<noteq> CHR ''-''" using hex_digits_chars hex_char_not by blast
  then have "filter (\<lambda>c. c \<noteq> CHR ''-'') xs = xs" if "set xs \<subseteq> set (hex_digits 32 u)" for xs
    using that by (auto intro: filter_True)
  moreover have "set (take a (drop b h)) \<subseteq> set h" for a b and h :: string by (auto dest: in_set_takeD in_set_dropD)
  moreover have "set (take a h) \<subseteq> set h" "set (drop a h) \<subseteq> set h" for a and h :: string by (auto dest: in_set_takeD in_set_dropD)
  ultimately show ?thesis by (simp add: uuid_str_def Let_def drop_take_parts)
qed

lemma strip_plain: "\<forall>c \<in> set s. \<not> py_isspace c \<Longrightarrow> strip s = s"
  by (rule strip_id) (use hd_in_set last_in_set in blast)

lemma read_hex_uuid: "read_hex (hex_digits 32 u) = Some (u mod 16 ^ 32)"
proof -
  have h: "\<forall>c \<in> set (hex_digits 32 u). hex_char c" using hex_digits_chars by blast
  obtain c cs where cs: "hex_digits 32 u = c # cs" using hex_digits_length [of 32 u] by (cases "hex_digits 32 u") auto
  have "read_hex_digits 0 False (c # cs) = read_hex_digits 0 True (c # cs)" using h cs by (auto simp: hex_char_def hex_value_def Let_def)
  moreover have "strip (c # cs) = c # cs" using h cs hex_char_not by (metis strip_plain)
  moreover have "py_lower (take 2 (c # cs)) \<noteq> ''0x''"
  proof
    assume "py_lower (take 2 (c # cs)) = ''0x''"
    then obtain d ds where "cs = d # ds" "py_lower [d] = ''x''" by (cases cs) (auto simp: py_lower_def numeral_2_eq_2)
    then show False using h cs by (auto simp: hex_char_def Let_def py_lower_def py_lower_char_def split: if_splits)
  qed
  moreover have "c \<noteq> CHR ''+''" "c \<noteq> CHR ''-''" using h cs hex_char_not by fastforce+
  ultimately show ?thesis using read_hex_digits_read [of 32 u] cs by (simp add: read_hex_def read_hex_unsigned_def)
qed

lemma dropWhile_absent: "\<forall>c \<in> set s. \<not> P c \<Longrightarrow> dropWhile P s = s"
  by (cases s) auto

lemma uuid_read: "u < 2 ^ 128 \<Longrightarrow> uuid_of (uuid_str u) = Some u"
proof -
  assume u: "u < 2 ^ 128"
  have c: "c \<noteq> CHR ''u'' \<and> c \<noteq> CHR ''{'' \<and> c \<noteq> CHR ''}''" if "c \<in> set (uuid_str u)" for c
    using uuid_str_chars [OF that] hex_char_not [of c] by auto
  have "remove_text ''uuid:'' (remove_text ''urn:'' (uuid_str u)) = uuid_str u" using c by (subst (1 2) remove_absent) auto
  moreover have "rev (dropWhile (\<lambda>c. c = CHR ''{'' \<or> c = CHR ''}'') (rev (dropWhile (\<lambda>c. c = CHR ''{'' \<or> c = CHR ''}'') (uuid_str u)))) = uuid_str u"
    using c by (subst (1 2) dropWhile_absent) auto
  ultimately show ?thesis using u by (simp add: uuid_of_def Let_def uuid_str_digits read_hex_uuid)
qed

lemma escrow_reference_read: "u < 2 ^ 128 \<Longrightarrow> parse_escrow_reference (format_escrow_reference u) = Inr u"
  by (simp add: parse_escrow_reference_def format_escrow_reference_def parse_uuid_def uuid_read starts_with_def)

definition get_escrow_from_reference :: "string \<Rightarrow> db \<Rightarrow> exn + escrow" where
  "get_escrow_from_reference ref s = bindE (parse_escrow_reference ref) (\<lambda>i. case get_escrow i s of
       None \<Rightarrow> Inl (SimulatedEscrowNotFoundError (''Escrow reference '' @ [CHR 0x27] @ ref @ [CHR 0x27] @ '' was not found.''))
     | Some e \<Rightarrow> Inr e)"

definition sim_currency :: "string \<Rightarrow> exn + string" where
  "sim_currency v = (let c = py_upper (strip v) in
     if length c \<noteq> 3 then Inl (SimulatedEscrowReferenceError ''Currency must be a three-letter code.'') else Inr c)"

definition sim_amount :: "cents \<Rightarrow> exn + cents" where
  "sim_amount a = (if a \<le> 0 then Inl (SimulatedEscrowReferenceError ''Amount must be greater than zero.'') else Inr a)"

section \<open>The escrow row\<close>

text \<open>The check constraints of the table \<open>escrows\<close>.\<close>

definition escrow_violation :: "escrow \<Rightarrow> string option" where
  "escrow_violation e = (if es_amount_total e \<le> 0 then Some ''ck_escrows_amount_total_positive''
     else if es_funded_amount e < 0 then Some ''ck_escrows_funded_amount_non_negative''
     else if es_released_amount e < 0 then Some ''ck_escrows_released_amount_non_negative''
     else if es_refunded_amount e < 0 then Some ''ck_escrows_refunded_amount_non_negative''
     else if es_amount_total e < es_funded_amount e then Some ''ck_escrows_funded_le_total''
     else if es_funded_amount e < es_released_amount e + es_refunded_amount e then Some ''ck_escrows_outflows_le_funded'' else None)"

definition store_escrow :: "escrow \<Rightarrow> db \<Rightarrow> exn + db" where
  "store_escrow e s = (case escrow_violation e of Some c \<Rightarrow> Inl (IntegrityError c) | None \<Rightarrow> Inr (put_escrow e s))"

text \<open>
  Posting a movement and then changing the escrow, when the posting was new. The first component is
  what the posting committed.
\<close>

definition post_and_update :: "env \<Rightarrow> ledger_movement \<Rightarrow> escrow \<Rightarrow> db \<Rightarrow> db option \<times> (exn + (nat \<times> db))" where
  "post_and_update E mv e' s = (case post_movement E mv s of
       Inl x \<Rightarrow> (None, Inl x)
     | Inr (r, s1) \<Rightarrow> if pr_created_entries r = 2 then (Some s1, bindE (store_escrow e' s1) (\<lambda>s2. Inr (2, s2)))
         else (None, Inr (pr_created_entries r, s1)))"

definition sim_movement :: "string \<Rightarrow> string \<Rightarrow> cents \<Rightarrow> string \<Rightarrow> string \<Rightarrow> string \<Rightarrow> string \<Rightarrow> uuid \<Rightarrow> ledger_movement" where
  "sim_movement kind ref amount debit credit description currency eid = \<lparr>mv_escrow = eid, mv_idempotency_key = ''sim-'' @ kind @ '':'' @ ref,
     mv_amount = dec_of_cents amount, mv_debit_account = debit, mv_credit_account = credit, mv_description = Some description,
     mv_currency = currency, mv_group = None\<rparr>"

definition funding_movement :: "string \<Rightarrow> cents \<Rightarrow> string \<Rightarrow> string \<Rightarrow> uuid \<Rightarrow> ledger_movement" where
  "funding_movement ref amount description currency eid =
     sim_movement ''funding'' ref amount ESCROW_HELD_ACCOUNT BUYER_CLEARING_ACCOUNT description currency eid"

definition outflow_movement :: "string \<Rightarrow> string \<Rightarrow> cents \<Rightarrow> string \<Rightarrow> string \<Rightarrow> uuid \<Rightarrow> ledger_movement" where
  "outflow_movement kind ref amount description currency eid = sim_movement kind ref amount
     (if kind = ''release'' then ''SELLER_PAYABLE'' else ''BUYER_REFUNDABLE'') ESCROW_HELD_ACCOUNT description currency eid"

definition funded_by :: "cents \<Rightarrow> escrow \<Rightarrow> escrow" where
  "funded_by a e = e\<lparr>es_funded_amount := es_funded_amount e + a\<rparr>"

definition paid_by :: "string \<Rightarrow> cents \<Rightarrow> escrow \<Rightarrow> escrow" where
  "paid_by kind a e = (if kind = ''release'' then e\<lparr>es_released_amount := es_released_amount e + a\<rparr>
     else e\<lparr>es_refunded_amount := es_refunded_amount e + a\<rparr>)"

section \<open>The provider\<close>

definition sim_open_escrow :: "env \<Rightarrow> open_request \<Rightarrow> db \<Rightarrow> db \<times> (exn + escrow_record)" where
  "sim_open_escrow E q s = atomic s (bindE (parse_uuid (oq_transaction_id q) ''transaction_id'') (\<lambda>tid.
     bindE (parse_uuid (oq_buyer_id q) ''buyer_id'') (\<lambda>buyer. bindE (parse_uuid (oq_seller_id q) ''seller_id'') (\<lambda>seller.
     let shown = (\<lambda>e. \<lparr>er_escrow_reference = format_escrow_reference (es_id e), er_transaction_id = uuid_str (es_transaction e),
       er_amount = es_amount_total e, er_currency = es_currency e, er_confirmation_code = None, er_status = None, er_max_principal_kes = None\<rparr>) in
     case find_escrow_for_transaction tid s of Some e \<Rightarrow> Inr (shown e, s)
     | None \<Rightarrow> bindE (sim_currency (oq_currency q)) (\<lambda>currency. bindE (sim_amount (oq_amount q)) (\<lambda>amount.
         let e = \<lparr>es_id = e_uuid E (d_draws s), es_transaction = tid, es_buyer = buyer, es_seller = seller, es_amount_total = amount,
           es_funded_amount = 0, es_released_amount = 0, es_refunded_amount = 0, es_currency = currency, es_custody_provider = Some ''simulated'',
           es_econfirm_transaction_id = None, es_econfirm_confirmation_code = None, es_econfirm_needs_reconciliation = False,
           es_econfirm_payer_phone = None, es_created_at = e_now E\<rparr> in
         if get_escrow (es_id e) s \<noteq> None then Inl (IntegrityError ''escrows_pkey'')
         else Inr (shown e, s\<lparr>d_escrows := d_escrows s @ [e], d_draws := Suc (d_draws s)\<rparr>)))))))"

definition funding_request_payload :: "funding_request \<Rightarrow> dict" where
  "funding_request_payload q = [(''escrow_reference'', JStr (fq_escrow_reference q)), (''amount'', JStr (cents_str (fq_amount q))),
     (''phone_number'', JStr (fq_phone_number q)), (''account_reference'', JStr (fq_account_reference q)), (''currency'', JStr (fq_currency q))]"

definition payout_request_payload :: "payout_request \<Rightarrow> dict" where
  "payout_request_payload q = [(''escrow_reference'', JStr (pq_escrow_reference q)), (''amount'', JStr (cents_str (pq_amount q))),
     (''destination_phone'', JStr (pq_destination_phone q)), (''purpose'', JStr (pq_purpose q)), (''currency'', JStr (pq_currency q))]"

definition new_collection :: "env \<Rightarrow> uuid \<Rightarrow> escrow \<Rightarrow> funding_request \<Rightarrow> cents \<Rightarrow> string \<Rightarrow> collection_result \<Rightarrow> collection_attempt" where
  "new_collection E i e q amount currency r = (let oc = attempt_outcome_from_payout (cx_outcome r) in
     \<lparr>co_id = i, co_escrow = es_id e, co_rail_name = ''simulated'', co_provider_name = ''simulated'',
      co_idempotency_key = ''sim-funding:'' @ cx_provider_reference r, co_provider_reference = Some (cx_provider_reference r), co_amount = amount,
      co_currency = currency, co_outcome = oc, co_request_snapshot = funding_request_payload q, co_response_snapshot = collection_result_payload r,
      co_failure_code = answer_failure_code oc (cx_raw_status r), co_failure_reason = answer_failure_reason oc (cx_message r),
      co_attempted_at = e_now E, co_created_at = e_now E\<rparr>)"

text \<open>What is stored of an answer to a funding request.\<close>

definition store_collection :: "env \<Rightarrow> escrow \<Rightarrow> funding_request \<Rightarrow> collection_result \<Rightarrow> db \<Rightarrow> db \<times> (exn + collection_result)" where
  "store_collection E e q r s = (case bindE (sim_amount (fq_amount q)) (\<lambda>a. bindE (sim_currency (fq_currency q)) (\<lambda>c. Inr (a, c))) of
       Inl x \<Rightarrow> (s, Inl x)
     | Inr (amount, currency) \<Rightarrow> (let c = new_collection E (e_uuid E (d_draws s)) e q amount currency r;
           s1 = s\<lparr>d_collections := d_collections s @ [c], d_draws := Suc (d_draws s)\<rparr> in
         if co_id c \<in> co_id ` set (d_collections s) then (s, Inl (IntegrityError ''collection_attempts_pkey''))
         else if cx_outcome r \<noteq> R_SUCCEEDED then (s1, Inr r)
         else (case post_and_update E (funding_movement (cx_provider_reference r) amount ''Simulated custody funding'' currency (es_id e))
               (funded_by (fq_amount q) e) s1 of
             (committed, Inl x) \<Rightarrow> (case committed of None \<Rightarrow> s | Some d \<Rightarrow> d, Inl x)
           | (_, Inr (_, s2)) \<Rightarrow> (s2, Inr r))))"

definition sp_request_funding ::
    "env \<Rightarrow> (funding_request \<Rightarrow> 'w \<Rightarrow> (exn + collection_result) \<times> 'w) \<Rightarrow> funding_request \<Rightarrow> db \<Rightarrow> 'w \<Rightarrow> (db \<times> (exn + collection_result)) \<times> 'w" where
  "sp_request_funding E rail q s w = (case get_escrow_from_reference (fq_escrow_reference q) s of
       Inl x \<Rightarrow> ((s, Inl x), w)
     | Inr e \<Rightarrow> (case rail q w of (Inl x, w') \<Rightarrow> ((s, Inl x), w') | (Inr r, w') \<Rightarrow> (store_collection E e q r s, w')))"

definition existing_open_payout_attempt :: "uuid \<Rightarrow> string \<Rightarrow> attempt_outcome \<Rightarrow> db \<Rightarrow> payout_attempt option" where
  "existing_open_payout_attempt eid purpose oc s = (if oc = FAILED_DEFINITE then None
     else find (\<lambda>p. po_escrow p = eid \<and> po_purpose p = purpose \<and> po_outcome p \<noteq> FAILED_DEFINITE) (d_payouts s))"

definition answered_payout :: "string \<Rightarrow> payout_request \<Rightarrow> cents \<Rightarrow> string \<Rightarrow> payout_result \<Rightarrow> payout_attempt \<Rightarrow> payout_attempt" where
  "answered_payout kind q amount currency r p = (let oc = attempt_outcome_from_payout (px_outcome r) in
     p\<lparr>po_idempotency_key := ''sim-'' @ kind @ '':'' @ px_provider_reference r, po_provider_reference := Some (px_provider_reference r),
       po_amount := amount, po_currency := currency, po_outcome := oc, po_request_snapshot := payout_request_payload q,
       po_response_snapshot := payout_result_payload r, po_failure_code := answer_failure_code oc (px_raw_status r),
       po_failure_reason := answer_failure_reason oc (px_message r)\<rparr>)"

definition new_sim_payout :: "env \<Rightarrow> uuid \<Rightarrow> escrow \<Rightarrow> string \<Rightarrow> payout_attempt" where
  "new_sim_payout E i e purpose = \<lparr>po_id = i, po_escrow = es_id e, po_purpose = purpose, po_rail_name = ''simulated'', po_provider_name = ''simulated'',
     po_idempotency_key = '''', po_provider_reference = None, po_amount = 0, po_currency = '''', po_outcome = UNKNOWN, po_request_snapshot = [],
     po_response_snapshot = [], po_failure_code = None, po_failure_reason = None, po_attempted_at = e_now E, po_created_at = e_now E\<rparr>"

definition store_payout :: "env \<Rightarrow> string \<Rightarrow> escrow \<Rightarrow> payout_request \<Rightarrow> payout_result \<Rightarrow> db \<Rightarrow> db \<times> (exn + payout_result)" where
  "store_payout E kind e q r s = (case bindE (sim_amount (pq_amount q)) (\<lambda>a. bindE (sim_currency (pq_currency q)) (\<lambda>c.
         bindE (case existing_open_payout_attempt (es_id e) (pq_purpose q) (attempt_outcome_from_payout (px_outcome r)) s of
             None \<Rightarrow> insert_payout (answered_payout kind q a c r (new_sim_payout E (e_uuid E (d_draws s)) e (pq_purpose q))) (s\<lparr>d_draws := Suc (d_draws s)\<rparr>)
           | Some p \<Rightarrow> Inr (put_payout (answered_payout kind q a c r p) s)) (\<lambda>s1. Inr (a, c, s1)))) of
       Inl x \<Rightarrow> (s, Inl x)
     | Inr (amount, currency, s1) \<Rightarrow> if px_outcome r \<noteq> R_SUCCEEDED then (s1, Inr r)
         else (case post_and_update E (outflow_movement kind (px_provider_reference r) amount (''Simulated custody '' @ kind) currency (es_id e))
               (paid_by kind (pq_amount q) e) s1 of
             (committed, Inl x) \<Rightarrow> (case committed of None \<Rightarrow> s | Some d \<Rightarrow> d, Inl x)
           | (_, Inr (_, s2)) \<Rightarrow> (s2, Inr r)))"

text \<open>\<open>release\<close> for the kind \<open>release\<close>, \<open>refund\<close> for the kind \<open>refund\<close>.\<close>

definition sp_request_payout ::
    "env \<Rightarrow> (payout_request \<Rightarrow> 'w \<Rightarrow> (exn + payout_result) \<times> 'w) \<Rightarrow> string \<Rightarrow> payout_request \<Rightarrow> db \<Rightarrow> 'w \<Rightarrow> (db \<times> (exn + payout_result)) \<times> 'w" where
  "sp_request_payout E rail kind q s w = (case get_escrow_from_reference (pq_escrow_reference q) s of
       Inl x \<Rightarrow> ((s, Inl x), w)
     | Inr e \<Rightarrow> (case rail q w of (Inl x, w') \<Rightarrow> ((s, Inl x), w') | (Inr r, w') \<Rightarrow> (store_payout E kind e q r s, w')))"

record escrow_status =
  ss_escrow_reference :: string
  ss_funded_amount :: cents
  ss_released_amount :: cents
  ss_refunded_amount :: cents

definition sim_get_status :: "string \<Rightarrow> db \<Rightarrow> exn + escrow_status" where
  "sim_get_status ref s = bindE (get_escrow_from_reference ref s) (\<lambda>e. Inr \<lparr>ss_escrow_reference = format_escrow_reference (es_id e),
     ss_funded_amount = es_funded_amount e, ss_released_amount = es_released_amount e, ss_refunded_amount = es_refunded_amount e\<rparr>)"

section \<open>The administrator's controls\<close>

text \<open>The simulated rail is built anew from the settings for every call.\<close>

record sim_settings =
  sx_collection_default_scenario :: string
  sx_payout_default_scenario :: string
  sx_trigger_prefix :: string
  sx_uuid5 :: "string \<Rightarrow> string"

definition build_simulated_rail :: "sim_settings \<Rightarrow> exn + simulated_rail" where
  "build_simulated_rail X = make_simulated_rail (sx_collection_default_scenario X) (sx_payout_default_scenario X) (sx_trigger_prefix X)"

definition fresh_checks :: rail_checks where
  "fresh_checks = \<lparr>rc_funding = (\<lambda>_. 0), rc_payout = (\<lambda>_. 0)\<rparr>"

definition force_success_account_reference :: "string option \<Rightarrow> string \<Rightarrow> string" where
  "force_success_account_reference ref prefix = (let base = (case ref of None \<Rightarrow> '''' | Some r \<Rightarrow> strip r) in
     prefix @ ''success '' @ (if base = '''' then ''admin-force-collection'' else base))"

definition latest_by_time :: "('r \<Rightarrow> time) \<Rightarrow> ('r \<Rightarrow> time) \<Rightarrow> 'r list \<Rightarrow> 'r option" where
  "latest_by_time attempted created rows = (case rev (sort_key (\<lambda>r. (attempted r, created r)) rows) of [] \<Rightarrow> None | r # _ \<Rightarrow> Some r)"

definition latest_collection_by_reference :: "string \<Rightarrow> db \<Rightarrow> collection_attempt option" where
  "latest_collection_by_reference ref s = latest_by_time co_attempted_at co_created_at (filter (\<lambda>c. co_provider_reference c = Some ref) (d_collections s))"

definition latest_payout_by_reference :: "string \<Rightarrow> db \<Rightarrow> payout_attempt option" where
  "latest_payout_by_reference ref s = latest_by_time po_attempted_at po_created_at (filter (\<lambda>p. po_provider_reference p = Some ref) (d_payouts s))"

record admin_result =
  ar_escrow_reference :: string
  ar_provider_reference :: string
  ar_payout_type :: "string option"
  ar_outcome :: rail_outcome
  ar_raw_status :: "string json"
  ar_message :: "string json"
  ar_idempotent_replay :: bool

definition snapshot_value :: "string \<Rightarrow> dict \<Rightarrow> string json" where
  "snapshot_value k d = (case dict_get k d of None \<Rightarrow> JNull | Some v \<Rightarrow> v)"

definition admin_audit :: "env \<Rightarrow> uuid option \<Rightarrow> string \<Rightarrow> string \<Rightarrow> uuid \<Rightarrow> uuid option \<Rightarrow> string \<Rightarrow> cents \<Rightarrow> string \<Rightarrow> dict \<Rightarrow> db \<Rightarrow> exn + db" where
  "admin_audit E admin action reason eid attempt ref amount currency details s = record_money_audit_event E
     ((new_audit E action ACTOR_ADMIN)\<lparr>ma_actor_id := admin, ma_reason := Some reason,
        ma_transaction := map_option es_transaction (get_escrow eid s), ma_escrow := Some eid, ma_attempt := attempt,
        ma_provider_reference := Some ref, ma_rail_name := Some ''simulated'', ma_amount := Some amount, ma_currency := Some currency,
        ma_details := details\<rparr>) s"

definition force_request :: "simulated_rail \<Rightarrow> string \<Rightarrow> cents \<Rightarrow> string \<Rightarrow> string option \<Rightarrow> string \<Rightarrow> exn + funding_request" where
  "force_request R eref amount phone aref currency = make_funding_request \<lparr>fq_escrow_reference = eref, fq_amount = amount, fq_phone_number = phone,
     fq_account_reference = force_success_account_reference aref (sm_trigger_prefix R), fq_currency = currency\<rparr>"

definition forced_collection ::
    "env \<Rightarrow> sim_settings \<Rightarrow> simulated_rail \<Rightarrow> uuid option \<Rightarrow> funding_request \<Rightarrow> db \<Rightarrow> db \<times> (exn + admin_result)" where
  "forced_collection E X R admin q s = (case sp_request_funding E (sim_request_funding R (sx_uuid5 X)) q s fresh_checks of
       ((s1, Inl x), _) \<Rightarrow> (s1, Inl x)
     | ((s1, Inr r), _) \<Rightarrow> atomic s1 (bindE (parse_escrow_reference (fq_escrow_reference q)) (\<lambda>eid.
         bindE (admin_audit E admin ''simulated_collection_forced'' ''Admin forced simulated collection success.'' eid None (cx_provider_reference r)
           (fq_amount q) (fq_currency q) [(''outcome'', JStr (rail_outcome_value (cx_outcome r)))] s1) (\<lambda>s2.
         Inr (\<lparr>ar_escrow_reference = fq_escrow_reference q, ar_provider_reference = cx_provider_reference r, ar_payout_type = None,
           ar_outcome = cx_outcome r, ar_raw_status = jopt (cx_raw_status r), ar_message = jopt (cx_message r), ar_idempotent_replay = False\<rparr>, s2)))))"

definition force_complete_simulated_collection ::
    "env \<Rightarrow> sim_settings \<Rightarrow> string \<Rightarrow> cents \<Rightarrow> string \<Rightarrow> string option \<Rightarrow> string \<Rightarrow> uuid option \<Rightarrow> db \<Rightarrow> db \<times> (exn + admin_result)" where
  "force_complete_simulated_collection E X eref amount phone aref currency admin s =
     (case bindE (build_simulated_rail X) (\<lambda>R. bindE (force_request R eref amount phone aref currency) (\<lambda>q.
         bindE (fst (sim_request_funding R (sx_uuid5 X) q fresh_checks)) (\<lambda>preview. Inr (R, q, cx_provider_reference preview)))) of
       Inl x \<Rightarrow> (s, Inl x)
     | Inr (R, q, ref) \<Rightarrow> (case latest_collection_by_reference ref s of
           Some c \<Rightarrow> if co_outcome c = SUCCEEDED
             then (s, Inr \<lparr>ar_escrow_reference = eref, ar_provider_reference = ref, ar_payout_type = None, ar_outcome = R_SUCCEEDED,
               ar_raw_status = snapshot_value ''raw_status'' (co_response_snapshot c), ar_message = snapshot_value ''message'' (co_response_snapshot c),
               ar_idempotent_replay = True\<rparr>)
             else forced_collection E X R admin q s
         | None \<Rightarrow> forced_collection E X R admin q s))"

text \<open>\<open>_next_collection_status\<close> and \<open>_next_payout_status\<close>: outcome, raw status and message.\<close>

definition out_of_order_step :: "string \<Rightarrow> rail_outcome \<times> string \<times> string" where
  "out_of_order_step prior = (if prior \<in> {''out_of_order_pending'', ''settled_after_out_of_order''}
     then (R_SUCCEEDED, ''settled_after_out_of_order'', ''Simulated rail reconciled previously out-of-order flow.'')
     else (R_UNKNOWN, ''out_of_order_pending'', ''Simulated rail awaiting reconciliation after out-of-order callback.''))"

definition next_collection_status :: "simulated_rail \<Rightarrow> string \<Rightarrow> collection_attempt \<Rightarrow> exn + collection_result" where
  "next_collection_status R ref c = (if payout_scenario ref \<noteq> ''out_of_order'' then fst (sim_get_funding_status R ref fresh_checks)
     else (case out_of_order_step (snapshot_text ''raw_status'' (co_response_snapshot c) '''') of (out, raw, msg) \<Rightarrow>
       Inr \<lparr>cx_outcome = out, cx_provider_reference = ref, cx_raw_status = Some raw, cx_message = Some msg, cx_metadata = None\<rparr>))"

definition next_payout_status :: "simulated_rail \<Rightarrow> string \<Rightarrow> payout_attempt \<Rightarrow> exn + payout_result" where
  "next_payout_status R ref p = (if payout_scenario ref \<noteq> ''out_of_order'' then fst (sim_get_payout_status R ref fresh_checks)
     else (case out_of_order_step (snapshot_text ''raw_status'' (po_response_snapshot p) '''') of (out, raw, msg) \<Rightarrow>
       Inr \<lparr>px_outcome = out, px_provider_reference = ref, px_raw_status = Some raw, px_message = Some msg\<rparr>))"

definition put_collection :: "collection_attempt \<Rightarrow> db \<Rightarrow> db" where
  "put_collection c s = s\<lparr>d_collections := row_put co_id c (d_collections s)\<rparr>"

text \<open>Posting, when the status says the money moved, then the audit; the result tells whether lines were created.\<close>

definition progress_money ::
    "env \<Rightarrow> bool \<Rightarrow> string \<Rightarrow> uuid \<Rightarrow> ledger_movement \<Rightarrow> (escrow \<Rightarrow> escrow) \<Rightarrow> db \<Rightarrow> db option \<times> (exn + (nat \<times> db))" where
  "progress_money E moved missing eid mv f s = (if \<not> moved then (None, Inr (0, s))
     else (case get_escrow eid s of None \<Rightarrow> (None, Inl (SimulatedAdminEscrowNotFoundError missing)) | Some e \<Rightarrow> post_and_update E mv (f e) s))"

definition progress_simulated_collection_scenario ::
    "env \<Rightarrow> sim_settings \<Rightarrow> string \<Rightarrow> uuid option \<Rightarrow> db \<Rightarrow> db \<times> (exn + admin_result)" where
  "progress_simulated_collection_scenario E X ref admin s = (case latest_collection_by_reference ref s of
       None \<Rightarrow> (s, Inl (SimulatedAdminAttemptNotFoundError ''Collection attempt was not found.''))
     | Some c \<Rightarrow> (case bindE (build_simulated_rail X) (\<lambda>R. next_collection_status R ref c) of
         Inl x \<Rightarrow> (s, Inl x)
       | Inr r \<Rightarrow> (let oc = attempt_outcome_from_payout (cx_outcome r);
             unchanged = (co_outcome c = oc \<and> snapshot_value ''raw_status'' (co_response_snapshot c) = jopt (cx_raw_status r) \<and>
               snapshot_value ''message'' (co_response_snapshot c) = jopt (cx_message r));
             c' = c\<lparr>co_outcome := oc, co_response_snapshot := collection_result_payload r, co_failure_code := answer_failure_code oc (cx_raw_status r),
               co_failure_reason := answer_failure_reason oc (cx_message r), co_attempted_at := e_now E\<rparr>;
             (committed, m) = progress_money E (cx_outcome r = R_SUCCEEDED) ''Escrow for collection attempt was not found.'' (co_escrow c)
               (funding_movement ref (co_amount c) ''Simulated custody funding (admin progression)'' (co_currency c) (co_escrow c))
               (funded_by (co_amount c)) (put_collection c' s) in
           atomic (case committed of None \<Rightarrow> s | Some d \<Rightarrow> d) (bindE m (\<lambda>(n, s1).
             bindE (admin_audit E admin ''simulated_collection_progressed'' ''Admin progressed simulated provider scenario.'' (co_escrow c) (Some (co_id c)) ref
               (co_amount c) (co_currency c) [(''outcome'', JStr (rail_outcome_value (cx_outcome r))), (''ledger_posted'', JBool (n = 2))] s1) (\<lambda>s2.
             Inr (\<lparr>ar_escrow_reference = snapshot_text ''escrow_reference'' (co_request_snapshot c) '''', ar_provider_reference = ref, ar_payout_type = None,
               ar_outcome = cx_outcome r, ar_raw_status = jopt (cx_raw_status r), ar_message = jopt (cx_message r),
               ar_idempotent_replay = (unchanged \<and> n = 0)\<rparr>, s2)))))))"

definition infer_payout_type :: "payout_attempt \<Rightarrow> string option" where
  "infer_payout_type p = (if starts_with ''sim-release:'' (po_idempotency_key p) then Some ''release''
     else if starts_with ''sim-refund:'' (po_idempotency_key p) then Some ''refund'' else None)"

definition progress_simulated_payout_scenario ::
    "env \<Rightarrow> sim_settings \<Rightarrow> string \<Rightarrow> uuid option \<Rightarrow> db \<Rightarrow> db \<times> (exn + admin_result)" where
  "progress_simulated_payout_scenario E X ref admin s = (case latest_payout_by_reference ref s of
       None \<Rightarrow> (s, Inl (SimulatedAdminAttemptNotFoundError ''Payout attempt was not found.''))
     | Some p \<Rightarrow> (case infer_payout_type p of None \<Rightarrow> (s, Inl (SimulatedAdminPayoutTypeError ''Could not infer payout type from attempt idempotency key.''))
       | Some kind \<Rightarrow> (case bindE (build_simulated_rail X) (\<lambda>R. next_payout_status R ref p) of
         Inl x \<Rightarrow> (s, Inl x)
       | Inr r \<Rightarrow> (let oc = attempt_outcome_from_payout (px_outcome r);
             unchanged = (po_outcome p = oc \<and> snapshot_value ''raw_status'' (po_response_snapshot p) = jopt (px_raw_status r) \<and>
               snapshot_value ''message'' (po_response_snapshot p) = jopt (px_message r));
             p' = p\<lparr>po_outcome := oc, po_response_snapshot := payout_result_payload r, po_failure_code := answer_failure_code oc (px_raw_status r),
               po_failure_reason := answer_failure_reason oc (px_message r), po_attempted_at := e_now E\<rparr>;
             (committed, m) = progress_money E (px_outcome r = R_SUCCEEDED) ''Escrow for payout attempt was not found.'' (po_escrow p)
               (outflow_movement kind ref (po_amount p) (''Simulated custody '' @ kind @ '' (admin progression)'') (po_currency p) (po_escrow p))
               (paid_by kind (po_amount p)) (put_payout p' s) in
           atomic (case committed of None \<Rightarrow> s | Some d \<Rightarrow> d) (bindE m (\<lambda>(n, s1).
             bindE (admin_audit E admin (''simulated_payout_'' @ kind @ ''_progressed'') ''Admin progressed simulated provider scenario.'' (po_escrow p) (Some (po_id p))
               ref (po_amount p) (po_currency p) [(''outcome'', JStr (rail_outcome_value (px_outcome r))), (''ledger_posted'', JBool (n = 2))] s1) (\<lambda>s2.
             Inr (\<lparr>ar_escrow_reference = snapshot_text ''escrow_reference'' (po_request_snapshot p) '''', ar_provider_reference = ref, ar_payout_type = Some kind,
               ar_outcome = px_outcome r, ar_raw_status = jopt (px_raw_status r), ar_message = jopt (px_message r),
               ar_idempotent_replay = (unchanged \<and> n = 0)\<rparr>, s2))))))))"

section \<open>The books\<close>

text \<open>A step that returns keeps the books; one that raises stored nothing, or only the posting, and then the books are wrong.\<close>

definition kept_or_torn :: "db \<Rightarrow> db \<times> (exn + 'r) \<Rightarrow> bool" where
  "kept_or_torn s res = (case res of (s', Inr _) \<Rightarrow> books s' | (s', Inl _) \<Rightarrow> s' = s \<or> \<not> books s')"

lemma kept_or_torn_simps [simp]:
  "kept_or_torn s (d, Inr x) = books d" "kept_or_torn s (d, Inl y) = (d = s \<or> \<not> books d)"
  by (simp_all add: kept_or_torn_def)

definition held_part :: "escrow \<Rightarrow> cents" where
  "held_part e = es_funded_amount e - es_released_amount e - es_refunded_amount e"

lemma books_frame: "d_escrows s' = d_escrows s \<Longrightarrow> d_ledger s' = d_ledger s \<Longrightarrow> books s' = books s"
  by (simp add: books_def held_same [of s' s])

lemma post_and_update_books:
  assumes "post_and_update E mv e' s = (c, m)" and "books s" and "get_escrow (mv_escrow mv) s = Some e" and "es_id e' = es_id e"
    and "held_part e' = held_part e + held_effect mv (movement_cents mv)" and "held_effect mv (movement_cents mv) \<noteq> 0"
  shows "(c = None \<or> (\<exists>d. c = Some d \<and> \<not> books d)) \<and> (\<forall>n s'. m = Inr (n, s') \<longrightarrow> books s')"
proof (cases "post_movement E mv s")
  case (Inl x)
  then show ?thesis using assms(1) by (auto simp: post_and_update_def)
next
  case (Inr y)
  obtain r s1 where p: "post_movement E mv s = Inr (r, s1)" using Inr by (cases y) simp
  have i: "mv_escrow mv = es_id e" and e: "e \<in> set (d_escrows s)" using assms(3) by (auto simp: get_escrow_def dest: row_get_SomeD)
  have same: "d_escrows s1 = d_escrows s" using post_movement_frame [OF p] by simp
  have held: "get_escrow_held_balance k s1 = get_escrow_held_balance k s +
      (if pr_created_entries r = 2 \<and> es_id e = k then held_effect mv (movement_cents mv) else 0)" for k
    using post_movement_balance [OF p, of k] i by simp
  show ?thesis
  proof (cases "pr_created_entries r = 2")
    case False
    then have "books s1" using assms(2) same held by (simp add: books_def)
    then show ?thesis using assms(1) p False by (auto simp: post_and_update_def)
  next
    case True
    have "get_escrow_held_balance (es_id e) s1 \<noteq> es_funded_amount e - es_released_amount e - es_refunded_amount e"
      using assms(2,6) held [of "es_id e"] e True by (auto simp: books_def)
    then have torn: "\<not> books s1" using e same by (auto simp: books_def)
    have put: "get_escrow_held_balance k (put_escrow e' s1) = get_escrow_held_balance k s1" for k
      by (rule held_same) (simp add: put_escrow_def)
    have ok: "books (put_escrow e' s1)" unfolding books_def
    proof
      fix x assume "x \<in> set (d_escrows (put_escrow e' s1))"
      then consider "x = e'" | "x \<in> set (d_escrows s)" "es_id x \<noteq> es_id e"
        using same assms(4) by (auto simp: put_escrow_def dest: row_put_in_set)
      then show "get_escrow_held_balance (es_id x) (put_escrow e' s1) = es_funded_amount x - es_released_amount x - es_refunded_amount x"
      proof cases
        case 1
        then have "get_escrow_held_balance (es_id x) (put_escrow e' s1) = get_escrow_held_balance (es_id e) s + held_effect mv (movement_cents mv)"
          using put held [of "es_id e"] True assms(4) by simp
        also have "\<dots> = held_part e'" using assms(2,5) e by (simp add: books_def held_part_def)
        finally show ?thesis using 1 by (simp add: held_part_def)
      next
        case 2
        then show ?thesis using put held [of "es_id x"] assms(2) by (simp add: books_def)
      qed
    qed
    have cm: "c = Some s1" "m = bindE (store_escrow e' s1) (\<lambda>s2. Inr (2, s2))" using assms(1) p True by (simp_all add: post_and_update_def)
    show ?thesis unfolding cm using torn ok by (cases "escrow_violation e'") (simp_all add: store_escrow_def)
  qed
qed

lemma strip_accounts [simp]: "strip ESCROW_HELD_ACCOUNT = ESCROW_HELD_ACCOUNT" "strip BUYER_CLEARING_ACCOUNT = BUYER_CLEARING_ACCOUNT"
  "strip ''SELLER_PAYABLE'' = ''SELLER_PAYABLE''" "strip ''BUYER_REFUNDABLE'' = ''BUYER_REFUNDABLE''"
  "BUYER_CLEARING_ACCOUNT \<noteq> ESCROW_HELD_ACCOUNT" "''SELLER_PAYABLE'' \<noteq> ESCROW_HELD_ACCOUNT" "''BUYER_REFUNDABLE'' \<noteq> ESCROW_HELD_ACCOUNT"
  by (simp_all add: ESCROW_HELD_ACCOUNT_def BUYER_CLEARING_ACCOUNT_def strip_def lstrip_def py_isspace_def)

lemma sim_effects:
  assumes "\<bar>a\<bar> < 10 ^ 28"
  shows "held_effect (funding_movement ref a d cur i) (movement_cents (funding_movement ref a d cur i)) = a"
    "held_effect (outflow_movement kind ref a d cur i) (movement_cents (outflow_movement kind ref a d cur i)) = - a"
  using assms by (simp_all add: held_effect_def movement_cents_def funding_movement_def outflow_movement_def sim_movement_def quantize_cents)

lemma sim_parts: "es_id (funded_by a e) = es_id e" "es_id (paid_by kind a e) = es_id e"
  "held_part (funded_by a e) = held_part e + a" "held_part (paid_by kind a e) = held_part e - a"
  by (simp_all add: funded_by_def paid_by_def held_part_def)

text \<open>An amount too large to quantize is refused before anything is posted.\<close>

lemma post_large:
  assumes "\<not> \<bar>a\<bar> < 10 ^ 28" and "mv_amount mv = dec_of_cents a"
  shows "post_and_update E mv e s = (c, m) \<Longrightarrow> (\<exists>x. m = Inl x \<and> c = None) \<or> (\<exists>n. m = Inr (n, s) \<and> c = None)"
proof -
  assume p: "post_and_update E mv e s = (c, m)"
  show ?thesis
  proof (cases "post_movement E mv s")
    case (Inl x)
    then show ?thesis using p by (auto simp: post_and_update_def)
  next
    case (Inr y)
    obtain r s1 where q: "post_movement E mv s = Inr (r, s1)" using Inr by (cases y) simp
    then have "s1 = s \<and> pr_created_entries r \<noteq> 2"
      using assms by (cases rule: post_movement_cases) (auto simp: quantize_cents)
    then show ?thesis using p q by (auto simp: post_and_update_def)
  qed
qed

lemma sim_post_books:
  assumes "post_and_update E mv e' s = (c, m)" and "books s" and "get_escrow (es_id e) s = Some e" and "0 < a"
    and "mv = funding_movement ref a d cur (es_id e) \<and> e' = funded_by a e \<or> mv = outflow_movement kind ref a d cur (es_id e) \<and> e' = paid_by kind a e"
  shows "(c = None \<or> (\<exists>d. c = Some d \<and> \<not> books d)) \<and> (\<forall>n s'. m = Inr (n, s') \<longrightarrow> books s')"
proof -
  have i: "mv_escrow mv = es_id e" "mv_amount mv = dec_of_cents a"
    using assms(5) by (auto simp: funding_movement_def outflow_movement_def sim_movement_def)
  show ?thesis
  proof (cases "\<bar>a\<bar> < 10 ^ 28")
    case True
    then have "es_id e' = es_id e \<and> held_part e' = held_part e + held_effect mv (movement_cents mv) \<and> held_effect mv (movement_cents mv) \<noteq> 0"
      using assms(4,5) sim_effects [OF True] by (auto simp: sim_parts)
    then show ?thesis using post_and_update_books [OF assms(1,2), of e] assms(3) i by simp
  next
    case False
    then show ?thesis using post_large [OF False i(2) assms(1)] assms(2) by auto
  qed
qed

lemma sim_amount_Inr [simp]: "sim_amount a = Inr b \<longleftrightarrow> a = b \<and> 0 < a"
  by (auto simp: sim_amount_def)

lemma posted_kept:
  assumes "post_and_update E mv e' s1 = (c, m)" and "books s" and "books s1" and "get_escrow (es_id e) s1 = Some e" and "0 < a"
    and "mv = funding_movement ref a d cur (es_id e) \<and> e' = funded_by a e \<or> mv = outflow_movement kind ref a d cur (es_id e) \<and> e' = paid_by kind a e"
  shows "kept_or_torn s (case (c, m) of (committed, Inl x) \<Rightarrow> (case committed of None \<Rightarrow> s | Some d \<Rightarrow> d, Inl x) | (_, Inr (_, s2)) \<Rightarrow> (s2, Inr r))"
  using sim_post_books [OF assms(1,3-6)] by (auto simp: kept_or_torn_def split: sum.splits option.splits)

lemma store_collection_kept:
  assumes "books s" and "get_escrow (es_id e) s = Some e"
  shows "kept_or_torn s (store_collection E e q r s)"
proof (cases "bindE (sim_amount (fq_amount q)) (\<lambda>a. bindE (sim_currency (fq_currency q)) (\<lambda>c. Inr (a, c)))")
  case (Inl x)
  then show ?thesis by (simp add: store_collection_def kept_or_torn_def)
next
  case (Inr y)
  then obtain cur where y: "y = (fq_amount q, cur)" "0 < fq_amount q" by (auto simp: bindE_eq_Inr)
  define c where "c = new_collection E (e_uuid E (d_draws s)) e q (fq_amount q) cur r"
  define s1 where "s1 = s\<lparr>d_collections := d_collections s @ [c], d_draws := Suc (d_draws s)\<rparr>"
  have s1: "books s1" "get_escrow (es_id e) s1 = Some e"
    using assms books_frame [of s1 s] by (simp_all add: s1_def get_escrow_def)
  obtain cm m where p: "post_and_update E (funding_movement (cx_provider_reference r) (fq_amount q) ''Simulated custody funding'' cur (es_id e))
      (funded_by (fq_amount q) e) s1 = (cm, m)" by force
  show ?thesis
    unfolding store_collection_def Inr y sum.case prod.case Let_def c_def [symmetric] s1_def [symmetric] p
    using posted_kept [OF p assms(1) s1 y(2), of "cx_provider_reference r" "''Simulated custody funding''" cur kind r] assms(1) s1(1)
    by simp
qed

lemma store_payout_kept:
  assumes "books s" and "get_escrow (es_id e) s = Some e"
  shows "kept_or_torn s (store_payout E kind e q r s)"
proof (cases "bindE (sim_amount (pq_amount q)) (\<lambda>a. bindE (sim_currency (pq_currency q)) (\<lambda>c.
    bindE (case existing_open_payout_attempt (es_id e) (pq_purpose q) (attempt_outcome_from_payout (px_outcome r)) s of
        None \<Rightarrow> insert_payout (answered_payout kind q a c r (new_sim_payout E (e_uuid E (d_draws s)) e (pq_purpose q))) (s\<lparr>d_draws := Suc (d_draws s)\<rparr>)
      | Some p \<Rightarrow> Inr (put_payout (answered_payout kind q a c r p) s)) (\<lambda>s1. Inr (a, c, s1))))")
  case (Inl x)
  show ?thesis unfolding store_payout_def Inl by (simp add: kept_or_torn_def)
next
  case (Inr y)
  then obtain cur s1 where y: "y = (pq_amount q, cur, s1)" "0 < pq_amount q"
    and "d_escrows s1 = d_escrows s \<and> d_ledger s1 = d_ledger s"
    by (fastforce simp: bindE_eq_Inr insert_payout_def put_payout_def split: option.splits if_splits)
  then have s1: "books s1" "get_escrow (es_id e) s1 = Some e"
    using assms books_frame [of s1 s] by (simp_all add: get_escrow_def)
  obtain cm m where p: "post_and_update E (outflow_movement kind (px_provider_reference r) (pq_amount q) (''Simulated custody '' @ kind) cur (es_id e))
      (paid_by kind (pq_amount q) e) s1 = (cm, m)" by force
  show ?thesis unfolding store_payout_def Inr y sum.case prod.case p
    using posted_kept [OF p assms(1) s1 y(2), of "px_provider_reference r" "''Simulated custody '' @ kind" cur kind r] s1(1)
    by simp
qed

lemma reference_escrow: "get_escrow_from_reference ref s = Inr e \<Longrightarrow> get_escrow (es_id e) s = Some e"
  by (auto simp: get_escrow_from_reference_def bindE_eq_Inr dest: escrows.get_key split: option.splits)

lemma sp_funding_kept: "books s \<Longrightarrow> kept_or_torn s (fst (sp_request_funding E rail q s w))"
  using store_collection_kept reference_escrow
  by (fastforce simp: sp_request_funding_def kept_or_torn_def split: sum.splits prod.splits)

lemma sp_payout_kept: "books s \<Longrightarrow> kept_or_torn s (fst (sp_request_payout E rail kind q s w))"
  using store_payout_kept reference_escrow
  by (fastforce simp: sp_request_payout_def kept_or_torn_def split: sum.splits prod.splits)

text \<open>The administrator's step of an attempt.\<close>

lemma progress_kept:
  assumes "progress_money E moved missing eid mv f s1 = (c, m)" and "books s" and "books s1" and "0 < a"
    and "\<And>e. es_id e = eid \<Longrightarrow> mv = funding_movement ref a d cur eid \<and> f e = funded_by a e \<or> mv = outflow_movement kind ref a d cur eid \<and> f e = paid_by kind a e"
    and "\<And>n s2 x s3. k n s2 = Inr (x, s3) \<Longrightarrow> logs_only s2 s3"
  shows "kept_or_torn s (atomic (case c of None \<Rightarrow> s | Some d \<Rightarrow> d) (bindE m (\<lambda>(n, s2). k n s2)))"
proof -
  have cm: "(c = None \<or> (\<exists>d. c = Some d \<and> \<not> books d)) \<and> (\<forall>n s'. m = Inr (n, s') \<longrightarrow> books s')"
  proof (cases "moved \<and> get_escrow eid s1 \<noteq> None")
    case False
    then show ?thesis using assms(1,3) by (auto simp: progress_money_def split: if_splits)
  next
    case True
    then obtain e where e: "get_escrow eid s1 = Some e" by auto
    then have i: "es_id e = eid" by (rule escrows.get_key)
    have "post_and_update E mv (f e) s1 = (c, m)" using assms(1) True e by (simp add: progress_money_def)
    then show ?thesis using sim_post_books [of E mv "f e" s1 c m e a ref d cur kind] assms(3,4) assms(5) [OF i] e i by simp
  qed
  show ?thesis
  proof (cases "bindE m (\<lambda>(n, s2). k n s2)")
    case (Inl x)
    then show ?thesis using cm by (cases c) auto
  next
    case (Inr y)
    then obtain n s2 x s3 where q: "m = Inr (n, s2)" "k n s2 = Inr (x, s3)" "y = (x, s3)" by (cases y) (auto simp: bindE_eq_Inr)
    then have "books s3" using cm assms(6) logs_only_frame books_frame [of s3 s2] by metis
    then show ?thesis using Inr q(3) by simp
  qed
qed

lemma admin_audit_logs: "admin_audit E admin action reason eid att ref a cur ds s = Inr s' \<Longrightarrow> logs_only s s'"
  by (auto simp: admin_audit_def dest: log_steps)

lemma latest_in: "latest_by_time at cr rows = Some r \<Longrightarrow> r \<in> set rows"
  by (auto simp: latest_by_time_def split: list.splits dest: arg_cong [where f = set])

definition attempts_positive :: "db \<Rightarrow> bool" where
  "attempts_positive s = ((\<forall>c \<in> set (d_collections s). 0 < co_amount c) \<and> (\<forall>p \<in> set (d_payouts s). 0 < po_amount p))"

lemma progress_collection_kept:
  assumes "books s" and "attempts_positive s"
  shows "kept_or_torn s (progress_simulated_collection_scenario E X ref admin s)"
proof (cases "latest_collection_by_reference ref s")
  case None
  then show ?thesis by (simp add: progress_simulated_collection_scenario_def)
next
  case (Some c)
  then have pos: "0 < co_amount c" using assms(2) by (auto simp: latest_collection_by_reference_def attempts_positive_def dest: latest_in)
  show ?thesis
  proof (cases "bindE (build_simulated_rail X) (\<lambda>R. next_collection_status R ref c)")
    case (Inl x)
    then show ?thesis using Some by (simp add: progress_simulated_collection_scenario_def)
  next
    case (Inr r)
    define c' where "c' = c\<lparr>co_outcome := attempt_outcome_from_payout (cx_outcome r), co_response_snapshot := collection_result_payload r,
      co_failure_code := answer_failure_code (attempt_outcome_from_payout (cx_outcome r)) (cx_raw_status r),
      co_failure_reason := answer_failure_reason (attempt_outcome_from_payout (cx_outcome r)) (cx_message r), co_attempted_at := e_now E\<rparr>"
    obtain cm m where p: "progress_money E (cx_outcome r = R_SUCCEEDED) ''Escrow for collection attempt was not found.'' (co_escrow c)
        (funding_movement ref (co_amount c) ''Simulated custody funding (admin progression)'' (co_currency c) (co_escrow c))
        (funded_by (co_amount c)) (put_collection c' s) = (cm, m)" by force
    have b: "books (put_collection c' s)" using assms(1) books_frame [of "put_collection c' s" s] by (simp add: put_collection_def)
    show ?thesis
      unfolding progress_simulated_collection_scenario_def Some Inr option.case sum.case Let_def c'_def [symmetric] p prod.case
      by (rule progress_kept [OF p assms(1) b pos]) (auto simp: bindE_eq_Inr dest: admin_audit_logs)
  qed
qed

lemma progress_payout_kept:
  assumes "books s" and "attempts_positive s"
  shows "kept_or_torn s (progress_simulated_payout_scenario E X ref admin s)"
proof (cases "latest_payout_by_reference ref s")
  case None
  then show ?thesis by (simp add: progress_simulated_payout_scenario_def)
next
  case (Some p)
  then have pos: "0 < po_amount p" using assms(2) by (auto simp: latest_payout_by_reference_def attempts_positive_def dest: latest_in)
  show ?thesis
  proof (cases "infer_payout_type p")
    case None
    then show ?thesis using Some by (simp add: progress_simulated_payout_scenario_def)
  next
    case kind: (Some kind)
    show ?thesis
    proof (cases "bindE (build_simulated_rail X) (\<lambda>R. next_payout_status R ref p)")
      case (Inl x)
      then show ?thesis using Some kind by (simp add: progress_simulated_payout_scenario_def)
    next
      case (Inr r)
      define p' where "p' = p\<lparr>po_outcome := attempt_outcome_from_payout (px_outcome r), po_response_snapshot := payout_result_payload r,
        po_failure_code := answer_failure_code (attempt_outcome_from_payout (px_outcome r)) (px_raw_status r),
        po_failure_reason := answer_failure_reason (attempt_outcome_from_payout (px_outcome r)) (px_message r), po_attempted_at := e_now E\<rparr>"
      obtain cm m where q: "progress_money E (px_outcome r = R_SUCCEEDED) ''Escrow for payout attempt was not found.'' (po_escrow p)
          (outflow_movement kind ref (po_amount p) (''Simulated custody '' @ kind @ '' (admin progression)'') (po_currency p) (po_escrow p))
          (paid_by kind (po_amount p)) (put_payout p' s) = (cm, m)" by force
      have b: "books (put_payout p' s)" using assms(1) books_frame [of "put_payout p' s" s] by (simp add: put_payout_def)
      show ?thesis
        unfolding progress_simulated_payout_scenario_def Some kind Inr option.case sum.case Let_def p'_def [symmetric] q prod.case
        by (rule progress_kept [OF q assms(1) b pos]) (auto simp: bindE_eq_Inr dest: admin_audit_logs)
    qed
  qed
qed

end
