(* ===== verification/Payout_Queue.thy ===== *)
theory Payout_Queue
  imports Payout_Executor
begin

text \<open>
  The order in which the payout executor serves its queue. A run claims by creation time and leaves an
  attempt it cannot decide at the head, so what a run decides is exactly how far the others advance.
\<close>

definition waiting :: "payout_attempt \<Rightarrow> db \<Rightarrow> nat" where
  "waiting q s = length (filter (\<lambda>p. po_outcome p = UNKNOWN \<and> po_created_at p \<le> po_created_at q) (d_payouts s))"

section \<open>The head of a sorted list\<close>

lemma sorted_head:
  assumes "sorted (map k l)" and "q \<in> set l" and "q \<notin> set (take n l)" and "p \<in> set (take n l)"
  shows "k p \<le> k q"
proof -
  have "sorted (map k (take n l) @ map k (drop n l))" using assms(1) by (simp flip: map_append)
  moreover have "q \<in> set (drop n l)" using assms(2,3) by (metis Un_iff append_take_drop_id set_append)
  ultimately show ?thesis using assms(4) by (auto simp: sorted_append)
qed

lemma head_length: "q \<in> set l \<Longrightarrow> q \<notin> set (take n l) \<Longrightarrow> length (take n l) = n"
  by (cases "n \<le> length l") auto

lemma length_filter_sort: "length (filter P (sort_key k xs)) = length (filter P xs)"
  by (simp flip: size_mset add: mset_filter)

lemma claimed_sub: "set (claimed_attempts batch s) \<subseteq> {p \<in> set (d_payouts s). po_outcome p = UNKNOWN}"
  by (auto simp: claimed_attempts_def dest!: in_set_takeD)

lemma not_claimed:
  assumes "q \<in> set (d_payouts s)" and "po_outcome q = UNKNOWN" and "q \<notin> set (claimed_attempts batch s)"
  shows "\<forall>p \<in> set (claimed_attempts batch s). po_created_at p \<le> po_created_at q" and "nat batch < waiting q s"
proof -
  define k where "k = (\<lambda>p :: payout_attempt. (po_created_at p, po_attempted_at p))"
  define l where "l = sort_key k (filter (\<lambda>p. po_outcome p = UNKNOWN) (d_payouts s))"
  have c: "claimed_attempts batch s = take (nat batch) l" by (simp add: claimed_attempts_def l_def k_def)
  have l: "sorted (map k l)" "q \<in> set l" using assms(1,2) by (simp_all add: l_def)
  show older: "\<forall>p \<in> set (claimed_attempts batch s). po_created_at p \<le> po_created_at q"
    using sorted_head [OF l, of "nat batch"] assms(3) unfolding c by (force simp: k_def less_eq_prod_def)
  let ?P = "\<lambda>p. po_created_at p \<le> po_created_at q"
  have drop: "q \<in> set (drop (nat batch) l)" using l(2) assms(3) unfolding c by (metis Un_iff append_take_drop_id set_append)
  have "nat batch = length (filter ?P (take (nat batch) l))"
    using head_length [OF l(2)] assms(3) older unfolding c by (simp add: filter_True)
  also have "\<dots> < length (filter ?P (take (nat batch) l)) + length (filter ?P (drop (nat batch) l))"
    using drop by (auto simp: filter_empty_conv)
  also have "\<dots> = length (filter ?P l)" by (simp flip: length_append filter_append)
  also have "\<dots> = waiting q s" unfolding l_def length_filter_sort by (simp add: waiting_def conj_commute)
  finally show "nat batch < waiting q s" .
qed

section \<open>What a step decides\<close>

lemma length_filter_put:
  assumes "distinct (map key rows)" and "row_get key (key r) rows = Some r0"
  shows "length (filter P (row_put key r rows)) + (if P r0 then 1 else 0) = length (filter P rows) + (if P r then 1 else 0)"
  using assms
proof (induction rows)
  case (Cons x rows)
  show ?case
  proof (cases "key x = key r")
    case True
    then have "row_put key r rows = rows" using Cons.prems(1) by (intro row_put_absent) auto
    then show ?thesis using True Cons.prems(2) by (simp add: row_put_Cons)
  next
    case False
    then show ?thesis using Cons by (auto simp: row_put_Cons)
  qed
qed simp

lemma booked_waiting:
  assumes "booked p oc paid s s'" and "keys_unique s" and "row_get po_id (po_id p) (d_payouts s) = Some p" and "po_outcome p = UNKNOWN"
    and "po_created_at p \<le> po_created_at q"
  shows "waiting q s' + (if oc = UNKNOWN then 0 else 1) = waiting q s"
proof -
  obtain p' where p': "same_attempt p p'" "po_outcome p' = oc" "d_payouts s' = row_put po_id p' (d_payouts s)"
    using assms(1) by (auto simp: booked_def)
  then have "row_get po_id (po_id p') (d_payouts s) = Some p" using assms(3) by (simp add: same_attempt_def)
  from length_filter_put [OF _ this, of "\<lambda>p. po_outcome p = UNKNOWN \<and> po_created_at p \<le> po_created_at q"]
  show ?thesis using p' assms(2,4,5) by (auto simp: waiting_def keys_unique_def same_attempt_def split: if_splits)
qed

definition decided :: "attempt_outcome list \<Rightarrow> nat" where
  "decided os = count_list os SUCCEEDED + count_list os FAILED_DEFINITE"

lemma decided_Cons [simp]: "decided (oc # os) = (if oc = UNKNOWN then 0 else 1) + decided os"
  by (cases oc) (simp_all add: decided_def)

lemma execute_all_waiting:
  assumes "execute_all E R now ps stored s w = ((st, Inr (os, s')), w')" and "keys_unique s" and "pending_rows ps s"
    and "\<forall>p \<in> set ps. po_created_at p \<le> po_created_at q" and "po_id q \<notin> po_id ` set ps"
  shows "waiting q s' + decided os = waiting q s \<and> row_get po_id (po_id q) (d_payouts s') = row_get po_id (po_id q) (d_payouts s)"
  using assms
proof (induction ps arbitrary: stored s w st os w')
  case (Cons p ps)
  from Cons.prems(1) show ?case
  proof (cases rule: execute_all_Cons)
    case (went_on c oc s1 w1 m2)
    obtain os' where m: "m2 = Inr (os', s')" "os = oc # os'" using went_on(3) [symmetric] by (auto simp: bindE_eq_Inr)
    note a = attempt_executed [OF went_on(1) Cons.prems(2,3)]
    obtain paid where b: "booked p oc paid s s1" using went_on(1) by (auto elim: execute_attempt_booked)
    have p: "row_get po_id (po_id p) (d_payouts s) = Some p" "po_outcome p = UNKNOWN" using Cons.prems(3) by (auto simp: pending_rows_def)
    have "waiting q s1 + (if oc = UNKNOWN then 0 else 1) = waiting q s"
      by (rule booked_waiting [OF b Cons.prems(2) p]) (use Cons.prems(4) in simp)
    moreover have "row_get po_id (po_id q) (d_payouts s1) = row_get po_id (po_id q) (d_payouts s)"
      using b Cons.prems(5) by (auto simp: booked_def row_get_put same_attempt_def)
    moreover have "waiting q s' + decided os' = waiting q s1 \<and> row_get po_id (po_id q) (d_payouts s') = row_get po_id (po_id q) (d_payouts s1)"
      by (rule Cons.IH [OF went_on(2) [unfolded m(1)] a(2,3)]) (use Cons.prems(4,5) in auto)
    ultimately show ?thesis using m(2) by simp
  qed simp
qed (simp add: decided_def)

text \<open>
  An undecided attempt that a run does not claim stays as it is, and there are as many fewer in front of
  it as the run decided: with none decided it waits where it was.
\<close>

lemma run_waiting:
  assumes "run_payout_executor_once E R batch n s w = ((s', Inr x), w')" and "keys_unique s"
    and "q \<in> set (d_payouts s)" and "po_outcome q = UNKNOWN" and "q \<notin> set (claimed_attempts batch s)"
  shows "q \<in> set (d_payouts s') \<and> waiting q s' + xr_succeeded x + xr_failed_definite x = waiting q s"
  using assms(1)
proof (cases rule: run_cases)
  case idle
  then show ?thesis using assms(3) by (simp add: run_result_def)
next
  case (ran now st m)
  then obtain os where os: "m = Inr (os, s')" "x = run_result os" by (cases m) auto
  have inj: "po_id p = po_id q \<Longrightarrow> p \<in> set (d_payouts s) \<Longrightarrow> p = q" for p
    using assms(2,3) by (auto simp: keys_unique_def distinct_map dest: inj_onD)
  have "po_id q \<notin> po_id ` set (claimed_attempts batch s)" using inj assms(5) claimed_sub [of batch s] by auto
  from execute_all_waiting [OF ran(1) [unfolded os(1)] assms(2) claimed_pending [OF assms(2)] not_claimed(1) [OF assms(3-5)] this]
  have "waiting q s' + decided os = waiting q s" "row_get po_id (po_id q) (d_payouts s') = row_get po_id (po_id q) (d_payouts s)" by simp_all
  moreover have "row_get po_id (po_id q) (d_payouts s) = Some q" using assms(2,3) by (simp add: keys_unique_def row_get_unique)
  ultimately show ?thesis using os(2) by (auto simp: decided_def run_result_def dest!: row_get_SomeD)
qed

end
