(* ===== verification/Provider_Guarantees.thy ===== *)
theory Provider_Guarantees
  imports Payment_Guarantees Webhooks Simulated_Custody Payout_Queue
begin

text \<open>
  The promises about the payment providers: what a callback can change and what it leaves behind, what
  is stored of a provider's texts, the simulated provider's books, and the order of the payout queue.
\<close>

section \<open>Samples\<close>

definition sample_answer :: "rail_outcome \<Rightarrow> string \<Rightarrow> collection_result" where
  "sample_answer out ref = \<lparr>cx_outcome = out, cx_provider_reference = ref, cx_raw_status = None, cx_message = None, cx_metadata = None\<rparr>"

definition sample_webhook :: "rail_outcome \<Rightarrow> unit webhook" where
  "sample_webhook out = \<lparr>wh_inquiry = (\<lambda>ref w. (Inr (sample_answer out ref), w)), wh_sha256 = id, wh_parse_time = (\<lambda>t. Some 0)\<rparr>"

definition sample_body :: dict where
  "sample_body = [(''OrderTrackingId'', JStr ''t1''), (''phoneNumber'', JStr ''+254700000001'')]"

lemmas eval_callback = process_loop_collection_webhook_def process_pesapal_collection_webhook_def verify_callback_signature_def
  reject_unauthenticated_callback_def store_callback_def insert_event_def find_event_def new_event_def processed_def inquiry_snapshot_def
  audit_funding_def recorded_result_def duplicate_result_def as_valid_def webhook_result.defs loop_webhook_result.defs
  request_snapshot_def signature_fingerprint_def loop_event_type_def
  build_dedupe_key_def loop_texts_def pesapal_texts_def
  sample_webhook_def sample_answer_def

lemma sample_body_read: "extract_text sample_body LOOP_REFERENCE_KEYS = None" "extract_text sample_body LOOP_EVENT_ID_KEYS = None"
  "extract_text sample_body LOOP_EVENT_TYPE_KEYS = None" "extract_text sample_body PESAPAL_REFERENCE_KEYS = Some ''t1''"
  "extract_text sample_body PESAPAL_EVENT_ID_KEYS = None"
  "redact_fields PESAPAL_SENSITIVE_KEYS sample_body = [(''OrderTrackingId'', JStr ''t1''), (''phoneNumber'', JStr ''***'')]"
  by code_simp+

section \<open>Callbacks\<close>

text \<open>C12: A Loop callback whose signature does not verify asks the provider nothing, writes no money audit,
  changes nothing but the recorded events and the anchoring log, and cannot take the key under which
  an authentic callback, of whatever reference, event or body, would be recorded.\<close>

lemma forged_callback_is_inert:
  assumes "process_loop_collection_webhook E W body raw hs secret n skew s w = ((s', r), w')"
    and "verify_callback_signature E W hs raw secret (case n of None \<Rightarrow> e_now E | Some t \<Rightarrow> t) skew \<noteq> Inr SIGNATURE_VALID"
  shows "w' = w \<and> logs_only (s\<lparr>d_events := d_events s'\<rparr>) s' \<and> d_audits s' = d_audits s \<and>
    (\<forall>p sha ref i b. find_event p (build_dedupe_key sha ref i b) s' = find_event p (build_dedupe_key sha ref i b) s) \<and>
    (\<forall>x. r = Inr x \<longrightarrow> \<not> wr_accepted x)"
  by (rule forged_callback [OF assms])

definition forged_run :: "(db \<times> (exn + loop_webhook_result)) \<times> unit" where
  "forged_run = process_loop_collection_webhook (sample_env 7) (sample_webhook R_SUCCEEDED) sample_body ''raw'' [] ''key'' None 300
     (sample_db False [] []) ()"

lemma forged_run: "map pe_dedupe_key (d_events (fst (fst forged_run))) = [''rejected:|raw'']"
  unfolding forged_run_def by (simp add: eval_callback sample_body_read evaluate cong: argument_first)

lemma forged_callback_is_inert_witness: "d_audits (fst (fst forged_run)) = [] \<and> map pe_dedupe_key (d_events (fst (fst forged_run))) = [''rejected:|raw'']"
  using forged_callback_is_inert [of "sample_env 7" "sample_webhook R_SUCCEEDED" sample_body "''raw''" "[]" "''key''" None 300 "sample_db False [] []" "()"
      "fst (fst forged_run)" "snd (fst forged_run)" "()"] forged_run
  by (simp add: forged_run_def verify_callback_signature_def Let_def sample_db_def prod_eq_iff)

text \<open>C16: The first Pesapal callback for a reference settles what is known of it: every later callback with
  that reference, by whoever sent it and whatever the provider would now say, is answered as a
  duplicate with the outcome recorded first, changes nothing and asks the provider nothing.\<close>

lemma first_callback_settles_reference:
  assumes "process_pesapal_collection_webhook E W body raw s w = ((s', Inr r), w')"
    and "extract_text body PESAPAL_REFERENCE_KEYS = Some ref" and "extract_text body' PESAPAL_REFERENCE_KEYS = Some ref"
  shows "\<exists>r'. process_pesapal_collection_webhook E' W' body' raw' s' w2 = ((s', Inr r'), w2) \<and> wr_duplicate r' \<and>
    wr_inquiry_outcome r' = wr_inquiry_outcome r"
  by (rule pesapal_replay [OF assms])

definition early_run :: "(db \<times> (exn + webhook_result)) \<times> unit" where
  "early_run = process_pesapal_collection_webhook (sample_env 7) (sample_webhook R_UNKNOWN) sample_body ''a'' (sample_db False [] []) ()"

lemma early_run: "\<exists>r. snd (fst early_run) = Inr r \<and> wr_inquiry_outcome r = Some R_UNKNOWN"
  "extract_text sample_body PESAPAL_REFERENCE_KEYS = Some ''t1''"
  unfolding early_run_def by (simp_all add: eval_callback sample_body_read evaluate cong: argument_first)

lemma first_callback_settles_reference_witness:
  "\<exists>r. process_pesapal_collection_webhook (sample_env 900) (sample_webhook R_SUCCEEDED) sample_body ''b'' (fst (fst early_run)) () =
     ((fst (fst early_run), Inr r), ()) \<and> wr_inquiry_outcome r = Some R_UNKNOWN"
proof -
  obtain r where r: "snd (fst early_run) = Inr r" "wr_inquiry_outcome r = Some R_UNKNOWN" using early_run(1) by blast
  have "process_pesapal_collection_webhook (sample_env 7) (sample_webhook R_UNKNOWN) sample_body ''a'' (sample_db False [] []) () =
      ((fst (fst early_run), Inr r), ())"
    unfolding early_run_def [symmetric] using r(1) by (simp add: prod_eq_iff)
  from first_callback_settles_reference [OF this early_run(2) early_run(2)] show ?thesis using r(2) by metis
qed



text \<open>The text stored and logged of a provider's exception has no run of ten or more digits in it, so no
  phone number, in whatever the exception said.\<close>

lemma stored_errors_have_no_phone: "phone_free (safe_error_message x)"
  by (rule safe_message_phone_free)

section \<open>The simulated provider\<close>

text \<open>The reference the simulated provider gives out for an escrow is read back as that escrow, for
  every identifier of 128 bits.\<close>

lemma escrow_reference_round_trip:
  assumes "u < 2 ^ 128"
  shows "parse_escrow_reference (format_escrow_reference u) = Inr u"
  by (rule escrow_reference_read [OF assms])

lemma escrow_reference_round_trip_witness:
  "parse_escrow_reference ''sim-escrow-00000000-0000-0000-0000-00000000000a'' = Inr 10"
  using escrow_reference_round_trip [of 10] by (simp add: format_escrow_reference_def SIMULATED_ESCROW_REFERENCE_PREFIX_def sample_ids)






section \<open>The payout queue\<close>

text \<open>C9: Liveness of the payout queue: an undecided attempt with at most a batch of undecided attempts
  created no later, itself among them, is claimed by the next run; one that a run does not claim stays
  as it is and comes nearer by exactly the attempts the run decided. A full batch of attempts that no
  run decides therefore keeps every later attempt waiting for ever.\<close>

lemma payout_queue_advances:
  assumes "run_payout_executor_once E R batch n s w = ((s', Inr x), w')" and "keys_unique s"
    and "q \<in> set (d_payouts s)" and "po_outcome q = UNKNOWN"
  shows "(waiting q s \<le> nat batch \<longrightarrow> q \<in> set (claimed_attempts batch s)) \<and>
    (q \<notin> set (claimed_attempts batch s) \<longrightarrow> q \<in> set (d_payouts s') \<and> waiting q s' + xr_succeeded x + xr_failed_definite x = waiting q s)"
  using not_claimed(2) [OF assms(3,4)] run_waiting [OF assms] by fastforce

definition refusing_rails :: "unit payout_rails" where
  "refusing_rails = eager_rails\<lparr>rl_request := (\<lambda>rail q w. (Inl (RuntimeError ''down''), w))\<rparr>"

definition later_attempt :: payout_attempt where
  "later_attempt = (sample_attempt 9 ''refund'' None 50000)\<lparr>po_created_at := 1\<rparr>"

definition stuck_run :: "(db \<times> (exn + executor_result)) \<times> unit" where
  "stuck_run = run_payout_executor_once (sample_env 7) refusing_rails 1 None (payout_db [sample_attempt 8 ''release'' None 100000, later_attempt]) ()"

lemma stuck_run: "snd (fst stuck_run) = Inr (run_result [UNKNOWN])"
  unfolding stuck_run_def
  by (simp add: eval_payout payout_samples refusing_rails_def later_attempt_def evaluate sample_phone payout_ids cong: argument_first)

lemma payout_queue_advances_witness: "later_attempt \<in> set (d_payouts (fst (fst stuck_run))) \<and> waiting later_attempt (fst (fst stuck_run)) = 2"
proof -
  let ?s = "payout_db [sample_attempt 8 ''release'' None 100000, later_attempt]"
  have k: "keys_unique ?s" "later_attempt \<in> set (d_payouts ?s)" "po_outcome later_attempt = UNKNOWN" "waiting later_attempt ?s = 2"
    by (simp_all add: keys_unique_def payout_samples sample_db_def later_attempt_def waiting_def)
  have "claimed_attempts 1 ?s = [sample_attempt 8 ''release'' None 100000]"
    by (simp add: claimed_attempts_def payout_samples sample_db_def later_attempt_def)
  then have "later_attempt \<notin> set (claimed_attempts 1 ?s)" by (simp add: later_attempt_def sample_attempt_def)
  moreover have "run_payout_executor_once (sample_env 7) refusing_rails 1 None ?s () = ((fst (fst stuck_run), Inr (run_result [UNKNOWN])), ())"
    unfolding stuck_run_def [symmetric] using stuck_run by (simp add: prod_eq_iff)
  note payout_queue_advances [OF this k(1-3)]
  ultimately show ?thesis using k(4) by (simp add: run_result_def)
qed

end
