(* ===== verification/Catalog_Guarantees.thy ===== *)
theory Catalog_Guarantees
  imports Guarantees Listings
begin

text \<open>The promises about listings and the lists users see.\<close>

section \<open>Listings\<close>



text \<open>The pages of a seller's list, in order, are the seller's shown listings: none is shown twice and
  none is left out.\<close>

lemma seller_pages_cover:
  assumes "length (shown_listings u st q s) \<le> n * psize"
  shows "concat (map (\<lambda>p. pg_items (list_seller_listings u st q (Suc p) psize s)) [0..<n]) = shown_listings u st q s"
  using pages_partition [OF assms] by (simp add: listing_page_items)

lemma seller_pages_cover_witness:
  "concat (map (\<lambda>p. pg_items (list_seller_listings 2 None None (Suc p) 1 (sample_db False [] []))) [0..<2]) =
     shown_listings 2 None None (sample_db False [] [])"
  by (rule seller_pages_cover) (simp add: shown_listings_def seller_listings_def sample_db_def sample_listing_def py_lower_def)

section \<open>Selling once\<close>

definition paid_callback :: "uuid \<Rightarrow> payment_callback" where
  "paid_callback i = \<lparr>cb_transaction = i, cb_result_code = 0, cb_result_desc = None, cb_checkout_request_id = None,
     cb_merchant_request_id = None, cb_provider_reference = None\<rparr>"

lemma callback_locks:
  assumes "get_transaction i s = Some t" and "tx_status t = AWAITING_PAYMENT" and "tx_custody_provider t = ''simulated''"
    and "d_tables s = [''users'', ''transactions'', ''escrows'', ''payout_attempts'']" and "d_prompts s = []"
  shows "\<exists>t' s1. fst (perform (sample_env n) (PaymentCallback (paid_callback i)) s) = s1 \<and> tx_status t' = LOCKED \<and> tx_id t' = i \<and>
    d_transactions s1 = row_put tx_id t' (d_transactions s) \<and> d_tables s1 = d_tables s \<and> d_prompts s1 = []"
proof -
  have id: "tx_id t = i" using transactions.get_key [OF assms(1)] .
  have p: "py_lower (strip ''simulated'') = ''simulated''" by code_simp
  have "tx_status (t\<lparr>tx_status := LOCKED, tx_locked_at := Some n\<rparr>) \<noteq> tx_status t" using assms(2) by simp
  then have ne: "t \<noteq> t\<lparr>tx_status := LOCKED, tx_locked_at := Some n\<rparr>" by metis
  show ?thesis
    by (rule exI [of _ "t\<lparr>tx_status := LOCKED, tx_locked_at := Some n, tx_updated_at := n\<rparr>"], rule exI, rule conjI [OF refl])
     (use assms id ne in \<open>simp add: get_transaction_def confirm_payment_callback_def paid_callback_def lock_body_def record_simulated_callback_funding_def p PROVIDER_ECONFIRM_def
      PROVIDER_SIMULATED_def resolve_open_prompt_def latest_payment_prompt_def newest_def create_locked_notifications_def ledger_ready_def
      eval_log save_transaction_def put_transaction_def atomic_def Let_def sample_env_def sample_settings_def cong: argument_first\<close>)
qed

text \<open>A listing is not sold once only: with two unpaid orders of one listing, both payment callbacks
  lock their order, because only the creation of an order checks that the listing is not sold.\<close>

lemma listing_can_be_paid_twice:
  "map tx_status (d_transactions (run [(sample_env 7, PaymentCallback (paid_callback 10)), (sample_env 8, PaymentCallback (paid_callback 11))]
     (sample_db False [sample_order 10 AWAITING_PAYMENT, sample_order 11 AWAITING_PAYMENT] []))) = [LOCKED, LOCKED]"
proof -
  let ?s = "sample_db False [sample_order 10 AWAITING_PAYMENT, sample_order 11 AWAITING_PAYMENT] []"
  have o: "tx_custody_provider (sample_order i st) = ''simulated''" for i st by (simp add: sample_order_def)
  have tabs: "d_tables ?s = [''users'', ''transactions'', ''escrows'', ''payout_attempts'']" "d_prompts ?s = []" by (simp_all add: sample_db_def)
  have "get_transaction 10 ?s = Some (sample_order 10 AWAITING_PAYMENT)" by simp
  from callback_locks [OF this _ o tabs, of 7] obtain t1 s1 where 1: "fst (perform (sample_env 7) (PaymentCallback (paid_callback 10)) ?s) = s1"
    "tx_status t1 = LOCKED" "tx_id t1 = 10" "d_transactions s1 = row_put tx_id t1 (d_transactions ?s)" "d_tables s1 = d_tables ?s" "d_prompts s1 = []"
    by auto
  then have txs: "d_transactions s1 = [t1, sample_order 11 AWAITING_PAYMENT]" by (simp add: row_put_def)
  then have "get_transaction 11 s1 = Some (sample_order 11 AWAITING_PAYMENT)" using 1(3) by (simp add: get_transaction_def)
  from callback_locks [OF this _ o _ 1(6), of 8] obtain t2 s2 where 2: "fst (perform (sample_env 8) (PaymentCallback (paid_callback 11)) s1) = s2"
    "tx_status t2 = LOCKED" "tx_id t2 = 11" "d_transactions s2 = row_put tx_id t2 (d_transactions s1)"
    using 1(5) tabs by auto
  show ?thesis unfolding run.simps 1(1) 2(1) using 1(2,3) 2(2,3,4) txs by (simp add: row_put_def)
qed

end
