(* ===== verification/Pesapal.thy ===== *)
theory Pesapal
  imports Provider_Http Econfirm
begin

text \<open>
  The Pesapal adapter: access tokens (custody/pesapal_auth.py) and the collection rail
  (pesapal_collection.py). The HTTP transports and the parsing of ISO date texts are parameters; the
  adapter's state is its token cache beside the provider's world. The amount of an order is sent as a
  floating-point number, which the model represents by the text of the decimal.
\<close>

section \<open>Tokens\<close>

record pesapal_auth =
  pa_base_url :: string
  pa_consumer_key :: string
  pa_consumer_secret :: string
  pa_token_path :: string
  pa_refresh_skew :: time
  pa_default_ttl :: int
  pa_parse_iso :: "string \<Rightarrow> time option"

definition pesapal_token_manager :: "string \<Rightarrow> string \<Rightarrow> string \<Rightarrow> string \<Rightarrow> int \<Rightarrow> int \<Rightarrow> (string \<Rightarrow> time option) \<Rightarrow> pesapal_auth" where
  "pesapal_token_manager base key secret path skew ttl read_iso = \<lparr>pa_base_url = normal_base base, pa_consumer_key = strip key,
     pa_consumer_secret = strip secret, pa_token_path = or_text [Some (strip path)] ''/api/Auth/RequestToken'',
     pa_refresh_skew = seconds (max 0 skew), pa_default_ttl = max 1 ttl, pa_parse_iso = read_iso\<rparr>"

fun first_value :: "dict \<Rightarrow> string list \<Rightarrow> string json option" where
  "first_value d [] = None"
| "first_value d (k # ks) = (case get_value k d of None \<Rightarrow> first_value d ks | Some v \<Rightarrow> Some v)"

definition first_value_text :: "dict \<Rightarrow> string list \<Rightarrow> string" where
  "first_value_text d ks = (case first_value d ks of None \<Rightarrow> '''' | Some v \<Rightarrow> strip (value_text v))"

definition NESTED_RESPONSE_KEYS :: "string list" where
  "NESTED_RESPONSE_KEYS = [''data'', ''result'', ''response'']"

definition nested_dicts :: "dict \<Rightarrow> dict list" where
  "nested_dicts body = List.map_filter (\<lambda>k. case dict_get k body of Some (JObj n) \<Rightarrow> Some n | _ \<Rightarrow> None) NESTED_RESPONSE_KEYS"

fun nested_value :: "dict list \<Rightarrow> string list \<Rightarrow> string json option" where
  "nested_value [] ks = None"
| "nested_value (d # ds) ks = (case first_value d ks of None \<Rightarrow> nested_value ds ks | Some v \<Rightarrow> Some v)"

fun nested_text :: "dict list \<Rightarrow> string list \<Rightarrow> string" where
  "nested_text [] ks = ''''"
| "nested_text (d # ds) ks = (let t = first_value_text d ks in if t \<noteq> '''' then t else nested_text ds ks)"

definition extract_token :: "dict \<Rightarrow> string" where
  "extract_token body = (let ks = [''token'', ''access_token'', ''accessToken'', ''authorization_token'', ''authorizationToken'', ''bearer_token''];
     t = first_value_text body ks in if t \<noteq> '''' then t else nested_text (nested_dicts body) ks)"

definition parse_ttl_seconds :: "string json \<Rightarrow> int option" where
  "parse_ttl_seconds v = (case json_int v of None \<Rightarrow> None | Some n \<Rightarrow> if 0 < n then Some n else None)"

definition parse_datetime :: "pesapal_auth \<Rightarrow> string \<Rightarrow> time option" where
  "parse_datetime M v = (let candidate = strip v in
     if candidate = '''' then None
     else pa_parse_iso M (if last candidate = CHR ''Z'' then butlast candidate @ ''+00:00'' else candidate))"

definition extract_expiry :: "pesapal_auth \<Rightarrow> dict \<Rightarrow> time \<Rightarrow> exn + time" where
  "extract_expiry M body now = (let ttl_keys = [''expires_in'', ''expiresIn'', ''expiry_in'', ''expiryIn'', ''expires''];
       date_keys = [''expiryDate'', ''expiry_date'', ''expires_at'', ''expiresAt'', ''expiry''];
       ttl = (case first_value body ttl_keys of None \<Rightarrow> nested_value (nested_dicts body) ttl_keys | Some v \<Rightarrow> Some v);
       direct = first_value_text body date_keys;
       date = (if direct \<noteq> '''' then direct else nested_text (nested_dicts body) date_keys) in
     case Option.bind ttl parse_ttl_seconds of
       Some n \<Rightarrow> add_seconds now (max 1 n)
     | None \<Rightarrow> (case parse_datetime M date of Some t \<Rightarrow> Inr t | None \<Rightarrow> add_seconds now (pa_default_ttl M)))"

definition refresh_pesapal_token :: "'w http \<Rightarrow> pesapal_auth \<Rightarrow> time \<Rightarrow> token_cache \<times> 'w \<Rightarrow> (exn + string) \<times> token_cache \<times> 'w" where
  "refresh_pesapal_token http M now st = (let (c, w) = st in
     if pa_base_url M = '''' then (Inl (PesapalAuthError ''Pesapal base URL is required for token refresh.''), c, w)
     else if pa_consumer_key M = '''' \<or> pa_consumer_secret M = ''''
       then (Inl (PesapalAuthError ''Pesapal consumer credentials are required for token refresh.''), c, w)
     else (case http ''POST'' (absolute_url (pa_base_url M) (pa_token_path M)) [(''Content-Type'', ''application/json''), (''Accept'', ''application/json'')]
           (Some [(''consumer_key'', JStr (pa_consumer_key M)), (''consumer_secret'', JStr (pa_consumer_secret M))]) w of
         (Inl x, w') \<Rightarrow> (Inl (PesapalAuthError (''Pesapal auth transport error: '' @ exn_text x)), c, w')
       | (Inr r, w') \<Rightarrow> if ht_status_code r < 200 \<or> 300 \<le> ht_status_code r
           then (Inl (PesapalAuthError (''Failed to obtain Pesapal access token. HTTP '' @ int_str (ht_status_code r) @ '' '' @ take 180 (ht_text r))), c, w')
         else let token = extract_token (ht_body r) in
           if token = '''' then (Inl (PesapalAuthError ''Failed to obtain Pesapal access token: token field missing.''), c, w')
           else (case extract_expiry M (ht_body r) now of
               Inl x \<Rightarrow> (Inl x, c, w')
             | Inr t \<Rightarrow> (Inr token, \<lparr>tk_token = token, tk_expires_at = Some t\<rparr>, w'))))"

definition pesapal_access_token :: "'w http \<Rightarrow> pesapal_auth \<Rightarrow> time \<Rightarrow> token_cache \<times> 'w \<Rightarrow> (exn + string) \<times> token_cache \<times> 'w" where
  "pesapal_access_token http M now = cached_token (refresh_pesapal_token http M now) (pa_refresh_skew M) now"

section \<open>Requests\<close>

record 'w pesapal_rail =
  pr_base_url :: string
  pr_callback_url :: string
  pr_ipn_id :: string
  pr_auth :: pesapal_auth
  pr_token_http :: "'w http"
  pr_http :: "'w http"

text \<open>\<open>urlencode\<close> of one pair: a blank becomes a plus.\<close>

definition quote_plus :: "string \<Rightarrow> string" where
  "quote_plus v = concat (map (\<lambda>c. if c = CHR '' '' then ''+'' else quote_char c) v)"

definition pesapal_send ::
    "env \<Rightarrow> 'w pesapal_rail \<Rightarrow> string \<Rightarrow> string \<Rightarrow> dict option \<Rightarrow> (string \<times> string) option \<Rightarrow> token_cache \<times> 'w \<Rightarrow> (exn + http_reply) \<times> token_cache \<times> 'w" where
  "pesapal_send E R meth endpoint payload query st = (case pesapal_access_token (pr_token_http R) (pr_auth R) (e_now E) st of
       (Inl x, st1) \<Rightarrow> (Inl x, st1)
     | (Inr token, (c, w)) \<Rightarrow> (let url = pr_base_url R @ ''/'' @ dropWhile (\<lambda>c. c = CHR ''/'') endpoint;
         full = (case query of None \<Rightarrow> url | Some (k, v) \<Rightarrow> url @ ''?'' @ quote_plus k @ ''='' @ quote_plus v);
         (m, w') = pr_http R meth full [(''Authorization'', ''Bearer '' @ token), (''Content-Type'', ''application/json''), (''Accept'', ''application/json'')]
           payload w in
       (m, c, w')))"

section \<open>Reading responses\<close>

definition PESAPAL_FAILED_VALUES :: "string list" where
  "PESAPAL_FAILED_VALUES = [''failed'', ''fail'', ''declined'', ''rejected'', ''invalid'', ''error'', ''cancelled'', ''canceled'']"

definition PESAPAL_SUCCESS_STATES :: "string list" where
  "PESAPAL_SUCCESS_STATES = [''completed'', ''paid'', ''successful'', ''succeeded'']"

definition PESAPAL_FAILED_STATES :: "string list" where
  "PESAPAL_FAILED_STATES = [''failed'', ''cancelled'', ''canceled'', ''invalid'', ''rejected'']"

fun normalized_status :: "dict \<Rightarrow> string list \<Rightarrow> string" where
  "normalized_status d [] = ''''"
| "normalized_status d (k # ks) = (let v = py_lower (any_text d [k] '''') in if v \<noteq> '''' then v else normalized_status d ks)"

definition pesapal_metadata :: "string \<Rightarrow> string option \<Rightarrow> dict" where
  "pesapal_metadata tracking redirect = [(''order_tracking_id'', JStr tracking), (''redirect_url'', jopt redirect)]"

definition parse_submit :: "dict \<Rightarrow> string \<Rightarrow> collection_result" where
  "parse_submit body fallback = (let st = normalized_status body [''status'', ''status_code'', ''code'', ''message''];
       tracking = any_text body [''order_tracking_id'', ''orderTrackingId'', ''tracking_id''] '''';
       redirect = any_text body [''redirect_url'', ''redirectUrl'', ''redirect_url_link''] '''';
       message = none_if_empty (any_text body [''message'', ''error''] '''');
       ref = (if tracking \<noteq> '''' then tracking else ''pesapal-order-'' @ fallback);
       result = (\<lambda>out raw msg. \<lparr>cx_outcome = out, cx_provider_reference = ref, cx_raw_status = Some raw, cx_message = msg,
         cx_metadata = Some (pesapal_metadata ref (none_if_empty redirect))\<rparr>) in
     if tracking \<noteq> '''' \<and> redirect \<noteq> '''' then result R_SUCCEEDED (or_text [Some st] ''accepted'') message
     else if st \<in> set PESAPAL_FAILED_VALUES then result R_FAILED_DEFINITE st message
     else if tracking = '''' then result R_UNKNOWN (or_text [Some st] ''malformed_response'') (Some ''Pesapal submit-order response missing order tracking id.'')
     else result R_UNKNOWN (or_text [Some st] ''pending'') message)"

definition parse_status :: "dict \<Rightarrow> string \<Rightarrow> collection_result" where
  "parse_status body fallback = (let st = normalized_status body [''payment_status_description'', ''payment_status'', ''paymentStatus'', ''status''];
       ref = any_text body [''order_tracking_id'', ''orderTrackingId''] fallback;
       message = none_if_empty (any_text body [''description'', ''status_description'', ''message''] '''');
       result = (\<lambda>out raw msg. \<lparr>cx_outcome = out, cx_provider_reference = ref, cx_raw_status = Some raw, cx_message = msg,
         cx_metadata = Some (pesapal_metadata ref None)\<rparr>) in
     if st = '''' then result R_UNKNOWN ''malformed_response'' (Some ''Pesapal status response missing payment status.'')
     else result (if st \<in> set PESAPAL_SUCCESS_STATES then R_SUCCEEDED else if st \<in> set PESAPAL_FAILED_STATES then R_FAILED_DEFINITE else R_UNKNOWN)
       st message)"

section \<open>The rail\<close>

definition pesapal_request_funding ::
    "env \<Rightarrow> 'w pesapal_rail \<Rightarrow> funding_request \<Rightarrow> token_cache \<times> 'w \<Rightarrow> (exn + collection_result) \<times> token_cache \<times> 'w" where
  "pesapal_request_funding E R q st = (if pr_ipn_id R = ''''
     then (Inr \<lparr>cx_outcome = R_UNKNOWN, cx_provider_reference = ''pesapal-order-'' @ fq_escrow_reference q, cx_raw_status = Some ''missing_ipn_id'',
         cx_message = Some ''Pesapal IPN is not configured. Run the IPN registration action first.'',
         cx_metadata = Some [(''order_tracking_id'', JNull), (''redirect_url'', JNull)]\<rparr>, st)
     else (case pesapal_send E R ''POST'' ''/api/Transactions/SubmitOrderRequest''
           (Some [(''id'', JStr (fq_account_reference q)), (''currency'', JStr (fq_currency q)), (''amount'', JStr (cents_str (fq_amount q))),
             (''description'', JStr (''Escrow funding for '' @ fq_escrow_reference q)), (''callback_url'', JStr (pr_callback_url R)),
             (''notification_id'', JStr (pr_ipn_id R)), (''reference'', JStr (fq_escrow_reference q)),
             (''billing_address'', JObj [(''phone_number'', JStr (fq_phone_number q))])]) None st of
         (Inl x, st1) \<Rightarrow> (Inl x, st1)
       | (Inr r, st1) \<Rightarrow> (Inr (parse_submit (ht_body r) (fq_escrow_reference q)), st1)))"

definition pesapal_get_funding_status ::
    "env \<Rightarrow> 'w pesapal_rail \<Rightarrow> string \<Rightarrow> token_cache \<times> 'w \<Rightarrow> (exn + collection_result) \<times> token_cache \<times> 'w" where
  "pesapal_get_funding_status E R ref st =
     (case pesapal_send E R ''GET'' ''/api/Transactions/GetTransactionStatus'' None (Some (''orderTrackingId'', ref)) st of
       (Inl x, st1) \<Rightarrow> (Inl x, st1)
     | (Inr r, st1) \<Rightarrow> (Inr (parse_status (ht_body r) ref), st1))"

section \<open>Lemmas\<close>

text \<open>An order that could not be submitted for lack of the IPN id reaches no provider.\<close>

lemma missing_ipn_sends_nothing: "pr_ipn_id R = '''' \<Longrightarrow> snd (pesapal_request_funding E R q st) = st"
  by (simp add: pesapal_request_funding_def)

text \<open>Submitting an order is only accepted with a tracking id and an address for the buyer.\<close>

lemma submit_accepted_iff:
  "cx_outcome (parse_submit body fb) = R_SUCCEEDED \<longleftrightarrow> any_text body [''order_tracking_id'', ''orderTrackingId'', ''tracking_id''] '''' \<noteq> '''' \<and>
     any_text body [''redirect_url'', ''redirectUrl'', ''redirect_url_link''] '''' \<noteq> ''''"
  by (auto simp: parse_submit_def Let_def)

end
