(* ===== verification/Accounts.thy ===== *)
theory Accounts
  imports Econfirm Provider_Http "HOL-Library.Product_Lexorder"
begin

text \<open>
  Accounts: core/security.py, services/auth.py, phone_auth.py and account_security.py. Password login
  with its rate limit and lockout, sessions, one-time SMS codes, password change and reset. The
  password hashing library, PBKDF2, base64 and the random tokens are parameters; the limiters are
  memory of the process, which no rollback undoes. An operation that counts a failure commits before it
  raises, so every operation returns the database it leaves.
\<close>

datatype auth_error =
    PhoneAlreadyRegisteredError
  | InvalidCredentialsError
  | TooManyLoginAttemptsError int
  | AccountLockedError int
  | PhoneCodeRateLimitedError int
  | PhoneCodeInvalidError int
  | PhoneCodeExpiredError
  | PhoneNotBuyerError
  | WrongPasswordError
  | SessionNotFoundError
  | CurrentSessionError
  | Fault exn

record auth_config =
  ac_login_rate_limit_max_attempts :: int
  ac_login_rate_limit_window_seconds :: int
  ac_login_lockout_max_attempts :: int
  ac_login_lockout_seconds :: int
  ac_session_max_age_seconds :: int
  ac_phone_code_ttl_seconds :: int
  ac_phone_code_resend_seconds :: int
  ac_phone_code_max_attempts :: int
  ac_phone_code_lockout_seconds :: int
  ac_phone_code_hourly_limit :: int
  ac_hash :: "nat \<Rightarrow> string \<Rightarrow> string"
  ac_verify :: "string \<Rightarrow> string \<Rightarrow> bool option"
  ac_needs_update :: "string \<Rightarrow> bool option"
  ac_pbkdf2 :: "string \<Rightarrow> bytes \<Rightarrow> int \<Rightarrow> bytes"
  ac_b64decode :: "string \<Rightarrow> bytes option"
  ac_token :: "nat \<Rightarrow> string"

text \<open>The settings are validated when they are loaded: these are positive.\<close>

definition auth_config_ok :: "auth_config \<Rightarrow> bool" where
  "auth_config_ok C = (0 < ac_login_rate_limit_max_attempts C \<and> 0 < ac_login_rate_limit_window_seconds C \<and>
     0 < ac_login_lockout_max_attempts C \<and> 0 < ac_login_lockout_seconds C \<and> 0 < ac_session_max_age_seconds C \<and>
     0 < ac_phone_code_ttl_seconds C \<and> 0 < ac_phone_code_resend_seconds C \<and> 0 < ac_phone_code_max_attempts C \<and>
     0 < ac_phone_code_lockout_seconds C \<and> 0 < ac_phone_code_hourly_limit C)"

section \<open>Passwords and tokens\<close>

definition LEGACY_HASH_SCHEME :: string where
  "LEGACY_HASH_SCHEME = ''pbkdf2_sha256''"

text \<open>\<open>text.split(sep, n)\<close>\<close>

fun split_first :: "nat \<Rightarrow> char \<Rightarrow> string \<Rightarrow> string list" where
  "split_first 0 c s = [s]"
| "split_first (Suc n) c s = (if c \<in> set s then takeWhile (\<lambda>x. x \<noteq> c) s # split_first n c (tl (dropWhile (\<lambda>x. x \<noteq> c) s)) else [s])"

definition verify_legacy_pbkdf2_password :: "auth_config \<Rightarrow> string \<Rightarrow> string \<Rightarrow> auth_error + bool" where
  "verify_legacy_pbkdf2_password C password password_hash = (case split_first 3 (CHR ''$'') password_hash of
       [scheme, iterations_raw, salt_b64, expected_b64] \<Rightarrow>
         if scheme \<noteq> LEGACY_HASH_SCHEME then Inr False
         else (case (read_int iterations_raw, ac_b64decode C salt_b64, ac_b64decode C expected_b64) of
             (Some iterations, Some salt, Some expected) \<Rightarrow>
               if iterations < 1 then Inl (Fault (ValueError ''iteration value must be greater than 0.''))
               else Inr (ac_pbkdf2 C password salt iterations = expected)
           | _ \<Rightarrow> Inr False)
     | _ \<Rightarrow> Inr False)"

definition verify_password :: "auth_config \<Rightarrow> string \<Rightarrow> string \<Rightarrow> auth_error + bool" where
  "verify_password C password password_hash = (case ac_verify C password password_hash of
       Some b \<Rightarrow> Inr b | None \<Rightarrow> verify_legacy_pbkdf2_password C password password_hash)"

definition password_hash_needs_upgrade :: "auth_config \<Rightarrow> string \<Rightarrow> bool" where
  "password_hash_needs_upgrade C h = (if starts_with (LEGACY_HASH_SCHEME @ ''$'') h then True
     else (case ac_needs_update C h of None \<Rightarrow> True | Some b \<Rightarrow> b))"

definition hash_session_token :: "env \<Rightarrow> string \<Rightarrow> string" where
  "hash_session_token E token = e_hmac E (st_secret_key (e_settings E)) token"

definition verify_hashed_token :: "env \<Rightarrow> string \<Rightarrow> string \<Rightarrow> bool" where
  "verify_hashed_token E token expected = (hash_session_token E token = expected)"

section \<open>Rows\<close>

definition put_user :: "user \<Rightarrow> db \<Rightarrow> db" where
  "put_user u s = s\<lparr>d_users := row_put u_id u (d_users s)\<rparr>"

definition put_session :: "user_session \<Rightarrow> db \<Rightarrow> db" where
  "put_session x s = s\<lparr>d_sessions := row_put us_id x (d_sessions s)\<rparr>"

definition put_code :: "phone_code \<Rightarrow> db \<Rightarrow> db" where
  "put_code c s = s\<lparr>d_codes := row_put pc_id c (d_codes s)\<rparr>"

interpretation users: store get_user put_user u_id
  by unfold_locales (auto simp: get_user_def put_user_def row_get_put dest: row_get_SomeD)

definition find_user_by_phone :: "string \<Rightarrow> db \<Rightarrow> user option" where
  "find_user_by_phone phone s = find (\<lambda>u. u_phone u = phone) (d_users s)"

definition find_session :: "env \<Rightarrow> string \<Rightarrow> db \<Rightarrow> user_session option" where
  "find_session E token s = find (\<lambda>x. us_token_hash x = hash_session_token E token) (d_sessions s)"

definition insert_user :: "user \<Rightarrow> db \<Rightarrow> auth_error + db" where
  "insert_user u s = (if u_phone u \<in> u_phone ` set (d_users s) then Inl PhoneAlreadyRegisteredError
     else if u_id u \<in> u_id ` set (d_users s) then Inl (Fault (IntegrityError ''users_pkey''))
     else Inr (s\<lparr>d_users := d_users s @ [u]\<rparr>))"

definition insert_session :: "user_session \<Rightarrow> db \<Rightarrow> auth_error + db" where
  "insert_session x s = (if us_id x \<in> us_id ` set (d_sessions s) then Inl (Fault (IntegrityError ''user_sessions_pkey''))
     else if us_token_hash x \<in> us_token_hash ` set (d_sessions s) then Inl (Fault (IntegrityError ''ix_user_sessions_session_token_hash''))
     else Inr (s\<lparr>d_sessions := d_sessions s @ [x]\<rparr>))"

definition new_user :: "env \<Rightarrow> uuid \<Rightarrow> string \<Rightarrow> string \<Rightarrow> user_role \<Rightarrow> string \<Rightarrow> string option \<Rightarrow> string option \<Rightarrow> user" where
  "new_user E i name phone role hash mpesa account = \<lparr>u_id = i, u_name = name, u_phone = phone, u_role = role, u_password_hash = hash,
     u_mpesa_phone = mpesa, u_mpesa_account_name = account, u_shop_name = None, u_shop_area = None, u_shop_about = None,
     u_logo_content_type = None, u_logo_updated_at = None, u_notification_prefs = None, u_logo_data = None, u_session_version = 1,
     u_is_active = True, u_failed_login_attempts = 0, u_locked_until = None, u_created_at = e_now E\<rparr>"

section \<open>Registration\<close>

record register_request =
  rq_name :: string
  rq_phone :: string
  rq_role :: user_role
  rq_password :: string
  rq_mpesa_phone :: "string option"
  rq_mpesa_account_name :: "string option"

definition register_user :: "env \<Rightarrow> auth_config \<Rightarrow> register_request \<Rightarrow> db \<Rightarrow> db \<times> (auth_error + user)" where
  "register_user E C q s = (let n = d_draws s;
       u = new_user E (e_uuid E (Suc n)) (strip (rq_name q)) (rq_phone q) (rq_role q) (ac_hash C n (rq_password q)) (rq_mpesa_phone q) (rq_mpesa_account_name q) in
     atomic s (bindE (insert_user u (s\<lparr>d_draws := n + 2\<rparr>)) (\<lambda>s'. Inr (u, s'))))"

section \<open>The limiters\<close>

record limiter =
  lm_logins :: "string \<Rightarrow> time list"
  lm_codes :: "string \<Rightarrow> time list"

text \<open>\<open>max(int(delta.total_seconds()), 1)\<close> of a positive time.\<close>

definition retry_after :: "time \<Rightarrow> int" where
  "retry_after t = max (t div 1000000) 1"

definition rate_limit_key :: "string \<Rightarrow> string \<Rightarrow> string" where
  "rate_limit_key client phone = client @ ''|'' @ phone"

definition check_login_rate_limit :: "env \<Rightarrow> auth_config \<Rightarrow> string \<Rightarrow> string \<Rightarrow> limiter \<Rightarrow> int option \<times> limiter" where
  "check_login_rate_limit E C client phone L = (let now = e_now E; window = seconds (ac_login_rate_limit_window_seconds C);
       key = rate_limit_key client phone; bucket = dropWhile (\<lambda>b. b < now - window) (lm_logins L key) in
     if ac_login_rate_limit_max_attempts C \<le> int (length bucket)
     then (Some (retry_after (hd bucket + window - now)), L\<lparr>lm_logins := (lm_logins L)(key := bucket)\<rparr>)
     else (None, L\<lparr>lm_logins := (lm_logins L)(key := bucket @ [now])\<rparr>))"

definition clear_login_rate_limit :: "string \<Rightarrow> string \<Rightarrow> limiter \<Rightarrow> limiter" where
  "clear_login_rate_limit client phone L = L\<lparr>lm_logins := (lm_logins L)(rate_limit_key client phone := [])\<rparr>"

definition CLIENT_HOURLY_LIMIT :: int where
  "CLIENT_HOURLY_LIMIT = 20"

definition check_client_quota :: "string \<Rightarrow> time \<Rightarrow> limiter \<Rightarrow> (auth_error + unit) \<times> limiter" where
  "check_client_quota client now L = (let bucket = dropWhile (\<lambda>b. b \<le> now - hours 1) (lm_codes L client) in
     if CLIENT_HOURLY_LIMIT \<le> int (length bucket)
     then (Inl (PhoneCodeRateLimitedError (retry_after (hd bucket + hours 1 - now))), L\<lparr>lm_codes := (lm_codes L)(client := bucket)\<rparr>)
     else (Inr (), L\<lparr>lm_codes := (lm_codes L)(client := bucket @ [now])\<rparr>))"

section \<open>Sessions\<close>

record authenticated_session =
  as_user :: user
  as_session_token :: string
  as_csrf_token :: string
  as_expires_at :: time

definition none_if_blank :: "string \<Rightarrow> string option" where
  "none_if_blank v = (if v = '''' then None else Some v)"

definition create_session :: "env \<Rightarrow> auth_config \<Rightarrow> user \<Rightarrow> time \<Rightarrow> string option \<Rightarrow> db \<Rightarrow> auth_error + (authenticated_session \<times> db)" where
  "create_session E C u now ua s = (let n = d_draws s; token = ac_token C n; csrf = ac_token C (n + 1);
       expires = now + seconds (ac_session_max_age_seconds C);
       x = \<lparr>us_id = e_uuid E (n + 2), us_user = u_id u, us_token_hash = hash_session_token E token, us_csrf_hash = hash_session_token E csrf,
         us_user_agent = none_if_blank (take 255 (case ua of None \<Rightarrow> '''' | Some v \<Rightarrow> v)), us_last_seen_at = Some now,
         us_expires_at = expires, us_revoked_at = None, us_created_at = e_now E\<rparr> in
     bindE (insert_session x (s\<lparr>d_draws := n + 3\<rparr>)) (\<lambda>s'.
     Inr (\<lparr>as_user = u, as_session_token = token, as_csrf_token = csrf, as_expires_at = expires\<rparr>, s')))"

definition LAST_SEEN_EVERY :: time where
  "LAST_SEEN_EVERY = seconds 300"

definition resolve_active_session :: "env \<Rightarrow> string \<Rightarrow> db \<Rightarrow> db \<times> (user \<times> user_session) option" where
  "resolve_active_session E token s = (case find_session E token s of None \<Rightarrow> (s, None)
     | Some x \<Rightarrow> (case get_user (us_user x) s of None \<Rightarrow> (s, None)
       | Some u \<Rightarrow> let now = e_now E in
         if us_revoked_at x \<noteq> None then (s, None)
         else if us_expires_at x \<le> now then (put_session (x\<lparr>us_revoked_at := Some now\<rparr>) s, None)
         else if \<not> u_is_active u then (s, None)
         else if (case us_last_seen_at x of None \<Rightarrow> True | Some seen \<Rightarrow> LAST_SEEN_EVERY < now - seen)
         then let x' = x\<lparr>us_last_seen_at := Some now\<rparr> in (put_session x' s, Some (u, x'))
         else (s, Some (u, x))))"

definition is_valid_csrf_for_session :: "env \<Rightarrow> string \<Rightarrow> user_session \<Rightarrow> bool" where
  "is_valid_csrf_for_session E csrf x = verify_hashed_token E csrf (us_csrf_hash x)"

definition invalidate_session :: "env \<Rightarrow> string option \<Rightarrow> db \<Rightarrow> db \<times> bool" where
  "invalidate_session E token s = (case token of None \<Rightarrow> (s, False) | Some t \<Rightarrow> if t = '''' then (s, False)
     else (case find_session E t s of None \<Rightarrow> (s, False)
       | Some x \<Rightarrow> if us_revoked_at x \<noteq> None then (s, False) else (put_session (x\<lparr>us_revoked_at := Some (e_now E)\<rparr>) s, True)))"

section \<open>Password login\<close>

definition ensure_user_not_locked :: "user \<Rightarrow> time \<Rightarrow> auth_error + unit" where
  "ensure_user_not_locked u now = (case u_locked_until u of None \<Rightarrow> Inr ()
     | Some t \<Rightarrow> if t \<le> now then Inr () else Inl (AccountLockedError (retry_after (t - now))))"

text \<open>Both branches commit; the result is the exception that ends the login.\<close>

definition register_failed_user_login :: "auth_config \<Rightarrow> user \<Rightarrow> time \<Rightarrow> db \<Rightarrow> db \<times> auth_error" where
  "register_failed_user_login C u now s = (let n = u_failed_login_attempts u + 1 in
     if ac_login_lockout_max_attempts C \<le> n
     then (put_user (u\<lparr>u_locked_until := Some (now + seconds (ac_login_lockout_seconds C)), u_failed_login_attempts := 0\<rparr>) s,
       AccountLockedError (ac_login_lockout_seconds C))
     else (put_user (u\<lparr>u_failed_login_attempts := n\<rparr>) s, InvalidCredentialsError))"

definition reset_user_lockout_state :: "user \<Rightarrow> user" where
  "reset_user_lockout_state u = u\<lparr>u_failed_login_attempts := 0, u_locked_until := None\<rparr>"

definition signed_in_user :: "auth_config \<Rightarrow> nat \<Rightarrow> string \<Rightarrow> user \<Rightarrow> user" where
  "signed_in_user C n password u = (let u' = reset_user_lockout_state u in
     if password_hash_needs_upgrade C (u_password_hash u) then u'\<lparr>u_password_hash := ac_hash C n password\<rparr> else u')"

definition authenticate_and_create_session ::
    "env \<Rightarrow> auth_config \<Rightarrow> string \<Rightarrow> string \<Rightarrow> string \<Rightarrow> string option \<Rightarrow> db \<Rightarrow> limiter \<Rightarrow> (db \<times> (auth_error + authenticated_session)) \<times> limiter" where
  "authenticate_and_create_session E C phone password client ua s L = (case check_login_rate_limit E C client phone L of
       (Some n, L1) \<Rightarrow> ((s, Inl (TooManyLoginAttemptsError n)), L1)
     | (None, L1) \<Rightarrow> (case find_user_by_phone phone s of
         None \<Rightarrow> ((s, Inl InvalidCredentialsError), L1)
       | Some u \<Rightarrow> (case bindE (ensure_user_not_locked u (e_now E)) (\<lambda>_. verify_password C password (u_password_hash u)) of
           Inl x \<Rightarrow> ((s, Inl x), L1)
         | Inr False \<Rightarrow> (case register_failed_user_login C u (e_now E) s of (s', x) \<Rightarrow> ((s', Inl x), L1))
         | Inr True \<Rightarrow> if \<not> u_is_active u then ((s, Inl InvalidCredentialsError), L1)
             else (let u' = signed_in_user C (d_draws s) password u in
               case create_session E C u' (e_now E) ua (put_user u' (s\<lparr>d_draws := Suc (d_draws s)\<rparr>)) of
                 Inl x \<Rightarrow> ((s, Inl x), L1)
               | Inr (a, s') \<Rightarrow> ((s', Inr a), clear_login_rate_limit client phone L1)))))"

section \<open>One-time codes\<close>

datatype purpose = Sign_in | Payout | Reset

fun purpose_value :: "purpose \<Rightarrow> string" where
  "purpose_value Sign_in = ''sign_in''"
| "purpose_value Payout = ''payout''"
| "purpose_value Reset = ''reset''"

definition NEW_BUYER_NAME :: string where
  "NEW_BUYER_NAME = ''Vekro buyer''"

definition code_text :: "purpose \<Rightarrow> string \<Rightarrow> string \<Rightarrow> string" where
  "code_text purpose phone code = purpose_value purpose @ '':'' @ phone @ '':'' @ code"

definition code_hash :: "env \<Rightarrow> string \<Rightarrow> string \<Rightarrow> purpose \<Rightarrow> string" where
  "code_hash E phone code purpose = hash_session_token E (code_text purpose phone code)"

text \<open>The newest code of a phone and purpose; of two created at the same instant, the later row.\<close>

definition codes_of :: "string \<Rightarrow> purpose \<Rightarrow> db \<Rightarrow> phone_code list" where
  "codes_of phone purpose s = filter (\<lambda>c. pc_phone c = phone \<and> pc_purpose c = purpose_value purpose) (d_codes s)"

definition latest_code :: "string \<Rightarrow> purpose \<Rightarrow> db \<Rightarrow> phone_code option" where
  "latest_code phone purpose s = (case rev (sort_key pc_created_at (codes_of phone purpose s)) of [] \<Rightarrow> None | c # _ \<Rightarrow> Some c)"

record issued_code =
  ic_expires_at :: time
  ic_resend_after_seconds :: int
  ic_code :: string

definition sms_minutes :: "int \<Rightarrow> string" where
  "sms_minutes ttl = int_str (max (ttl div 60) 1)"

definition sms_text :: "purpose \<Rightarrow> string \<Rightarrow> int \<Rightarrow> string" where
  "sms_text purpose code ttl = (case purpose of
       Sign_in \<Rightarrow> ''Vekro: your sign-in code is '' @ code @ ''. It expires in '' @ sms_minutes ttl @
         '' minutes. Never share it, not even with a seller or courier.''
     | Payout \<Rightarrow> ''Vekro: your code to make this your payout number is '' @ code @ ''. It expires in '' @ sms_minutes ttl @
         '' minutes. If you didn'' @ [CHR 0x27] @ ''t ask for it, ignore this message.''
     | Reset \<Rightarrow> ''Vekro: your password reset code is '' @ code @ ''. It expires in '' @ sms_minutes ttl @
         '' minutes. If you didn'' @ [CHR 0x27] @ ''t ask for it, ignore this message.'')"

definition locked_for :: "time \<Rightarrow> phone_code \<Rightarrow> int option" where
  "locked_for now c = (case pc_locked_until c of None \<Rightarrow> None | Some t \<Rightarrow> if now < t then Some (retry_after (t - now)) else None)"

definition resend_pause :: "auth_config \<Rightarrow> time \<Rightarrow> phone_code \<Rightarrow> int option" where
  "resend_pause C now c = (let resend_at = pc_created_at c + seconds (ac_phone_code_resend_seconds C) in
     if pc_consumed_at c = None \<and> now < resend_at then Some (retry_after (resend_at - now)) else None)"

definition hourly_refusal :: "auth_config \<Rightarrow> string \<Rightarrow> time \<Rightarrow> db \<Rightarrow> int option" where
  "hourly_refusal C phone now s = (let recent = filter (\<lambda>c. pc_phone c = phone \<and> now - hours 1 < pc_created_at c) (d_codes s) in
     if ac_phone_code_hourly_limit C \<le> int (length recent)
     then Some (retry_after (Min (pc_created_at ` set recent) + hours 1 - now)) else None)"

text \<open>What keeps a phone from getting another code: a lockout, the pause after the last code, the hourly limit.\<close>

definition code_refused :: "auth_config \<Rightarrow> string \<Rightarrow> purpose \<Rightarrow> time \<Rightarrow> db \<Rightarrow> int option" where
  "code_refused C phone purpose now s = (case latest_code phone purpose s of
       None \<Rightarrow> hourly_refusal C phone now s
     | Some c \<Rightarrow> (case locked_for now c of Some k \<Rightarrow> Some k
       | None \<Rightarrow> (case resend_pause C now c of Some k \<Rightarrow> Some k | None \<Rightarrow> hourly_refusal C phone now s)))"

definition supersede_codes :: "string \<Rightarrow> purpose \<Rightarrow> time \<Rightarrow> db \<Rightarrow> db" where
  "supersede_codes phone purpose now s = s\<lparr>d_codes := map (\<lambda>c. if pc_phone c = phone \<and> pc_purpose c = purpose_value purpose \<and> pc_consumed_at c = None
     then c\<lparr>pc_consumed_at := Some now\<rparr> else c) (d_codes s)\<rparr>"

text \<open>The result carries the message handed to the dispatcher after the commit: recipient and text.\<close>

definition request_phone_code ::
    "env \<Rightarrow> auth_config \<Rightarrow> string \<Rightarrow> purpose \<Rightarrow> string \<Rightarrow> time option \<Rightarrow> db \<Rightarrow> limiter \<Rightarrow> (db \<times> (auth_error + (issued_code \<times> string \<times> string))) \<times> limiter" where
  "request_phone_code E C phone purpose client n s L = (let now = (case n of None \<Rightarrow> e_now E | Some t \<Rightarrow> t) in
     case code_refused C phone purpose now s of
       Some k \<Rightarrow> ((s, Inl (PhoneCodeRateLimitedError k)), L)
     | None \<Rightarrow> (case check_client_quota client now L of
         (Inl x, L1) \<Rightarrow> ((s, Inl x), L1)
       | (Inr _, L1) \<Rightarrow> (let d = d_draws s; code = pad_nat 6 (e_randbelow E d 1000000);
           c = \<lparr>pc_id = e_uuid E (Suc d), pc_phone = phone, pc_purpose = purpose_value purpose, pc_code_hash = code_hash E phone code purpose,
             pc_attempts = 0, pc_expires_at = now + seconds (ac_phone_code_ttl_seconds C), pc_consumed_at = None, pc_locked_until = None,
             pc_created_at = now\<rparr>;
           s1 = supersede_codes phone purpose now s in
         if pc_id c \<in> pc_id ` set (d_codes s1) then ((s, Inl (Fault (IntegrityError ''phone_codes_pkey''))), L1)
         else ((s1\<lparr>d_codes := d_codes s1 @ [c], d_draws := d + 2\<rparr>,
           Inr (\<lparr>ic_expires_at = pc_expires_at c, ic_resend_after_seconds = ac_phone_code_resend_seconds C, ic_code = code\<rparr>,
             phone, sms_text purpose code (ac_phone_code_ttl_seconds C))), L1))))"

text \<open>
  Using a code up. The first component is what is stored if the caller stops here (a wrong try is
  committed), the second the session's database on success, which the caller commits.
\<close>

definition wrong_code :: "auth_config \<Rightarrow> time \<Rightarrow> phone_code \<Rightarrow> phone_code \<times> auth_error" where
  "wrong_code C now c = (let n = pc_attempts c + 1 in
     if ac_phone_code_max_attempts C \<le> n
     then (c\<lparr>pc_attempts := n, pc_consumed_at := Some now, pc_locked_until := Some (now + seconds (ac_phone_code_lockout_seconds C))\<rparr>,
       PhoneCodeRateLimitedError (max (ac_phone_code_lockout_seconds C) 1))
     else (c\<lparr>pc_attempts := n\<rparr>, PhoneCodeInvalidError (ac_phone_code_max_attempts C - n)))"

definition consume_phone_code ::
    "env \<Rightarrow> auth_config \<Rightarrow> string \<Rightarrow> string \<Rightarrow> purpose \<Rightarrow> time option \<Rightarrow> db \<Rightarrow> db \<times> (auth_error + db)" where
  "consume_phone_code E C phone code purpose n s = (let now = (case n of None \<Rightarrow> e_now E | Some t \<Rightarrow> t) in
     case latest_code phone purpose s of
       None \<Rightarrow> (s, Inl PhoneCodeExpiredError)
     | Some c \<Rightarrow> (case locked_for now c of
         Some k \<Rightarrow> (s, Inl (PhoneCodeRateLimitedError k))
       | None \<Rightarrow> if pc_consumed_at c \<noteq> None \<or> pc_expires_at c \<le> now then (s, Inl PhoneCodeExpiredError)
           else if \<not> verify_hashed_token E (code_text purpose phone code) (pc_code_hash c)
             then (put_code (fst (wrong_code C now c)) s, Inl (snd (wrong_code C now c)))
           else (s, Inr (put_code (c\<lparr>pc_consumed_at := Some now\<rparr>) s))))"

definition verify_phone_code ::
    "env \<Rightarrow> auth_config \<Rightarrow> string \<Rightarrow> string \<Rightarrow> time option \<Rightarrow> string option \<Rightarrow> db \<Rightarrow> db \<times> (auth_error + authenticated_session)" where
  "verify_phone_code E C phone code n ua s = (let now = (case n of None \<Rightarrow> e_now E | Some t \<Rightarrow> t) in
     case consume_phone_code E C phone code Sign_in (Some now) s of
       (stored, Inl x) \<Rightarrow> (stored, Inl x)
     | (stored, Inr s1) \<Rightarrow> (case find_user_by_phone phone s of
         Some u \<Rightarrow> if u_role u \<noteq> BUYER then (s, Inl PhoneNotBuyerError)
           else if \<not> u_is_active u then (s, Inl PhoneCodeExpiredError)
           else atomic s (create_session E C u now ua s1)
       | None \<Rightarrow> (let d = d_draws s1;
             u = new_user E (e_uuid E (d + 2)) NEW_BUYER_NAME phone BUYER (ac_hash C (d + 1) (ac_token C d)) None None in
           atomic s (bindE (insert_user u (s1\<lparr>d_draws := d + 3\<rparr>)) (create_session E C u now ua)))))"

section \<open>Passwords and devices\<close>

definition revoke :: "uuid \<Rightarrow> uuid option \<Rightarrow> time \<Rightarrow> db \<Rightarrow> int \<times> db" where
  "revoke user keep now s = (let hit = (\<lambda>x. us_user x = user \<and> us_revoked_at x = None \<and> keep \<noteq> Some (us_id x)) in
     (int (length (filter hit (d_sessions s))),
      s\<lparr>d_sessions := map (\<lambda>x. if hit x then x\<lparr>us_revoked_at := Some now\<rparr> else x) (d_sessions s)\<rparr>))"

definition change_password :: "env \<Rightarrow> auth_config \<Rightarrow> user \<Rightarrow> string \<Rightarrow> string \<Rightarrow> uuid \<Rightarrow> db \<Rightarrow> db \<times> (auth_error + int)" where
  "change_password E C u current_password new_password keep s = atomic s (
     bindE (verify_password C current_password (u_password_hash u)) (\<lambda>ok.
     if \<not> ok then Inl WrongPasswordError
     else Inr (revoke (u_id u) (Some keep) (e_now E)
       (put_user (u\<lparr>u_password_hash := ac_hash C (d_draws s) new_password\<rparr>) (s\<lparr>d_draws := Suc (d_draws s)\<rparr>)))))"

definition request_reset_code ::
    "env \<Rightarrow> auth_config \<Rightarrow> string \<Rightarrow> string \<Rightarrow> db \<Rightarrow> limiter \<Rightarrow> (db \<times> (auth_error + (issued_code \<times> string \<times> string) option)) \<times> limiter" where
  "request_reset_code E C phone client s L = (if find_user_by_phone phone s = None then ((s, Inr None), L)
     else (case request_phone_code E C phone Reset client None s L of ((s', m), L') \<Rightarrow> ((s', bindE m (\<lambda>x. Inr (Some x))), L')))"

definition reset_password :: "env \<Rightarrow> auth_config \<Rightarrow> string \<Rightarrow> string \<Rightarrow> string \<Rightarrow> db \<Rightarrow> db \<times> (auth_error + unit)" where
  "reset_password E C phone code new_password s = (case consume_phone_code E C phone code Reset None s of
       (stored, Inl x) \<Rightarrow> (stored, Inl x)
     | (stored, Inr s1) \<Rightarrow> (case find_user_by_phone phone s of
         None \<Rightarrow> (s, Inl PhoneCodeExpiredError)
       | Some u \<Rightarrow> (snd (revoke (u_id u) None (e_now E)
           (put_user (u\<lparr>u_password_hash := ac_hash C (d_draws s1) new_password, u_failed_login_attempts := 0, u_locked_until := None\<rparr>)
             (s1\<lparr>d_draws := Suc (d_draws s1)\<rparr>))), Inr ())))"

definition BROWSERS :: "(string \<times> string) list" where
  "BROWSERS = [(''Edg/'', ''Edge''), (''OPR/'', ''Opera''), (''SamsungBrowser'', ''Samsung Internet''), (''Firefox/'', ''Firefox''),
     (''Chrome/'', ''Chrome''), (''Safari/'', ''Safari'')]"

definition SYSTEMS :: "(string \<times> string) list" where
  "SYSTEMS = [(''Android'', ''Android''), (''iPhone'', ''iPhone''), (''iPad'', ''iPad''), (''Windows'', ''Windows''), (''Mac OS X'', ''Mac''),
     (''Linux'', ''Linux'')]"

definition first_label :: "(string \<times> string) list \<Rightarrow> string \<Rightarrow> string option" where
  "first_label table ua = map_option snd (find (\<lambda>(k, v). contains k ua) table)"

definition device_label :: "string option \<Rightarrow> string" where
  "device_label user_agent = (let ua = (case user_agent of None \<Rightarrow> '''' | Some v \<Rightarrow> v) in
     case (first_label BROWSERS ua, first_label SYSTEMS ua) of
       (Some b, Some y) \<Rightarrow> b @ '' on '' @ y | (Some b, None) \<Rightarrow> b | (None, Some y) \<Rightarrow> y | (None, None) \<Rightarrow> ''Unknown device'')"

record device_session =
  dv_id :: uuid
  dv_device :: string
  dv_created_at :: time
  dv_last_seen_at :: time
  dv_current :: bool

definition list_sessions :: "env \<Rightarrow> uuid \<Rightarrow> uuid \<Rightarrow> db \<Rightarrow> device_session list" where
  "list_sessions E user current s = sort_key (\<lambda>d. (\<not> dv_current d, - dv_last_seen_at d))
     (map (\<lambda>x. \<lparr>dv_id = us_id x, dv_device = device_label (us_user_agent x), dv_created_at = us_created_at x,
         dv_last_seen_at = (case us_last_seen_at x of None \<Rightarrow> us_created_at x | Some t \<Rightarrow> t), dv_current = (us_id x = current)\<rparr>)
       (filter (\<lambda>x. us_user x = user \<and> us_revoked_at x = None \<and> e_now E < us_expires_at x) (d_sessions s)))"

definition revoke_session :: "env \<Rightarrow> uuid \<Rightarrow> uuid \<Rightarrow> uuid \<Rightarrow> db \<Rightarrow> db \<times> (auth_error + unit)" where
  "revoke_session E user session current s = (if session = current then (s, Inl CurrentSessionError)
     else (case row_get us_id session (d_sessions s) of None \<Rightarrow> (s, Inl SessionNotFoundError)
       | Some x \<Rightarrow> if us_user x \<noteq> user \<or> us_revoked_at x \<noteq> None then (s, Inl SessionNotFoundError)
           else (put_session (x\<lparr>us_revoked_at := Some (e_now E)\<rparr>) s, Inr ())))"

definition revoke_other_sessions :: "env \<Rightarrow> uuid \<Rightarrow> uuid \<Rightarrow> db \<Rightarrow> db \<times> int" where
  "revoke_other_sessions E user current s = (case revoke user (Some current) (e_now E) s of (n, s') \<Rightarrow> (s', n))"

section \<open>Login\<close>

text \<open>A session is opened only for the phone's active, unlocked account and its password.\<close>

lemma create_session_Inr:
  assumes "create_session E C u now ua s = Inr (a, s')"
  shows "\<exists>x. s' = s\<lparr>d_sessions := d_sessions s @ [x], d_draws := d_draws s + 3\<rparr> \<and> us_user x = u_id u \<and> us_revoked_at x = None \<and>
    us_token_hash x = hash_session_token E (as_session_token a) \<and> us_csrf_hash x = hash_session_token E (as_csrf_token a) \<and>
    us_expires_at x = now + seconds (ac_session_max_age_seconds C) \<and> as_expires_at a = us_expires_at x \<and> as_user a = u \<and>
    (\<forall>y \<in> set (d_sessions s). us_token_hash y \<noteq> us_token_hash x)"
  using assms by (intro exI [of _ "last (d_sessions s')"]) (force simp: create_session_def Let_def bindE_eq_Inr insert_session_def split: if_splits)

lemma login_Inr:
  assumes "authenticate_and_create_session E C phone password client ua s L = ((s', Inr a), L')"
  obtains u x where "find_user_by_phone phone s = Some u" "u_is_active u" "\<forall>t. u_locked_until u = Some t \<longrightarrow> t \<le> e_now E"
    "verify_password C password (u_password_hash u) = Inr True"
    "as_user a = signed_in_user C (d_draws s) password u"
    "s' = put_user (as_user a) s\<lparr>d_sessions := d_sessions s @ [x], d_draws := d_draws s + 4\<rparr>"
    "us_user x = u_id u" "us_revoked_at x = None" "us_token_hash x = hash_session_token E (as_session_token a)"
    "us_expires_at x = e_now E + seconds (ac_session_max_age_seconds C)"
proof -
  obtain r L1 where l: "check_login_rate_limit E C client phone L = (r, L1)" by force
  then have "r = None" using assms by (cases r) (auto simp: authenticate_and_create_session_def)
  then obtain u where u: "find_user_by_phone phone s = Some u"
    using assms l by (cases "find_user_by_phone phone s") (auto simp: authenticate_and_create_session_def)
  obtain b where b: "ensure_user_not_locked u (e_now E) = Inr ()" "verify_password C password (u_password_hash u) = Inr b"
    using assms l u \<open>r = None\<close>
    by (cases "ensure_user_not_locked u (e_now E)"; cases "verify_password C password (u_password_hash u)")
       (auto simp: authenticate_and_create_session_def)
  have bt: "b = True" using assms l u b \<open>r = None\<close>
    by (cases b) (auto simp: authenticate_and_create_session_def register_failed_user_login_def Let_def split: if_splits)
  define u' where "u' = signed_in_user C (d_draws s) password u"
  have act: "u_is_active u" and c: "create_session E C u' (e_now E) ua (put_user u' (s\<lparr>d_draws := Suc (d_draws s)\<rparr>)) = Inr (a, s')"
    using assms l u b bt \<open>r = None\<close>
    by (auto simp: authenticate_and_create_session_def u'_def Let_def split: if_splits sum.splits)
  have id: "u_id u' = u_id u" by (simp add: u'_def signed_in_user_def reset_user_lockout_state_def Let_def)
  from create_session_Inr [OF c] obtain x where x: "s' = (put_user u' (s\<lparr>d_draws := Suc (d_draws s)\<rparr>))
        \<lparr>d_sessions := d_sessions (put_user u' (s\<lparr>d_draws := Suc (d_draws s)\<rparr>)) @ [x], d_draws := d_draws (put_user u' (s\<lparr>d_draws := Suc (d_draws s)\<rparr>)) + 3\<rparr>"
      "us_user x = u_id u'" "us_revoked_at x = None" "us_token_hash x = hash_session_token E (as_session_token a)"
      "us_expires_at x = e_now E + seconds (ac_session_max_age_seconds C)" "as_user a = u'" by blast
  have "s' = put_user u' s\<lparr>d_sessions := d_sessions s @ [x], d_draws := d_draws s + 4\<rparr>"
    unfolding x(1) by (simp add: put_user_def)
  moreover have "\<forall>t. u_locked_until u = Some t \<longrightarrow> t \<le> e_now E"
    using b(1) by (auto simp: ensure_user_not_locked_def split: if_splits)
  ultimately show thesis using that [OF u act _ b(2) [unfolded bt], of x] x id unfolding u'_def by simp
qed

text \<open>A locked account answers the same whatever the password, and nothing of it changes.\<close>

lemma locked_login:
  assumes "find_user_by_phone phone s = Some u" and "u_locked_until u = Some t" and "e_now E < t"
  shows "fst (fst (authenticate_and_create_session E C phone password client ua s L)) = s"
    and "authenticate_and_create_session E C phone password client ua s L = authenticate_and_create_session E C phone password' client ua s L"
    and "\<exists>x. snd (fst (authenticate_and_create_session E C phone password client ua s L)) = Inl x \<and> x \<noteq> InvalidCredentialsError"
  using assms by (auto simp: authenticate_and_create_session_def ensure_user_not_locked_def split: prod.splits option.splits)

lemma find_put_user:
  assumes "find_user_by_phone phone s = Some u" and "u_id u' = u_id u" and "u_phone u' = u_phone u"
  shows "find_user_by_phone phone (put_user u' s) = Some u'"
proof -
  have "find (\<lambda>x. u_phone x = phone) rows = Some u \<Longrightarrow> find (\<lambda>x. u_phone x = phone) (row_put u_id u' rows) = Some u'" for rows
    using assms(2,3) by (induction rows) (auto simp: row_put_Cons split: if_splits)
  then show ?thesis using assms(1) by (simp add: find_user_by_phone_def put_user_def)
qed

text \<open>
  Guessing a password: a list of attempts on one phone, from any clients. \<open>guesses\<close> counts those whose
  password was compared.
\<close>

definition compared :: "env \<Rightarrow> auth_config \<Rightarrow> string \<Rightarrow> string \<Rightarrow> db \<Rightarrow> limiter \<Rightarrow> bool" where
  "compared E C phone client s L = (fst (check_login_rate_limit E C client phone L) = None \<and>
     (case find_user_by_phone phone s of None \<Rightarrow> False | Some u \<Rightarrow> ensure_user_not_locked u (e_now E) = Inr ()))"

fun guesses :: "auth_config \<Rightarrow> string \<Rightarrow> (env \<times> string \<times> string) list \<Rightarrow> db \<Rightarrow> limiter \<Rightarrow> nat" where
  "guesses C phone [] s L = 0"
| "guesses C phone ((E, client, password) # qs) s L = (if compared E C phone client s L then 1 else 0) +
     (case authenticate_and_create_session E C phone password client None s L of ((s', _), L') \<Rightarrow> guesses C phone qs s' L')"

definition tries_left :: "auth_config \<Rightarrow> time \<Rightarrow> user \<Rightarrow> nat" where
  "tries_left C t u = (case u_locked_until u of
       Some x \<Rightarrow> if t + seconds (ac_login_lockout_seconds C) \<le> x then 0 else nat (max 1 (ac_login_lockout_max_attempts C - u_failed_login_attempts u))
     | None \<Rightarrow> nat (max 1 (ac_login_lockout_max_attempts C - u_failed_login_attempts u)))"

lemma wrong_guess:
  assumes "find_user_by_phone phone s = Some u" and "verify_password C password (u_password_hash u) = Inr False"
    and "t \<le> e_now E" and "e_now E < t + seconds (ac_login_lockout_seconds C)"
    and "authenticate_and_create_session E C phone password client ua s L = ((s', r), L')"
  shows "\<exists>u'. find_user_by_phone phone s' = Some u' \<and> u_password_hash u' = u_password_hash u \<and>
    (if compared E C phone client s L then 1 else 0) + tries_left C t u' \<le> tries_left C t u"
proof (cases "compared E C phone client s L")
  case False
  then have "s' = s" using assms(1,2,5)
    by (auto simp: authenticate_and_create_session_def compared_def ensure_user_not_locked_def split: prod.splits option.splits if_splits)
  then show ?thesis using assms(1) False by simp
next
  case True
  then obtain L1 where l: "check_login_rate_limit E C client phone L = (None, L1)" by (cases "check_login_rate_limit E C client phone L") (auto simp: compared_def)
  have k: "ensure_user_not_locked u (e_now E) = Inr ()" using True assms(1) by (simp add: compared_def)
  have s': "s' = fst (register_failed_user_login C u (e_now E) s)"
    using assms(1,2,5) l k by (auto simp: authenticate_and_create_session_def split: prod.splits)
  have free: "tries_left C t u = nat (max 1 (ac_login_lockout_max_attempts C - u_failed_login_attempts u))"
    using k assms(4) by (auto simp: tries_left_def ensure_user_not_locked_def split: option.splits if_splits)
  define u' where "u' = (if ac_login_lockout_max_attempts C \<le> u_failed_login_attempts u + 1
    then u\<lparr>u_locked_until := Some (e_now E + seconds (ac_login_lockout_seconds C)), u_failed_login_attempts := 0\<rparr>
    else u\<lparr>u_failed_login_attempts := u_failed_login_attempts u + 1\<rparr>)"
  have "s' = put_user u' s" unfolding s' by (simp add: register_failed_user_login_def Let_def u'_def)
  moreover have "find_user_by_phone phone (put_user u' s) = Some u'"
    by (rule find_put_user [OF assms(1)]) (simp_all add: u'_def)
  moreover have "1 + tries_left C t u' \<le> tries_left C t u"
  proof (cases "ac_login_lockout_max_attempts C \<le> u_failed_login_attempts u + 1")
    case True
    then have "tries_left C t u' = 0" using assms(3) by (simp add: tries_left_def u'_def)
    then show ?thesis unfolding free by simp
  next
    case False
    then have "tries_left C t u' \<le> nat (ac_login_lockout_max_attempts C - (u_failed_login_attempts u + 1))"
      by (simp add: tries_left_def u'_def split: option.split)
    then show ?thesis using False unfolding free by simp
  qed
  ultimately show ?thesis using True by (intro exI [of _ u']) (simp add: u'_def)
qed

lemma guesses_bounded:
  assumes "find_user_by_phone phone s = Some u"
    and "\<forall>(E, client, password) \<in> set qs. verify_password C password (u_password_hash u) = Inr False \<and>
      t \<le> e_now E \<and> e_now E < t + seconds (ac_login_lockout_seconds C)"
  shows "guesses C phone qs s L \<le> tries_left C t u"
  using assms
proof (induction qs arbitrary: s L u)
  case (Cons q qs)
  obtain E client password where q: "q = (E, client, password)" by (cases q) auto
  obtain s' r L' where a: "authenticate_and_create_session E C phone password client None s L = ((s', r), L')" by (metis prod.exhaust)
  from wrong_guess [OF Cons.prems(1) _ _ _ a, of t] Cons.prems(2) q obtain u' where u': "find_user_by_phone phone s' = Some u'"
    "u_password_hash u' = u_password_hash u" "(if compared E C phone client s L then 1 else 0) + tries_left C t u' \<le> tries_left C t u" by auto
  have "guesses C phone qs s' L' \<le> tries_left C t u'"
    by (rule Cons.IH [OF u'(1)]) (use Cons.prems(2) u'(2) in simp)
  then show ?case using u'(3) a q by simp
qed simp

section \<open>Codes\<close>

lemma latest_in_codes: "latest_code phone purpose s = Some c \<Longrightarrow> c \<in> set (codes_of phone purpose s)"
  by (auto simp: latest_code_def split: list.splits dest!: arg_cong [where f = set])

lemma sort_key_map: "(\<And>x. k (f x) = k x) \<Longrightarrow> sort_key k (map f xs) = map f (sort_key k xs)"
proof -
  assume k: "\<And>x. k (f x) = k x"
  have ins: "insort_key k (f x) (map f ys) = map f (insort_key k x ys)" for x ys by (induction ys) (auto simp: k)
  show ?thesis by (induction xs) (auto simp: ins)
qed

text \<open>Writing back a code that keeps phone, purpose and creation time does not change which code is the latest.\<close>

lemma latest_put:
  assumes "latest_code phone purpose s = Some c" and "pc_id c' = pc_id c" and "pc_phone c' = pc_phone c" and "pc_purpose c' = pc_purpose c"
    and "pc_created_at c' = pc_created_at c" and "distinct (map pc_id (d_codes s))"
  shows "latest_code phone purpose (put_code c' s) = Some c'"
proof -
  define f where "f = (\<lambda>x. if x = c then c' else x)"
  have c: "c \<in> set (d_codes s)" "pc_phone c = phone" "pc_purpose c = purpose_value purpose"
    using latest_in_codes [OF assms(1)] by (auto simp: codes_of_def)
  have "x = c" if "x \<in> set (d_codes s)" "pc_id x = pc_id c" for x
    using that c(1) assms(6) by (auto simp: distinct_map dest: inj_onD)
  then have put: "row_put pc_id c' (d_codes s) = map f (d_codes s)" by (auto simp: row_put_def f_def assms(2))
  have "codes_of phone purpose (put_code c' s) = map f (codes_of phone purpose s)"
    unfolding codes_of_def put_code_def by (simp add: put filter_map comp_def) (auto simp: f_def assms(3,4) intro!: arg_cong [where f = "map _"] filter_cong)
  moreover have "sort_key pc_created_at (map f (codes_of phone purpose s)) = map f (sort_key pc_created_at (codes_of phone purpose s))"
    by (rule sort_key_map) (simp add: f_def assms(5))
  ultimately have "latest_code phone purpose (put_code c' s) = map_option f (latest_code phone purpose s)"
    by (simp add: latest_code_def rev_map split: list.split)
  then show ?thesis using assms(1) by (simp add: f_def)
qed

text \<open>A code that was used, or burned by wrong tries, opens nothing any more.\<close>

lemma spent_code:
  assumes "latest_code phone purpose s = Some c" and "pc_consumed_at c \<noteq> None"
  shows "\<exists>x. consume_phone_code E C phone code purpose n s = (s, Inl x) \<and> (x = PhoneCodeExpiredError \<or> (\<exists>k. x = PhoneCodeRateLimitedError k))"
  using assms by (auto simp: consume_phone_code_def Let_def split: option.split)

lemma consume_Inr:
  assumes "consume_phone_code E C phone code purpose n s = (st, Inr s')"
  obtains c where "latest_code phone purpose s = Some c" "pc_consumed_at c = None" "(case n of None \<Rightarrow> e_now E | Some t \<Rightarrow> t) < pc_expires_at c"
    "code_hash E phone code purpose = pc_code_hash c" "st = s"
    "s' = put_code (c\<lparr>pc_consumed_at := Some (case n of None \<Rightarrow> e_now E | Some t \<Rightarrow> t)\<rparr>) s"
  using assms by (auto simp: consume_phone_code_def Let_def verify_hashed_token_def code_hash_def split: option.splits if_splits)

lemma code_once:
  assumes "consume_phone_code E C phone code purpose n s = (st, Inr s')" and "distinct (map pc_id (d_codes s))"
  shows "\<exists>x. consume_phone_code E' C phone code' purpose n' s' = (s', Inl x) \<and> (x = PhoneCodeExpiredError \<or> (\<exists>k. x = PhoneCodeRateLimitedError k))"
proof -
  obtain c where c: "latest_code phone purpose s = Some c" "s' = put_code (c\<lparr>pc_consumed_at := Some (case n of None \<Rightarrow> e_now E | Some t \<Rightarrow> t)\<rparr>) s"
    using assms(1) by (rule consume_Inr)
  have "latest_code phone purpose s' = Some (c\<lparr>pc_consumed_at := Some (case n of None \<Rightarrow> e_now E | Some t \<Rightarrow> t)\<rparr>)"
    unfolding c(2) by (rule latest_put [OF c(1)]) (simp_all add: assms(2))
  then show ?thesis by (rule spent_code) simp
qed

text \<open>Guessing a code: a list of wrong codes for one phone and purpose; \<open>code_guesses\<close> counts those that were compared.\<close>

definition code_compared :: "string \<Rightarrow> purpose \<Rightarrow> time \<Rightarrow> db \<Rightarrow> bool" where
  "code_compared phone purpose now s = (case latest_code phone purpose s of None \<Rightarrow> False
     | Some c \<Rightarrow> locked_for now c = None \<and> pc_consumed_at c = None \<and> now < pc_expires_at c)"

fun code_guesses :: "auth_config \<Rightarrow> string \<Rightarrow> purpose \<Rightarrow> (env \<times> string) list \<Rightarrow> db \<Rightarrow> nat" where
  "code_guesses C phone purpose [] s = 0"
| "code_guesses C phone purpose ((E, code) # qs) s = (if code_compared phone purpose (e_now E) s then 1 else 0) +
     code_guesses C phone purpose qs (fst (consume_phone_code E C phone code purpose None s))"

definition code_tries_left :: "auth_config \<Rightarrow> phone_code \<Rightarrow> nat" where
  "code_tries_left C c = (if pc_consumed_at c \<noteq> None then 0 else nat (max 1 (ac_phone_code_max_attempts C - pc_attempts c)))"

lemma put_code_ids [simp]: "map pc_id (d_codes (put_code c s)) = map pc_id (d_codes s)"
  by (simp add: put_code_def)

lemma wrong_code_guess:
  assumes "latest_code phone purpose s = Some c" and "code_hash E phone code purpose \<noteq> pc_code_hash c" and "distinct (map pc_id (d_codes s))"
  shows "\<exists>c'. latest_code phone purpose (fst (consume_phone_code E C phone code purpose None s)) = Some c' \<and> pc_code_hash c' = pc_code_hash c \<and>
    distinct (map pc_id (d_codes (fst (consume_phone_code E C phone code purpose None s)))) \<and>
    (if code_compared phone purpose (e_now E) s then 1 else 0) + code_tries_left C c' \<le> code_tries_left C c"
proof (cases "code_compared phone purpose (e_now E) s")
  case False
  then have "fst (consume_phone_code E C phone code purpose None s) = s"
    using assms(1) by (auto simp: consume_phone_code_def code_compared_def Let_def split: option.splits)
  then show ?thesis using assms(1,3) False by simp
next
  case True
  define c' where "c' = fst (wrong_code C (e_now E) c)"
  have s': "fst (consume_phone_code E C phone code purpose None s) = put_code c' s"
    using assms(1,2) True by (auto simp: consume_phone_code_def code_compared_def Let_def verify_hashed_token_def code_hash_def c'_def split: option.splits)
  have same: "pc_id c' = pc_id c" "pc_phone c' = pc_phone c" "pc_purpose c' = pc_purpose c" "pc_created_at c' = pc_created_at c"
    "pc_code_hash c' = pc_code_hash c" by (simp_all add: c'_def wrong_code_def Let_def)
  have "latest_code phone purpose (put_code c' s) = Some c'" by (rule latest_put [OF assms(1) same(1-4) assms(3)])
  moreover have "1 + code_tries_left C c' \<le> code_tries_left C c"
    using True assms(1) by (auto simp: code_compared_def code_tries_left_def c'_def wrong_code_def Let_def)
  ultimately show ?thesis using s' same(5) True assms(3) by (intro exI [of _ c']) simp
qed

lemma code_guesses_bounded:
  assumes "latest_code phone purpose s = Some c" and "distinct (map pc_id (d_codes s))"
    and "\<forall>(E, code) \<in> set qs. code_hash E phone code purpose \<noteq> pc_code_hash c"
  shows "code_guesses C phone purpose qs s \<le> code_tries_left C c"
  using assms
proof (induction qs arbitrary: s c)
  case (Cons q qs)
  obtain E code where q: "q = (E, code)" by force
  from wrong_code_guess [OF Cons.prems(1) _ Cons.prems(2), of E code C] Cons.prems(3) q obtain c' where
    c': "latest_code phone purpose (fst (consume_phone_code E C phone code purpose None s)) = Some c'" "pc_code_hash c' = pc_code_hash c"
    "distinct (map pc_id (d_codes (fst (consume_phone_code E C phone code purpose None s))))"
    "(if code_compared phone purpose (e_now E) s then 1 else 0) + code_tries_left C c' \<le> code_tries_left C c" by auto
  have "code_guesses C phone purpose qs (fst (consume_phone_code E C phone code purpose None s)) \<le> code_tries_left C c'"
    by (rule Cons.IH [OF c'(1,3)]) (use Cons.prems(3) c'(2) in auto)
  then show ?case using c'(4) q by simp
qed simp

section \<open>Signing out\<close>

lemma revoke_all:
  assumes "x \<in> set (d_sessions (snd (revoke user keep now s)))" and "us_user x = user" and "keep \<noteq> Some (us_id x)"
  shows "us_revoked_at x \<noteq> None"
proof -
  have "x \<in> (\<lambda>y. if us_user y = user \<and> us_revoked_at y = None \<and> keep \<noteq> Some (us_id y) then y\<lparr>us_revoked_at := Some now\<rparr> else y) ` set (d_sessions s)"
    using assms(1) by (simp add: revoke_def Let_def)
  then obtain y where y: "x = (if us_user y = user \<and> us_revoked_at y = None \<and> keep \<noteq> Some (us_id y) then y\<lparr>us_revoked_at := Some now\<rparr> else y)"
    by (rule imageE)
  show ?thesis
  proof (cases "us_user y = user \<and> us_revoked_at y = None \<and> keep \<noteq> Some (us_id y)")
    case False
    then have "x = y" using y by simp
    then show ?thesis using False assms(2,3) by simp
  qed (use y in simp)
qed

lemma revoked_unusable:
  assumes "\<forall>x \<in> set (d_sessions s). us_user x = i \<longrightarrow> us_id x \<notin> keep \<longrightarrow> us_revoked_at x \<noteq> None"
    and "resolve_active_session E token s = (s', Some (u, x))" and "us_user x = i"
  shows "us_id x \<in> keep"
proof -
  obtain y where y: "find_session E token s = Some y" "us_id x = us_id y" "us_user x = us_user y" "us_revoked_at y = None"
    using assms(2) by (auto simp: resolve_active_session_def Let_def split: option.splits if_splits)
  then have "y \<in> set (d_sessions s)" by (auto simp: find_session_def find_Some_iff)
  then show ?thesis using assms(1,3) y by auto
qed

lemma changed_password:
  assumes "change_password E C u old new keep s = (s', Inr n)"
  shows "verify_password C old (u_password_hash u) = Inr True"
    and "\<forall>x \<in> set (d_sessions s'). us_user x = u_id u \<longrightarrow> us_id x \<notin> {keep} \<longrightarrow> us_revoked_at x \<noteq> None"
    and "get_user (u_id u) s \<noteq> None \<Longrightarrow> get_user (u_id u) s' = Some (u\<lparr>u_password_hash := ac_hash C (d_draws s) new\<rparr>)"
proof -
  obtain ok where v: "verify_password C old (u_password_hash u) = Inr ok" "ok"
    "revoke (u_id u) (Some keep) (e_now E) (put_user (u\<lparr>u_password_hash := ac_hash C (d_draws s) new\<rparr>) (s\<lparr>d_draws := Suc (d_draws s)\<rparr>)) = (n, s')"
    using assms by (auto simp: change_password_def atomic_eq_Inr bindE_eq_Inr split: if_splits)
  show "verify_password C old (u_password_hash u) = Inr True" using v by simp
  show "\<forall>x \<in> set (d_sessions s'). us_user x = u_id u \<longrightarrow> us_id x \<notin> {keep} \<longrightarrow> us_revoked_at x \<noteq> None"
    using revoke_all [of _ "u_id u" "Some keep" "e_now E"] v(3) by (metis insert_iff option.inject snd_conv)
  show "get_user (u_id u) s' = Some (u\<lparr>u_password_hash := ac_hash C (d_draws s) new\<rparr>)" if "get_user (u_id u) s \<noteq> None"
    using v(3) that by (auto simp: revoke_def Let_def get_user_def put_user_def row_get_put)
qed

lemma reset_done:
  assumes "reset_password E C phone code new s = (s', Inr ())"
  obtains u where "find_user_by_phone phone s = Some u" "\<forall>x \<in> set (d_sessions s'). us_user x = u_id u \<longrightarrow> us_id x \<notin> {} \<longrightarrow> us_revoked_at x \<noteq> None"
    "\<exists>c. latest_code phone Reset s = Some c \<and> pc_consumed_at c = None \<and> e_now E < pc_expires_at c \<and> code_hash E phone code Reset = pc_code_hash c"
    "find_user_by_phone phone s' = Some (u\<lparr>u_password_hash := ac_hash C (d_draws s) new, u_failed_login_attempts := 0, u_locked_until := None\<rparr>)"
proof -
  obtain st s1 u where c: "consume_phone_code E C phone code Reset None s = (st, Inr s1)" and u: "find_user_by_phone phone s = Some u"
    and s': "s' = snd (revoke (u_id u) None (e_now E) (put_user (u\<lparr>u_password_hash := ac_hash C (d_draws s1) new, u_failed_login_attempts := 0, u_locked_until := None\<rparr>)
      (s1\<lparr>d_draws := Suc (d_draws s1)\<rparr>)))"
    using assms by (auto simp: reset_password_def split: prod.splits sum.splits option.splits)
  obtain k where k: "latest_code phone Reset s = Some k" "pc_consumed_at k = None" "e_now E < pc_expires_at k" "code_hash E phone code Reset = pc_code_hash k"
    "s1 = put_code (k\<lparr>pc_consumed_at := Some (e_now E)\<rparr>) s" using c by (rule consume_Inr) simp
  have d: "d_draws s1 = d_draws s" "d_users s1 = d_users s" by (simp_all add: k(5) put_code_def)
  have f: "find_user_by_phone phone (snd (revoke i keep now x)) = find_user_by_phone phone x" for i keep now x
    by (simp add: find_user_by_phone_def revoke_def Let_def)
  have u1: "find_user_by_phone phone (s1\<lparr>d_draws := Suc (d_draws s1)\<rparr>) = Some u" using u by (simp add: find_user_by_phone_def d(2))
  show thesis
  proof (rule that [OF u])
    show "\<forall>x \<in> set (d_sessions s'). us_user x = u_id u \<longrightarrow> us_id x \<notin> {} \<longrightarrow> us_revoked_at x \<noteq> None"
      using revoke_all [of _ "u_id u" None "e_now E"] unfolding s' by blast
    show "\<exists>c. latest_code phone Reset s = Some c \<and> pc_consumed_at c = None \<and> e_now E < pc_expires_at c \<and> code_hash E phone code Reset = pc_code_hash c"
      using k by blast
    show "find_user_by_phone phone s' = Some (u\<lparr>u_password_hash := ac_hash C (d_draws s) new, u_failed_login_attempts := 0, u_locked_until := None\<rparr>)"
      unfolding s' f using find_put_user [OF u1] by (simp add: d(1))
  qed
qed

end
