(* ===== verification/Http.thy ===== *)
theory Http
  imports Accounts
begin

text \<open>
  The HTTP edge: core/auth_context.py and the middleware of main.py. A request carries its parsed
  cookies and headers; a route is a function of the signed-in context and the database; it answers, or an
  exception escapes it (None), which the server answers with 500. An answer has a status, a content,
  headers and cookie changes; \<open>session_security_middleware\<close> stands between the two.
\<close>

section \<open>Requests and answers\<close>

record http_request =
  hr_method :: string
  hr_cookies :: "(string \<times> string) list"
  hr_headers :: "(string \<times> string) list"
  hr_client :: "string option"

datatype cookie_change =
    Set_cookie (cookie_name: string) (cookie_value: string) (cookie_max_age: int) (http_only: bool) (secure: bool) (same_site: string)
  | Delete_cookie (cookie_name: string)

datatype 'a content = Detail string | Invalid_fields "string list" | Body 'a | No_content

record 'a answer =
  an_status :: int
  an_content :: "'a content"
  an_headers :: "(string \<times> string) list"
  an_cookies :: "cookie_change list"

record web_config =
  wc_session_cookie_name :: string
  wc_csrf_cookie_name :: string
  wc_csrf_header_name :: string
  wc_session_cookie_secure :: bool
  wc_csrf_cookie_secure :: bool
  wc_session_cookie_samesite :: string
  wc_csrf_cookie_samesite :: string
  wc_payment_callback_secret :: string
  wc_phone_code_dev_echo :: bool
  wc_auth :: auth_config
  wc_decimal_ok :: "int \<Rightarrow> int \<Rightarrow> decimal \<Rightarrow> bool"
  wc_trim :: "string \<Rightarrow> string"

text \<open>What the middleware stores on the request: the user and the session, as they were read.\<close>

type_synonym signed_in = "(user \<times> user_session) option"

definition ok :: "int \<Rightarrow> 'a \<Rightarrow> 'a answer" where
  "ok n x = \<lparr>an_status = n, an_content = Body x, an_headers = [], an_cookies = []\<rparr>"

definition refuse :: "int \<Rightarrow> string \<Rightarrow> 'a answer" where
  "refuse n detail = \<lparr>an_status = n, an_content = Detail detail, an_headers = [], an_cookies = []\<rparr>"

definition refuse_after :: "int \<Rightarrow> string \<Rightarrow> int \<Rightarrow> 'a answer" where
  "refuse_after n detail k = (refuse n detail)\<lparr>an_headers := [(''Retry-After'', int_str k)]\<rparr>"

definition server_error :: "'a answer" where
  "server_error = refuse 500 ''Internal Server Error''"

text \<open>The first header of that name; names are compared without case.\<close>

definition header_get :: "(string \<times> string) list \<Rightarrow> string \<Rightarrow> string option" where
  "header_get hs name = map_option snd (find (\<lambda>(k, v). py_lower k = py_lower name) hs)"

definition set_default_header :: "string \<times> string \<Rightarrow> (string \<times> string) list \<Rightarrow> (string \<times> string) list" where
  "set_default_header h hs = (if header_get hs (fst h) = None then hs @ [h] else hs)"

text \<open>\<open>hmac.compare_digest\<close> of two texts raises TypeError unless both are ASCII.\<close>

definition compare_digest :: "string \<Rightarrow> string \<Rightarrow> bool option" where
  "compare_digest a b = (if list_all (\<lambda>c. (of_char c :: nat) < 128) (a @ b) then Some (a = b) else None)"

section \<open>Who is asking\<close>

definition get_current_user :: "signed_in \<Rightarrow> 'a answer + user" where
  "get_current_user ctx = (case ctx of None \<Rightarrow> Inl (refuse 401 ''Authentication required.'') | Some (u, x) \<Rightarrow> Inr u)"

definition get_client_identifier :: "http_request \<Rightarrow> string" where
  "get_client_identifier q = (case hr_client q of None \<Rightarrow> ''unknown'' | Some h \<Rightarrow> if h = '''' then ''unknown'' else h)"

definition require_role :: "user \<Rightarrow> user_role list \<Rightarrow> 'a answer + user" where
  "require_role u roles = (if u_role u \<in> set roles then Inr u
     else Inl (refuse 403 ''You are not authorized to access this resource.''))"

definition require_buyer_user :: "signed_in \<Rightarrow> 'a answer + user" where
  "require_buyer_user ctx = bindE (get_current_user ctx) (\<lambda>u. require_role u [BUYER])"

definition require_seller_user :: "signed_in \<Rightarrow> 'a answer + user" where
  "require_seller_user ctx = bindE (get_current_user ctx) (\<lambda>u. require_role u [SELLER])"

definition require_admin_user :: "signed_in \<Rightarrow> 'a answer + user" where
  "require_admin_user ctx = bindE (get_current_user ctx) (\<lambda>u. require_role u [ADMIN])"

text \<open>The row of the signed-in user, read again in the route's own session.\<close>

definition account_row :: "user \<Rightarrow> db \<Rightarrow> 'a answer + user" where
  "account_row u s = (case get_user (u_id u) s of None \<Rightarrow> Inl (refuse 401 ''Authentication required.'') | Some v \<Rightarrow> Inr v)"

section \<open>Building a route\<close>

text \<open>A guard that refuses answers before the body or the database is looked at; then the fields are validated.\<close>

definition guarded :: "'a answer + 'u \<Rightarrow> ('u \<Rightarrow> 's \<Rightarrow> 's \<times> 'a answer option) \<Rightarrow> 's \<Rightarrow> 's \<times> 'a answer option" where
  "guarded g f s = (case g of Inl a \<Rightarrow> (s, Some a) | Inr u \<Rightarrow> f u s)"

definition unprocessable :: "string list \<Rightarrow> 'a answer" where
  "unprocessable names = \<lparr>an_status = 422, an_content = Invalid_fields names, an_headers = [], an_cookies = []\<rparr>"

definition validated :: "string list \<Rightarrow> ('s \<Rightarrow> 's \<times> 'a answer option) \<Rightarrow> 's \<Rightarrow> 's \<times> 'a answer option" where
  "validated errors f s = (if errors = [] then f s else (s, Some (unprocessable errors)))"

text \<open>The \<open>except\<close> clauses of a route, and its answer on success.\<close>

definition reply :: "('e \<Rightarrow> 'a answer option) \<Rightarrow> ('r \<Rightarrow> 'a answer) \<Rightarrow> 's \<times> ('e + 'r) \<Rightarrow> 's \<times> 'a answer option" where
  "reply refusal answer p = (fst p, case snd p of Inl e \<Rightarrow> refusal e | Inr r \<Rightarrow> Some (answer r))"

text \<open>The checks of a request's fields (schemas/): each gives the fields that fail it.\<close>

definition fails :: "string \<Rightarrow> bool \<Rightarrow> string list" where
  "fails name bad = (if bad then [name] else [])"

definition not_within :: "nat \<Rightarrow> nat \<Rightarrow> string \<Rightarrow> bool" where
  "not_within lo hi v = (length v < lo \<or> hi < length v)"

definition too_long :: "nat \<Rightarrow> string option \<Rightarrow> bool" where
  "too_long hi v = (case v of None \<Rightarrow> False | Some t \<Rightarrow> hi < length t)"

section \<open>The middleware\<close>

definition STATE_CHANGING_METHODS :: "string list" where
  "STATE_CHANGING_METHODS = [''POST'', ''PUT'', ''PATCH'', ''DELETE'']"

definition production :: "env \<Rightarrow> bool" where
  "production E = (py_lower (strip (st_environment (e_settings E))) = ''production'')"

definition security_headers :: "env \<Rightarrow> (string \<times> string) list" where
  "security_headers E = [(''X-Content-Type-Options'', ''nosniff''), (''X-Frame-Options'', ''DENY''), (''Referrer-Policy'', ''no-referrer''),
     (''Content-Security-Policy'', ''default-src '' @ [CHR 0x27] @ ''none'' @ [CHR 0x27] @ ''; frame-ancestors '' @ [CHR 0x27] @ ''none'' @ [CHR 0x27] @
       ''; base-uri '' @ [CHR 0x27] @ ''none'' @ [CHR 0x27]),
     (''Permissions-Policy'', ''camera=(), microphone=(), geolocation=()'')] @
     (if production E then [(''Strict-Transport-Security'', ''max-age=31536000; includeSubDomains'')] else [])"

definition set_security_headers :: "env \<Rightarrow> 'a answer \<Rightarrow> 'a answer" where
  "set_security_headers E a = a\<lparr>an_headers := fold set_default_header (security_headers E) (an_headers a)\<rparr>"

definition clear_auth_cookies :: "web_config \<Rightarrow> 'a answer \<Rightarrow> 'a answer" where
  "clear_auth_cookies W a = a\<lparr>an_cookies := an_cookies a @ [Delete_cookie (wc_session_cookie_name W), Delete_cookie (wc_csrf_cookie_name W)]\<rparr>"

definition security_error_response :: "env \<Rightarrow> web_config \<Rightarrow> int \<Rightarrow> string \<Rightarrow> bool \<Rightarrow> 'a answer" where
  "security_error_response E W n detail clear = (let a = refuse n detail in
     set_security_headers E (if clear then clear_auth_cookies W a else a))"

definition given :: "string option \<Rightarrow> string option" where
  "given v = (case v of None \<Rightarrow> None | Some t \<Rightarrow> if t = '''' then None else Some t)"

definition session_token :: "web_config \<Rightarrow> http_request \<Rightarrow> string option" where
  "session_token W q = given (map_of (hr_cookies q) (wc_session_cookie_name W))"

definition csrf_tokens :: "web_config \<Rightarrow> http_request \<Rightarrow> (string \<times> string) option" where
  "csrf_tokens W q = (case (given (map_of (hr_cookies q) (wc_csrf_cookie_name W)), given (header_get (hr_headers q) (wc_csrf_header_name W))) of
       (Some c, Some h) \<Rightarrow> Some (c, h) | _ \<Rightarrow> None)"

text \<open>What stops a state-changing request with a session cookie: \<open>Inl None\<close> is an exception.\<close>

definition check_csrf :: "env \<Rightarrow> web_config \<Rightarrow> http_request \<Rightarrow> user_session \<Rightarrow> 'a answer option + unit" where
  "check_csrf E W q x = (case csrf_tokens W q of
       None \<Rightarrow> Inl (Some (security_error_response E W 403 ''CSRF token missing.'' False))
     | Some (c, h) \<Rightarrow> (case compare_digest c h of
         None \<Rightarrow> Inl None
       | Some False \<Rightarrow> Inl (Some (security_error_response E W 403 ''CSRF token mismatch.'' False))
       | Some True \<Rightarrow> if is_valid_csrf_for_session E h x then Inr ()
           else Inl (Some (security_error_response E W 403 ''CSRF token invalid.'' True))))"

definition finish :: "env \<Rightarrow> web_config \<Rightarrow> bool \<Rightarrow> 's \<times> 'a answer option \<Rightarrow> 's \<times> 'a answer option" where
  "finish E W stale p = (fst p, map_option (\<lambda>a. set_security_headers E (if stale then clear_auth_cookies W a else a)) (snd p))"

definition session_security_middleware ::
    "env \<Rightarrow> web_config \<Rightarrow> http_request \<Rightarrow> (signed_in \<Rightarrow> db \<Rightarrow> db \<times> 'a answer option) \<Rightarrow> db \<Rightarrow> db \<times> 'a answer option" where
  "session_security_middleware E W q call_next s = (case session_token W q of
       None \<Rightarrow> finish E W False (call_next None s)
     | Some token \<Rightarrow> (case resolve_active_session E token s of (s1, ctx) \<Rightarrow>
         if py_upper (hr_method q) \<in> set STATE_CHANGING_METHODS
         then (case ctx of
             None \<Rightarrow> (s1, Some (security_error_response E W 401 ''Invalid or expired session.'' True))
           | Some (u, x) \<Rightarrow> (case check_csrf E W q x of
               Inl a \<Rightarrow> (s1, a) | Inr _ \<Rightarrow> finish E W False (call_next (Some (u, x)) s1)))
         else finish E W (ctx = None) (call_next ctx s1)))"

text \<open>The server answers an escaped exception itself.\<close>

definition served :: "'s \<times> 'a answer option \<Rightarrow> 's \<times> 'a answer" where
  "served p = (fst p, case snd p of None \<Rightarrow> server_error | Some a \<Rightarrow> a)"

section \<open>The session behind a route\<close>

text \<open>
  A request is signed in as a user when its session cookie is the token of a stored session that is not
  revoked and not expired, of an active user.
\<close>

definition signed_in_as :: "env \<Rightarrow> web_config \<Rightarrow> http_request \<Rightarrow> db \<Rightarrow> user \<Rightarrow> bool" where
  "signed_in_as E W q s u = (\<exists>token x. session_token W q = Some token \<and> find_session E token s = Some x \<and> us_revoked_at x = None \<and>
     e_now E < us_expires_at x \<and> get_user (us_user x) s = Some u \<and> u_is_active u)"

text \<open>Its CSRF cookie and header agree, and their hash is the one stored with the session.\<close>

definition csrf_proved :: "env \<Rightarrow> web_config \<Rightarrow> http_request \<Rightarrow> db \<Rightarrow> bool" where
  "csrf_proved E W q s = (\<exists>token x c. session_token W q = Some token \<and> find_session E token s = Some x \<and>
     csrf_tokens W q = Some (c, c) \<and> us_csrf_hash x = hash_session_token E c)"

lemma resolve_Some:
  assumes "resolve_active_session E token s = (s1, Some (u, x))"
  obtains y where "find_session E token s = Some y" "us_revoked_at y = None" "e_now E < us_expires_at y" "get_user (us_user y) s = Some u"
    "u_is_active u" "us_csrf_hash x = us_csrf_hash y" "us_id x = us_id y" "us_user x = us_user y"
  using assms by (auto simp: resolve_active_session_def Let_def split: option.splits if_splits)

lemma resolve_sessions: "\<exists>rows. fst (resolve_active_session E token s) = s\<lparr>d_sessions := rows\<rparr>"
proof -
  have "\<exists>rows. s = s\<lparr>d_sessions := rows\<rparr>" by (rule exI [of _ "d_sessions s"]) simp
  moreover have "\<exists>rows. put_session x s = s\<lparr>d_sessions := rows\<rparr>" for x by (auto simp: put_session_def)
  ultimately show ?thesis by (auto simp: resolve_active_session_def Let_def split: option.split)
qed

lemma check_csrf_Inr:
  assumes "check_csrf E W q x = Inr ()"
  obtains c where "csrf_tokens W q = Some (c, c)" "us_csrf_hash x = hash_session_token E c"
proof -
  obtain c h where c: "csrf_tokens W q = Some (c, h)" using assms by (cases "csrf_tokens W q") (auto simp: check_csrf_def)
  have "compare_digest c h = Some True" and "is_valid_csrf_for_session E h x"
    using assms c by (auto simp: check_csrf_def split: option.splits bool.splits if_splits)
  then show thesis using that c
    by (auto simp: compare_digest_def is_valid_csrf_for_session_def verify_hashed_token_def split: if_splits)
qed

text \<open>The database a route finds: an expired session is marked, a live one stamped, nothing else.\<close>

definition seen :: "env \<Rightarrow> web_config \<Rightarrow> http_request \<Rightarrow> db \<Rightarrow> db" where
  "seen E W q s = (case session_token W q of None \<Rightarrow> s | Some token \<Rightarrow> fst (resolve_active_session E token s))"

lemma seen_sessions: "\<exists>rows. seen E W q s = s\<lparr>d_sessions := rows\<rparr>"
proof (cases "session_token W q")
  case None
  show ?thesis unfolding seen_def None by (rule exI [of _ "d_sessions s"]) simp
qed (use resolve_sessions in \<open>simp add: seen_def\<close>)

text \<open>
  Every request either is answered without its route being asked, or its route runs, on the database with
  at most the session row touched, signed in as the user of the request's session or as nobody; and a
  state-changing route never runs signed in without the session's CSRF token.
\<close>

lemma middleware_cases:
  obtains (stopped) a where "\<And>nxt :: signed_in \<Rightarrow> db \<Rightarrow> db \<times> 'a answer option. session_security_middleware E W q nxt s = (seen E W q s, a)"
      "\<forall>b. a = Some b \<longrightarrow> an_status b \<in> {401, 403}" "session_token W q \<noteq> None" "py_upper (hr_method q) \<in> set STATE_CHANGING_METHODS"
  | (anonymous) stale where "\<And>nxt :: signed_in \<Rightarrow> db \<Rightarrow> db \<times> 'a answer option. session_security_middleware E W q nxt s = finish E W stale (nxt None (seen E W q s))"
  | (member) u x where "\<And>nxt :: signed_in \<Rightarrow> db \<Rightarrow> db \<times> 'a answer option. session_security_middleware E W q nxt s = finish E W False (nxt (Some (u, x)) (seen E W q s))"
      "signed_in_as E W q s u" "us_user x = u_id u" "py_upper (hr_method q) \<in> set STATE_CHANGING_METHODS \<Longrightarrow> csrf_proved E W q s"
proof (cases "session_token W q")
  case None
  show thesis
    by (rule anonymous [of False]) (simp add: session_security_middleware_def seen_def None)
next
  case (Some token)
  obtain s1 ctx where r: "resolve_active_session E token s = (s1, ctx)" by force
  have s1: "seen E W q s = s1" by (simp add: seen_def Some r)
  show thesis
  proof (cases ctx)
    case None
    show thesis
    proof (cases "py_upper (hr_method q) \<in> set STATE_CHANGING_METHODS")
      case True
      show thesis
        by (rule stopped [of "Some (security_error_response E W 401 ''Invalid or expired session.'' True)"])
           (simp_all add: session_security_middleware_def Some r s1 None True security_error_response_def set_security_headers_def
             clear_auth_cookies_def refuse_def)
    next
      case False
      show thesis by (rule anonymous [of True]) (simp add: session_security_middleware_def Some r s1 None False)
    qed
  next
    case (Some c)
    obtain u x where c: "ctx = Some (u, x)" using Some by (cases c) auto
    from resolve_Some [OF r [unfolded c]] obtain y where y: "find_session E token s = Some y" "us_revoked_at y = None" "e_now E < us_expires_at y"
      "get_user (us_user y) s = Some u" "u_is_active u" "us_csrf_hash x = us_csrf_hash y" "us_user x = us_user y" by metis
    have as: "signed_in_as E W q s u" using y \<open>session_token W q = Some token\<close> by (auto simp: signed_in_as_def)
    have own: "us_user x = u_id u" using y(4,7) by (auto simp: get_user_def dest: row_get_SomeD)
    show thesis
    proof (cases "py_upper (hr_method q) \<in> set STATE_CHANGING_METHODS")
      case False
      show thesis
        by (rule member [of u x]) (simp_all add: session_security_middleware_def \<open>session_token W q = Some token\<close> r s1 c False as own)
    next
      case True
      show thesis
      proof (cases "check_csrf E W q x :: 'a answer option + unit")
        case (Inl a)
        have "\<forall>b. a = Some b \<longrightarrow> an_status b \<in> {401, 403}"
          using Inl by (auto simp: check_csrf_def security_error_response_def set_security_headers_def clear_auth_cookies_def refuse_def Let_def
              split: option.splits bool.splits if_splits)
        then show thesis
          by (intro stopped [of a]) (simp_all add: session_security_middleware_def \<open>session_token W q = Some token\<close> r s1 c True Inl)
      next
        case (Inr z)
        then have i: "check_csrf E W q x = (Inr () :: 'a answer option + unit)" by simp
        then obtain k where "csrf_tokens W q = Some (k, k)" "us_csrf_hash x = hash_session_token E k" by (rule check_csrf_Inr)
        then have "csrf_proved E W q s" using y(1,6) \<open>session_token W q = Some token\<close> by (auto simp: csrf_proved_def)
        then show thesis
          by (intro member [of u x]) (simp_all add: session_security_middleware_def \<open>session_token W q = Some token\<close> r s1 c True i as own)
      qed
    qed
  qed
qed

end
