(* ===== verification/Order_Routes.thy ===== *)
theory Order_Routes
  imports Http Authority Order_Creation
begin

text \<open>
  The routes of orders and disputes (routers/transactions.py, routers/disputes.py): one definition per
  endpoint, from its guards and the checks of its fields (schemas/transaction.py, schemas/dispute.py) to
  the answer each exception gets, over the operations of the order workflow.
\<close>

section \<open>Answers\<close>

record order_answer =
  oa_id :: uuid
  oa_reference :: string
  oa_listing :: uuid
  oa_buyer :: uuid
  oa_seller :: uuid
  oa_amount :: cents
  oa_status :: tx_status
  oa_custody_provider :: string
  oa_created_at :: time
  oa_updated_at :: time

definition shown_custody_provider :: "string \<Rightarrow> string" where
  "shown_custody_provider v = (if py_lower (strip v) = ''econfirm'' then ''econfirm'' else ''simulated'')"

definition order_answer_of :: "transaction \<Rightarrow> order_answer" where
  "order_answer_of t = \<lparr>oa_id = tx_id t, oa_reference = tx_reference t, oa_listing = tx_listing t, oa_buyer = tx_buyer t,
     oa_seller = tx_seller t, oa_amount = tx_amount t, oa_status = tx_status t,
     oa_custody_provider = shown_custody_provider (tx_custody_provider t), oa_created_at = tx_created_at t, oa_updated_at = tx_updated_at t\<rparr>"

record payment_instruction =
  pi_kind :: string
  pi_redirect_url :: "string option"
  pi_status :: string
  pi_failure_reason :: "failure_reason option"
  pi_sent_at :: time
  pi_expires_at :: time
  pi_resend_available_at :: time

definition instruction_from_state :: "prompt_state \<Rightarrow> payment_instruction" where
  "instruction_from_state p = \<lparr>pi_kind = (if ps_kind p = REDIRECT then ''REDIRECT'' else ''STK_PROMPT''), pi_redirect_url = ps_redirect_url p,
     pi_status = ps_status p, pi_failure_reason = ps_failure_reason p, pi_sent_at = ps_sent_at p, pi_expires_at = ps_expires_at p,
     pi_resend_available_at = ps_resend_available_at p\<rparr>"

record callback_answer =
  ca_transaction :: uuid
  ca_status :: tx_status
  ca_transitioned :: bool
  ca_duplicate :: bool
  ca_detail :: string

datatype order_content =
    Order order_answer
  | Created order_answer payment_instruction
  | Instruction payment_instruction
  | Callback callback_answer
  | Decided force_resolve_result
  | Queue "escalation_item list"
  | Case dispute transaction "timeline_event list"

type_synonym order_reply = "order_content answer"

definition order_ok :: "transaction \<Rightarrow> order_reply" where
  "order_ok t = ok 200 (Order (order_answer_of t))"

section \<open>Exceptions\<close>

definition not_found :: order_reply where "not_found = refuse 404 ''Transaction not found.''"
definition no_listing :: order_reply where "no_listing = refuse 404 ''Listing not found.''"

definition dispatch_refusal :: "exn \<Rightarrow> order_reply option" where
  "dispatch_refusal x = (case x of TransactionNotFoundForDispatchError _ \<Rightarrow> Some not_found | TransactionDispatchForbiddenError m \<Rightarrow> Some (refuse 403 m)
     | TransactionDispatchInvalidStateError m \<Rightarrow> Some (refuse 422 m) | TransactionValidationError m \<Rightarrow> Some (refuse 422 m) | _ \<Rightarrow> None)"

definition arrival_refusal :: "exn \<Rightarrow> order_reply option" where
  "arrival_refusal x = (case x of TransactionNotFoundForArrivalError _ \<Rightarrow> Some not_found | TransactionArrivalForbiddenError m \<Rightarrow> Some (refuse 403 m)
     | TransactionArrivalInvalidStateError m \<Rightarrow> Some (refuse 422 m) | TransactionValidationError m \<Rightarrow> Some (refuse 422 m) | _ \<Rightarrow> None)"

definition buyer_refusal :: "exn \<Rightarrow> order_reply option" where
  "buyer_refusal x = (case x of TransactionNotFoundForBuyerActionError _ \<Rightarrow> Some not_found | TransactionBuyerActionForbiddenError m \<Rightarrow> Some (refuse 403 m)
     | TransactionBuyerActionInvalidStateError m \<Rightarrow> Some (refuse 422 m) | TransactionValidationError m \<Rightarrow> Some (refuse 422 m) | _ \<Rightarrow> None)"

definition issue_refusal :: "exn \<Rightarrow> order_reply option" where
  "issue_refusal x = (case x of ListingNotFoundForTransactionError _ \<Rightarrow> Some no_listing | _ \<Rightarrow> buyer_refusal x)"

definition otp_refusal :: "exn \<Rightarrow> order_reply option" where
  "otp_refusal x = (case x of InvalidTransactionOtpError m \<Rightarrow> Some (refuse 422 m) | _ \<Rightarrow> issue_refusal x)"

definition action_refusal :: "exn \<Rightarrow> order_reply option" where
  "action_refusal x = (case x of ListingNotFoundForTransactionError _ \<Rightarrow> Some no_listing | _ \<Rightarrow> dispatch_refusal x)"

definition escalation_refusal :: "exn \<Rightarrow> order_reply option" where
  "escalation_refusal x = (case x of EscalationNotFoundError _ \<Rightarrow> Some not_found | EscalationForbiddenError m \<Rightarrow> Some (refuse 403 m)
     | EscalationInvalidStateError m \<Rightarrow> Some (refuse 409 m) | _ \<Rightarrow> None)"

definition callback_refusal :: "exn \<Rightarrow> order_reply option" where
  "callback_refusal x = (case x of TransactionNotFoundForCallbackError _ \<Rightarrow> Some not_found | _ \<Rightarrow> None)"

definition decision_refusal :: "exn \<Rightarrow> order_reply option" where
  "decision_refusal x = (case x of DisputeCaseNotFoundError _ \<Rightarrow> Some (refuse 404 ''Dispute case not found.'')
     | DisputeDecisionReasonRequiredError m \<Rightarrow> Some (refuse 422 m) | DisputeCaseInvalidStateError m \<Rightarrow> Some (refuse 422 m)
     | DisputeSplitPayoutUnsupportedError m \<Rightarrow> Some (refuse 409 m) | _ \<Rightarrow> None)"

section \<open>Creating and paying\<close>

definition payment_instruction_for :: "env \<Rightarrow> uuid \<Rightarrow> db \<Rightarrow> payment_instruction option" where
  "payment_instruction_for E tid s = map_option (\<lambda>p. instruction_from_state (prompt_state_of p (e_now E))) (latest_payment_prompt tid s)"

definition created_response :: "env \<Rightarrow> int \<Rightarrow> transaction \<Rightarrow> db \<Rightarrow> order_reply" where
  "created_response E n t s = (case payment_instruction_for E (tx_id t) s of
       None \<Rightarrow> refuse 503 ''Payment prompt was not recorded.'' | Some p \<Rightarrow> ok n (Created (order_answer_of t) p))"

text \<open>What the order looks like after the prompt failed: \<open>exc.transaction\<close> is the stored row.\<close>

definition creation_answer :: "env \<Rightarrow> db \<Rightarrow> exn + transaction \<Rightarrow> order_reply option" where
  "creation_answer E s r = (case r of Inr t \<Rightarrow> Some (created_response E 201 t s)
     | Inl (ListingNotFoundForTransactionError _) \<Rightarrow> Some no_listing
     | Inl (PaymentInitiationError m tid) \<Rightarrow> (case tid of None \<Rightarrow> Some (refuse 503 m)
         | Some i \<Rightarrow> map_option (\<lambda>t. (created_response E 202 t s)\<lparr>an_headers := [(''X-Payment-Initiation-Status'', ''failed'')]\<rparr>) (get_transaction i s))
     | Inl (TransactionValidationError m) \<Rightarrow> Some (refuse 422 m) | Inl _ \<Rightarrow> None)"

definition invalid_creation :: "web_config \<Rightarrow> decimal option \<Rightarrow> string list" where
  "invalid_creation W amount = (case amount of None \<Rightarrow> [] | Some (Fin c e) \<Rightarrow> fails ''amount'' (c \<le> 0 \<or> \<not> wc_decimal_ok W 12 2 (Fin c e)) | Some _ \<Rightarrow> [''amount''])"

definition create_buyer_transaction ::
    "env \<Rightarrow> web_config \<Rightarrow> 'w provider \<Rightarrow> 'w gateway \<Rightarrow> uuid \<Rightarrow> decimal option \<Rightarrow> signed_in \<Rightarrow> db \<times> 'w \<Rightarrow> (db \<times> 'w) \<times> order_reply option" where
  "create_buyer_transaction E W P gw lid amount ctx = guarded (require_buyer_user ctx) (\<lambda>u.
     validated (invalid_creation W amount) (\<lambda>(s, w). case create_transaction E P gw u lid amount s w of
       ((s', r), w') \<Rightarrow> ((s', w'), creation_answer E s' r)))"

definition resend_answer :: "env \<Rightarrow> db \<Rightarrow> exn + payment_prompt \<Rightarrow> order_reply option" where
  "resend_answer E s r = (let instruction = (\<lambda>p. Instruction (instruction_from_state (prompt_state_of p (e_now E)))) in
     case r of Inr p \<Rightarrow> Some (ok 200 (instruction p)) | Inl (PaymentResendNotFoundError _) \<Rightarrow> Some not_found
     | Inl (PaymentResendInvalidStateError m) \<Rightarrow> Some (refuse 422 m)
     | Inl (PaymentResendTooSoonError k) \<Rightarrow> Some (refuse_after 429 ''Wait before sending another payment prompt.'' k)
     | Inl (PaymentResendInitiationError i) \<Rightarrow> map_option (\<lambda>p. ok 202 (instruction p)) (row_get pp_id i (d_prompts s)) | Inl _ \<Rightarrow> None)"

definition resend_transaction_payment_prompt ::
    "env \<Rightarrow> 'w provider \<Rightarrow> 'w gateway \<Rightarrow> uuid \<Rightarrow> signed_in \<Rightarrow> db \<times> 'w \<Rightarrow> (db \<times> 'w) \<times> order_reply option" where
  "resend_transaction_payment_prompt E P gw tid ctx = guarded (require_buyer_user ctx) (\<lambda>u (s, w).
     case resend_payment_prompt E P gw tid u None s w of ((s', r), w') \<Rightarrow> ((s', w'), resend_answer E s' r))"

definition PAYMENT_CALLBACK_SECRET_HEADER :: string where
  "PAYMENT_CALLBACK_SECRET_HEADER = ''X-Payment-Callback-Secret''"

definition require_payment_callback_auth :: "env \<Rightarrow> web_config \<Rightarrow> http_request \<Rightarrow> order_reply + unit" where
  "require_payment_callback_auth E W q = (let expected = strip (wc_payment_callback_secret W);
       given = strip (case header_get (hr_headers q) PAYMENT_CALLBACK_SECRET_HEADER of None \<Rightarrow> '''' | Some v \<Rightarrow> v);
       refused = Inl (refuse 401 ''Payment callback authentication failed.'') in
     if expected \<noteq> '''' then (if given \<noteq> '''' \<and> given = expected then Inr () else refused)
     else if production E then refused else Inr ())"

definition invalid_callback :: "payment_callback \<Rightarrow> string list" where
  "invalid_callback cb = fails ''result_desc'' (too_long 255 (cb_result_desc cb)) @ fails ''checkout_request_id'' (too_long 120 (cb_checkout_request_id cb)) @
     fails ''merchant_request_id'' (too_long 120 (cb_merchant_request_id cb)) @ fails ''provider_reference'' (too_long 120 (cb_provider_reference cb))"

definition callback_reply :: "callback_result \<Rightarrow> order_reply" where
  "callback_reply r = ok (if \<not> cr_transitioned r \<and> \<not> cr_duplicate r then 202 else 200) (Callback \<lparr>ca_transaction = tx_id (cr_transaction r),
     ca_status = tx_status (cr_transaction r), ca_transitioned = cr_transitioned r, ca_duplicate = cr_duplicate r, ca_detail = cr_detail r\<rparr>)"

definition payment_confirmation_callback :: "env \<Rightarrow> web_config \<Rightarrow> http_request \<Rightarrow> payment_callback \<Rightarrow> db \<Rightarrow> db \<times> order_reply option" where
  "payment_confirmation_callback E W q cb = guarded (require_payment_callback_auth E W q) (\<lambda>_.
     validated (invalid_callback cb) (\<lambda>s. reply callback_refusal callback_reply (confirm_payment_callback E cb s)))"

section \<open>The seller's and the buyer's actions\<close>

definition dispatch_locked_transaction :: "env \<Rightarrow> uuid \<Rightarrow> signed_in \<Rightarrow> db \<Rightarrow> db \<times> order_reply option" where
  "dispatch_locked_transaction E tid ctx = guarded (require_seller_user ctx) (\<lambda>u s.
     reply dispatch_refusal order_ok (dispatch_transaction E tid u s))"

definition mark_delivery_arrival :: "env \<Rightarrow> uuid \<Rightarrow> signed_in \<Rightarrow> db \<Rightarrow> db \<times> order_reply option" where
  "mark_delivery_arrival E tid ctx = guarded (require_seller_user ctx) (\<lambda>u s.
     reply arrival_refusal order_ok (mark_transaction_arrived E tid u s))"

definition invalid_otp :: "string \<Rightarrow> string list" where
  "invalid_otp code = fails ''otp_code'' (not_within 4 12 code \<or> \<not> list_all ascii_digit code)"

definition confirm_delivery_otp :: "env \<Rightarrow> uuid \<Rightarrow> string \<Rightarrow> signed_in \<Rightarrow> db \<Rightarrow> db \<times> order_reply option" where
  "confirm_delivery_otp E tid code ctx = guarded (require_buyer_user ctx) (\<lambda>u. validated (invalid_otp code) (\<lambda>s.
     reply otp_refusal order_ok (confirm_buyer_delivery_otp E tid u code s)))"

text \<open>The body is optional: reason and note.\<close>

definition invalid_withhold :: "(string option \<times> string option) option \<Rightarrow> string list" where
  "invalid_withhold body = (case body of None \<Rightarrow> [] | Some (reason, note) \<Rightarrow> fails ''reason'' (too_long 32 reason) @ fails ''note'' (too_long 500 note))"

definition withhold_delivery_otp :: "env \<Rightarrow> uuid \<Rightarrow> (string option \<times> string option) option \<Rightarrow> signed_in \<Rightarrow> db \<Rightarrow> db \<times> order_reply option" where
  "withhold_delivery_otp E tid body ctx = guarded (require_buyer_user ctx) (\<lambda>u. validated (invalid_withhold body) (\<lambda>s.
     reply buyer_refusal order_ok (withhold_buyer_delivery_otp E tid u (Option.bind body fst) (Option.bind body snd) s)))"

definition invalid_issue :: "string \<Rightarrow> string \<Rightarrow> string list" where
  "invalid_issue category description = fails ''category'' (not_within 2 64 category) @ fails ''description'' (not_within 5 2000 description)"

definition report_functional_issue_for_transaction :: "env \<Rightarrow> uuid \<Rightarrow> string \<Rightarrow> string \<Rightarrow> dict \<Rightarrow> signed_in \<Rightarrow> db \<Rightarrow> db \<times> order_reply option" where
  "report_functional_issue_for_transaction E tid category description evidence ctx = guarded (require_buyer_user ctx) (\<lambda>u.
     validated (invalid_issue category description) (\<lambda>s.
     reply issue_refusal order_ok (report_functional_issue E tid u category description (Some evidence) s)))"

definition mark_buyer_sent_back_for_transaction :: "env \<Rightarrow> uuid \<Rightarrow> signed_in \<Rightarrow> db \<Rightarrow> db \<times> order_reply option" where
  "mark_buyer_sent_back_for_transaction E tid ctx = guarded (require_buyer_user ctx) (\<lambda>u s.
     reply buyer_refusal order_ok (mark_buyer_sent_back E tid u s))"

definition mark_seller_received_for_transaction :: "env \<Rightarrow> uuid \<Rightarrow> signed_in \<Rightarrow> db \<Rightarrow> db \<times> order_reply option" where
  "mark_seller_received_for_transaction E tid ctx = guarded (require_seller_user ctx) (\<lambda>u s.
     reply dispatch_refusal order_ok (mark_seller_received E tid u s))"

definition invalid_action :: "string \<Rightarrow> string option \<Rightarrow> string list" where
  "invalid_action action notes = fails ''action'' (not_within 3 64 action) @ fails ''notes'' (too_long 2000 notes)"

definition apply_seller_resolution_action_for_transaction :: "env \<Rightarrow> uuid \<Rightarrow> string \<Rightarrow> string option \<Rightarrow> signed_in \<Rightarrow> db \<Rightarrow> db \<times> order_reply option" where
  "apply_seller_resolution_action_for_transaction E tid action notes ctx = guarded (require_seller_user ctx) (\<lambda>u.
     validated (invalid_action action notes) (\<lambda>s. reply action_refusal order_ok (apply_seller_resolution_action E tid u action notes s)))"

definition invalid_reconfirmation :: "string option \<Rightarrow> string list" where
  "invalid_reconfirmation notes = fails ''notes'' (too_long 2000 notes)"

definition submit_buyer_reconfirmation_for_transaction :: "env \<Rightarrow> uuid \<Rightarrow> bool \<Rightarrow> string option \<Rightarrow> signed_in \<Rightarrow> db \<Rightarrow> db \<times> order_reply option" where
  "submit_buyer_reconfirmation_for_transaction E tid accepted notes ctx = guarded (require_buyer_user ctx) (\<lambda>u.
     validated (invalid_reconfirmation notes) (\<lambda>s. reply buyer_refusal order_ok (submit_buyer_reconfirmation E tid u accepted notes s)))"

definition confirm_resolved_buyer_for_transaction :: "env \<Rightarrow> uuid \<Rightarrow> signed_in \<Rightarrow> db \<Rightarrow> db \<times> order_reply option" where
  "confirm_resolved_buyer_for_transaction E tid ctx = guarded (require_buyer_user ctx) (\<lambda>u s.
     reply buyer_refusal order_ok (submit_buyer_resolution_confirmation E tid u s))"

definition confirm_resolved_seller_for_transaction :: "env \<Rightarrow> uuid \<Rightarrow> signed_in \<Rightarrow> db \<Rightarrow> db \<times> order_reply option" where
  "confirm_resolved_seller_for_transaction E tid ctx = guarded (require_seller_user ctx) (\<lambda>u s.
     reply dispatch_refusal order_ok (submit_seller_resolution_confirmation E tid u s))"

text \<open>The reason is measured as sent and again after stripping; the stripped text is used.\<close>

definition invalid_escalation :: "string \<Rightarrow> string list" where
  "invalid_escalation reason = fails ''reason'' (not_within 20 1000 reason \<or> length (strip reason) < 20)"

definition escalate_transaction_dispute :: "env \<Rightarrow> uuid \<Rightarrow> string \<Rightarrow> signed_in \<Rightarrow> db \<Rightarrow> db \<times> order_reply option" where
  "escalate_transaction_dispute E tid reason ctx = guarded (get_current_user ctx) (\<lambda>u.
     validated (invalid_escalation reason) (\<lambda>s. reply escalation_refusal order_ok (escalate_dispute E tid u (strip reason) s)))"

section \<open>The administrator's actions\<close>

definition list_admin_escalation_queue :: "signed_in \<Rightarrow> db \<Rightarrow> db \<times> order_reply option" where
  "list_admin_escalation_queue ctx = guarded (require_admin_user ctx) (\<lambda>u s. (s, Some (ok 200 (Queue (list_escalated_disputes s)))))"

definition get_admin_dispute_case_timeline :: "uuid \<Rightarrow> signed_in \<Rightarrow> db \<Rightarrow> db \<times> order_reply option" where
  "get_admin_dispute_case_timeline did ctx = guarded (require_admin_user ctx) (\<lambda>u s.
     reply (\<lambda>x. case x of DisputeCaseNotFoundError _ \<Rightarrow> Some (refuse 404 ''Dispute case not found.'') | _ \<Rightarrow> None)
       (\<lambda>(d, t, es). ok 200 (Case d t es)) (s, get_dispute_case_timeline did s))"

definition share_between :: "decimal \<Rightarrow> bool" where
  "share_between d = (case d of Fin c e \<Rightarrow> if - 2 \<le> e then 1 \<le> c * pow10 (e + 2) \<and> c * pow10 (e + 2) \<le> 99
       else pow10 (- 2 - e) \<le> c \<and> c \<le> 99 * pow10 (- 2 - e) | _ \<Rightarrow> False)"

definition invalid_decision :: "web_config \<Rightarrow> string \<Rightarrow> decimal option \<Rightarrow> string list" where
  "invalid_decision W reason share = fails ''reason'' (wc_trim W reason = '''') @
     fails ''seller_share'' (case share of None \<Rightarrow> False | Some d \<Rightarrow> \<not> share_between d)"

definition admin_force_resolve_dispute_case ::
    "env \<Rightarrow> web_config \<Rightarrow> uuid \<Rightarrow> admin_decision \<Rightarrow> string \<Rightarrow> decimal option \<Rightarrow> signed_in \<Rightarrow> db \<Rightarrow> db \<times> order_reply option" where
  "admin_force_resolve_dispute_case E W did decision reason share ctx = guarded (require_admin_user ctx) (\<lambda>u.
     validated (invalid_decision W reason share) (\<lambda>s.
     reply decision_refusal (ok 200 \<circ> Decided) (force_resolve_dispute_case E did decision (wc_trim W reason) (Some (u_id u)) share s)))"

end
