(* ===== verification/Web.thy ===== *)
theory Web
  imports Order_Routes
begin

text \<open>
  The order routes behind the middleware, as one function of a call: each runs exactly the request of
  the order workflow it stands for, in the name of the signed-in user, or is refused and runs nothing.
\<close>

section \<open>Calls\<close>

datatype order_call =
    CallbackCall payment_callback
  | DispatchCall uuid
  | ArrivalCall uuid
  | OtpCall uuid string
  | WithholdCall uuid "(string option \<times> string option) option"
  | IssueCall uuid string string dict
  | SentBackCall uuid
  | ReceivedCall uuid
  | ActionCall uuid string "string option"
  | ReconfirmCall uuid bool "string option"
  | BuyerResolvedCall uuid
  | SellerResolvedCall uuid
  | EscalateCall uuid string
  | DecideCall uuid admin_decision string "decimal option"

fun order_route :: "env \<Rightarrow> web_config \<Rightarrow> http_request \<Rightarrow> order_call \<Rightarrow> signed_in \<Rightarrow> db \<Rightarrow> db \<times> order_reply option" where
  "order_route E W q (CallbackCall cb) ctx s = payment_confirmation_callback E W q cb s"
| "order_route E W q (DispatchCall tid) ctx s = dispatch_locked_transaction E tid ctx s"
| "order_route E W q (ArrivalCall tid) ctx s = mark_delivery_arrival E tid ctx s"
| "order_route E W q (OtpCall tid code) ctx s = confirm_delivery_otp E tid code ctx s"
| "order_route E W q (WithholdCall tid body) ctx s = withhold_delivery_otp E tid body ctx s"
| "order_route E W q (IssueCall tid category description evidence) ctx s =
     report_functional_issue_for_transaction E tid category description evidence ctx s"
| "order_route E W q (SentBackCall tid) ctx s = mark_buyer_sent_back_for_transaction E tid ctx s"
| "order_route E W q (ReceivedCall tid) ctx s = mark_seller_received_for_transaction E tid ctx s"
| "order_route E W q (ActionCall tid action notes) ctx s = apply_seller_resolution_action_for_transaction E tid action notes ctx s"
| "order_route E W q (ReconfirmCall tid accepted notes) ctx s = submit_buyer_reconfirmation_for_transaction E tid accepted notes ctx s"
| "order_route E W q (BuyerResolvedCall tid) ctx s = confirm_resolved_buyer_for_transaction E tid ctx s"
| "order_route E W q (SellerResolvedCall tid) ctx s = confirm_resolved_seller_for_transaction E tid ctx s"
| "order_route E W q (EscalateCall tid reason) ctx s = escalate_transaction_dispute E tid reason ctx s"
| "order_route E W q (DecideCall did decision reason share) ctx s = admin_force_resolve_dispute_case E W did decision reason share ctx s"

text \<open>The request of the workflow a call stands for, and who may make it.\<close>

fun asked :: "web_config \<Rightarrow> order_call \<Rightarrow> user \<Rightarrow> request" where
  "asked W (CallbackCall cb) u = PaymentCallback cb"
| "asked W (DispatchCall tid) u = Dispatch tid u"
| "asked W (ArrivalCall tid) u = Arrive tid u"
| "asked W (OtpCall tid code) u = ConfirmOtp tid u code"
| "asked W (WithholdCall tid body) u = WithholdOtp tid u (Option.bind body fst) (Option.bind body snd)"
| "asked W (IssueCall tid category description evidence) u = ReportIssue tid u category description (Some evidence)"
| "asked W (SentBackCall tid) u = SentBack tid u"
| "asked W (ReceivedCall tid) u = Received tid u"
| "asked W (ActionCall tid action notes) u = SellerAction tid u action notes"
| "asked W (ReconfirmCall tid accepted notes) u = Reconfirm tid u accepted notes"
| "asked W (BuyerResolvedCall tid) u = BuyerResolved tid u"
| "asked W (SellerResolvedCall tid) u = SellerResolved tid u"
| "asked W (EscalateCall tid reason) u = Escalate tid u (strip reason)"
| "asked W (DecideCall did decision reason share) u = ForceResolve did decision (wc_trim W reason) (Some (u_id u)) share"

definition callback_trusted :: "env \<Rightarrow> web_config \<Rightarrow> http_request \<Rightarrow> bool" where
  "callback_trusted E W q = (if strip (wc_payment_callback_secret W) = '''' then \<not> production E
     else map_option strip (header_get (hr_headers q) PAYMENT_CALLBACK_SECRET_HEADER) = Some (strip (wc_payment_callback_secret W)))"

definition allowed_roles :: "order_call \<Rightarrow> user_role set" where
  "allowed_roles c = (case c of CallbackCall _ \<Rightarrow> {} | DispatchCall _ \<Rightarrow> {SELLER} | ArrivalCall _ \<Rightarrow> {SELLER} | ReceivedCall _ \<Rightarrow> {SELLER}
     | ActionCall _ _ _ \<Rightarrow> {SELLER} | SellerResolvedCall _ \<Rightarrow> {SELLER} | EscalateCall _ _ \<Rightarrow> {BUYER, SELLER, ADMIN}
     | DecideCall _ _ _ _ \<Rightarrow> {ADMIN} | _ \<Rightarrow> {BUYER})"

text \<open>Who the request is made for: the user signed in, or for a callback nobody.\<close>

definition entitled :: "env \<Rightarrow> web_config \<Rightarrow> http_request \<Rightarrow> order_call \<Rightarrow> signed_in \<Rightarrow> user \<Rightarrow> bool" where
  "entitled E W q c ctx u = (case c of CallbackCall _ \<Rightarrow> callback_trusted E W q
     | _ \<Rightarrow> (case ctx of None \<Rightarrow> False | Some (v, _) \<Rightarrow> v = u \<and> u_role u \<in> allowed_roles c))"

lemmas entitles = entitled_def allowed_roles_def

section \<open>A call runs its request or nothing\<close>

lemma role_guard:
  "require_role u roles = Inr v \<longleftrightarrow> v = u \<and> u_role u \<in> set roles"
  "require_role u roles = Inl b \<longleftrightarrow> b = refuse 403 ''You are not authorized to access this resource.'' \<and> u_role u \<notin> set roles"
  by (auto simp: require_role_def)

lemma user_guard:
  "get_current_user ctx = Inr v \<longleftrightarrow> (\<exists>x. ctx = Some (v, x))"
  "get_current_user ctx = Inl b \<longleftrightarrow> b = refuse 401 ''Authentication required.'' \<and> ctx = None"
  by (auto simp: get_current_user_def split: option.split prod.split)

lemma refuse_status [simp]: "an_status (refuse n m) = n" "an_status (unprocessable names) = 422" "an_status (ok n x) = n"
    "an_status (refuse_after n m k) = n"
  by (simp_all add: refuse_def unprocessable_def ok_def refuse_after_def)

definition refused_with :: "'s \<Rightarrow> 's \<times> 'a answer option \<Rightarrow> bool" where
  "refused_with s p = (fst p = s \<and> (\<exists>b. snd p = Some b \<and> 400 \<le> an_status b))"

text \<open>The route's answer is a failure only if the operation raised.\<close>

lemma reply_outcome:
  assumes "\<And>r. an_status (f r) < 400"
  shows "fst (reply h f p) = fst (outcome p) \<and>
    (snd (reply h f p) = None \<or> (\<exists>b. snd (reply h f p) = Some b \<and> 400 \<le> an_status b) \<longrightarrow> (\<exists>x. snd (outcome p) = Some x))"
  using assms by (auto simp: reply_def outcome_def not_le [symmetric] split: sum.splits)

lemma order_ok_status [simp]: "an_status (order_ok t) = 200" "an_status (callback_reply r) < 400" "an_status ((ok 200 \<circ> Decided) d) = 200"
  by (simp_all add: order_ok_def callback_reply_def)

lemma guard_refusals:
  "require_buyer_user ctx = Inl b \<Longrightarrow> 400 \<le> an_status b" "require_seller_user ctx = Inl b \<Longrightarrow> 400 \<le> an_status b"
  "require_admin_user ctx = Inl b \<Longrightarrow> 400 \<le> an_status b" "get_current_user ctx = Inl b \<Longrightarrow> 400 \<le> an_status b"
  "require_payment_callback_auth E W q = Inl c \<Longrightarrow> 400 \<le> an_status c"
  by (auto simp: require_buyer_user_def require_seller_user_def require_admin_user_def bindE_eq_Inl user_guard role_guard
      require_payment_callback_auth_def Let_def split: if_splits)

lemma callback_guard: "require_payment_callback_auth E W q = Inr u \<Longrightarrow> callback_trusted E W q"
  by (auto simp: require_payment_callback_auth_def callback_trusted_def Let_def split: if_splits option.splits)

lemma guards_entitle:
  "require_buyer_user ctx = Inr u \<Longrightarrow> \<exists>x. ctx = Some (u, x) \<and> u_role u = BUYER"
  "require_seller_user ctx = Inr u \<Longrightarrow> \<exists>x. ctx = Some (u, x) \<and> u_role u = SELLER"
  "require_admin_user ctx = Inr u \<Longrightarrow> \<exists>x. ctx = Some (u, x) \<and> u_role u = ADMIN"
  "get_current_user ctx = Inr u \<Longrightarrow> \<exists>x. ctx = Some (u, x) \<and> u_role u \<in> {BUYER, SELLER, ADMIN}"
  using user_role.exhaust [of "u_role u"] by (auto simp: require_buyer_user_def require_seller_user_def require_admin_user_def bindE_eq_Inr user_guard role_guard)

definition runs :: "env \<Rightarrow> web_config \<Rightarrow> http_request \<Rightarrow> order_call \<Rightarrow> signed_in \<Rightarrow> db \<Rightarrow> db \<times> order_reply option \<Rightarrow> bool" where
  "runs E W q c ctx s p = (\<exists>u. entitled E W q c ctx u \<and> fst p = fst (perform E (asked W c u) s) \<and>
     (snd p = None \<or> (\<exists>b. snd p = Some b \<and> 400 \<le> an_status b) \<longrightarrow> (\<exists>x. snd (perform E (asked W c u) s) = Some x)))"

lemmas guards = guard_refusals guards_entitle callback_guard

lemma runsI:
  assumes "entitled E W q c ctx u" and "perform E (asked W c u) s = outcome p" and "\<And>r. an_status (f r) < 400"
  shows "runs E W q c ctx s (reply h f p)"
proof -
  have "fst (reply h f p) = fst (outcome p) \<and>
      (snd (reply h f p) = None \<or> (\<exists>b. snd (reply h f p) = Some b \<and> 400 \<le> an_status b) \<longrightarrow> (\<exists>x. snd (outcome p) = Some x))"
    by (rule reply_outcome) (rule assms(3))
  then show ?thesis unfolding runs_def assms(2) [symmetric] using assms(1) by blast
qed

text \<open>The shapes of a route: a guard, the checks of the fields, one operation; or no fields to check.\<close>

lemma guarded_route:
  assumes "\<And>b. g = Inl b \<Longrightarrow> 400 \<le> an_status b"
    and "\<And>u. g = Inr u \<Longrightarrow> \<exists>v. entitled E W q c ctx v \<and> perform E (asked W c v) s = outcome (H u s)"
    and "\<And>r. an_status (f r) < 400"
  shows "refused_with s (guarded g (\<lambda>u. validated (bad u) (\<lambda>s. reply h f (H u s))) s) \<or>
    runs E W q c ctx s (guarded g (\<lambda>u. validated (bad u) (\<lambda>s. reply h f (H u s))) s)"
proof (cases g)
  case (Inl b)
  then show ?thesis using assms(1) by (simp add: guarded_def refused_with_def)
next
  case (Inr u)
  then obtain v where v: "entitled E W q c ctx v" "perform E (asked W c v) s = outcome (H u s)" using assms(2) by blast
  have "runs E W q c ctx s (reply h f (H u s))" by (rule runsI [OF v assms(3)])
  then show ?thesis by (simp add: Inr guarded_def validated_def refused_with_def)
qed

lemma validated_Nil [simp]: "validated [] f = f"
  by (rule ext) (simp add: validated_def)

lemma plain_route:
  assumes "\<And>b. g = Inl b \<Longrightarrow> 400 \<le> an_status b"
    and "\<And>u. g = Inr u \<Longrightarrow> \<exists>v. entitled E W q c ctx v \<and> perform E (asked W c v) s = outcome (H u s)"
    and "\<And>r. an_status (f r) < 400"
  shows "refused_with s (guarded g (\<lambda>u s. reply h f (H u s)) s) \<or> runs E W q c ctx s (guarded g (\<lambda>u s. reply h f (H u s)) s)"
  using guarded_route [of g E W q c ctx s H f "\<lambda>_. []" h] assms by simp

lemma order_route_runs: "refused_with s (order_route E W q c ctx s) \<or> runs E W q c ctx s (order_route E W q c ctx s)"
proof (cases c)
  case (CallbackCall cb)
  show ?thesis unfolding CallbackCall order_route.simps payment_confirmation_callback_def
    by (rule guarded_route) (auto simp: entitles dest: guards)
next
  case (DispatchCall tid)
  show ?thesis unfolding DispatchCall order_route.simps dispatch_locked_transaction_def
    by (rule plain_route) (auto simp: entitles dest: guards)
next
  case (ArrivalCall tid)
  show ?thesis unfolding ArrivalCall order_route.simps mark_delivery_arrival_def
    by (rule plain_route) (auto simp: entitles dest: guards)
next
  case (OtpCall tid code)
  show ?thesis unfolding OtpCall order_route.simps confirm_delivery_otp_def
    by (rule guarded_route) (auto simp: entitles dest: guards)
next
  case (WithholdCall tid body)
  show ?thesis unfolding WithholdCall order_route.simps withhold_delivery_otp_def
    by (rule guarded_route) (auto simp: entitles dest: guards)
next
  case (IssueCall tid category description evidence)
  show ?thesis unfolding IssueCall order_route.simps report_functional_issue_for_transaction_def
    by (rule guarded_route) (auto simp: entitles dest: guards)
next
  case (SentBackCall tid)
  show ?thesis unfolding SentBackCall order_route.simps mark_buyer_sent_back_for_transaction_def
    by (rule plain_route) (auto simp: entitles dest: guards)
next
  case (ReceivedCall tid)
  show ?thesis unfolding ReceivedCall order_route.simps mark_seller_received_for_transaction_def
    by (rule plain_route) (auto simp: entitles dest: guards)
next
  case (ActionCall tid action nt)
  show ?thesis unfolding ActionCall order_route.simps apply_seller_resolution_action_for_transaction_def
    by (rule guarded_route) (auto simp: entitles dest: guards)
next
  case (ReconfirmCall tid accepted nt)
  show ?thesis unfolding ReconfirmCall order_route.simps submit_buyer_reconfirmation_for_transaction_def
    by (rule guarded_route) (auto simp: entitles dest: guards)
next
  case (BuyerResolvedCall tid)
  show ?thesis unfolding BuyerResolvedCall order_route.simps confirm_resolved_buyer_for_transaction_def
    by (rule plain_route) (auto simp: entitles dest: guards)
next
  case (SellerResolvedCall tid)
  show ?thesis unfolding SellerResolvedCall order_route.simps confirm_resolved_seller_for_transaction_def
    by (rule plain_route) (auto simp: entitles dest: guards)
next
  case (EscalateCall tid reason)
  show ?thesis unfolding EscalateCall order_route.simps escalate_transaction_dispute_def
    by (rule guarded_route) (auto simp: entitles dest: guards)
next
  case (DecideCall did decision reason share)
  show ?thesis unfolding DecideCall order_route.simps admin_force_resolve_dispute_case_def
    by (rule guarded_route) (auto simp: entitles dest: guards)
qed

end
