(* ===== verification/Account_Guarantees.thy ===== *)
theory Account_Guarantees
  imports Accounts Evaluation
begin

text \<open>
  The promises about accounts: how many guesses an attacker has at a password and at a code, what a
  login needs, and what a password reset closes.
\<close>

section \<open>Samples\<close>

definition sample_config :: auth_config where
  "sample_config = \<lparr>ac_login_rate_limit_max_attempts = 5, ac_login_rate_limit_window_seconds = 300, ac_login_lockout_max_attempts = 3,
     ac_login_lockout_seconds = 900, ac_session_max_age_seconds = 3600, ac_phone_code_ttl_seconds = 300, ac_phone_code_resend_seconds = 60,
     ac_phone_code_max_attempts = 3, ac_phone_code_lockout_seconds = 900, ac_phone_code_hourly_limit = 5,
     ac_hash = (\<lambda>n p. p), ac_verify = (\<lambda>p h. Some (p = h)), ac_needs_update = (\<lambda>h. Some False), ac_pbkdf2 = (\<lambda>p salt n. []),
     ac_b64decode = (\<lambda>t. None), ac_token = (\<lambda>n. int_str (int n))\<rparr>"

definition no_limits :: limiter where
  "no_limits = \<lparr>lm_logins = (\<lambda>_. []), lm_codes = (\<lambda>_. [])\<rparr>"

definition sample_code :: "uuid \<Rightarrow> purpose \<Rightarrow> phone_code" where
  "sample_code i p = \<lparr>pc_id = i, pc_phone = ''0700000001'', pc_purpose = purpose_value p,
     pc_code_hash = code_hash (sample_env 0) ''0700000001'' ''123456'' p, pc_attempts = 0, pc_expires_at = seconds 300,
     pc_consumed_at = None, pc_locked_until = None, pc_created_at = 0\<rparr>"

definition sample_session :: "uuid \<Rightarrow> string \<Rightarrow> user_session" where
  "sample_session i token = \<lparr>us_id = i, us_user = 1, us_token_hash = hash_session_token (sample_env 0) token,
     us_csrf_hash = hash_session_token (sample_env 0) (token @ ''c''), us_user_agent = None, us_last_seen_at = None,
     us_expires_at = seconds 3600, us_revoked_at = None, us_created_at = 0\<rparr>"

definition accounts_db :: "phone_code list \<Rightarrow> user_session list \<Rightarrow> db" where
  "accounts_db codes logins = (sample_db False [] [])\<lparr>d_codes := codes, d_sessions := logins\<rparr>"

lemmas eval_accounts = sample_config_def no_limits_def sample_code_def sample_session_def accounts_db_def
  hash_session_token_def verify_hashed_token_def code_hash_def code_text_def purpose_value.simps find_user_by_phone_def seconds_def
  verify_password_def time_units

section \<open>Guessing\<close>

text \<open>C14: Whoever guesses a password, from however many clients and with whatever wrong guesses, has no more
  than the configured number of them compared with it in any stretch of time shorter than the
  lockout, counted from an account that is not locked.\<close>

lemma password_guesses_bounded:
  assumes "find_user_by_phone phone s = Some u"
    and "\<forall>(E, client, password) \<in> set qs. verify_password C password (u_password_hash u) = Inr False \<and>
      t \<le> e_now E \<and> e_now E < t + seconds (ac_login_lockout_seconds C)"
    and "auth_config_ok C" and "0 \<le> u_failed_login_attempts u"
  shows "guesses C phone qs s L \<le> nat (ac_login_lockout_max_attempts C)"
proof -
  have "tries_left C t u \<le> nat (ac_login_lockout_max_attempts C)"
    using assms(3,4) by (auto simp: tries_left_def auth_config_ok_def split: option.split)
  with guesses_bounded [OF assms(1,2)] show ?thesis by (meson order_trans)
qed

definition four_guesses :: "(env \<times> string \<times> string) list" where
  "four_guesses = [(sample_env 1, ''a'', ''p''), (sample_env 2, ''b'', ''q''), (sample_env 3, ''c'', ''r''), (sample_env 4, ''d'', ''s'')]"

lemma password_guesses_bounded_witness: "guesses sample_config ''0700000001'' four_guesses (accounts_db [] []) no_limits \<le> 3"
  using password_guesses_bounded [of "''0700000001''" "accounts_db [] []" sample_buyer four_guesses sample_config 0 no_limits]
  by (simp add: four_guesses_def eval_accounts auth_config_ok_def sample_defs)

lemma four_guesses: "guesses sample_config ''0700000001'' four_guesses (accounts_db [] []) no_limits = 3"
  by code_simp

text \<open>C15: A code opens what it was sent for once: after it is used, no code of that phone and purpose, right or
  wrong, opens it again until a new one is sent. And while it is unused, no more wrong codes than the
  configured number are compared with it, however many are tried and whenever.\<close>

lemma code_is_used_once:
  assumes "distinct (map pc_id (d_codes s))" and "auth_config_ok C"
    and "latest_code phone purpose s = Some c" and "0 \<le> pc_attempts c"
  shows "(\<forall>E code n st s'. consume_phone_code E C phone code purpose n s = (st, Inr s') \<longrightarrow>
      (\<forall>E' code' n'. \<exists>x. consume_phone_code E' C phone code' purpose n' s' = (s', Inl x))) \<and>
    (\<forall>qs. (\<forall>(E, code) \<in> set qs. code_hash E phone code purpose \<noteq> pc_code_hash c) \<longrightarrow>
      code_guesses C phone purpose qs s \<le> nat (ac_phone_code_max_attempts C))"
proof (intro conjI allI impI)
  show "\<exists>x. consume_phone_code E' C phone code' purpose n' s' = (s', Inl x)"
    if "consume_phone_code E C phone code purpose n s = (st, Inr s')" for E code n st s' E' code' n'
    using code_once [OF that assms(1)] by blast
  have "code_tries_left C c \<le> nat (ac_phone_code_max_attempts C)"
    using assms(2,4) by (auto simp: code_tries_left_def auth_config_ok_def)
  then show "code_guesses C phone purpose qs s \<le> nat (ac_phone_code_max_attempts C)"
    if "\<forall>(E, code) \<in> set qs. code_hash E phone code purpose \<noteq> pc_code_hash c" for qs
    using code_guesses_bounded [OF assms(3,1) that] by (meson order_trans)
qed

definition code_used :: db where
  "code_used = accounts_db [(sample_code 50 Sign_in)\<lparr>pc_consumed_at := Some 9\<rparr>] []"

lemma sample_code_latest: "latest_code ''0700000001'' Sign_in (accounts_db [sample_code 50 Sign_in] []) = Some (sample_code 50 Sign_in)"
  by (simp add: latest_code_def codes_of_def eval_accounts)

lemma code_is_used_once_witness:
  "snd (consume_phone_code (sample_env 9) sample_config ''0700000001'' ''123456'' Sign_in None (accounts_db [sample_code 50 Sign_in] [])) = Inr code_used \<and>
   (\<exists>x. snd (consume_phone_code (sample_env 10) sample_config ''0700000001'' ''123456'' Sign_in None code_used) = Inl x)"
proof -
  let ?s = "accounts_db [sample_code 50 Sign_in] []"
  have c: "consume_phone_code (sample_env 9) sample_config ''0700000001'' ''123456'' Sign_in None ?s = (?s, Inr code_used)"
    by (simp add: consume_phone_code_def sample_code_latest code_used_def) (simp add: locked_for_def put_code_def eval_accounts evaluate)
  have "distinct (map pc_id (d_codes ?s))" "auth_config_ok sample_config" "0 \<le> pc_attempts (sample_code 50 Sign_in)"
    by (simp_all add: eval_accounts auth_config_ok_def)
  from code_is_used_once [OF this(1,2) sample_code_latest this(3)] c show ?thesis
    by (metis (no_types, lifting) snd_conv)
qed

section \<open>Opening and closing sessions\<close>

text \<open>A password login opens a session only for the active, unlocked account of that phone and only with
  its password; the new session is that account's and expires after the configured age. While an
  account is locked, the answer does not depend on the password, and no row of it changes.\<close>

lemma login_needs_password:
  "(\<forall>s' a L'. authenticate_and_create_session E C phone password client ua s L = ((s', Inr a), L') \<longrightarrow>
      (\<exists>u x. find_user_by_phone phone s = Some u \<and> u_is_active u \<and> (\<forall>t. u_locked_until u = Some t \<longrightarrow> t \<le> e_now E) \<and>
        verify_password C password (u_password_hash u) = Inr True \<and> d_sessions s' = d_sessions s @ [x] \<and> us_user x = u_id u \<and>
        us_revoked_at x = None \<and> us_token_hash x = hash_session_token E (as_session_token a) \<and>
        us_expires_at x = e_now E + seconds (ac_session_max_age_seconds C))) \<and>
   (\<forall>u t password'. find_user_by_phone phone s = Some u \<longrightarrow> u_locked_until u = Some t \<longrightarrow> e_now E < t \<longrightarrow>
      fst (fst (authenticate_and_create_session E C phone password client ua s L)) = s \<and>
      authenticate_and_create_session E C phone password client ua s L = authenticate_and_create_session E C phone password' client ua s L)"
proof (intro conjI allI impI)
  fix s' a L' assume "authenticate_and_create_session E C phone password client ua s L = ((s', Inr a), L')"
  then show "\<exists>u x. find_user_by_phone phone s = Some u \<and> u_is_active u \<and> (\<forall>t. u_locked_until u = Some t \<longrightarrow> t \<le> e_now E) \<and>
      verify_password C password (u_password_hash u) = Inr True \<and> d_sessions s' = d_sessions s @ [x] \<and> us_user x = u_id u \<and>
      us_revoked_at x = None \<and> us_token_hash x = hash_session_token E (as_session_token a) \<and>
      us_expires_at x = e_now E + seconds (ac_session_max_age_seconds C)"
    by (rule login_Inr) (simp add: put_user_def)
next
  fix u t password' assume l: "find_user_by_phone phone s = Some u" "u_locked_until u = Some t" "e_now E < t"
  show "fst (fst (authenticate_and_create_session E C phone password client ua s L)) = s" by (rule locked_login(1) [OF l])
  show "authenticate_and_create_session E C phone password client ua s L = authenticate_and_create_session E C phone password' client ua s L"
    by (rule locked_login(2) [OF l])
qed

definition sample_login :: "(db \<times> (auth_error + authenticated_session)) \<times> limiter" where
  "sample_login = authenticate_and_create_session (sample_env 9) sample_config ''0700000001'' ''x'' ''a'' None (accounts_db [] []) no_limits"

lemma login_needs_password_witness: "map us_user (d_sessions (fst (fst sample_login))) = [1]"
proof -
  obtain a where "snd (fst sample_login) = Inr a"
    unfolding sample_login_def authenticate_and_create_session_def
    by (simp add: check_login_rate_limit_def ensure_user_not_locked_def signed_in_user_def reset_user_lockout_state_def
        password_hash_needs_upgrade_def create_session_def insert_session_def put_user_def eval_accounts evaluate bindE_def)
  then have "authenticate_and_create_session (sample_env 9) sample_config ''0700000001'' ''x'' ''a'' None (accounts_db [] []) no_limits =
      ((fst (fst sample_login), Inr a), snd sample_login)" by (simp add: sample_login_def prod_eq_iff)
  from conjunct1 [OF login_needs_password, rule_format, OF this] show ?thesis
    by (auto simp: eval_accounts evaluate)
qed

text \<open>C40: A password reset needs a live reset code of that phone and leaves the account with the new password,
  unlocked, and every session it had closed: no token resolves to a session of it afterwards.\<close>

lemma reset_signs_everyone_out:
  assumes "reset_password E C phone code new s = (s', Inr ())"
  shows "\<exists>u c. find_user_by_phone phone s = Some u \<and> latest_code phone Reset s = Some c \<and> pc_consumed_at c = None \<and> e_now E < pc_expires_at c \<and>
    code_hash E phone code Reset = pc_code_hash c \<and>
    find_user_by_phone phone s' = Some (u\<lparr>u_password_hash := ac_hash C (d_draws s) new, u_failed_login_attempts := 0, u_locked_until := None\<rparr>) \<and>
    (\<forall>E' token s'' v x. resolve_active_session E' token s' = (s'', Some (v, x)) \<longrightarrow> us_user x \<noteq> u_id u)"
proof -
  obtain u where u: "find_user_by_phone phone s = Some u"
    "\<forall>x \<in> set (d_sessions s'). us_user x = u_id u \<longrightarrow> us_id x \<notin> {} \<longrightarrow> us_revoked_at x \<noteq> None"
    "\<exists>c. latest_code phone Reset s = Some c \<and> pc_consumed_at c = None \<and> e_now E < pc_expires_at c \<and> code_hash E phone code Reset = pc_code_hash c"
    "find_user_by_phone phone s' = Some (u\<lparr>u_password_hash := ac_hash C (d_draws s) new, u_failed_login_attempts := 0, u_locked_until := None\<rparr>)"
    using assms by (rule reset_done)
  have "us_user x \<noteq> u_id u" if "resolve_active_session E' token s' = (s'', Some (v, x))" for E' token s'' v x
    using revoked_unusable [OF u(2) that] by blast
  with u(1,3,4) show ?thesis by blast
qed

definition sample_reset :: "db \<times> (auth_error + unit)" where
  "sample_reset = reset_password (sample_env 9) sample_config ''0700000001'' ''123456'' ''new'' (accounts_db [sample_code 50 Reset] [sample_session 60 ''t''])"

lemma sample_reset: "snd sample_reset = Inr ()"
  unfolding sample_reset_def reset_password_def consume_phone_code_def latest_code_def codes_of_def
  by (simp add: locked_for_def put_code_def put_user_def revoke_def eval_accounts evaluate)

lemma reset_signs_everyone_out_witness:
  "map u_password_hash (filter (\<lambda>u. u_phone u = ''0700000001'') (d_users (fst sample_reset))) = [''new''] \<and>
   snd (resolve_active_session (sample_env 10) ''t'' (fst sample_reset)) = None"
proof
  have r: "reset_password (sample_env 9) sample_config ''0700000001'' ''123456'' ''new'' (accounts_db [sample_code 50 Reset] [sample_session 60 ''t'']) =
      (fst sample_reset, Inr ())" using sample_reset by (simp add: sample_reset_def prod_eq_iff)
  have d: "map us_user (d_sessions (fst sample_reset)) = [1] \<and> map u_password_hash (filter (\<lambda>u. u_phone u = ''0700000001'') (d_users (fst sample_reset))) = [''new'']"
    unfolding sample_reset_def reset_password_def consume_phone_code_def latest_code_def codes_of_def
    by (simp add: locked_for_def put_code_def put_user_def revoke_def eval_accounts evaluate)
  then show "map u_password_hash (filter (\<lambda>u. u_phone u = ''0700000001'') (d_users (fst sample_reset))) = [''new'']" ..
  show "snd (resolve_active_session (sample_env 10) ''t'' (fst sample_reset)) = None"
  proof (rule ccontr)
    assume "snd (resolve_active_session (sample_env 10) ''t'' (fst sample_reset)) \<noteq> None"
    then obtain s'' v x where res: "resolve_active_session (sample_env 10) ''t'' (fst sample_reset) = (s'', Some (v, x))"
      by (metis not_None_eq prod.collapse)
    have "us_user x \<noteq> 1"
      using reset_signs_everyone_out [OF r] res by (auto simp: eval_accounts sample_defs)
    moreover have "us_user x \<in> us_user ` set (d_sessions (fst sample_reset))"
      using res by (auto simp: resolve_active_session_def find_session_def find_Some_iff Let_def split: option.splits if_splits)
    ultimately show False using d by (metis (no_types) empty_iff image_set insert_iff list.set(1) list.set(2))
  qed
qed

section \<open>What a reset request tells\<close>

lemma insort_snoc: "k x \<le> k c \<Longrightarrow> insort_key k x (ys @ [c]) = insort_key k x ys @ [c]"
  by (induction ys) auto

lemma sort_key_snoc: "\<forall>x \<in> set xs. k x \<le> k c \<Longrightarrow> sort_key k (xs @ [c]) = sort_key k xs @ [c]"
  by (induction xs) (auto simp: insort_snoc)

lemma if_Inr: "(if b then ((s, Inl x), L) else ((a, Inr y), L)) = ((s', Inr z), L') \<Longrightarrow> s' = a \<and> z = y"
  by (auto split: if_splits)

lemma new_code_is_latest:
  assumes "request_phone_code E C phone purpose client n s L = ((s', Inr (i, m)), L')"
    and "now = (case n of None \<Rightarrow> e_now E | Some t \<Rightarrow> t)" and "\<forall>c \<in> set (d_codes s). pc_created_at c \<le> now"
  obtains c where "latest_code phone purpose s' = Some c" "pc_created_at c = now" "pc_consumed_at c = None" "pc_locked_until c = None"
    "pc_code_hash c = code_hash E phone (ic_code i) purpose" "pc_expires_at c = ic_expires_at i" "d_users s' = d_users s"
proof -
  define c where "c = \<lparr>pc_id = e_uuid E (Suc (d_draws s)), pc_phone = phone, pc_purpose = purpose_value purpose,
    pc_code_hash = code_hash E phone (pad_nat 6 (e_randbelow E (d_draws s) 1000000)) purpose, pc_attempts = 0,
    pc_expires_at = now + seconds (ac_phone_code_ttl_seconds C), pc_consumed_at = None, pc_locked_until = None, pc_created_at = now\<rparr>"
  obtain q L1 where q: "check_client_quota client now L = (q, L1)" by force
  have free: "code_refused C phone purpose now s = None"
    using assms(1) by (cases "code_refused C phone purpose now s") (simp_all add: request_phone_code_def assms(2) [symmetric])
  have quota: "q = Inr ()"
    using assms(1) free q by (cases q) (simp_all add: request_phone_code_def assms(2) [symmetric])
  have r: "(if pc_id c \<in> pc_id ` set (d_codes (supersede_codes phone purpose now s))
      then ((s, Inl (Fault (IntegrityError ''phone_codes_pkey''))), L1)
      else (((supersede_codes phone purpose now s)\<lparr>d_codes := d_codes (supersede_codes phone purpose now s) @ [c], d_draws := d_draws s + 2\<rparr>,
        Inr (\<lparr>ic_expires_at = pc_expires_at c, ic_resend_after_seconds = ac_phone_code_resend_seconds C,
            ic_code = pad_nat 6 (e_randbelow E (d_draws s) 1000000)\<rparr>,
          phone, sms_text purpose (pad_nat 6 (e_randbelow E (d_draws s) 1000000)) (ac_phone_code_ttl_seconds C))), L1)) = ((s', Inr (i, m)), L')"
    using assms(1) unfolding request_phone_code_def assms(2) [symmetric] Let_def free q quota option.case prod.case sum.case c_def [symmetric] .
  have s': "s' = (supersede_codes phone purpose now s)\<lparr>d_codes := d_codes (supersede_codes phone purpose now s) @ [c], d_draws := d_draws s + 2\<rparr>"
    "i = \<lparr>ic_expires_at = pc_expires_at c, ic_resend_after_seconds = ac_phone_code_resend_seconds C,
            ic_code = pad_nat 6 (e_randbelow E (d_draws s) 1000000)\<rparr>"
    using if_Inr [OF r] by (simp_all only: prod.inject)
  have c: "d_codes s' = d_codes (supersede_codes phone purpose now s) @ [c]" "pc_phone c = phone" "pc_purpose c = purpose_value purpose"
    "pc_created_at c = now" "pc_consumed_at c = None" "pc_locked_until c = None" "pc_code_hash c = code_hash E phone (ic_code i) purpose"
    "pc_expires_at c = ic_expires_at i" and u: "d_users s' = d_users s"
    unfolding s' by (simp_all add: c_def supersede_codes_def)
  have "\<forall>x \<in> set (codes_of phone purpose (supersede_codes phone purpose now s)). pc_created_at x \<le> pc_created_at c"
  proof
    fix x assume "x \<in> set (codes_of phone purpose (supersede_codes phone purpose now s))"
    then have "pc_created_at x \<in> set (map pc_created_at (d_codes (supersede_codes phone purpose now s)))" by (simp add: codes_of_def)
    also have "map pc_created_at (d_codes (supersede_codes phone purpose now s)) = map pc_created_at (d_codes s)"
      by (simp add: supersede_codes_def)
    finally show "pc_created_at x \<le> pc_created_at c" using assms(3) c(4) by auto
  qed
  then have "latest_code phone purpose s' = Some c"
    using sort_key_snoc [of _ pc_created_at c] by (simp add: latest_code_def codes_of_def c(1-3))
  with c u show thesis by (intro that) auto
qed

text \<open>
  The endpoint that sends reset codes means not to reveal which numbers have accounts; asking twice
  within the pause between codes does reveal it: an account's number is refused the second time, and a
  number without account is not.
\<close>

lemma second_reset_request_account:
  assumes "find_user_by_phone phone s = Some u" and "request_reset_code E C phone client s L = ((s', Inr x), L')"
    and "\<forall>c \<in> set (d_codes s). pc_created_at c \<le> e_now E" and "e_now E' < e_now E + seconds (ac_phone_code_resend_seconds C)"
  shows "\<exists>k. snd (fst (request_reset_code E' C phone client' s' L2)) = Inl (PhoneCodeRateLimitedError k)"
proof -
  obtain i m where r: "request_phone_code E C phone Reset client None s L = ((s', Inr (i, m)), L')"
    using assms(1,2) by (auto simp: request_reset_code_def bindE_eq_Inr split: prod.splits)
  obtain c where c: "latest_code phone Reset s' = Some c" "pc_created_at c = e_now E" "pc_consumed_at c = None" "pc_locked_until c = None"
    "d_users s' = d_users s" by (rule new_code_is_latest [OF r]) (use assms(3) in auto)
  have "code_refused C phone Reset (e_now E') s' = Some (retry_after (e_now E + seconds (ac_phone_code_resend_seconds C) - e_now E'))"
    using c assms(4) by (simp add: code_refused_def locked_for_def resend_pause_def Let_def)
  moreover have "find_user_by_phone phone s' = Some u" using assms(1) c(5) by (simp add: find_user_by_phone_def)
  ultimately show ?thesis by (simp add: request_reset_code_def request_phone_code_def bindE_def)
qed

lemma second_reset_request_no_account:
  "find_user_by_phone phone s = None \<Longrightarrow> request_reset_code E' C phone client' s L = ((s, Inr None), L)"
  by (simp add: request_reset_code_def)

end
