(* ===== verification/Web_Guarantees.thy ===== *)
theory Web_Guarantees
  imports Web Account_Guarantees
begin

text \<open>
  The promises at the HTTP edge: who can move an order through the API, and what a refused call leaves
  behind. They compose the middleware, the routes and the table of the order workflow.
\<close>

section \<open>Sessions are no part of an order's state\<close>

lemma sessions_frame [simp]:
  "get_transaction i (s\<lparr>d_sessions := rows\<rparr>) = get_transaction i s" "orders_wf (s\<lparr>d_sessions := rows\<rparr>) = orders_wf s"
  "admits E q (s\<lparr>d_sessions := rows\<rparr>) t b = admits E q s t b"
  by (simp_all add: get_transaction_def orders_wf_def outbox_wf_def)
    (cases q; simp add: serialized_item_def get_listing_def latest_dispute_def get_dispute_def)

lemma seen_frame: "get_transaction i (seen E W q s) = get_transaction i s" "orders_wf (seen E W q s) = orders_wf s"
  "admits E r (seen E W q s) t b = admits E r s t b"
  using seen_sessions [of E W q s] by auto

definition web :: "env \<Rightarrow> web_config \<Rightarrow> http_request \<Rightarrow> order_call \<Rightarrow> db \<Rightarrow> db \<times> order_reply" where
  "web E W q c s = served (session_security_middleware E W q (order_route E W q c) s)"

text \<open>What a call does to the database: nothing but touch its session, or its request in the name of the caller.\<close>

definition in_the_name_of :: "env \<Rightarrow> web_config \<Rightarrow> http_request \<Rightarrow> order_call \<Rightarrow> db \<Rightarrow> user \<Rightarrow> bool" where
  "in_the_name_of E W q c s u = (case c of CallbackCall _ \<Rightarrow> callback_trusted E W q
     | _ \<Rightarrow> signed_in_as E W q s u \<and> csrf_proved E W q s \<and> u_role u \<in> allowed_roles c)"

lemma finish_status [simp]: "fst (finish E W stale p) = fst p" "snd (finish E W stale p) = None \<longleftrightarrow> snd p = None"
  "(\<exists>b. snd (finish E W stale p) = Some b \<and> P (an_status b)) \<longleftrightarrow> (\<exists>b. snd p = Some b \<and> P (an_status b))"
  by (cases "snd p"; simp add: finish_def set_security_headers_def clear_auth_cookies_def)+

definition failing :: "'a answer option \<Rightarrow> bool" where
  "failing a = (a = None \<or> (\<exists>b. a = Some b \<and> 400 \<le> an_status b))"

lemma failing_served: "400 \<le> an_status (snd (served p)) \<longleftrightarrow> failing (snd p)"
  by (cases "snd p") (auto simp: served_def failing_def server_error_def refuse_def)

lemma failing_finish: "failing (snd (finish E W stale p)) = failing (snd p)"
  unfolding failing_def by simp

lemma web_cases:
  assumes "py_upper (hr_method q) = ''POST''"
  obtains (nothing) "fst (web E W q c s) = seen E W q s" "400 \<le> an_status (snd (web E W q c s))"
  | (acted) u where "in_the_name_of E W q c s u" "fst (web E W q c s) = fst (perform E (asked W c u) (seen E W q s))"
      "400 \<le> an_status (snd (web E W q c s)) \<Longrightarrow> \<exists>x. snd (perform E (asked W c u) (seen E W q s)) = Some x"
proof -
  have route: thesis
    if w: "session_security_middleware E W q (order_route E W q c) s = finish E W stale (order_route E W q c ctx (seen E W q s))"
      and e: "\<And>u. entitled E W q c ctx u \<Longrightarrow> in_the_name_of E W q c s u" for stale ctx
    using order_route_runs [of "seen E W q s" E W q c ctx]
  proof
    assume "refused_with (seen E W q s) (order_route E W q c ctx (seen E W q s))"
    then have "fst (web E W q c s) = seen E W q s" and "400 \<le> an_status (snd (web E W q c s))"
      unfolding web_def w failing_served failing_finish by (auto simp: refused_with_def failing_def served_def)
    then show thesis by (rule nothing)
  next
    assume "runs E W q c ctx (seen E W q s) (order_route E W q c ctx (seen E W q s))"
    then obtain u where u: "entitled E W q c ctx u"
      "fst (order_route E W q c ctx (seen E W q s)) = fst (perform E (asked W c u) (seen E W q s))"
      "failing (snd (order_route E W q c ctx (seen E W q s))) \<Longrightarrow> \<exists>x. snd (perform E (asked W c u) (seen E W q s)) = Some x"
      unfolding runs_def failing_def by blast
    have "fst (web E W q c s) = fst (perform E (asked W c u) (seen E W q s))"
      unfolding web_def w using u(2) by (simp add: served_def)
    moreover have "\<exists>x. snd (perform E (asked W c u) (seen E W q s)) = Some x" if "400 \<le> an_status (snd (web E W q c s))"
      using that u(3) unfolding web_def w failing_served failing_finish by simp
    ultimately show thesis by (rule acted [OF e [OF u(1)]])
  qed
  from middleware_cases [of E W q s, where 'a = order_content] show thesis
  proof cases
    case (stopped a)
    then have "failing a" by (cases a) (auto simp: failing_def)
    then have "fst (web E W q c s) = seen E W q s" and "400 \<le> an_status (snd (web E W q c s))"
      unfolding web_def stopped(1) failing_served by (simp_all add: served_def)
    then show thesis by (rule nothing)
  next
    case (anonymous stale)
    show thesis by (rule route [OF anonymous]) (simp add: entitled_def in_the_name_of_def split: order_call.splits)
  next
    case (member u x)
    show thesis
      by (rule route [OF member(1)]) (use member(2,4) assms in \<open>auto simp: entitled_def in_the_name_of_def STATE_CHANGING_METHODS_def split: order_call.splits\<close>)
  qed
qed

section \<open>Who moves an order\<close>

text \<open>C4: No call of the API moves an order unless it is a payment callback that proved the shared secret (or comes
  with none configured, outside production), or carries the cookie of a live session of an active user
  of the role the route demands together with that session's CSRF token; and the move is then one the
  workflow's table admits to that user.\<close>

lemma api_moves_are_entitled:
  assumes "orders_wf s" and "py_upper (hr_method q) = ''POST''"
    and "get_transaction i s = Some t" and "get_transaction i (fst (web E W q c s)) = Some t'" and "tx_status t' \<noteq> tx_status t"
  shows "\<exists>u. admits E (asked W c u) s t (tx_status t') \<and>
    (case c of CallbackCall _ \<Rightarrow> callback_trusted E W q
     | _ \<Rightarrow> signed_in_as E W q s u \<and> csrf_proved E W q s \<and> u_role u \<in> allowed_roles c)"
  using assms(2)
proof (cases rule: web_cases [of q E W c s])
  case nothing
  then show ?thesis using assms(3-5) by (simp add: seen_frame)
next
  case (acted u)
  have "admits E (asked W c u) (seen E W q s) t (tx_status t')"
    by (rule perform_moves [of _ i]) (use assms acted(2) in \<open>simp_all add: seen_frame\<close>)
  then show ?thesis using acted(1) by (auto simp: in_the_name_of_def seen_frame)
qed


definition sample_web :: web_config where
  "sample_web = \<lparr>wc_session_cookie_name = ''sid'', wc_csrf_cookie_name = ''csrf'', wc_csrf_header_name = ''x-csrf'', wc_session_cookie_secure = True,
     wc_csrf_cookie_secure = True, wc_session_cookie_samesite = ''lax'', wc_csrf_cookie_samesite = ''lax'', wc_payment_callback_secret = '''', wc_phone_code_dev_echo = False, wc_auth = sample_config,
     wc_decimal_ok = (\<lambda>_ _ _. True), wc_trim = strip\<rparr>"

definition sample_post :: "string \<Rightarrow> http_request" where
  "sample_post csrf = \<lparr>hr_method = ''post'', hr_cookies = [(''sid'', ''t''), (''csrf'', ''tc'')], hr_headers = [(''x-csrf'', csrf)], hr_client = None\<rparr>"

definition sold_db :: db where
  "sold_db = (sample_db True [sample_order 10 LOCKED] [])\<lparr>d_sessions := [(sample_session 60 ''t'')\<lparr>us_user := 2, us_last_seen_at := Some 0\<rparr>]\<rparr>"

lemma sold_db [simp]: "orders_wf sold_db" "get_transaction 10 sold_db = Some (sample_order 10 LOCKED)"
  by (simp_all add: sold_db_def)

lemmas eval_web = session_security_middleware_def session_token_def given_def resolve_active_session_def find_session_def check_csrf_def
  csrf_tokens_def header_get_def compare_digest_def is_valid_csrf_for_session_def STATE_CHANGING_METHODS_def finish_def served_def
  sample_web_def sample_post_def sold_db_def LAST_SEEN_EVERY_def

lemma sample_post: "py_upper ''post'' = ''POST''"
  by code_simp

definition web_dispatch :: "db \<times> order_reply" where
  "web_dispatch = web (sample_env 7) sample_web (sample_post ''tc'') (DispatchCall 10) sold_db"

lemma web_dispatch: "map_option tx_status (get_transaction 10 (fst web_dispatch)) = Some OUT_FOR_DELIVERY"
  unfolding web_dispatch_def web_def
  by (simp add: eval_web eval_accounts sample_post dispatch_locked_transaction_def guarded_def require_seller_user_def get_current_user_def
      require_role_def reply_def dispatch_transaction_def dispatch_body_def create_dispatched_notifications_def evaluate cong: argument_first)

lemma api_moves_are_entitled_witness:
  "\<exists>u. is_seller u (sample_order 10 LOCKED) \<and> signed_in_as (sample_env 7) sample_web (sample_post ''tc'') sold_db u"
proof -
  obtain t' where t': "get_transaction 10 (fst (web (sample_env 7) sample_web (sample_post ''tc'') (DispatchCall 10) sold_db)) = Some t'"
    "tx_status t' = OUT_FOR_DELIVERY" using web_dispatch by (auto simp: web_dispatch_def)
  have "py_upper (hr_method (sample_post ''tc'')) = ''POST''" by (simp add: sample_post_def sample_post)
  from api_moves_are_entitled [OF sold_db(1) this sold_db(2) t'(1)] t'(2) show ?thesis by auto
qed




end
