(* ===== verification/Account_Routes.thy ===== *)
theory Account_Routes
  imports Http
begin

text \<open>
  The routes of routers/auth.py and routers/account.py with the checks of schemas/auth.py and
  schemas/account.py. Their state is the database, the limiters and the text messages handed to the
  dispatcher: recipient and text.
\<close>

type_synonym account_state = "db \<times> limiter \<times> (string \<times> string) list"

record profile =
  pf_id :: uuid
  pf_name :: string
  pf_phone :: string
  pf_role :: user_role
  pf_mpesa_phone :: "string option"
  pf_mpesa_account_name :: "string option"
  pf_is_active :: bool
  pf_created_at :: time

definition profile_of :: "user \<Rightarrow> profile" where
  "profile_of u = \<lparr>pf_id = u_id u, pf_name = u_name u, pf_phone = u_phone u, pf_role = u_role u, pf_mpesa_phone = u_mpesa_phone u,
     pf_mpesa_account_name = u_mpesa_account_name u, pf_is_active = u_is_active u, pf_created_at = u_created_at u\<rparr>"

datatype account_content =
    Registered profile
  | Logged_in profile time
  | Code_sent int time "string option"
  | Reset_sent int "string option"
  | Signed_out_devices int
  | Devices "device_session list"
  | Revoked int

type_synonym account_reply = "account_content answer"

definition no_content :: account_reply where
  "no_content = \<lparr>an_status = 204, an_content = No_content, an_headers = [], an_cookies = []\<rparr>"

section \<open>Fields\<close>

text \<open>A phone field is normalized first, and then its length is checked.\<close>

definition phone_field :: "string \<Rightarrow> string option" where
  "phone_field v = (case normalize_phone (Some v) False of
       Inr (Some p) \<Rightarrow> if not_within 7 32 p then None else Some p | _ \<Rightarrow> None)"

definition optional_phone_field :: "string option \<Rightarrow> string option option" where
  "optional_phone_field v = (case normalize_phone v (v = None) of
       Inr p \<Rightarrow> if too_long 32 p then None else Some p | Inl _ \<Rightarrow> None)"

definition py_isalpha :: "char \<Rightarrow> bool" where
  "py_isalpha c = (let n = (of_char c :: nat) in (65 \<le> n \<and> n \<le> 90) \<or> (97 \<le> n \<and> n \<le> 122) \<or> n \<in> {170, 181, 186} \<or>
     (192 \<le> n \<and> n \<noteq> 215 \<and> n \<noteq> 247))"

definition strong :: "string \<Rightarrow> bool" where
  "strong v = (list_ex py_isalpha v \<and> list_ex py_isdigit v)"

definition weak_password :: "string \<Rightarrow> bool" where
  "weak_password v = (not_within 8 128 v \<or> \<not> strong v)"

definition six_digits :: "string \<Rightarrow> bool" where
  "six_digits v = (length v = 6 \<and> list_all ascii_digit v)"

definition invalid_registration :: "register_request \<Rightarrow> string list" where
  "invalid_registration b = fails ''name'' (not_within 2 120 (rq_name b)) @ fails ''phone'' (phone_field (rq_phone b) = None) @
     fails ''role'' (rq_role b \<notin> {BUYER, SELLER}) @ fails ''password'' (not_within 8 128 (rq_password b)) @
     fails ''mpesa_phone'' (optional_phone_field (rq_mpesa_phone b) = None) @
     fails ''mpesa_account_name'' (too_long 120 (rq_mpesa_account_name b))"

definition normalized_registration :: "register_request \<Rightarrow> register_request" where
  "normalized_registration b = b\<lparr>rq_phone := the (phone_field (rq_phone b)), rq_mpesa_phone := the (optional_phone_field (rq_mpesa_phone b))\<rparr>"

definition invalid_login :: "string \<Rightarrow> string \<Rightarrow> string list" where
  "invalid_login phone password = fails ''phone'' (phone_field phone = None) @ fails ''password'' (not_within 8 128 password)"

section \<open>Authentication\<close>

definition register_route :: "env \<Rightarrow> web_config \<Rightarrow> register_request \<Rightarrow> account_state \<Rightarrow> account_state \<times> account_reply option" where
  "register_route E W b = validated (invalid_registration b) (\<lambda>(s, L, out). case register_user E (wc_auth W) (normalized_registration b) s of
       (s', r) \<Rightarrow> ((s', L, out), case r of Inr u \<Rightarrow> Some (ok 201 (Registered (profile_of u)))
         | Inl PhoneAlreadyRegisteredError \<Rightarrow> Some (refuse 409 ''Phone number is already registered.'') | Inl _ \<Rightarrow> None))"

definition session_cookie :: "web_config \<Rightarrow> string \<Rightarrow> cookie_change" where
  "session_cookie W token = Set_cookie (wc_session_cookie_name W) token (ac_session_max_age_seconds (wc_auth W)) True
     (wc_session_cookie_secure W) (wc_session_cookie_samesite W)"

definition csrf_cookie :: "web_config \<Rightarrow> string \<Rightarrow> cookie_change" where
  "csrf_cookie W token = Set_cookie (wc_csrf_cookie_name W) token (ac_session_max_age_seconds (wc_auth W)) False
     (wc_csrf_cookie_secure W) (wc_csrf_cookie_samesite W)"

definition open_session :: "web_config \<Rightarrow> authenticated_session \<Rightarrow> account_reply" where
  "open_session W a = (ok 200 (Logged_in (profile_of (as_user a)) (as_expires_at a)))
     \<lparr>an_cookies := [session_cookie W (as_session_token a), csrf_cookie W (as_csrf_token a)]\<rparr>"

definition login_refusal :: "auth_error \<Rightarrow> account_reply option" where
  "login_refusal x = (case x of
       TooManyLoginAttemptsError k \<Rightarrow> Some (refuse_after 429 ''Too many login attempts. Please try again later.'' k)
     | AccountLockedError k \<Rightarrow> Some (refuse_after 429 ''Too many login attempts. Please try again later.'' k)
     | InvalidCredentialsError \<Rightarrow> Some (refuse 401 ''Invalid phone or password.'') | _ \<Rightarrow> None)"

definition user_agent :: "http_request \<Rightarrow> string option" where
  "user_agent q = header_get (hr_headers q) ''user-agent''"

definition login :: "env \<Rightarrow> web_config \<Rightarrow> http_request \<Rightarrow> string \<Rightarrow> string \<Rightarrow> account_state \<Rightarrow> account_state \<times> account_reply option" where
  "login E W q phone password = validated (invalid_login phone password) (\<lambda>(s, L, out).
     case authenticate_and_create_session E (wc_auth W) (the (phone_field phone)) password (get_client_identifier q) (user_agent q) s L of
       ((s', r), L') \<Rightarrow> ((s', L', out), case r of Inl x \<Rightarrow> login_refusal x | Inr a \<Rightarrow> Some (open_session W a)))"

definition phone_request_code_route :: "env \<Rightarrow> web_config \<Rightarrow> http_request \<Rightarrow> string \<Rightarrow> account_state \<Rightarrow> account_state \<times> account_reply option" where
  "phone_request_code_route E W q phone = validated (fails ''phone'' (phone_field phone = None)) (\<lambda>(s, L, out).
     case request_phone_code E (wc_auth W) (the (phone_field phone)) Sign_in (get_client_identifier q) None s L of
       ((s', Inr (i, sms)), L') \<Rightarrow> ((s', L', out @ [sms]), Some (ok 202 (Code_sent (ic_resend_after_seconds i) (ic_expires_at i)
         (if wc_phone_code_dev_echo W then Some (ic_code i) else None))))
     | ((s', Inl (PhoneCodeRateLimitedError k)), L') \<Rightarrow> ((s', L', out), Some (refuse_after 429 ''Too many codes. Please wait before asking again.'' k))
     | ((s', Inl _), L') \<Rightarrow> ((s', L', out), None))"

definition too_many_tries :: "int \<Rightarrow> account_reply" where
  "too_many_tries k = refuse_after 429 ''Too many tries. Please wait before trying again.'' k"

definition wrong_code_text :: string where
  "wrong_code_text = ''That code doesn'' @ [CHR 0x27] @ ''t match.''"

definition code_refusal :: "auth_error \<Rightarrow> account_reply option" where
  "code_refusal x = (case x of PhoneCodeRateLimitedError k \<Rightarrow> Some (too_many_tries k)
     | PhoneCodeExpiredError \<Rightarrow> Some (refuse 410 ''That code has expired.'') | PhoneCodeInvalidError _ \<Rightarrow> Some (refuse 422 wrong_code_text) | _ \<Rightarrow> None)"

definition verify_refusal :: "auth_error \<Rightarrow> account_reply option" where
  "verify_refusal x = (case x of PhoneNotBuyerError \<Rightarrow> Some (refuse 409 ''This number has a seller account. Log in with your password.'')
     | _ \<Rightarrow> code_refusal x)"

definition invalid_verification :: "string \<Rightarrow> string \<Rightarrow> string list" where
  "invalid_verification phone code = fails ''phone'' (phone_field phone = None) @ fails ''code'' (\<not> six_digits code)"

definition phone_verify :: "env \<Rightarrow> web_config \<Rightarrow> http_request \<Rightarrow> string \<Rightarrow> string \<Rightarrow> account_state \<Rightarrow> account_state \<times> account_reply option" where
  "phone_verify E W q phone code = validated (invalid_verification phone code) (\<lambda>(s, L, out).
     case verify_phone_code E (wc_auth W) (the (phone_field phone)) code None (user_agent q) s of
       (s', r) \<Rightarrow> ((s', L, out), case r of Inl x \<Rightarrow> verify_refusal x | Inr a \<Rightarrow> Some (open_session W a)))"

definition logout :: "env \<Rightarrow> web_config \<Rightarrow> http_request \<Rightarrow> account_state \<Rightarrow> account_state \<times> account_reply option" where
  "logout E W q = (\<lambda>(s, L, out). case invalidate_session E (map_of (hr_cookies q) (wc_session_cookie_name W)) s of
     (s', _) \<Rightarrow> ((s', L, out), Some (no_content\<lparr>an_cookies := [Delete_cookie (wc_session_cookie_name W), Delete_cookie (wc_csrf_cookie_name W)]\<rparr>)))"

definition me :: "signed_in \<Rightarrow> account_state \<Rightarrow> account_state \<times> account_reply option" where
  "me ctx s = (s, Some (case ctx of None \<Rightarrow> refuse 401 ''Authentication required.'' | Some (u, x) \<Rightarrow> ok 200 (Logged_in (profile_of u) (us_expires_at x))))"

section \<open>Account\<close>

definition session_id :: "signed_in \<Rightarrow> account_reply + uuid" where
  "session_id ctx = (case ctx of None \<Rightarrow> Inl (refuse 401 ''Authentication required.'') | Some (u, x) \<Rightarrow> Inr (us_id x))"

definition invalid_change :: "string \<Rightarrow> string \<Rightarrow> string list" where
  "invalid_change current_password new_password = fails ''current_password'' (not_within 1 128 current_password) @ fails ''new_password'' (weak_password new_password)"

definition post_change_password :: "env \<Rightarrow> web_config \<Rightarrow> string \<Rightarrow> string \<Rightarrow> signed_in \<Rightarrow> account_state \<Rightarrow> account_state \<times> account_reply option" where
  "post_change_password E W current_password new_password ctx = guarded (get_current_user ctx) (\<lambda>u.
     validated (invalid_change current_password new_password) (\<lambda>(s, L, out).
     guarded (bindE (account_row u s) (\<lambda>v. bindE (session_id ctx) (\<lambda>i. Inr (v, i)))) (\<lambda>(v, i) _.
     case change_password E (wc_auth W) v current_password new_password i s of
       (s', r) \<Rightarrow> ((s', L, out), case r of Inr n \<Rightarrow> Some (ok 200 (Signed_out_devices n))
         | Inl WrongPasswordError \<Rightarrow> Some (refuse 400 (''Your current password doesn'' @ [CHR 0x27] @ ''t match.'')) | Inl _ \<Rightarrow> None)) (s, L, out)))"

definition post_reset_code :: "env \<Rightarrow> web_config \<Rightarrow> http_request \<Rightarrow> string \<Rightarrow> account_state \<Rightarrow> account_state \<times> account_reply option" where
  "post_reset_code E W q phone = validated (fails ''phone'' (phone_field phone = None)) (\<lambda>(s, L, out).
     let answer = (\<lambda>code. Some (ok 202 (Reset_sent (ac_phone_code_resend_seconds (wc_auth W)) (if wc_phone_code_dev_echo W then code else None)))) in
     case request_reset_code E (wc_auth W) (the (phone_field phone)) (get_client_identifier q) s L of
       ((s', Inr None), L') \<Rightarrow> ((s', L', out), answer None)
     | ((s', Inr (Some (i, sms))), L') \<Rightarrow> ((s', L', out @ [sms]), answer (Some (ic_code i)))
     | ((s', Inl (PhoneCodeRateLimitedError k)), L') \<Rightarrow> ((s', L', out), Some (too_many_tries k))
     | ((s', Inl _), L') \<Rightarrow> ((s', L', out), None))"

definition post_reset :: "env \<Rightarrow> web_config \<Rightarrow> string \<Rightarrow> string \<Rightarrow> string \<Rightarrow> account_state \<Rightarrow> account_state \<times> account_reply option" where
  "post_reset E W phone code new_password = validated (invalid_verification phone code @ fails ''new_password'' (weak_password new_password))
     (\<lambda>(s, L, out). case reset_password E (wc_auth W) (the (phone_field phone)) code new_password s of
       (s', r) \<Rightarrow> ((s', L, out), case r of Inr _ \<Rightarrow> Some no_content | Inl x \<Rightarrow> code_refusal x))"

definition get_sessions :: "env \<Rightarrow> signed_in \<Rightarrow> account_state \<Rightarrow> account_state \<times> account_reply option" where
  "get_sessions E ctx = guarded (get_current_user ctx) (\<lambda>u. guarded (session_id ctx) (\<lambda>i (s, L, out).
     ((s, L, out), Some (ok 200 (Devices (list_sessions E (u_id u) i s))))))"

definition delete_session :: "env \<Rightarrow> uuid \<Rightarrow> signed_in \<Rightarrow> account_state \<Rightarrow> account_state \<times> account_reply option" where
  "delete_session E session ctx = guarded (get_current_user ctx) (\<lambda>u. guarded (session_id ctx) (\<lambda>i (s, L, out).
     case revoke_session E (u_id u) session i s of
       (s', r) \<Rightarrow> ((s', L, out), case r of Inr _ \<Rightarrow> Some no_content
         | Inl CurrentSessionError \<Rightarrow> Some (refuse 409 ''Use log out for this device.'')
         | Inl SessionNotFoundError \<Rightarrow> Some (refuse 404 ''Session not found.'') | Inl _ \<Rightarrow> None)))"

definition post_revoke_others :: "env \<Rightarrow> signed_in \<Rightarrow> account_state \<Rightarrow> account_state \<times> account_reply option" where
  "post_revoke_others E ctx = guarded (get_current_user ctx) (\<lambda>u. guarded (session_id ctx) (\<lambda>i (s, L, out).
     case revoke_other_sessions E (u_id u) i s of (s', n) \<Rightarrow> ((s', L, out), Some (ok 200 (Revoked n)))))"

section \<open>What they keep\<close>

text \<open>The unknown phone and the wrong password of an unlocked account get one answer.\<close>

lemma same_refusal:
  assumes "snd (login E W q phone password st) = Some a" and "an_status a = 401"
  shows "a = refuse 401 ''Invalid phone or password.''"
proof -
  obtain s L out where st: "st = (s, L, out)" by (cases st) auto
  obtain s' r L' where r: "authenticate_and_create_session E (wc_auth W) (the (phone_field phone)) password (get_client_identifier q) (user_agent q) s L =
    ((s', r), L')" by (metis prod.exhaust)
  have "login_refusal x = Some a \<Longrightarrow> an_status a = 401 \<Longrightarrow> a = refuse 401 ''Invalid phone or password.''" for x
    by (cases x) (auto simp: login_refusal_def refuse_after_def refuse_def)
  then show ?thesis using assms
    by (cases r) (auto simp: login_def validated_def st r open_session_def ok_def unprocessable_def split: if_splits)
qed

text \<open>A code is shown in an answer only where the configuration says so; production refuses to start with it.\<close>

lemma no_code_shown:
  assumes "\<not> wc_phone_code_dev_echo W" and "snd (phone_request_code_route E W q phone st) = Some a" and "an_content a = Body (Code_sent k t v)"
  shows "v = None"
proof -
  obtain s L out where st: "st = (s, L, out)" by (cases st) auto
  obtain s' r L' where r: "request_phone_code E (wc_auth W) (the (phone_field phone)) Sign_in (get_client_identifier q) None s L = ((s', r), L')"
    by (metis prod.exhaust)
  show ?thesis
  proof (cases r)
    case (Inl x)
    then show ?thesis using assms
      by (cases x) (auto simp: phone_request_code_route_def validated_def st r unprocessable_def refuse_after_def refuse_def split: if_splits)
  next
    case (Inr y)
    then show ?thesis using assms
      by (cases y) (auto simp: phone_request_code_route_def validated_def st r unprocessable_def ok_def split: if_splits)
  qed
qed

end
