(* ===== verification/Listing_Routes.thy ===== *)
theory Listing_Routes
  imports Http Listings
begin

text \<open>
  The routes of routers/listings.py over the operations of listings and photos. A refused field is
  reported by the first check it fails; \<open>msg\<close> is pydantic's text for a failed check inside the service.
\<close>

section \<open>Answers\<close>

record listing_answer =
  la_listing :: listing
  la_status :: string
  la_photos :: "(uuid \<times> string) list"
  la_seller_name :: string
  la_member_since :: time
  la_completed_sales :: nat

datatype listing_content =
    Listing_shown listing_answer
  | Photo_added uuid string
  | Listing_page "listing_answer list" nat nat nat "(string \<times> nat) list"
  | Photo_bytes string bytes

type_synonym listing_reply = "listing_content answer"

definition photo_url :: "uuid \<Rightarrow> uuid \<Rightarrow> string" where
  "photo_url lid i = ''/listings/'' @ uuid_str lid @ ''/photos/'' @ uuid_str i"

text \<open>None is the LookupError of a listing without a seller, which the foreign key excludes.\<close>

definition listing_response :: "db \<Rightarrow> listing \<Rightarrow> listing_answer option" where
  "listing_response s l = map_option (\<lambda>u. \<lparr>la_listing = l, la_status = listing_status (l_id l) s,
     la_photos = map (\<lambda>i. (i, photo_url (l_id l) i)) (photo_ids (l_id l) s), la_seller_name = u_name u, la_member_since = u_created_at u,
     la_completed_sales = completed_sales (u_id u) s\<rparr>) (get_user (l_seller l) s)"

definition shown :: "int \<Rightarrow> db \<Rightarrow> listing \<Rightarrow> listing_reply option" where
  "shown n s l = map_option (\<lambda>a. ok n (Listing_shown a)) (listing_response s l)"

section \<open>Creating, listing and reading\<close>

definition invalid_listing :: "listing_fields \<Rightarrow> string list" where
  "invalid_listing f = (case validate_listing id f of Inl (ListingValidationError name) \<Rightarrow> [name] | _ \<Rightarrow> [])"

definition create_seller_listing :: "env \<Rightarrow> listing_fields \<Rightarrow> signed_in \<Rightarrow> db \<Rightarrow> db \<times> listing_reply option" where
  "create_seller_listing E f ctx = guarded (require_seller_user ctx) (\<lambda>u. validated (invalid_listing f) (\<lambda>s.
     case validate_listing id f of Inl _ \<Rightarrow> (s, None) | Inr c \<Rightarrow> (case create_listing E u c s of
       (s', Inr l) \<Rightarrow> (s', shown 201 s' l)
     | (s', Inl (ListingValidationError m)) \<Rightarrow> (s', Some (refuse 422 m))
     | (s', Inl _) \<Rightarrow> (s', None))))"

definition invalid_page :: "string option \<Rightarrow> string option \<Rightarrow> int \<Rightarrow> int \<Rightarrow> string list" where
  "invalid_page status q page psize = fails ''status'' (case status of None \<Rightarrow> False | Some x \<Rightarrow> x \<notin> set LISTING_STATUSES) @
     fails ''q'' (too_long 64 q) @ fails ''page'' (page < 1 \<or> 10000 < page) @ fails ''page_size'' (psize < 1 \<or> 100 < psize)"

definition list_my_listings :: "string option \<Rightarrow> string option \<Rightarrow> int \<Rightarrow> int \<Rightarrow> signed_in \<Rightarrow> db \<Rightarrow> db \<times> listing_reply option" where
  "list_my_listings status q page psize ctx = guarded (require_seller_user ctx) (\<lambda>u. validated (invalid_page status q page psize) (\<lambda>s.
     let r = list_seller_listings (u_id u) status q (nat page) (nat psize) s in
     (s, map_option (\<lambda>items. ok 200 (Listing_page items (pg_total r) (pg_page r) (pg_page_size r) (pg_counts r)))
       (those (map (listing_response s) (pg_items r))))))"

definition get_listing_route :: "uuid \<Rightarrow> db \<Rightarrow> db \<times> listing_reply option" where
  "get_listing_route lid s = (s, case get_listing lid s of None \<Rightarrow> Some (refuse 404 ''Listing not found.'') | Some l \<Rightarrow> shown 200 s l)"

section \<open>Photos\<close>

definition upload_listing_photo :: "env \<Rightarrow> uuid \<Rightarrow> string \<Rightarrow> bytes \<Rightarrow> signed_in \<Rightarrow> db \<Rightarrow> db \<times> listing_reply option" where
  "upload_listing_photo E lid content_type data ctx = guarded (require_seller_user ctx) (\<lambda>u s.
     reply (\<lambda>x. case x of ListingPhotoNotFoundError m \<Rightarrow> Some (refuse 404 m) | ListingPhotoForbiddenError m \<Rightarrow> Some (refuse 403 m)
         | ListingPhotoUnsupportedTypeError m \<Rightarrow> Some (refuse 415 m) | ListingPhotoTooLargeError m \<Rightarrow> Some (refuse 413 m)
         | ListingPhotoLimitError m \<Rightarrow> Some (refuse 409 m) | _ \<Rightarrow> None)
       (\<lambda>p. ok 201 (Photo_added (lp_id p) (photo_url lid (lp_id p)))) (add_listing_photo E lid u content_type data s))"

definition get_listing_photo_image :: "uuid \<Rightarrow> uuid \<Rightarrow> db \<Rightarrow> db \<times> listing_reply option" where
  "get_listing_photo_image lid i s = reply (\<lambda>x. case x of ListingPhotoNotFoundError m \<Rightarrow> Some (refuse 404 m) | _ \<Rightarrow> None)
     (\<lambda>p. (ok 200 (Photo_bytes (lp_content_type p) (lp_data p)))\<lparr>an_headers := [(''Cache-Control'', ''public, max-age=31536000, immutable'')]\<rparr>)
     (s, get_listing_photo lid i s)"

section \<open>The owner's changes\<close>

definition owner_action :: "db \<times> (listing_error + listing) \<Rightarrow> db \<times> listing_reply option" where
  "owner_action p = (case p of (s, r) \<Rightarrow> (s, case r of Inr l \<Rightarrow> shown 200 s l
     | Inl (ListingNotFoundError m) \<Rightarrow> Some (refuse 404 ''Listing not found.'') | Inl (ListingForbiddenError m) \<Rightarrow> Some (refuse 403 m)
     | Inl (ListingLockedError m) \<Rightarrow> Some (refuse 409 m) | Inl (ListingValidationError m) \<Rightarrow> Some (refuse 422 m) | Inl _ \<Rightarrow> None))"

definition changed_badly :: "('a \<Rightarrow> bool) \<Rightarrow> 'a option option \<Rightarrow> bool" where
  "changed_badly bad v = (case v of Some (Some x) \<Rightarrow> bad x | _ \<Rightarrow> False)"

definition invalid_changes :: "listing_changes \<Rightarrow> string list" where
  "invalid_changes c = fails ''title'' (changed_badly (not_within 2 255) (lc_title c)) @
     fails ''description'' (changed_badly (not_within 0 2000) (lc_description c)) @
     fails ''category'' (changed_badly (not_within 0 64) (lc_category c)) @
     fails ''buyer_name'' (changed_badly (not_within 0 120) (lc_buyer_name c)) @
     fails ''price'' (changed_badly (\<lambda>p. p < 0 \<or> 10 ^ 12 \<le> p) (lc_price c)) @
     fails ''unique_id'' (changed_badly (not_within 0 128) (lc_unique_id c))"

definition update_seller_listing :: "(string \<Rightarrow> string) \<Rightarrow> uuid \<Rightarrow> listing_changes \<Rightarrow> signed_in \<Rightarrow> db \<Rightarrow> db \<times> listing_reply option" where
  "update_seller_listing msg lid c ctx = guarded (require_seller_user ctx) (\<lambda>u. validated (invalid_changes c) (\<lambda>s.
     owner_action (update_listing msg u lid c s)))"

definition archive_seller_listing :: "env \<Rightarrow> uuid \<Rightarrow> signed_in \<Rightarrow> db \<Rightarrow> db \<times> listing_reply option" where
  "archive_seller_listing E lid ctx = guarded (require_seller_user ctx) (\<lambda>u s. owner_action (archive_listing E u lid s))"

definition restore_seller_listing :: "uuid \<Rightarrow> signed_in \<Rightarrow> db \<Rightarrow> db \<times> listing_reply option" where
  "restore_seller_listing lid ctx = guarded (require_seller_user ctx) (\<lambda>u s. owner_action (restore_listing u lid s))"

section \<open>What they keep\<close>

lemma seller_guard: "require_seller_user ctx = Inr u \<longleftrightarrow> (\<exists>x. ctx = Some (u, x)) \<and> u_role u = SELLER"
  by (auto simp: require_seller_user_def bindE_eq_Inr get_current_user_def require_role_def split: option.splits prod.splits if_splits)

lemma owner_only:
  assumes "owned_listing u lid s = Inr l"
  shows "get_listing lid s = Some l \<and> l_seller l = u_id u"
  using assms by (auto simp: owned_listing_def split: option.splits if_splits)

lemma put_other_listing: "i \<noteq> l_id l \<Longrightarrow> get_listing i (put_listing l s) = get_listing i s"
  by (rule listings.get_put_other)

text \<open>A route that writes a listing writes only that listing, and only for its seller.\<close>

lemma archive_owner:
  assumes "archive_seller_listing E lid ctx s = (s', a)" and "s' \<noteq> s"
  shows "\<exists>u x l. ctx = Some (u, x) \<and> u_role u = SELLER \<and> get_listing lid s = Some l \<and> l_seller l = u_id u \<and>
    listing_status lid s \<notin> {''sold'', ''awaiting_payment''} \<and> s' = put_listing (l\<lparr>l_archived_at := Some (e_now E)\<rparr>) s"
proof -
  obtain u where u: "require_seller_user ctx = (Inr u :: listing_reply + user)"
    using assms by (cases "require_seller_user ctx :: listing_reply + user") (auto simp: archive_seller_listing_def guarded_def)
  then obtain r0 where a: "archive_listing E u lid s = (s', r0)"
    using assms(1) by (auto simp: archive_seller_listing_def guarded_def owner_action_def split: prod.splits)
  then obtain r where l: "archive_listing E u lid s = (s', Inr r)"
    using assms(2) by (cases r0) (auto simp: archive_listing_def atomic_eq_Inl)
  then obtain l where own: "owned_listing u lid s = Inr l" by (auto simp: archive_listing_def atomic_eq_Inr bindE_eq_Inr)
  have row: "get_listing lid s = Some l" "l_seller l = u_id u" using owner_only [OF own] by simp_all
  have i: "l_id l = lid" using row(1) by (rule listings.get_key)
  have "s' = put_listing (l\<lparr>l_archived_at := Some (e_now E)\<rparr>) s" "listing_status lid s \<notin> {''sold'', ''awaiting_payment''}"
    using l own assms(2) i by (auto simp: archive_listing_def atomic_eq_Inr bindE_eq_Inr require_unpaid_def Let_def split: if_splits)
  with u row show ?thesis by (auto simp: seller_guard)
qed

end
