(* ===== verification/Messages.thy ===== *)
theory Messages
  imports Http Notices
begin

text \<open>
  Notifications as their reader has them: services/notification_prefs.py (what a seller mutes),
  notification.py (the inbox), notification_delivery.py (the SMS copies), and the routes of
  routers/notifications.py and of the preferences in routers/account.py. The SMS gateway is a
  parameter with a state of its own: it answers whether every recipient was reached, or raises.
\<close>

section \<open>Preferences\<close>

definition CATEGORIES :: "string list" where
  "CATEGORIES = [''payment_received'', ''delivery'', ''returns'', ''support'']"

fun channel_value :: "channel \<Rightarrow> string" where
  "channel_value IN_APP = ''in_app''"
| "channel_value SMS = ''sms''"

definition LOCKED_PREFERENCES :: "(string \<times> channel) set" where
  "LOCKED_PREFERENCES = {(''support'', IN_APP)}"

fun category_by_event :: "event_type \<Rightarrow> string" where
  "category_by_event TRANSACTION_CREATED = ''payment_received''"
| "category_by_event TRANSACTION_LOCKED = ''payment_received''"
| "category_by_event OTP_GIVEN = ''payment_received''"
| "category_by_event TRANSACTION_DISPATCHED = ''delivery''"
| "category_by_event DELIVERY_ARRIVED = ''delivery''"
| "category_by_event SYSTEM_TIMEOUT = ''delivery''"
| "category_by_event OTP_WITHHELD = ''returns''"
| "category_by_event DISPUTE_OPENED = ''returns''"
| "category_by_event DISPUTE_UPDATED = ''returns''"
| "category_by_event ADMIN_DECISION = ''support''"

text \<open>One preference; the stored dict is only ever written by \<open>set_preferences\<close>.\<close>

definition preference :: "user \<Rightarrow> string \<Rightarrow> channel \<Rightarrow> bool" where
  "preference u category ch = (if (category, ch) \<in> LOCKED_PREFERENCES then True
     else (case u_notification_prefs u of None \<Rightarrow> True
       | Some d \<Rightarrow> (case dict_get category d of
           Some (JObj saved) \<Rightarrow> (case dict_get (channel_value ch) saved of None \<Rightarrow> True | Some v \<Rightarrow> truthy v)
         | _ \<Rightarrow> True)))"

definition preferences :: "user \<Rightarrow> (string \<times> bool \<times> bool) list" where
  "preferences u = map (\<lambda>c. (c, preference u c IN_APP, preference u c SMS)) CATEGORIES"

definition wanted_or_current :: "user \<Rightarrow> (string \<times> bool \<times> bool) list \<Rightarrow> string \<Rightarrow> channel \<Rightarrow> bool" where
  "wanted_or_current u wanted category ch = (case map_of wanted category of
       None \<Rightarrow> preference u category ch
     | Some (in_app, sms) \<Rightarrow> if (category, ch) \<in> LOCKED_PREFERENCES then preference u category ch
         else (case ch of IN_APP \<Rightarrow> in_app | SMS \<Rightarrow> sms))"

definition set_preferences :: "user \<Rightarrow> (string \<times> bool \<times> bool) list \<Rightarrow> user" where
  "set_preferences u wanted = u\<lparr>u_notification_prefs := Some (map (\<lambda>c. (c, JObj [(''in_app'', JBool (wanted_or_current u wanted c IN_APP)),
     (''sms'', JBool (wanted_or_current u wanted c SMS))])) CATEGORIES)\<rparr>"

definition muted_event_type :: "user \<Rightarrow> channel \<Rightarrow> event_type \<Rightarrow> bool" where
  "muted_event_type u ch ev = (if u_role u \<noteq> SELLER \<or> u_notification_prefs u = None \<or> u_notification_prefs u = Some [] then False
     else \<not> preference u (category_by_event ev) ch)"

section \<open>The inbox\<close>

definition get_notification :: "uuid \<Rightarrow> db \<Rightarrow> notification option" where
  "get_notification i s = row_get n_id i (d_notifications s)"

definition put_notification :: "notification \<Rightarrow> db \<Rightarrow> db" where
  "put_notification n s = s\<lparr>d_notifications := row_put n_id n (d_notifications s)\<rparr>"

interpretation notifications: store get_notification put_notification n_id
  by unfold_locales (auto simp: get_notification_def put_notification_def row_get_put dest: row_get_SomeD)

text \<open>Newest first, of two at the same instant the greater id first.\<close>

definition list_user_notifications ::
    "uuid \<Rightarrow> nat \<Rightarrow> nat \<Rightarrow> bool \<Rightarrow> channel option \<Rightarrow> (event_type \<Rightarrow> bool) \<Rightarrow> db \<Rightarrow> notification list" where
  "list_user_notifications user limit offset unread_only ch muted s =
     take limit (drop offset (sort_key (\<lambda>n. (- n_created_at n, - int (n_id n)))
       (filter (\<lambda>n. n_user n = user \<and> \<not> muted (n_event n) \<and> (unread_only \<longrightarrow> \<not> n_is_read n) \<and>
          (case ch of None \<Rightarrow> True | Some c \<Rightarrow> n_channel n = c)) (d_notifications s))))"

definition count_unread_in_app :: "uuid \<Rightarrow> (event_type \<Rightarrow> bool) \<Rightarrow> db \<Rightarrow> nat" where
  "count_unread_in_app user muted s =
     length (filter (\<lambda>n. n_user n = user \<and> n_channel n = IN_APP \<and> \<not> n_is_read n \<and> \<not> muted (n_event n)) (d_notifications s))"

definition mark_notification_read :: "env \<Rightarrow> uuid \<Rightarrow> uuid \<Rightarrow> db \<Rightarrow> db \<times> notification option" where
  "mark_notification_read E user i s = (case get_notification i s of None \<Rightarrow> (s, None)
     | Some n \<Rightarrow> if n_user n \<noteq> user then (s, None)
         else if n_is_read n then (s, Some n)
         else let n' = n\<lparr>n_is_read := True, n_read_at := Some (e_now E)\<rparr> in (put_notification n' s, Some n'))"

definition mark_all_notifications_read :: "env \<Rightarrow> uuid \<Rightarrow> db \<Rightarrow> db \<times> nat" where
  "mark_all_notifications_read E user s = (let unread = (\<lambda>n. n_user n = user \<and> \<not> n_is_read n) in
     (s\<lparr>d_notifications := map (\<lambda>n. if unread n then n\<lparr>n_is_read := True, n_read_at := Some (e_now E)\<rparr> else n) (d_notifications s)\<rparr>,
      length (filter unread (d_notifications s))))"

definition transaction_references :: "db \<Rightarrow> uuid \<Rightarrow> string option" where
  "transaction_references s tid = map_option tx_reference (get_transaction tid s)"

section \<open>SMS copies\<close>

record delivery_counts =
  dc_sent :: nat
  dc_failed :: nat
  dc_skipped :: nat

type_synonym 'w sender = "string \<Rightarrow> string list \<Rightarrow> 'w \<Rightarrow> (exn + bool) \<times> 'w"

definition SMS_MAX_LENGTH :: nat where "SMS_MAX_LENGTH = 459"

definition build_sms_text :: "notification \<Rightarrow> string" where
  "build_sms_text n = (let text = strip (''Vekro: '' @ n_title n @ ''. '' @ n_message n) in
     if SMS_MAX_LENGTH < length text then take (SMS_MAX_LENGTH - 3) text @ ''...'' else text)"

definition sms_muted :: "user option \<Rightarrow> notification \<Rightarrow> bool" where
  "sms_muted u n = (case u of None \<Rightarrow> False | Some v \<Rightarrow> muted_event_type v SMS (n_event n))"

definition send_copy :: "'w sender \<Rightarrow> user option \<Rightarrow> notification \<Rightarrow> 'w \<Rightarrow> bool \<times> 'w" where
  "send_copy sender u n w = (let phone = (case u of None \<Rightarrow> '''' | Some v \<Rightarrow> strip (u_phone v)) in
     if phone = '''' then (False, w)
     else (case sender (build_sms_text n) [phone] w of (Inr sent, w') \<Rightarrow> (sent, w') | (Inl _, w') \<Rightarrow> (False, w')))"

fun deliver_rows :: "'w sender \<Rightarrow> time \<Rightarrow> notification list \<Rightarrow> delivery_counts \<Rightarrow> db \<Rightarrow> 'w \<Rightarrow> (db \<times> delivery_counts) \<times> 'w" where
  "deliver_rows sender now [] c s w = ((s, c), w)"
| "deliver_rows sender now (n # ns) c s w = (let u = get_user (n_user n) s in
     if sms_muted u n then deliver_rows sender now ns (c\<lparr>dc_skipped := Suc (dc_skipped c)\<rparr>) s w
     else (case send_copy sender u n w of
         (True, w') \<Rightarrow> deliver_rows sender now ns (c\<lparr>dc_sent := Suc (dc_sent c)\<rparr>)
           (put_notification (n\<lparr>n_delivery_status := SENT, n_delivered_at := Some now\<rparr>) s) w'
       | (False, w') \<Rightarrow> deliver_rows sender now ns (c\<lparr>dc_failed := Suc (dc_failed c)\<rparr>)
           (put_notification (n\<lparr>n_delivery_status := DELIVERY_FAILED\<rparr>) s) w'))"

definition deliver_notification_sms ::
    "env \<Rightarrow> uuid list \<Rightarrow> 'w sender option \<Rightarrow> time option \<Rightarrow> db \<Rightarrow> 'w \<Rightarrow> (db \<times> delivery_counts) \<times> 'w" where
  "deliver_notification_sms E ids sender n s w = (let none = \<lparr>dc_sent = 0, dc_failed = 0, dc_skipped = 0\<rparr> in
     if ids = [] then ((s, none), w)
     else (case sender of None \<Rightarrow> ((s, none\<lparr>dc_skipped := card (set ids)\<rparr>), w)
       | Some via \<Rightarrow> deliver_rows via (case n of None \<Rightarrow> e_now E | Some t \<Rightarrow> t)
           (filter (\<lambda>x. n_id x \<in> set ids \<and> n_delivery_status x = NOT_ATTEMPTED) (d_notifications s)) none s w))"

section \<open>Routes\<close>

datatype message_content = Inbox "(notification \<times> string option) list" | Unread nat | All_read nat nat | Message notification "string option"
  | Preferences "(string \<times> bool \<times> bool) list"

definition list_current_user_notifications ::
    "int \<Rightarrow> int \<Rightarrow> bool \<Rightarrow> channel option \<Rightarrow> signed_in \<Rightarrow> db \<Rightarrow> db \<times> message_content answer option" where
  "list_current_user_notifications limit offset unread ch ctx = guarded (get_current_user ctx) (\<lambda>u.
     validated (fails ''limit'' (limit < 1 \<or> 100 < limit) @ fails ''offset'' (offset < 0)) (\<lambda>s.
     (s, Some (ok 200 (Inbox (map (\<lambda>n. (n, transaction_references s (n_transaction n)))
       (list_user_notifications (u_id u) (nat limit) (nat offset) unread ch (muted_event_type u IN_APP) s)))))))"

definition get_unread_count :: "signed_in \<Rightarrow> db \<Rightarrow> db \<times> message_content answer option" where
  "get_unread_count ctx = guarded (get_current_user ctx) (\<lambda>u s. (s, Some (ok 200 (Unread (count_unread_in_app (u_id u) (muted_event_type u IN_APP) s)))))"

definition mark_all_read :: "env \<Rightarrow> signed_in \<Rightarrow> db \<Rightarrow> db \<times> message_content answer option" where
  "mark_all_read E ctx = guarded (get_current_user ctx) (\<lambda>u s. case mark_all_notifications_read E (u_id u) s of
     (s', n) \<Rightarrow> (s', Some (ok 200 (All_read n 0))))"

definition mark_one_read :: "env \<Rightarrow> uuid \<Rightarrow> signed_in \<Rightarrow> db \<Rightarrow> db \<times> message_content answer option" where
  "mark_one_read E i ctx = guarded (get_current_user ctx) (\<lambda>u s. case mark_notification_read E (u_id u) i s of
     (s', None) \<Rightarrow> (s', Some (refuse 404 ''Notification not found.''))
   | (s', Some n) \<Rightarrow> (s', Some (ok 200 (Message n (transaction_references s' (n_transaction n))))))"

definition get_preferences :: "signed_in \<Rightarrow> db \<Rightarrow> db \<times> message_content answer option" where
  "get_preferences ctx = guarded (require_seller_user ctx) (\<lambda>u s. guarded (account_row u s) (\<lambda>v s. (s, Some (ok 200 (Preferences (preferences v))))) s)"

definition put_preferences :: "(string \<times> bool \<times> bool) list \<Rightarrow> signed_in \<Rightarrow> db \<Rightarrow> db \<times> message_content answer option" where
  "put_preferences wanted ctx = guarded (require_seller_user ctx) (\<lambda>u s. guarded (account_row u s) (\<lambda>v s.
     let v' = set_preferences v wanted in (put_user v' s, Some (ok 200 (Preferences (preferences v'))))) s)"

section \<open>What they keep\<close>

text \<open>Preferences saved are read back, but for the one that cannot be turned off.\<close>

lemma preference_set:
  assumes "category \<in> set CATEGORIES"
  shows "preference (set_preferences u wanted) category ch = wanted_or_current u wanted category ch"
  using assms by (cases ch) (auto simp: preference_def set_preferences_def CATEGORIES_def LOCKED_PREFERENCES_def dict_get_def
      wanted_or_current_def split: option.split)

lemma preferences_round_trip:
  assumes "map fst wanted = CATEGORIES"
  shows "preferences (set_preferences u wanted) = map (\<lambda>(c, in_app, sms). (c, in_app \<or> c = ''support'', sms)) wanted"
proof -
  obtain a1 b1 a2 b2 a3 b3 a4 b4 where
    w: "wanted = [(''payment_received'', a1, b1), (''delivery'', a2, b2), (''returns'', a3, b3), (''support'', a4, b4)]"
    using assms by (auto simp: CATEGORIES_def)
  show ?thesis unfolding preferences_def
    by (simp add: preference_set CATEGORIES_def wanted_or_current_def LOCKED_PREFERENCES_def w) (simp add: preference_def LOCKED_PREFERENCES_def)
qed

text \<open>Only sellers can mute anything; no buyer ever misses a message.\<close>

lemma buyers_mute_nothing: "u_role u \<noteq> SELLER \<Longrightarrow> \<not> muted_event_type u ch ev"
  by (simp add: muted_event_type_def)

lemma support_always_shows: "\<not> muted_event_type u IN_APP ADMIN_DECISION"
  by (simp add: muted_event_type_def preference_def LOCKED_PREFERENCES_def)

lemma put_notification_frame [simp]: "get_user i (put_notification n s) = get_user i s" "d_users (put_notification n s) = d_users s"
  by (simp_all add: put_notification_def get_user_def)

text \<open>
  The rows a delivery goes through are afterwards all decided or muted, so a second delivery of the
  same notifications sends nothing.
\<close>

definition settled :: "db \<Rightarrow> notification \<Rightarrow> bool" where
  "settled s n = (n_delivery_status n \<noteq> NOT_ATTEMPTED \<or> sms_muted (get_user (n_user n) s) n)"

lemma settled_put [simp]: "settled (put_notification n s) x = settled s x"
  by (simp add: settled_def)

lemma deliver_rows_users: "d_users (fst (fst (deliver_rows sender now ns c s w))) = d_users s"
  by (induction sender now ns c s w rule: deliver_rows.induct) (auto simp: Let_def split: prod.split bool.split)

lemma put_settles:
  assumes "n_id m = n_id n" and "settled s m" and "\<forall>x \<in> set (d_notifications s). P x \<longrightarrow> x \<in> set (n # ns) \<or> settled s x"
    and "distinct (map n_id (d_notifications s))" and "n \<in> set (d_notifications s)"
  shows "\<forall>x \<in> set (d_notifications (put_notification m s)). P x \<longrightarrow> x \<in> set ns \<or> settled s x"
proof (intro ballI impI)
  fix x assume x: "x \<in> set (d_notifications (put_notification m s))" "P x"
  from x(1) have "x = m \<or> x \<in> set (d_notifications s) \<and> n_id x \<noteq> n_id m" by (auto simp: put_notification_def dest: row_put_in_set)
  then show "x \<in> set ns \<or> settled s x" using assms(1-3) x(2) by auto
qed

lemma put_keeps_rows:
  assumes "n_id m = n_id n" and "set (n # ns) \<subseteq> set (d_notifications s)" and "distinct (map n_id (n # ns))"
  shows "set ns \<subseteq> set (d_notifications (put_notification m s))"
proof
  fix x assume "x \<in> set ns"
  then have "x \<in> set (d_notifications s)" "n_id x \<noteq> n_id m" using assms by (auto simp: image_iff)
  then show "x \<in> set (d_notifications (put_notification m s))" by (force simp: put_notification_def row_put_def)
qed

lemma put_ids [simp]: "map n_id (d_notifications (put_notification m s)) = map n_id (d_notifications s)"
  by (simp add: put_notification_def)

lemma deliver_settles:
  assumes "\<forall>x \<in> set (d_notifications s). P (n_id x) \<longrightarrow> x \<in> set ns \<or> settled s x" and "distinct (map n_id (d_notifications s))"
    and "set ns \<subseteq> set (d_notifications s)" and "distinct (map n_id ns)"
  shows "\<forall>x \<in> set (d_notifications (fst (fst (deliver_rows sender now ns c s w)))). P (n_id x) \<longrightarrow> settled s x"
  using assms
proof (induction sender now ns c s w rule: deliver_rows.induct)
  case (2 sender now n ns c s w)
  let ?u = "get_user (n_user n) s"
  show ?case
  proof (cases "sms_muted ?u n")
    case True
    then have "settled s n" by (simp add: settled_def)
    then show ?thesis using "2.IH"(1) [OF refl True] "2.prems" True by (auto simp: Let_def)
  next
    case False
    obtain sent w' where c: "send_copy sender ?u n w = (sent, w')" by force
    define m where "m = (if sent then n\<lparr>n_delivery_status := SENT, n_delivered_at := Some now\<rparr> else n\<lparr>n_delivery_status := DELIVERY_FAILED\<rparr>)"
    have m: "n_id m = n_id n" "settled s m" by (simp_all add: m_def settled_def)
    have pre: "\<forall>x \<in> set (d_notifications (put_notification m s)). P (n_id x) \<longrightarrow> x \<in> set ns \<or> settled (put_notification m s) x"
      using put_settles [OF m, of "\<lambda>x. P (n_id x)" ns] "2.prems" by simp
    have rows: "set ns \<subseteq> set (d_notifications (put_notification m s))" using put_keeps_rows [OF m(1), of ns s] "2.prems"(3,4) by blast
    have dist: "distinct (map n_id (d_notifications (put_notification m s)))" using "2.prems"(2) by simp
    show ?thesis
    proof (cases sent)
      case True
      then show ?thesis using "2.IH"(2) [OF refl False c [symmetric]] pre rows dist "2.prems"(4) False c by (simp add: Let_def m_def)
    next
      case unsent: False
      then show ?thesis using "2.IH"(3) [OF refl False c [symmetric]] pre rows dist "2.prems"(4) False c by (simp add: Let_def m_def)
    qed
  qed
qed auto

lemma settled_rows_silent:
  assumes "\<forall>x \<in> set ns. sms_muted (get_user (n_user x) s) x"
  shows "deliver_rows sender now ns c s w = ((s, c\<lparr>dc_skipped := dc_skipped c + length ns\<rparr>), w)"
  using assms by (induction ns arbitrary: c) (auto simp: Let_def)

lemma delivered_once:
  assumes "deliver_notification_sms E ids (Some sender) n s w = ((s', c), w')" and "distinct (map n_id (d_notifications s))"
  shows "\<exists>k. deliver_notification_sms E' ids (Some sender') n' s' w2 = ((s', \<lparr>dc_sent = 0, dc_failed = 0, dc_skipped = k\<rparr>), w2)"
proof (cases "ids = []")
  case False
  let ?rows = "filter (\<lambda>x. n_id x \<in> set ids \<and> n_delivery_status x = NOT_ATTEMPTED) (d_notifications s)"
  have s': "s' = fst (fst (deliver_rows sender (case n of None \<Rightarrow> e_now E | Some t \<Rightarrow> t) ?rows \<lparr>dc_sent = 0, dc_failed = 0, dc_skipped = 0\<rparr> s w))"
    using assms(1) False by (simp add: deliver_notification_sms_def)
  have "\<forall>x \<in> set (d_notifications s'). n_id x \<in> set ids \<longrightarrow> settled s x"
    unfolding s' by (rule deliver_settles [where P = "\<lambda>i. i \<in> set ids"]) (use assms(2) in \<open>auto simp: settled_def distinct_map intro: inj_on_subset\<close>)
  moreover have "d_users s' = d_users s" unfolding s' by (rule deliver_rows_users)
  ultimately have r: "\<forall>x \<in> set (filter (\<lambda>x. n_id x \<in> set ids \<and> n_delivery_status x = NOT_ATTEMPTED) (d_notifications s')).
      sms_muted (get_user (n_user x) s') x" by (auto simp: settled_def get_user_def)
  show ?thesis using False by (simp add: deliver_notification_sms_def Let_def settled_rows_silent [OF r])
qed (use assms(1) in \<open>auto simp: deliver_notification_sms_def\<close>)

text \<open>After marking everything read nothing is unread, and other users' messages are as they were.\<close>

lemma all_read: "count_unread_in_app user muted (fst (mark_all_notifications_read E user s)) = 0"
  by (simp add: count_unread_in_app_def mark_all_notifications_read_def Let_def filter_empty_conv)

lemma own_inbox: "n \<in> set (list_user_notifications user limit offset unread ch muted s) \<Longrightarrow> n_user n = user"
  by (auto simp: list_user_notifications_def dest!: in_set_takeD in_set_dropD)

end
