(* ===== verification/Configuration.thy ===== *)
theory Configuration
  imports Simulated_Rail Http Rails
begin

text \<open>
  Loading the settings (core/settings.py): the checks of single fields, the check of the configuration as
  a whole and the error \<open>get_settings\<close> raises. Reading the environment and converting its texts to types is
  pydantic-settings; it validates defaults too, prefixes the message of a ValueError with \<open>Value error, \<close>,
  and runs the check of the whole only when no field failed. The texts that are only checked for presence
  are in \<open>cf_texts\<close> by field name; the Fernet check of one key is a parameter.
\<close>

section \<open>The settings\<close>

record config =
  cf_environment :: string
  cf_secret_key :: string
  cf_database_url :: string
  cf_alembic_database_url :: string
  cf_frontend_url :: string
  cf_cors_origins :: string
  cf_cors_allow_credentials :: bool
  cf_session_cookie_secure :: bool
  cf_csrf_cookie_secure :: bool
  cf_csrf_header_name :: string
  cf_session_cookie_max_age_seconds :: int
  cf_login_rate_limit_max_attempts :: int
  cf_login_rate_limit_window_seconds :: int
  cf_login_lockout_max_attempts :: int
  cf_login_lockout_seconds :: int
  cf_phone_code_ttl_seconds :: int
  cf_phone_code_resend_seconds :: int
  cf_phone_code_max_attempts :: int
  cf_phone_code_lockout_seconds :: int
  cf_phone_code_hourly_limit :: int
  cf_phone_code_dev_echo :: bool
  cf_custody_mode :: custody_mode
  cf_collection_priority :: string
  cf_payout_priority :: string
  cf_allow_live_payouts :: bool
  cf_simulated_collection_scenario :: string
  cf_simulated_payout_scenario :: string
  cf_simulated_trigger_prefix :: string
  cf_loop_enabled :: bool
  cf_pesapal_enabled :: bool
  cf_intasend_enabled :: bool
  cf_econfirm_enabled :: bool
  cf_econfirm_min_amount :: decimal
  cf_econfirm_max_amount :: decimal
  cf_econfirm_code_encryption_key :: string
  cf_anchor_admin_ref_secret :: string
  cf_texts :: "(string \<times> string) list"

definition ENABLED_CREDENTIAL_FIELDS :: "(string \<times> string list) list" where
  "ENABLED_CREDENTIAL_FIELDS = [
     (''loop'', [''loop_base_url'', ''loop_client_id'', ''loop_client_secret'', ''loop_shortcode'', ''loop_passkey'']),
     (''pesapal'', [''pesapal_base_url'', ''pesapal_consumer_key'', ''pesapal_consumer_secret'', ''pesapal_callback_url'']),
     (''intasend'', [''intasend_base_url'', ''intasend_publishable_key'', ''intasend_secret_key'', ''intasend_webhook_secret'']),
     (''econfirm'', [''econfirm_base_url'', ''econfirm_api_key''])]"

definition text_setting :: "config \<Rightarrow> string \<Rightarrow> string" where
  "text_setting c name = (case map_of (cf_texts c) name of None \<Rightarrow> '''' | Some v \<Rightarrow> v)"

section \<open>The fields\<close>

text \<open>A validator gives the value to store or the message of its ValueError.\<close>

definition not_blank :: "string \<Rightarrow> string + string" where
  "not_blank v = (if strip v = '''' then Inl ''must not be blank'' else Inr v)"

definition must_be_positive :: "int \<Rightarrow> string + int" where
  "must_be_positive v = (if v \<le> 0 then Inl ''must be greater than 0'' else Inr v)"

definition csrf_header_name_not_blank :: "string \<Rightarrow> string + string" where
  "csrf_header_name_not_blank v = (if strip v = '''' then Inl ''must not be blank'' else Inr (strip v))"

definition DEFAULT_SCENARIO_ALIASES :: "(string \<times> string) list" where
  "DEFAULT_SCENARIO_ALIASES = [(''succeeded'', ''success''), (''ok'', ''success''), (''failed'', ''failed_definite''),
     (''failure'', ''failed_definite''), (''declined'', ''failed_definite'')]"

definition validate_simulated_default_scenario :: "string \<Rightarrow> string + string" where
  "validate_simulated_default_scenario v = (let n0 = replace_char (CHR ''-'') (CHR ''_'') (py_lower (strip v));
       n = (case map_of DEFAULT_SCENARIO_ALIASES n0 of Some a \<Rightarrow> a | None \<Rightarrow> n0) in
     if n \<notin> set SUPPORTED_SIMULATED_SCENARIOS
     then Inl ''must be one of: duplicate, failed_definite, out_of_order, success, timeout, unknown'' else Inr n)"

definition validate_simulated_trigger_prefix :: "string \<Rightarrow> string + string" where
  "validate_simulated_trigger_prefix v = (let n = py_lower (strip v) in if n = '''' then Inl ''must not be blank'' else Inr n)"

definition problem :: "string \<Rightarrow> string + 'a \<Rightarrow> (string \<times> string) list" where
  "problem name r = (case r of Inl m \<Rightarrow> [(name, m)] | Inr _ \<Rightarrow> [])"

definition positive_fields :: "config \<Rightarrow> (string \<times> int) list" where
  "positive_fields c = [(''session_cookie_max_age_seconds'', cf_session_cookie_max_age_seconds c),
     (''login_rate_limit_max_attempts'', cf_login_rate_limit_max_attempts c), (''login_rate_limit_window_seconds'', cf_login_rate_limit_window_seconds c),
     (''login_lockout_max_attempts'', cf_login_lockout_max_attempts c), (''login_lockout_seconds'', cf_login_lockout_seconds c),
     (''phone_code_ttl_seconds'', cf_phone_code_ttl_seconds c), (''phone_code_resend_seconds'', cf_phone_code_resend_seconds c),
     (''phone_code_max_attempts'', cf_phone_code_max_attempts c), (''phone_code_lockout_seconds'', cf_phone_code_lockout_seconds c),
     (''phone_code_hourly_limit'', cf_phone_code_hourly_limit c)]"

definition field_problems :: "config \<Rightarrow> (string \<times> string) list" where
  "field_problems c = problem ''secret_key'' (not_blank (cf_secret_key c)) @ problem ''database_url'' (not_blank (cf_database_url c)) @
     problem ''alembic_database_url'' (not_blank (cf_alembic_database_url c)) @
     concat (map (\<lambda>(name, v). problem name (must_be_positive v)) (positive_fields c)) @
     problem ''csrf_header_name'' (csrf_header_name_not_blank (cf_csrf_header_name c)) @
     problem ''simulated_collection_default_scenario'' (validate_simulated_default_scenario (cf_simulated_collection_scenario c)) @
     problem ''simulated_payout_default_scenario'' (validate_simulated_default_scenario (cf_simulated_payout_scenario c)) @
     problem ''simulated_trigger_prefix'' (validate_simulated_trigger_prefix (cf_simulated_trigger_prefix c))"

definition value_or :: "'a \<Rightarrow> string + 'a \<Rightarrow> 'a" where
  "value_or d r = (case r of Inl m \<Rightarrow> d | Inr v \<Rightarrow> v)"

text \<open>What the validators store in place of the text they were given.\<close>

definition normalized :: "config \<Rightarrow> config" where
  "normalized c = c\<lparr>cf_csrf_header_name := value_or '''' (csrf_header_name_not_blank (cf_csrf_header_name c)),
     cf_simulated_collection_scenario := value_or '''' (validate_simulated_default_scenario (cf_simulated_collection_scenario c)),
     cf_simulated_payout_scenario := value_or '''' (validate_simulated_default_scenario (cf_simulated_payout_scenario c)),
     cf_simulated_trigger_prefix := value_or '''' (validate_simulated_trigger_prefix (cf_simulated_trigger_prefix c))\<rparr>"

section \<open>The configuration as a whole\<close>

definition is_production :: "config \<Rightarrow> bool" where
  "is_production c = (py_lower (strip (cf_environment c)) = ''production'')"

definition plain_http :: "string \<Rightarrow> bool" where "plain_http v = starts_with ''http://'' (py_lower v)"

definition cors_origins_list :: "config \<Rightarrow> string list" where
  "cors_origins_list c = map strip (filter (\<lambda>v. strip v \<noteq> '''') (split_on (CHR '','') (cf_cors_origins c)))"

definition production_violations :: "config \<Rightarrow> string list" where
  "production_violations c = (if is_production c then
     fails ''PHONE_CODE_DEV_ECHO=false'' (cf_phone_code_dev_echo c) @
     fails ''SESSION_COOKIE_SECURE=true'' (\<not> cf_session_cookie_secure c) @
     fails ''CSRF_COOKIE_SECURE=true'' (\<not> cf_csrf_cookie_secure c) @
     fails ''CORS_ALLOW_CREDENTIALS=true'' (\<not> cf_cors_allow_credentials c) @
     fails ''FRONTEND_URL must use https://'' (plain_http (strip (cf_frontend_url c))) @
     fails ''CORS_ORIGINS must use https:// origins in production'' (list_ex plain_http (cors_origins_list c)) else [])"

text \<open>Both lists are empty when one of them cannot be read.\<close>

definition priority_lists :: "config \<Rightarrow> (string list \<times> string list) \<times> string list" where
  "priority_lists c = (case parse_rail_priority (cf_collection_priority c) ''CUSTODY_COLLECTION_RAIL_PRIORITY'' of
       Inl (ValueError m) \<Rightarrow> (([], []), [m]) | Inl _ \<Rightarrow> (([], []), [])
     | Inr collection \<Rightarrow> (case parse_rail_priority (cf_payout_priority c) ''CUSTODY_PAYOUT_RAIL_PRIORITY'' of
         Inl (ValueError m) \<Rightarrow> ((collection, []), [m]) | Inl _ \<Rightarrow> ((collection, []), [])
       | Inr payout \<Rightarrow> ((collection, payout), [])))"

definition rail_violations :: "config \<Rightarrow> string list" where
  "rail_violations c = (case priority_lists c of ((collection, payout), problems) \<Rightarrow> problems @
     (let unknown = unknown_rails (collection @ payout) in
       fails (''Unknown rails in custody priorities: '' @ join_text '', '' unknown) (unknown \<noteq> [])) @
     fails ''PESAPAL is collection-only and must not appear in CUSTODY_PAYOUT_RAIL_PRIORITY'' (''pesapal'' \<in> set payout))"

definition missing_credentials :: "config \<Rightarrow> string \<Rightarrow> bool \<Rightarrow> string list" where
  "missing_credentials c provider enabled = (if \<not> enabled then [] else
     concat (map (\<lambda>name. fails (py_upper name @ '' must be set when '' @ py_upper provider @ ''_ENABLED=true'') (strip (text_setting c name) = ''''))
       (case map_of ENABLED_CREDENTIAL_FIELDS provider of None \<Rightarrow> [] | Some names \<Rightarrow> names)))"

definition valid_fernet_keys :: "(string \<Rightarrow> bool) \<Rightarrow> string \<Rightarrow> bool" where
  "valid_fernet_keys fernet_ok raw = (parse_keys raw \<noteq> [] \<and> list_all fernet_ok (parse_keys raw))"

definition MIN_KEY_LENGTH :: nat where "MIN_KEY_LENGTH = 32"

definition is_valid_secret_config :: "string \<Rightarrow> bool" where
  "is_valid_secret_config raw = (parse_keys raw \<noteq> [] \<and> list_all (\<lambda>k. MIN_KEY_LENGTH \<le> length k) (parse_keys raw))"

definition violations :: "(string \<Rightarrow> bool) \<Rightarrow> config \<Rightarrow> string list" where
  "violations fernet_ok c = production_violations c @ rail_violations c @
     missing_credentials c ''loop'' (cf_loop_enabled c) @ missing_credentials c ''pesapal'' (cf_pesapal_enabled c) @
     missing_credentials c ''intasend'' (cf_intasend_enabled c) @ missing_credentials c ''econfirm'' (cf_econfirm_enabled c) @
     fails ''ECONFIRM_CODE_ENCRYPTION_KEY must hold at least one valid Fernet key when ECONFIRM_ENABLED=true''
       (cf_econfirm_enabled c \<and> \<not> valid_fernet_keys fernet_ok (cf_econfirm_code_encryption_key c)) @
     fails ''ANCHOR_ADMIN_REF_SECRET must hold at least one key of 32+ characters in production''
       (is_production c \<and> \<not> is_valid_secret_config (cf_anchor_admin_ref_secret c)) @
     fails ''ALLOW_LIVE_PAYOUTS=true requires ENVIRONMENT=production'' (cf_allow_live_payouts c \<and> \<not> is_production c)"

section \<open>Loading\<close>

text \<open>The errors pydantic reports: by field, or without a place.\<close>

definition settings_errors :: "(string \<Rightarrow> bool) \<Rightarrow> config \<Rightarrow> (string option \<times> string) list" where
  "settings_errors fernet_ok c = (if field_problems c \<noteq> [] then map (\<lambda>(name, m). (Some name, ''Value error, '' @ m)) (field_problems c)
     else let found = violations fernet_ok (normalized c) in
       if found = [] then [] else [(None, ''Value error, Invalid runtime configuration: '' @ join_text ''; '' found)])"

definition error_details :: "(string option \<times> string) list \<Rightarrow> string" where
  "error_details errors = (let names = concat (map (\<lambda>(loc, m). case loc of None \<Rightarrow> [] | Some n \<Rightarrow> [py_upper n]) errors);
       general = map (\<lambda>(loc, m). case loc of None \<Rightarrow> m | Some n \<Rightarrow> py_upper n @ '': '' @ m) errors;
       details = (if names = [] then [] else [''Check required/validated variables: '' @ join_text '', '' (sort (remdups names)) @ ''.'']) @
         (if general = [] then [] else [join_text ''; '' (sort (remdups general))]) in
     ''Invalid environment configuration.'' @ (if details = [] then '''' else '' '' @ join_text '' '' details))"

definition get_settings :: "(string \<Rightarrow> bool) \<Rightarrow> config \<Rightarrow> exn + config" where
  "get_settings fernet_ok c = (let errors = settings_errors fernet_ok c in
     if errors = [] then Inr (normalized c) else Inl (RuntimeError (error_details errors)))"

section \<open>The loaded settings in the model\<close>

definition custody_settings :: "config \<Rightarrow> settings" where
  "custody_settings c = \<lparr>st_environment = cf_environment c, st_secret_key = cf_secret_key c,
     st_anchor_admin_ref_secret = cf_anchor_admin_ref_secret c, st_custody_mode = cf_custody_mode c,
     st_collection_priority = cf_collection_priority c, st_payout_priority = cf_payout_priority c,
     st_allow_live_payouts = cf_allow_live_payouts c, st_loop_enabled = cf_loop_enabled c, st_pesapal_enabled = cf_pesapal_enabled c,
     st_intasend_enabled = cf_intasend_enabled c, st_econfirm_enabled = cf_econfirm_enabled c,
     st_econfirm_api_key = text_setting c ''econfirm_api_key'', st_econfirm_code_encryption_key = cf_econfirm_code_encryption_key c,
     st_econfirm_min_amount = cf_econfirm_min_amount c, st_econfirm_max_amount = cf_econfirm_max_amount c\<rparr>"

definition auth_settings :: "config \<Rightarrow> auth_config \<Rightarrow> auth_config" where
  "auth_settings c A = A\<lparr>ac_login_rate_limit_max_attempts := cf_login_rate_limit_max_attempts c,
     ac_login_rate_limit_window_seconds := cf_login_rate_limit_window_seconds c, ac_login_lockout_max_attempts := cf_login_lockout_max_attempts c,
     ac_login_lockout_seconds := cf_login_lockout_seconds c, ac_session_max_age_seconds := cf_session_cookie_max_age_seconds c,
     ac_phone_code_ttl_seconds := cf_phone_code_ttl_seconds c, ac_phone_code_resend_seconds := cf_phone_code_resend_seconds c,
     ac_phone_code_max_attempts := cf_phone_code_max_attempts c, ac_phone_code_lockout_seconds := cf_phone_code_lockout_seconds c,
     ac_phone_code_hourly_limit := cf_phone_code_hourly_limit c\<rparr>"

section \<open>What loading guarantees\<close>

lemma fails_Nil [simp]: "fails name b = [] \<longleftrightarrow> \<not> b"
  by (simp add: fails_def)

lemma problem_Nil [simp]: "problem name r = [] \<longleftrightarrow> (\<exists>v. r = Inr v)"
  by (simp add: problem_def split: sum.split)

lemma loaded: "get_settings fernet_ok raw = Inr c \<longleftrightarrow> field_problems raw = [] \<and> violations fernet_ok (normalized raw) = [] \<and> c = normalized raw"
  by (auto simp: get_settings_def settings_errors_def Let_def split: if_splits)

lemma normalized_fields [simp]:
  "positive_fields (normalized c) = positive_fields c" "cf_secret_key (normalized c) = cf_secret_key c"
  by (simp_all add: normalized_def positive_fields_def)

lemma positive_ok:
  assumes "\<forall>(name, v) \<in> set (positive_fields c). 0 < v"
  shows "auth_config_ok (auth_settings c A)"
  using assms by (simp add: positive_fields_def auth_config_ok_def auth_settings_def)

lemma loaded_positive: "get_settings fernet_ok raw = Inr c \<Longrightarrow> \<forall>(name, v) \<in> set (positive_fields c). 0 < v"
  by (auto simp: loaded field_problems_def must_be_positive_def split: if_splits)

lemma scenario_validated: "validate_simulated_default_scenario v = Inr x \<Longrightarrow> x \<in> set SUPPORTED_SIMULATED_SCENARIOS"
  by (auto simp: validate_simulated_default_scenario_def Let_def split: if_splits)

lemma lower_space: "py_isspace (py_lower_char c) = py_isspace c"
proof -
  have "(of_char c :: nat) < 256" by simp
  then show ?thesis by (auto simp: py_isspace_def py_lower_char_def Let_def)
qed

lemma validated_prefix:
  assumes "validate_simulated_trigger_prefix v = Inr p"
  shows "py_lower (strip p) \<noteq> ''''"
proof -
  from assms have p: "p = py_lower (strip v)" "p \<noteq> ''''"
    by (auto simp: validate_simulated_trigger_prefix_def Let_def split: if_splits)
  then have "strip v \<noteq> ''''" by (auto simp: py_lower_def)
  then have "strip p = p" using strip_ends [of v]
    by (intro strip_id) (simp add: p(1) py_lower_def hd_map last_map lower_space)
  then show ?thesis using p(2) by (simp add: py_lower_def)
qed

lemma loaded_simulator:
  assumes "get_settings fernet_ok raw = Inr c"
  shows "\<exists>R. make_simulated_rail (cf_simulated_collection_scenario c) (cf_simulated_payout_scenario c) (cf_simulated_trigger_prefix c) = Inr R"
proof -
  from assms obtain a b p where v: "validate_simulated_default_scenario (cf_simulated_collection_scenario raw) = Inr a"
    "validate_simulated_default_scenario (cf_simulated_payout_scenario raw) = Inr b"
    "validate_simulated_trigger_prefix (cf_simulated_trigger_prefix raw) = Inr p"
    by (auto simp: loaded field_problems_def)
  show ?thesis using assms v scenario_validated [OF v(1)] scenario_validated [OF v(2)] validated_prefix [OF v(3)]
    by (auto simp: loaded normalized_def value_or_def make_simulated_rail_def supported_scenario(1))
qed

lemma unknown_Nil: "unknown_rails rails = [] \<longleftrightarrow> set rails \<subseteq> set SUPPORTED_RAILS"
proof -
  have "unknown_rails rails = [] \<longleftrightarrow> set (unknown_rails rails) = {}" by simp
  also have "\<dots> \<longleftrightarrow> set rails \<subseteq> set SUPPORTED_RAILS" unfolding unknown_rails_def set_sort by auto
  finally show ?thesis .
qed

lemma priorities_read:
  assumes "rail_violations c = []"
  obtains collection payout where "parse_rail_priority (cf_collection_priority c) ''CUSTODY_COLLECTION_RAIL_PRIORITY'' = Inr collection"
    "parse_rail_priority (cf_payout_priority c) ''CUSTODY_PAYOUT_RAIL_PRIORITY'' = Inr payout"
    "unknown_rails (collection @ payout) = []" "''pesapal'' \<notin> set payout"
proof -
  have err: "parse_rail_priority raw name = Inl e \<Longrightarrow> \<exists>m. e = ValueError m" for raw name e
    by (auto simp: parse_rail_priority_def Let_def split: if_splits)
  show thesis using assms that
    by (auto simp: rail_violations_def priority_lists_def Let_def dest: err split: sum.splits exn.splits)
qed

end
