(* ===== verification/Settings_Guarantees.thy ===== *)
theory Settings_Guarantees
  imports Configuration Anchoring Evaluation
begin

text \<open>
  What a process that started with accepted settings can rely on: a production configuration is a safe
  one, and what is built from the settings at run time does not fail on them.
\<close>

lemma loaded_violations: "get_settings fernet_ok raw = Inr c \<Longrightarrow> violations fernet_ok c = []"
  by (simp add: loaded)

lemma loaded_rails: "get_settings fernet_ok raw = Inr c \<Longrightarrow> rail_violations c = []"
  by (drule loaded_violations) (simp add: violations_def)

text \<open>C20: A production configuration that loads is safe: the cookies are secure, no one-time code is echoed,
  front end and CORS origins are not plain http, the anchoring secret is set and long enough, and only in
  production can live payouts be on.\<close>

lemma accepted_production_is_safe:
  assumes "get_settings fernet_ok raw = Inr c" and "is_production c \<or> cf_allow_live_payouts c"
  shows "is_production c \<and> cf_session_cookie_secure c \<and> cf_csrf_cookie_secure c \<and> \<not> cf_phone_code_dev_echo c \<and>
    \<not> plain_http (strip (cf_frontend_url c)) \<and> list_all (\<lambda>origin. \<not> plain_http origin) (cors_origins_list c) \<and>
    (\<exists>keys. configured_keys (custody_settings c) = Inr keys \<and> keys \<noteq> [] \<and> list_all (\<lambda>k. 32 \<le> length k) keys)"
proof -
  from loaded_violations [OF assms(1)] assms(2) have "is_production c" by (auto simp: violations_def)
  with loaded_violations [OF assms(1)] show ?thesis
    by (simp add: violations_def production_violations_def is_valid_secret_config_def MIN_KEY_LENGTH_def configured_keys_def
        custody_settings_def Let_def list_ex_iff list_all_iff)
qed

text \<open>C34: Settings that load can be run: limits and lifetimes are positive, the simulated rail is built, the
  keys for administrators' references are found, and the registry of rails is built exactly when each
  priority names a rail that is enabled, and then never pays through Pesapal.\<close>

lemma accepted_settings_run:
  assumes "get_settings fernet_ok raw = Inr c"
  shows "auth_config_ok (auth_settings c A) \<and>
    (\<exists>R. make_simulated_rail (cf_simulated_collection_scenario c) (cf_simulated_payout_scenario c) (cf_simulated_trigger_prefix c) = Inr R) \<and>
    (\<exists>keys. configured_keys (custody_settings c) = Inr keys \<and> keys \<noteq> []) \<and>
    (\<exists>collection payout. parse_rail_priority (cf_collection_priority c) ''CUSTODY_COLLECTION_RAIL_PRIORITY'' = Inr collection \<and>
      parse_rail_priority (cf_payout_priority c) ''CUSTODY_PAYOUT_RAIL_PRIORITY'' = Inr payout \<and>
      (case build_custody_registry (custody_settings c) of
         Inr R \<Rightarrow> rg_payout_rails R \<noteq> [] \<and> rg_collection_rails R \<noteq> [] \<and> ''pesapal'' \<notin> set (rg_payout_rails R)
       | Inl e \<Rightarrow> list_all (\<lambda>r. \<not> rail_enabled r (custody_settings c)) collection \<or> list_all (\<lambda>r. \<not> rail_enabled r (custody_settings c)) payout))"
proof -
  obtain collection payout where p: "parse_rail_priority (cf_collection_priority c) ''CUSTODY_COLLECTION_RAIL_PRIORITY'' = Inr collection"
    "parse_rail_priority (cf_payout_priority c) ''CUSTODY_PAYOUT_RAIL_PRIORITY'' = Inr payout"
    "unknown_rails (collection @ payout) = []" "''pesapal'' \<notin> set payout"
    by (rule priorities_read [OF loaded_rails [OF assms]])
  then have "unknown_rails collection = []" "unknown_rails payout = []" by (simp_all add: unknown_Nil)
  with p have "case build_custody_registry (custody_settings c) of
       Inr R \<Rightarrow> rg_payout_rails R \<noteq> [] \<and> rg_collection_rails R \<noteq> [] \<and> ''pesapal'' \<notin> set (rg_payout_rails R)
     | Inl e \<Rightarrow> list_all (\<lambda>r. \<not> rail_enabled r (custody_settings c)) collection \<or> list_all (\<lambda>r. \<not> rail_enabled r (custody_settings c)) payout"
    by (simp add: build_custody_registry_def custody_settings_def Let_def filter_empty_conv list_all_iff)
  moreover have "\<exists>keys. configured_keys (custody_settings c) = Inr keys \<and> keys \<noteq> []"
  proof (cases "is_production c")
    case True
    then show ?thesis using loaded_violations [OF assms]
      by (simp add: violations_def is_valid_secret_config_def configured_keys_def custody_settings_def Let_def)
  next
    case False
    then show ?thesis by (simp add: configured_keys_def custody_settings_def is_production_def Let_def)
  qed
  ultimately show ?thesis using p loaded_simulator [OF assms] positive_ok [OF loaded_positive [OF assms]] by blast
qed

definition sample_configuration :: config where
  "sample_configuration = \<lparr>cf_environment = '' Production'', cf_secret_key = ''k'', cf_database_url = ''d'', cf_alembic_database_url = ''d'',
     cf_frontend_url = ''https://vekro.app'', cf_cors_origins = ''https://vekro.app, https://admin.vekro.app'', cf_cors_allow_credentials = True,
     cf_session_cookie_secure = True, cf_csrf_cookie_secure = True, cf_csrf_header_name = '' X-CSRF-Token'',
     cf_session_cookie_max_age_seconds = 604800, cf_login_rate_limit_max_attempts = 10, cf_login_rate_limit_window_seconds = 60,
     cf_login_lockout_max_attempts = 5, cf_login_lockout_seconds = 900, cf_phone_code_ttl_seconds = 300, cf_phone_code_resend_seconds = 30,
     cf_phone_code_max_attempts = 5, cf_phone_code_lockout_seconds = 300, cf_phone_code_hourly_limit = 5, cf_phone_code_dev_echo = False,
     cf_custody_mode = TIER_2, cf_collection_priority = ''loop,simulated'', cf_payout_priority = ''simulated'', cf_allow_live_payouts = True,
     cf_simulated_collection_scenario = ''OK'', cf_simulated_payout_scenario = ''out-of-order'', cf_simulated_trigger_prefix = ''sim:'',
     cf_loop_enabled = False, cf_pesapal_enabled = False, cf_intasend_enabled = False, cf_econfirm_enabled = False,
     cf_econfirm_min_amount = Fin 100 0, cf_econfirm_max_amount = Fin 1000 0, cf_econfirm_code_encryption_key = '''',
     cf_anchor_admin_ref_secret = replicate 32 (CHR ''s''), cf_texts = []\<rparr>"

lemma sample_loaded: "get_settings (\<lambda>_. True) sample_configuration = Inr (normalized sample_configuration)"
  by code_simp

lemma accepted_production_is_safe_witness:
  "is_production (normalized sample_configuration) \<and> list_all (\<lambda>origin. \<not> plain_http origin) (cors_origins_list (normalized sample_configuration))"
  using accepted_production_is_safe [OF sample_loaded] by (simp add: normalized_def sample_configuration_def)

lemma accepted_settings_run_witness:
  "\<exists>keys. configured_keys (custody_settings (normalized sample_configuration)) = Inr keys \<and> keys \<noteq> []"
  using accepted_settings_run [OF sample_loaded] by blast

end
