(* ===== verification/Admin_Routes.thy ===== *)
theory Admin_Routes
  imports Simulated_Custody Webhooks Configuration
begin

text \<open>
  The remaining routes over modelled services: the callbacks of the two providers
  (routers/loop_webhooks.py, pesapal_webhooks.py), the administrator's controls over the simulated custody
  (simulated_custody_admin.py), rail health and the money audit (rail_health_admin.py and the report of
  rail_breaker.py, money_audit_admin.py and the query of audit.py), and the routes that only check the
  role (protected.py, health.py). Decoding a body and reading its JSON are parameters.
\<close>

section \<open>Callbacks of the providers\<close>

text \<open>
  A decoded body: no text (it was not UTF-8), or the text with what \<open>json.loads\<close> makes of it, if it is JSON.
\<close>

record 'w callback_setup =
  cb_webhook :: "'w webhook"
  cb_json :: "string \<Rightarrow> string json option"
  cb_dumps :: "dict \<Rightarrow> string"
  cb_secret :: string
  cb_skew :: int

datatype callback_content = Loop_answer loop_webhook_result | Pesapal_answer webhook_result

definition rail_missing :: "string \<Rightarrow> callback_content answer" where
  "rail_missing name = refuse 503 (name @ '' collection rail is unavailable.'')"

definition loop_payload :: "(string \<Rightarrow> string json option) \<Rightarrow> string \<Rightarrow> dict" where
  "loop_payload json raw = (case json raw of
       None \<Rightarrow> [(''malformed_payload'', JStr (take 2000 raw))]
     | Some (JObj d) \<Rightarrow> d | Some j \<Rightarrow> [(''payload'', j)])"

text \<open>An empty body counts as \<open>{}\<close>; a body that is not UTF-8 is an unhandled exception.\<close>

definition loop_collection_callback ::
    "env \<Rightarrow> 'w callback_setup \<Rightarrow> http_request \<Rightarrow> string option \<Rightarrow> db \<times> 'w \<Rightarrow> (db \<times> 'w) \<times> callback_content answer option" where
  "loop_collection_callback E B q body p = (if ''loop'' \<notin> set (rg_collection_rails (e_registry E)) then (p, Some (rail_missing ''LOOP''))
     else (case body of None \<Rightarrow> (p, None)
     | Some text \<Rightarrow> let raw = (if text = '''' then ''{}'' else text) in
       (case process_loop_collection_webhook E (cb_webhook B) (loop_payload (cb_json B) raw) raw (hr_headers q) (cb_secret B) None (cb_skew B) (fst p) (snd p) of
         ((s', r), w') \<Rightarrow> ((s', w'), case r of Inl x \<Rightarrow> None
           | Inr a \<Rightarrow> Some (if wr_accepted a then ok 200 (Loop_answer a) else refuse 401 (wr_detail a))))))"

definition dict_merge :: "dict \<Rightarrow> dict \<Rightarrow> dict" where
  "dict_merge d e = fold (\<lambda>(k, v). dict_set k v) e d"

text \<open>The payload and the raw text that are processed: the query's fields, then the body's.\<close>

definition pesapal_payload :: "'w callback_setup \<Rightarrow> dict \<Rightarrow> string \<Rightarrow> string \<Rightarrow> dict \<times> string" where
  "pesapal_payload B args url_query body = (let raw = (if body = '''' then url_query else body);
       posted = (if raw = '''' then [] else case cb_json B raw of Some (JObj d) \<Rightarrow> d | _ \<Rightarrow> []);
       merged = dict_merge args posted;
       payload = (if merged = [] \<and> raw \<noteq> '''' then [(''raw_payload'', JStr (take 2000 raw))] else merged) in
     (payload, if raw = '''' then cb_dumps B payload else raw))"

definition handle_pesapal_collection_callback ::
    "env \<Rightarrow> 'w callback_setup \<Rightarrow> dict \<Rightarrow> string \<Rightarrow> string option \<Rightarrow> db \<times> 'w \<Rightarrow> (db \<times> 'w) \<times> callback_content answer option" where
  "handle_pesapal_collection_callback E B args url_query body p = (
     if ''pesapal'' \<notin> set (rg_collection_rails (e_registry E)) then (p, Some (rail_missing ''Pesapal''))
     else (case body of None \<Rightarrow> (p, None)
     | Some text \<Rightarrow> (case pesapal_payload B args url_query text of (payload, raw) \<Rightarrow>
       (case process_pesapal_collection_webhook E (cb_webhook B) payload raw (fst p) (snd p) of
         ((s', r), w') \<Rightarrow> ((s', w'), case r of Inl x \<Rightarrow> None | Inr a \<Rightarrow> Some (ok 200 (Pesapal_answer a)))))))"

section \<open>The administrator's controls over the simulation\<close>

text \<open>\<open>require_admin_user\<close> runs first; the environment is looked at before anything else of the route.\<close>

definition ensure_simulation_admin_controls_enabled :: "env \<Rightarrow> 'a answer + unit" where
  "ensure_simulation_admin_controls_enabled E = (if production E
     then Inl (refuse 403 ''Simulation admin controls are disabled in production.'') else Inr ())"

definition simulation_refusal :: "exn \<Rightarrow> 'a answer option" where
  "simulation_refusal x = (case x of SimulatedAdminAttemptNotFoundError m \<Rightarrow> Some (refuse 404 m)
     | SimulatedAdminEscrowNotFoundError m \<Rightarrow> Some (refuse 404 m) | _ \<Rightarrow> None)"

definition force_refusal :: "exn \<Rightarrow> 'a answer option" where
  "force_refusal x = (case x of SimulatedEscrowReferenceError m \<Rightarrow> Some (refuse 422 m)
     | SimulatedEscrowNotFoundError m \<Rightarrow> Some (refuse 404 m) | SimulatedAdminEscrowNotFoundError m \<Rightarrow> Some (refuse 404 m) | _ \<Rightarrow> None)"

definition payout_progress_refusal :: "exn \<Rightarrow> 'a answer option" where
  "payout_progress_refusal x = (case x of SimulatedAdminPayoutTypeError m \<Rightarrow> Some (refuse 422 m) | _ \<Rightarrow> simulation_refusal x)"

record force_request_body =
  fb_escrow_reference :: string
  fb_amount :: cents
  fb_phone_number :: string
  fb_account_reference :: "string option"
  fb_currency :: string

text \<open>Texts are stripped by the schema before their length is checked; amounts are whole cents here.\<close>

definition invalid_force :: "force_request_body \<Rightarrow> string list" where
  "invalid_force b = fails ''escrow_reference'' (strip (fb_escrow_reference b) = '''') @ fails ''amount'' (fb_amount b \<le> 0) @
     fails ''phone_number'' (strip (fb_phone_number b) = '''') @
     fails ''account_reference'' (map_option strip (fb_account_reference b) = Some '''') @
     fails ''currency'' (not_within 3 3 (strip (fb_currency b)))"

definition simulation_control :: "env \<Rightarrow> (user \<Rightarrow> db \<Rightarrow> db \<times> 'a answer option) \<Rightarrow> user \<Rightarrow> db \<Rightarrow> db \<times> 'a answer option" where
  "simulation_control E f u = guarded (ensure_simulation_admin_controls_enabled E) (\<lambda>_. f u)"

definition admin_force_complete_collection :: "env \<Rightarrow> sim_settings \<Rightarrow> force_request_body \<Rightarrow> signed_in \<Rightarrow> db \<Rightarrow> db \<times> admin_result answer option" where
  "admin_force_complete_collection E X b ctx = guarded (require_admin_user ctx) (\<lambda>u. validated (invalid_force b) (simulation_control E (\<lambda>u s.
     reply force_refusal (ok 200) (force_complete_simulated_collection E X (strip (fb_escrow_reference b)) (fb_amount b) (strip (fb_phone_number b))
       (map_option strip (fb_account_reference b)) (strip (fb_currency b)) (Some (u_id u)) s)) u))"

definition admin_progress_collection_scenario :: "env \<Rightarrow> sim_settings \<Rightarrow> string \<Rightarrow> signed_in \<Rightarrow> db \<Rightarrow> db \<times> admin_result answer option" where
  "admin_progress_collection_scenario E X ref ctx = guarded (require_admin_user ctx) (simulation_control E (\<lambda>u s.
     reply simulation_refusal (ok 200) (progress_simulated_collection_scenario E X ref (Some (u_id u)) s)))"

definition admin_progress_payout_scenario :: "env \<Rightarrow> sim_settings \<Rightarrow> string \<Rightarrow> signed_in \<Rightarrow> db \<Rightarrow> db \<times> admin_result answer option" where
  "admin_progress_payout_scenario E X ref ctx = guarded (require_admin_user ctx) (simulation_control E (\<lambda>u s.
     reply payout_progress_refusal (ok 200) (progress_simulated_payout_scenario E X ref (Some (u_id u)) s)))"

section \<open>Rail health\<close>

record rail_snapshot =
  rn_health :: rail_health
  rn_collection_available :: bool
  rn_payout_available :: bool
  rn_routable :: bool

record health_report =
  hp_custody_mode :: custody_mode
  hp_holds_funds_structurally :: bool
  hp_collection_priority :: "string list"
  hp_payout_priority :: "string list"
  hp_needs_reconciliation :: nat
  hp_rails :: "rail_snapshot list"

definition rail_names :: "registry \<Rightarrow> string list" where
  "rail_names R = rev (remdups (rev (rg_collection_priority R @ rg_payout_priority R)))"

definition needs_reconciliation_count :: "db \<Rightarrow> nat" where
  "needs_reconciliation_count s = length (filter es_econfirm_needs_reconciliation (d_escrows s))"

definition payout_available :: "registry \<Rightarrow> string \<Rightarrow> bool" where
  "payout_available R r = (r \<in> set (rg_payout_rails R) \<and> (case get_payout_rail R r of Inl _ \<Rightarrow> False | Inr _ \<Rightarrow> True))"

definition snapshot_of :: "registry \<Rightarrow> string list \<Rightarrow> db \<Rightarrow> string \<Rightarrow> rail_snapshot" where
  "snapshot_of R blocked s r = (let c = (r \<in> set (rg_collection_rails R)); p = payout_available R r in
     \<lparr>rn_health = fst (get_or_create_rail_health r (Some r) s), rn_collection_available = c, rn_payout_available = p,
      rn_routable = (r \<notin> set blocked \<and> (c \<or> p))\<rparr>)"

text \<open>Rows it creates or refreshes are not committed; without the table it raises (None).\<close>

definition build_admin_rail_health_payload :: "registry \<Rightarrow> time \<Rightarrow> db \<Rightarrow> health_report option" where
  "build_admin_rail_health_payload R now s = (if \<not> has_table ''rail_health'' s then None
     else (case blocked_rails_impl (rail_names R) now s of (blocked, s1) \<Rightarrow> Some
       \<lparr>hp_custody_mode = rg_custody_mode R, hp_holds_funds_structurally = cap_holds_funds_structurally (rg_provider_capabilities R),
        hp_collection_priority = rg_collection_priority R, hp_payout_priority = rg_payout_priority R,
        hp_needs_reconciliation = needs_reconciliation_count s, hp_rails = map (snapshot_of R blocked s1) (rail_names R)\<rparr>))"

definition admin_rail_health :: "env \<Rightarrow> signed_in \<Rightarrow> db \<Rightarrow> db \<times> health_report answer option" where
  "admin_rail_health E ctx = guarded (require_admin_user ctx) (\<lambda>u s.
     (s, map_option (ok 200) (build_admin_rail_health_payload (e_registry E) (e_now E) s)))"

section \<open>The money audit\<close>

record money_audit_query =
  mq_transaction :: "uuid option"
  mq_provider_reference :: "string option"
  mq_rail_name :: "string option"
  mq_action :: "string option"
  mq_limit :: nat
  mq_offset :: nat

definition text_asked :: "string option \<Rightarrow> string option \<Rightarrow> bool" where
  "text_asked wanted actual = (\<not> truthy_text wanted \<or> actual = wanted)"

definition audit_matches :: "money_audit_query \<Rightarrow> money_audit_event \<Rightarrow> bool" where
  "audit_matches q e = ((mq_transaction q = None \<or> ma_transaction e = mq_transaction q) \<and>
     text_asked (mq_provider_reference q) (ma_provider_reference e) \<and> text_asked (mq_rail_name q) (ma_rail_name e) \<and>
     text_asked (mq_action q) (Some (ma_action e)))"

definition list_money_audit_events :: "money_audit_query \<Rightarrow> db \<Rightarrow> money_audit_event list" where
  "list_money_audit_events q s = take (mq_limit q) (drop (mq_offset q)
     (rev (sort_key (\<lambda>e. (ma_occurred_at e, ma_id e)) (filter (audit_matches q) (d_audits s)))))"

definition invalid_audit_query :: "money_audit_query \<Rightarrow> string list" where
  "invalid_audit_query q = fails ''provider_reference'' (too_long 120 (mq_provider_reference q)) @ fails ''rail_name'' (too_long 40 (mq_rail_name q)) @
     fails ''action'' (too_long 60 (mq_action q)) @ fails ''limit'' (mq_limit q < 1 \<or> 200 < mq_limit q)"

definition admin_list_money_audit_events ::
    "money_audit_query \<Rightarrow> signed_in \<Rightarrow> db \<Rightarrow> db \<times> (money_audit_event list \<times> nat \<times> nat) answer option" where
  "admin_list_money_audit_events q ctx = guarded (require_admin_user ctx) (\<lambda>u. validated (invalid_audit_query q) (\<lambda>s.
     (s, Some (ok 200 (list_money_audit_events q s, mq_limit q, mq_offset q)))))"

section \<open>Role checks and liveness\<close>

definition buyer_only_route :: "signed_in \<Rightarrow> db \<Rightarrow> db \<times> (string \<times> user_role) answer option" where
  "buyer_only_route ctx = guarded (require_buyer_user ctx) (\<lambda>u s. (s, Some (ok 200 (''Buyer access granted.'', u_role u))))"

definition seller_only_route :: "signed_in \<Rightarrow> db \<Rightarrow> db \<times> (string \<times> user_role) answer option" where
  "seller_only_route ctx = guarded (require_seller_user ctx) (\<lambda>u s. (s, Some (ok 200 (''Seller access granted.'', u_role u))))"

definition admin_only_route :: "signed_in \<Rightarrow> db \<Rightarrow> db \<times> (string \<times> user_role) answer option" where
  "admin_only_route ctx = guarded (require_admin_user ctx) (\<lambda>u s. (s, Some (ok 200 (''Admin access granted.'', u_role u))))"

definition health_check :: "db \<Rightarrow> db \<times> string answer option" where
  "health_check s = (s, Some (ok 200 ''ok''))"

end
