(* ===== verification/Admin_Guarantees.thy ===== *)
theory Admin_Guarantees
  imports Admin_Routes Account_Guarantees
begin

text \<open>
  What the administrator's routes promise: the report of rail health agrees with the routing, and the
  controls over the simulation are dead in production.
\<close>

section \<open>The report and the routing\<close>

definition breaker_open :: "time \<Rightarrow> db \<Rightarrow> string \<Rightarrow> bool" where
  "breaker_open now s r = (case get_rail_health r s of None \<Rightarrow> False | Some row \<Rightarrow> rh_breaker_state (refresh_open_breaker now row) = OPEN)"

lemma refresh_idem: "rh_breaker_state (refresh_open_breaker now (refresh_open_breaker now row)) = OPEN \<longleftrightarrow> rh_breaker_state (refresh_open_breaker now row) = OPEN"
  by (auto simp: refresh_open_breaker_def split: option.split)

lemma created_row:
  assumes "get_or_create_rail_health r p s = (row, s1)"
  shows "rh_rail_name row = r \<and> get_rail_health r s1 = Some row \<and> (\<forall>q. q \<noteq> r \<longrightarrow> get_rail_health q s1 = get_rail_health q s) \<and>
    (rh_breaker_state (refresh_open_breaker now row) = OPEN \<longleftrightarrow> breaker_open now s r)"
proof (cases "get_rail_health r s")
  case None
  then show ?thesis using assms
    by (auto simp: get_or_create_rail_health_def new_rail_health_def get_rail_health_def row_get_append row_get_Cons breaker_open_def
        refresh_open_breaker_def split: option.split)
next
  case (Some old)
  then have "rh_rail_name old = r" by (rule rails.get_key)
  with Some show ?thesis using assms
    by (auto simp: get_or_create_rail_health_def rails.get_put breaker_open_def refresh_open_breaker_def Let_def split: if_splits option.splits)
qed

lemma blocked_open: "set (fst (blocked_rails_impl rs now s)) = {r \<in> set rs. breaker_open now s r}"
proof (induction rs arbitrary: s)
  case (Cons r rs)
  obtain row s1 where g: "get_or_create_rail_health r (Some r) s = (row, s1)" by fastforce
  note c = created_row [OF g, of now]
  let ?s2 = "put_rail_health (refresh_open_breaker now row) s1"
  have "breaker_open now ?s2 q = breaker_open now s q" for q
    using c refresh_idem [of now row] by (cases "q = r") (auto simp: breaker_open_def rails.get_put)
  with Cons.IH [of ?s2] show ?case using c g by (auto simp: case_prod_unfold Let_def)
qed simp

lemma registry_lists:
  assumes "build_custody_registry st = Inr R"
  shows "set (rg_collection_rails R) \<subseteq> set (rg_collection_priority R) \<and> set (rg_payout_rails R) \<subseteq> set (rg_payout_priority R)"
  using assms by (auto simp: build_custody_registry_def bindE_eq_Inr Let_def split: if_splits)

lemma snapshot_fields:
  "rh_rail_name (rn_health (snapshot_of R blocked s r)) = r" "rn_collection_available (snapshot_of R blocked s r) = (r \<in> set (rg_collection_rails R))"
  "rn_payout_available (snapshot_of R blocked s r) = payout_available R r"
  "rn_routable (snapshot_of R blocked s r) = (r \<notin> set blocked \<and> (r \<in> set (rg_collection_rails R) \<or> payout_available R r))"
proof -
  show "rh_rail_name (rn_health (snapshot_of R blocked s r)) = r"
    using created_row [OF prod.collapse [symmetric], of r "Some r" s] by (simp add: snapshot_of_def Let_def)
qed (simp_all add: snapshot_of_def Let_def)

lemma payout_available_iff:
  "payout_available R r \<longleftrightarrow> r \<in> set (rg_payout_rails R) \<and> \<not> (r \<in> set LIVE_PAYOUT_RAILS \<and> \<not> rg_live_payouts_enabled R)"
  by (auto simp: payout_available_def get_payout_rail_def)

lemma selection_cases:
  "case select_collection_rail R exclude of Inr r \<Rightarrow> r \<in> set (rg_collection_priority R) \<and> r \<notin> set exclude \<and> r \<in> set (rg_collection_rails R)
     | Inl e \<Rightarrow> \<forall>r \<in> set (rg_collection_priority R). r \<in> set exclude \<or> r \<notin> set (rg_collection_rails R)"
  "case select_payout_rail R exclude of Inr r \<Rightarrow> r \<in> set (rg_payout_priority R) \<and> r \<notin> set exclude \<and> payout_available R r
     | Inl e \<Rightarrow> \<forall>r \<in> set (rg_payout_priority R). r \<in> set exclude \<or> \<not> payout_available R r"
proof -
  show "case select_collection_rail R exclude of Inr r \<Rightarrow> r \<in> set (rg_collection_priority R) \<and> r \<notin> set exclude \<and> r \<in> set (rg_collection_rails R)
     | Inl e \<Rightarrow> \<forall>r \<in> set (rg_collection_priority R). r \<in> set exclude \<or> r \<notin> set (rg_collection_rails R)"
  proof (cases "ordered_collection_rail_names R exclude")
    case (Cons r rs)
    then have "r \<in> set (ordered_collection_rail_names R exclude)" by simp
    then have "r \<in> set (rg_collection_priority R) \<and> r \<notin> set exclude \<and> r \<in> set (rg_collection_rails R)"
      by (simp add: ordered_collection_rail_names_def)
    with Cons show ?thesis by (simp add: select_collection_rail_def)
  qed (auto simp: select_collection_rail_def ordered_collection_rail_names_def filter_empty_conv)
  show "case select_payout_rail R exclude of Inr r \<Rightarrow> r \<in> set (rg_payout_priority R) \<and> r \<notin> set exclude \<and> payout_available R r
     | Inl e \<Rightarrow> \<forall>r \<in> set (rg_payout_priority R). r \<in> set exclude \<or> \<not> payout_available R r"
  proof (cases "ordered_payout_rail_names R exclude")
    case (Cons r rs)
    then have "r \<in> set (ordered_payout_rail_names R exclude)" by simp
    then have "r \<in> set (rg_payout_priority R) \<and> r \<notin> set exclude \<and> payout_available R r"
      by (auto simp: ordered_payout_rail_names_def payout_available_iff)
    with Cons show ?thesis by (simp add: select_payout_rail_def)
  qed (auto simp: select_payout_rail_def ordered_payout_rail_names_def payout_available_iff filter_empty_conv)
qed

text \<open>C31: The rail health report tells the truth about routing: the rail that routing would pick now, for a
  collection or a payout, is reported routable and available, and when routing finds none the report shows
  none.\<close>

lemma health_report_agrees_with_routing:
  assumes "build_custody_registry st = Inr R" and "build_admin_rail_health_payload R now s = Some rep"
  shows "(case fst (select_collection_rail_for_routing R now s) of
      Inr r \<Rightarrow> \<exists>x \<in> set (hp_rails rep). rh_rail_name (rn_health x) = r \<and> rn_routable x \<and> rn_collection_available x
    | Inl e \<Rightarrow> \<not> (\<exists>x \<in> set (hp_rails rep). rn_routable x \<and> rn_collection_available x)) \<and>
    (case fst (select_payout_rail_for_routing R now s) of
      Inr r \<Rightarrow> \<exists>x \<in> set (hp_rails rep). rh_rail_name (rn_health x) = r \<and> rn_routable x \<and> rn_payout_available x
    | Inl e \<Rightarrow> \<not> (\<exists>x \<in> set (hp_rails rep). rn_routable x \<and> rn_payout_available x))"
proof -
  have table: "has_table ''rail_health'' s" using assms(2) by (auto simp: build_admin_rail_health_payload_def split: if_splits)
  let ?b = "fst (blocked_rails_impl (rail_names R) now s)" and ?s1 = "snd (blocked_rails_impl (rail_names R) now s)"
  have rails: "hp_rails rep = map (snapshot_of R ?b ?s1) (rail_names R)"
    using assms(2) table by (auto simp: build_admin_rail_health_payload_def case_prod_unfold)
  have names: "set (rail_names R) = set (rg_collection_priority R) \<union> set (rg_payout_priority R)" by (auto simp: rail_names_def)
  have pick: "fst (select_collection_rail_for_routing R now s) = select_collection_rail R (fst (blocked_rails_impl (rg_collection_priority R) now s))"
    "fst (select_payout_rail_for_routing R now s) = select_payout_rail R (fst (blocked_rails_impl (rg_payout_priority R) now s))"
    using table by (simp_all add: select_collection_rail_for_routing_def select_payout_rail_for_routing_def blocked_rails_for_routing_def case_prod_unfold Let_def)
  note lists = registry_lists [OF assms(1)]
  show ?thesis unfolding pick rails
  proof
    show "case select_collection_rail R (fst (blocked_rails_impl (rg_collection_priority R) now s)) of
        Inr r \<Rightarrow> \<exists>x \<in> set (map (snapshot_of R ?b ?s1) (rail_names R)). rh_rail_name (rn_health x) = r \<and> rn_routable x \<and> rn_collection_available x
      | Inl e \<Rightarrow> \<not> (\<exists>x \<in> set (map (snapshot_of R ?b ?s1) (rail_names R)). rn_routable x \<and> rn_collection_available x)"
      using selection_cases(1) [of R "fst (blocked_rails_impl (rg_collection_priority R) now s)"] lists
      by (auto simp: blocked_open names snapshot_fields split: sum.splits)
    show "case select_payout_rail R (fst (blocked_rails_impl (rg_payout_priority R) now s)) of
        Inr r \<Rightarrow> \<exists>x \<in> set (map (snapshot_of R ?b ?s1) (rail_names R)). rh_rail_name (rn_health x) = r \<and> rn_routable x \<and> rn_payout_available x
      | Inl e \<Rightarrow> \<not> (\<exists>x \<in> set (map (snapshot_of R ?b ?s1) (rail_names R)). rn_routable x \<and> rn_payout_available x)"
      using selection_cases(2) [of R "fst (blocked_rails_impl (rg_payout_priority R) now s)"] lists
      by (auto simp: blocked_open names snapshot_fields payout_available_iff split: sum.splits)
  qed
qed

section \<open>The simulation in production\<close>

text \<open>In production nobody moves simulated money by hand: whatever the body and whoever the caller, each of
  the three simulation controls leaves the database as it is and answers 401, 403 or 422.\<close>

lemma simulation_controls_dead_in_production:
  assumes "production E"
  shows "\<forall>route \<in> {admin_force_complete_collection E X b, admin_progress_collection_scenario E X ref, admin_progress_payout_scenario E X ref}.
    \<exists>a. route ctx s = (s, Some a) \<and> an_status a \<in> {401, 403, 422}"
  using assms
  by (cases "require_admin_user ctx :: admin_result answer + user")
    (auto simp: admin_force_complete_collection_def admin_progress_collection_scenario_def admin_progress_payout_scenario_def guarded_def
      validated_def simulation_control_def ensure_simulation_admin_controls_enabled_def refuse_def unprocessable_def
      require_admin_user_def require_role_def get_current_user_def bindE_def split: option.splits sum.splits if_splits)

section \<open>Witnesses\<close>

definition built_registry :: registry where
  "built_registry = (case build_custody_registry sample_settings of Inr R \<Rightarrow> R)"

definition rails_db :: db where "rails_db = (sample_db True [] [])\<lparr>d_tables := [''rail_health'']\<rparr>"

definition built_report :: health_report where
  "built_report = (case build_admin_rail_health_payload built_registry 7 rails_db of Some rep \<Rightarrow> rep)"

lemma built: "build_custody_registry sample_settings = Inr built_registry" "build_admin_rail_health_payload built_registry 7 rails_db = Some built_report"
  "fst (select_payout_rail_for_routing built_registry 7 rails_db) = Inr ''simulated''"
  by code_simp+

lemma health_report_agrees_with_routing_witness:
  "\<exists>x \<in> set (hp_rails built_report). rh_rail_name (rn_health x) = ''simulated'' \<and> rn_routable x \<and> rn_payout_available x"
  using health_report_agrees_with_routing [OF built(1,2)] by (simp add: built(3))

definition live_env :: env where
  "live_env = (sample_env 7)\<lparr>e_settings := sample_settings\<lparr>st_environment := '' PRODUCTION''\<rparr>\<rparr>"

lemma live: "production live_env"
  by code_simp

definition sample_simulation :: sim_settings where
  "sample_simulation = \<lparr>sx_collection_default_scenario = ''success'', sx_payout_default_scenario = ''success'', sx_trigger_prefix = ''sim:'', sx_uuid5 = id\<rparr>"

definition sample_force :: force_request_body where
  "sample_force = \<lparr>fb_escrow_reference = ''x'', fb_amount = 100, fb_phone_number = ''1'', fb_account_reference = None, fb_currency = ''KES''\<rparr>"

lemma simulation_controls_dead_in_production_witness:
  "\<exists>a. admin_force_complete_collection live_env sample_simulation sample_force (Some (sample_user 9 ''0700000009'' ADMIN, sample_session 1 ''t'')) rails_db =
     (rails_db, Some a) \<and> an_status a \<in> {401, 403, 422}"
  using simulation_controls_dead_in_production [OF live, of sample_simulation sample_force "''sim:1''"] by blast

end
