(* ===== verification/Seller_Profile.thy ===== *)
theory Seller_Profile
  imports Account_Routes
begin

text \<open>
  The seller's shop profile, logo and payout number (services/seller_profile.py, routers/seller_profile.py,
  schemas/seller_profile.py). The time of the user row's last update, which the profile also shows, is the
  ORM's and not modelled.
\<close>

section \<open>The profile\<close>

definition payout_phone :: "user \<Rightarrow> string" where
  "payout_phone u = or_text [u_mpesa_phone u] (u_phone u)"

definition has_orders :: "uuid \<Rightarrow> db \<Rightarrow> bool" where
  "has_orders seller s = list_ex (\<lambda>t. tx_seller t = seller) (d_transactions s)"

record seller_profile =
  sl_name :: string
  sl_phone :: string
  sl_shop_name :: "string option"
  sl_shop_area :: "string option"
  sl_shop_about :: "string option"
  sl_logo_url :: "string option"
  sl_mpesa_phone :: string
  sl_mpesa_account_name :: "string option"
  sl_has_orders :: bool

definition shop_profile :: "db \<Rightarrow> user \<Rightarrow> seller_profile" where
  "shop_profile s u = \<lparr>sl_name = u_name u, sl_phone = u_phone u, sl_shop_name = u_shop_name u, sl_shop_area = u_shop_area u,
     sl_shop_about = u_shop_about u,
     sl_logo_url = map_option (\<lambda>t. ''/sellers/'' @ uuid_str (u_id u) @ ''/logo?v='' @ int_str (t div 1000000)) (u_logo_updated_at u),
     sl_mpesa_phone = payout_phone u, sl_mpesa_account_name = u_mpesa_account_name u, sl_has_orders = has_orders (u_id u) s\<rparr>"

text \<open>The fields sent: a field that is not sent is kept, an empty text clears it.\<close>

record profile_changes =
  ch_shop_name :: "string option option"
  ch_shop_area :: "string option option"
  ch_shop_about :: "string option option"

definition changed_field :: "string option option \<Rightarrow> string option \<Rightarrow> string option" where
  "changed_field sent old = (case sent of None \<Rightarrow> old | Some None \<Rightarrow> None | Some (Some v) \<Rightarrow> none_if_empty (strip v))"

definition update_profile :: "user \<Rightarrow> profile_changes \<Rightarrow> db \<Rightarrow> db \<times> user" where
  "update_profile u c s = (let u' = u\<lparr>u_shop_name := changed_field (ch_shop_name c) (u_shop_name u),
       u_shop_area := changed_field (ch_shop_area c) (u_shop_area u), u_shop_about := changed_field (ch_shop_about c) (u_shop_about u)\<rparr> in
     (put_user u' s, u'))"

section \<open>The logo\<close>

definition LOGO_CONTENT_TYPES :: "string list" where "LOGO_CONTENT_TYPES = [''image/jpeg'', ''image/png'', ''image/webp'']"
definition MAX_LOGO_BYTES :: nat where "MAX_LOGO_BYTES = 1024 * 1024"

datatype logo_rejected = LogoRejectedError string bool

definition set_logo :: "env \<Rightarrow> user \<Rightarrow> string \<Rightarrow> bytes \<Rightarrow> db \<Rightarrow> db \<times> (logo_rejected + user)" where
  "set_logo E u content_type data s = (let media_type = py_lower (strip (hd (split_on (CHR '';'') content_type))) in
     if media_type \<notin> set LOGO_CONTENT_TYPES then (s, Inl (LogoRejectedError ''Logos must be JPEG, PNG or WebP.'' False))
     else if data = [] then (s, Inl (LogoRejectedError ''The logo is empty.'' False))
     else if MAX_LOGO_BYTES < length data then (s, Inl (LogoRejectedError ''Logos must be 1 MB or smaller.'' True))
     else let u' = u\<lparr>u_logo_content_type := Some media_type, u_logo_data := Some data, u_logo_updated_at := Some (e_now E)\<rparr> in
       (put_user u' s, Inr u'))"

definition clear_logo :: "user \<Rightarrow> db \<Rightarrow> db \<times> user" where
  "clear_logo u s = (let u' = u\<lparr>u_logo_content_type := None, u_logo_data := None, u_logo_updated_at := None\<rparr> in (put_user u' s, u'))"

section \<open>The payout number\<close>

definition request_payout_code ::
    "env \<Rightarrow> auth_config \<Rightarrow> string \<Rightarrow> string \<Rightarrow> db \<Rightarrow> limiter \<Rightarrow> (db \<times> (auth_error + (issued_code \<times> string \<times> string))) \<times> limiter" where
  "request_payout_code E C phone client s L = request_phone_code E C phone Payout client None s L"

definition payout_changed_sms_text :: "string \<Rightarrow> string" where
  "payout_changed_sms_text new_phone = (let masked = (if 10 \<le> length new_phone
       then take 7 new_phone @ '' *** '' @ drop (length new_phone - 3) new_phone else ''a new number'') in
     ''Vekro: your payout number was changed to '' @ masked @ ''. If this wasn'' @ [CHR 0x27] @ ''t you, reply to this message or contact Vekro support now.'')"

datatype payout_error = PayoutCodeRequiredError | Code_error auth_error

text \<open>A wrong code is counted and committed; a right one is spent with the change, in one commit.\<close>

definition confirmed_by_code :: "env \<Rightarrow> auth_config \<Rightarrow> string \<Rightarrow> string option \<Rightarrow> db \<Rightarrow> db \<times> (payout_error + db)" where
  "confirmed_by_code E C phone code s = (case code of None \<Rightarrow> (s, Inl PayoutCodeRequiredError)
     | Some v \<Rightarrow> if v = '''' then (s, Inl PayoutCodeRequiredError) else
         (case consume_phone_code E C phone v Payout None s of (stored, Inl x) \<Rightarrow> (stored, Inl (Code_error x)) | (stored, Inr s1) \<Rightarrow> (stored, Inr s1)))"

definition change_payout ::
    "env \<Rightarrow> auth_config \<Rightarrow> user \<Rightarrow> string \<Rightarrow> string \<Rightarrow> string option \<Rightarrow> db \<Rightarrow> db \<times> (payout_error + (user \<times> (string \<times> string) list))" where
  "change_payout E C u mpesa_phone account_name code s = (let previous = payout_phone u; changed = (mpesa_phone \<noteq> previous) in
     case (if changed \<and> has_orders (u_id u) s then confirmed_by_code E C mpesa_phone code s else (s, Inr s)) of
       (stored, Inl x) \<Rightarrow> (stored, Inl x)
     | (_, Inr s1) \<Rightarrow> (let u' = u\<lparr>u_mpesa_phone := Some mpesa_phone, u_mpesa_account_name := Some (strip account_name)\<rparr> in
         (put_user u' s1, Inr (u', if changed then [(previous, payout_changed_sms_text mpesa_phone)] else []))))"

section \<open>The routes\<close>

datatype profile_content = Shop seller_profile | Payout_code int time "string option" | Logo bytes string

definition invalid_profile :: "profile_changes \<Rightarrow> string list" where
  "invalid_profile c = fails ''shop_name'' (case ch_shop_name c of Some (Some v) \<Rightarrow> not_within 2 60 v | _ \<Rightarrow> False) @
     fails ''shop_area'' (case ch_shop_area c of Some v \<Rightarrow> too_long 80 v | None \<Rightarrow> False) @
     fails ''shop_about'' (case ch_shop_about c of Some v \<Rightarrow> too_long 280 v | None \<Rightarrow> False)"

definition as_seller :: "signed_in \<Rightarrow> string list \<Rightarrow> (user \<Rightarrow> db \<Rightarrow> db \<times> 'a answer option) \<Rightarrow> db \<Rightarrow> db \<times> 'a answer option" where
  "as_seller ctx errors f = guarded (require_seller_user ctx) (\<lambda>u. validated errors (\<lambda>s. guarded (account_row u s) f s))"

definition shown :: "db \<times> user \<Rightarrow> db \<times> profile_content answer option" where
  "shown p = (fst p, Some (ok 200 (Shop (shop_profile (fst p) (snd p)))))"

definition get_profile :: "signed_in \<Rightarrow> db \<Rightarrow> db \<times> profile_content answer option" where
  "get_profile ctx = as_seller ctx [] (\<lambda>u s. shown (s, u))"

definition patch_profile :: "profile_changes \<Rightarrow> signed_in \<Rightarrow> db \<Rightarrow> db \<times> profile_content answer option" where
  "patch_profile c ctx = as_seller ctx (invalid_profile c) (\<lambda>u s. shown (update_profile u c s))"

definition put_logo :: "env \<Rightarrow> string \<Rightarrow> bytes \<Rightarrow> signed_in \<Rightarrow> db \<Rightarrow> db \<times> profile_content answer option" where
  "put_logo E content_type data ctx = as_seller ctx [] (\<lambda>u s. case set_logo E u content_type data s of
       (s', Inr u') \<Rightarrow> shown (s', u')
     | (s', Inl (LogoRejectedError m too_large)) \<Rightarrow> (s', Some (refuse (if too_large then 413 else 415) m)))"

definition delete_logo :: "signed_in \<Rightarrow> db \<Rightarrow> db \<times> profile_content answer option" where
  "delete_logo ctx = as_seller ctx [] (\<lambda>u s. shown (clear_logo u s))"

definition logo_of :: "user \<Rightarrow> (bytes \<times> string) option" where
  "logo_of u = (if u_role u \<noteq> SELLER then None else case (u_logo_data u, u_logo_content_type u) of
       (Some d, Some t) \<Rightarrow> if t = '''' then None else Some (d, t) | _ \<Rightarrow> None)"

definition get_logo :: "uuid \<Rightarrow> db \<Rightarrow> db \<times> profile_content answer option" where
  "get_logo seller s = (s, Some (case Option.bind (get_user seller s) logo_of of None \<Rightarrow> refuse 404 ''No logo.''
     | Some (d, t) \<Rightarrow> (ok 200 (Logo d t))\<lparr>an_headers := [(''Cache-Control'', ''public, max-age=31536000, immutable'')]\<rparr>))"

definition payout_request_code :: "env \<Rightarrow> web_config \<Rightarrow> http_request \<Rightarrow> string \<Rightarrow> signed_in \<Rightarrow> account_state \<Rightarrow> account_state \<times> profile_content answer option" where
  "payout_request_code E W q phone ctx = guarded (require_seller_user ctx) (\<lambda>u. validated (fails ''mpesa_phone'' (phone_field phone = None)) (\<lambda>(s, L, out).
     case request_payout_code E (wc_auth W) (the (phone_field phone)) (get_client_identifier q) s L of
       ((s', Inr (i, sms)), L') \<Rightarrow> ((s', L', out @ [sms]), Some (ok 202 (Payout_code (ic_resend_after_seconds i) (ic_expires_at i)
         (if wc_phone_code_dev_echo W then Some (ic_code i) else None))))
     | ((s', Inl (PhoneCodeRateLimitedError k)), L') \<Rightarrow> ((s', L', out), Some (refuse_after 429 ''Too many codes. Please wait before asking again.'' k))
     | ((s', Inl _), L') \<Rightarrow> ((s', L', out), None)))"

record payout_update =
  pu_mpesa_phone :: string
  pu_mpesa_account_name :: string
  pu_code :: "string option"

definition invalid_payout :: "payout_update \<Rightarrow> string list" where
  "invalid_payout b = fails ''mpesa_phone'' (phone_field (pu_mpesa_phone b) = None) @
     fails ''mpesa_account_name'' (not_within 2 120 (pu_mpesa_account_name b)) @
     fails ''code'' (case pu_code b of None \<Rightarrow> False | Some v \<Rightarrow> \<not> six_digits v)"

definition payout_refusal :: "payout_error \<Rightarrow> profile_content answer option" where
  "payout_refusal x = (case x of PayoutCodeRequiredError \<Rightarrow> Some (refuse 428 ''Confirm the new number with its code.'')
     | Code_error (PhoneCodeInvalidError _) \<Rightarrow> Some (refuse 422 wrong_code_text)
     | Code_error PhoneCodeExpiredError \<Rightarrow> Some (refuse 410 ''That code has expired.'')
     | Code_error (PhoneCodeRateLimitedError k) \<Rightarrow> Some (refuse_after 429 ''Too many tries. Please wait before trying again.'' k)
     | Code_error _ \<Rightarrow> None)"

definition payout_change :: "env \<Rightarrow> web_config \<Rightarrow> payout_update \<Rightarrow> user \<Rightarrow> account_state \<Rightarrow> account_state \<times> profile_content answer option" where
  "payout_change E W b u st = (case st of (s, L, out) \<Rightarrow>
     (case change_payout E (wc_auth W) u (the (phone_field (pu_mpesa_phone b))) (pu_mpesa_account_name b) (pu_code b) s of
       (s', Inl x) \<Rightarrow> ((s', L, out), payout_refusal x)
     | (s', Inr (u', sms)) \<Rightarrow> ((s', L, out @ sms), Some (ok 200 (Shop (shop_profile s' u'))))))"

definition put_payout :: "env \<Rightarrow> web_config \<Rightarrow> payout_update \<Rightarrow> signed_in \<Rightarrow> account_state \<Rightarrow> account_state \<times> profile_content answer option" where
  "put_payout E W b ctx = guarded (require_seller_user ctx) (\<lambda>u. validated (invalid_payout b)
     (\<lambda>st. guarded (account_row u (fst st)) (payout_change E W b) st))"

section \<open>What they keep\<close>

text \<open>A logo that is served was accepted: it is not empty, within the limit and of a listed type.\<close>

definition logo_ok :: "user \<Rightarrow> bool" where
  "logo_ok u = (case logo_of u of None \<Rightarrow> True | Some (d, t) \<Rightarrow> d \<noteq> [] \<and> length d \<le> MAX_LOGO_BYTES \<and> t \<in> set LOGO_CONTENT_TYPES)"

lemma set_logo_ok: "logo_ok u \<Longrightarrow> set_logo E u content_type data s = (s', Inr u') \<Longrightarrow> logo_ok u'"
  by (auto simp: set_logo_def logo_ok_def logo_of_def Let_def split: if_splits)

lemma confirmed: "confirmed_by_code E C phone code s = (st, Inr s1) \<Longrightarrow> \<exists>v. code = Some v \<and> consume_phone_code E C phone v Payout None s = (st, Inr s1)"
  by (auto simp: confirmed_by_code_def split: option.splits if_splits prod.splits sum.splits)

lemma consumed_users: "consume_phone_code E C phone v purpose n s = (st, Inr s1) \<Longrightarrow> d_users s1 = d_users s"
  by (erule consume_Inr) (simp add: put_code_def)

lemma wrong_users: "consume_phone_code E C phone v purpose n s = (st, Inl x) \<Longrightarrow> d_users st = d_users s"
  by (auto simp: consume_phone_code_def put_code_def Let_def split: option.splits if_splits)

lemma change_failed: "change_payout E C u phone name code s = (s', Inl x) \<Longrightarrow> d_users s' = d_users s"
  by (auto simp: change_payout_def confirmed_by_code_def Let_def split: if_splits prod.splits sum.splits option.splits dest: wrong_users)

end
