(* ===== verification/Seller_Guarantees.thy ===== *)
theory Seller_Guarantees
  imports Seller_Profile Account_Guarantees
begin

text \<open>What protects a seller's payout number.\<close>

lemma put_user_other: "u_id v \<noteq> i \<Longrightarrow> get_user i (put_user v s) = get_user i s"
  by (simp add: users.get_put)

text \<open>C24: Once a seller has orders, the number their money goes to changes only on their own signed-in request
  with the code texted to the new number: the newest payout code of that number, unspent and unexpired,
  which is spent by the change; and the old number is told.\<close>

lemma payout_number_needs_code:
  assumes "put_payout E W b ctx (s, L, out) = ((s', L', out'), a)" and "get_user i s = Some u" and "get_user i s' = Some u'"
    and "payout_phone u' \<noteq> payout_phone u" and "has_orders i s"
  shows "\<exists>v x code c. ctx = Some (v, x) \<and> u_id v = i \<and> u_role v = SELLER \<and> pu_code b = Some code \<and>
    latest_code (payout_phone u') Payout s = Some c \<and> pc_consumed_at c = None \<and> e_now E < pc_expires_at c \<and>
    pc_code_hash c = code_hash E (payout_phone u') code Payout \<and>
    d_codes s' = row_put pc_id (c\<lparr>pc_consumed_at := Some (e_now E)\<rparr>) (d_codes s) \<and>
    out' = out @ [(payout_phone u, payout_changed_sms_text (payout_phone u'))]"
proof -
  have moved: "s' \<noteq> s" using assms(2-4) by auto
  obtain v x where ctx: "ctx = Some (v, x)" "u_role v = SELLER" "invalid_payout b = []"
    using assms(1) moved
    by (auto simp: put_payout_def guarded_def require_seller_user_def require_role_def get_current_user_def bindE_def validated_def
        split: option.splits if_splits)
  have step: "guarded (account_row v s) (payout_change E W b) (s, L, out) = ((s', L', out'), a)"
    using assms(1) ctx by (simp add: put_payout_def guarded_def require_seller_user_def require_role_def get_current_user_def bindE_def validated_def)
  then obtain r where r: "get_user (u_id v) s = Some r" and run: "payout_change E W b r (s, L, out) = ((s', L', out'), a)"
    using moved by (auto simp: guarded_def account_row_def split: option.splits)
  let ?phone = "the (phone_field (pu_mpesa_phone b))"
  obtain t y where call: "change_payout E (wc_auth W) r ?phone (pu_mpesa_account_name b) (pu_code b) s = (t, y)" by fastforce
  have "y \<noteq> Inl e" for e
  proof
    assume "y = Inl e"
    then have "d_users s' = d_users s" using run call change_failed by (auto simp: payout_change_def)
    then show False using assms(2-4) by (simp add: get_user_def)
  qed
  then obtain r' sms where y: "y = Inr (r', sms)" by (cases y) auto
  then have s': "s' = t" "out' = out @ sms" using run call by (auto simp: payout_change_def)
  have rid: "u_id r = u_id v" using r users.get_key by blast
  obtain st s1 where code: "(if ?phone \<noteq> payout_phone r \<and> has_orders (u_id r) s then confirmed_by_code E (wc_auth W) ?phone (pu_code b) s else (s, Inr s)) = (st, Inr s1)"
    and r': "r' = r\<lparr>u_mpesa_phone := Some ?phone, u_mpesa_account_name := Some (strip (pu_mpesa_account_name b))\<rparr>" "s' = put_user r' s1"
      "sms = (if ?phone \<noteq> payout_phone r then [(payout_phone r, payout_changed_sms_text ?phone)] else [])"
    using call y s' by (auto simp: change_payout_def Let_def split: prod.splits sum.splits)
  have users: "d_users s1 = d_users s"
    using code by (auto split: if_splits dest!: confirmed consumed_users)
  have gets: "get_user j s1 = get_user j s" for j using users by (simp add: get_user_def)
  have i: "u_id v = i"
  proof (rule ccontr)
    assume "u_id v \<noteq> i"
    then have "get_user i s' = get_user i s" using r'(1,2) rid by (simp add: put_user_other gets)
    then show False using assms(2-4) by simp
  qed
  have u: "r = u" "u' = r'" using r assms(2,3) i r'(1,2) rid by (auto simp: users.get_put gets)
  have new: "phone_field (pu_mpesa_phone b) = Some ?phone"
    using ctx(3) by (auto simp: invalid_payout_def fails_def split: if_splits)
  have "?phone \<noteq> ''''" using new by (auto simp: phone_field_def not_within_def split: sum.splits option.splits if_splits)
  then have phone: "payout_phone u' = ?phone" unfolding u r'(1) by (simp add: payout_phone_def)
  then have "?phone \<noteq> payout_phone r \<and> has_orders (u_id r) s" using assms(4,5) u i rid by simp
  then have "confirmed_by_code E (wc_auth W) ?phone (pu_code b) s = (st, Inr s1)"
    and sms: "sms = [(payout_phone r, payout_changed_sms_text ?phone)]" using code r'(3) by simp_all
  from confirmed [OF this(1)] obtain w
    where w: "pu_code b = Some w" "consume_phone_code E (wc_auth W) ?phone w Payout None s = (st, Inr s1)" by auto
  obtain c where c: "latest_code ?phone Payout s = Some c" "pc_consumed_at c = None" "e_now E < pc_expires_at c"
      "code_hash E ?phone w Payout = pc_code_hash c" "s1 = put_code (c\<lparr>pc_consumed_at := Some (e_now E)\<rparr>) s"
    using w(2) by (rule consume_Inr) simp
  have "d_codes s' = row_put pc_id (c\<lparr>pc_consumed_at := Some (e_now E)\<rparr>) (d_codes s)" unfolding r'(2) c(5) by (simp add: put_user_def put_code_def)
  then show ?thesis using ctx i w(1) c phone s'(2) sms u(1) by auto
qed

definition sample_web :: web_config where
  "sample_web = \<lparr>wc_session_cookie_name = ''s'', wc_csrf_cookie_name = ''c'', wc_csrf_header_name = ''X-CSRF-Token'', wc_session_cookie_secure = True,
     wc_csrf_cookie_secure = True, wc_session_cookie_samesite = ''lax'', wc_csrf_cookie_samesite = ''lax'', wc_payment_callback_secret = '''',
     wc_phone_code_dev_echo = False, wc_auth = sample_config, wc_decimal_ok = (\<lambda>_ _ _. True), wc_trim = strip\<rparr>"

definition payout_code :: phone_code where
  "payout_code = \<lparr>pc_id = 50, pc_phone = ''+254700000009'', pc_purpose = ''payout'', pc_code_hash = code_hash (sample_env 0) ''+254700000009'' ''123456'' Payout,
     pc_attempts = 0, pc_expires_at = 300, pc_consumed_at = None, pc_locked_until = None, pc_created_at = 0\<rparr>"

definition selling_db :: db where
  "selling_db = (sample_db True [sample_order 10 LOCKED] [])\<lparr>d_codes := [payout_code]\<rparr>"

definition sample_update :: payout_update where
  "sample_update = \<lparr>pu_mpesa_phone = ''0700 000 009'', pu_mpesa_account_name = '' Jane'', pu_code = Some ''123456''\<rparr>"

definition paid_to :: "(account_state \<times> profile_content answer option)" where
  "paid_to = put_payout (sample_env 7) sample_web sample_update (Some (sample_seller, sample_session 1 ''t'')) (selling_db, no_limits, [])"

lemma new_number: "phone_field ''0700 000 009'' = Some ''+254700000009''"
  by code_simp

lemma selling: "get_user 2 selling_db = Some sample_seller" "u_id sample_seller = 2" "payout_phone sample_seller = ''0700000002''"
  "has_orders 2 selling_db" "latest_code ''+254700000009'' Payout selling_db = Some payout_code"
  by (simp_all add: selling_db_def sample_db_def get_user_def has_orders_def sample_seller_def sample_buyer_def sample_user_def payout_phone_def
      or_text.simps latest_code_def codes_of_def payout_code_def)

lemma code_accepted: "confirmed_by_code (sample_env 7) sample_config ''+254700000009'' (Some ''123456'') selling_db =
    (selling_db, Inr (put_code (payout_code\<lparr>pc_consumed_at := Some 7\<rparr>) selling_db))"
  by (simp add: confirmed_by_code_def consume_phone_code_def selling locked_for_def payout_code_def code_hash_def verify_hashed_token_def
      hash_session_token_def sample_env_def)

lemma changed_number: "\<exists>u. get_user 2 (fst (fst paid_to)) = Some u \<and> payout_phone u = ''+254700000009''"
proof -
  let ?u = "sample_seller\<lparr>u_mpesa_phone := Some ''+254700000009'', u_mpesa_account_name := Some ''Jane''\<rparr>"
  have name: "strip '' Jane'' = ''Jane''" by code_simp
  have "invalid_payout sample_update = []"
    by (simp add: invalid_payout_def sample_update_def new_number fails_def not_within_def six_digits_def ascii_digit_def)
  then have "fst (fst paid_to) = put_user ?u (put_code (payout_code\<lparr>pc_consumed_at := Some 7\<rparr>) selling_db)"
    by (simp add: paid_to_def put_payout_def guarded_def require_seller_user_def require_role_def get_current_user_def bindE_def validated_def
        account_row_def selling payout_change_def change_payout_def sample_update_def new_number sample_web_def code_accepted name Let_def)
  moreover have "get_user 2 (put_code (payout_code\<lparr>pc_consumed_at := Some 7\<rparr>) selling_db) = Some sample_seller"
    using selling(1) by (simp add: get_user_def put_code_def)
  ultimately have "get_user 2 (fst (fst paid_to)) = Some ?u" using selling(2) by (simp add: users.get_put)
  then show ?thesis by (simp add: payout_phone_def or_text.simps)
qed

lemma payout_number_needs_code_witness:
  "\<exists>c. latest_code ''+254700000009'' Payout selling_db = Some c \<and> pc_consumed_at c = None \<and>
     snd (snd (fst paid_to)) = [(''0700000002'', payout_changed_sms_text ''+254700000009'')]"
proof -
  obtain s' L' out' a where r: "paid_to = ((s', L', out'), a)" by (metis prod.exhaust)
  have "fst (fst paid_to) = s'" unfolding r fst_conv ..
  with changed_number obtain u' where u': "get_user 2 s' = Some u'" "payout_phone u' = ''+254700000009''" by metis
  have "snd (snd (fst paid_to)) = out'" unfolding r fst_conv snd_conv ..
  with payout_number_needs_code [OF r [unfolded paid_to_def] selling(1) u'(1) _ selling(4)] u'(2) show ?thesis by (auto simp: selling(3))
qed

end
