(* ===== verification/Order_Pages.thy ===== *)
theory Order_Pages
  imports Order_Routes Timeouts
begin

text \<open>
  Reading one order: services/transaction_read.py, transaction_payout.py, transaction_timeline.py,
  dispute_summary.py, the answers of schemas/transaction_detail.py and the two routes over them. A reading
  route leaves the database as it is and its answer depends on who asks.
\<close>

section \<open>Who may see an order\<close>

record transaction_view =
  tv_transaction :: transaction
  tv_listing :: listing
  tv_buyer :: user
  tv_seller :: user
  tv_viewer_role :: user_role

definition TRANSACTION_NOT_VISIBLE :: string where "TRANSACTION_NOT_VISIBLE = ''Transaction not found.''"

definition viewer_role :: "user \<Rightarrow> transaction \<Rightarrow> user_role option" where
  "viewer_role viewer t = (if u_role viewer = ADMIN then Some ADMIN
     else if u_id viewer = tx_buyer t then Some BUYER
     else if u_id viewer = tx_seller t then Some SELLER else None)"

definition get_transaction_for_viewer :: "uuid \<Rightarrow> user \<Rightarrow> db \<Rightarrow> string + transaction_view" where
  "get_transaction_for_viewer tid viewer s = (case get_transaction tid s of None \<Rightarrow> Inl TRANSACTION_NOT_VISIBLE
     | Some t \<Rightarrow> (case viewer_role viewer t of None \<Rightarrow> Inl TRANSACTION_NOT_VISIBLE
       | Some r \<Rightarrow> (case (get_listing (tx_listing t) s, get_user (tx_buyer t) s, get_user (tx_seller t) s) of
           (Some l, Some b, Some v) \<Rightarrow> Inr \<lparr>tv_transaction = t, tv_listing = l, tv_buyer = b, tv_seller = v, tv_viewer_role = r\<rparr>
         | _ \<Rightarrow> Inl TRANSACTION_NOT_VISIBLE)))"

section \<open>The seller's payout\<close>

datatype seller_payout_status = NOT_PAID | HELD | IN_PROGRESS | PAID_OUT | DELAYED | REFUNDED

record payout_facts =
  sp_status :: seller_payout_status
  sp_amount :: "cents option"
  sp_reference :: "string option"
  sp_paid_at :: "time option"

definition PAYOUT_UNPAID :: "tx_status set" where "PAYOUT_UNPAID = {INITIATED, AWAITING_PAYMENT}"
definition PAYOUT_REFUNDED :: "tx_status set" where "PAYOUT_REFUNDED = {REFUNDED_BUYER, RESOLVED_REFUND, RETURNED_TO_SELLER}"
definition PAYOUT_RELEASED :: "tx_status set" where "PAYOUT_RELEASED = {RELEASED, RESOLVED_RELEASE, RESOLVED_SPLIT}"

text \<open>Newest first, like the query; the escrow of an attempt is found by its id.\<close>

definition release_attempts :: "transaction \<Rightarrow> db \<Rightarrow> payout_attempt list" where
  "release_attempts t s = filter (\<lambda>p. contains ''release:'' (po_purpose p))
     (rev (sort_key po_created_at (filter (\<lambda>p. case get_escrow (po_escrow p) s of None \<Rightarrow> False
        | Some e \<Rightarrow> es_transaction e = tx_id t) (d_payouts s))))"

definition bare_payout :: "seller_payout_status \<Rightarrow> cents option \<Rightarrow> payout_facts" where
  "bare_payout st a = \<lparr>sp_status = st, sp_amount = a, sp_reference = None, sp_paid_at = None\<rparr>"

text \<open>\<open>stamp\<close> is the attempt's \<open>updated_at\<close>, which the ORM writes with every update of the row.\<close>

definition releasing_payout :: "(payout_attempt \<Rightarrow> time) \<Rightarrow> transaction \<Rightarrow> payout_attempt option \<Rightarrow> payout_facts" where
  "releasing_payout stamp t latest = (let amount = Some (case latest of None \<Rightarrow> tx_amount t | Some p \<Rightarrow> po_amount p) in
     case latest of
       None \<Rightarrow> bare_payout (if tx_payout_status t = FAILED_PAYOUT then DELAYED else IN_PROGRESS) amount
     | Some p \<Rightarrow> if po_outcome p = SUCCEEDED
         then \<lparr>sp_status = PAID_OUT, sp_amount = amount, sp_reference = po_provider_reference p, sp_paid_at = Some (stamp p)\<rparr>
       else if tx_payout_status t = FAILED_PAYOUT \<or> po_outcome p = FAILED_DEFINITE then bare_payout DELAYED amount
       else bare_payout IN_PROGRESS amount)"

definition seller_payout :: "(payout_attempt \<Rightarrow> time) \<Rightarrow> transaction \<Rightarrow> db \<Rightarrow> payout_facts" where
  "seller_payout stamp t s = (if tx_status t \<in> PAYOUT_UNPAID then bare_payout NOT_PAID None
     else if tx_status t \<in> PAYOUT_REFUNDED then bare_payout REFUNDED None
     else if tx_status t \<notin> PAYOUT_RELEASED then bare_payout HELD None
     else releasing_payout stamp t (case release_attempts t s of [] \<Rightarrow> None | p # ps \<Rightarrow> Some p))"

section \<open>The dispute behind an order\<close>

record dispute_facts =
  ds_id :: uuid
  ds_status :: dispute_status
  ds_category :: string
  ds_description :: string
  ds_opened_at :: time
  ds_escalated_at :: "time option"
  ds_resolved_at :: "time option"
  ds_seller_action :: "seller_action option"
  ds_seller_notes :: "string option"
  ds_buyer_notes :: "string json"
  ds_reconfirm_rejections :: int
  ds_buyer_confirmed_resolved :: bool
  ds_seller_confirmed_resolved :: bool
  ds_admin_decision :: "admin_decision option"

text \<open>\<open>evidence.get(key) or other\<close>, and \<open>int(value)\<close> of what the evidence holds: None is an exception.\<close>

definition evidence_or :: "string \<Rightarrow> string json \<Rightarrow> dict \<Rightarrow> string json" where
  "evidence_or key other ev = (case dict_get key ev of None \<Rightarrow> other | Some j \<Rightarrow> if truthy j then j else other)"

definition int_of_json :: "string json \<Rightarrow> int option" where
  "int_of_json j = (case j of JInt n \<Rightarrow> Some n | JBool b \<Rightarrow> Some (of_bool b) | JStr v \<Rightarrow> read_int v | _ \<Rightarrow> None)"

definition summarize :: "dispute \<Rightarrow> dispute_facts option" where
  "summarize d = (let ev = di_evidence d in
     map_option (\<lambda>n. \<lparr>ds_id = di_id d, ds_status = di_status d, ds_category = di_reason d, ds_description = di_description d,
         ds_opened_at = di_opened_at d, ds_escalated_at = di_escalated_at d, ds_resolved_at = di_resolved_at d,
         ds_seller_action = di_seller_resolution_action d, ds_seller_notes = di_seller_resolution_notes d,
         ds_buyer_notes = evidence_or ''buyer_reconfirm_notes'' JNull ev, ds_reconfirm_rejections = n,
         ds_buyer_confirmed_resolved = evidence_flag ''buyer_confirmed_resolved'' ev,
         ds_seller_confirmed_resolved = evidence_flag ''seller_confirmed_resolved'' ev, ds_admin_decision = di_admin_decision d\<rparr>)
       (int_of_json (evidence_or ''buyer_reconfirm_rejection_count'' (JInt 0) ev)))"

text \<open>No dispute, a summary, or an exception (None).\<close>

definition dispute_summary :: "uuid \<Rightarrow> db \<Rightarrow> dispute_facts option option" where
  "dispute_summary tid s = (case latest_dispute tid s of None \<Rightarrow> Some None | Some d \<Rightarrow> map_option Some (summarize d))"

definition latest_categories :: "uuid set \<Rightarrow> db \<Rightarrow> uuid \<Rightarrow> string option" where
  "latest_categories ids s = fold (\<lambda>d m. m(di_transaction d \<mapsto> di_reason d))
     (sort_key di_created_at (filter (\<lambda>d. di_transaction d \<in> ids) (d_disputes s))) Map.empty"

section \<open>The timeline\<close>

record timeline_step =
  ts_kind :: string
  ts_at :: time
  ts_title :: string
  ts_description :: string

text \<open>A notification's title gives the title shown, the buyer's description and the seller's.\<close>

definition BY_TITLE :: "(string \<times> string \<times> string \<times> string) list" where
  "BY_TITLE = [(''Transaction created'', ''Order created'', ''Waiting for your payment.'', ''Waiting for the buyer to pay.''),
     (''New escrow transaction'', ''Order created'', ''Waiting for your payment.'', ''Waiting for the buyer to pay.''),
     (''Payment confirmed'', ''Paid into the vault'', ''Vekro holds your money.'', ''Vekro holds the buyer's money.''),
     (''Buyer payment confirmed'', ''Paid into the vault'', ''Vekro holds your money.'', ''Vekro holds the buyer's money. Dispatch within 48 hours.''),
     (''Seller dispatched transaction'', ''On the way'', ''The seller sent your item.'', ''You sent the item.''),
     (''Dispatch confirmed'', ''On the way'', ''The seller sent your item.'', ''You sent the item.''),
     (''Delivery arrived'', ''Arrived at the door'', ''Your delivery code was sent by SMS. Inspect before you use it.'', ''The buyer is inspecting the item.''),
     (''Arrival confirmed'', ''Arrived at the door'', ''Your delivery code was sent by SMS. Inspect before you use it.'', ''The buyer is inspecting the item.''),
     (''OTP confirmed'', ''Item accepted'', ''You accepted the item.'', ''The buyer accepted the item.''),
     (''Buyer confirmed OTP'', ''Item accepted'', ''You accepted the item.'', ''The buyer accepted the item.''),
     (''OTP withheld'', ''Rejected at the door'', ''The item goes back and you're refunded.'', ''The buyer rejected the item at the door.''),
     (''Buyer withheld OTP'', ''Rejected at the door'', ''The item goes back and you're refunded.'', ''The buyer rejected the item at the door.''),
     (''Functional issue reported'', ''Problem reported'', ''You reported a problem.'', ''The buyer reported a problem.''),
     (''Functional issue opened'', ''Problem reported'', ''You reported a problem.'', ''The buyer reported a problem.''),
     (''Buyer marked item sent back'', ''Sent back'', ''You sent the item back.'', ''The buyer sent the item back.''),
     (''Buyer initiated return shipment'', ''Sent back'', ''You sent the item back.'', ''The buyer sent the item back.''),
     (''Seller confirmed return receipt'', ''Return received'', ''The seller received the item.'', ''You received the returned item.''),
     (''Return receipt confirmed'', ''Return received'', ''The seller received the item.'', ''You received the returned item.''),
     (''Seller resolution submitted'', ''Seller chose a fix'', ''The seller chose how to fix it.'', ''You chose how to fix it.''),
     (''Resolution action recorded'', ''Seller chose a fix'', ''The seller chose how to fix it.'', ''You chose how to fix it.''),
     (''Buyer reconfirmation recorded'', ''Buyer replied'', ''You replied to the fix.'', ''The buyer replied to the fix.''),
     (''Buyer reconfirmation update'', ''Buyer replied'', ''You replied to the fix.'', ''The buyer replied to the fix.''),
     (''Resolution confirmation updated'', ''Resolution confirmed'', ''The fix was confirmed.'', ''The fix was confirmed.''),
     (''Dispute auto-canceled'', ''Report closed'', ''The item wasn't sent back in time, so the report closed.'', ''The buyer didn't send the item back in time.''),
     (''Dispute auto-escalated'', ''With Vekro support'', ''Vekro support is reviewing this.'', ''Vekro support is reviewing this.'')]"

definition BY_KIND :: "(string \<times> string \<times> string) list" where
  "BY_KIND = [(event_type_value SYSTEM_TIMEOUT, ''Deadline passed'', ''Vekro acted automatically when time ran out.''),
     (event_type_value ADMIN_DECISION, ''Vekro support decided'', ''Vekro support recorded a decision.''),
     (event_type_value DISPUTE_UPDATED, ''Return updated'', ''The return moved to its next step.''),
     (event_type_value DISPUTE_OPENED, ''Problem reported'', ''A problem was reported.'')]"

definition ADMIN_TEXT :: "(string \<times> string) list" where
  "ADMIN_TEXT = [(''You sent the item.'', ''The seller sent the item.''),
     (''You received the returned item.'', ''The seller received the returned item.''),
     (''You chose how to fix it.'', ''The seller chose how to fix it.'')]"

definition step_text :: "string \<Rightarrow> string \<Rightarrow> user_role \<Rightarrow> string \<times> string" where
  "step_text heading kind role = (case map_of BY_TITLE heading of
       Some (title, buyer_text, seller_text) \<Rightarrow> (title,
         if role = ADMIN then (case map_of ADMIN_TEXT seller_text of None \<Rightarrow> seller_text | Some v \<Rightarrow> v)
         else if role = SELLER then seller_text else buyer_text)
     | None \<Rightarrow> (case map_of BY_KIND kind of
         Some (title, description) \<Rightarrow> (title, description)
       | None \<Rightarrow> (''Order updated'', if role = ADMIN then ''The order moved to its next step.'' else ''Your order moved to its next step.'')))"

definition timeline_step_of :: "user_role \<Rightarrow> notification \<Rightarrow> timeline_step" where
  "timeline_step_of role n = (let kind = event_type_value (n_event n); p = step_text (n_title n) kind role in
     \<lparr>ts_kind = kind, ts_at = n_created_at n, ts_title = fst p, ts_description = snd p\<rparr>)"

text \<open>Admins read the buyer's notifications.\<close>

definition get_transaction_timeline :: "uuid \<Rightarrow> user \<Rightarrow> db \<Rightarrow> string + timeline_step list" where
  "get_transaction_timeline tid viewer s = bindE (get_transaction_for_viewer tid viewer s) (\<lambda>v.
     let owner = (if tv_viewer_role v = ADMIN then tx_buyer (tv_transaction v) else u_id viewer) in
     Inr (map (timeline_step_of (tv_viewer_role v))
       (sort_key n_created_at (filter (\<lambda>n. n_user n = owner) (filter (\<lambda>n. n_transaction n = tid) (d_notifications s))))))"

section \<open>The answers\<close>

record listing_summary =
  sm_id :: uuid
  sm_title :: string
  sm_price :: cents
  sm_is_serialized :: bool
  sm_dispute_policy :: dict

record party =
  py_name :: string
  py_phone_masked :: "string option"

definition party_of :: "user \<Rightarrow> party" where
  "party_of u = \<lparr>py_name = u_name u, py_phone_masked = mask_phone (Some (u_phone u))\<rparr>"

record detail_answer =
  da_order :: order_answer
  da_viewer_role :: user_role
  da_listing :: listing_summary
  da_buyer :: party
  da_seller :: party
  da_deadlines :: transaction_deadlines
  da_server_time :: time
  da_door_rejection :: "(string option \<times> string option) option"
  da_payment :: "payment_instruction option"
  da_payout :: "payout_facts option"
  da_dispute :: "dispute_facts option"

definition door_rejection :: "transaction \<Rightarrow> (string option \<times> string option) option" where
  "door_rejection t = (if truthy_text (tx_door_rejection_reason t) \<or> truthy_text (tx_door_rejection_note t)
     then Some (tx_door_rejection_reason t, tx_door_rejection_note t) else None)"

definition from_view ::
    "env \<Rightarrow> transaction_view \<Rightarrow> payment_instruction option \<Rightarrow> payout_facts option \<Rightarrow> dispute_facts option \<Rightarrow> detail_answer" where
  "from_view E v payment payout dispute = (let t = tv_transaction v; l = tv_listing v in
     \<lparr>da_order = order_answer_of t, da_viewer_role = tv_viewer_role v,
      da_listing = \<lparr>sm_id = l_id l, sm_title = l_title l, sm_price = l_price l, sm_is_serialized = l_is_serialized l, sm_dispute_policy = l_dispute_policy l\<rparr>,
      da_buyer = party_of (tv_buyer v), da_seller = party_of (tv_seller v), da_deadlines = deadlines_for t, da_server_time = e_now E,
      da_door_rejection = door_rejection t, da_payment = (if tv_viewer_role v \<noteq> SELLER then payment else None),
      da_payout = (if tv_viewer_role v \<noteq> BUYER then payout else None), da_dispute = dispute\<rparr>)"

text \<open>
  Building the answer validates it: \<open>from_summary\<close> raises when the note in the evidence is not a text, and
  \<open>None\<close> is that exception.
\<close>

definition from_summary :: "dispute_facts \<Rightarrow> dispute_facts option" where
  "from_summary d = (case ds_buyer_notes d of JNull \<Rightarrow> Some d | JStr v \<Rightarrow> Some d | _ \<Rightarrow> None)"

section \<open>The routes\<close>

datatype page_content = Detail_page detail_answer | Steps "timeline_step list"

definition dispute_shown :: "uuid \<Rightarrow> db \<Rightarrow> dispute_facts option option" where
  "dispute_shown tid s = (case dispute_summary tid s of None \<Rightarrow> None | Some None \<Rightarrow> Some None
     | Some (Some d) \<Rightarrow> map_option Some (from_summary d))"

definition detail_of :: "env \<Rightarrow> (payout_attempt \<Rightarrow> time) \<Rightarrow> transaction_view \<Rightarrow> db \<Rightarrow> page_content answer option" where
  "detail_of E stamp v s = (let t = tv_transaction v in
     map_option (\<lambda>d. ok 200 (Detail_page (from_view E v (payment_instruction_for E (tx_id t) s)
         (if tv_viewer_role v \<noteq> BUYER then Some (seller_payout stamp t s) else None) d)))
       (dispute_shown (tx_id t) s))"

definition get_transaction_page :: "env \<Rightarrow> (payout_attempt \<Rightarrow> time) \<Rightarrow> uuid \<Rightarrow> signed_in \<Rightarrow> db \<Rightarrow> db \<times> page_content answer option" where
  "get_transaction_page E stamp tid ctx = guarded (get_current_user ctx) (\<lambda>u s. (s,
     case get_transaction_for_viewer tid u s of Inl m \<Rightarrow> Some (refuse 404 ''Transaction not found.'')
     | Inr v \<Rightarrow> detail_of E stamp v s))"

definition get_timeline :: "uuid \<Rightarrow> signed_in \<Rightarrow> db \<Rightarrow> db \<times> page_content answer option" where
  "get_timeline tid ctx = guarded (get_current_user ctx) (\<lambda>u s. (s,
     case get_transaction_timeline tid u s of Inl m \<Rightarrow> Some (refuse 404 ''Transaction not found.'')
     | Inr xs \<Rightarrow> Some (ok 200 (Steps xs))))"

end
