(* ===== verification/Order_Lists.thy ===== *)
theory Order_Lists
  imports Order_Pages Listings
begin

text \<open>
  The caller's own orders (services/transaction_list.py) and the seller's totals
  (services/transaction_summary.py), with their answers and routes. The database leaves the order of rows
  with equal sort keys open; here they keep the order of their rows.
\<close>

section \<open>Segments\<close>

datatype order_segment = NEEDS_ACTION | IN_TRANSIT | HELD_ORDERS | COMPLETED | ISSUES

definition order_segments :: "order_segment list" where
  "order_segments = [NEEDS_ACTION, IN_TRANSIT, HELD_ORDERS, COMPLETED, ISSUES]"

fun SEGMENT_STATUSES :: "order_segment \<Rightarrow> tx_status list" where
  "SEGMENT_STATUSES NEEDS_ACTION = [LOCKED, OUT_FOR_DELIVERY, RETURN_IN_TRANSIT, RETURN_RECEIVED]"
| "SEGMENT_STATUSES IN_TRANSIT = [INITIATED, AWAITING_PAYMENT, DISPATCHED, AT_DOOR_PENDING_INSPECTION]"
| "SEGMENT_STATUSES HELD_ORDERS = [HOLD_24H]"
| "SEGMENT_STATUSES COMPLETED = [RELEASED, RESOLVED_RELEASE, REFUNDED_BUYER, RESOLVED_REFUND, RETURNED_TO_SELLER, RESOLVED_SPLIT]"
| "SEGMENT_STATUSES ISSUES = [DISPUTED_FUNCTIONAL, AWAITING_BUYER_RECONFIRMATION, ESCALATED_ADMIN_REVIEW]"

text \<open>Every status is in exactly one segment.\<close>

lemma segment_of_status: "\<exists>!g. st \<in> set (SEGMENT_STATUSES g)"
proof -
  have "st \<in> set (SEGMENT_STATUSES g) \<longleftrightarrow> g = (if st \<in> {LOCKED, OUT_FOR_DELIVERY, RETURN_IN_TRANSIT, RETURN_RECEIVED} then NEEDS_ACTION
      else if st \<in> {INITIATED, AWAITING_PAYMENT, DISPATCHED, AT_DOOR_PENDING_INSPECTION} then IN_TRANSIT
      else if st = HOLD_24H then HELD_ORDERS
      else if st \<in> {DISPUTED_FUNCTIONAL, AWAITING_BUYER_RECONFIRMATION, ESCALATED_ADMIN_REVIEW} then ISSUES else COMPLETED)" for g
    by (cases g; cases st) simp_all
  then show ?thesis by simp
qed

section \<open>A page of orders\<close>

datatype order_sort = NEWEST | OLDEST | AMOUNT_DESC | AMOUNT_ASC

record order_list_item =
  oi_transaction :: transaction
  oi_listing :: listing
  oi_counterpart :: user
  oi_cover_photo :: "uuid option"
  oi_dispute_category :: "string option"

record order_page =
  op_items :: "order_list_item list"
  op_total :: nat
  op_page :: nat
  op_page_size :: nat
  op_viewer_role :: user_role
  op_segment_counts :: "(order_segment \<times> nat) list"
  op_status_counts :: "(tx_status \<times> nat) list"

record order_query =
  qy_segment :: "order_segment option"
  qy_statuses :: "tx_status list"
  qy_text :: "string option"
  qy_sort :: order_sort
  qy_page :: nat
  qy_page_size :: nat

datatype list_error = OrderListForbiddenError string | CounterpartKeyError uuid

definition owns :: "user \<Rightarrow> transaction \<Rightarrow> bool" where
  "owns viewer t = ((if u_role viewer = BUYER then tx_buyer t else tx_seller t) = u_id viewer)"

definition owner_clause :: "user \<Rightarrow> list_error + (transaction \<Rightarrow> bool)" where
  "owner_clause viewer = (if u_role viewer = ADMIN then Inl (OrderListForbiddenError ''Only buyers and sellers can list their orders.'')
     else Inr (owns viewer))"

definition ordered :: "order_sort \<Rightarrow> transaction list \<Rightarrow> transaction list" where
  "ordered how ts = (case how of
       OLDEST \<Rightarrow> sort_key (\<lambda>t. (tx_created_at t, tx_id t)) ts
     | AMOUNT_DESC \<Rightarrow> rev (sort_key (\<lambda>t. (tx_amount t, tx_created_at t)) (rev ts))
     | AMOUNT_ASC \<Rightarrow> sort_key (\<lambda>t. (tx_amount t, - tx_created_at t)) ts
     | NEWEST \<Rightarrow> rev (sort_key (\<lambda>t. (tx_created_at t, tx_id t)) (rev ts)))"

definition matches_text :: "string \<Rightarrow> transaction \<Rightarrow> listing \<Rightarrow> bool" where
  "matches_text needle t l = (needle = '''' \<or> occurs_in needle (py_lower (tx_reference t)) \<or> occurs_in needle (py_lower (l_title l)))"

text \<open>The join with listings keeps the orders whose listing exists.\<close>

definition selected :: "order_query \<Rightarrow> db \<Rightarrow> transaction \<Rightarrow> bool" where
  "selected q s t = (case get_listing (tx_listing t) s of None \<Rightarrow> False
     | Some l \<Rightarrow> (case qy_segment q of None \<Rightarrow> True | Some g \<Rightarrow> tx_status t \<in> set (SEGMENT_STATUSES g)) \<and>
         (qy_statuses q = [] \<or> tx_status t \<in> set (qy_statuses q)) \<and> matches_text (py_lower (strip (or_text [qy_text q] ''''))) t l)"

definition all_statuses :: "tx_status list" where
  "all_statuses = concat (map SEGMENT_STATUSES order_segments)"

definition status_counts :: "transaction list \<Rightarrow> (tx_status \<times> nat) list" where
  "status_counts ts = filter (\<lambda>(st, n). 0 < n) (map (\<lambda>st. (st, count_list (map tx_status ts) st)) all_statuses)"

definition count_of :: "(tx_status \<times> nat) list \<Rightarrow> tx_status \<Rightarrow> nat" where
  "count_of counts st = (case map_of counts st of None \<Rightarrow> 0 | Some n \<Rightarrow> n)"

definition segment_counts :: "(tx_status \<times> nat) list \<Rightarrow> (order_segment \<times> nat) list" where
  "segment_counts counts = map (\<lambda>g. (g, sum_list (map (count_of counts) (SEGMENT_STATUSES g)))) order_segments"

definition cover_photo :: "uuid \<Rightarrow> db \<Rightarrow> uuid option" where
  "cover_photo lid s = (case sort_key lp_position (filter (\<lambda>p. lp_listing p = lid) (d_photos s)) of [] \<Rightarrow> None | p # ps \<Rightarrow> Some (lp_id p))"

definition counterpart_id :: "user \<Rightarrow> transaction \<Rightarrow> uuid" where
  "counterpart_id viewer t = (if u_role viewer = BUYER then tx_seller t else tx_buyer t)"

definition list_item :: "user \<Rightarrow> (uuid \<Rightarrow> string option) \<Rightarrow> db \<Rightarrow> transaction \<Rightarrow> order_list_item option" where
  "list_item viewer categories s t = (case (get_listing (tx_listing t) s, get_user (counterpart_id viewer t) s) of
       (Some l, Some u) \<Rightarrow> Some \<lparr>oi_transaction = t, oi_listing = l, oi_counterpart = u, oi_cover_photo = cover_photo (l_id l) s,
         oi_dispute_category = categories (tx_id t)\<rparr>
     | _ \<Rightarrow> None)"

definition list_orders_for_viewer :: "user \<Rightarrow> order_query \<Rightarrow> db \<Rightarrow> list_error + order_page" where
  "list_orders_for_viewer viewer q s = bindE (owner_clause viewer) (\<lambda>mine.
     let own = filter mine (d_transactions s); counts = status_counts own; found = filter (selected q s) own;
       rows = page_slice (qy_page q) (qy_page_size q) (ordered (qy_sort q) found);
       categories = latest_categories (tx_id ` set rows) s in
     case those (map (list_item viewer categories s) rows) of
       None \<Rightarrow> Inl (CounterpartKeyError (u_id viewer))
     | Some items \<Rightarrow> Inr \<lparr>op_items = items, op_total = length found, op_page = qy_page q, op_page_size = qy_page_size q,
         op_viewer_role = u_role viewer, op_segment_counts = segment_counts counts, op_status_counts = counts\<rparr>)"

section \<open>The seller's totals\<close>

definition IN_ESCROW :: "tx_status set" where
  "IN_ESCROW = {LOCKED, OUT_FOR_DELIVERY, DISPATCHED, AT_DOOR_PENDING_INSPECTION, HOLD_24H, DISPUTED_FUNCTIONAL, RETURN_IN_TRANSIT,
     RETURN_RECEIVED, AWAITING_BUYER_RECONFIRMATION, ESCALATED_ADMIN_REVIEW}"

definition OPEN_ISSUES :: "tx_status set" where
  "OPEN_ISSUES = {DISPUTED_FUNCTIONAL, RETURN_IN_TRANSIT, RETURN_RECEIVED, AWAITING_BUYER_RECONFIRMATION, ESCALATED_ADMIN_REVIEW}"

definition SUMMARY_RELEASED :: "tx_status set" where "SUMMARY_RELEASED = {RELEASED, RESOLVED_RELEASE}"

text \<open>Nairobi is three hours ahead of UTC, all year. A local time is the number its clock shows.\<close>

definition eat :: "time \<Rightarrow> time" where "eat t = t + hours 3"

definition month_start :: "time \<Rightarrow> time" where
  "month_start moment = (let d = moment div days 1; (y, m, dd) = civil_date d in days (d - (dd - 1)))"

record seller_totals =
  ss_in_escrow :: "cents \<times> nat"
  ss_released_this_month :: "cents \<times> nat"
  ss_released_last_month :: "cents \<times> nat"
  ss_awaiting_dispatch :: nat
  ss_open_issues :: nat
  ss_next_release :: "(uuid \<times> string) option"

definition total_of :: "transaction list \<Rightarrow> cents \<times> nat" where
  "total_of ts = (sum_list (map tx_amount ts), length ts)"

definition held_first :: "transaction list \<Rightarrow> (uuid \<times> string) option" where
  "held_first rows = (case sort_key (\<lambda>t. the (tx_hold_started_at t)) (filter (\<lambda>t. tx_status t = HOLD_24H \<and> tx_hold_started_at t \<noteq> None) rows) of
       [] \<Rightarrow> None | t # ts \<Rightarrow> Some (tx_id t, tx_reference t))"

definition seller_summary :: "user \<Rightarrow> time \<Rightarrow> db \<Rightarrow> string + seller_totals" where
  "seller_summary seller now s = (if u_role seller \<noteq> SELLER then Inl ''Only sellers have a dashboard summary.''
     else let this_month = month_start (eat now); last_month = month_start (this_month - days 1);
       rows = filter (\<lambda>t. tx_seller t = u_id seller) (d_transactions s);
       released = filter (\<lambda>t. tx_status t \<in> SUMMARY_RELEASED) rows in
     Inr \<lparr>ss_in_escrow = total_of (filter (\<lambda>t. tx_status t \<in> IN_ESCROW) rows),
       ss_released_this_month = total_of (filter (\<lambda>t. this_month \<le> eat (tx_updated_at t)) released),
       ss_released_last_month = total_of (filter (\<lambda>t. last_month \<le> eat (tx_updated_at t) \<and> eat (tx_updated_at t) < this_month) released),
       ss_awaiting_dispatch = length (filter (\<lambda>t. tx_status t = LOCKED) rows),
       ss_open_issues = length (filter (\<lambda>t. tx_status t \<in> OPEN_ISSUES) rows),
       ss_next_release = held_first rows\<rparr>)"

section \<open>The answers and routes\<close>

record order_row =
  or_id :: uuid
  or_reference :: string
  or_status :: tx_status
  or_amount :: cents
  or_viewer_role :: user_role
  or_listing :: "uuid \<times> string \<times> bool \<times> string option"
  or_counterpart :: party
  or_deadlines :: transaction_deadlines
  or_dispute_category :: "string option"
  or_created_at :: time
  or_updated_at :: time

definition cover_url :: "uuid \<Rightarrow> uuid option \<Rightarrow> string option" where
  "cover_url lid cover = map_option (\<lambda>p. ''/listings/'' @ uuid_str lid @ ''/photos/'' @ uuid_str p) cover"

definition from_item :: "order_list_item \<Rightarrow> user_role \<Rightarrow> order_row" where
  "from_item i role = (let t = oi_transaction i; l = oi_listing i in
     \<lparr>or_id = tx_id t, or_reference = tx_reference t, or_status = tx_status t, or_amount = tx_amount t, or_viewer_role = role,
      or_listing = (l_id l, l_title l, l_is_serialized l, cover_url (l_id l) (oi_cover_photo i)), or_counterpart = party_of (oi_counterpart i),
      or_deadlines = deadlines_for t, or_dispute_category = oi_dispute_category i, or_created_at = tx_created_at t, or_updated_at = tx_updated_at t\<rparr>)"

record list_answer =
  ls_items :: "order_row list"
  ls_total :: nat
  ls_page :: nat
  ls_page_size :: nat
  ls_counts :: "(order_segment \<times> nat) list"
  ls_status_counts :: "(string \<times> nat) list"
  ls_server_time :: time

definition from_page :: "env \<Rightarrow> order_page \<Rightarrow> list_answer" where
  "from_page E p = \<lparr>ls_items = map (\<lambda>i. from_item i (op_viewer_role p)) (op_items p), ls_total = op_total p, ls_page = op_page p,
     ls_page_size = op_page_size p, ls_counts = op_segment_counts p,
     ls_status_counts = map (\<lambda>(st, n). (status_value st, n)) (op_status_counts p), ls_server_time = e_now E\<rparr>"

datatype list_content = Order_list list_answer | Totals seller_totals time

definition invalid_query :: "order_query \<Rightarrow> string list" where
  "invalid_query q = fails ''q'' (too_long 64 (qy_text q)) @ fails ''page'' (qy_page q < 1 \<or> 10000 < qy_page q) @
     fails ''page_size'' (qy_page_size q < 1 \<or> 100 < qy_page_size q)"

definition list_my_transactions :: "env \<Rightarrow> order_query \<Rightarrow> signed_in \<Rightarrow> db \<Rightarrow> db \<times> list_content answer option" where
  "list_my_transactions E q ctx = guarded (get_current_user ctx) (\<lambda>u. validated (invalid_query q) (\<lambda>s. (s,
     case list_orders_for_viewer u q s of Inl (OrderListForbiddenError m) \<Rightarrow> Some (refuse 403 m)
     | Inl (CounterpartKeyError i) \<Rightarrow> None
     | Inr p \<Rightarrow> Some (ok 200 (Order_list (from_page E p))))))"

definition get_seller_summary :: "env \<Rightarrow> signed_in \<Rightarrow> db \<Rightarrow> db \<times> list_content answer option" where
  "get_seller_summary E ctx = guarded (get_current_user ctx) (\<lambda>u s. (s,
     case seller_summary u (e_now E) s of Inl m \<Rightarrow> Some (refuse 403 m) | Inr r \<Rightarrow> Some (ok 200 (Totals r (e_now E)))))"

end
