(* ===== verification/Public_Orders.thy ===== *)
theory Public_Orders
  imports Order_Lists Simulated_Custody
begin

text \<open>
  The public order summary (services/public_order.py, routers/public_orders.py): what an order link shows to
  anybody, and how often one client may ask. The buckets of the limiter live as long as the process.
\<close>

type_synonym lookups = "string \<Rightarrow> time list"

definition LOOKUPS_PER_MINUTE :: nat where "LOOKUPS_PER_MINUTE = 30"
definition LOOKUP_WINDOW :: time where "LOOKUP_WINDOW = seconds 60"

text \<open>The seconds to wait when the quota is used up.\<close>

definition check_lookup_quota :: "string \<Rightarrow> time \<Rightarrow> lookups \<Rightarrow> int option \<times> lookups" where
  "check_lookup_quota client now L = (let bucket = dropWhile (\<lambda>b. b \<le> now - LOOKUP_WINDOW) (L client) in
     if LOOKUPS_PER_MINUTE \<le> length bucket then (Some (retry_after (hd bucket + LOOKUP_WINDOW - now)), L(client := bucket))
     else (None, L(client := bucket @ [now])))"

definition state_group :: "tx_status \<Rightarrow> string" where
  "state_group st = (if st \<in> set UNPAID_STATUSES then ''unpaid'' else if st \<in> set (SEGMENT_STATUSES COMPLETED) then ''closed'' else ''paid'')"

definition find_public_order :: "string \<Rightarrow> db \<Rightarrow> (transaction \<times> listing \<times> string) option" where
  "find_public_order key s = (let text = strip key;
       found = (case uuid_of text of Some i \<Rightarrow> get_transaction i s | None \<Rightarrow> find (\<lambda>t. tx_reference t = py_upper text) (d_transactions s)) in
     case found of None \<Rightarrow> None
     | Some t \<Rightarrow> map_option (\<lambda>l. (t, l, listing_status (l_id l) s)) (get_listing (tx_listing t) s))"

record public_summary =
  pb_reference :: string
  pb_listing_title :: string
  pb_amount :: cents
  pb_state_group :: string
  pb_listing_status :: string

definition public_order ::
    "env \<Rightarrow> http_request \<Rightarrow> string \<Rightarrow> db \<times> lookups \<Rightarrow> (db \<times> lookups) \<times> public_summary Http.answer option" where
  "public_order E q key = validated (fails ''key'' (not_within 4 64 key)) (\<lambda>(s, L).
     case check_lookup_quota (get_client_identifier q) (e_now E) L of
       (Some k, L') \<Rightarrow> ((s, L'), Some (refuse_after 429 ''Too many lookups. Please wait a moment.'' k))
     | (None, L') \<Rightarrow> ((s, L'), Some (case find_public_order key s of None \<Rightarrow> refuse 404 ''Order not found.''
         | Some (t, l, st) \<Rightarrow> ok 200 \<lparr>pb_reference = tx_reference t, pb_listing_title = l_title l, pb_amount = tx_amount t,
             pb_state_group = state_group (tx_status t), pb_listing_status = st\<rparr>)))"

section \<open>How often one client may ask\<close>

text \<open>A client's requests, and the times of those that were let through.\<close>

fun passed :: "string \<Rightarrow> (string \<times> time) list \<Rightarrow> lookups \<Rightarrow> time list" where
  "passed c [] L = []"
| "passed c ((client, now) # qs) L = (case check_lookup_quota client now L of (r, L') \<Rightarrow>
     (if r = None \<and> client = c then now # passed c qs L' else passed c qs L'))"

definition within_quota :: "time list \<Rightarrow> bool" where
  "within_quota ts = (\<forall>t. length (filter (\<lambda>x. t - LOOKUP_WINDOW < x \<and> x \<le> t) ts) \<le> LOOKUPS_PER_MINUTE)"

lemma within_quota_snoc:
  assumes "within_quota (D @ B)" and "\<forall>x \<in> set D. x \<le> now - LOOKUP_WINDOW" and "length B < LOOKUPS_PER_MINUTE"
  shows "within_quota (D @ B @ [now])"
  unfolding within_quota_def
proof
  fix t
  show "length (filter (\<lambda>x. t - LOOKUP_WINDOW < x \<and> x \<le> t) (D @ B @ [now])) \<le> LOOKUPS_PER_MINUTE"
  proof (cases "now \<le> t")
    case True
    then have "filter (\<lambda>x. t - LOOKUP_WINDOW < x \<and> x \<le> t) D = []" using assms(2) by (auto simp: filter_empty_conv)
    then have "length (filter (\<lambda>x. t - LOOKUP_WINDOW < x \<and> x \<le> t) (D @ B @ [now])) \<le> length (B @ [now])"
      by (metis append_Nil filter_append length_filter_le)
    with assms(3) show ?thesis by simp
  next
    case False
    then have "filter (\<lambda>x. t - LOOKUP_WINDOW < x \<and> x \<le> t) (D @ B @ [now]) = filter (\<lambda>x. t - LOOKUP_WINDOW < x \<and> x \<le> t) (D @ B)" by simp
    then show ?thesis using assms(1) by (simp only: within_quota_def)
  qed
qed

lemma passed_within_quota:
  assumes "within_quota P" and "P = D @ L c" and "\<forall>x \<in> set D. x \<le> t0 - LOOKUP_WINDOW" and "sorted (t0 # map snd qs)"
  shows "within_quota (P @ passed c qs L)"
  using assms
proof (induction qs arbitrary: P D L t0)
  case (Cons q qs)
  obtain client now where q: "q = (client, now)" by fastforce
  have t: "t0 \<le> now" "sorted (now # map snd qs)" using Cons.prems(4) q by auto
  obtain r L' where r: "check_lookup_quota client now L = (r, L')" by fastforce
  have D: "\<forall>x \<in> set D. x \<le> now - LOOKUP_WINDOW" using Cons.prems(3) t(1) by force
  show ?case
  proof (cases "client = c")
    case False
    then have "L' c = L c" using r by (auto simp: check_lookup_quota_def Let_def split: if_splits)
    then show ?thesis using Cons.IH [of P D L' now] Cons.prems(1,2) D t(2) False by (simp add: q r)
  next
    case True
    let ?B = "dropWhile (\<lambda>b. b \<le> now - LOOKUP_WINDOW) (L c)" and ?D = "D @ takeWhile (\<lambda>b. b \<le> now - LOOKUP_WINDOW) (L c)"
    have D': "\<forall>x \<in> set ?D. x \<le> now - LOOKUP_WINDOW" using D by (auto dest: set_takeWhileD)
    have P: "P = ?D @ ?B" using Cons.prems(2) by simp
    show ?thesis
    proof (cases "LOOKUPS_PER_MINUTE \<le> length ?B")
      case full: True
      then have L': "r \<noteq> None" "L' c = ?B" using r True by (auto simp: check_lookup_quota_def Let_def)
      then have "passed c (q # qs) L = passed c qs L'" by (simp add: q r)
      then show ?thesis using Cons.IH [of P ?D L' now] Cons.prems(1) P D' t(2) L'(2) by simp
    next
      case False
      then have L': "r = None" "L' c = ?B @ [now]" using r True by (auto simp: check_lookup_quota_def Let_def)
      have "within_quota (?D @ ?B @ [now])"
        by (rule within_quota_snoc) (use Cons.prems(1) P D' False in auto)
      moreover have P': "P @ [now] = ?D @ ?B @ [now]" using P by (metis append.assoc)
      ultimately have "within_quota (P @ [now])" by (simp only:)
      moreover have "P @ [now] = ?D @ L' c" using P' L' by simp
      moreover have "P @ passed c (q # qs) L = (P @ [now]) @ passed c qs L'" using r L'(1) True by (simp add: q)
      ultimately show ?thesis using Cons.IH [of "P @ [now]" ?D L' now] D' t(2) by (simp only:)
    qed
  qed
qed simp

section \<open>What the link shows\<close>

text \<open>The answer is read off the order, its listing and the listing's orders; no account is looked at.\<close>

lemma found_cong:
  assumes "d_transactions s' = d_transactions s" and "d_listings s' = d_listings s"
  shows "find_public_order key s' = find_public_order key s"
  unfolding find_public_order_def get_transaction_def get_listing_def listing_status_def statuses_of_def assms ..

lemma summary_without_accounts:
  assumes "d_transactions s' = d_transactions s" and "d_listings s' = d_listings s"
  shows "snd (public_order E q key (s', L)) = snd (public_order E q key (s, L))"
proof -
  obtain r L' where r: "check_lookup_quota (get_client_identifier q) (e_now E) L = (r, L')" by fastforce
  show ?thesis unfolding public_order_def validated_def by (cases r) (simp_all add: r found_cong [OF assms])
qed

end
