(* ===== verification/Support_Console.thy ===== *)
theory Support_Console
  imports Order_Lists
begin

text \<open>
  The support console (services/admin_cases.py, admin_search.py, routers/admin_cases.py, admin_search.py,
  schemas/admin_case.py): the queue of escalated cases with its counters, one case, and the search for
  orders. Rates, which the code rounds to four places, are pairs of numerator and denominator. Days are
  counted from 1970-01-01 in Nairobi time, three hours ahead of UTC as it has been since 1960.
\<close>

section \<open>Why a case reached support\<close>

datatype case_trigger = RECEIPT_TIMEOUT | BUYER_NOT_FIXED_TWICE | PARTY_ESCALATED | OTHER_CATEGORY

text \<open>\<open>escalation.get("by") in {"buyer", "seller"}\<close>: None is the TypeError of a list or a dict, which have no hash.\<close>

definition escalated_by :: "dict \<Rightarrow> string option option" where
  "escalated_by ev = (case dict_get ''escalation'' ev of
       Some (JObj d) \<Rightarrow> (case dict_get ''by'' d of
           Some (JStr v) \<Rightarrow> Some (if v \<in> {''buyer'', ''seller''} then Some v else None)
         | Some (JArr xs) \<Rightarrow> None | Some (JObj e) \<Rightarrow> None | _ \<Rightarrow> Some None)
     | _ \<Rightarrow> Some None)"

definition case_trigger :: "dispute \<Rightarrow> (case_trigger option \<times> string option) option" where
  "case_trigger d = (if di_escalated_at d = None then Some (None, None)
     else (case escalated_by (di_evidence d) of
         None \<Rightarrow> None
       | Some (Some by_whom) \<Rightarrow> Some (Some PARTY_ESCALATED, Some by_whom)
       | Some None \<Rightarrow> if di_reason d = ''other'' then Some (Some OTHER_CATEGORY, None)
           else map_option (\<lambda>n. (Some (if 2 \<le> n then BUYER_NOT_FIXED_TWICE else RECEIPT_TIMEOUT), None))
             (int_of_json (evidence_or ''buyer_reconfirm_rejection_count'' (JInt 0) (di_evidence d)))))"

record case_summary =
  cs_dispute :: dispute
  cs_transaction :: transaction
  cs_listing :: listing
  cs_buyer :: user
  cs_seller :: user
  cs_trigger :: "case_trigger option"
  cs_escalated_by :: "string option"

text \<open>One row; None is an exception: a row missing, or a trigger that cannot be read.\<close>

definition summary_of :: "db \<Rightarrow> dispute \<times> transaction \<Rightarrow> case_summary option" where
  "summary_of s p = (case p of (d, t) \<Rightarrow> (case (case_trigger d, get_listing (tx_listing t) s, get_user (tx_buyer t) s, get_user (tx_seller t) s) of
       (Some (why, by_whom), Some l, Some b, Some v) \<Rightarrow> Some \<lparr>cs_dispute = d, cs_transaction = t, cs_listing = l, cs_buyer = b, cs_seller = v,
         cs_trigger = why, cs_escalated_by = by_whom\<rparr>
     | _ \<Rightarrow> None))"

definition summaries :: "db \<Rightarrow> (dispute \<times> transaction) list \<Rightarrow> case_summary list option" where
  "summaries s rows = those (map (summary_of s) rows)"

section \<open>The counters\<close>

record case_counters =
  cc_open :: nat
  cc_older_than_24h :: nat
  cc_decided_today :: nat
  cc_average_decision_seconds :: "int option"

definition eat_day :: "time \<Rightarrow> int" where "eat_day t = eat t div days 1"

text \<open>\<open>int(sum / count)\<close> of durations in microseconds, in whole seconds: towards zero.\<close>

definition average_seconds :: "int list \<Rightarrow> int option" where
  "average_seconds xs = (if xs = [] then None
     else let n = int (length xs) * 1000000 in Some (sgn (sum_list xs) * (\<bar>sum_list xs\<bar> div n)))"

definition case_counters :: "time \<Rightarrow> db \<Rightarrow> case_counters" where
  "case_counters now s = (let waiting = filter (\<lambda>d. di_status d = D_ESCALATED_ADMIN_REVIEW) (d_disputes s);
       decided = filter (\<lambda>d. di_admin_decision d \<noteq> None \<and> di_resolved_at d \<noteq> None) (d_disputes s);
       recent = filter (\<lambda>d. di_escalated_at d \<noteq> None \<and> now - days 30 \<le> the (di_resolved_at d)) decided in
     \<lparr>cc_open = length waiting,
      cc_older_than_24h = length (filter (\<lambda>d. case di_escalated_at d of None \<Rightarrow> False | Some t \<Rightarrow> t \<le> now - hours 24) waiting),
      cc_decided_today = length (filter (\<lambda>d. eat_day (the (di_resolved_at d)) = eat_day now) decided),
      cc_average_decision_seconds = average_seconds (map (\<lambda>d. the (di_resolved_at d) - the (di_escalated_at d)) recent)\<rparr>)"

section \<open>The queue\<close>

datatype case_filter = OPEN_CASES | DECIDED_CASES | ALL_CASES

record case_page =
  cp_items :: "case_summary list"
  cp_total :: nat
  cp_page :: nat
  cp_page_size :: nat
  cp_counters :: case_counters

text \<open>The disputes whose order exists, as the join with transactions gives them.\<close>

definition cases_with_orders :: "db \<Rightarrow> (dispute \<times> transaction) list" where
  "cases_with_orders s = concat (map (\<lambda>d. case get_transaction (di_transaction d) s of None \<Rightarrow> [] | Some t \<Rightarrow> [(d, t)]) (d_disputes s))"

text \<open>Oldest escalation first, or newest decision or escalation first; rows without the time come last.\<close>

definition nulls_last :: "time option \<Rightarrow> bool \<times> time" where
  "nulls_last t = (case t of None \<Rightarrow> (True, 0) | Some x \<Rightarrow> (False, x))"

definition newest_first :: "time option \<Rightarrow> bool \<times> time" where
  "newest_first t = (case t of None \<Rightarrow> (True, 0) | Some x \<Rightarrow> (False, - x))"

definition chosen_cases :: "case_filter \<Rightarrow> db \<Rightarrow> (dispute \<times> transaction) list" where
  "chosen_cases f s = (case f of
       OPEN_CASES \<Rightarrow> sort_key (\<lambda>(d, t). (nulls_last (di_escalated_at d), di_created_at d))
         (filter (\<lambda>(d, t). di_status d = D_ESCALATED_ADMIN_REVIEW) (cases_with_orders s))
     | DECIDED_CASES \<Rightarrow> sort_key (\<lambda>(d, t). newest_first (di_resolved_at d)) (filter (\<lambda>(d, t). di_admin_decision d \<noteq> None) (cases_with_orders s))
     | ALL_CASES \<Rightarrow> sort_key (\<lambda>(d, t). newest_first (di_escalated_at d)) (filter (\<lambda>(d, t). di_escalated_at d \<noteq> None) (cases_with_orders s)))"

definition list_admin_cases :: "case_filter \<Rightarrow> nat \<Rightarrow> nat \<Rightarrow> time \<Rightarrow> db \<Rightarrow> case_page option" where
  "list_admin_cases f page psize now s = (let rows = chosen_cases f s in
     map_option (\<lambda>items. \<lparr>cp_items = items, cp_total = length rows, cp_page = page, cp_page_size = psize, cp_counters = case_counters now s\<rparr>)
       (summaries s (page_slice page psize rows)))"

section \<open>One case\<close>

record party_stats =
  pt_orders :: nat
  pt_completed_sales :: nat
  pt_dispute_rate :: "nat \<times> nat"

definition buyer_stats :: "uuid \<Rightarrow> db \<Rightarrow> party_stats" where
  "buyer_stats buyer s = \<lparr>pt_orders = length (filter (\<lambda>t. tx_buyer t = buyer) (d_transactions s)), pt_completed_sales = 0, pt_dispute_rate = (0, 1)\<rparr>"

definition seller_stats :: "uuid \<Rightarrow> db \<Rightarrow> party_stats" where
  "seller_stats seller s = (let own = filter (\<lambda>t. tx_seller t = seller) (d_transactions s);
       paid = length (filter (\<lambda>t. tx_status t \<notin> {INITIATED, AWAITING_PAYMENT}) own);
       disputed = length (filter (\<lambda>t. list_ex (\<lambda>d. di_transaction d = tx_id t) (d_disputes s)) own) in
     \<lparr>pt_orders = length own, pt_completed_sales = length (filter (\<lambda>t. tx_status t \<in> {RELEASED, RESOLVED_RELEASE}) own),
      pt_dispute_rate = (if paid = 0 then (0, 1) else (disputed, paid))\<rparr>)"

record case_event =
  ce_at :: time
  ce_title :: string
  ce_message :: "string json"
  ce_source :: string

definition escalation_of :: "dict \<Rightarrow> dict" where
  "escalation_of ev = (case dict_get ''escalation'' ev of Some (JObj d) \<Rightarrow> d | _ \<Rightarrow> [])"

definition case_events :: "dispute \<Rightarrow> transaction \<Rightarrow> db \<Rightarrow> case_event list" where
  "case_events d t s = (let ev = (\<lambda>at title msg src. \<lparr>ce_at = at, ce_title = title, ce_message = msg, ce_source = src\<rparr>) in
     map (\<lambda>n. ev (n_created_at n) (n_title n) (JStr '''') ''notification'')
       (filter (\<lambda>n. n_event n \<noteq> DISPUTE_OPENED \<and> n_title n \<noteq> ''Sent to Vekro support'')
         (sort_key n_created_at (filter (\<lambda>n. n_transaction n = tx_id t \<and> n_user n = tx_seller t) (d_notifications s)))) @
     [ev (di_opened_at d) ''Problem reported'' (JStr (di_description d)) ''dispute''] @
     (case di_escalated_at d of None \<Rightarrow> []
       | Some x \<Rightarrow> [ev x ''Sent to Vekro support'' (evidence_or ''reason'' (JStr ''The case was escalated for review.'') (escalation_of (di_evidence d))) ''dispute'']) @
     (case (di_resolved_at d, di_admin_decision d) of
         (Some x, Some _) \<Rightarrow> [ev x ''Support decided'' (JStr (or_text [di_admin_reason d] '''')) ''support''] | _ \<Rightarrow> []))"

record case_detail =
  cd_summary :: case_summary
  cd_facts :: dispute_facts
  cd_buyer_stats :: party_stats
  cd_seller_stats :: party_stats
  cd_escalation_reason :: "string json"
  cd_decided_by :: "string option"
  cd_timeline :: "case_event list"

text \<open>The outer option is an exception other than \<open>AdminCaseNotFoundError\<close>.\<close>

definition get_admin_case :: "uuid \<Rightarrow> db \<Rightarrow> (string + case_detail) option" where
  "get_admin_case i s = (case get_dispute i s of None \<Rightarrow> Some (Inl ''Case not found.'')
     | Some d \<Rightarrow> (case get_transaction (di_transaction d) s of None \<Rightarrow> Some (Inl ''Case not found.'')
       | Some t \<Rightarrow> (case (summary_of s (d, t), summarize d) of
           (Some summary, Some facts) \<Rightarrow> Some (Inr \<lparr>cd_summary = summary, cd_facts = facts, cd_buyer_stats = buyer_stats (tx_buyer t) s,
             cd_seller_stats = seller_stats (tx_seller t) s,
             cd_escalation_reason = (case dict_get ''reason'' (escalation_of (di_evidence d)) of None \<Rightarrow> JNull | Some j \<Rightarrow> j),
             cd_decided_by = Option.bind (di_decided_by d) (\<lambda>u. map_option u_name (get_user u s)),
             cd_timeline = sort_key ce_at (case_events d t s)\<rparr>)
         | _ \<Rightarrow> None)))"

definition seller_share_of :: "dispute \<Rightarrow> ratio4 option" where
  "seller_share_of d = (if di_admin_decision d = Some SPLIT then di_split_ratio d else None)"

section \<open>The search\<close>

record order_search =
  se_text :: "string option"
  se_statuses :: "tx_status list"
  se_placed_from :: "int option"
  se_placed_to :: "int option"
  se_min_amount :: "cents option"
  se_max_amount :: "cents option"
  se_serialized :: "bool option"
  se_page :: nat
  se_page_size :: nat

record search_row =
  sr_transaction :: transaction
  sr_listing :: listing
  sr_buyer :: user
  sr_seller :: user
  sr_last_event :: "(string \<times> time) option"
  sr_dispute :: "uuid option"

definition eat_start :: "int \<Rightarrow> time" where "eat_start day = days day - hours 3"

text \<open>Python's first and last date: the day before the first and after the last do not exist.\<close>

definition FIRST_DATE :: int where "FIRST_DATE = - 719162"
definition LAST_DATE :: int where "LAST_DATE = 2932896"

definition dates_overflow :: "order_search \<Rightarrow> bool" where
  "dates_overflow q = (se_placed_from q = Some FIRST_DATE \<or> se_placed_to q = Some LAST_DATE)"

definition ends_with :: "string \<Rightarrow> string \<Rightarrow> bool" where
  "ends_with tail v = (length tail \<le> length v \<and> drop (length v - length tail) v = tail)"

definition matches_search :: "string \<Rightarrow> transaction \<Rightarrow> listing \<Rightarrow> user \<Rightarrow> user \<Rightarrow> bool" where
  "matches_search needle t l b v = (let lowered = py_lower needle; digits = filter ascii_digit needle;
       tail = drop (length digits - 9) digits in
     needle = '''' \<or> occurs_in lowered (py_lower (tx_reference t)) \<or> occurs_in lowered (py_lower (u_name v)) \<or>
     occurs_in lowered (py_lower (l_title l)) \<or> (case l_unique_id l of None \<Rightarrow> False | Some i \<Rightarrow> occurs_in lowered (py_lower i)) \<or>
     (6 \<le> length digits \<and> (ends_with tail (u_phone b) \<or> ends_with tail (u_phone v))))"

definition found_by :: "order_search \<Rightarrow> transaction \<Rightarrow> listing \<Rightarrow> user \<Rightarrow> user \<Rightarrow> bool" where
  "found_by q t l b v = (matches_search (strip (or_text [se_text q] '''')) t l b v \<and>
     (se_statuses q = [] \<or> tx_status t \<in> set (se_statuses q)) \<and>
     (case se_placed_from q of None \<Rightarrow> True | Some d \<Rightarrow> eat_start d \<le> tx_created_at t) \<and>
     (case se_placed_to q of None \<Rightarrow> True | Some d \<Rightarrow> tx_created_at t < eat_start (d + 1)) \<and>
     (case se_min_amount q of None \<Rightarrow> True | Some a \<Rightarrow> a \<le> tx_amount t) \<and> (case se_max_amount q of None \<Rightarrow> True | Some a \<Rightarrow> tx_amount t \<le> a) \<and>
     (case se_serialized q of None \<Rightarrow> True | Some b \<Rightarrow> l_is_serialized l = b))"

definition last_event :: "transaction \<Rightarrow> db \<Rightarrow> (string \<times> time) option" where
  "last_event t s = map_option (\<lambda>n. (n_title n, n_created_at n))
     (newest n_created_at (filter (\<lambda>n. n_transaction n = tx_id t \<and> n_user n = tx_seller t) (d_notifications s)))"

definition search_row_of :: "db \<Rightarrow> transaction \<Rightarrow> search_row option" where
  "search_row_of s t = (case (get_listing (tx_listing t) s, get_user (tx_buyer t) s, get_user (tx_seller t) s) of
       (Some l, Some b, Some v) \<Rightarrow> Some \<lparr>sr_transaction = t, sr_listing = l, sr_buyer = b, sr_seller = v, sr_last_event = last_event t s,
         sr_dispute = map_option di_id (latest_dispute (tx_id t) s)\<rparr>
     | _ \<Rightarrow> None)"

definition search_hits :: "order_search \<Rightarrow> db \<Rightarrow> search_row list" where
  "search_hits q s = filter (\<lambda>r. found_by q (sr_transaction r) (sr_listing r) (sr_buyer r) (sr_seller r))
     (List.map_filter (search_row_of s) (rev (sort_key (\<lambda>t. (tx_created_at t, tx_id t)) (d_transactions s))))"

definition search_transactions :: "order_search \<Rightarrow> db \<Rightarrow> (search_row list \<times> nat) option" where
  "search_transactions q s = (if dates_overflow q then None
     else Some (page_slice (se_page q) (se_page_size q) (search_hits q s), length (search_hits q s)))"

section \<open>What the answers show\<close>

record case_row =
  cr_dispute_id :: uuid
  cr_transaction_id :: uuid
  cr_reference :: string
  cr_amount :: cents
  cr_item_title :: string
  cr_buyer_name :: string
  cr_seller_name :: string
  cr_category :: string
  cr_trigger :: "case_trigger option"
  cr_escalated_by :: "string option"
  cr_dispute_status :: dispute_status
  cr_transaction_status :: tx_status
  cr_admin_decision :: "admin_decision option"
  cr_opened_at :: time
  cr_escalated_at :: "time option"
  cr_resolved_at :: "time option"

definition case_row_of :: "case_summary \<Rightarrow> case_row" where
  "case_row_of c = (let d = cs_dispute c; t = cs_transaction c in
     \<lparr>cr_dispute_id = di_id d, cr_transaction_id = tx_id t, cr_reference = tx_reference t, cr_amount = tx_amount t,
      cr_item_title = l_title (cs_listing c), cr_buyer_name = u_name (cs_buyer c), cr_seller_name = u_name (cs_seller c),
      cr_category = di_reason d, cr_trigger = cs_trigger c, cr_escalated_by = cs_escalated_by c, cr_dispute_status = di_status d,
      cr_transaction_status = tx_status t, cr_admin_decision = di_admin_decision d, cr_opened_at = di_opened_at d,
      cr_escalated_at = di_escalated_at d, cr_resolved_at = di_resolved_at d\<rparr>)"

record case_list_answer =
  ca_items :: "case_row list"
  ca_total :: nat
  ca_page :: nat
  ca_page_size :: nat
  ca_counters :: case_counters

definition case_list_answer_of :: "case_page \<Rightarrow> case_list_answer" where
  "case_list_answer_of p = \<lparr>ca_items = map case_row_of (cp_items p), ca_total = cp_total p, ca_page = cp_page p,
     ca_page_size = cp_page_size p, ca_counters = cp_counters p\<rparr>"

record case_party =
  cy_name :: string
  cy_phone :: string
  cy_stats :: party_stats

record case_decision =
  cn_decision :: admin_decision
  cn_reason :: "string option"
  cn_seller_share :: "ratio4 option"
  cn_decided_by :: "string option"
  cn_decided_at :: "time option"

record case_detail_answer =
  ct_row :: case_row
  ct_description :: string
  ct_unique_id :: "string option"
  ct_is_serialized :: bool
  ct_dispute_policy :: dict
  ct_buyer :: case_party
  ct_seller :: case_party
  ct_seller_action :: "seller_action option"
  ct_seller_notes :: "string option"
  ct_buyer_notes :: "string option"
  ct_reconfirm_rejections :: int
  ct_escalation_reason :: "string option"
  ct_decision :: "case_decision option"
  ct_timeline :: "(time \<times> string \<times> string \<times> string) list"

text \<open>The answer is validated: a note, a reason or a message that is not a text is an exception too.\<close>

definition text_or_null :: "string json \<Rightarrow> string option option" where
  "text_or_null j = (case j of JNull \<Rightarrow> Some None | JStr v \<Rightarrow> Some (Some v) | _ \<Rightarrow> None)"

definition event_shown :: "case_event \<Rightarrow> (time \<times> string \<times> string \<times> string) option" where
  "event_shown e = (case ce_message e of JStr v \<Rightarrow> Some (ce_at e, ce_title e, v, ce_source e) | _ \<Rightarrow> None)"

definition case_detail_of :: "case_detail \<Rightarrow> case_detail_answer option" where
  "case_detail_of c = (let s = cd_summary c; d = cs_dispute s; l = cs_listing s; b = cs_buyer s; v = cs_seller s in
     (case (text_or_null (ds_buyer_notes (cd_facts c)), text_or_null (cd_escalation_reason c), those (map event_shown (cd_timeline c))) of
       (Some buyer_notes, Some why, Some steps) \<Rightarrow> Some \<lparr>ct_row = case_row_of s, ct_description = di_description d,
         ct_unique_id = l_unique_id l, ct_is_serialized = l_is_serialized l, ct_dispute_policy = l_dispute_policy l,
         ct_buyer = \<lparr>cy_name = u_name b, cy_phone = u_phone b, cy_stats = cd_buyer_stats c\<rparr>,
         ct_seller = \<lparr>cy_name = u_name v, cy_phone = u_phone v, cy_stats = cd_seller_stats c\<rparr>,
         ct_seller_action = ds_seller_action (cd_facts c), ct_seller_notes = ds_seller_notes (cd_facts c), ct_buyer_notes = buyer_notes,
         ct_reconfirm_rejections = ds_reconfirm_rejections (cd_facts c), ct_escalation_reason = why,
         ct_decision = map_option (\<lambda>dec. \<lparr>cn_decision = dec, cn_reason = di_admin_reason d, cn_seller_share = seller_share_of d,
           cn_decided_by = cd_decided_by c, cn_decided_at = di_resolved_at d\<rparr>) (di_admin_decision d),
         ct_timeline = steps\<rparr>
     | _ \<Rightarrow> None))"

record found_order =
  fo_transaction_id :: uuid
  fo_reference :: string
  fo_status :: tx_status
  fo_amount :: cents
  fo_item_title :: string
  fo_is_serialized :: bool
  fo_buyer :: "string \<times> string"
  fo_seller :: "string \<times> string"
  fo_created_at :: time
  fo_last_event :: "(string \<times> time) option"
  fo_dispute_id :: "uuid option"

definition found_order_of :: "search_row \<Rightarrow> found_order" where
  "found_order_of r = (let t = sr_transaction r in
     \<lparr>fo_transaction_id = tx_id t, fo_reference = tx_reference t, fo_status = tx_status t, fo_amount = tx_amount t,
      fo_item_title = l_title (sr_listing r), fo_is_serialized = l_is_serialized (sr_listing r),
      fo_buyer = (u_name (sr_buyer r), u_phone (sr_buyer r)), fo_seller = (u_name (sr_seller r), u_phone (sr_seller r)),
      fo_created_at = tx_created_at t, fo_last_event = sr_last_event r, fo_dispute_id = sr_dispute r\<rparr>)"

section \<open>The routes\<close>

datatype console_content = Cases case_list_answer | One_case case_detail_answer | Found "found_order list" nat nat nat

definition paged :: "nat \<Rightarrow> nat \<Rightarrow> string list" where
  "paged page psize = fails ''page'' (page < 1 \<or> 10000 < page) @ fails ''page_size'' (psize < 1 \<or> 100 < psize)"

definition list_cases :: "env \<Rightarrow> case_filter \<Rightarrow> nat \<Rightarrow> nat \<Rightarrow> signed_in \<Rightarrow> db \<Rightarrow> db \<times> console_content answer option" where
  "list_cases E f page psize ctx = guarded (require_admin_user ctx) (\<lambda>u. validated (paged page psize) (\<lambda>s.
     (s, map_option (\<lambda>p. ok 200 (Cases (case_list_answer_of p))) (list_admin_cases f page psize (e_now E) s))))"

definition get_case :: "uuid \<Rightarrow> signed_in \<Rightarrow> db \<Rightarrow> db \<times> console_content answer option" where
  "get_case i ctx = guarded (require_admin_user ctx) (\<lambda>u s. (s, case get_admin_case i s of None \<Rightarrow> None
     | Some (Inl m) \<Rightarrow> Some (refuse 404 ''Case not found.'')
     | Some (Inr c) \<Rightarrow> map_option (\<lambda>a. ok 200 (One_case a)) (case_detail_of c)))"

definition invalid_search :: "order_search \<Rightarrow> string list" where
  "invalid_search q = fails ''q'' (too_long 80 (se_text q)) @
     fails ''min_amount'' (case se_min_amount q of None \<Rightarrow> False | Some a \<Rightarrow> a < 0) @
     fails ''max_amount'' (case se_max_amount q of None \<Rightarrow> False | Some a \<Rightarrow> a < 0) @ paged (se_page q) (se_page_size q)"

definition search :: "order_search \<Rightarrow> signed_in \<Rightarrow> db \<Rightarrow> db \<times> console_content answer option" where
  "search q ctx = guarded (require_admin_user ctx) (\<lambda>u. validated (invalid_search q) (\<lambda>s.
     (s, map_option (\<lambda>(items, n). ok 200 (Found (map found_order_of items) n (se_page q) (se_page_size q))) (search_transactions q s))))"

end
