(* ===== verification/Reading_Guarantees.thy ===== *)
theory Reading_Guarantees
  imports Public_Orders Support_Console Account_Guarantees
begin

text \<open>
  What the reading routes show and what they hide: strangers, message texts, the other side's money, the
  order lists against the orders, the public link, and the answers that a dispute's evidence can spoil.
\<close>

section \<open>What an order's page hides\<close>



text \<open>Who sees an order is read off three tables.\<close>

lemma view_cong:
  assumes "d_transactions s' = d_transactions s" and "d_listings s' = d_listings s" and "d_users s' = d_users s"
  shows "get_transaction_for_viewer tid u s' = get_transaction_for_viewer tid u s"
  unfolding get_transaction_for_viewer_def get_transaction_def get_listing_def get_user_def assms ..

text \<open>What of a notification the timeline reads.\<close>

definition heading :: "notification \<Rightarrow> uuid \<times> uuid \<times> event_type \<times> string \<times> time" where
  "heading n = (n_user n, n_transaction n, n_event n, n_title n, n_created_at n)"

lemma sort_map: "sort_key k (map f xs) = map f (sort_key (\<lambda>x. k (f x)) xs)"
proof -
  have ins: "insort_key k (f x) (map f ys) = map f (insort_key (\<lambda>x. k (f x)) x ys)" for x ys by (induction ys) auto
  show ?thesis by (induction xs) (auto simp: ins)
qed

lemma steps_of_headings:
  "map (timeline_step_of role) (sort_key n_created_at (filter (\<lambda>n. n_user n = owner) (filter (\<lambda>n. n_transaction n = tid) ns))) =
   map (\<lambda>(u, i, ev, title, at). let p = step_text title (event_type_value ev) role in
       \<lparr>ts_kind = event_type_value ev, ts_at = at, ts_title = fst p, ts_description = snd p\<rparr>)
     (sort_key (\<lambda>(u, i, ev, title, at). at) (filter (\<lambda>(u, i, ev, title, at). u = owner) (filter (\<lambda>(u, i, ev, title, at). i = tid) (map heading ns))))"
  by (simp add: filter_map sort_map o_def heading_def timeline_step_of_def Let_def)

text \<open>The timeline never shows what a notification says: two databases whose notifications differ only in
  their messages, their payloads and their delivery marks give every reader the same timeline. (The
  buyer's arrival message holds the delivery code.)\<close>

lemma timeline_hides_messages:
  assumes "map heading ns = map heading (d_notifications s)"
  shows "snd (get_timeline tid ctx (s\<lparr>d_notifications := ns\<rparr>)) = snd (get_timeline tid ctx s)"
proof -
  have view: "get_transaction_for_viewer tid u (s\<lparr>d_notifications := ns\<rparr>) = get_transaction_for_viewer tid u s" for u
    by (rule view_cong) simp_all
  have "map (timeline_step_of r) (sort_key n_created_at (filter (\<lambda>n. n_user n = owner) (filter (\<lambda>n. n_transaction n = tid) ns))) =
      map (timeline_step_of r) (sort_key n_created_at (filter (\<lambda>n. n_user n = owner) (filter (\<lambda>n. n_transaction n = tid) (d_notifications s))))"
    for r owner
    unfolding steps_of_headings assms ..
  then show ?thesis
    by (cases "get_current_user ctx :: page_content Http.answer + user")
      (simp_all add: get_timeline_def get_transaction_timeline_def guarded_def view del: filter_filter)
qed

text \<open>
  The two sides are kept apart: the seller's page does not depend on any payment prompt, the buyer's on no
  payout attempt.
\<close>

lemma detail_payment: "tv_viewer_role v = SELLER \<Longrightarrow> from_view E v a p d = from_view E v b p d"
  and detail_payout: "tv_viewer_role v = BUYER \<Longrightarrow> from_view E v a p d = from_view E v a q d"
  by (simp_all add: from_view_def Let_def)

lemma view_role: "get_transaction_for_viewer tid u s = Inr v \<Longrightarrow>
    get_transaction tid s = Some (tv_transaction v) \<and> viewer_role u (tv_transaction v) = Some (tv_viewer_role v)"
  by (auto simp: get_transaction_for_viewer_def split: option.splits)

lemma dispute_shown_cong: "d_disputes s' = d_disputes s \<Longrightarrow> dispute_shown tid s' = dispute_shown tid s"
  by (simp add: dispute_shown_def dispute_summary_def latest_dispute_def)

lemma seller_sees_no_prompt:
  assumes "get_transaction tid s = Some t" and "viewer_role u t = Some SELLER"
  shows "snd (get_transaction_page E stamp tid (Some (u, x)) (s\<lparr>d_prompts := ps\<rparr>)) = snd (get_transaction_page E stamp tid (Some (u, x)) s)"
proof -
  have view: "get_transaction_for_viewer tid u (s\<lparr>d_prompts := ps\<rparr>) = get_transaction_for_viewer tid u s"
    by (rule view_cong) simp_all
  have payout: "seller_payout stamp t (s\<lparr>d_prompts := ps\<rparr>) = seller_payout stamp t s" for t
    by (simp add: seller_payout_def release_attempts_def get_escrow_def)
  have shown: "dispute_shown i (s\<lparr>d_prompts := ps\<rparr>) = dispute_shown i s" for i by (rule dispute_shown_cong) simp
  have role: "tv_viewer_role v = SELLER" if "get_transaction_for_viewer tid u s = Inr v" for v
    using view_role [OF that] assms by simp
  show ?thesis
    by (cases "get_transaction_for_viewer tid u s")
      (simp_all add: get_transaction_page_def guarded_def get_current_user_def view detail_of_def payout shown Let_def
        detail_payment [OF role, of _ E "payment_instruction_for E _ _" _ _ None])
qed

lemma buyer_sees_no_payout:
  assumes "get_transaction tid s = Some t" and "viewer_role u t = Some BUYER"
  shows "snd (get_transaction_page E stamp tid (Some (u, x)) (s\<lparr>d_payouts := ps\<rparr>)) = snd (get_transaction_page E stamp tid (Some (u, x)) s)"
proof -
  have view: "get_transaction_for_viewer tid u (s\<lparr>d_payouts := ps\<rparr>) = get_transaction_for_viewer tid u s"
    by (rule view_cong) simp_all
  have payment: "payment_instruction_for E i (s\<lparr>d_payouts := ps\<rparr>) = payment_instruction_for E i s" for i
    by (simp add: payment_instruction_for_def latest_payment_prompt_def)
  have shown: "dispute_shown i (s\<lparr>d_payouts := ps\<rparr>) = dispute_shown i s" for i by (rule dispute_shown_cong) simp
  have role: "tv_viewer_role v = BUYER" if "get_transaction_for_viewer tid u s = Inr v" for v
    using view_role [OF that] assms by simp
  show ?thesis
    by (cases "get_transaction_for_viewer tid u s")
      (simp_all add: get_transaction_page_def guarded_def get_current_user_def view detail_of_def payment shown Let_def role)
qed

text \<open>
  The count of the rejections is read from the evidence the buyer sent with the report: a text that is no
  number makes every page of the order fail, for the seller and for the admins too.
\<close>

lemma spoiled_page:
  assumes "latest_dispute tid s = Some d" and "dict_get ''buyer_reconfirm_rejection_count'' (di_evidence d) = Some (JStr v)"
    and "v \<noteq> ''''" and "read_int v = None" and "get_transaction_for_viewer tid u s = Inr w"
  shows "get_transaction_page E stamp tid (Some (u, x)) s = (s, None)"
proof -
  have "tx_id (tv_transaction w) = tid"
    using view_role [OF assms(5)] by (auto simp: get_transaction_def dest: row_get_SomeD)
  then have "detail_of E stamp w s = None"
    using assms(1-4) by (simp add: detail_of_def dispute_shown_def dispute_summary_def summarize_def evidence_or_def int_of_json_def Let_def)
  then show ?thesis by (simp add: get_transaction_page_def guarded_def get_current_user_def assms(5))
qed

text \<open>C29: One report can close the support queue: when the evidence a buyer sent holds a text where the server
  keeps its count of rejections, and the case reaches support because a deadline passed, every page of the
  queue that would show the case is an unhandled exception for every administrator, and so is the case
  itself.\<close>

lemma spoiled_report_blocks_queue:
  assumes "(d, t) \<in> set (page_slice page psize (chosen_cases f s))" and "di_escalated_at d \<noteq> None"
    and "dict_get ''escalation'' (di_evidence d) = None" and "di_reason d \<noteq> ''other''"
    and "dict_get ''buyer_reconfirm_rejection_count'' (di_evidence d) = Some (JStr v)" and "v \<noteq> ''''" and "read_int v = None"
    and "paged page psize = []" and "u_role u = ADMIN" and "get_dispute (di_id d) s = Some d" and "get_transaction (di_transaction d) s = Some t"
  shows "list_cases E f page psize (Some (u, x)) s = (s, None) \<and> get_case (di_id d) (Some (u, x)) s = (s, None)"
proof -
  have "case_trigger d = None"
    using assms(2-7) by (auto simp: case_trigger_def escalated_by_def evidence_or_def int_of_json_def)
  then have none: "summary_of s (d, t) = None" by (simp add: summary_of_def)
  have "r \<in> set rows \<Longrightarrow> g r = None \<Longrightarrow> those (map g rows) = None" for g :: "dispute \<times> transaction \<Rightarrow> case_summary option" and r rows
    by (induction rows) (auto split: option.split)
  from this [OF assms(1), of "summary_of s", OF none] have "list_admin_cases f page psize (e_now E) s = None"
    by (simp add: list_admin_cases_def summaries_def Let_def)
  moreover have "get_admin_case (di_id d) s = None" using assms(10,11) none by (simp add: get_admin_case_def)
  ultimately show ?thesis using assms(8,9)
    by (simp add: list_cases_def get_case_def guarded_def require_admin_user_def require_role_def get_current_user_def bindE_def validated_def)
qed

definition spoiled_case :: dispute where
  "spoiled_case = (sample_dispute D_ESCALATED_ADMIN_REVIEW [(''buyer_reconfirm_rejection_count'', JStr ''x'')])\<lparr>di_escalated_at := Some 5\<rparr>"

definition spoiled_db :: db where "spoiled_db = sample_db True [sample_order 10 ESCALATED_ADMIN_REVIEW] [spoiled_case]"

lemma spoiled: "page_slice 1 25 (chosen_cases OPEN_CASES spoiled_db) = [(spoiled_case, sample_order 10 ESCALATED_ADMIN_REVIEW)]"
  "get_dispute (di_id spoiled_case) spoiled_db = Some spoiled_case"
  "get_transaction (di_transaction spoiled_case) spoiled_db = Some (sample_order 10 ESCALATED_ADMIN_REVIEW)" "read_int ''x'' = None"
  by code_simp+

lemma spoiled_evidence: "di_escalated_at spoiled_case \<noteq> None" "dict_get ''escalation'' (di_evidence spoiled_case) = None"
  "di_reason spoiled_case \<noteq> ''other''" "dict_get ''buyer_reconfirm_rejection_count'' (di_evidence spoiled_case) = Some (JStr ''x'')"
  by (simp_all add: spoiled_case_def sample_dispute_def dict_get_def)

lemma spoiled_report_blocks_queue_witness:
  "list_cases (sample_env 7) OPEN_CASES 1 25 (Some (sample_user 9 ''0700000009'' ADMIN, sample_session 1 ''t'')) spoiled_db = (spoiled_db, None)"
proof -
  have "(spoiled_case, sample_order 10 ESCALATED_ADMIN_REVIEW) \<in> set (page_slice 1 25 (chosen_cases OPEN_CASES spoiled_db))"
    unfolding spoiled(1) by (rule list.set_intros(1))
  from spoiled_report_blocks_queue [OF this spoiled_evidence _ spoiled(4) _ _ spoiled(2,3), THEN conjunct1]
  show ?thesis by (simp add: paged_def fails_def sample_user_def)
qed

section \<open>The public link\<close>

text \<open>C26: Order links cannot be guessed quickly: however many requests arrive, in the order of their times, at most
  thirty of one client are looked up in any sixty seconds.\<close>

lemma public_lookups_bounded:
  assumes "sorted (map snd qs)"
  shows "length (filter (\<lambda>x. t - LOOKUP_WINDOW < x \<and> x \<le> t) (passed c qs (\<lambda>_. []))) \<le> LOOKUPS_PER_MINUTE"
proof (cases qs)
  case (Cons q rest)
  have "within_quota ([] @ passed c qs (\<lambda>_. []))"
    by (rule passed_within_quota [where D = "[]" and ?t0.0 = "snd q"]) (use assms in \<open>auto simp: within_quota_def Cons\<close>)
  then show ?thesis by (simp add: within_quota_def)
qed simp

lemma public_lookups_bounded_witness:
  "length (filter (\<lambda>x. 60000000 - LOOKUP_WINDOW < x \<and> x \<le> 60000000) (passed ''a'' [(''a'', 1), (''b'', 2), (''a'', 3)] (\<lambda>_. []))) \<le> LOOKUPS_PER_MINUTE"
  by (rule public_lookups_bounded) simp

section \<open>The lists and the orders\<close>

lemma newest_last: "xs \<noteq> [] \<Longrightarrow> newest k xs = Some (last (filter (\<lambda>y. k y = Max (k ` set xs)) xs))"
proof (induction xs rule: rev_induct)
  case (snoc x xs)
  have step: "newest k (xs @ [x]) = (case newest k xs of None \<Rightarrow> Some x | Some b \<Rightarrow> if k b \<le> k x then Some x else newest k xs)"
    by (simp add: newest_def split: option.split)
  show ?case
  proof (cases "xs = []")
    case False
    let ?m = "Max (k ` set xs)"
    have "?m \<in> k ` set xs" using False by (intro Max_in) auto
    then obtain b where b: "b \<in> set xs" "k b = ?m" by auto
    have "filter (\<lambda>y. k y = ?m) xs \<noteq> []" using b by (auto simp: filter_empty_conv)
    then have last: "k (last (filter (\<lambda>y. k y = ?m) xs)) = ?m" using last_in_set by fastforce
    have max: "Max (insert (k x) (k ` set xs)) = max (k x) ?m" using False by simp
    have small: "k y \<le> ?m" if "y \<in> set xs" for y using that by simp
    show ?thesis
    proof (cases "?m \<le> k x")
      case True
      then show ?thesis using snoc.IH [OF False] last by (simp add: step max max_def)
    next
      case less: False
      then show ?thesis using snoc.IH [OF False] last by (simp add: step max max_def)
    qed
  qed (simp add: newest_def)
qed simp

lemma sort_key_Nil [simp]: "sort_key k xs = [] \<longleftrightarrow> xs = []"
  by (metis set_empty set_sort)

lemma newest_sorted: "newest k (sort_key k xs) = newest k xs"
  by (cases "xs = []") (simp_all add: newest_last sort_key_stable)

lemma newest_of_sorted:
  assumes "sorted (map k ys)" and "ys \<noteq> []"
  shows "newest k ys = Some (last ys)"
proof -
  obtain zs z where ys: "ys = zs @ [z]" using assms(2) by (cases ys rule: rev_cases) auto
  have "\<forall>y \<in> set zs. k y \<le> k z" using assms(1) by (simp add: ys sorted_append)
  then have "Max (k ` set ys) = k z" by (intro Max_eqI) (auto simp: ys)
  then show ?thesis using assms(2) by (simp add: newest_last ys)
qed

lemma last_written: "fold (\<lambda>d m. m(g d \<mapsto> h d)) ys m i = (if filter (\<lambda>d. g d = i) ys = [] then m i else Some (h (last (filter (\<lambda>d. g d = i) ys))))"
  by (induction ys rule: rev_induct) auto

text \<open>The category of an order in a list is that of the dispute on its page.\<close>

lemma list_and_page_agree:
  assumes "tid \<in> ids"
  shows "latest_categories ids s tid = map_option di_reason (latest_dispute tid s)"
proof -
  let ?of = "filter (\<lambda>d. di_transaction d = tid)"
  let ?sorted = "sort_key di_created_at (?of (d_disputes s))"
  have "?of (sort_key di_created_at (filter (\<lambda>d. di_transaction d \<in> ids) (d_disputes s))) = ?sorted"
    using assms by (simp add: filter_sort conj_commute cong: conj_cong)
  moreover have "newest di_created_at (?of (d_disputes s)) = (if ?sorted = [] then None else Some (last ?sorted))"
    using newest_of_sorted [of di_created_at ?sorted] by (cases "?sorted = []") (simp_all add: newest_sorted)
  ultimately show ?thesis by (simp add: latest_categories_def latest_dispute_def last_written)
qed















definition two_orders :: db where "two_orders = sample_db True [sample_order 10 LOCKED, sample_order 11 LOCKED] []"




definition sample_notice :: "string \<Rightarrow> notification" where
  "sample_notice msg = \<lparr>n_id = 40, n_user = 1, n_transaction = 10, n_event = DELIVERY_ARRIVED, n_channel = IN_APP, n_title = ''Delivery arrived'',
     n_message = msg, n_payload = [], n_is_read = False, n_read_at = None, n_delivered_at = None, n_delivery_status = NOT_ATTEMPTED, n_created_at = 5\<rparr>"

lemma timeline_hides_messages_witness:
  "snd (get_timeline 10 (Some (sample_buyer, sample_session 1 ''t'')) (two_orders\<lparr>d_notifications := [sample_notice ''code 123456'']\<rparr>)) =
   snd (get_timeline 10 (Some (sample_buyer, sample_session 1 ''t'')) (two_orders\<lparr>d_notifications := [sample_notice '''']\<rparr>))"
  using timeline_hides_messages [of "[sample_notice ''code 123456'']" "two_orders\<lparr>d_notifications := [sample_notice '''']\<rparr>"]
  by (simp add: heading_def sample_notice_def)

end
