(* ===== verification/Repairs.thy ===== *)
theory Repairs
  imports Notices
begin

text \<open>
  The repair jobs of the command line (services/funding_ledger_repair.py, return_case_repair.py): each
  lists the rows that are out of step and, asked to apply, mends those it may. \<open>repair_job\<close> is what the
  two have in common.
\<close>

section \<open>A repair job\<close>

lemma map_filter_eq: "(\<And>x. x \<in> set xs \<Longrightarrow> f x = g x) \<Longrightarrow> List.map_filter f xs = List.map_filter g xs"
  by (induction xs) (auto simp: List.map_filter_def)

text \<open>
  \<open>item s r\<close> is what is listed for the row \<open>r\<close>. Mending a listed row leaves nothing listed for it and
  keeps what is listed for the others; \<open>ready\<close> says that a row has not been mended before.
\<close>

locale repair_job =
  fixes rows :: "'s \<Rightarrow> 'r list"
    and item :: "'s \<Rightarrow> 'r \<Rightarrow> 'g option"
    and fixable :: "'g \<Rightarrow> bool"
    and mend :: "'g \<Rightarrow> 's \<Rightarrow> 'e + 's"
    and good :: "'s \<Rightarrow> bool"
    and ready :: "'s \<Rightarrow> 'r \<Rightarrow> bool"
  assumes rows_distinct: "good s \<Longrightarrow> distinct (rows s)"
    and mend_row: "good s \<Longrightarrow> r \<in> set (rows s) \<Longrightarrow> ready s r \<Longrightarrow> item s r = Some g \<Longrightarrow> fixable g \<Longrightarrow> mend g s = Inr s' \<Longrightarrow>
      good s' \<and> rows s' = rows s \<and> item s' r = None \<and>
      (\<forall>q \<in> set (rows s). q \<noteq> r \<longrightarrow> item s' q = item s q \<and> (ready s q \<longrightarrow> ready s' q))"
    and skip: "\<not> fixable g \<Longrightarrow> mend g s = Inr s"
begin

definition listed :: "'s \<Rightarrow> 'g list" where
  "listed s = List.map_filter (item s) (rows s)"

definition left :: "'g option \<Rightarrow> 'g option" where
  "left x = (case x of None \<Rightarrow> None | Some g \<Rightarrow> if fixable g then None else Some g)"

lemma mend_rows:
  assumes "foldE mend (List.map_filter (item s0) xs) s = Inr s'" and "good s" and "distinct xs" and "set xs \<subseteq> set (rows s)"
    and "\<forall>r \<in> set xs. ready s r \<and> item s r = item s0 r"
  shows "good s' \<and> rows s' = rows s \<and> (\<forall>r \<in> set xs. item s' r = left (item s0 r)) \<and>
    (\<forall>r \<in> set (rows s) - set xs. item s' r = item s r)"
  using assms
proof (induction xs arbitrary: s)
  case Nil
  then show ?case by (simp add: List.map_filter_def)
next
  case (Cons x xs)
  show ?case
  proof (cases "item s0 x")
    case None
    with Cons.prems have "foldE mend (List.map_filter (item s0) xs) s = Inr s'" by (simp add: List.map_filter_def)
    then have "good s' \<and> rows s' = rows s \<and> (\<forall>r \<in> set xs. item s' r = left (item s0 r)) \<and>
        (\<forall>r \<in> set (rows s) - set xs. item s' r = item s r)"
      using Cons.prems by (intro Cons.IH) auto
    then show ?thesis using Cons.prems None by (auto simp: left_def)
  next
    case (Some g)
    with Cons.prems obtain s1 where step: "mend g s = Inr s1" and run: "foldE mend (List.map_filter (item s0) xs) s1 = Inr s'"
      by (auto simp: List.map_filter_def bindE_eq_Inr)
    have one: "good s1 \<and> rows s1 = rows s \<and> item s1 x = left (item s0 x) \<and>
        (\<forall>q \<in> set (rows s). q \<noteq> x \<longrightarrow> item s1 q = item s q \<and> (ready s q \<longrightarrow> ready s1 q))"
    proof (cases "fixable g")
      case True
      then show ?thesis using mend_row [of s x g s1] Cons.prems step Some by (simp add: left_def)
    next
      case False
      then show ?thesis using skip [of g s] Cons.prems step Some by (simp add: left_def)
    qed
    have "good s' \<and> rows s' = rows s1 \<and> (\<forall>r \<in> set xs. item s' r = left (item s0 r)) \<and>
        (\<forall>r \<in> set (rows s1) - set xs. item s' r = item s1 r)"
    proof (rule Cons.IH [OF run])
      show "\<forall>r \<in> set xs. ready s1 r \<and> item s1 r = item s0 r" using Cons.prems one by (metis distinct.simps(2) list.set_intros(2) subsetD)
    qed (use Cons.prems one in auto)
    then show ?thesis using one Cons.prems by auto
  qed
qed

lemma map_filter_left: "List.map_filter (\<lambda>r. left (f r)) xs = filter (\<lambda>g. \<not> fixable g) (List.map_filter f xs)"
  by (induction xs) (auto simp: List.map_filter_def left_def split: option.split)

text \<open>What a run leaves is what it may not mend, and a second run does nothing.\<close>

lemma run_mends:
  assumes "foldE mend (listed s) s = Inr s'" and "good s" and "\<forall>r \<in> set (rows s). ready s r"
  shows "listed s' = filter (\<lambda>g. \<not> fixable g) (listed s)" and "rows s' = rows s"
proof -
  have all: "rows s' = rows s \<and> (\<forall>r \<in> set (rows s). item s' r = left (item s r))"
    using mend_rows [of s "rows s" s s'] assms rows_distinct by (simp add: listed_def)
  then have "List.map_filter (item s') (rows s) = List.map_filter (\<lambda>r. left (item s r)) (rows s)"
    by (intro map_filter_eq) simp
  then show "listed s' = filter (\<lambda>g. \<not> fixable g) (listed s)" using all by (simp add: listed_def map_filter_left)
  show "rows s' = rows s" using all by simp
qed

lemma nothing_left:
  assumes "\<forall>g \<in> set gs. \<not> fixable g"
  shows "foldE mend gs s = Inr s"
  using assms by (induction gs) (simp_all add: skip)

end

section \<open>Funding that never reached the ledger\<close>

datatype repair_action = POST | ESCALATE | CLOSE | REVIEW

record funding_gap =
  fg_escrow :: uuid
  fg_transaction :: uuid
  fg_custody_provider :: "string option"
  fg_funded_amount :: cents
  fg_ledger_funded :: cents
  fg_action :: repair_action

definition missing :: "funding_gap \<Rightarrow> cents" where
  "missing g = fg_funded_amount g - fg_ledger_funded g"

definition escrow_held_funded :: "db \<Rightarrow> uuid \<Rightarrow> cents" where
  "escrow_held_funded s i = sum_list (map le_amount
     (filter (\<lambda>e. le_escrow e = i \<and> le_account_code e = ESCROW_HELD_ACCOUNT \<and> le_side e = DEBIT) (d_ledger s)))"

definition gap_of :: "db \<Rightarrow> escrow \<Rightarrow> funding_gap option" where
  "gap_of s e = (let on_ledger = escrow_held_funded s (es_id e) in if on_ledger = es_funded_amount e then None
     else Some \<lparr>fg_escrow = es_id e, fg_transaction = es_transaction e, fg_custody_provider = es_custody_provider e,
       fg_funded_amount = es_funded_amount e, fg_ledger_funded = on_ledger,
       fg_action = (if on_ledger < es_funded_amount e then POST else REVIEW)\<rparr>)"

definition funded_escrows :: "db \<Rightarrow> escrow list" where
  "funded_escrows s = sort_key es_created_at (filter (\<lambda>e. 0 < es_funded_amount e) (d_escrows s))"

definition find_funding_ledger_gaps :: "db \<Rightarrow> funding_gap list" where
  "find_funding_ledger_gaps s = List.map_filter (gap_of s) (funded_escrows s)"

definition repair_key :: "uuid \<Rightarrow> string" where
  "repair_key i = ''repair-funding:'' @ uuid_str i"

definition repair_currency :: "uuid \<Rightarrow> db \<Rightarrow> string" where
  "repair_currency i s = (case get_escrow i s of None \<Rightarrow> ''KES'' | Some e \<Rightarrow> es_currency e)"

definition repair_movement :: "funding_gap \<Rightarrow> db \<Rightarrow> ledger_movement" where
  "repair_movement g s = \<lparr>mv_escrow = fg_escrow g, mv_idempotency_key = repair_key (fg_escrow g), mv_amount = dec_of_cents (missing g),
     mv_debit_account = ESCROW_HELD_ACCOUNT, mv_credit_account = BUYER_CLEARING_ACCOUNT,
     mv_description = Some ''Repair: funding recorded without a ledger posting (#222)'', mv_currency = repair_currency (fg_escrow g) s,
     mv_group = None\<rparr>"

text \<open>One turn of the loop: the database so far and the number of gaps repaired.\<close>

definition repair_gap :: "env \<Rightarrow> funding_gap \<Rightarrow> db \<times> nat \<Rightarrow> exn + (db \<times> nat)" where
  "repair_gap E g p = (case p of (s, n) \<Rightarrow> if fg_action g \<noteq> POST then Inr (s, n)
     else bindE (post_movement E (repair_movement g s) s) (\<lambda>(r, s1). if pr_created_entries r \<noteq> 2 then Inr (s1, n)
       else bindE (record_money_audit_event E ((new_audit E ''funding_ledger_repaired'' ACTOR_SYSTEM)
           \<lparr>ma_reason := Some ''repair-funding-ledger'', ma_transaction := Some (fg_transaction g), ma_escrow := Some (fg_escrow g),
            ma_rail_name := fg_custody_provider g, ma_amount := Some (missing g), ma_currency := Some (repair_currency (fg_escrow g) s),
            ma_details := [(''funded_amount'', JStr (cents_str (fg_funded_amount g))),
              (''ledger_funded_before'', JStr (cents_str (fg_ledger_funded g)))]\<rparr>) s1) (\<lambda>s2. Inr (s2, Suc n))))"

definition repair_funding_ledger :: "env \<Rightarrow> bool \<Rightarrow> db \<Rightarrow> db \<times> (exn + funding_gap list)" where
  "repair_funding_ledger E apply_it s = (let gaps = find_funding_ledger_gaps s in
     if \<not> apply_it then (s, Inr gaps)
     else atomic s (bindE (foldE (repair_gap E) gaps (s, 0)) (\<lambda>(s', n). Inr (gaps, if 0 < n then s' else s))))"

section \<open>Return cases the timeouts left behind\<close>

definition STUCK_TRANSACTION_STATUSES :: "tx_status list" where
  "STUCK_TRANSACTION_STATUSES = [ESCALATED_ADMIN_REVIEW, RELEASED, REFUNDED_BUYER, RESOLVED_RELEASE, RESOLVED_REFUND, RESOLVED_SPLIT]"

record stranded_case =
  sc_transaction :: uuid
  sc_reference :: string
  sc_dispute :: uuid
  sc_transaction_status :: tx_status
  sc_dispute_status :: dispute_status
  sc_action :: repair_action

definition case_of :: "db \<Rightarrow> transaction \<Rightarrow> stranded_case option" where
  "case_of s t = (case latest_dispute (tx_id t) s of None \<Rightarrow> None
     | Some d \<Rightarrow> if di_status d \<notin> set OPEN_DISPUTE_STATUSES then None
         else Some \<lparr>sc_transaction = tx_id t, sc_reference = tx_reference t, sc_dispute = di_id d, sc_transaction_status = tx_status t,
           sc_dispute_status = di_status d, sc_action = (if tx_status t = ESCALATED_ADMIN_REVIEW then ESCALATE
             else if tx_status t = RELEASED then CLOSE else REVIEW)\<rparr>)"

definition stuck_transactions :: "db \<Rightarrow> transaction list" where
  "stuck_transactions s = sort_key tx_created_at (filter (\<lambda>t. tx_status t \<in> set STUCK_TRANSACTION_STATUSES) (d_transactions s))"

definition find_stranded_return_cases :: "db \<Rightarrow> stranded_case list" where
  "find_stranded_return_cases s = List.map_filter (case_of s) (stuck_transactions s)"

definition action_value :: "repair_action \<Rightarrow> string" where
  "action_value a = (case a of POST \<Rightarrow> ''post'' | ESCALATE \<Rightarrow> ''escalate'' | CLOSE \<Rightarrow> ''close'' | REVIEW \<Rightarrow> ''review'')"

definition mended_dispute :: "time \<Rightarrow> repair_action \<Rightarrow> dispute \<Rightarrow> dispute" where
  "mended_dispute now a d = (if a = ESCALATE
     then d\<lparr>di_status := D_ESCALATED_ADMIN_REVIEW, di_escalated_at := Some (case di_escalated_at d of None \<Rightarrow> now | Some x \<Rightarrow> x)\<rparr>
     else d\<lparr>di_status := D_CANCELED, di_resolved_at := Some (case di_resolved_at d of None \<Rightarrow> now | Some x \<Rightarrow> x)\<rparr>)"

definition repair_case :: "env \<Rightarrow> stranded_case \<Rightarrow> db \<times> nat \<Rightarrow> exn + (db \<times> nat)" where
  "repair_case E c p = (case p of (s, n) \<Rightarrow> if sc_action c = REVIEW then Inr (s, n)
     else case get_dispute (sc_dispute c) s of None \<Rightarrow> Inr (s, n)
     | Some d \<Rightarrow> let d' = mended_dispute (e_now E) (sc_action c) d in
         bindE (record_money_audit_event E ((new_audit E ''return_case_repaired'' ACTOR_SYSTEM)
           \<lparr>ma_reason := Some (''repair-return-cases: '' @ action_value (sc_action c)), ma_transaction := Some (sc_transaction c),
            ma_details := [(''dispute_id'', JStr (uuid_str (di_id d))), (''from'', JStr (dispute_status_value (sc_dispute_status c))),
              (''to'', JStr (dispute_status_value (di_status d')))]\<rparr>) (put_dispute d' s)) (\<lambda>s2. Inr (s2, Suc n)))"

definition repair_stranded_return_cases :: "env \<Rightarrow> bool \<Rightarrow> db \<Rightarrow> db \<times> (exn + stranded_case list)" where
  "repair_stranded_return_cases E apply_it s = (let cases = find_stranded_return_cases s in
     if \<not> apply_it then (s, Inr cases)
     else atomic s (bindE (foldE (repair_case E) cases (s, 0)) (\<lambda>(s', n). Inr (cases, if 0 < n then s' else s))))"

section \<open>The two jobs are repair jobs\<close>

lemma hex_digits_last: "hex_digits (Suc k) n \<noteq> [] \<and> last (hex_digits (Suc k) n) = hex_digit (n mod 16)"
  by simp

lemma hex_digit_text: "n < 16 \<Longrightarrow> \<not> py_isspace (hex_digit n)"
  by (auto simp: hex_digit_def py_isspace_def)

lemma last_uuid_str: "uuid_str i \<noteq> [] \<and> last (uuid_str i) = hex_digit (i mod 16)"
proof -
  have "hex_digits 32 i \<noteq> [] \<and> last (hex_digits 32 i) = hex_digit (i mod 16)" using hex_digits_last [of 31 i] by (simp only: numeral_eq_Suc) simp
  then show ?thesis by (simp add: uuid_str_def Let_def)
qed

lemma strip_repair_key [simp]: "strip (repair_key i) = repair_key i"
proof -
  have "\<not> py_isspace (CHR ''r'')" by (simp add: py_isspace_def)
  then show ?thesis using last_uuid_str [of i] by (intro strip_id) (auto simp: repair_key_def hex_digit_text)
qed

text \<open>The rows an escrow's repair posts, if it was not repaired before.\<close>

definition unrepaired :: "db \<Rightarrow> escrow \<Rightarrow> bool" where
  "unrepaired s e = (\<forall>x \<in> set (d_ledger s). le_escrow x = es_id e \<longrightarrow> le_idempotency_key x \<noteq> repair_key (es_id e))"

lemma repair_posts:
  assumes "post_movement E (repair_movement g s) s = Inr (r, s')" and "fg_escrow g = es_id e" and "unrepaired s e"
  shows "pr_created_entries r = 2 \<and> ledger_only s s' \<and>
    escrow_held_funded s' i = escrow_held_funded s i + (if i = es_id e then missing g else 0) \<and>
    (\<forall>q. es_id q \<noteq> es_id e \<longrightarrow> unrepaired s q \<longrightarrow> unrepaired s' q)"
  using assms(1)
proof (cases rule: post_movement_cases)
  case replay
  then show ?thesis using assms(2,3) by (auto simp: unrepaired_def entries_by_idempotency_key_def repair_movement_def filter_empty_conv)
next
  case (posted q d c s1)
  have q: "q = missing g" using posted(2) by (auto simp: repair_movement_def quantize_cents split: if_splits)
  have rows: "d_ledger s' = d_ledger s @ [d, c]" using posted(5) logs_only_frame(10) [OF posted(7)] by simp
  have accounts: "le_account_code d = ESCROW_HELD_ACCOUNT" "le_side d = DEBIT" "le_amount d = q" "le_side c = CREDIT"
    "le_escrow d = es_id e" "le_escrow c = es_id e"
    using posted(4) assms(2)
    by (auto simp: movement_lines_def repair_movement_def ESCROW_HELD_ACCOUNT_def strip_def lstrip_def py_isspace_def)
  show ?thesis using post_movement_only [OF assms(1)] posted(8) accounts
    by (auto simp: q escrow_held_funded_def rows unrepaired_def)
qed

lemma repair_gap_step:
  assumes "repair_gap E g (s, n) = Inr (s', n')" and "fg_action g = POST" and "fg_escrow g = es_id e" and "unrepaired s e"
  shows "ledger_only s s' \<and> n' = Suc n \<and>
    escrow_held_funded s' i = escrow_held_funded s i + (if i = es_id e then missing g else 0) \<and>
    (\<forall>q. es_id q \<noteq> es_id e \<longrightarrow> unrepaired s q \<longrightarrow> unrepaired s' q)"
proof -
  obtain r s1 where p: "post_movement E (repair_movement g s) s = Inr (r, s1)"
    and rest: "pr_created_entries r = 2 \<Longrightarrow> logs_only s1 s' \<and> n' = Suc n"
    using assms(1,2) by (auto simp: repair_gap_def bindE_eq_Inr dest: log_steps split: if_splits)
  note posts = repair_posts [OF p assms(3,4)]
  have logs: "logs_only s1 s'" "n' = Suc n" using rest posts by auto
  have "d_ledger s' = d_ledger s1" by (rule logs_only_frame(10) [OF logs(1)])
  then have "escrow_held_funded s' j = escrow_held_funded s1 j" "unrepaired s' q = unrepaired s1 q" for j q
    by (simp_all add: escrow_held_funded_def unrepaired_def)
  then show ?thesis using posts logs logs_only_ledger_only [OF logs(1)] ledger_only_trans [of s s1 s'] by auto
qed

interpretation funding: repair_job "\<lambda>p. funded_escrows (fst p)" "\<lambda>p. gap_of (fst p)" "\<lambda>g. fg_action g = POST" "repair_gap E"
    "\<lambda>p. distinct (map es_id (d_escrows (fst p)))" "\<lambda>p. unrepaired (fst p)" for E
proof (unfold_locales, goal_cases)
  case (1 p)
  then show ?case by (auto simp: funded_escrows_def distinct_map)
next
  case (2 p r g p')
  obtain s n s' n' where p: "p = (s, n)" "p' = (s', n')" by (cases p; cases p')
  have g: "fg_escrow g = es_id r" "missing g = es_funded_amount r - escrow_held_funded s (es_id r)"
    using 2 by (auto simp: p gap_of_def Let_def missing_def split: if_splits)
  note step = repair_gap_step [OF _ 2(5) g(1), of E s n s' n']
  have frame: "d_escrows s' = d_escrows s" using step 2 p ledger_only_frame(5) [of s s'] by simp
  have ids: "es_id q \<noteq> es_id r" if "q \<in> set (funded_escrows s)" "q \<noteq> r" for q
    using 2(1,2) that by (auto simp: p funded_escrows_def distinct_map dest: inj_onD)
  have "gap_of s' q = (if q = r then None else gap_of s q)" if "q \<in> set (funded_escrows s)" for q
    using step [of "es_id q"] 2 that ids [of q] g by (auto simp: p gap_of_def Let_def)
  then show ?case using 2 step ids frame by (auto simp: p funded_escrows_def)
next
  case (3 g p)
  then show ?case by (simp add: repair_gap_def case_prod_unfold)
qed

lemma funding_listed: "funding.listed (s, n) = find_funding_ledger_gaps s"
  by (simp add: funding.listed_def find_funding_ledger_gaps_def)

text \<open>A case is mended once its dispute is no longer open; other orders' disputes stay.\<close>

lemma newest_key_kept:
  assumes "\<And>x. x \<in> set xs \<Longrightarrow> k (f x) = k x"
  shows "newest k (map f xs) = map_option f (newest k xs)"
  using assms
proof (induction xs rule: rev_induct)
  case (snoc x xs)
  have step: "newest k (ys @ [y]) = (case newest k ys of None \<Rightarrow> Some y | Some b \<Rightarrow> if k b \<le> k y then Some y else newest k ys)" for ys and y :: 'a
    by (simp add: newest_def split: option.split)
  have "newest k (map f xs) = map_option f (newest k xs)" using snoc by simp
  then show ?case using snoc.prems by (auto simp: step dest!: newest_mem split: option.split)
qed (simp add: newest_def)

lemma latest_dispute_put:
  assumes "get_dispute (di_id d') s = Some d" and "di_transaction d' = di_transaction d" and "di_created_at d' = di_created_at d"
    and "distinct (map di_id (d_disputes s))"
  shows "latest_dispute i (put_dispute d' s) = map_option (\<lambda>x. if di_id x = di_id d' then d' else x) (latest_dispute i s)"
proof -
  let ?f = "\<lambda>x. if di_id x = di_id d' then d' else x"
  have only: "x = d" if "x \<in> set (d_disputes s)" "di_id x = di_id d'" for x
    using row_get_unique [OF assms(4) that(1)] assms(1) that(2) by (simp add: get_dispute_def)
  have "filter (\<lambda>x. di_transaction x = i) (map ?f (d_disputes s)) = map ?f (filter (\<lambda>x. di_transaction x = i) (d_disputes s))"
    using only assms(2) by (auto simp: filter_map comp_def intro!: arg_cong [where f = "map ?f"] filter_cong)
  moreover have "newest di_created_at (map ?f xs) = map_option ?f (newest di_created_at xs)" if "set xs \<subseteq> set (d_disputes s)" for xs
    using only that assms(3) by (intro newest_key_kept) (auto split: if_splits)
  ultimately show ?thesis by (simp add: latest_dispute_def put_dispute_def row_put_def)
qed

lemma latest_dispute_mem:
  assumes "latest_dispute i s = Some d" and "distinct (map di_id (d_disputes s))"
  shows "di_transaction d = i" and "get_dispute (di_id d) s = Some d"
  using assms newest_mem [of di_created_at] row_get_unique [of di_id "d_disputes s" d]
  by (fastforce simp: latest_dispute_def get_dispute_def)+

lemma latest_dispute_logs: "logs_only s s' \<Longrightarrow> latest_dispute i s' = latest_dispute i s"
  by (simp add: latest_dispute_def logs_only_frame)

lemma mended_dispute_fields [simp]: "di_id (mended_dispute now a d) = di_id d" "di_transaction (mended_dispute now a d) = di_transaction d"
    "di_created_at (mended_dispute now a d) = di_created_at d" "di_status (mended_dispute now a d) \<notin> set OPEN_DISPUTE_STATUSES"
    "di_status (mended_dispute now a d) = (if a = ESCALATE then D_ESCALATED_ADMIN_REVIEW else D_CANCELED)"
  by (simp_all add: mended_dispute_def OPEN_DISPUTE_STATUSES_def)

definition cases_good :: "db \<Rightarrow> bool" where
  "cases_good s = (distinct (map di_id (d_disputes s)) \<and> distinct (map tx_id (d_transactions s)))"

lemma repair_case_step:
  assumes "repair_case E c (s, n) = Inr (s', n')" and "sc_action c \<noteq> REVIEW" and "case_of s t = Some c" and "cases_good s"
  shows "cases_good s' \<and> d_transactions s' = d_transactions s \<and> n' = Suc n \<and>
    get_dispute (sc_dispute c) s' = map_option (mended_dispute (e_now E) (sc_action c)) (get_dispute (sc_dispute c) s) \<and>
    case_of s' t = None \<and> (\<forall>q. tx_id q \<noteq> tx_id t \<longrightarrow> case_of s' q = case_of s q \<and> (\<forall>e. case_of s q = Some e \<longrightarrow>
      get_dispute (sc_dispute e) s' = get_dispute (sc_dispute e) s))"
proof -
  have ids: "distinct (map di_id (d_disputes s))" using assms(4) by (simp add: cases_good_def)
  obtain d where d: "latest_dispute (tx_id t) s = Some d" "sc_dispute c = di_id d"
    using assms(3) by (auto simp: case_of_def split: option.splits if_splits)
  note mem = latest_dispute_mem [OF d(1) ids]
  let ?d = "mended_dispute (e_now E) (sc_action c) d"
  have logs: "logs_only (put_dispute ?d s) s'" "n' = Suc n"
    using assms(1,2) d(2) mem(2) by (auto simp: repair_case_def Let_def bindE_eq_Inr dest: log_steps)
  have latest: "latest_dispute i s' = map_option (\<lambda>x. if di_id x = di_id d then ?d else x) (latest_dispute i s)" for i
    using latest_dispute_put [of ?d s d i] mem(2) ids by (simp add: latest_dispute_logs [OF logs(1)])
  have other: "di_id x \<noteq> di_id d" if "latest_dispute i s = Some x" "i \<noteq> tx_id t" for i x
    using latest_dispute_mem [OF that(1) ids] mem that(2) by (metis option.inject)
  have kept: "d_transactions s' = d_transactions s" "map di_id (d_disputes s') = map di_id (d_disputes s)"
    using logs_only_frame(4,6) [OF logs(1)] by (simp_all add: put_dispute_def)
  have get: "get_dispute i s' = (if i = di_id d then Some ?d else get_dispute i s)" for i
    using mem(2) by (simp add: logs_only_get(3) [OF logs(1)] disputes.get_put)
  have same: "latest_dispute (tx_id q) s' = latest_dispute (tx_id q) s" if "tx_id q \<noteq> tx_id t" for q
    using other [of "tx_id q"] that by (cases "latest_dispute (tx_id q) s") (simp_all add: latest)
  have "case_of s' q = case_of s q" if "tx_id q \<noteq> tx_id t" for q unfolding case_of_def same [OF that] ..
  moreover have "sc_dispute e \<noteq> di_id d" if "tx_id q \<noteq> tx_id t" "case_of s q = Some e" for q e
    using other [of "tx_id q"] that by (auto simp: case_of_def split: option.splits if_splits)
  moreover have "case_of s' t = None" by (simp add: case_of_def latest d(1) OPEN_DISPUTE_STATUSES_def)
  ultimately show ?thesis using assms(4) kept d(2) mem(2) logs(2) by (simp add: cases_good_def get)
qed

interpretation stranded: repair_job "\<lambda>p. stuck_transactions (fst p)" "\<lambda>p. case_of (fst p)" "\<lambda>c. sc_action c \<noteq> REVIEW" "repair_case E"
    "\<lambda>p. cases_good (fst p)" "\<lambda>p t. True" for E
proof (unfold_locales, goal_cases)
  case (1 p)
  then show ?case by (auto simp: cases_good_def stuck_transactions_def distinct_map)
next
  case (2 p r c p')
  obtain s n s' n' where p: "p = (s, n)" "p' = (s', n')" by (cases p; cases p')
  note step = repair_case_step [of E c s n s' n' r]
  have "tx_id q \<noteq> tx_id r" if "q \<in> set (stuck_transactions s)" "q \<noteq> r" for q
    using 2(1,2) that by (auto simp: p cases_good_def stuck_transactions_def distinct_map dest: inj_onD)
  moreover have "repair_case E c (s, n) = Inr (s', n')" "sc_action c \<noteq> REVIEW" "case_of s r = Some c" "cases_good s" using 2 by (simp_all add: p)
  from step [OF this] have "cases_good s'" "d_transactions s' = d_transactions s" "case_of s' r = None"
    "\<And>q. tx_id q \<noteq> tx_id r \<Longrightarrow> case_of s' q = case_of s q" by blast+
  ultimately show ?case by (simp add: p stuck_transactions_def)
next
  case (3 c p)
  then show ?case by (simp add: repair_case_def case_prod_unfold)
qed

lemma stranded_listed: "stranded.listed (s, n) = find_stranded_return_cases s"
  by (simp add: stranded.listed_def find_stranded_return_cases_def)

end
