(* ===== verification/Repair_Guarantees.thy ===== *)
theory Repair_Guarantees
  imports Repairs Payment_Guarantees
begin

text \<open>What the repair jobs achieve, and what keeps them from it.\<close>

section \<open>Funding\<close>

lemma succeeded: "\<not> isl (snd x) \<Longrightarrow> x = (fst x, Inr (projr (snd x)))"
  by (cases x) (auto simp: sum.collapse)

lemma unrepaired_all: "\<forall>x \<in> set (d_ledger s). le_idempotency_key x \<noteq> repair_key (le_escrow x) \<Longrightarrow> unrepaired s e"
  by (auto simp: unrepaired_def)

text \<open>Every gap that may be mended is counted, so a run that counted none changed nothing.\<close>

lemma repaired_count:
  assumes "foldE (repair_gap E) gs (s, n) = Inr (s', n')"
  shows "n \<le> n' \<and> (n' = n \<longrightarrow> s' = s)"
  using assms
proof (induction gs arbitrary: s n)
  case (Cons g gs)
  then obtain s1 n1 where step: "repair_gap E g (s, n) = Inr (s1, n1)" and run: "foldE (repair_gap E) gs (s1, n1) = Inr (s', n')"
    by (auto simp: bindE_eq_Inr)
  have "n \<le> n1 \<and> (n1 = n \<longrightarrow> s1 = s)"
    using step by (auto simp: repair_gap_def bindE_eq_Inr elim!: post_movement_cases split: if_splits)
  then show ?case using Cons.IH [OF run] by auto
qed simp

text \<open>C19: Repairing the funding mends every escrow whose funding is missing from the ledger: after the first run
  on a database the job lists only what it left for a person to look at, as before, no funded escrow has less
  on the ledger than its row says, and a further run changes nothing.\<close>

lemma funding_repair_closes_gaps:
  assumes "repair_funding_ledger E True s = (s', Inr gaps)" and "distinct (map es_id (d_escrows s))"
    and "\<forall>x \<in> set (d_ledger s). le_idempotency_key x \<noteq> repair_key (le_escrow x)"
  shows "find_funding_ledger_gaps s' = filter (\<lambda>g. fg_action g = REVIEW) (find_funding_ledger_gaps s) \<and> d_escrows s' = d_escrows s \<and>
    (\<forall>e \<in> set (funded_escrows s'). es_funded_amount e \<le> escrow_held_funded s' (es_id e)) \<and>
    repair_funding_ledger E' True s' = (s', Inr (find_funding_ledger_gaps s'))"
proof -
  obtain s1 n where run: "foldE (repair_gap E) (find_funding_ledger_gaps s) (s, 0) = Inr (s1, n)" and s': "s' = (if 0 < n then s1 else s)"
    using assms(1) by (auto simp: repair_funding_ledger_def Let_def bindE_eq_Inr inversions)
  then have s1: "s' = s1" using repaired_count [OF run] by auto
  have run': "foldE (repair_gap E) (funding.listed (s, 0)) (s, 0) = Inr (s1, n)" by (simp add: funding_listed run)
  note mends = funding.run_mends [OF run']
  have actions: "fg_action g \<noteq> POST \<longleftrightarrow> fg_action g = REVIEW" if "g \<in> set (find_funding_ledger_gaps s)" for g
    using that by (auto simp: find_funding_ledger_gaps_def List.map_filter_def gap_of_def Let_def split: if_splits)
  have left: "find_funding_ledger_gaps s' = filter (\<lambda>g. fg_action g = REVIEW) (find_funding_ledger_gaps s)"
    using mends(1) assms(2,3) actions by (simp add: s1 funding_listed unrepaired_all cong: filter_cong)
  have again: "foldE (repair_gap E') (find_funding_ledger_gaps s') (s', 0) = Inr (s', 0)"
    by (rule funding.nothing_left) (simp add: left)
  have kept: "d_escrows s' = d_escrows s"
    using run unfolding s1
    by (rule foldE_invariant [where P = "\<lambda>p. d_escrows (fst p) = d_escrows s", of _ _ _ "(s1, n)", simplified])
      (auto simp: repair_gap_def bindE_eq_Inr dest!: log_steps post_movement_only logs_only_ledger_only ledger_only_frame(5) split: if_splits)
  have "es_funded_amount e \<le> escrow_held_funded s' (es_id e)" if "e \<in> set (funded_escrows s')" for e
  proof (rule ccontr)
    assume "\<not> es_funded_amount e \<le> escrow_held_funded s' (es_id e)"
    then obtain g where "gap_of s' e = Some g" "fg_action g = POST" by (simp add: gap_of_def Let_def)
    then have "g \<in> set (find_funding_ledger_gaps s')" using that by (force simp: find_funding_ledger_gaps_def List.map_filter_def)
    with left \<open>fg_action g = POST\<close> show False by simp
  qed
  then show ?thesis using left kept again by (simp add: repair_funding_ledger_def Let_def)
qed

definition short_funding :: db where
  "short_funding = (payout_db [])\<lparr>d_ledger := [sample_funding\<lparr>le_amount := 50000\<rparr>]\<rparr>"

lemma short_funding_run: "\<not> isl (snd (repair_funding_ledger (sample_env 7) True short_funding))"
  by code_simp

lemma short_funding_gaps: "find_funding_ledger_gaps short_funding \<noteq> []"
  "filter (\<lambda>g. fg_action g = REVIEW) (find_funding_ledger_gaps short_funding) = []"
  by code_simp+

lemma funding_repair_closes_gaps_witness:
  "find_funding_ledger_gaps short_funding \<noteq> [] \<and> find_funding_ledger_gaps (fst (repair_funding_ledger (sample_env 7) True short_funding)) = []"
proof -
  have "distinct (map es_id (d_escrows short_funding))" "\<forall>x \<in> set (d_ledger short_funding). le_idempotency_key x \<noteq> repair_key (le_escrow x)"
    by (simp_all add: short_funding_def payout_samples repair_key_def)
  from funding_repair_closes_gaps [OF succeeded [OF short_funding_run] this] show ?thesis using short_funding_gaps by simp
qed

text \<open>
  The posting's key names the escrow alone: an escrow that was repaired once and is short again is listed,
  and passed over, by every further run, which reports it as posted all the same.
\<close>

lemma second_gap_is_passed_over:
  assumes "gap_of s e = Some g" and "x \<in> set (d_ledger s)" and "le_escrow x = es_id e" and "le_idempotency_key x = repair_key (es_id e)"
    and "ledger_ok s" and "repair_gap E g (s, n) = Inr p"
  shows "p = (s, n)"
proof -
  have g: "fg_escrow g = es_id e" using assms(1) by (auto simp: gap_of_def Let_def split: if_splits)
  have mem: "x \<in> set (entries_by_idempotency_key (strip (mv_idempotency_key (repair_movement g s))) s)"
    using assms(2-4) g by (simp add: entries_by_idempotency_key_def repair_movement_def)
  have "s1 = s \<and> pr_created_entries r = 0" if "post_movement E (repair_movement g s) s = Inr (r, s1)" for r s1
    using that by (cases rule: post_movement_cases) (use mem in auto)
  then show ?thesis using assms(6) by (auto simp: repair_gap_def bindE_eq_Inr split: if_splits)
qed

section \<open>Return cases\<close>

lemma mended_count:
  assumes "foldE (repair_case E) cs (s, n) = Inr (s', n')"
  shows "n \<le> n' \<and> (n' = n \<longrightarrow> s' = s)"
  using assms
proof (induction cs arbitrary: s n)
  case (Cons c cs)
  then obtain s1 n1 where step: "repair_case E c (s, n) = Inr (s1, n1)" and run: "foldE (repair_case E) cs (s1, n1) = Inr (s', n')"
    by (auto simp: bindE_eq_Inr)
  have "n \<le> n1 \<and> (n1 = n \<longrightarrow> s1 = s)"
    using step by (auto simp: repair_case_def bindE_eq_Inr Let_def split: if_splits option.splits)
  then show ?case using Cons.IH [OF run] by auto
qed simp

text \<open>C28: Repairing the return cases unblocks every order the timeouts left behind: what the job still lists is
  what it leaves for a person to look at, no order is touched, and a further run changes nothing.\<close>

lemma stranded_repair_unblocks:
  assumes "repair_stranded_return_cases E True s = (s', Inr cases)" and "distinct (map di_id (d_disputes s))"
    and "distinct (map tx_id (d_transactions s))"
  shows "find_stranded_return_cases s' = filter (\<lambda>c. sc_action c = REVIEW) (find_stranded_return_cases s) \<and>
    d_transactions s' = d_transactions s \<and>
    (\<forall>t \<in> set (d_transactions s). \<forall>d. tx_status t = ESCALATED_ADMIN_REVIEW \<longrightarrow> latest_dispute (tx_id t) s' = Some d \<longrightarrow>
      di_status d \<notin> set OPEN_DISPUTE_STATUSES) \<and>
    repair_stranded_return_cases E' True s' = (s', Inr (find_stranded_return_cases s'))"
proof -
  obtain s1 n where run: "foldE (repair_case E) (find_stranded_return_cases s) (s, 0) = Inr (s1, n)" and s': "s' = (if 0 < n then s1 else s)"
    using assms(1) by (auto simp: repair_stranded_return_cases_def Let_def bindE_eq_Inr inversions)
  then have s1: "s' = s1" using mended_count [OF run] by auto
  have run': "foldE (repair_case E) (stranded.listed (s, 0)) (s, 0) = Inr (s1, n)" by (simp add: stranded_listed run)
  note mends = stranded.run_mends [OF run']
  have left: "find_stranded_return_cases s' = filter (\<lambda>c. sc_action c = REVIEW) (find_stranded_return_cases s)"
    using mends(1) assms(2,3) by (simp add: s1 stranded_listed cases_good_def)
  have again: "foldE (repair_case E') (find_stranded_return_cases s') (s', 0) = Inr (s', 0)"
    by (rule stranded.nothing_left) (simp add: left)
  have kept: "d_transactions s' = d_transactions s"
    using run unfolding s1
    by (rule foldE_invariant [where P = "\<lambda>p. d_transactions (fst p) = d_transactions s", of _ _ _ "(s1, n)", simplified])
      (auto simp: repair_case_def bindE_eq_Inr Let_def put_dispute_def dest!: log_steps logs_only_frame(4) split: if_splits option.splits)
  have "di_status d \<notin> set OPEN_DISPUTE_STATUSES"
    if that': "t \<in> set (d_transactions s)" "tx_status t = ESCALATED_ADMIN_REVIEW" "latest_dispute (tx_id t) s' = Some d" for t d
  proof
    assume "di_status d \<in> set OPEN_DISPUTE_STATUSES"
    then obtain c where c: "case_of s' t = Some c" "sc_action c = ESCALATE" using that' by (simp add: case_of_def)
    have "t \<in> set (stuck_transactions s')" using that' kept by (simp add: stuck_transactions_def STUCK_TRANSACTION_STATUSES_def)
    then have "c \<in> set (find_stranded_return_cases s')" using c(1) by (force simp: find_stranded_return_cases_def List.map_filter_def)
    then show False using left c(2) by simp
  qed
  then show ?thesis using left kept again by (simp add: repair_stranded_return_cases_def Let_def)
qed

definition stranded_db :: db where
  "stranded_db = sample_db False [sample_order 10 ESCALATED_ADMIN_REVIEW] [sample_dispute D_RETURN_RECEIVED []]"

lemma stranded_run: "\<not> isl (snd (repair_stranded_return_cases (sample_env 7) True stranded_db))"
  by code_simp

lemma stranded_cases: "find_stranded_return_cases stranded_db \<noteq> []"
  "filter (\<lambda>c. sc_action c = REVIEW) (find_stranded_return_cases stranded_db) = []"
  by code_simp+

lemma stranded_repair_unblocks_witness:
  "find_stranded_return_cases stranded_db \<noteq> [] \<and> find_stranded_return_cases (fst (repair_stranded_return_cases (sample_env 7) True stranded_db)) = []"
proof -
  have "distinct (map di_id (d_disputes stranded_db))" "distinct (map tx_id (d_transactions stranded_db))"
    by (simp_all add: stranded_db_def sample_db_def)
  from stranded_repair_unblocks [OF succeeded [OF stranded_run] this] show ?thesis using stranded_cases by simp
qed

end
