(* ===== verification/Spec2Isabelle.thy ===== *)
theory Spec2Isabelle
  imports Provider_Guarantees Catalog_Guarantees Pesapal Web_Guarantees Account_Routes Listing_Routes Messages
    Settings_Guarantees Admin_Guarantees Seller_Guarantees Reading_Guarantees Repair_Guarantees
begin

text \<open>
  A model of the Vekro escrow backend (Python, src/app), and what it promises. The program holds a
  buyer's money until an order is settled: services read and write one relational database, money
  leaves it through an outbox of payout attempts, and every change of money or status is written to an
  append-only event log of which each order has a hash chain.

  \<^bold>\<open>The parts and their theories.\<close>
  Vekro_Prelude: strings, JSON values, rows of a table found and updated by key, results \<open>exn + 'a\<close>
  with \<open>bindE\<close>, folds that may fail, a request's transaction \<open>atomic\<close>; Money: Python decimals with
  the default context (app code uses \<open>Decimal.quantize\<close>); Models: the enums and rows of app/models,
  the database \<open>db\<close> as a record of row lists, the environment \<open>env\<close> of a request.
  Canonical and Anchoring: services/anchoring (canonical JSON, payloads, recorder), transitions.py and
  audit.py; Merkle: anchoring/merkle.py. Rails: custody/registry.py, selection.py, rail_breaker.py;
  Ledger: ledger.py; Escrow_Service: escrow_service.py up to the outbox. Notices: the notification
  writers of transaction.py; Orders: the frame in which a handler moves one order; Workflow, Disputes,
  Timeouts: the handlers of transaction.py, dispute.py, dispute_escalation.py, deadlines.py. Requests:
  all requests as one datatype and histories of them; Authority: who may cause which change.
  Phone: core/phone.py; Custody_Dto, Simulated_Rail, Econfirm, Econfirm_Orchestration: the adapters under
  services/custody and the opening, prompting and polling of eConfirm escrows; Order_Creation: the order
  creation of transaction.py and payment_prompts.py; Payout_Executor: the executor and the alerts of
  escrow_service.py, Payout_Queue the order in which it serves its queue; Provider_Http, Loop, Pesapal,
  Redaction, Webhooks: the adapters, callbacks and redaction of the two providers; Simulated_Custody:
  simulated_provider.py and simulated_admin.py; Paging, Listings: listing.py, listing_content.py.
  Lifecycle: requests and all of these as events of one history.

  The edge of the program: Http holds answers, headers, cookies, the role guards of core/auth_context.py
  and the validation of fields; Accounts: core/security.py, auth.py, phone_auth.py, account_security.py;
  Web: the middleware of main.py (sessions, CSRF, headers) and the whole interface as one step;
  Order_Routes, Account_Routes, Listing_Routes, Admin_Routes: the routers of orders and disputes, of
  accounts, of listings, and of the administrators and the providers' callbacks; Messages: notifications,
  their preferences and SMS copies with their router; Seller_Profile: a shop's profile and payout number;
  Order_Pages and Order_Lists: what the reading routes show of orders (transaction_read.py,
  transaction_list.py, transaction_summary.py, transaction_payout.py, transaction_timeline.py,
  dispute_summary.py, schemas/transaction_detail.py); Public_Orders: the link in an SMS; Support_Console:
  admin_cases.py, admin_search.py; Configuration: core/settings.py; Repairs: the repair jobs of the command line.

  Samples and Evaluation hold the data and the simplifier set-up of the witnesses. The properties are in
  Guarantees (orders, ledger, rails), Payment_Guarantees (creation, funding, payouts),
  Provider_Guarantees (callbacks, the payout queue, the simulation), Catalog_Guarantees (listings),
  Account_Guarantees (passwords, codes, sessions), Web_Guarantees (the interface), Reading_Guarantees
  (what is shown to whom), Seller_Guarantees, Admin_Guarantees, Settings_Guarantees, Repair_Guarantees, in
  Merkle and Anchoring, and in this theory, which has those of histories of requests.

  \<^bold>\<open>How code and model correspond.\<close>
  A definition has the name of its function in the source (without a leading underscore) and returns
  the database it leaves with the value or the exception: \<open>db \<times> (exn + 'a)\<close> for a handler that commits
  and \<open>exn + 'a \<times> db\<close> for a helper inside one. An exception before \<open>db.commit()\<close> leaves the database as it
  was; a wrong delivery code is counted and committed before its exception. An operation that commits
  several times returns the database of its last commit. An operation that calls a provider takes it as
  a parameter with a world of its own type \<open>'w\<close>, which no rollback undoes. Python's clock, random
  values, hashes, HMAC and Fernet keys are fields of \<open>env\<close>; one clock value serves a request. Amounts are
  whole cents in \<open>Numeric(12, 2)\<close> columns, ratios ten-thousandths. Text is limited to code points below
  256 where Python text is a \<open>string\<close>; canonical JSON works on all code points.

  \<^bold>\<open>The interfaces.\<close> \<open>store\<close> (a table read after a write), \<open>rail_recorder\<close> (writes rail health
  only), \<open>account\<close> (postings, balances, replay), \<open>payout_queue\<close> (a queue operation settles an order),
  \<open>timeout_rule\<close> (one rule of the sweep), \<open>order_handler\<close> (a handler makes at most one documented step),
  \<open>order_machine\<close> (histories of steps), \<open>payout_rail\<close> (an
  adapter that answers by value), \<open>lifecycle\<close> (histories of events with a world), \<open>repair_job\<close> (a list of
  rows out of step and their mending). Each is interpreted on the definitions of the model.

  A route is \<open>state \<Rightarrow> state \<times> 'a answer option\<close>: the answer is None where an exception reaches the
  framework (500).

  \<^bold>\<open>Not modelled.\<close> The HTTP clients of the providers and of the SMS gateway; FastAPI's parsing of
  requests into fields and of answers into JSON; seller statistics; the backfill of the event log and the command line;
  database sessions, migrations and the listeners on ORM sessions. Concurrency of two requests on one row
  is not modelled: requests run one after the other.
\<close>

section \<open>Histories of requests\<close>

text \<open>C2: Whatever requests arrive, in whatever order, an order keeps its identity, parties, amount and
  custody provider, and its status follows the transition table of docs/anchoring-design.md 3.3.\<close>

lemma order_history_follows_table:
  assumes "orders_wf s" and "get_transaction i s = Some t"
  shows "\<exists>t'. get_transaction i (run qs s) = Some t' \<and> same_order t t' \<and> follows (tx_status t) (tx_status t')"
  unfolding run_fold by (rule machine.history_follows [OF assms])

lemma order_history_follows_table_witness:
  "\<exists>t'. get_transaction 10 (run [(sample_env 7, Dispatch 10 sample_seller), (sample_env 8, Arrive 10 sample_seller)]
       (sample_db True [sample_order 10 LOCKED] [])) = Some t' \<and> same_order (sample_order 10 LOCKED) t' \<and> follows LOCKED (tx_status t')"
  using order_history_follows_table [of "sample_db True [sample_order 10 LOCKED] []" 10 "sample_order 10 LOCKED"]
  by (simp del: run.simps)





text \<open>C3: Every change of a status is one its request is entitled to make: the caller is the party the
  table names, the order is in the status the table starts from, the code, the dispute policy, the
  rejection count, the escalated case or the passed deadline allow it, and the new status is the
  table's.\<close>

lemma status_changes_are_admitted:
  assumes "orders_wf s" and "get_transaction i s = Some t" and "get_transaction i (fst (perform E q s)) = Some t'"
    and "tx_status t' \<noteq> tx_status t"
  shows "admits E q s t (tx_status t')"
  by (rule perform_moves [OF assms])

lemma status_changes_are_admitted_witness:
  "\<exists>t'. get_transaction 10 (fst (perform (sample_env 7) (Dispatch 10 sample_seller) (sample_db True [sample_order 10 LOCKED] []))) = Some t' \<and>
     admits (sample_env 7) (Dispatch 10 sample_seller) (sample_db True [sample_order 10 LOCKED] []) (sample_order 10 LOCKED) (tx_status t')"
proof -
  let ?s = "sample_db True [sample_order 10 LOCKED] []"
  have "map_option tx_status (get_transaction 10 (fst (perform (sample_env 7) (Dispatch 10 sample_seller) ?s))) = Some OUT_FOR_DELIVERY"
    by (simp add: dispatch_transaction_def dispatch_body_def create_dispatched_notifications_def evaluate cong: argument_first)
  then obtain t' where t': "get_transaction 10 (fst (perform (sample_env 7) (Dispatch 10 sample_seller) ?s)) = Some t'"
    "tx_status t' = OUT_FOR_DELIVERY" by auto
  show ?thesis using status_changes_are_admitted [of ?s 10 "sample_order 10 LOCKED", OF _ _ t'(1)] t' by simp
qed

text \<open>A request that fails leaves the database as it found it; the one exception is a wrong delivery
  code at the door, which only counts the failed attempt.\<close>

lemma failed_request_changes_nothing:
  assumes "perform E q s = (s', Some e)"
  shows "s' = s \<or> counted_attempt E q s s'"
  using assms by (auto dest: perform_failed)

lemma failed_request_changes_nothing_witness:
  "fst (perform (sample_env 7) (Dispatch 10 sample_buyer) (sample_db True [sample_order 10 LOCKED] [])) = sample_db True [sample_order 10 LOCKED] []"
proof -
  let ?s = "sample_db True [sample_order 10 LOCKED] []"
  have "perform (sample_env 7) (Dispatch 10 sample_buyer) ?s =
      (fst (perform (sample_env 7) (Dispatch 10 sample_buyer) ?s), Some (TransactionValidationError ''Only sellers can dispatch transactions.''))"
    by (simp add: dispatch_transaction_def outcome_def)
  from failed_request_changes_nothing [OF this] show ?thesis by (simp add: counted_attempt_def)
qed

end
